(* ===== verification/Dockhand_Prelude.thy ===== *)
theory Dockhand_Prelude
  imports Complex_Main "HOL-Library.Multiset" "HOL-Library.Sublist"
begin

text \<open>
  What the components share: the JavaScript string, number and array operations the
  sources use, as executable functions with the facts the component proofs rest on, and
  the contract of a comparator handed to \<open>Array.prototype.sort\<close>.

  Strings are character lists: a text is the list of its UTF-8 bytes, so that the
  punctuation of the user interface (dashes, dots, arrows) can be written. Where the
  source counts, cuts or classifies characters the input is ASCII, where bytes and
  UTF-16 units agree; case mapping and white space are the ASCII ones.
  A JavaScript number is an \<open>int\<close> where the code only counts, and a \<open>real\<close> where
  it divides: the rounding of IEEE doubles is not modelled.
\<close>

named_theorems js_simps \<open>unfolding rules for the small JavaScript operations\<close>

section \<open>Strings\<close>

definition code :: "char \<Rightarrow> nat" where
  [js_simps]: "code c = of_char c"

definition ws :: "char \<Rightarrow> bool" where
  [js_simps]: "ws c \<longleftrightarrow> code c = 32 \<or> (9 \<le> code c \<and> code c \<le> 13)"

definition digit :: "char \<Rightarrow> bool" where
  [js_simps]: "digit c \<longleftrightarrow> 48 \<le> code c \<and> code c \<le> 57"

definition upper_letter :: "char \<Rightarrow> bool" where
  [js_simps]: "upper_letter c \<longleftrightarrow> 65 \<le> code c \<and> code c \<le> 90"

definition lower_letter :: "char \<Rightarrow> bool" where
  [js_simps]: "lower_letter c \<longleftrightarrow> 97 \<le> code c \<and> code c \<le> 122"

definition lower_char :: "char \<Rightarrow> char" where
  "lower_char c = (if upper_letter c then char_of (code c + 32) else c)"

definition upper_char :: "char \<Rightarrow> char" where
  "upper_char c = (if lower_letter c then char_of (code c - 32) else c)"

definition to_lower :: "string \<Rightarrow> string" where
  "to_lower s = map lower_char s"

definition trim_left :: "string \<Rightarrow> string" where
  "trim_left s = dropWhile ws s"

definition trim_right :: "string \<Rightarrow> string" where
  "trim_right s = rev (dropWhile ws (rev s))"

definition trim :: "string \<Rightarrow> string" where
  "trim s = trim_right (trim_left s)"

definition starts_with :: "string \<Rightarrow> string \<Rightarrow> bool" where
  "starts_with s p \<longleftrightarrow> take (length p) s = p"

definition ends_with :: "string \<Rightarrow> string \<Rightarrow> bool" where
  "ends_with s p \<longleftrightarrow> starts_with (rev s) (rev p)"

fun str_includes :: "string \<Rightarrow> string \<Rightarrow> bool" where
  "str_includes [] p \<longleftrightarrow> p = []"
| "str_includes (c # s) p \<longleftrightarrow> starts_with (c # s) p \<or> str_includes s p"

text \<open>\<open>s.indexOf(p)\<close>, with \<open>None\<close> for -1.\<close>

fun index_of :: "string \<Rightarrow> string \<Rightarrow> nat option" where
  "index_of [] p = (if p = [] then Some 0 else None)"
| "index_of (c # s) p = (if starts_with (c # s) p then Some 0 else map_option Suc (index_of s p))"

text \<open>\<open>s.split(c)\<close> for a one-character separator: at least one piece.\<close>

fun split_on :: "char \<Rightarrow> string \<Rightarrow> string list" where
  "split_on c [] = [[]]"
| "split_on c (d # s) =
     (if d = c then [] # split_on c s
      else (case split_on c s of p # ps \<Rightarrow> (d # p) # ps | [] \<Rightarrow> [[d]]))"

fun join :: "string \<Rightarrow> string list \<Rightarrow> string" where
  "join sep [] = []"
| "join sep [s] = s"
| "join sep (s # t # ts) = s @ sep @ join sep (t # ts)"

text \<open>\<open>s.slice(-n)\<close> on a list: the last \<open>n\<close> elements, all of them when there are fewer
  (for \<open>n > 0\<close>; \<open>slice(-0)\<close> is the whole list).\<close>

definition last_n :: "nat \<Rightarrow> 'a list \<Rightarrow> 'a list" where
  "last_n n xs = (if n = 0 then xs else drop (length xs - n) xs)"

text \<open>\<open>s.lastIndexOf(c)\<close> for one character, with \<open>None\<close> for -1.\<close>

fun last_index_of :: "char \<Rightarrow> string \<Rightarrow> nat option" where
  "last_index_of c [] = None"
| "last_index_of c (d # s) =
     (case last_index_of c s of Some i \<Rightarrow> Some (Suc i) | None \<Rightarrow> if d = c then Some 0 else None)"

lemma starts_with_prefix: "starts_with s p \<longleftrightarrow> prefix p s"
  unfolding starts_with_def
  by (metis append_eq_conv_conj prefix_def append_take_drop_id)

lemma starts_with_nil [simp]: "starts_with s []"
  by (simp add: starts_with_def)

lemma nil_starts_with [simp]: "starts_with [] p \<longleftrightarrow> p = []"
  by (auto simp: starts_with_def)

lemma starts_with_cons [simp]: "starts_with (c # s) (d # p) \<longleftrightarrow> c = d \<and> starts_with s p"
  by (auto simp: starts_with_def)

lemma starts_with_append [simp]: "starts_with (p @ s) p"
  by (simp add: starts_with_def)

lemma includes_sublist: "str_includes s p \<longleftrightarrow> sublist p s"
proof (induction s)
  case Nil
  then show ?case by auto
next
  case (Cons c s)
  then show ?case by (simp add: starts_with_prefix sublist_Cons_right)
qed

lemma index_of_includes: "index_of s p = None \<longleftrightarrow> \<not> str_includes s p"
  by (induction s) auto

lemma index_of_Some:
  "index_of s p = Some i \<Longrightarrow> i + length p \<le> length s \<and> take (length p) (drop i s) = p"
proof (induction s arbitrary: i)
  case Nil
  then show ?case by (auto split: if_splits)
next
  case (Cons c s)
  show ?case
  proof (cases "starts_with (c # s) p")
    case True
    with Cons.prems have "i = 0" by simp
    with True show ?thesis
      by (metis add_0 drop0 prefix_length_le starts_with_def starts_with_prefix)
  next
    case False
    with Cons.prems obtain j where "i = Suc j" "index_of s p = Some j" by auto
    with Cons.IH [of j] show ?thesis by simp
  qed
qed

lemma length_to_lower [simp]: "length (to_lower s) = length s"
  by (simp add: to_lower_def)

lemma to_lower_nil [simp]: "to_lower [] = []" "to_lower s = [] \<longleftrightarrow> s = []"
  by (simp_all add: to_lower_def)

lemma split_on_not_nil [simp]: "split_on c s \<noteq> []"
  by (induction s) (auto split: list.splits)

lemma join_split_on: "join [c] (split_on c s) = s"
proof (induction s)
  case Nil
  then show ?case by simp
next
  case (Cons d s)
  obtain p ps where ps: "split_on c s = p # ps"
    by (meson list.exhaust split_on_not_nil)
  with Cons show ?case by (cases ps) auto
qed

lemma split_on_no_sep: "c \<notin> set s \<Longrightarrow> split_on c s = [s]"
  by (induction s) auto

lemma split_on_append:
  "c \<notin> set s \<Longrightarrow> split_on c (s @ c # t) = s # split_on c t"
  by (induction s) auto

lemma split_on_pieces: "p \<in> set (split_on c s) \<Longrightarrow> c \<notin> set p"
proof (induction s arbitrary: p)
  case Nil
  then show ?case by simp
next
  case (Cons d s)
  obtain q qs where "split_on c s = q # qs"
    by (meson list.exhaust split_on_not_nil)
  with Cons show ?case by (auto split: if_splits)
qed

lemma last_index_of_None: "last_index_of c s = None \<longleftrightarrow> c \<notin> set s"
  by (induction s) (auto split: option.splits)

lemma last_index_of_Some:
  "last_index_of c s = Some i \<Longrightarrow> i < length s \<and> s ! i = c \<and> c \<notin> set (drop (Suc i) s)"
proof (induction s arbitrary: i)
  case Nil
  then show ?case by simp
next
  case (Cons d s)
  show ?case
  proof (cases "last_index_of c s")
    case None
    with Cons.prems show ?thesis by (auto simp: last_index_of_None split: if_splits)
  next
    case (Some j)
    with Cons show ?thesis by auto
  qed
qed

lemma last_index_of_append:
  "c \<notin> set t \<Longrightarrow> last_index_of c (s @ c # t) = Some (length s)"
proof (induction s)
  case Nil
  then have "last_index_of c t = None" by (simp add: last_index_of_None)
  then show ?case by simp
next
  case (Cons d s)
  then show ?case by simp
qed

lemma length_last_n: "0 < n \<Longrightarrow> length (last_n n xs) = min n (length xs)"
  by (simp add: last_n_def)

lemma set_last_n: "set (last_n n xs) \<subseteq> set xs"
  by (simp add: last_n_def set_drop_subset)

lemma last_n_suffix: "suffix (last_n n xs) xs"
  by (simp add: last_n_def suffix_drop)

lemma trim_no_ws: "\<not> ws (hd s) \<Longrightarrow> \<not> ws (last s) \<Longrightarrow> trim s = s"
proof (cases s)
  case Nil
  then show ?thesis by (simp add: trim_def trim_left_def trim_right_def)
next
  case (Cons c s')
  assume "\<not> ws (hd s)" "\<not> ws (last s)"
  with Cons have l: "trim_left s = s" by (simp add: trim_left_def)
  have "\<not> ws (hd (rev s))" using \<open>\<not> ws (last s)\<close> by (metis hd_rev)
  moreover from Cons obtain a t where "rev s = a # t" by (cases "rev s") auto
  ultimately have "dropWhile ws (rev s) = rev s" by simp
  then show ?thesis by (simp add: trim_def l trim_right_def)
qed

lemma trim_nil [simp]: "trim [] = []"
  by (simp add: trim_def trim_left_def trim_right_def)

section \<open>Numbers\<close>

text \<open>\<open>Math.round\<close> rounds halves up.\<close>

definition js_round :: "real \<Rightarrow> int" where
  "js_round x = \<lfloor>x + 1 / 2\<rfloor>"

definition digit_char :: "nat \<Rightarrow> char" where
  [js_simps]: "digit_char n = char_of (48 + n)"

fun show_nat :: "nat \<Rightarrow> string" where
  "show_nat n = (if n < 10 then [digit_char n] else show_nat (n div 10) @ [digit_char (n mod 10)])"

declare show_nat.simps [simp del]

definition show_int :: "int \<Rightarrow> string" where
  "show_int i = (if i < 0 then CHR ''-'' # show_nat (nat (- i)) else show_nat (nat i))"

definition digit_val :: "char \<Rightarrow> nat" where
  [js_simps]: "digit_val c = code c - 48"

text \<open>\<open>Number(s)\<close> of a string of digits.\<close>

definition read_nat :: "string \<Rightarrow> nat" where
  "read_nat s = foldl (\<lambda>n c. 10 * n + digit_val c) 0 s"

definition pad_left :: "nat \<Rightarrow> char \<Rightarrow> string \<Rightarrow> string" where
  "pad_left n c s = replicate (n - length s) c @ s"

definition pad_right :: "nat \<Rightarrow> char \<Rightarrow> string \<Rightarrow> string" where
  "pad_right n c s = s @ replicate (n - length s) c"

text \<open>\<open>x.toFixed(d)\<close>: the integer nearest to \<open>x * 10^d\<close>, the larger one on a tie; a negative
  number is the minus sign before the text of its absolute value.\<close>

definition fixed_scaled :: "nat \<Rightarrow> real \<Rightarrow> nat" where
  "fixed_scaled d x = nat \<lfloor>\<bar>x\<bar> * 10 ^ d + 1 / 2\<rfloor>"

definition to_fixed :: "nat \<Rightarrow> real \<Rightarrow> string" where
  "to_fixed d x =
     (let n = fixed_scaled d x
      in (if x < 0 then ''-'' else '''') @ show_nat (n div 10 ^ d) @
         (if d = 0 then '''' else ''.'' @ pad_left d (CHR ''0'') (show_nat (n mod 10 ^ d))))"

lemma digit_char_digit: "n < 10 \<Longrightarrow> digit (digit_char n)"
  by (simp add: js_simps)

lemma digit_val_digit_char: "n < 10 \<Longrightarrow> digit_val (digit_char n) = n"
  by (simp add: js_simps)

lemma show_nat_not_nil [simp]: "show_nat n \<noteq> []"
  by (subst show_nat.simps) simp

lemma show_nat_digits: "c \<in> set (show_nat n) \<Longrightarrow> digit c"
proof (induction n arbitrary: c rule: show_nat.induct)
  case (1 n)
  then show ?case
    by (cases "n < 10") (auto simp: show_nat.simps [of n] digit_char_digit)
qed

lemma read_nat_snoc: "read_nat (s @ [c]) = 10 * read_nat s + digit_val c"
  by (simp add: read_nat_def)

lemma read_show_nat: "read_nat (show_nat n) = n"
proof (induction n rule: show_nat.induct)
  case (1 n)
  show ?case
  proof (cases "n < 10")
    case True
    then have "read_nat (show_nat n) = digit_val (digit_char n)"
      by (subst show_nat.simps) (simp add: read_nat_def)
    with True show ?thesis by (simp add: digit_val_digit_char)
  next
    case False
    then have "read_nat (show_nat n) = 10 * read_nat (show_nat (n div 10)) + digit_val (digit_char (n mod 10))"
      by (subst show_nat.simps) (simp add: read_nat_snoc)
    with False 1 show ?thesis by (simp add: digit_val_digit_char)
  qed
qed

lemma show_nat_inj: "show_nat m = show_nat n \<longleftrightarrow> m = n"
  by (metis read_show_nat)

lemma js_round_bounds: "real_of_int (js_round x) \<le> x + 1 / 2" "x - 1 / 2 < real_of_int (js_round x)"
  unfolding js_round_def by linarith+

lemma js_round_int [simp]: "js_round (real_of_int i) = i"
  unfolding js_round_def by linarith

lemma js_round_mono: "x \<le> y \<Longrightarrow> js_round x \<le> js_round y"
  unfolding js_round_def by (intro floor_mono) simp

lemma fixed_scaled_error: "\<bar>real (fixed_scaled d x) - \<bar>x\<bar> * 10 ^ d\<bar> \<le> 1 / 2"
proof -
  have "0 \<le> \<bar>x\<bar> * 10 ^ d" by simp
  then have "0 \<le> \<lfloor>\<bar>x\<bar> * 10 ^ d + 1 / 2\<rfloor>" by linarith
  then have "real (fixed_scaled d x) = real_of_int \<lfloor>\<bar>x\<bar> * 10 ^ d + 1 / 2\<rfloor>"
    by (simp add: fixed_scaled_def)
  then show ?thesis by linarith
qed

lemma last_index_of_skip: "c \<notin> set t \<Longrightarrow> last_index_of c (s @ t) = last_index_of c s"
proof (induction s)
  case Nil
  then show ?case by (simp add: last_index_of_None)
next
  case (Cons d s)
  then show ?case by simp
qed

section \<open>Searching\<close>

lemma find_SomeD: "find P xs = Some x \<Longrightarrow> x \<in> set xs \<and> P x"
  by (auto simp: find_Some_iff)

lemma find_append: "find P (xs @ ys) = (case find P xs of None \<Rightarrow> find P ys | r \<Rightarrow> r)"
  by (induction xs) auto

lemma find_map_key: "find (\<lambda>r. f r = k) (map g xs) = map_option g (find (\<lambda>x. f (g x) = k) xs)"
  by (induction xs) auto

lemma find_filter_key: "P k \<Longrightarrow> find (\<lambda>e. f e = k) (filter (\<lambda>e. P (f e)) xs) = find (\<lambda>e. f e = k) xs"
  by (induction xs) auto

section \<open>Sorting with a comparator\<close>

text \<open>
  \<open>Array.prototype.sort(cmp)\<close> is stable. For a consistent comparator its result is the
  stable sorted permutation of the input, which this insertion sort computes: an element
  moves right only past elements it compares greater than.
\<close>

fun js_insert :: "('a \<Rightarrow> 'a \<Rightarrow> real) \<Rightarrow> 'a \<Rightarrow> 'a list \<Rightarrow> 'a list" where
  "js_insert cmp x [] = [x]"
| "js_insert cmp x (y # ys) = (if cmp x y \<le> 0 then x # y # ys else y # js_insert cmp x ys)"

fun js_sort :: "('a \<Rightarrow> 'a \<Rightarrow> real) \<Rightarrow> 'a list \<Rightarrow> 'a list" where
  "js_sort cmp [] = []"
| "js_sort cmp (x # xs) = js_insert cmp x (js_sort cmp xs)"

text \<open>\<open>cmp1(a, b) || cmp2(a, b)\<close>: the second comparator decides where the first gives 0.\<close>

definition or_else :: "('a \<Rightarrow> 'a \<Rightarrow> real) \<Rightarrow> ('a \<Rightarrow> 'a \<Rightarrow> real) \<Rightarrow> 'a \<Rightarrow> 'a \<Rightarrow> real" where
  "or_else f g a b = (if f a b = 0 then g a b else f a b)"

text \<open>\<open>k(a) - k(b)\<close> for a numeric key, and a comparator applied to a key.\<close>

definition by_key :: "('a \<Rightarrow> real) \<Rightarrow> 'a \<Rightarrow> 'a \<Rightarrow> real" where
  "by_key k a b = k a - k b"

definition on_key :: "('b \<Rightarrow> 'b \<Rightarrow> real) \<Rightarrow> ('a \<Rightarrow> 'b) \<Rightarrow> 'a \<Rightarrow> 'a \<Rightarrow> real" where
  "on_key cmp k a b = cmp (k a) (k b)"

lemma mset_js_insert [simp]: "mset (js_insert cmp x xs) = add_mset x (mset xs)"
  by (induction xs) auto

lemma mset_js_sort [simp]: "mset (js_sort cmp xs) = mset xs"
  by (induction xs) auto

lemma set_js_sort [simp]: "set (js_sort cmp xs) = set xs"
  by (metis mset_js_sort set_mset_mset)

lemma length_js_sort [simp]: "length (js_sort cmp xs) = length xs"
  by (metis mset_js_sort size_mset)

lemma distinct_js_sort [simp]: "distinct (js_sort cmp xs) = distinct xs"
  by (metis mset_js_sort mset_eq_imp_distinct_iff)

text \<open>The contract of a comparator (ECMA-262, SortCompare): a total preorder read off signs.\<close>

locale comparator =
  fixes cmp :: "'a \<Rightarrow> 'a \<Rightarrow> real"
  assumes flip_pos: "0 < cmp a b \<Longrightarrow> cmp b a < 0"
    and flip_neg: "cmp a b < 0 \<Longrightarrow> 0 < cmp b a"
    and le_trans: "cmp a b \<le> 0 \<Longrightarrow> cmp b c \<le> 0 \<Longrightarrow> cmp a c \<le> 0"
begin

lemma le_total: "cmp a b \<le> 0 \<or> cmp b a \<le> 0"
  using flip_pos [of a b] by linarith

lemma zero_sym: "cmp a b = 0 \<longleftrightarrow> cmp b a = 0"
  using flip_pos [of a b] flip_pos [of b a] flip_neg [of a b] flip_neg [of b a] by linarith

lemma sorted_js_insert:
  "sorted_wrt (\<lambda>a b. cmp a b \<le> 0) xs \<Longrightarrow> sorted_wrt (\<lambda>a b. cmp a b \<le> 0) (js_insert cmp x xs)"
proof (induction xs)
  case Nil
  then show ?case by simp
next
  case (Cons y ys)
  show ?case
  proof (cases "cmp x y \<le> 0")
    case True
    with Cons.prems show ?thesis by (auto intro: le_trans)
  next
    case False
    then have "cmp y x \<le> 0" using le_total by blast
    moreover have "set (js_insert cmp x ys) = insert x (set ys)"
      by (metis mset_js_insert set_mset_add_mset_insert set_mset_mset)
    ultimately show ?thesis using False Cons by auto
  qed
qed

theorem sorted_js_sort: "sorted_wrt (\<lambda>a b. cmp a b \<le> 0) (js_sort cmp xs)"
  by (induction xs) (auto intro: sorted_js_insert)

lemma filter_js_insert:
  "filter (\<lambda>y. cmp a y = 0) (js_insert cmp x xs) = filter (\<lambda>y. cmp a y = 0) (x # xs)"
proof (induction xs)
  case Nil
  then show ?case by simp
next
  case (Cons y ys)
  have "cmp a x = 0 \<Longrightarrow> cmp a y = 0 \<Longrightarrow> cmp x y \<le> 0"
    using le_trans [of x a y] zero_sym [of a x] by simp
  with Cons show ?case by auto
qed

text \<open>Stability: elements that compare equal keep their order.\<close>

theorem stable_js_sort: "filter (\<lambda>y. cmp a y = 0) (js_sort cmp xs) = filter (\<lambda>y. cmp a y = 0) xs"
proof (induction xs)
  case Nil
  then show ?case by simp
next
  case (Cons x xs)
  then show ?case using filter_js_insert [of a x "js_sort cmp xs"] by simp
qed

lemma js_sort_sorted_id: "sorted_wrt (\<lambda>a b. cmp a b \<le> 0) xs \<Longrightarrow> js_sort cmp xs = xs"
proof (induction xs)
  case Nil
  then show ?case by simp
next
  case (Cons x xs)
  then show ?case by (cases xs) auto
qed

lemma js_sort_idem: "js_sort cmp (js_sort cmp xs) = js_sort cmp xs"
  by (rule js_sort_sorted_id) (rule sorted_js_sort)

lemma hd_js_sort_least: "x \<in> set xs \<Longrightarrow> cmp (hd (js_sort cmp xs)) x \<le> 0"
proof -
  assume x: "x \<in> set xs"
  then have "js_sort cmp xs \<noteq> []" by (metis empty_iff set_empty set_js_sort)
  then obtain y ys where s: "js_sort cmp xs = y # ys" by (cases "js_sort cmp xs") auto
  then have "x = y \<or> x \<in> set ys" using x by (metis set_js_sort set_ConsD)
  moreover have "cmp y y \<le> 0" using le_total by blast
  ultimately show ?thesis using sorted_js_sort [of xs] s by auto
qed

end

lemma comparator_by_key: "comparator (by_key k)"
  by unfold_locales (auto simp: by_key_def)

lemma comparator_on_key: "comparator cmp \<Longrightarrow> comparator (on_key cmp k)"
  unfolding comparator_def on_key_def by blast

lemma comparator_or_else: "comparator f \<Longrightarrow> comparator g \<Longrightarrow> comparator (or_else f g)"
proof -
  assume f: "comparator f" and g: "comparator g"
  show ?thesis
  proof
    fix a b c
    show "0 < or_else f g a b \<Longrightarrow> or_else f g b a < 0"
      using comparator.flip_pos [OF f, of a b] comparator.flip_pos [OF g, of a b] comparator.zero_sym [OF f, of a b]
      by (auto simp: or_else_def split: if_splits)
    show "or_else f g a b < 0 \<Longrightarrow> 0 < or_else f g b a"
      using comparator.flip_neg [OF f, of a b] comparator.flip_neg [OF g, of a b] comparator.zero_sym [OF f, of a b]
      by (auto simp: or_else_def split: if_splits)
    assume ab: "or_else f g a b \<le> 0" and bc: "or_else f g b c \<le> 0"
    then have fle: "f a b \<le> 0" "f b c \<le> 0" by (auto simp: or_else_def split: if_splits)
    then have fac: "f a c \<le> 0" using comparator.le_trans [OF f] by blast
    show "or_else f g a c \<le> 0"
    proof (cases "f a c = 0")
      case True
      then have "f c a = 0" using comparator.zero_sym [OF f] by blast
      then have "f b a \<le> 0" "f c b \<le> 0"
        using comparator.le_trans [OF f, of b c a] comparator.le_trans [OF f, of c a b] fle by simp_all
      then have "f a b = 0" "f b c = 0"
        using fle comparator.flip_neg [OF f, of a b] comparator.flip_neg [OF f, of b c] by linarith+
      with ab bc True show ?thesis
        using comparator.le_trans [OF g, of a b c] by (simp add: or_else_def)
    next
      case False
      with fac show ?thesis by (simp add: or_else_def)
    qed
  qed
qed

lemmas js_sort_facts = comparator.sorted_js_sort comparator.stable_js_sort comparator.hd_js_sort_least

end
