(* ===== verification/Api_Base.thy ===== *)
theory Api_Base
  imports Dockhand_Prelude
begin

text \<open>
  The API contract (web/lib/types.ts) is split over Api_Base, Api_Core, Api_Ops, Api_System
  and Api_Machines, in the order of the file: every interface is a record whose fields carry
  a prefix for the interface, every union of literals a datatype.
  An optional or nullable field is an option; a status union widened with one more literal
  ("missing", "none") is an option of the narrower type. Identifiers and timestamps are
  strings. Sizes, counts, ports and times are integers; percentages, latencies and other
  measured quantities are reals. An object used as a dictionary is an association list.
  This theory has the types every part uses.
\<close>

text \<open>A value of the JSON bodies the code does not type (\<open>Record<string, unknown>\<close>).\<close>

datatype json = JNull | JBool bool | JNum real | JStr string | JArr "json list" | JObj "(string \<times> json) list"

type_synonym id_t = string

type_synonym iso_date = string

datatype host_status = HS_pending | HS_online | HS_degraded | HS_offline

record kv =
  kv_k :: "string"
  kv_v :: "string"

datatype severity = Sev_crit | Sev_warn | Sev_info | Sev_ok

end
