(* ===== verification/Api_Core.thy ===== *)
theory Api_Core
  imports Api_Base
begin

text \<open>
  The API contract, first part (web/lib/types.ts, lines 8 to 288): accounts, hosts,
  containers, stacks, images, volumes and networks.
\<close>

datatype theme = Theme_light | Theme_dark | Theme_system

record user =
  u_id :: "id_t"
  u_name :: "string"
  u_username :: "string"
  u_role :: "string"
  u_theme :: "theme"
  u_createdAt :: "iso_date"

record auth_state =
  as_setupRequired :: "bool"
  as_user :: "user option"
  as_version :: "string"

record session_info =
  si_id :: "id_t"
  si_device :: "string"
  si_ip :: "string"
  si_createdAt :: "iso_date"
  si_lastSeenAt :: "iso_date"
  si_current :: "bool"

record account =
  acct_user :: "user"
  acct_sessions :: "session_info list"

record ssh_key_info =
  sk_publicKey :: "string"
  sk_fingerprint :: "string"

datatype host_method = Method_key | Method_password | Method_local

record host =
  h_id :: "id_t"
  h_name :: "string"
  h_address :: "string"
  h_port :: "int"
  h_user :: "string"
  h_method :: "host_method"
  h_color :: "string"
  h_status :: "host_status"
  h_os :: "string"
  h_kernel :: "string"
  h_dockerVersion :: "string"
  h_cpuCores :: "int"
  h_uptimeSec :: "int"
  h_cpu :: "real"
  h_mem :: "real"
  h_disk :: "real"
  h_memUsed :: "int"
  h_memTotal :: "int"
  h_diskUsed :: "int"
  h_diskTotal :: "int"
  h_running :: "int"
  h_total :: "int"
  h_updates :: "int"
  h_spark :: "real list"
  h_lastSeenAt :: "iso_date option"
  h_lastError :: "string"
  h_failCount :: "int"
  h_monitored :: "bool"
  h_mcpExposed :: "bool"
  h_createdAt :: "iso_date"

record host_input =
  hi_name :: "string"
  hi_address :: "string"
  hi_port :: "int"
  hi_user :: "string"
  hi_method :: "host_method"
  hi_password :: "string option"
  hi_color :: "string option"

datatype test_step_status = TestStep_done | TestStep_failed | TestStep_skipped

record test_step =
  ts_label :: "string"
  ts_sub :: "string"
  ts_status :: "test_step_status"
  ts_ms :: "int"

record host_test_result =
  htr_ok :: "bool"
  htr_steps :: "test_step list"
  htr_error :: "string"
  htr_host :: "host option"

datatype container_state = CS_running | CS_exited | CS_paused | CS_restarting | CS_created | CS_dead | CS_removing

datatype health = Health_healthy | Health_unhealthy | Health_starting | Health_none

datatype port_map_proto = Proto_tcp | Proto_udp

record port_map =
  pm_ip :: "string"
  pm_host :: "int"
  pm_container :: "int"
  pm_proto :: "port_map_proto"

record container_update =
  container_update_available :: "bool"
  container_update_tag :: "string"
  container_update_checkedAt :: "iso_date option"

record container =
  c_id :: "string"
  c_shortId :: "string"
  c_hostId :: "id_t"
  c_name :: "string"
  c_image :: "string"
  c_imageId :: "string"
  c_state :: "container_state"
  c_status :: "string"
  c_health :: "health"
  c_exitCode :: "int"
  c_stack :: "string"
  c_service :: "string"
  c_cpu :: "real"
  c_memUsed :: "int"
  c_memLimit :: "int"
  c_ports :: "port_map list"
  c_createdAt :: "iso_date"
  c_startedAt :: "iso_date option"
  c_finishedAt :: "iso_date option"
  c_update :: "container_update"

record env_var = kv +
  ev_secret :: "bool"

datatype mount_mode = MountMode_rw | MountMode_ro

record mount =
  mnt_type :: "string"
  mnt_src :: "string"
  mnt_dst :: "string"
  mnt_mode :: "mount_mode"

record container_network =
  cn_name :: "string"
  cn_ip :: "string"
  cn_gw :: "string"
  cn_driver :: "string"

record container_event =
  ce_t :: "iso_date"
  ce_action :: "string"
  ce_by :: "string"

datatype container_detail_restart_policy = ContainerDetailRestartPolicy_no | ContainerDetailRestartPolicy_always | ContainerDetailRestartPolicy_unless_stopped | ContainerDetailRestartPolicy_on_failure

record container_detail_history =
  container_detail_history_cpu :: "real list"
  container_detail_history_mem :: "real list"
  container_detail_history_netRx :: "real list"
  container_detail_history_netTx :: "real list"

record container_detail = container +
  cd_command :: "string"
  cd_entrypoint :: "string"
  cd_workdir :: "string"
  cd_hostname :: "string"
  cd_restartPolicy :: "container_detail_restart_policy"
  cd_restartCount :: "int"
  cd_env :: "env_var list"
  cd_labels :: "kv list"
  cd_mounts :: "mount list"
  cd_networks :: "container_network list"
  cd_healthCmd :: "string"
  cd_healthInterval :: "string"
  cd_history :: "container_detail_history"
  cd_events :: "container_event list"

datatype container_action = ContainerAction_start | ContainerAction_stop | ContainerAction_restart | ContainerAction_pause | ContainerAction_unpause | ContainerAction_kill | ContainerAction_update

datatype run_container_input_restart = RunContainerInputRestart_no | RunContainerInputRestart_always | RunContainerInputRestart_unless_stopped | RunContainerInputRestart_on_failure

record run_container_input_ports =
  run_container_input_ports_host :: "string"
  run_container_input_ports_container :: "string"

record run_container_input_volumes =
  run_container_input_volumes_src :: "string"
  run_container_input_volumes_dst :: "string"

record run_container_input =
  rci_hostId :: "id_t"
  rci_image :: "string"
  rci_name :: "string"
  rci_restart :: "run_container_input_restart"
  rci_ports :: "run_container_input_ports list"
  rci_volumes :: "run_container_input_volumes list"
  rci_env :: "kv list"
  rci_network :: "string"
  rci_traefik :: "bool"

record stack_service =
  ss_name :: "string"
  ss_image :: "string"
  ss_state :: "container_state option"
  ss_containerId :: "string"
  ss_ports :: "port_map list"
  ss_health :: "health"

datatype stack_status = StackStatus_running | StackStatus_partial | StackStatus_stopped

datatype stack_source = StackSource_manual | StackSource_git | StackSource_image | StackSource_discovered

record stack =
  st_id :: "id_t option"
  st_hostId :: "id_t"
  st_name :: "string"
  st_path :: "string"
  st_composeFile :: "string"
  st_status :: "stack_status"
  st_managed :: "bool"
  st_source :: "stack_source"
  st_repo :: "string"
  st_branch :: "string"
  st_sha :: "string"
  st_autoDeploy :: "bool"
  st_lastDeployAt :: "iso_date option"
  st_services :: "stack_service list"

record compose_validation_services =
  compose_validation_services_name :: "string"
  compose_validation_services_image :: "string"
  compose_validation_services_ports :: "string list"

record compose_validation =
  cv_ok :: "bool"
  cv_error :: "string"
  cv_line :: "int"
  cv_services :: "compose_validation_services list"

record image_info =
  img_id :: "string"
  img_shortId :: "string"
  img_repo :: "string"
  img_tag :: "string"
  img_size :: "int"
  img_createdAt :: "iso_date"
  img_containers :: "int"
  img_dangling :: "bool"

record volume =
  vol_name :: "string"
  vol_driver :: "string"
  vol_mountpoint :: "string"
  vol_size :: "int"
  vol_containers :: "string list"
  vol_createdAt :: "iso_date option"

record network_member =
  nm_id :: "string"
  nm_name :: "string"
  nm_ip :: "string"
  nm_state :: "container_state"

record network =
  net_id :: "string"
  net_name :: "string"
  net_driver :: "string"
  net_scope :: "string"
  net_subnet :: "string"
  net_gateway :: "string"
  net_internal :: "bool"
  net_attachable :: "bool"
  net_system :: "bool"
  net_members :: "network_member list"
  net_createdAt :: "iso_date option"

datatype network_input_driver = NetworkInputDriver_bridge | NetworkInputDriver_overlay | NetworkInputDriver_macvlan | NetworkInputDriver_ipvlan

record network_input =
  ni_name :: "string"
  ni_driver :: "network_input_driver"
  ni_subnet :: "string"
  ni_gateway :: "string"
  ni_internal :: "bool"
  ni_attachable :: "bool"

end
