(* ===== verification/Api_Ops.thy ===== *)
theory Api_Ops
  imports Api_Base
begin

text \<open>
  The API contract, second part (web/lib/types.ts, lines 290 to 541): jobs, GitHub,
  uptime, alerts and MCP.
\<close>

datatype step_status = Step_pending | Step_running | Step_done | Step_failed | Step_skipped

record job_step =
  js_label :: "string"
  js_sub :: "string"
  js_status :: "step_status"
  js_t :: "string"

datatype job_log_line_level = JobLogLineLevel_info | JobLogLineLevel_ok | JobLogLineLevel_warn | JobLogLineLevel_error | JobLogLineLevel_cmd | JobLogLineLevel_muted

record job_log_line =
  jl_text :: "string"
  jl_level :: "job_log_line_level"

datatype job_kind = JobKind_git | JobKind_image | JobKind_compose | JobKind_pull | JobKind_update | JobKind_backup | JobKind_stack | JobKind_self_update | JobKind_prune

datatype job_status = JobStatus_running | JobStatus_success | JobStatus_failed

record job =
  job_id :: "id_t"
  job_kind :: "job_kind"
  job_title :: "string"
  job_hostId :: "id_t option"
  job_status :: "job_status"
  job_actor :: "string"
  job_steps :: "job_step list"
  job_log :: "job_log_line list"
  job_result :: "(string \<times> json) list"
  job_startedAt :: "iso_date"
  job_finishedAt :: "iso_date option"

record job_ref =
  jr_jobId :: "id_t"

datatype git_account_kind = GitAccountKind_user | GitAccountKind_org | GitAccountKind_enterprise

datatype git_account_method = GitAccountMethod_app | GitAccountMethod_oauth | GitAccountMethod_pat

datatype git_account_repo_access = GitAccountRepoAccess_all | GitAccountRepoAccess_selected

datatype git_account_status = GitAccountStatus_ok | GitAccountStatus_error | GitAccountStatus_syncing

record git_account =
  ga_id :: "id_t"
  ga_login :: "string"
  ga_kind :: "git_account_kind"
  ga_method :: "git_account_method"
  ga_serverUrl :: "string"
  ga_enabled :: "bool"
  ga_repoAccess :: "git_account_repo_access"
  ga_selectedRepos :: "string list"
  ga_webhook :: "bool"
  ga_color :: "string"
  ga_repoCount :: "int"
  ga_composeRepoCount :: "int"
  ga_lastSyncAt :: "iso_date option"
  ga_lastError :: "string"
  ga_status :: "git_account_status"

datatype git_account_input_kind = GitAccountInputKind_user | GitAccountInputKind_org | GitAccountInputKind_enterprise

datatype git_account_input_method = GitAccountInputMethod_app | GitAccountInputMethod_oauth | GitAccountInputMethod_pat

record git_account_input =
  gai_kind :: "git_account_input_kind"
  gai_method :: "git_account_input_method"
  gai_token :: "string option"
  gai_serverUrl :: "string option"
  gai_deviceCode :: "string option"
  gai_installationId :: "int option"

record device_flow_start =
  df_deviceCode :: "string"
  df_userCode :: "string"
  df_verificationUri :: "string"
  df_interval :: "int"
  df_expiresIn :: "int"

record repo =
  rp_id :: "int"
  rp_accountId :: "id_t"
  rp_owner :: "string"
  rp_name :: "string"
  rp_fullName :: "string"
  rp_private :: "bool"
  rp_description :: "string"
  rp_defaultBranch :: "string"
  rp_composeFiles :: "string list"
  rp_pushedAt :: "iso_date option"
  rp_deployedOn :: "string"

record branch =
  br_name :: "string"
  br_sha :: "string"
  br_updatedAt :: "iso_date option"
  br_isDefault :: "bool"

record repo_inspect_services =
  repo_inspect_services_name :: "string"
  repo_inspect_services_image :: "string"
  repo_inspect_services_meta :: "string"

record repo_inspect_env =
  repo_inspect_env_k :: "string"
  repo_inspect_env_v :: "string"
  repo_inspect_env_required :: "bool"
  repo_inspect_env_comment :: "string"

record repo_inspect =
  ri_composeFiles :: "string list"
  ri_services :: "repo_inspect_services list"
  ri_env :: "repo_inspect_env list"

record git_deploy_input =
  gdi_accountId :: "id_t"
  gdi_owner :: "string"
  gdi_name :: "string"
  gdi_branch :: "string"
  gdi_composeFile :: "string"
  gdi_hostId :: "id_t"
  gdi_path :: "string"
  gdi_env :: "kv list"
  gdi_autoDeploy :: "bool"

datatype up_status = Up_up | Up_degraded | Up_down | Up_unknown | Up_paused

datatype up_window = UpWindow_24h | UpWindow_7d | UpWindow_30d

record uptime_bar =
  ub_status :: "up_status option"
  ub_pct :: "real"
  ub_from :: "iso_date"
  ub_to :: "iso_date"

datatype monitor_view_type = MonitorViewType_host | MonitorViewType_docker | MonitorViewType_http | MonitorViewType_tcp

record monitor_view =
  mv_id :: "id_t"
  mv_name :: "string"
  mv_type :: "monitor_view_type"
  mv_hostId :: "id_t option"
  mv_hostName :: "string"
  mv_target :: "string"
  mv_enabled :: "bool"
  mv_auto :: "bool"
  mv_status :: "up_status"
  mv_pct :: "real"
  mv_latencyMs :: "real"
  mv_incidents :: "int"
  mv_lastCheckAt :: "iso_date option"
  mv_bars :: "uptime_bar list"

datatype incident_view_status = IncidentViewStatus_down | IncidentViewStatus_degraded

record incident_view =
  iv_id :: "id_t"
  iv_monitorId :: "id_t"
  iv_target :: "string"
  iv_status :: "incident_view_status"
  iv_message :: "string"
  iv_startedAt :: "iso_date"
  iv_endedAt :: "iso_date option"
  iv_durationSec :: "real"

record uptime_overview_stats =
  uptime_overview_stats_overall :: "real"
  uptime_overview_stats_monitorsUp :: "int"
  uptime_overview_stats_monitorsTotal :: "int"
  uptime_overview_stats_avgLatencyMs :: "real"
  uptime_overview_stats_incidents :: "int"
  uptime_overview_stats_openIncidents :: "int"

record uptime_overview =
  uo_window :: "up_window"
  uo_stats :: "uptime_overview_stats"
  uo_hosts :: "monitor_view list"
  uo_monitors :: "monitor_view list"
  uo_incidents :: "incident_view list"

datatype monitor_input_type = MonitorInputType_docker | MonitorInputType_http | MonitorInputType_tcp

record monitor_input =
  mi_name :: "string"
  mi_type :: "monitor_input_type"
  mi_hostId :: "id_t option"
  mi_target :: "string"
  mi_expect :: "string option"

record alert =
  al_id :: "id_t"
  al_severity :: "severity"
  al_kind :: "string"
  al_title :: "string"
  al_text :: "string"
  al_hostId :: "id_t option"
  al_hostName :: "string"
  al_action :: "string"
  al_href :: "string"
  al_createdAt :: "iso_date"
  al_read :: "bool"
  al_snoozedUntil :: "iso_date option"
  al_resolved :: "bool"

datatype notification_channel_type = NotificationChannelType_email | NotificationChannelType_slack | NotificationChannelType_ntfy | NotificationChannelType_webhook

record notification_channel =
  nc_id :: "id_t"
  nc_type :: "notification_channel_type"
  nc_name :: "string"
  nc_config :: "(string \<times> string) list"
  nc_enabled :: "bool"
  nc_createdAt :: "iso_date"

datatype mcp_tool_group = McpToolGroup_Hosts | McpToolGroup_Containers | McpToolGroup_Stacks | McpToolGroup_Images | McpToolGroup_Logs | McpToolGroup_Deploy

record mcp_tool =
  mt_name :: "string"
  mt_group :: "mcp_tool_group"
  mt_desc :: "string"
  mt_writes :: "bool"

datatype api_key_client = ApiKeyClient_claude | ApiKeyClient_cursor | ApiKeyClient_other

datatype api_key_scope = ApiKeyScope_read | ApiKeyScope_full | ApiKeyScope_custom

record api_key =
  ak_id :: "id_t"
  ak_name :: "string"
  ak_client :: "api_key_client"
  ak_prefix :: "string"
  ak_scope :: "api_key_scope"
  ak_groups :: "string list"
  ak_hostIds :: "id_t list"
  ak_expiresAt :: "iso_date option"
  ak_lastUsedAt :: "iso_date option"
  ak_revoked :: "bool"
  ak_createdAt :: "iso_date"

record api_key_input =
  aki_name :: "string"
  aki_client :: "api_key_client"
  aki_scope :: "api_key_scope"
  aki_groups :: "string list"
  aki_hostIds :: "id_t list"
  aki_expiresDays :: "int"

record mcp_activity =
  ma_id :: "int"
  ma_client :: "string"
  ma_tool :: "string"
  ma_detail :: "string"
  ma_ok :: "bool"
  ma_at :: "iso_date"

record mcp_status =
  ms_publishedPort :: "int option"
  ms_url :: "string"
  ms_callsToday :: "int"
  ms_tools :: "mcp_tool list"
  ms_port :: "int"
  ms_listenError :: "string option"

end
