(* ===== verification/Api_System.thy ===== *)
theory Api_System
  imports Api_Base
begin

text \<open>
  The API contract, third part (web/lib/types.ts, lines 543 to 742): settings, self-update,
  the overview, disk usage, deploy checks and fleet-wide lists.
\<close>

record settings_general =
  settings_general_publicUrl :: "string"
  settings_general_domain :: "string"

record settings_uptime =
  settings_uptime_intervalSec :: "int"
  settings_uptime_retries :: "int"
  settings_uptime_hostIds :: "id_t list"
  settings_uptime_autoMonitor :: "bool"
  settings_uptime_notify :: "bool"
  settings_uptime_publicStatus :: "bool"

record settings_github =
  settings_github_autoDeploy :: "bool"
  settings_github_waitChecks :: "bool"
  settings_github_onlyCompose :: "bool"
  settings_github_webhookUrl :: "string"
  settings_github_webhookSecret :: "string"
  settings_github_appConfigured :: "bool"
  settings_github_oauthConfigured :: "bool"
  settings_github_appInstallUrl :: "string"

datatype settings_mcp_transport = SettingsMcpTransport_http | SettingsMcpTransport_sse

record settings_mcp_tools_entry =
  settings_mcp_tools_entry_enabled :: "bool"
  settings_mcp_tools_entry_confirm :: "bool"

record settings_mcp =
  settings_mcp_enabled :: "bool"
  settings_mcp_transport :: "settings_mcp_transport"
  settings_mcp_port :: "int"
  settings_mcp_tools :: "(string \<times> settings_mcp_tools_entry) list"

datatype settings_updates_channel = SettingsUpdatesChannel_stable | SettingsUpdatesChannel_beta | SettingsUpdatesChannel_nightly

datatype settings_updates_build = SettingsUpdatesBuild_pull | SettingsUpdatesBuild_build

record settings_updates =
  settings_updates_auto :: "bool"
  settings_updates_channel :: "settings_updates_channel"
  settings_updates_window :: "string"
  settings_updates_backup :: "bool"
  settings_updates_build :: "settings_updates_build"
  settings_updates_redeployOnPush :: "bool"
  settings_updates_repo :: "string"
  settings_updates_composeFile :: "string"
  settings_updates_timezone :: "string"

record settings_registry =
  settings_registry_enabled :: "bool"
  settings_registry_address :: "string"

record settings_notifications =
  settings_notifications_hostDown :: "bool"
  settings_notifications_containerCrash :: "bool"
  settings_notifications_unhealthy :: "bool"
  settings_notifications_updates :: "bool"
  settings_notifications_diskSpace :: "bool"
  settings_notifications_deploys :: "bool"
  settings_notifications_digest :: "bool"

record settings =
  set_general :: "settings_general"
  set_uptime :: "settings_uptime"
  set_github :: "settings_github"
  set_mcp :: "settings_mcp"
  set_updates :: "settings_updates"
  set_registry :: "settings_registry"
  set_notifications :: "settings_notifications"

datatype updater_status_state = UpdaterStatusState_none | UpdaterStatusState_running | UpdaterStatusState_succeeded | UpdaterStatusState_failed

record updater_status =
  us_state :: "updater_status_state"
  us_id :: "string option"
  us_exitCode :: "int option"
  us_startedAt :: "iso_date option"
  us_finishedAt :: "iso_date option"
  us_log :: "string list"

record system_info_source =
  system_info_source_repo :: "string"
  system_info_source_branch :: "string"
  system_info_source_sha :: "string"
  system_info_source_path :: "string"

record system_info_history =
  system_info_history_id :: "id_t"
  system_info_history_version :: "string"
  system_info_history_fromVersion :: "string"
  system_info_history_status :: "string"
  system_info_history_note :: "string"
  system_info_history_at :: "iso_date"

datatype system_info_mode = SystemInfoMode_git | SystemInfoMode_release

record system_info_auto =
  system_info_auto_enabled :: "bool"
  system_info_auto_timezone :: "string"
  system_info_auto_inWindow :: "bool"
  system_info_auto_nextWindow :: "iso_date option"
  system_info_auto_lastCheck :: "iso_date option"
  system_info_auto_lastResult :: "string"
  system_info_auto_error :: "string option"

record update_history_page =
  uhp_items :: "system_info_history list"
  uhp_total :: "int"
  uhp_page :: "int"
  uhp_pages :: "int"
  uhp_limit :: "int"

record system_info =
  sys_version :: "string"
  sys_latest :: "string"
  sys_updateAvailable :: "bool"
  sys_releasedAt :: "iso_date option"
  sys_notes :: "string list"
  sys_changelogUrl :: "string"
  sys_checkedAt :: "iso_date option"
  sys_canSelfUpdate :: "bool"
  sys_source :: "system_info_source"
  sys_history :: "system_info_history list"
  sys_mode :: "system_info_mode option"
  sys_currentCommit :: "string option"
  sys_checkError :: "string option"
  sys_auto :: "system_info_auto option"

record fleet_metrics_points =
  fleet_metrics_points_at :: "iso_date"
  fleet_metrics_points_cpu :: "real"
  fleet_metrics_points_mem :: "real"
  fleet_metrics_points_disk :: "real"

record fleet_metrics_avg =
  fleet_metrics_avg_at :: "iso_date"
  fleet_metrics_avg_cpu :: "real"
  fleet_metrics_avg_mem :: "real"
  fleet_metrics_avg_disk :: "real"

record fleet_metrics_prev =
  fleet_metrics_prev_at :: "iso_date"
  fleet_metrics_prev_cpu :: "real"
  fleet_metrics_prev_mem :: "real"
  fleet_metrics_prev_disk :: "real"

record fleet_metrics =
  fm_points :: "fleet_metrics_points list"
  fm_avg :: "fleet_metrics_avg"
  fm_prev :: "fleet_metrics_prev"

record overview_attention =
  overview_attention_severity :: "severity"
  overview_attention_hostId :: "id_t option"
  overview_attention_host :: "string"
  overview_attention_text :: "string"
  overview_attention_action :: "string"
  overview_attention_href :: "string"

record overview =
  ov_hosts :: "int"
  ov_online :: "int"
  ov_running :: "int"
  ov_total :: "int"
  ov_updates :: "int"
  ov_unreadAlerts :: "int"
  ov_attention :: "overview_attention list"

record api_error =
  ae_error :: "string"

datatype disk_usage_categories_key = DiskUsageCategoriesKey_images | DiskUsageCategoriesKey_containers | DiskUsageCategoriesKey_volumes | DiskUsageCategoriesKey_buildCache

record disk_usage_categories =
  disk_usage_categories_key :: "disk_usage_categories_key"
  disk_usage_categories_label :: "string"
  disk_usage_categories_size :: "int"
  disk_usage_categories_reclaimable :: "int"
  disk_usage_categories_count :: "int"
  disk_usage_categories_active :: "int"

record disk_usage =
  du_root :: "string"
  du_used :: "int"
  du_capacity :: "int"
  du_categories :: "disk_usage_categories list"
  du_reclaimable :: "int"

datatype deploy_issue_severity = DeployIssueSeverity_crit | DeployIssueSeverity_warn

record deploy_issue_fix_patch_ports =
  deploy_issue_fix_patch_ports_from :: "string"
  deploy_issue_fix_patch_ports_to :: "string"

record deploy_issue_fix_patch =
  deploy_issue_fix_patch_name :: "string option"
  deploy_issue_fix_patch_path :: "string option"
  deploy_issue_fix_patch_ports :: "deploy_issue_fix_patch_ports list option"
  deploy_issue_fix_patch_env :: "kv list option"

record deploy_issue_fix =
  deploy_issue_fix_label :: "string"
  deploy_issue_fix_patch :: "deploy_issue_fix_patch"

record deploy_issue =
  di_field :: "string"
  di_text :: "string"
  di_severity :: "deploy_issue_severity"
  di_fix :: "deploy_issue_fix option"

datatype deploy_check_input_kind = DeployCheckInputKind_git | DeployCheckInputKind_image | DeployCheckInputKind_compose

record deploy_check_input_ports =
  deploy_check_input_ports_host :: "string"
  deploy_check_input_ports_container :: "string"

record deploy_check_input =
  dci_kind :: "deploy_check_input_kind"
  dci_hostId :: "id_t"
  dci_name :: "string"
  dci_path :: "string option"
  dci_image :: "string option"
  dci_ports :: "deploy_check_input_ports list option"
  dci_env :: "kv list option"
  dci_requiredEnv :: "string list option"
  dci_composeFile :: "string option"

record deploy_check_result =
  dcr_ok :: "bool"
  dcr_issues :: "deploy_issue list"

record dry_run_result =
  dr_ok :: "bool"
  dr_command :: "string"
  dr_output :: "string"

record 't fleet_list_items =
  fleet_list_items_hostId :: "id_t"
  fleet_list_items_hostName :: "string"
  fleet_list_items_item :: "'t"

record fleet_list_errors =
  fleet_list_errors_hostId :: "id_t"
  fleet_list_errors_hostName :: "string"
  fleet_list_errors_error :: "string"

record fleet_list_skipped =
  fleet_list_skipped_hostId :: "id_t"
  fleet_list_skipped_hostName :: "string"
  fleet_list_skipped_error :: "string"

record 't fleet_list =
  fl_items :: "'t fleet_list_items list"
  fl_errors :: "fleet_list_errors list"
  fl_skipped :: "fleet_list_skipped list"

end
