(* ===== verification/Api_Machines.thy ===== *)
theory Api_Machines
  imports Api_Base
begin

text \<open>
  The API contract, last part (web/lib/types.ts, lines 744 to 969): registries, machines,
  baselines, blast radius and git-backed stacks.
\<close>

record registry_info =
  rgi_enabled :: "bool"
  rgi_address :: "string"
  rgi_secure :: "bool"
  rgi_reachable :: "bool"
  rgi_error :: "string option"
  rgi_repos :: "int"
  rgi_size :: "int"

record registry_repo =
  rr_name :: "string"
  rr_tags :: "int"
  rr_latest :: "string"

record registry_tag =
  rt_tag :: "string"
  rt_digest :: "string"
  rt_size :: "int"
  rt_platforms :: "string list"
  rt_createdAt :: "iso_date option"

datatype registry_token_scope = RegistryTokenScope_pull | RegistryTokenScope_push

record registry_token =
  rtok_id :: "id_t"
  rtok_name :: "string"
  rtok_prefix :: "string"
  rtok_scope :: "registry_token_scope"
  rtok_system :: "bool"
  rtok_lastUsedAt :: "iso_date option"
  rtok_createdAt :: "iso_date"
  rtok_token :: "string option"

record registry_credential =
  rc_id :: "id_t"
  rc_server :: "string"
  rc_username :: "string"
  rc_lastUsedAt :: "iso_date option"
  rc_createdAt :: "iso_date"

record machine_package =
  mp_name :: "string"
  mp_current :: "string"
  mp_candidate :: "string"
  mp_origin :: "string"
  mp_security :: "bool"

record machine_service =
  msv_name :: "string"
  msv_description :: "string"
  msv_active :: "string"
  msv_enabled :: "bool"
  msv_since :: "string"

record machine_port =
  mpt_port :: "int"
  mpt_address :: "string"
  mpt_process :: "string"
  mpt_public :: "bool"

datatype check_status = Check_ok | Check_bad | Check_warn | Check_unknown

record machine_check =
  mc_id :: "string"
  mc_title :: "string"
  mc_sub :: "string"
  mc_status :: "check_status"
  mc_group :: "string"
  mc_fix :: "string"
  mc_fixNote :: "string option"
  mc_fixRisky :: "bool option"

record machine =
  m_hostId :: "id_t"
  m_name :: "string"
  m_color :: "string"
  m_status :: "host_status"
  m_method :: "string"
  m_os :: "string"
  m_release :: "string"
  m_kernel :: "string"
  m_arch :: "string"
  m_pkgManager :: "string"
  m_uptimeSec :: "int"
  m_load :: "string"
  m_tempC :: "real option"
  m_reboot :: "bool"
  m_rebootPkgs :: "string list"
  m_packages :: "machine_package list"
  m_security :: "int"
  m_services :: "machine_service list"
  m_ports :: "machine_port list"
  m_checks :: "machine_check list"
  m_sudo :: "bool"
  m_lastPatchAt :: "iso_date option"
  m_aptUpdateAt :: "iso_date option"
  m_collectedAt :: "iso_date option"
  m_error :: "string"
  m_baselines :: "string list"
  m_drift :: "int"

record baseline_row =
  bl_row_hostId :: "id_t"
  bl_row_name :: "string"
  bl_row_color :: "string"
  bl_row_status :: "host_status"
  bl_row_cells :: "(string \<times> check_status) list"
  bl_row_drift :: "int"

record baseline =
  bl_id :: "id_t"
  bl_name :: "string"
  bl_description :: "string"
  bl_color :: "string"
  bl_rules :: "string list"
  bl_hostIds :: "id_t list"
  bl_createdAt :: "iso_date"
  bl_compliance :: "baseline_row list"
  bl_pct :: "real"
  bl_drift :: "int"

record baseline_input =
  bli_name :: "string"
  bli_description :: "string"
  bli_color :: "string"
  bli_rules :: "string list"
  bli_hostIds :: "id_t list"

record baselines_response_rules =
  baselines_response_rules_id :: "string"
  baselines_response_rules_title :: "string"
  baselines_response_rules_group :: "string"

record baselines_response =
  blr_baselines :: "baseline list"
  blr_rules :: "baselines_response_rules list"

datatype impact_item_kind = ImpactItemKind_container | ImpactItemKind_stack | ImpactItemKind_monitor | ImpactItemKind_port | ImpactItemKind_service | ImpactItemKind_host

datatype impact_item_severity = ImpactItemSeverity_crit | ImpactItemSeverity_warn | ImpactItemSeverity_info

record impact_item =
  ii_kind :: "impact_item_kind"
  ii_name :: "string"
  ii_detail :: "string"
  ii_host :: "string"
  ii_severity :: "impact_item_severity"
  ii_href :: "string option"

datatype impact_target = ImpactTarget_host | ImpactTarget_stack | ImpactTarget_container

datatype impact_severity = ImpactSeverity_crit | ImpactSeverity_warn | ImpactSeverity_info

record impact =
  im_target :: "impact_target"
  im_name :: "string"
  im_host :: "string"
  im_action :: "string"
  im_summary :: "string"
  im_severity :: "impact_severity"
  im_stops :: "impact_item list"
  im_stacks :: "impact_item list"
  im_monitors :: "impact_item list"
  im_ports :: "impact_item list"
  im_depends :: "impact_item list"
  im_safe :: "string list"

datatype patch_package_effect = PatchPackageEffect_docker | PatchPackageEffect_reboot | PatchPackageEffect_services | PatchPackageEffect_ssh | PatchPackageEffect_none

record patch_package =
  pp_name :: "string"
  pp_effect :: "patch_package_effect"
  pp_detail :: "string"
  pp_service :: "string option"

datatype patch_impact_severity = PatchImpactSeverity_crit | PatchImpactSeverity_warn | PatchImpactSeverity_info

record patch_impact =
  pi_packages :: "int"
  pi_security :: "int"
  pi_docker :: "bool"
  pi_reboot :: "bool"
  pi_services :: "string list"
  pi_pending :: "string list"
  pi_containers :: "impact_item list"
  pi_details :: "patch_package list"
  pi_summary :: "string"
  pi_severity :: "patch_impact_severity"

record git_commit =
  gc_sha :: "string"
  gc_message :: "string"
  gc_author :: "string"
  gc_date :: "iso_date option"

datatype stack_git_status_kind = StackGitStatusKind_managed | StackGitStatusKind_checkout | StackGitStatusKind_none

record stack_git_status =
  sgs_kind :: "stack_git_status_kind"
  sgs_repo :: "string"
  sgs_branch :: "string"
  sgs_path :: "string"
  sgs_current :: "string"
  sgs_latest :: "string"
  sgs_behind :: "int"
  sgs_ahead :: "int"
  sgs_commits :: "git_commit list"
  sgs_dirty :: "int"
  sgs_compareUrl :: "string"
  sgs_error :: "string option"

record stack_git_update =
  sgu_force :: "bool"
  sgu_pullImages :: "bool"
  sgu_noCache :: "bool"

end
