(* ===== verification/Js_Text.thy ===== *)
theory Js_Text
  imports Dockhand_Prelude
begin

text \<open>
  More of JavaScript's text operations, for the parsers: lines, words, \<open>parseInt\<close>, and the
  split of a text at a run of digits. The regular expressions of the sources are
  written out as the functions that compute their leftmost, greedy matches.
\<close>

definition CR :: char where [js_simps]: "CR = char_of (13 :: nat)"
definition LF :: char where [js_simps]: "LF = char_of (10 :: nat)"

text \<open>\<open>text.split(/\\r?\\n/)\<close>.\<close>

definition drop_cr :: "string \<Rightarrow> string" where
  "drop_cr s = (if s \<noteq> [] \<and> last s = CR then butlast s else s)"

definition split_lines :: "string \<Rightarrow> string list" where
  "split_lines s = (let ps = split_on LF s in map drop_cr (butlast ps) @ [last ps])"

text \<open>\<open>s.split(/\\s+/).filter(Boolean)\<close>: the maximal runs of non-space characters.\<close>

function words :: "string \<Rightarrow> string list" where
  "words [] = []"
| "words (c # s) =
     (if ws c then words s
      else (takeWhile (\<lambda>d. \<not> ws d) (c # s)) # words (dropWhile (\<lambda>d. \<not> ws d) s))"
  by pat_completeness auto
termination
  by (relation "measure length") (auto simp: less_Suc_eq_le length_dropWhile_le)

text \<open>\<open>/^\\d+$/.test(s)\<close>.\<close>

definition digits :: "string \<Rightarrow> bool" where
  "digits s \<longleftrightarrow> s \<noteq> [] \<and> list_all digit s"

text \<open>\<open>parseInt(s, 10)\<close>, with \<open>None\<close> for \<open>NaN\<close>.\<close>

definition parse_int :: "string \<Rightarrow> int option" where
  "parse_int s =
    (let t = dropWhile ws s;
         neg = starts_with t ''-'';
         u = (if neg \<or> starts_with t ''+'' then tl t else t);
         ds = takeWhile digit u
     in if ds = [] then None else Some (if neg then - int (read_nat ds) else int (read_nat ds)))"

definition no_ws :: "string \<Rightarrow> bool" where
  "no_ws s \<longleftrightarrow> (\<forall>c \<in> set s. \<not> ws c)"

lemma no_ws_append [simp]: "no_ws (s @ t) \<longleftrightarrow> no_ws s \<and> no_ws t"
  by (auto simp: no_ws_def)

lemma no_ws_cons [simp]: "no_ws (c # s) \<longleftrightarrow> \<not> ws c \<and> no_ws s" and no_ws_nil [simp]: "no_ws []"
  by (auto simp: no_ws_def)

lemma digit_not_ws: "digit c \<Longrightarrow> \<not> ws c"
  by (simp add: js_simps)

lemma digits_show_nat [simp]: "digits (show_nat n)"
  by (auto simp: digits_def list_all_iff show_nat_digits)

lemma no_ws_digits: "digits s \<Longrightarrow> no_ws s"
  by (auto simp: digits_def no_ws_def list_all_iff digit_not_ws)

lemma digits_not_char: "digits s \<Longrightarrow> \<not> digit c \<Longrightarrow> c \<notin> set s"
  by (auto simp: digits_def list_all_iff)

lemma parse_int_show_nat: "parse_int (show_nat n) = Some (int n)"
proof -
  have d: "list_all digit (show_nat n)" using digits_show_nat [of n] by (simp add: digits_def)
  then obtain c s where cs: "show_nat n = c # s" "digit c" by (cases "show_nat n") auto
  then have dw: "dropWhile ws (show_nat n) = show_nat n" by (simp add: digit_not_ws)
  have sg: "starts_with (show_nat n) ''-'' = False" "starts_with (show_nat n) ''+'' = False"
    using cs by (auto simp: js_simps)
  have tw: "takeWhile digit (show_nat n) = show_nat n"
    using d by (simp only: takeWhile_eq_all_conv list_all_iff)
  show ?thesis unfolding parse_int_def Let_def dw sg simp_thms if_False tw by (simp add: read_show_nat)
qed

lemma words_single: "no_ws s \<Longrightarrow> s \<noteq> [] \<Longrightarrow> words s = [s]"
proof (cases s)
  case (Cons c t)
  assume "no_ws s"
  with Cons have t: "\<forall>d \<in> set t. \<not> ws d" "\<not> ws c" by (auto simp: no_ws_def)
  then have a: "takeWhile (\<lambda>d. \<not> ws d) t = t" by (simp only: takeWhile_eq_all_conv)
  from t have b: "dropWhile (\<lambda>d. \<not> ws d) t = []" by simp
  from Cons t show ?thesis
    by (simp only: words.simps if_False takeWhile.simps dropWhile.simps a b simp_thms if_True)
qed simp

lemma words_no_ws: "w \<in> set (words s) \<Longrightarrow> w \<noteq> [] \<and> no_ws w"
proof (induction s rule: words.induct)
  case (2 c s)
  show ?case
  proof (cases "ws c")
    case True
    with 2 show ?thesis by simp
  next
    case False
    then have "set (words (c # s)) = insert (c # takeWhile (\<lambda>d. \<not> ws d) s) (set (words (dropWhile (\<lambda>d. \<not> ws d) s)))"
      by simp
    with "2.prems" consider "w = c # takeWhile (\<lambda>d. \<not> ws d) s" | "w \<in> set (words (dropWhile (\<lambda>d. \<not> ws d) s))"
      by blast
    then show ?thesis
    proof cases
      case 1
      with False show ?thesis unfolding no_ws_def by (metis list.discI set_ConsD set_takeWhileD)
    next
      case 2
      with False show ?thesis by (rule "2.IH"(2))
    qed
  qed
qed simp

lemma trim_id: "no_ws s \<Longrightarrow> trim s = s"
proof (cases "s = []")
  case False
  assume "no_ws s"
  with False have "\<not> ws (hd s)" "\<not> ws (last s)" by (auto simp: no_ws_def)
  then show ?thesis by (rule trim_no_ws)
qed simp

lemma trim_left_pad: "list_all ws p \<Longrightarrow> trim (p @ s) = trim s"
proof -
  assume "list_all ws p"
  then have "dropWhile ws (p @ s) = dropWhile ws s" by (simp add: dropWhile_append2 list_all_iff)
  then show ?thesis by (simp add: trim_def trim_left_def)
qed

lemma trim_ends: "trim s \<noteq> [] \<Longrightarrow> \<not> ws (hd (trim s)) \<and> \<not> ws (last (trim s))"
proof -
  assume ne: "trim s \<noteq> []"
  let ?l = "dropWhile ws s" and ?r = "dropWhile ws (rev (dropWhile ws s))"
  have r: "trim s = rev ?r" by (simp add: trim_def trim_left_def trim_right_def)
  then have "?r \<noteq> []" using ne by auto
  then have "\<not> ws (hd ?r)" by (rule hd_dropWhile)
  then have last: "\<not> ws (last (trim s))" by (simp add: r last_rev)
  obtain p where p: "rev ?l = p @ ?r" by (metis takeWhile_dropWhile_id)
  then have "?l = rev ?r @ rev p" by (metis rev_append rev_rev_ident)
  then have hd: "hd ?l = hd (trim s)" using ne r by (metis hd_append2)
  have "?l \<noteq> []"
  proof
    assume "?l = []"
    then have "?r = []" by (simp only: rev.simps dropWhile.simps)
    with \<open>?r \<noteq> []\<close> show False by (rule notE)
  qed
  then have "\<not> ws (hd ?l)" by (rule hd_dropWhile)
  then show ?thesis using last hd by simp
qed

lemma split_lines_no_lf: "l \<in> set (split_lines s) \<Longrightarrow> LF \<notin> set l"
proof -
  assume "l \<in> set (split_lines s)"
  then consider p where "p \<in> set (split_on LF s)" "l = drop_cr p" | "l \<in> set (split_on LF s)"
    unfolding split_lines_def Let_def by (auto dest: in_set_butlastD)
  then show ?thesis
  proof cases
    case 1
    then have "LF \<notin> set p" by (simp add: split_on_pieces)
    with 1 show ?thesis by (auto simp: drop_cr_def dest: in_set_butlastD)
  qed (simp add: split_on_pieces)
qed

lemma split_lines_cons:
  "LF \<notin> set l \<Longrightarrow> split_lines (l @ LF # s) = drop_cr l # split_lines s"
  by (simp add: split_lines_def split_on_append Let_def)

lemma split_lines_nil [simp]: "split_lines [] = [[]]"
  by (simp add: split_lines_def)

text \<open>Digits as literals, for evaluating concrete texts.\<close>

lemma eol_literals: "LF = CHR 0x0A" "CR = CHR 0x0D"
  by code_simp+

lemma digit_literals:
  "char_of (48 :: nat) = CHR ''0''" "char_of (49 :: nat) = CHR ''1''" "char_of (50 :: nat) = CHR ''2''"
  "char_of (51 :: nat) = CHR ''3''" "char_of (52 :: nat) = CHR ''4''" "char_of (53 :: nat) = CHR ''5''"
  "char_of (54 :: nat) = CHR ''6''" "char_of (55 :: nat) = CHR ''7''" "char_of (56 :: nat) = CHR ''8''"
  "char_of (57 :: nat) = CHR ''9''"
  by code_simp+

end
