(* ===== verification/Dates.thy ===== *)
theory Dates
  imports Dockhand_Prelude
begin

text \<open>
  Timestamps. \<open>new Date(s).getTime()\<close> on the RFC 3339 strings the API sends
  ("2026-09-17T14:00:00.123Z", with an offset, or a date alone): milliseconds since the
  epoch, \<open>None\<close> for NaN. A fraction is cut to milliseconds; other formats, which
  ECMA-262 leaves to the engine, are \<open>None\<close>.
\<close>

text \<open>Days before 1 March of the year, on the proleptic Gregorian calendar.\<close>

definition year_base :: "int \<Rightarrow> int" where
  "year_base y = y div 400 * 146097 + (y mod 400 * 365 + y mod 400 div 4 - y mod 400 div 100)"

definition days_from_civil :: "int \<Rightarrow> int \<Rightarrow> int \<Rightarrow> int" where
  "days_from_civil y m d =
     year_base (if m \<le> 2 then y - 1 else y) + (153 * (if m > 2 then m - 3 else m + 9) + 2) div 5 + d - 719469"

definition all_digits :: "string \<Rightarrow> bool" where
  "all_digits s \<longleftrightarrow> s \<noteq> [] \<and> list_all digit s"

definition field :: "nat \<Rightarrow> nat \<Rightarrow> string \<Rightarrow> int option" where
  "field i n s = (let t = take n (drop i s) in if length t = n \<and> all_digits t then Some (int (read_nat t)) else None)"

definition char_at :: "string \<Rightarrow> nat \<Rightarrow> char option" where
  "char_at s i = (if i < length s then Some (s ! i) else None)"

text \<open>The zone suffix, as minutes east of UTC.\<close>

definition zone_minutes :: "string \<Rightarrow> int option" where
  "zone_minutes z =
     (if z = ''Z'' then Some 0
      else if length z = 6 \<and> char_at z 3 = Some (CHR '':'') then
        (case (field 1 2 z, field 4 2 z) of
          (Some h, Some m) \<Rightarrow>
            (if h > 23 \<or> m > 59 then None
             else if char_at z 0 = Some (CHR ''+'') then Some (60 * h + m)
             else if char_at z 0 = Some (CHR ''-'') then Some (- (60 * h + m))
             else None)
        | _ \<Rightarrow> None)
      else None)"

text \<open>The fraction, cut to milliseconds, and what follows it.\<close>

definition fraction_ms :: "string \<Rightarrow> (int \<times> string) option" where
  "fraction_ms s =
     (case s of
        [] \<Rightarrow> Some (0, [])
      | c # t \<Rightarrow>
          if c = CHR ''.'' then
            (let ds = takeWhile digit t
             in if ds = [] then None
                else Some (int (read_nat (take 3 (pad_right 3 (CHR ''0'') ds))), dropWhile digit t))
          else Some (0, s))"

definition civil_ms :: "int \<Rightarrow> int \<Rightarrow> int \<Rightarrow> int \<Rightarrow> int \<Rightarrow> int \<Rightarrow> int \<Rightarrow> int" where
  "civil_ms y mo d h mi s ms = ((days_from_civil y mo d * 24 + h) * 60 + mi) * 60000 + s * 1000 + ms"

definition date_part :: "string \<Rightarrow> (int \<times> int \<times> int) option" where
  "date_part s =
     (case (field 0 4 s, field 5 2 s, field 8 2 s) of
        (Some y, Some m, Some d) \<Rightarrow>
          if char_at s 4 = Some (CHR ''-'') \<and> char_at s 7 = Some (CHR ''-'') \<and>
             1 \<le> m \<and> m \<le> 12 \<and> 1 \<le> d \<and> d \<le> 31
          then Some (y, m, d) else None
      | _ \<Rightarrow> None)"

definition time_part :: "string \<Rightarrow> (int \<times> int \<times> int) option" where
  "time_part s =
     (case (field 11 2 s, field 14 2 s, field 17 2 s) of
        (Some h, Some m, Some c) \<Rightarrow>
          if char_at s 10 = Some (CHR ''T'') \<and> char_at s 13 = Some (CHR '':'') \<and> char_at s 16 = Some (CHR '':'') \<and>
             m \<le> 59 \<and> c \<le> 59 \<and> (h \<le> 23 \<or> h = 24 \<and> m = 0 \<and> c = 0)
          then Some (h, m, c) else None
      | _ \<Rightarrow> None)"

definition date_ms :: "string \<Rightarrow> int option" where
  "date_ms s =
     (case date_part s of
        None \<Rightarrow> None
      | Some (y, mo, d) \<Rightarrow>
          if length s = 10 then Some (civil_ms y mo d 0 0 0 0)
          else (case time_part s of
              None \<Rightarrow> None
            | Some (h, mi, c) \<Rightarrow>
                (case fraction_ms (drop 19 s) of
                   None \<Rightarrow> None
                 | Some (ms, z) \<Rightarrow>
                     map_option (\<lambda>zm. civil_ms y mo d h mi c ms - zm * 60000) (zone_minutes z))))"

lemmas date_eval = date_ms_def date_part_def time_part_def fraction_ms_def zone_minutes_def field_def
  char_at_def all_digits_def civil_ms_def days_from_civil_def year_base_def read_nat_def pad_right_def

lemma epoch: "date_ms ''1970-01-01T00:00:00Z'' = Some 0"
  by (simp add: date_eval js_simps)

lemma date_ms_offset: "date_ms ''2026-09-17T14:00:00.1239+02:00'' = Some 1789646400123"
  by (simp add: date_eval js_simps)

lemma date_ms_rejects: "date_ms ''2026-13-01T00:00:00Z'' = None" "date_ms [] = None"
  by (simp_all add: date_eval js_simps)

text \<open>The day count grows by one from one day of a month to the next, by 31 from January to
  February, and by a year's length from January to January.\<close>

lemma days_next_day: "days_from_civil y m (d + 1) = days_from_civil y m d + 1"
  by (simp add: days_from_civil_def)

lemma days_jan_feb: "days_from_civil y 2 d = days_from_civil y 1 d + 31"
  by (simp add: days_from_civil_def)

definition leap :: "int \<Rightarrow> bool" where
  "leap y \<longleftrightarrow> y mod 4 = 0 \<and> (\<not> y mod 100 = 0 \<or> y mod 400 = 0)"

lemma div_split_multiple:
  fixes z a b :: int
  assumes "0 < a"
  shows "z div a = b * (z div (a * b)) + z mod (a * b) div a"
proof -
  have "z = z mod (a * b) + (b * (z div (a * b))) * a"
    by (metis mult.assoc mult.commute mult_div_mod_eq add.commute)
  then have "z div a = (z mod (a * b) + (b * (z div (a * b))) * a) div a" by simp
  also have "\<dots> = b * (z div (a * b)) + z mod (a * b) div a" using assms by simp
  finally show ?thesis .
qed

lemma year_base_eq: "year_base z = 365 * z + z div 4 - z div 100 + z div 400"
proof -
  have "z div 4 = 100 * (z div 400) + z mod 400 div 4" using div_split_multiple [of 4 z 100] by simp
  moreover have "z div 100 = 4 * (z div 400) + z mod 400 div 100" using div_split_multiple [of 100 z 4] by simp
  moreover have "z = 400 * (z div 400) + z mod 400" by simp
  ultimately show ?thesis unfolding year_base_def by linarith
qed

lemma div_step:
  fixes y m :: int
  assumes "1 < m"
  shows "y div m - (y - 1) div m = (if y mod m = 0 then 1 else 0)"
proof (cases "y mod m = 0")
  case True
  have "(y - 1) div m = y div m - 1"
    by (rule int_div_pos_eq [of _ _ _ "m - 1"]) (use True assms in \<open>auto simp: algebra_simps\<close>)
  with True show ?thesis by simp
next
  case False
  have r: "0 \<le> y mod m" "y mod m < m" using assms by simp_all
  have "(y - 1) div m = y div m"
    by (rule int_div_pos_eq [of _ _ _ "y mod m - 1"]) (use False r in \<open>auto simp: algebra_simps\<close>)
  with False show ?thesis by simp
qed

lemma leap_cases: "(y::int) mod 400 = 0 \<Longrightarrow> y mod 100 = 0" "(y::int) mod 100 = 0 \<Longrightarrow> y mod 4 = 0"
  using mod_mod_cancel [of 100 400 y] mod_mod_cancel [of 4 100 y] by auto

lemma leap_sum:
  "(R \<Longrightarrow> Q) \<Longrightarrow> (Q \<Longrightarrow> P) \<Longrightarrow>
   (365 :: int) + (if P then 1 else 0) - (if Q then 1 else 0) + (if R then 1 else 0)
     = (if P \<and> (\<not> Q \<or> R) then 366 else 365)"
  by (cases P; cases Q; cases R; simp)

lemma sum_steps:
  fixes a :: int
  assumes "a - a' = da" "b - b' = db" "c - c' = dc"
  shows "365 * y + a - b + c = 365 * (y - 1) + a' - b' + c' + (365 + da - db + dc)"
proof -
  have "a = da + a'" "b = db + b'" "c = dc + c'" using assms by simp_all
  then show ?thesis by simp
qed

lemma year_length: "year_base y = year_base (y - 1) + (if leap y then 366 else 365)"
proof -
  have "(365 :: int) + (if y mod 4 = 0 then 1 else 0) - (if y mod 100 = 0 then 1 else 0)
      + (if y mod 400 = 0 then 1 else 0) = (if leap y then 366 else 365)"
    unfolding leap_def by (rule leap_sum) (fact leap_cases)+
  note len = this [symmetric]
  show ?thesis
    unfolding year_base_eq len by (rule sum_steps; rule div_step) simp_all
qed

lemma days_feb_mar: "days_from_civil y 3 1 = days_from_civil y 2 1 + (if leap y then 29 else 28)"
  by (simp add: days_from_civil_def year_length [of y])

end
