(* ===== verification/Format.thy ===== *)
theory Format
  imports Js_Text Dates Api_Core Api_Ops "HOL-Library.Word"
begin

unbundle bit_operations_syntax

text \<open>
  Display formatting (web/lib/format.ts). A number that may be NaN or infinite is a
  \<open>real option\<close> (\<open>None\<close> when \<open>Number.isFinite\<close> is false). The clock is an argument
  (\<open>now\<close>, in milliseconds), and so are the texts the browser's locale produces.
\<close>

type_synonym jsnum = "real option"

definition emdash :: string where
  "emdash = [CHR 0xE2, CHR 0x80, CHR 0x94]"

definition arrow :: string where
  "arrow = [CHR 0xE2, CHR 0x86, CHR 0x92]"

section \<open>Sizes and percentages\<close>

text \<open>The loop of \<open>bytes\<close>: divide by 1024 while the value is large and a unit is left.\<close>

function scale1024 :: "nat \<Rightarrow> real \<Rightarrow> nat \<Rightarrow> real \<times> nat" where
  "scale1024 k n i = (if 1024 \<le> n \<and> i < k then scale1024 k (n / 1024) (Suc i) else (n, i))"
  by pat_completeness auto
termination
  by (relation "measure (\<lambda>(k, n, i). k - i)") auto

declare scale1024.simps [simp del]

definition byte_units :: "string list" where
  "byte_units = [''B'', ''KB'', ''MB'', ''GB'', ''TB'', ''PB'']"

definition bytes :: "jsnum \<Rightarrow> nat \<Rightarrow> string" where
  "bytes num digs =
     (case num of None \<Rightarrow> emdash
      | Some n0 \<Rightarrow>
          if n0 < 0 then emdash
          else (let (n, i) = scale1024 (length byte_units - 1) n0 0
                in (if 100 \<le> n \<or> i = 0 then show_int (js_round n) else to_fixed digs n) @
                   '' '' @ byte_units ! i))"

definition short_units :: "string list" where
  "short_units = [''B'', ''K'', ''M'', ''G'', ''T'']"

definition bytesShort :: "jsnum \<Rightarrow> string" where
  "bytesShort num =
     (case num of None \<Rightarrow> emdash
      | Some n0 \<Rightarrow>
          if n0 < 0 then emdash
          else (let (n, i) = scale1024 (length short_units - 1) n0 0
                in (if 10 \<le> n \<or> i = 0 then show_int (js_round n) else to_fixed 1 n) @ short_units ! i))"

definition pct :: "jsnum \<Rightarrow> nat \<Rightarrow> string" where
  "pct num digs =
     (case num of None \<Rightarrow> emdash
      | Some n \<Rightarrow> if n < 0 then emdash else to_fixed digs n @ ''%'')"

definition uptimePct :: "real \<Rightarrow> string" where
  "uptimePct n =
     (if n < 0 then emdash
      else if n \<ge> 99.995 then ''100%''
      else to_fixed (if n \<ge> 99 then 2 else 1) n @ ''%'')"

section \<open>Durations and ages\<close>

definition duration :: "jsnum \<Rightarrow> string" where
  "duration num =
     (case num of None \<Rightarrow> emdash
      | Some s0 \<Rightarrow>
          if s0 < 0 then emdash
          else (let sec = \<lfloor>s0\<rfloor>; d = sec div 86400; h = (sec mod 86400) div 3600; m = (sec mod 3600) div 60
                in if d > 0 then (if h \<noteq> 0 then show_int d @ ''d '' @ show_int h @ ''h'' else show_int d @ ''d'')
                   else if h > 0 then (if m \<noteq> 0 then show_int h @ ''h '' @ show_int m @ ''m'' else show_int h @ ''h'')
                   else if m > 0 then show_int m @ ''m''
                   else show_int sec @ ''s''))"

text \<open>\<open>since\<close> in seconds: -1 for a missing timestamp, \<open>None\<close> (NaN) for an unreadable one.\<close>

definition since :: "int \<Rightarrow> string option \<Rightarrow> jsnum" where
  "since now ts =
     (case ts of None \<Rightarrow> Some (- 1)
      | Some s \<Rightarrow> if s = [] then Some (- 1) else map_option (\<lambda>t. real_of_int (now - t) / 1000) (date_ms s))"

definition ago :: "(string \<Rightarrow> string) \<Rightarrow> int \<Rightarrow> string option \<Rightarrow> string" where
  "ago localeDate now ts =
     (case ts of None \<Rightarrow> ''never''
      | Some t \<Rightarrow>
          if t = [] then ''never''
          else (case since now ts of
              None \<Rightarrow> localeDate t
            | Some s \<Rightarrow>
                if s < 45 then ''just now''
                else if s < 3600 then show_int (js_round (s / 60)) @ ''m ago''
                else if s < 86400 then show_int (js_round (s / 3600)) @ ''h ago''
                else if s < 86400 * 14 then show_int (js_round (s / 86400)) @ ''d ago''
                else localeDate t))"

definition clock :: "(bool \<Rightarrow> string \<Rightarrow> string) \<Rightarrow> string option \<Rightarrow> bool \<Rightarrow> string" where
  "clock localeTime ts seconds =
     (case ts of None \<Rightarrow> '''' | Some s \<Rightarrow> if s = [] then '''' else localeTime seconds s)"

definition dateTime :: "(string \<Rightarrow> string) \<Rightarrow> string option \<Rightarrow> string" where
  "dateTime localeDateTime ts =
     (case ts of None \<Rightarrow> '''' | Some s \<Rightarrow> if s = [] then '''' else localeDateTime s)"

text \<open>\<open>greeting\<close> of the local hour.\<close>

definition greeting :: "nat \<Rightarrow> string" where
  "greeting h =
     (if h < 5 then ''Good evening''
      else if h < 12 then ''Good morning''
      else if h < 18 then ''Good afternoon''
      else ''Good evening'')"

definition plural :: "int \<Rightarrow> string \<Rightarrow> string \<Rightarrow> string" where
  "plural n one many = show_int n @ '' '' @ (if n = 1 then one else many)"

text \<open>The default of the third argument.\<close>

definition plural_s :: "int \<Rightarrow> string \<Rightarrow> string" where
  "plural_s n one = plural n one (one @ ''s'')"

section \<open>Status colours\<close>

definition C_ok :: string where "C_ok = ''#22a06b''"
definition C_warn :: string where "C_warn = ''#e0a020''"
definition C_crit :: string where "C_crit = ''#e2504c''"
definition C_blue :: string where "C_blue = ''#2f6fed''"
definition C_violet :: string where "C_violet = ''#7a5cf0''"
definition C_muted :: string where "C_muted = ''var(--muted)''"

lemmas colours = C_ok_def C_warn_def C_crit_def C_blue_def C_violet_def C_muted_def

definition hex_digit :: "char \<Rightarrow> bool" where
  [js_simps]: "hex_digit c \<longleftrightarrow> digit c \<or> (97 \<le> code c \<and> code c \<le> 102) \<or> (65 \<le> code c \<and> code c \<le> 70)"

definition hex_val :: "char \<Rightarrow> nat" where
  [js_simps]: "hex_val c = (if digit c then code c - 48 else if 97 \<le> code c then code c - 87 else code c - 55)"

text \<open>
  \<open>parseInt(s, 16)\<close> under a bitwise operator: the longest prefix of hex digits as a 32-bit
  integer; no digit is NaN, which the operator reads as 0. (A sign, white space or a
  \<open>0x\<close> prefix does not occur after the \<open>#\<close> of a colour.)
\<close>

definition hex_word :: "string \<Rightarrow> 32 word" where
  "hex_word s = foldl (\<lambda>n c. 16 * n + of_nat (hex_val c)) 0 (takeWhile hex_digit s)"

definition byte_of :: "nat \<Rightarrow> 32 word \<Rightarrow> nat" where
  "byte_of k n = unat (drop_bit k n AND 255)"

datatype rgba = Transparent | Rgba nat nat nat real

definition halo :: "string \<Rightarrow> real \<Rightarrow> rgba" where
  "halo hex a =
     (if \<not> starts_with hex ''#'' then Transparent
      else (let n = hex_word (tl hex) in Rgba (byte_of 16 n) (byte_of 8 n) (byte_of 0 n) a))"

definition hex_char :: "nat \<Rightarrow> char" where
  "hex_char d = (if d < 10 then char_of (48 + d) else char_of (87 + d))"

text \<open>\<open>n.toString(16)\<close>\<close>

fun show_hex :: "nat \<Rightarrow> string" where
  "show_hex n = (if n < 16 then [hex_char n] else show_hex (n div 16) @ [hex_char (n mod 16)])"

declare show_hex.simps [simp del]

definition shade_channel :: "real \<Rightarrow> nat \<Rightarrow> nat" where
  "shade_channel amt c = nat (max 0 (min 255 (js_round (real c + real c * amt))))"

definition shade :: "string \<Rightarrow> real \<Rightarrow> string" where
  "shade hex amt =
     (if \<not> starts_with hex ''#'' \<or> length hex \<noteq> 7 then hex
      else (let n = hex_word (tl hex);
                r = shade_channel amt (byte_of 16 n);
                g = shade_channel amt (byte_of 8 n);
                b = shade_channel amt (byte_of 0 n)
            in ''#'' @ pad_left 6 (CHR ''0'')
                 (show_hex (unat (push_bit 16 (of_nat r :: 32 word) OR push_bit 8 (of_nat g) OR of_nat b)))))"

definition hostStatusColor :: "host_status \<Rightarrow> string" where
  "hostStatusColor s =
     (if s = HS_online then C_ok else if s = HS_degraded then C_warn else if s = HS_offline then C_crit else C_muted)"

fun hostStatusPill :: "host_status \<Rightarrow> string \<times> string" where
  "hostStatusPill HS_online = (''ok'', ''Online'')"
| "hostStatusPill HS_degraded = (''warn'', ''Degraded'')"
| "hostStatusPill HS_offline = (''crit'', ''Offline'')"
| "hostStatusPill HS_pending = (''muted'', ''Connecting'')"

definition containerColor :: "container_state \<Rightarrow> health \<Rightarrow> string" where
  "containerColor state h =
     (if state = CS_running then (if h = Health_unhealthy then C_crit else if h = Health_starting then C_warn else C_ok)
      else if state = CS_restarting \<or> state = CS_paused then C_warn
      else if state = CS_exited \<or> state = CS_dead then C_crit
      else C_muted)"

fun container_state_text :: "container_state \<Rightarrow> string" where
  "container_state_text CS_running = ''running''"
| "container_state_text CS_exited = ''exited''"
| "container_state_text CS_paused = ''paused''"
| "container_state_text CS_restarting = ''restarting''"
| "container_state_text CS_created = ''created''"
| "container_state_text CS_dead = ''dead''"
| "container_state_text CS_removing = ''removing''"

definition capitalise :: "string \<Rightarrow> string" where
  "capitalise s = (case s of [] \<Rightarrow> [] | c # t \<Rightarrow> upper_char c # t)"

definition containerStateLabel :: "container_state \<Rightarrow> health \<Rightarrow> string" where
  "containerStateLabel state h =
     (if state = CS_running \<and> h = Health_unhealthy then ''Unhealthy''
      else if state = CS_running \<and> h = Health_starting then ''Starting''
      else capitalise (container_state_text state))"

definition severityColor :: "severity \<Rightarrow> string" where
  "severityColor s = (if s = Sev_crit then C_crit else if s = Sev_warn then C_warn else if s = Sev_ok then C_ok else C_blue)"

definition upColor :: "up_status option \<Rightarrow> string" where
  "upColor s =
     (if s = Some Up_up then C_ok else if s = Some Up_degraded then C_warn
      else if s = Some Up_down then C_crit else ''var(--line-2)'')"

definition loadColor :: "real \<Rightarrow> string \<Rightarrow> string" where
  "loadColor p base = (if p \<ge> 90 then C_crit else if p \<ge> 75 then C_warn else base)"

text \<open>The conic gradient of a ring gauge: its colour and its angle in degrees.\<close>

definition ring :: "real \<Rightarrow> string \<Rightarrow> string \<times> real" where
  "ring p color = (let v = max 0 (min 100 p) in (color, v * 3.6))"

section \<open>Ports, names\<close>

text \<open>\<open>Array.from(new Set(xs))\<close>: the first occurrence of each element.\<close>

definition uniq :: "'a list \<Rightarrow> 'a list" where
  "uniq xs = rev (remdups (rev xs))"

fun proto_text :: "port_map_proto \<Rightarrow> string" where
  "proto_text Proto_tcp = ''tcp''"
| "proto_text Proto_udp = ''udp''"

definition port_text :: "port_map \<Rightarrow> string" where
  "port_text p = show_int (pm_host p) @ arrow @ show_int (pm_container p)"

definition published :: "port_map list \<Rightarrow> port_map list" where
  "published ports = filter (\<lambda>p. pm_host p > 0) ports"

definition portsText :: "port_map list \<Rightarrow> string" where
  "portsText ports =
     (if published ports = [] then
        (case ports of [] \<Rightarrow> ''no ports''
         | p # _ \<Rightarrow> show_int (pm_container p) @ ''/'' @ proto_text (pm_proto p) @ '' (internal)'')
      else join '', '' (uniq (map port_text (published ports))))"

definition initial :: "string \<Rightarrow> string" where
  "initial name = [upper_char (case trim name of [] \<Rightarrow> CHR ''?'' | c # _ \<Rightarrow> c)]"

definition AVATAR_COLORS :: "string list" where
  "AVATAR_COLORS = [''#2f6fed'', ''#7a5cf0'', ''#22a06b'', ''#e0a020'', ''#e2504c'', ''#14b8c4'', ''#d9468f'', ''#5f6675'']"

text \<open>An avatar background: the gradient as given, or a gradient of two colours.\<close>

datatype background = Css string | Gradient string string

definition avatarBg :: "string \<Rightarrow> background" where
  "avatarBg color = (if str_includes color ''gradient'' then Css color else Gradient color (shade color (-0.18)))"

definition shortSha :: "string option \<Rightarrow> string" where
  "shortSha sha = take 7 (case sha of None \<Rightarrow> '''' | Some s \<Rightarrow> s)"

section \<open>What the sizes say\<close>

lemma scale1024_inv:
  "scale1024 k n i = (v, j) \<Longrightarrow> 0 \<le> n \<Longrightarrow> i \<le> k \<Longrightarrow>
   n = v * 1024 ^ (j - i) \<and> i \<le> j \<and> j \<le> k \<and> (v < 1024 \<or> j = k) \<and> (j = i \<or> 1 \<le> v)"
proof (induction k n i arbitrary: v j rule: scale1024.induct)
  case (1 k n i)
  show ?case
  proof (cases "1024 \<le> n \<and> i < k")
    case True
    with "1.prems" have r: "scale1024 k (n / 1024) (Suc i) = (v, j)" by (simp add: scale1024.simps [of k n])
    have IH: "n / 1024 = v * 1024 ^ (j - Suc i) \<and> Suc i \<le> j \<and> j \<le> k \<and> (v < 1024 \<or> j = k) \<and> (j = Suc i \<or> 1 \<le> v)"
      using "1.IH" [OF True r] True "1.prems" by simp
    have "Suc i \<le> j" using IH by blast
    then have ji: "j - i = Suc (j - Suc i)" by simp
    have "n = v * 1024 ^ (j - i)" using IH unfolding ji by (simp add: field_simps)
    moreover have "1 \<le> v" using IH True by (cases "j = Suc i") auto
    ultimately show ?thesis using IH by simp
  next
    case False
    with "1.prems" show ?thesis by (auto simp: scale1024.simps [of k n])
  qed
qed

text \<open>A size is shown as its value in the unit it names, scaled exactly by powers of 1024 and
  at least 1 of that unit; the value is below 1024 except in the largest unit.\<close>

theorem bytes_denotes:
  assumes "0 \<le> n"
  shows "\<exists>v i. bytes (Some n) d =
           (if 100 \<le> v \<or> i = 0 then show_int (js_round v) else to_fixed d v) @ '' '' @ byte_units ! i \<and>
         n = v * 1024 ^ i \<and> i < length byte_units \<and>
         (v < 1024 \<or> i = length byte_units - 1) \<and> (i = 0 \<or> 1 \<le> v)"
proof -
  obtain v i where vi: "scale1024 (length byte_units - 1) n 0 = (v, i)" by fastforce
  have b: "bytes (Some n) d =
      (if 100 \<le> v \<or> i = 0 then show_int (js_round v) else to_fixed d v) @ '' '' @ byte_units ! i"
    using assms by (simp add: bytes_def vi del: append.simps One_nat_def)
  have "n = v * 1024 ^ (i - 0) \<and> 0 \<le> i \<and> i \<le> length byte_units - 1 \<and>
      (v < 1024 \<or> i = length byte_units - 1) \<and> (i = 0 \<or> 1 \<le> v)"
    by (rule scale1024_inv [OF vi assms]) simp
  moreover have "length byte_units = 6" by (simp add: byte_units_def)
  ultimately show ?thesis
    by (intro exI [of _ v] exI [of _ i] conjI) (rule b, auto)
qed

section \<open>Hexadecimal colours\<close>

lemma hex_char_digit: "d < 16 \<Longrightarrow> hex_digit (hex_char d)"
  by (auto simp: hex_char_def js_simps)

lemma hex_val_hex_char: "d < 16 \<Longrightarrow> hex_val (hex_char d) = d"
  by (auto simp: hex_char_def js_simps)

definition hex_fold :: "string \<Rightarrow> 32 word" where
  "hex_fold s = foldl (\<lambda>n c. 16 * n + of_nat (hex_val c)) 0 s"

lemma show_hex_digits: "list_all hex_digit (show_hex n)"
proof (induction n rule: show_hex.induct)
  case (1 n)
  then show ?case
    by (cases "n < 16") (simp_all add: show_hex.simps [of n] hex_char_digit)
qed

lemma hex_fold_show_hex: "hex_fold (show_hex n) = of_nat n"
proof (induction n rule: show_hex.induct)
  case (1 n)
  show ?case
  proof (cases "n < 16")
    case True
    then show ?thesis by (simp add: show_hex.simps [of n] hex_fold_def hex_val_hex_char)
  next
    case False
    then have "hex_fold (show_hex n) = 16 * hex_fold (show_hex (n div 16)) + of_nat (n mod 16)"
      by (simp add: show_hex.simps [of n] hex_fold_def hex_val_hex_char)
    also have "\<dots> = of_nat (16 * (n div 16) + n mod 16)"
      using 1 False by (simp only: of_nat_add of_nat_mult) simp
    also have "16 * (n div 16) + n mod 16 = n" by simp
    finally show ?thesis .
  qed
qed

lemma length_show_hex: "n < 16 ^ Suc k \<Longrightarrow> length (show_hex n) \<le> Suc k"
proof (induction n arbitrary: k rule: show_hex.induct)
  case (1 n)
  show ?case
  proof (cases "n < 16")
    case True
    then show ?thesis by (simp add: show_hex.simps [of n])
  next
    case False
    with "1.prems" obtain k' where k: "k = Suc k'" by (cases k) auto
    with "1.prems" have "n div 16 < 16 ^ Suc k'" by (simp add: less_mult_imp_div_less)
    with 1 False k show ?thesis by (simp add: show_hex.simps [of n])
  qed
qed

lemma hex_fold_zeros: "hex_fold (replicate k (CHR ''0'') @ s) = hex_fold s"
  by (induction k) (simp_all add: hex_fold_def js_simps)

lemma hex_word_fold: "list_all hex_digit s \<Longrightarrow> hex_word s = hex_fold s"
proof -
  assume "list_all hex_digit s"
  then have "takeWhile hex_digit s = s" by (auto simp: takeWhile_eq_all_conv list_all_iff)
  then show ?thesis unfolding hex_word_def hex_fold_def by (simp only:)
qed

lemma zero_hex: "hex_digit (CHR ''0'')"
  by (simp add: js_simps)

lemma hex_word_padded:
  assumes "unat w < 16 ^ 6"
  shows "hex_word (pad_left 6 (CHR ''0'') (show_hex (unat w))) = w"
    and "length (pad_left 6 (CHR ''0'') (show_hex (unat w))) = 6"
    and "list_all hex_digit (pad_left 6 (CHR ''0'') (show_hex (unat w)))"
proof -
  show hx: "list_all hex_digit (pad_left 6 (CHR ''0'') (show_hex (unat w)))"
    using show_hex_digits [of "unat w"] zero_hex by (auto simp: pad_left_def list_all_iff)
  then show "hex_word (pad_left 6 (CHR ''0'') (show_hex (unat w))) = w"
    by (simp add: hex_word_fold pad_left_def hex_fold_zeros hex_fold_show_hex)
  show "length (pad_left 6 (CHR ''0'') (show_hex (unat w))) = 6"
    using length_show_hex [of "unat w" 5] assms by (simp add: pad_left_def)
qed

lemma high_bits_zero: "take_bit 8 (r :: 32 word) = r \<Longrightarrow> 8 \<le> n \<Longrightarrow> \<not> bit r n"
  by (metis bit_take_bit_iff not_less)

lemma pack_bytes:
  fixes r g b :: "32 word"
  assumes "take_bit 8 r = r" "take_bit 8 g = g" "take_bit 8 b = b"
  defines "w \<equiv> push_bit 16 r OR push_bit 8 g OR b"
  shows "take_bit 8 (drop_bit 16 w) = r" "take_bit 8 (drop_bit 8 w) = g" "take_bit 8 (drop_bit 0 w) = b"
    and "take_bit 24 w = w"
proof -
  note hi = high_bits_zero [OF assms(1)] high_bits_zero [OF assms(2)] high_bits_zero [OF assms(3)]
  note bits = bit_take_bit_iff bit_drop_bit_eq bit_or_iff bit_push_bit_iff
  show "take_bit 8 (drop_bit 16 w) = r"
  proof (rule bit_word_eqI)
    fix n
    show "bit (take_bit 8 (drop_bit 16 w)) n = bit r n"
      using hi(1) [of n] hi(2) [of "8 + n"] hi(3) [of "16 + n"]
      by (cases "n < 8") (simp_all add: w_def bits)
  qed
  show "take_bit 8 (drop_bit 8 w) = g"
  proof (rule bit_word_eqI)
    fix n
    show "bit (take_bit 8 (drop_bit 8 w)) n = bit g n"
      using hi(2) [of n] hi(3) [of "8 + n"]
      by (cases "n < 8") (simp_all add: w_def bits)
  qed
  show "take_bit 8 (drop_bit 0 w) = b"
  proof (rule bit_word_eqI)
    fix n
    show "bit (take_bit 8 (drop_bit 0 w)) n = bit b n"
      using hi(3) [of n] by (cases "n < 8") (simp_all add: w_def bits)
  qed
  show "take_bit 24 w = w"
  proof (rule bit_word_eqI)
    fix n
    show "bit (take_bit 24 w) n = bit w n"
      using hi(1) [of "n - 16"] hi(2) [of "n - 8"] hi(3) [of n]
      by (cases "n < 24") (simp_all add: w_def bits)
  qed
qed

lemma and_255: "(w :: 32 word) AND 255 = take_bit 8 w"
  by (simp add: take_bit_eq_mask mask_eq_exp_minus_1)

lemma byte_fits: "c \<le> 255 \<Longrightarrow> take_bit 8 (of_nat c :: 32 word) = of_nat c"
  by (simp add: take_bit_of_nat take_bit_nat_eq_self)

lemma shade_channel_le: "shade_channel amt c \<le> 255"
  by (simp add: shade_channel_def)

definition hex_colour :: "string \<Rightarrow> bool" where
  "hex_colour s \<longleftrightarrow> starts_with s ''#'' \<and> length s = 7 \<and> list_all hex_digit (tl s)"

lemma shade_packed:
  assumes "r \<le> 255" "g \<le> 255" "b \<le> 255"
  defines "w \<equiv> push_bit 16 (of_nat r :: 32 word) OR push_bit 8 (of_nat g) OR of_nat b"
  shows "byte_of 16 w = r" "byte_of 8 w = g" "byte_of 0 w = b" "unat w < 16 ^ 6"
proof -
  note p = pack_bytes [OF byte_fits [OF assms(1)] byte_fits [OF assms(2)] byte_fits [OF assms(3)], folded w_def]
  have u: "c \<le> 255 \<Longrightarrow> unat (of_nat c :: 32 word) = c" for c
    by (simp add: unsigned_of_nat take_bit_nat_eq_self)
  show "byte_of 16 w = r" "byte_of 8 w = g" "byte_of 0 w = b"
    using p(1-3) assms(1-3) by (simp_all add: byte_of_def and_255 u)
  have "unat (take_bit 24 w) < 2 ^ 24"
    by (simp only: unsigned_take_bit_eq take_bit_nat_less_exp)
  then show "unat w < 16 ^ 6" by (simp add: p(4))
qed

lemma shade_channel_facts:
  assumes "hex_colour hex"
  shows "hex_colour (shade hex amt)"
    and "k \<in> {0, 8, 16} \<Longrightarrow>
      byte_of k (hex_word (tl (shade hex amt))) = shade_channel amt (byte_of k (hex_word (tl hex)))"
proof -
  let ?n = "hex_word (tl hex)"
  define w where "w = push_bit 16 (of_nat (shade_channel amt (byte_of 16 ?n)) :: 32 word) OR
    push_bit 8 (of_nat (shade_channel amt (byte_of 8 ?n))) OR of_nat (shade_channel amt (byte_of 0 ?n))"
  have sh: "shade hex amt = CHR ''#'' # pad_left 6 (CHR ''0'') (show_hex (unat w))"
    using assms by (simp add: shade_def hex_colour_def w_def Let_def)
  note pk = shade_packed [OF shade_channel_le shade_channel_le shade_channel_le,
      of amt "byte_of 16 ?n" amt "byte_of 8 ?n" amt "byte_of 0 ?n", folded w_def]
  note hx = hex_word_padded [OF pk(4)]
  show "hex_colour (shade hex amt)" using hx by (simp add: sh hex_colour_def starts_with_def)
  show "k \<in> {0, 8, 16} \<Longrightarrow>
      byte_of k (hex_word (tl (shade hex amt))) = shade_channel amt (byte_of k ?n)"
    using pk hx by (auto simp: sh)
qed

text \<open>Shading a \<open>#rrggbb\<close> colour gives a \<open>#rrggbb\<close> colour again, whose red, green and blue are
  each scaled on their own and clamped to 0..255: no channel spills into another.\<close>

theorem shade_channels:
  assumes "hex_colour hex"
  shows "hex_colour (shade hex amt) \<and>
    (\<forall>k. k = 0 \<or> k = 8 \<or> k = 16 \<longrightarrow>
      byte_of k (hex_word (tl (shade hex amt))) = shade_channel amt (byte_of k (hex_word (tl hex))))"
  using shade_channel_facts [OF assms] by auto

lemma shade_channels_witness:
  "hex_colour (shade ''#2f6fed'' (1 / 10)) \<and>
   byte_of 0 (hex_word (tl (shade ''#2f6fed'' (1 / 10)))) = 255"
proof -
  have h: "hex_colour ''#2f6fed''" by code_simp
  have b: "byte_of 0 (hex_word (tl ''#2f6fed'')) = 237" by code_simp
  have "shade_channel (1 / 10) 237 = 255" by (simp add: shade_channel_def js_round_def)
  then show ?thesis using shade_channels [OF h, of "1 / 10"] b by simp
qed

section \<open>What the durations and ages say\<close>

text \<open>A duration read back: the text, the seconds it shows, and the unit below which the rest
  is dropped. At most the two largest units are shown, the second only when it is not zero.\<close>

inductive duration_value :: "string \<Rightarrow> int \<Rightarrow> int \<Rightarrow> bool" where
  days_hours: "0 < d \<Longrightarrow> 0 < h \<Longrightarrow> h < 24 \<Longrightarrow>
    duration_value (show_int d @ ''d '' @ show_int h @ ''h'') (86400 * d + 3600 * h) 3600"
| days: "0 < d \<Longrightarrow> duration_value (show_int d @ ''d'') (86400 * d) 3600"
| hours_minutes: "0 < h \<Longrightarrow> h < 24 \<Longrightarrow> 0 < m \<Longrightarrow> m < 60 \<Longrightarrow>
    duration_value (show_int h @ ''h '' @ show_int m @ ''m'') (3600 * h + 60 * m) 60"
| hours: "0 < h \<Longrightarrow> h < 24 \<Longrightarrow> duration_value (show_int h @ ''h'') (3600 * h) 60"
| minutes: "0 < m \<Longrightarrow> m < 60 \<Longrightarrow> duration_value (show_int m @ ''m'') (60 * m) 60"
| seconds: "0 \<le> s \<Longrightarrow> s < 60 \<Longrightarrow> duration_value (show_int s @ ''s'') s 1"

lemma day_split:
  fixes sec :: int
  assumes "0 \<le> sec"
  defines "d \<equiv> sec div 86400" and "h \<equiv> sec mod 86400 div 3600" and "m \<equiv> sec mod 3600 div 60"
  shows "0 \<le> d" "0 \<le> h" "h < 24" "0 \<le> m" "m < 60"
    and "86400 * d + 3600 * h \<le> sec" "sec < 86400 * d + 3600 * h + 3600"
    and "86400 * d + 3600 * h + 60 * m \<le> sec" "sec < 86400 * d + 3600 * h + 60 * m + 60"
proof -
  have s: "sec = 86400 * d + sec mod 86400" by (simp add: d_def)
  have r: "sec mod 86400 = 3600 * h + sec mod 86400 mod 3600" by (simp add: h_def)
  have q: "sec mod 86400 mod 3600 = sec mod 3600" by (rule mod_mod_cancel) simp
  have t: "sec mod 3600 = 60 * m + sec mod 3600 mod 60" by (simp add: m_def)
  have b: "0 \<le> sec mod 86400" "sec mod 86400 < 86400" "0 \<le> sec mod 3600" "sec mod 3600 < 3600"
    "0 \<le> sec mod 3600 mod 60" "sec mod 3600 mod 60 < 60" by simp_all
  show "0 \<le> d" using assms(1) by (simp add: d_def pos_imp_zdiv_nonneg_iff)
  show "0 \<le> h" "0 \<le> m" by (simp_all add: h_def m_def pos_imp_zdiv_nonneg_iff)
  show "h < 24" using r q b by simp
  show "m < 60" using t b by simp
  show "86400 * d + 3600 * h \<le> sec" "sec < 86400 * d + 3600 * h + 3600" using s r q b by simp_all
  show "86400 * d + 3600 * h + 60 * m \<le> sec" "sec < 86400 * d + 3600 * h + 60 * m + 60"
    using s r q t b by simp_all
qed

lemma bytes_denotes_witness:
  "bytes (Some 1536) 1 = ''1.5 KB'' \<and>
   (\<exists>v i. (1536::real) = v * 1024 ^ i \<and> (v < 1024 \<or> i = length byte_units - 1) \<and> (i = 0 \<or> 1 \<le> v))"
proof
  show "bytes (Some 1536) 1 = ''1.5 KB''"
    by (simp add: bytes_def scale1024.simps byte_units_def to_fixed_def fixed_scaled_def show_nat.simps
        digit_char_def pad_left_def digit_literals)
  show "\<exists>v i. (1536::real) = v * 1024 ^ i \<and> (v < 1024 \<or> i = length byte_units - 1) \<and> (i = 0 \<or> 1 \<le> v)"
    using bytes_denotes [of 1536 1] by auto
qed

text \<open>A duration is the exact number of seconds it shows, rounded down by less than its
  smallest shown unit; at most two units are shown.\<close>

theorem duration_truncates:
  assumes "0 \<le> x"
  shows "\<exists>shown unit. duration_value (duration (Some x)) shown unit \<and>
    real_of_int shown \<le> x \<and> x < real_of_int (shown + unit)"
proof -
  define sec where "sec = \<lfloor>x\<rfloor>"
  define d where "d = sec div 86400"
  define h where "h = sec mod 86400 div 3600"
  define m where "m = sec mod 3600 div 60"
  have sec0: "0 \<le> sec" using assms by (simp add: sec_def)
  note b = day_split [OF sec0, folded d_def h_def m_def]
  have fl: "k \<le> sec \<Longrightarrow> sec < k + u \<Longrightarrow> real_of_int k \<le> x \<and> x < real_of_int (k + u)" for k u
    unfolding sec_def by linarith
  have dur: "duration (Some x) =
      (if d > 0 then (if h \<noteq> 0 then show_int d @ ''d '' @ show_int h @ ''h'' else show_int d @ ''d'')
       else if h > 0 then (if m \<noteq> 0 then show_int h @ ''h '' @ show_int m @ ''m'' else show_int h @ ''h'')
       else if m > 0 then show_int m @ ''m'' else show_int sec @ ''s'')"
    using assms by (simp add: duration_def sec_def d_def h_def m_def Let_def)
  consider (dh) "d > 0" | (hm) "d = 0" "h > 0" | (m) "d = 0" "h = 0" "m > 0" | (s) "d = 0" "h = 0" "m = 0"
    using b by linarith
  then show ?thesis
  proof cases
    case dh
    have "duration_value (duration (Some x)) (86400 * d + 3600 * h) 3600"
    proof (cases "h = 0")
      case True
      with dh show ?thesis using days [of d] by (simp add: dur)
    next
      case False
      with dh b(2,3) show ?thesis using days_hours [of d h] by (simp add: dur)
    qed
    then show ?thesis using fl [OF b(6,7)] by blast
  next
    case hm
    have "duration_value (duration (Some x)) (3600 * h + 60 * m) 60"
    proof (cases "m = 0")
      case True
      with hm b(3) show ?thesis using hours [of h] by (simp add: dur)
    next
      case False
      with hm b(3-5) show ?thesis using hours_minutes [of h m] by (simp add: dur)
    qed
    moreover have "3600 * h + 60 * m \<le> sec" "sec < 3600 * h + 60 * m + 60" using b(8,9) hm by simp_all
    ultimately show ?thesis using fl by blast
  next
    case m
    have "duration_value (duration (Some x)) (60 * m) 60"
      using m b(5) minutes [of m] by (simp add: dur)
    moreover have "60 * m \<le> sec" "sec < 60 * m + 60" using b(8,9) m by simp_all
    ultimately show ?thesis using fl by blast
  next
    case s
    have "sec < 60" using b(9) s by simp
    then have "duration_value (duration (Some x)) sec 1"
      using s sec0 seconds [of sec] by (simp add: dur)
    moreover have "sec \<le> sec" "sec < sec + 1" by simp_all
    ultimately show ?thesis using fl by blast
  qed
qed

lemma duration_truncates_witness:
  "duration (Some 90061) = ''1d 1h'' \<and> (\<exists>shown unit. duration_value (duration (Some 90061)) shown unit)"
proof
  show "duration (Some 90061) = ''1d 1h''"
    by (simp add: duration_def show_int_def show_nat.simps digit_char_def digit_literals)
  show "\<exists>shown unit. duration_value (duration (Some 90061)) shown unit"
    using duration_truncates [of 90061] by auto
qed

lemma round_between: "real_of_int a \<le> x \<Longrightarrow> x \<le> real_of_int b \<Longrightarrow> a \<le> js_round x \<and> js_round x \<le> b"
  using js_round_mono [of "real_of_int a" x] js_round_mono [of x "real_of_int b"] by simp

text \<open>An age between 45 seconds and 14 days reads as a whole number of minutes, hours or
  days that is never zero and reaches the next unit's count (60m, 24h, 14d) but not past it.\<close>

theorem ago_units:
  assumes "ts = Some t" "t \<noteq> []" "since now ts = Some s" "45 \<le> s" "s < 86400 * 14"
  shows "\<exists>n u. ago loc now ts = show_int n @ u @ '' ago'' \<and>
    (u = ''m'' \<and> 1 \<le> n \<and> n \<le> 60 \<or> u = ''h'' \<and> 1 \<le> n \<and> n \<le> 24 \<or> u = ''d'' \<and> 1 \<le> n \<and> n \<le> 14)"
proof -
  have up: "y / 2 \<le> x \<Longrightarrow> 0 < y \<Longrightarrow> 1 \<le> js_round (x / y)" for x y :: real
    unfolding js_round_def by (simp add: le_floor_iff field_simps)
  consider "s < 3600" | "3600 \<le> s" "s < 86400" | "86400 \<le> s" by linarith
  then show ?thesis
  proof cases
    case 1
    then have "1 \<le> js_round (s / 60)" "js_round (s / 60) \<le> 60"
      using up [of 60 s] round_between [of 0 "s / 60" 60] assms(4) by auto
    with 1 assms show ?thesis by (intro exI [of _ "js_round (s / 60)"] exI [of _ "''m''"]) (simp add: ago_def)
  next
    case 2
    then have "1 \<le> js_round (s / 3600)" "js_round (s / 3600) \<le> 24"
      using round_between [of 1 "s / 3600" 24] by auto
    with 2 assms show ?thesis by (intro exI [of _ "js_round (s / 3600)"] exI [of _ "''h''"]) (simp add: ago_def)
  next
    case 3
    then have "1 \<le> js_round (s / 86400)" "js_round (s / 86400) \<le> 14"
      using round_between [of 1 "s / 86400" 14] assms(5) by auto
    with 3 assms show ?thesis by (intro exI [of _ "js_round (s / 86400)"] exI [of _ "''d''"]) (simp add: ago_def)
  qed
qed

lemma ago_units_witness:
  "ago (\<lambda>t. t) 0 (Some ''1969-12-31T23:00:01Z'') = ''60m ago'' \<and>
   (\<exists>n u. ago (\<lambda>t. t) 0 (Some ''1969-12-31T23:00:01Z'') = show_int n @ u @ '' ago'')"
proof
  have d: "date_ms ''1969-12-31T23:00:01Z'' = Some (- 3599000)" by code_simp
  have s: "since 0 (Some ''1969-12-31T23:00:01Z'') = Some 3599"
    by (simp add: since_def d del: One_nat_def)
  have "show_int 60 = ''60''" by (simp add: show_int_def show_nat.simps digit_char_def digit_literals)
  moreover have "js_round (3599 / 60) = 60" by (simp add: js_round_def)
  ultimately show "ago (\<lambda>t. t) 0 (Some ''1969-12-31T23:00:01Z'') = ''60m ago''"
    by (simp add: ago_def s)
  show "\<exists>n u. ago (\<lambda>t. t) 0 (Some ''1969-12-31T23:00:01Z'') = show_int n @ u @ '' ago''"
  proof -
    have "''1969-12-31T23:00:01Z'' \<noteq> []" "(45::real) \<le> 3599" "(3599::real) < 86400 * 14" by simp_all
    from ago_units [OF refl this(1) s this(2,3), of "\<lambda>t. t"] show ?thesis by blast
  qed
qed

section \<open>Published ports\<close>

lemma set_uniq [simp]: "set (uniq xs) = set xs"
  by (simp add: uniq_def)

lemma distinct_uniq [simp]: "distinct (uniq xs)"
  by (simp add: uniq_def)

text \<open>When a container publishes a port, its port text is the comma-separated list of its
  published mappings, each exactly once.\<close>

theorem portsText_published:
  assumes "published ports \<noteq> []"
  shows "\<exists>ts. portsText ports = join '', '' ts \<and> distinct ts \<and>
    set ts = {port_text p | p. p \<in> set ports \<and> pm_host p > 0}"
  using assms by (intro exI [of _ "uniq (map port_text (published ports))"])
    (auto simp: portsText_def published_def)

definition sample_ports :: "port_map list" where
  "sample_ports = [\<lparr>pm_ip = [], pm_host = 8080, pm_container = 80, pm_proto = Proto_tcp\<rparr>,
    \<lparr>pm_ip = ''::'', pm_host = 8080, pm_container = 80, pm_proto = Proto_tcp\<rparr>]"

lemma portsText_published_witness:
  "\<exists>ts. portsText sample_ports = join '', '' ts \<and> distinct ts \<and>
    set ts = {port_text p | p. p \<in> set sample_ports \<and> pm_host p > 0}"
  by (rule portsText_published) (simp add: published_def sample_ports_def)

end
