(* ===== verification/Container_Filters.thy ===== *)
theory Container_Filters
  imports Api_Core Dates
begin

text \<open>
  The container filter bar (web/lib/containerFilters.ts): the status buckets and their
  counts, the orderings, the text and stack filters, and the view they compose.
  \<open>lc\<close> is \<open>localeCompare\<close>, whose collation is the browser's.
\<close>

datatype status_filter = F_all | F_running | F_healthy | F_unhealthy | F_starting | F_stopped
  | F_crashed | F_paused | F_restarting | F_updates

datatype sort_key = By_status | By_name | By_cpu | By_mem | By_newest | By_oldest

record status_option =
  so_value :: status_filter
  so_label :: string
  so_color :: "string option"
  so_always :: bool

definition STATUS_FILTERS :: "status_option list" where
  "STATUS_FILTERS =
    [\<lparr>so_value = F_all, so_label = ''All'', so_color = None, so_always = True\<rparr>,
     \<lparr>so_value = F_running, so_label = ''Running'', so_color = Some ''#22a06b'', so_always = True\<rparr>,
     \<lparr>so_value = F_healthy, so_label = ''Healthy'', so_color = Some ''#22a06b'', so_always = False\<rparr>,
     \<lparr>so_value = F_unhealthy, so_label = ''Unhealthy'', so_color = Some ''#e2504c'', so_always = False\<rparr>,
     \<lparr>so_value = F_starting, so_label = ''Starting'', so_color = Some ''#e0a020'', so_always = False\<rparr>,
     \<lparr>so_value = F_restarting, so_label = ''Restarting'', so_color = Some ''#e0a020'', so_always = False\<rparr>,
     \<lparr>so_value = F_paused, so_label = ''Paused'', so_color = Some ''#e0a020'', so_always = False\<rparr>,
     \<lparr>so_value = F_stopped, so_label = ''Stopped'', so_color = Some ''#9aa1ad'', so_always = True\<rparr>,
     \<lparr>so_value = F_crashed, so_label = ''Crashed'', so_color = Some ''#e2504c'', so_always = False\<rparr>,
     \<lparr>so_value = F_updates, so_label = ''Updates'', so_color = Some ''#2f6fed'', so_always = False\<rparr>]"

definition SORTS :: "(sort_key \<times> string) list" where
  "SORTS = [(By_status, ''Status''), (By_name, ''Name''), (By_cpu, ''CPU''), (By_mem, ''Memory''),
    (By_newest, ''Newest''), (By_oldest, ''Oldest'')]"

fun matchesStatus :: "container \<Rightarrow> status_filter \<Rightarrow> bool" where
  "matchesStatus c F_all \<longleftrightarrow> True"
| "matchesStatus c F_running \<longleftrightarrow> c_state c = CS_running"
| "matchesStatus c F_healthy \<longleftrightarrow> c_state c = CS_running \<and> c_health c = Health_healthy"
| "matchesStatus c F_unhealthy \<longleftrightarrow> c_health c = Health_unhealthy"
| "matchesStatus c F_starting \<longleftrightarrow> c_state c = CS_running \<and> c_health c = Health_starting"
| "matchesStatus c F_restarting \<longleftrightarrow> c_state c = CS_restarting"
| "matchesStatus c F_paused \<longleftrightarrow> c_state c = CS_paused"
| "matchesStatus c F_stopped \<longleftrightarrow> c_state c = CS_exited \<or> c_state c = CS_created \<or> c_state c = CS_dead"
| "matchesStatus c F_crashed \<longleftrightarrow> c_state c = CS_dead \<or> (c_state c = CS_exited \<and> c_exitCode c \<noteq> 0)"
| "matchesStatus c F_updates \<longleftrightarrow> container_update_available (c_update c)"

definition statusCounts :: "container list \<Rightarrow> (status_filter \<rightharpoonup> nat)" where
  "statusCounts list =
    foldl (\<lambda>out f. out(so_value f \<mapsto> length (filter (\<lambda>c. matchesStatus c (so_value f)) list)))
      Map.empty STATUS_FILTERS"

text \<open>Problems first, then running, then the rest.\<close>

definition statusRank :: "container \<Rightarrow> nat" where
  "statusRank c =
    (if c_health c = Health_unhealthy \<or> c_state c = CS_dead \<or> (c_state c = CS_exited \<and> c_exitCode c \<noteq> 0) then 0
     else if c_state c = CS_restarting \<or> c_health c = Health_starting then 1
     else if c_state c = CS_running then 2
     else if c_state c = CS_paused then 3
     else 4)"

text \<open>The time of a container, \<open>None\<close> for the \<open>NaN\<close> of a date that does not parse.\<close>

definition time :: "string option \<Rightarrow> int option" where
  "time s = (case s of None \<Rightarrow> Some 0 | Some t \<Rightarrow> if t = [] then Some 0 else date_ms t)"

definition container_time :: "container \<Rightarrow> int option" where
  "container_time c = time (case c_startedAt c of Some s \<Rightarrow> Some s | None \<Rightarrow> Some (c_createdAt c))"

text \<open>A difference of times in front of \<open>||\<close>: \<open>NaN\<close> is falsy, as 0 is.\<close>

definition time_diff :: "int option \<Rightarrow> int option \<Rightarrow> real" where
  "time_diff s t = (case (s, t) of (Some x, Some y) \<Rightarrow> of_int (x - y) | _ \<Rightarrow> 0)"

fun sort_cmp :: "(string \<Rightarrow> string \<Rightarrow> real) \<Rightarrow> sort_key \<Rightarrow> container \<Rightarrow> container \<Rightarrow> real" where
  "sort_cmp lc By_status = or_else (by_key (\<lambda>c. real (statusRank c))) (on_key lc c_name)"
| "sort_cmp lc By_name = on_key lc c_name"
| "sort_cmp lc By_cpu = or_else (\<lambda>a b. c_cpu b - c_cpu a) (on_key lc c_name)"
| "sort_cmp lc By_mem = or_else (\<lambda>a b. of_int (c_memUsed b - c_memUsed a)) (on_key lc c_name)"
| "sort_cmp lc By_newest = or_else (\<lambda>a b. time_diff (container_time b) (container_time a)) (on_key lc c_name)"
| "sort_cmp lc By_oldest = or_else (\<lambda>a b. time_diff (container_time a) (container_time b)) (on_key lc c_name)"

definition sortBy :: "(string \<Rightarrow> string \<Rightarrow> real) \<Rightarrow> container list \<Rightarrow> sort_key \<Rightarrow> container list" where
  "sortBy lc list key = js_sort (sort_cmp lc key) list"

definition NO_STACK :: string where
  "NO_STACK = ''__none__''"

record container_view =
  cv_q :: string
  cv_status :: status_filter
  cv_stack :: string
  cv_sort :: sort_key

definition matchText :: "container \<Rightarrow> string \<Rightarrow> bool" where
  "matchText c q \<longleftrightarrow> q = [] \<or>
    (let s = to_lower q in
      str_includes (to_lower (c_name c)) s \<or> str_includes (to_lower (c_image c)) s \<or>
      str_includes (to_lower (c_stack c)) s \<or> str_includes (to_lower (c_status c)) s)"

definition inStack :: "container_view \<Rightarrow> container \<Rightarrow> bool" where
  "inStack v c \<longleftrightarrow> cv_stack v = [] \<or>
    (if cv_stack v = NO_STACK then c_stack c = [] else c_stack c = cv_stack v)"

definition visibleContainers ::
    "(string \<Rightarrow> string \<Rightarrow> real) \<Rightarrow> container list \<Rightarrow> container_view \<Rightarrow> container list" where
  "visibleContainers lc list v =
    sortBy lc (filter (\<lambda>c. inStack v c \<and> matchesStatus c (cv_status v) \<and> matchText c (cv_q v)) list)
      (cv_sort v)"

section \<open>Counts\<close>

lemma statusCounts_eq: "statusCounts list f = Some (length (filter (\<lambda>c. matchesStatus c f) list))"
  by (cases f) (simp_all add: statusCounts_def STATUS_FILTERS_def)

lemma length_filter_mono: "(\<And>x. x \<in> set xs \<Longrightarrow> P x \<Longrightarrow> Q x) \<Longrightarrow> length (filter P xs) \<le> length (filter Q xs)"
  by (induction xs) (auto simp: le_Suc_eq)

lemma length_filter_disjoint:
  "(\<And>x. \<not> (P x \<and> Q x)) \<Longrightarrow> length (filter (\<lambda>x. P x \<or> Q x) xs) = length (filter P xs) + length (filter Q xs)"
  by (induction xs) auto


lemma lifecycle_filter:
  "length xs = length (filter (\<lambda>c. matchesStatus c F_running) xs) + length (filter (\<lambda>c. matchesStatus c F_restarting) xs)
     + length (filter (\<lambda>c. matchesStatus c F_paused) xs) + length (filter (\<lambda>c. matchesStatus c F_stopped) xs)
     + length (filter (\<lambda>c. c_state c = CS_removing) xs)"
proof (induction xs)
  case (Cons c xs)
  then show ?case by (cases "c_state c") auto
qed simp

text \<open>The life-cycle chips partition the containers: All is the sum of Running, Restarting,
  Paused and Stopped and of the containers being removed, which no chip shows; Crashed is part
  of Stopped, and Healthy and Starting are disjoint parts of Running.\<close>

theorem lifecycle_partition:
  "map_option int (statusCounts list F_all) =
     Some (int (the (statusCounts list F_running)) + int (the (statusCounts list F_restarting)) +
       int (the (statusCounts list F_paused)) + int (the (statusCounts list F_stopped)) +
       int (length (filter (\<lambda>c. c_state c = CS_removing) list))) \<and>
   the (statusCounts list F_crashed) \<le> the (statusCounts list F_stopped) \<and>
   the (statusCounts list F_healthy) + the (statusCounts list F_starting) \<le> the (statusCounts list F_running)"
proof -
  have "length (filter (\<lambda>c. matchesStatus c F_healthy \<or> matchesStatus c F_starting) list) \<le>
      length (filter (\<lambda>c. matchesStatus c F_running) list)"
    by (rule length_filter_mono) auto
  moreover have "length (filter (\<lambda>c. matchesStatus c F_healthy \<or> matchesStatus c F_starting) list) =
      length (filter (\<lambda>c. matchesStatus c F_healthy) list) + length (filter (\<lambda>c. matchesStatus c F_starting) list)"
    by (rule length_filter_disjoint) auto
  moreover have "length (filter (\<lambda>c. matchesStatus c F_crashed) list) \<le> length (filter (\<lambda>c. matchesStatus c F_stopped) list)"
    by (rule length_filter_mono) auto
  moreover note lifecycle_filter [of list]
  ultimately show ?thesis unfolding statusCounts_eq by simp
qed

section \<open>Orderings\<close>

lemma js_insert_cong:
  "(\<And>y. y \<in> set ys \<Longrightarrow> f x y = g x y) \<Longrightarrow> js_insert f x ys = js_insert g x ys"
  by (induction ys) auto

lemma js_sort_cong:
  "(\<And>x y. x \<in> set xs \<Longrightarrow> y \<in> set xs \<Longrightarrow> f x y = g x y) \<Longrightarrow> js_sort f xs = js_sort g xs"
proof (induction xs)
  case (Cons x xs)
  then have "js_sort f xs = js_sort g xs" by simp
  moreover have "js_insert f x (js_sort g xs) = js_insert g x (js_sort g xs)"
    by (rule js_insert_cong) (simp add: Cons.prems)
  ultimately show ?case by simp
qed simp

text \<open>What each ordering puts strictly first.\<close>

fun sorts_before :: "sort_key \<Rightarrow> container \<Rightarrow> container \<Rightarrow> bool" where
  "sorts_before By_status a b \<longleftrightarrow> statusRank a < statusRank b"
| "sorts_before By_name a b \<longleftrightarrow> False"
| "sorts_before By_cpu a b \<longleftrightarrow> c_cpu b < c_cpu a"
| "sorts_before By_mem a b \<longleftrightarrow> c_memUsed b < c_memUsed a"
| "sorts_before By_newest a b \<longleftrightarrow> the (container_time b) < the (container_time a)"
| "sorts_before By_oldest a b \<longleftrightarrow> the (container_time a) < the (container_time b)"

text \<open>The same orderings on numeric keys, total also where a date does not parse.\<close>

fun sort_number :: "sort_key \<Rightarrow> container \<Rightarrow> real" where
  "sort_number By_status c = real (statusRank c)"
| "sort_number By_name c = 0"
| "sort_number By_cpu c = - c_cpu c"
| "sort_number By_mem c = - of_int (c_memUsed c)"
| "sort_number By_newest c = - of_int (the (container_time c))"
| "sort_number By_oldest c = of_int (the (container_time c))"

lemma sorts_before_number: "sorts_before k a b \<longleftrightarrow> sort_number k a < sort_number k b"
  by (cases k) auto

definition dates_ok :: "container list \<Rightarrow> bool" where
  "dates_ok list \<longleftrightarrow> list_all (\<lambda>c. container_time c \<noteq> None) list"

lemma sort_cmp_number:
  "container_time a \<noteq> None \<Longrightarrow> container_time b \<noteq> None \<Longrightarrow>
   sort_cmp lc k a b = or_else (by_key (sort_number k)) (on_key lc c_name) a b"
  by (cases k) (auto simp: or_else_def by_key_def on_key_def time_diff_def)

lemma sortBy_number:
  "dates_ok list \<Longrightarrow> sortBy lc list k = js_sort (or_else (by_key (sort_number k)) (on_key lc c_name)) list"
  unfolding sortBy_def dates_ok_def list_all_iff by (rule js_sort_cong) (simp add: sort_cmp_number)

text \<open>C22: an ordering only permutes the containers, puts the ones its key ranks first before
  the others (problems, most CPU, most memory, newest, oldest), and orders ties by name.\<close>

theorem sortBy_ordered:
  assumes "comparator lc" "dates_ok list"
  shows "mset (sortBy lc list k) = mset list \<and>
    sorted_wrt (\<lambda>a b. sorts_before k a b \<or> \<not> sorts_before k b a \<and> lc (c_name a) (c_name b) \<le> 0)
      (sortBy lc list k)"
proof
  show "mset (sortBy lc list k) = mset list" by (simp add: sortBy_def)
  let ?cmp = "or_else (by_key (sort_number k)) (on_key lc c_name)"
  have "comparator ?cmp"
    using assms(1) by (intro comparator_or_else comparator_by_key comparator_on_key)
  then have "sorted_wrt (\<lambda>a b. ?cmp a b \<le> 0) (sortBy lc list k)"
    using sortBy_number [OF assms(2)] by (simp add: comparator.sorted_js_sort)
  then show "sorted_wrt (\<lambda>a b. sorts_before k a b \<or> \<not> sorts_before k b a \<and> lc (c_name a) (c_name b) \<le> 0)
      (sortBy lc list k)"
    by (rule sorted_wrt_mono_rel [rotated])
      (auto simp: or_else_def by_key_def on_key_def sorts_before_number split: if_splits)
qed

text \<open>A container to instantiate the claims at.\<close>

definition sample :: "string \<Rightarrow> container_state \<Rightarrow> health \<Rightarrow> int \<Rightarrow> real \<Rightarrow> string \<Rightarrow> container" where
  "sample n st h ec cpu created =
    \<lparr>c_id = n, c_shortId = n, c_hostId = ''h1'', c_name = n, c_image = ''img'', c_imageId = ''i'',
      c_state = st, c_status = '''', c_health = h, c_exitCode = ec, c_stack = '''', c_service = '''',
      c_cpu = cpu, c_memUsed = 10, c_memLimit = 0, c_ports = [], c_createdAt = created, c_startedAt = None,
      c_finishedAt = None,
      c_update = \<lparr>container_update_available = False, container_update_tag = '''', container_update_checkedAt = None\<rparr>\<rparr>"

lemmas sample_eval = sample_def sortBy_def or_else_def by_key_def on_key_def statusRank_def

text \<open>Comparing lengths stands for a collation at the witnesses.\<close>

definition length_compare :: "string \<Rightarrow> string \<Rightarrow> real" where
  "length_compare a b = real (length a) - real (length b)"

interpretation lengths: comparator length_compare
  by unfold_locales (auto simp: length_compare_def)

lemma sortBy_ordered_witness:
  "map c_name (sortBy length_compare
      [sample ''web'' CS_running Health_healthy 0 1 '''', sample ''job'' CS_exited Health_none 1 0 ''''] By_status)
     = [''job'', ''web''] \<and>
   mset (sortBy length_compare
      [sample ''web'' CS_running Health_healthy 0 1 '''', sample ''job'' CS_exited Health_none 1 0 ''''] By_status)
     = {# sample ''web'' CS_running Health_healthy 0 1 '''', sample ''job'' CS_exited Health_none 1 0 '''' #}"
  using sortBy_ordered [OF lengths.comparator_axioms,
      of "[sample ''web'' CS_running Health_healthy 0 1 '''', sample ''job'' CS_exited Health_none 1 0 '''']" By_status]
  by (simp add: dates_ok_def container_time_def time_def sample_eval)

text \<open>What is shown is exactly what the three filters let through, each container as often
  as it is listed.\<close>

theorem visible_exactly:
  "mset (visibleContainers lc list v) =
    {# c \<in># mset list. (cv_stack v = [] \<or> c_stack c = (if cv_stack v = NO_STACK then [] else cv_stack v)) \<and>
       matchesStatus c (cv_status v) \<and>
       (cv_q v = [] \<or> (\<exists>t \<in> {c_name c, c_image c, c_stack c, c_status c}. sublist (to_lower (cv_q v)) (to_lower t))) #}"
proof -
  have "inStack v c \<longleftrightarrow> cv_stack v = [] \<or> c_stack c = (if cv_stack v = NO_STACK then [] else cv_stack v)" for c
    by (simp add: inStack_def)
  moreover have "matchText c q \<longleftrightarrow> q = [] \<or> (\<exists>t \<in> {c_name c, c_image c, c_stack c, c_status c}. sublist (to_lower q) (to_lower t))" for c q
    by (simp add: matchText_def Let_def includes_sublist)
  ultimately show ?thesis
    by (simp only: visibleContainers_def sortBy_def mset_js_sort mset_filter)
qed

end
