(* ===== verification/Browser_Store.thy ===== *)
theory Browser_Store
  imports Main
begin

text \<open>
  One key of \<open>localStorage\<close> holding JSON, as web/lib/customSsh.ts and
  web/components/shell/TerminalWindow.tsx use it: \<open>read\<close> falls back when the key is
  absent, empty or does not parse, and \<open>write\<close> is silently lost when the browser refuses it
  (\<open>ok\<close> is False). \<open>JSON.parse\<close> gives back what \<open>JSON.stringify\<close> was given, so a slot keeps the
  value itself. The laws both clients rely on are the locale \<open>json_slot\<close>.
\<close>

datatype 'v slot = Absent | Garbage | Stored 'v

definition slot_read :: "'v slot \<Rightarrow> 'v \<Rightarrow> 'v" where
  "slot_read s fallback = (case s of Stored v \<Rightarrow> v | _ \<Rightarrow> fallback)"

definition slot_write :: "bool \<Rightarrow> 'v \<Rightarrow> 'v slot \<Rightarrow> 'v slot" where
  "slot_write ok v s = (if ok then Stored v else s)"

locale json_slot =
  fixes read :: "'s \<Rightarrow> 'v \<Rightarrow> 'v" and store :: "bool \<Rightarrow> 'v \<Rightarrow> 's \<Rightarrow> 's"
  assumes read_written: "read (store True v s) d = v"
    and write_lost: "store False v s = s"
begin

text \<open>The last write that the browser accepted is what is read.\<close>

definition update :: "'v \<Rightarrow> ('v \<Rightarrow> 'v) \<Rightarrow> bool \<Rightarrow> 's \<Rightarrow> 's" where
  "update d f ok s = store ok (f (read s d)) s"

lemma read_update: "read (update d f ok s) d = (if ok then f (read s d) else read s d)"
  by (simp add: update_def read_written write_lost)

lemma update_invariant:
  assumes "P (read s d)" "\<And>v. P v \<Longrightarrow> P (f v)"
  shows "P (read (update d f ok s) d)"
  using assms by (simp add: read_update)

text \<open>A sequence of updates, some of which the browser may refuse, keeps what each keeps.\<close>

lemma updates_invariant:
  assumes "P (read s d)" "\<And>f v. f \<in> fst ` set ops \<Longrightarrow> P v \<Longrightarrow> P (f v)"
  shows "P (read (foldl (\<lambda>s (f, ok). update d f ok s) s ops) d)"
  using assms
proof (induction ops arbitrary: s)
  case (Cons x ops)
  obtain f ok where x: "x = (f, ok)" by (cases x)
  then have "\<And>v. P v \<Longrightarrow> P (f v)" using Cons.prems(2) by simp
  with Cons.prems(1) have "P (read (update d f ok s) d)" by (simp add: read_update)
  then have "P (read (foldl (\<lambda>s (f, ok). update d f ok s) (update d f ok s) ops) d)"
    by (rule Cons.IH) (simp add: Cons.prems(2))
  then show ?case by (simp add: x)
qed simp

end

interpretation slots: json_slot slot_read slot_write
  by unfold_locales (simp_all add: slot_read_def slot_write_def)

end
