(* ===== verification/Custom_Ssh.thy ===== *)
theory Custom_Ssh
  imports Js_Text Browser_Store
begin

text \<open>
  Ad-hoc SSH logins (web/lib/customSsh.ts): the texts of a destination, the recent
  connections and the remembered host keys of this browser, and the parser of a typed
  destination. A port of 0 stands for JavaScript's falsy port.
\<close>

datatype ssh_auth = Auth_key | Auth_password | Auth_privateKey

record ssh_dest =
  sd_address :: string
  sd_port :: nat
  sd_user :: string

record ssh_recent = ssh_dest +
  sr_auth :: ssh_auth

record custom_ssh_conn = ssh_recent +
  cc_password :: "string option"
  cc_privateKey :: "string option"
  cc_passphrase :: "string option"

text \<open>The two keys of the store, \<open>dockhand.ssh.recent\<close> and \<open>dockhand.ssh.known\<close>.\<close>

type_synonym recents = "ssh_recent list slot"
type_synonym known_hosts = "(string \<rightharpoonup> string) slot"

definition sshDest :: "'a ssh_dest_scheme \<Rightarrow> string" where
  "sshDest c = sd_user c @ ''@'' @ sd_address c @
    (if sd_port c \<noteq> 0 \<and> sd_port c \<noteq> 22 then '':'' @ show_nat (sd_port c) else [])"

definition sshCommand :: "'a ssh_dest_scheme \<Rightarrow> string" where
  "sshCommand c = ''ssh '' @ sd_user c @ ''@'' @ sd_address c @
    (if sd_port c \<noteq> 0 \<and> sd_port c \<noteq> 22 then '' -p '' @ show_nat (sd_port c) else [])"

definition knownKey :: "'a ssh_dest_scheme \<Rightarrow> string" where
  "knownKey c = to_lower (sd_address c) @ '':'' @ show_nat (if sd_port c = 0 then 22 else sd_port c)"

definition recentSsh :: "recents \<Rightarrow> ssh_recent list" where
  "recentSsh st = slot_read st []"

definition remember :: "'a ssh_recent_scheme \<Rightarrow> ssh_recent list \<Rightarrow> ssh_recent list" where
  "remember c rs =
    (let r = \<lparr>sd_address = sd_address c, sd_port = sd_port c, sd_user = sd_user c, sr_auth = sr_auth c\<rparr>;
         list = filter (\<lambda>x. sshDest x \<noteq> sshDest r) rs
     in take 8 (r # list))"

definition rememberSsh :: "bool \<Rightarrow> 'a ssh_recent_scheme \<Rightarrow> recents \<Rightarrow> recents" where
  "rememberSsh ok c st = slot_write ok (remember c (recentSsh st)) st"

definition forgetRecentSsh :: "bool \<Rightarrow> 'a ssh_dest_scheme \<Rightarrow> recents \<Rightarrow> recents" where
  "forgetRecentSsh ok r st = slot_write ok (filter (\<lambda>x. sshDest x \<noteq> sshDest r) (recentSsh st)) st"

definition knownHostKey :: "known_hosts \<Rightarrow> 'a ssh_dest_scheme \<Rightarrow> string" where
  "knownHostKey st c = (case slot_read st Map.empty (knownKey c) of None \<Rightarrow> [] | Some k \<Rightarrow> k)"

definition saveHostKey :: "bool \<Rightarrow> 'a ssh_dest_scheme \<Rightarrow> string \<Rightarrow> known_hosts \<Rightarrow> known_hosts" where
  "saveHostKey ok c fingerprint st =
    slot_write ok ((slot_read st Map.empty)(knownKey c \<mapsto> fingerprint)) st"

definition forgetHostKey :: "bool \<Rightarrow> 'a ssh_dest_scheme \<Rightarrow> known_hosts \<Rightarrow> known_hosts" where
  "forgetHostKey ok c st = slot_write ok ((slot_read st Map.empty)(knownKey c := None)) st"

section \<open>Parsing a destination\<close>

record parsed_dest =
  pd_address :: "string option"
  pd_port :: "nat option"
  pd_user :: "string option"

text \<open>\<open>replace(/^ssh\\s+/, "")\<close>.\<close>

definition strip_ssh :: "string \<Rightarrow> string" where
  "strip_ssh s =
    (if starts_with s ''ssh'' \<and> drop 3 s \<noteq> [] \<and> ws (hd (drop 3 s)) then dropWhile ws (drop 3 s) else s)"

text \<open>\<open>/\\s-p\\s*(\\d+)/\<close>: the text before the leftmost match, its digits, and the text after it.\<close>

definition port_flag_here :: "string \<Rightarrow> (string \<times> string) option" where
  "port_flag_here s =
    (if s \<noteq> [] \<and> ws (hd s) \<and> starts_with (tl s) ''-p''
     then let r = dropWhile ws (drop 3 s); ds = takeWhile digit r
          in if ds = [] then None else Some (ds, dropWhile digit r)
     else None)"

fun port_flag :: "string \<Rightarrow> (string \<times> string \<times> string) option" where
  "port_flag [] = None"
| "port_flag (c # s) =
     (case port_flag_here (c # s) of
        Some (ds, after) \<Rightarrow> Some ([], ds, after)
      | None \<Rightarrow> map_option (\<lambda>(before, ds, after). (c # before, ds, after)) (port_flag s))"

text \<open>\<open>/^\\[(.+)\\]:(\\d+)$/\<close> and \<open>/^([^:]+):(\\d+)$/\<close>: digits hold no colon, so the port follows
  the last one.\<close>

definition dot_char :: "char \<Rightarrow> bool" where
  "dot_char c \<longleftrightarrow> c \<noteq> LF \<and> c \<noteq> CR"

definition bracket_port :: "string \<Rightarrow> (string \<times> string) option" where
  "bracket_port v = (case last_index_of (CHR '':'') v of
     None \<Rightarrow> None
   | Some i \<Rightarrow>
       let a = take i v; p = drop (Suc i) v; inner = butlast (tl a) in
       if digits p \<and> 2 < length a \<and> hd a = CHR ''['' \<and> last a = CHR '']'' \<and> list_all dot_char inner
       then Some (inner, p) else None)"

definition plain_port :: "string \<Rightarrow> (string \<times> string) option" where
  "plain_port v = (case last_index_of (CHR '':'') v of
     None \<Rightarrow> None
   | Some i \<Rightarrow>
       let a = take i v; p = drop (Suc i) v in
       if digits p \<and> a \<noteq> [] \<and> CHR '':'' \<notin> set a then Some (a, p) else None)"

text \<open>\<open>replace(/^\\[|\\]$/g, "")\<close>.\<close>

definition strip_brackets :: "string \<Rightarrow> string" where
  "strip_brackets v =
    (let a = (if starts_with v ''['' then tl v else v)
     in if a \<noteq> [] \<and> last a = CHR '']'' then butlast a else a)"

definition parse_address :: "string \<Rightarrow> parsed_dest \<Rightarrow> parsed_dest" where
  "parse_address v out =
    (case (case bracket_port v of Some m \<Rightarrow> Some m | None \<Rightarrow> plain_port v) of
       Some (a, p) \<Rightarrow> out\<lparr>pd_address := Some a, pd_port := Some (read_nat p)\<rparr>
     | None \<Rightarrow> out\<lparr>pd_address := Some (strip_brackets v)\<rparr>)"

definition parse_user :: "string \<Rightarrow> parsed_dest \<Rightarrow> parsed_dest" where
  "parse_user v out = (case last_index_of (CHR ''@'') v of
     Some i \<Rightarrow> if 0 < i then parse_address (drop (Suc i) v) (out\<lparr>pd_user := Some (take i v)\<rparr>)
       else parse_address v out
   | None \<Rightarrow> parse_address v out)"

definition parseDest :: "string \<Rightarrow> parsed_dest" where
  "parseDest s =
    (let v = strip_ssh (trim s); out = \<lparr>pd_address = None, pd_port = None, pd_user = None\<rparr>
     in case port_flag v of
          Some (before, ds, after) \<Rightarrow> parse_user (trim (before @ after)) (out\<lparr>pd_port := Some (read_nat ds)\<rparr>)
        | None \<Rightarrow> parse_user v out)"

section \<open>Round trips\<close>

text \<open>A user name and an address one types: no white space, no \<open>@\<close>, no bracket at either end.\<close>

definition plain_user :: "string \<Rightarrow> bool" where
  "plain_user u \<longleftrightarrow> u \<noteq> [] \<and> no_ws u"

definition plain_address :: "string \<Rightarrow> bool" where
  "plain_address a \<longleftrightarrow> a \<noteq> [] \<and> no_ws a \<and> CHR ''@'' \<notin> set a \<and> hd a \<noteq> CHR ''['' \<and> last a \<noteq> CHR '']''"

definition default_port :: "nat \<Rightarrow> bool" where
  "default_port p \<longleftrightarrow> p = 0 \<or> p = 22"

lemma port_flag_no_ws: "no_ws s \<Longrightarrow> port_flag s = None"
  by (induction s) (auto simp: port_flag_here_def)

lemma port_flag_skip:
  "no_ws s \<Longrightarrow> port_flag (s @ t) = map_option (\<lambda>(b, d, a). (s @ b, d, a)) (port_flag t)"
proof (induction s)
  case Nil
  then show ?case by (cases "port_flag t") auto
next
  case (Cons c s)
  then have "port_flag_here (c # s @ t) = None" by (simp add: port_flag_here_def)
  with Cons show ?case by (cases "port_flag t") auto
qed

lemma take_digits: "digits d \<Longrightarrow> takeWhile digit d = d \<and> dropWhile digit d = []"
  unfolding digits_def list_all_iff by (simp only: takeWhile_eq_all_conv dropWhile_eq_Nil_conv) blast

lemma space_ws: "ws (CHR '' '')"
  by (simp add: js_simps)

lemma port_flag_match: "digits d \<Longrightarrow> port_flag ('' -p '' @ d) = Some ([], d, [])"
proof -
  assume d: "digits d"
  then have "dropWhile ws d = d"
    by (cases d) (auto simp: digits_def digit_not_ws)
  then have "port_flag_here ('' -p '' @ d) = Some (d, [])"
    using take_digits [OF d] d unfolding digits_def by (simp add: port_flag_here_def space_ws Let_def del: takeWhile_eq_all_conv dropWhile_eq_Nil_conv)
  then show ?thesis by simp
qed

lemma strip_brackets_id:
  "a \<noteq> [] \<Longrightarrow> hd a \<noteq> CHR ''['' \<Longrightarrow> last a \<noteq> CHR '']'' \<Longrightarrow> strip_brackets a = a"
  by (cases a) (auto simp: strip_brackets_def Let_def)

lemma parse_address_bare:
  assumes "plain_address a" "CHR '':'' \<notin> set a \<or> 2 \<le> length (filter (\<lambda>c. c = CHR '':'') a)"
  shows "parse_address a out = out\<lparr>pd_address := Some a\<rparr>"
proof -
  have "hd a \<noteq> CHR ''[''" using assms(1) by (simp add: plain_address_def)
  then have hd: "2 < length (take i a) \<Longrightarrow> hd (take i a) \<noteq> CHR ''[''" for i
    by (cases i) (auto simp: hd_take)
  have b: "bracket_port a = None"
    unfolding bracket_port_def Let_def using hd by (cases "last_index_of (CHR '':'') a") (auto simp del: length_take)
  have p: "plain_port a = None"
  proof (cases "last_index_of (CHR '':'') a")
    case None
    then show ?thesis by (simp add: plain_port_def)
  next
    case (Some i)
    then have i: "i < length a" "a ! i = CHR '':''" "CHR '':'' \<notin> set (drop (Suc i) a)"
      by (simp_all add: last_index_of_Some)
    have "CHR '':'' \<in> set (take i a)"
    proof (rule ccontr)
      assume n: "CHR '':'' \<notin> set (take i a)"
      have "a = take i a @ a ! i # drop (Suc i) a" using i(1) by (rule id_take_nth_drop)
      then have "length (filter (\<lambda>c. c = CHR '':'') a) =
          length (filter (\<lambda>c. c = CHR '':'') (take i a @ a ! i # drop (Suc i) a))" by simp
      also have "\<dots> = 1" using n i by (auto simp: filter_empty_conv)
      finally show False using assms(2) i by (metis One_nat_def nth_mem numeral_2_eq_2 not_less_eq_eq le_refl)
    qed
    then show ?thesis by (simp add: plain_port_def Some Let_def)
  qed
  show ?thesis
    using assms(1) b p by (simp add: parse_address_def plain_address_def strip_brackets_id)
qed

lemma parse_address_port:
  assumes "plain_address a" "CHR '':'' \<notin> set a"
  shows "parse_address (a @ '':'' @ show_nat n) out = out\<lparr>pd_address := Some a, pd_port := Some n\<rparr>"
proof -
  have c: "CHR '':'' \<notin> set (show_nat n)"
    by (rule digits_not_char [OF digits_show_nat]) (simp add: js_simps)
  then have l: "last_index_of (CHR '':'') (a @ CHR '':'' # show_nat n) = Some (length a)"
    by (rule last_index_of_append)
  have "hd a \<noteq> CHR ''[''" using assms by (simp add: plain_address_def)
  then have "bracket_port (a @ CHR '':'' # show_nat n) = None"
    by (auto simp: bracket_port_def l Let_def)
  moreover have "plain_port (a @ CHR '':'' # show_nat n) = Some (a, show_nat n)"
    using assms by (simp add: plain_port_def l Let_def plain_address_def)
  ultimately show ?thesis by (simp add: parse_address_def read_show_nat)
qed

lemma parse_user_at:
  "u \<noteq> [] \<Longrightarrow> CHR ''@'' \<notin> set a \<Longrightarrow> parse_user (u @ CHR ''@'' # a) out = parse_address a (out\<lparr>pd_user := Some u\<rparr>)"
  by (simp add: parse_user_def last_index_of_append)

lemma strip_ssh_no_ws: "no_ws s \<Longrightarrow> strip_ssh s = s"
  unfolding strip_ssh_def no_ws_def by (metis hd_in_set in_set_dropD)

text \<open>C33: pasting a destination that was shown gives back its user, its address and its port
  (none when it is the default one), when the address has no colon.\<close>

theorem parse_sshDest:
  assumes "plain_user (sd_user c)" "plain_address (sd_address c)" "CHR '':'' \<notin> set (sd_address c)"
  shows "parseDest (sshDest c) = \<lparr>pd_address = Some (sd_address c),
    pd_port = (if default_port (sd_port c) then None else Some (sd_port c)), pd_user = Some (sd_user c)\<rparr>"
proof -
  have "no_ws (sd_user c)" "no_ws (sd_address c)" "no_ws (show_nat (sd_port c))"
    using assms by (simp_all add: plain_user_def plain_address_def no_ws_digits)
  then have n: "no_ws (sshDest c)" by (simp add: sshDest_def js_simps)
  then have p: "parseDest (sshDest c) = parse_user (sshDest c) \<lparr>pd_address = None, pd_port = None, pd_user = None\<rparr>"
    by (simp add: parseDest_def trim_id strip_ssh_no_ws port_flag_no_ws)
  have at: "CHR ''@'' \<notin> set (show_nat n)" for n
    by (rule digits_not_char [OF digits_show_nat]) (simp add: js_simps)
  show ?thesis
  proof (cases "default_port (sd_port c)")
    case True
    then have "sshDest c = sd_user c @ CHR ''@'' # sd_address c" by (auto simp: sshDest_def default_port_def)
    moreover have "CHR ''@'' \<notin> set (sd_address c)" using assms by (simp add: plain_address_def)
    ultimately have "parse_user (sshDest c) out = parse_address (sd_address c) (out\<lparr>pd_user := Some (sd_user c)\<rparr>)" for out
      using assms by (simp add: parse_user_at plain_user_def)
    with True assms show ?thesis by (simp add: p parse_address_bare)
  next
    case False
    then have s: "sshDest c = sd_user c @ CHR ''@'' # (sd_address c @ '':'' @ show_nat (sd_port c))"
      by (auto simp: sshDest_def default_port_def)
    have "CHR ''@'' \<notin> set (sd_address c @ '':'' @ show_nat (sd_port c))"
      using assms at by (simp add: plain_address_def)
    then have "parse_user (sshDest c) out =
        parse_address (sd_address c @ '':'' @ show_nat (sd_port c)) (out\<lparr>pd_user := Some (sd_user c)\<rparr>)" for out
      unfolding s using assms by (intro parse_user_at) (simp_all add: plain_user_def)
    with False assms show ?thesis by (simp add: p parse_address_port [simplified])
  qed
qed

text \<open>The destination the claims are applied at.\<close>

definition sample_dest :: "string \<Rightarrow> nat \<Rightarrow> ssh_dest" where
  "sample_dest a p = \<lparr>sd_address = a, sd_port = p, sd_user = ''root''\<rparr>"

lemma parse_sshDest_witness:
  "sshDest (sample_dest ''example.org'' 2222) = ''root@example.org:2222'' \<and>
   parseDest (sshDest (sample_dest ''example.org'' 2222)) =
     \<lparr>pd_address = Some ''example.org'', pd_port = Some 2222, pd_user = Some ''root''\<rparr>"
  using parse_sshDest [of "sample_dest ''example.org'' 2222"]
  by (simp add: sample_dest_def plain_user_def plain_address_def default_port_def js_simps
      sshDest_def show_nat.simps digit_literals)

text \<open>Pasting the \<open>ssh\<close> command that was shown gives back the same three parts, for IPv6
  addresses too (any address that does not itself read as \<open>host:port\<close>).\<close>

theorem parse_sshCommand:
  assumes "plain_user (sd_user c)" "plain_address (sd_address c)"
    and "CHR '':'' \<notin> set (sd_address c) \<or> 2 \<le> length (filter (\<lambda>x. x = CHR '':'') (sd_address c))"
  shows "parseDest (sshCommand c) = \<lparr>pd_address = Some (sd_address c),
    pd_port = (if default_port (sd_port c) then None else Some (sd_port c)), pd_user = Some (sd_user c)\<rparr>"
proof -
  let ?v = "sd_user c @ CHR ''@'' # sd_address c"
  let ?out = "\<lparr>pd_address = None, pd_port = None, pd_user = None\<rparr>"
  have nw: "no_ws ?v" using assms by (simp add: plain_user_def plain_address_def js_simps)
  have u: "parse_user ?v out = out\<lparr>pd_user := Some (sd_user c), pd_address := Some (sd_address c)\<rparr>" for out
    using assms by (simp add: parse_user_at parse_address_bare plain_user_def) (simp add: plain_address_def parse_user_at parse_address_bare)
  define tail where "tail = (if default_port (sd_port c) then [] else '' -p '' @ show_nat (sd_port c))"
  have cmd: "sshCommand c = ''ssh '' @ ?v @ tail"
    by (auto simp: sshCommand_def tail_def default_port_def)
  obtain x s where xs: "?v @ tail = x # s" "\<not> ws x"
    using nw assms by (cases "?v") (auto simp: plain_user_def no_ws_def)
  have "\<not> ws (last (?v @ tail))"
  proof (cases "default_port (sd_port c)")
    case True
    then show ?thesis using nw by (simp add: tail_def no_ws_def)
  next
    case False
    have "\<not> ws (last (show_nat (sd_port c)))"
      using no_ws_digits [OF digits_show_nat [of "sd_port c"]] unfolding no_ws_def by (metis last_in_set show_nat_not_nil)
    with False show ?thesis by (simp add: tail_def)
  qed
  then have "\<not> ws (hd (''ssh '' @ ?v @ tail))" "\<not> ws (last (''ssh '' @ ?v @ tail))"
    unfolding xs(1) by (simp_all add: js_simps)
  then have "trim (''ssh '' @ ?v @ tail) = ''ssh '' @ ?v @ tail" by (rule trim_no_ws)
  moreover have "strip_ssh (''ssh '' @ ?v @ tail) = ?v @ tail"
    using xs space_ws by (simp add: strip_ssh_def)
  ultimately have p: "parseDest (sshCommand c) = (case port_flag (?v @ tail) of
          Some (before, ds, after) \<Rightarrow> parse_user (trim (before @ after)) (?out\<lparr>pd_port := Some (read_nat ds)\<rparr>)
        | None \<Rightarrow> parse_user (?v @ tail) ?out)"
    unfolding parseDest_def cmd Let_def by (simp only:)
  show ?thesis
  proof (cases "default_port (sd_port c)")
    case True
    then have "port_flag (?v @ tail) = None" using nw port_flag_no_ws by (simp add: tail_def)
    with True show ?thesis unfolding p by (simp add: u tail_def)
  next
    case False
    then have "port_flag (?v @ tail) = Some (?v, show_nat (sd_port c), [])"
      using port_flag_skip [OF nw] port_flag_match [OF digits_show_nat] by (simp add: tail_def)
    with False show ?thesis unfolding p using nw by (simp add: u trim_id read_show_nat)
  qed
qed

lemma parse_sshCommand_witness:
  "sshCommand (sample_dest ''fe80::1'' 2222) = ''ssh root@fe80::1 -p 2222'' \<and>
   parseDest (sshCommand (sample_dest ''fe80::1'' 2222)) =
     \<lparr>pd_address = Some ''fe80::1'', pd_port = Some 2222, pd_user = Some ''root''\<rparr>"
  using parse_sshCommand [of "sample_dest ''fe80::1'' 2222"]
  by (simp add: sample_dest_def plain_user_def plain_address_def default_port_def js_simps
      sshCommand_def show_nat.simps digit_literals)

text \<open>An IPv6 address is not bracketed in \<open>sshDest\<close>, so two different machines share a text,
  and remembering one forgets the other.\<close>

lemma sshDest_ipv6_clash:
  "sshDest (sample_dest ''fe80::1'' 2222) = sshDest (sample_dest ''fe80::1:2222'' 22) \<and>
   sample_dest ''fe80::1'' 2222 \<noteq> sample_dest ''fe80::1:2222'' 22"
  by (simp add: sample_dest_def sshDest_def show_nat.simps js_simps digit_literals)

section \<open>Recent connections\<close>

datatype recent_op = Remember custom_ssh_conn bool | Forget_recent ssh_recent bool

fun run_recent :: "recents \<Rightarrow> recent_op \<Rightarrow> recents" where
  "run_recent st (Remember c ok) = rememberSsh ok c st"
| "run_recent st (Forget_recent r ok) = forgetRecentSsh ok r st"

fun recent_edit :: "recent_op \<Rightarrow> ssh_recent list \<Rightarrow> ssh_recent list" where
  "recent_edit (Remember c ok) = remember c"
| "recent_edit (Forget_recent r ok) = filter (\<lambda>x. sshDest x \<noteq> sshDest r)"

fun accepted :: "recent_op \<Rightarrow> bool" where
  "accepted (Remember c ok) = ok"
| "accepted (Forget_recent r ok) = ok"

definition recent_ok :: "ssh_recent list \<Rightarrow> bool" where
  "recent_ok rs \<longleftrightarrow> length rs \<le> 8 \<and> distinct (map sshDest rs)"

lemma run_recent_update: "run_recent st op = slots.update [] (recent_edit op) (accepted op) st"
  by (cases op) (simp_all add: rememberSsh_def forgetRecentSsh_def recentSsh_def slots.update_def)

lemma recent_ok_remember: "recent_ok rs \<Longrightarrow> recent_ok (remember c rs)"
proof -
  assume ok: "recent_ok rs"
  let ?r = "\<lparr>sd_address = sd_address c, sd_port = sd_port c, sd_user = sd_user c, sr_auth = sr_auth c\<rparr>"
  have "distinct (map sshDest (?r # filter (\<lambda>x. sshDest x \<noteq> sshDest ?r) rs))"
    using ok by (auto simp: recent_ok_def distinct_map_filter)
  then show ?thesis unfolding recent_ok_def remember_def Let_def take_map [symmetric]
    by (intro conjI distinct_take) simp_all
qed

lemma recent_ok_edit: "recent_ok rs \<Longrightarrow> recent_ok (recent_edit op rs)"
proof (cases op)
  case (Forget_recent r ok)
  assume "recent_ok rs"
  then show ?thesis unfolding recent_ok_def Forget_recent
    by (simp add: distinct_map_filter le_trans [OF length_filter_le])
qed (simp add: recent_ok_remember)

text \<open>Whatever sequence of logins and removals the dialog performs, and whichever of the
  writes the browser refuses, the recent list never exceeds eight entries, never lists a
  destination twice, and an accepted login is at its head.\<close>

theorem recent_list_invariant:
  assumes "recent_ok (recentSsh st)"
  shows "recent_ok (recentSsh (foldl run_recent st ops)) \<and>
    sshDest (hd (recentSsh (run_recent (foldl run_recent st ops) (Remember c True)))) = sshDest c"
proof
  have "foldl run_recent st ops =
      foldl (\<lambda>s (f, ok). slots.update [] f ok s) st (map (\<lambda>op. (recent_edit op, accepted op)) ops)"
    by (induction ops arbitrary: st) (simp_all add: run_recent_update)
  then show "recent_ok (recentSsh (foldl run_recent st ops))"
    unfolding recentSsh_def using assms
    by (simp only:) (rule slots.updates_invariant, auto simp: recentSsh_def recent_ok_edit)
  show "sshDest (hd (recentSsh (run_recent (foldl run_recent st ops) (Remember c True)))) = sshDest c"
    by (simp add: rememberSsh_def recentSsh_def slots.read_written remember_def Let_def sshDest_def)
qed

definition sample_conn :: "string \<Rightarrow> custom_ssh_conn" where
  "sample_conn a = \<lparr>sd_address = a, sd_port = 22, sd_user = ''root'', sr_auth = Auth_key,
    cc_password = None, cc_privateKey = None, cc_passphrase = None\<rparr>"

lemma recent_list_invariant_witness:
  "recent_ok (recentSsh (foldl run_recent Garbage [Remember (sample_conn ''a'') True, Remember (sample_conn ''b'') False])) \<and>
   map sshDest (recentSsh (foldl run_recent Garbage [Remember (sample_conn ''a'') True, Remember (sample_conn ''b'') False]))
     = [''root@a'']"
proof
  have "recent_ok (recentSsh Garbage)" by (simp add: recent_ok_def recentSsh_def slot_read_def)
  then show "recent_ok (recentSsh (foldl run_recent Garbage [Remember (sample_conn ''a'') True, Remember (sample_conn ''b'') False]))"
    by (rule recent_list_invariant [THEN conjunct1])
  show "map sshDest (recentSsh (foldl run_recent Garbage [Remember (sample_conn ''a'') True, Remember (sample_conn ''b'') False]))
     = [''root@a'']"
    by code_simp
qed

section \<open>Remembered host keys\<close>

lemma knownHostKey_save:
  "knownHostKey (saveHostKey True c fp st) d = (if knownKey d = knownKey c then fp else knownHostKey st d)"
  by (simp add: knownHostKey_def saveHostKey_def slots.read_written)

lemma knownHostKey_forget:
  "knownHostKey (forgetHostKey True c st) d = (if knownKey d = knownKey c then [] else knownHostKey st d)"
  by (simp add: knownHostKey_def forgetHostKey_def slots.read_written)

lemma knownKey_iff:
  "knownKey c = knownKey d \<longleftrightarrow> to_lower (sd_address c) = to_lower (sd_address d) \<and>
     (if sd_port c = 0 then 22 else sd_port c) = (if sd_port d = 0 then 22 else sd_port d)"
proof
  assume eq: "knownKey c = knownKey d"
  have n: "CHR '':'' \<notin> set (show_nat n)" for n
    by (rule digits_not_char [OF digits_show_nat]) (simp add: js_simps)
  note l = last_index_of_append [OF n, of "to_lower (sd_address c)"] last_index_of_append [OF n, of "to_lower (sd_address d)"]
  have len: "length (to_lower (sd_address c)) = length (to_lower (sd_address d))"
    using eq l by (metis append_Cons append_Nil knownKey_def option.inject)
  have "to_lower (sd_address c) = to_lower (sd_address d) \<and>
      '':'' @ show_nat (if sd_port c = 0 then 22 else sd_port c) = '':'' @ show_nat (if sd_port d = 0 then 22 else sd_port d)"
    by (rule iffD1 [OF append_eq_append_conv [OF disjI1 [OF len]] eq [unfolded knownKey_def]])
  then show "to_lower (sd_address c) = to_lower (sd_address d) \<and>
     (if sd_port c = 0 then 22 else sd_port c) = (if sd_port d = 0 then 22 else sd_port d)"
    by (simp only: same_append_eq show_nat_inj)
qed (simp add: knownKey_def)

text \<open>A saved host key is found again under the same address in any letter case and the
  same port (none meaning 22), and under no other; forgetting it leaves every other
  machine's key alone; a write the browser refuses changes nothing.\<close>

theorem host_keys:
  "knownHostKey (saveHostKey True c fp st) d =
     (if to_lower (sd_address d) = to_lower (sd_address c) \<and>
         (if sd_port d = 0 then 22 else sd_port d) = (if sd_port c = 0 then 22 else sd_port c)
      then fp else knownHostKey st d) \<and>
   knownHostKey (forgetHostKey True c (saveHostKey ok c fp st)) d =
     (if knownKey d = knownKey c then [] else knownHostKey st d) \<and>
   knownHostKey (saveHostKey False c fp st) d = knownHostKey st d"
proof (intro conjI)
  show "knownHostKey (saveHostKey True c fp st) d =
     (if to_lower (sd_address d) = to_lower (sd_address c) \<and>
         (if sd_port d = 0 then 22 else sd_port d) = (if sd_port c = 0 then 22 else sd_port c)
      then fp else knownHostKey st d)"
    unfolding knownHostKey_save knownKey_iff by (rule refl)
  show "knownHostKey (saveHostKey False c fp st) d = knownHostKey st d"
    by (simp add: saveHostKey_def slots.write_lost)
  then show "knownHostKey (forgetHostKey True c (saveHostKey ok c fp st)) d =
     (if knownKey d = knownKey c then [] else knownHostKey st d)"
    by (cases ok) (simp_all add: knownHostKey_forget knownHostKey_save)
qed

end
