(* ===== verification/Hosts_Lib.thy ===== *)
theory Hosts_Lib
  imports Js_Text Api_Core Api_Ops
begin

text \<open>
  Adding hosts (web/components/settings/hosts-lib.ts): the connection-test steps and the
  parser of an OpenSSH client configuration. The line expression
  \<open>/^(\\S+?)\\s*(?:=\\s*|\\s+)(.+)$/\<close> is written out: \<open>rest_value\<close> is what may follow the keyword,
  \<open>key_value\<close> tries the shortest keyword first.
\<close>

definition TEST_LABELS :: "string list" where
  "TEST_LABELS = [''Resolving address'', ''Opening SSH connection'', ''Authenticating'',
    ''Checking Docker'', ''Reading host info'']"

definition pending_step :: "host_method \<Rightarrow> nat \<Rightarrow> string \<Rightarrow> job_step" where
  "pending_step method i label =
    \<lparr>js_label = label,
     js_sub = (if method = Method_local \<and> i < 3 then ''skipped for local socket'' else []),
     js_status = (if i = 0 then Step_running else if method = Method_local \<and> i < 3 then Step_skipped else Step_pending),
     js_t = []\<rparr>"

definition pendingSteps :: "host_method \<Rightarrow> job_step list" where
  "pendingSteps method = map2 (pending_step method) [0 ..< length TEST_LABELS] TEST_LABELS"

fun test_step_state :: "test_step_status \<Rightarrow> step_status" where
  "test_step_state TestStep_done = Step_done"
| "test_step_state TestStep_failed = Step_failed"
| "test_step_state TestStep_skipped = Step_skipped"

definition resultSteps :: "host_test_result \<Rightarrow> job_step list" where
  "resultSteps r = map (\<lambda>s.
     \<lparr>js_label = ts_label s, js_sub = ts_sub s, js_status = test_step_state (ts_status s),
      js_t = (if ts_status s = TestStep_skipped then []
              else if 1000 \<le> ts_ms s then to_fixed 1 (of_int (ts_ms s) / 1000) @ ''s''
              else show_int (ts_ms s) @ ''ms'')\<rparr>) (htr_steps r)"

section \<open>SSH configurations\<close>

record ssh_config_entry =
  sce_name :: string
  sce_address :: string
  sce_port :: int
  sce_user :: string

text \<open>The block being read: \<open>cur\<close>.\<close>

record config_block =
  cb_names :: "string list"
  cb_hostName :: "string option"
  cb_port :: "int option"
  cb_user :: "string option"

text \<open>\<open>/[*?!]/.test(n)\<close>.\<close>

definition pattern_name :: "string \<Rightarrow> bool" where
  "pattern_name n \<longleftrightarrow> list_ex (\<lambda>c. c = CHR ''*'' \<or> c = CHR ''?'' \<or> c = CHR ''!'') n"

definition block_entry :: "config_block \<Rightarrow> string \<Rightarrow> ssh_config_entry" where
  "block_entry cur n =
    \<lparr>sce_name = n,
     sce_address = (case cb_hostName cur of None \<Rightarrow> n | Some h \<Rightarrow> if h = [] then n else h),
     sce_port = (case cb_port cur of None \<Rightarrow> 22 | Some p \<Rightarrow> if p = 0 then 22 else p),
     sce_user = (case cb_user cur of None \<Rightarrow> ''root'' | Some u \<Rightarrow> if u = [] then ''root'' else u)\<rparr>"

type_synonym config_state = "ssh_config_entry list \<times> config_block option"

fun flush :: "config_state \<Rightarrow> config_state" where
  "flush (out, None) = (out, None)"
| "flush (out, Some cur) =
     (out @ map (block_entry cur) (filter (\<lambda>n. \<not> pattern_name n) (cb_names cur)), None)"

text \<open>\<open>replace(/#.*$/, "")\<close>: \<open>.\<close> does not match a carriage return.\<close>

fun strip_comment :: "string \<Rightarrow> string" where
  "strip_comment [] = []"
| "strip_comment (c # s) = (if c = CHR ''#'' \<and> CR \<notin> set s then [] else c # strip_comment s)"

definition value_text :: "string \<Rightarrow> string option" where
  "value_text r = (if r \<noteq> [] \<and> CR \<notin> set r then Some r else None)"

definition rest_value :: "string \<Rightarrow> string option" where
  "rest_value r =
    (let w = takeWhile ws r; r' = dropWhile ws r;
         spaced = (if w \<noteq> [] then value_text r' else None)
     in if starts_with r' ''='' then
          (case value_text (dropWhile ws (tl r')) of Some v \<Rightarrow> Some v | None \<Rightarrow> spaced)
        else spaced)"

fun key_value_from :: "string \<Rightarrow> string \<Rightarrow> (string \<times> string) option" where
  "key_value_from k [] = None"
| "key_value_from k (c # s) =
     (if ws c then None
      else case rest_value s of Some v \<Rightarrow> Some (k @ [c], v) | None \<Rightarrow> key_value_from (k @ [c]) s)"

definition key_value :: "string \<Rightarrow> (string \<times> string) option" where
  "key_value line = key_value_from [] line"

text \<open>\<open>trim().replace(/^"(.*)"$/, "$1")\<close>.\<close>

definition unquote :: "string \<Rightarrow> string" where
  "unquote s =
    (if 2 \<le> length s \<and> hd s = CHR 0x22 \<and> last s = CHR 0x22 \<and> CR \<notin> set (butlast (tl s))
     then butlast (tl s) else s)"

definition new_block :: "string list \<Rightarrow> config_block" where
  "new_block ns = \<lparr>cb_names = ns, cb_hostName = None, cb_port = None, cb_user = None\<rparr>"

definition config_key :: "string \<Rightarrow> string \<Rightarrow> config_state \<Rightarrow> config_state" where
  "config_key key val st =
    (if key = ''host'' then (fst (flush st), Some (new_block (words val)))
     else if key = ''match'' then flush st
     else case st of
       (out, None) \<Rightarrow> st
     | (out, Some cur) \<Rightarrow>
         if key = ''hostname'' then (out, Some (cur\<lparr>cb_hostName := Some val\<rparr>))
         else if key = ''port'' then
           (out, Some (cur\<lparr>cb_port := Some (case parse_int val of None \<Rightarrow> 22 | Some p \<Rightarrow> if p = 0 then 22 else p)\<rparr>))
         else if key = ''user'' then (out, Some (cur\<lparr>cb_user := Some val\<rparr>))
         else st)"

definition config_line :: "config_state \<Rightarrow> string \<Rightarrow> config_state" where
  "config_line st raw =
    (let line = trim (strip_comment raw)
     in if line = [] then st
        else case key_value line of
          None \<Rightarrow> st
        | Some (k, v) \<Rightarrow> config_key (to_lower k) (unquote (trim v)) st)"

text \<open>\<open>out.filter\<close> with the set of the names seen so far.\<close>

fun first_named :: "string set \<Rightarrow> ssh_config_entry list \<Rightarrow> ssh_config_entry list" where
  "first_named seen [] = []"
| "first_named seen (e # es) =
     (if sce_name e \<in> seen then first_named seen es
      else e # first_named (insert (sce_name e) seen) es)"

definition parseSshConfig :: "string \<Rightarrow> ssh_config_entry list" where
  "parseSshConfig text = first_named {} (fst (flush (foldl config_line ([], None) (split_lines text))))"

section \<open>What the parser accepts\<close>

lemma first_named_names: "sce_name ` set (first_named seen es) = sce_name ` set es - seen"
proof (induction es arbitrary: seen)
  case (Cons e es)
  show ?case
  proof (cases "sce_name e \<in> seen")
    case False
    then show ?thesis by (auto simp: Cons.IH)
  qed (simp add: Cons.IH)
qed simp

lemma first_named_distinct: "distinct (map sce_name (first_named seen es))"
  by (induction es arbitrary: seen) (simp_all add: first_named_names)

lemma first_named_subset: "set (first_named seen es) \<subseteq> set es"
  by (induction es arbitrary: seen) auto

lemma first_named_find:
  "n \<notin> seen \<Longrightarrow> find (\<lambda>e. sce_name e = n) (first_named seen es) = find (\<lambda>e. sce_name e = n) es"
  by (induction es arbitrary: seen) auto

definition entry_ok :: "ssh_config_entry \<Rightarrow> bool" where
  "entry_ok e \<longleftrightarrow> sce_name e \<noteq> [] \<and> no_ws (sce_name e) \<and> \<not> pattern_name (sce_name e) \<and>
     sce_address e \<noteq> [] \<and> sce_port e \<noteq> 0 \<and> sce_user e \<noteq> []"

definition state_ok :: "config_state \<Rightarrow> bool" where
  "state_ok st \<longleftrightarrow> (\<forall>e \<in> set (fst st). entry_ok e) \<and>
     (\<forall>cur n. snd st = Some cur \<longrightarrow> n \<in> set (cb_names cur) \<longrightarrow> n \<noteq> [] \<and> no_ws n)"

lemma state_ok_flush: "state_ok st \<Longrightarrow> state_ok (flush st)"
proof (cases st rule: flush.cases)
  case (2 out cur)
  assume ok: "state_ok st"
  have "entry_ok (block_entry cur n)" if "n \<in> set (cb_names cur)" "\<not> pattern_name n" for n
    using ok that 2 by (auto simp: state_ok_def entry_ok_def block_entry_def split: option.splits)
  with ok 2 show ?thesis by (auto simp: state_ok_def)
qed simp

lemma state_ok_open: "state_ok (out, cur) \<Longrightarrow> state_ok (out, Some (new_block (words v)))"
  by (auto simp: state_ok_def new_block_def dest: words_no_ws)

lemma state_ok_set:
  "state_ok (out, Some b) \<Longrightarrow> cb_names b' = cb_names b \<Longrightarrow> state_ok (out, Some b')"
  by (simp add: state_ok_def)

lemma state_ok_config_key: "state_ok st \<Longrightarrow> state_ok (config_key k v st)"
proof -
  assume ok: "state_ok st"
  have fl: "state_ok (fst (flush st), snd (flush st))" using state_ok_flush [OF ok] by simp
  obtain out cur where st: "st = (out, cur)" by (cases st)
  show ?thesis
  proof (cases cur)
    case None
    then show ?thesis unfolding config_key_def st
      using state_ok_open [OF fl] ok fl by (simp add: st)
  next
    case (Some b)
    note set = state_ok_set [OF ok [unfolded st Some]]
    show ?thesis unfolding config_key_def st Some
      using state_ok_open [OF fl] ok fl by (simp add: st Some set)
  qed
qed

lemma state_ok_line: "state_ok st \<Longrightarrow> state_ok (config_line st l)"
  by (auto simp: config_line_def Let_def state_ok_config_key split: option.splits)

lemma state_ok_lines: "state_ok st \<Longrightarrow> state_ok (foldl config_line st ls)"
  by (induction ls arbitrary: st) (simp_all add: state_ok_line)

text \<open>Whatever text is pasted, every host the importer offers has a concrete name (one
  word, no wildcard or negation), a non-empty address and user and a non-zero port, and
  no name is offered twice.\<close>

theorem parseSshConfig_entries:
  "set (parseSshConfig text) \<subseteq> Collect entry_ok \<and> distinct (map sce_name (parseSshConfig text))"
proof
  have "state_ok ([], None)" by (simp add: state_ok_def)
  then have "state_ok (flush (foldl config_line ([], None) (split_lines text)))"
    by (intro state_ok_flush state_ok_lines)
  then show "set (parseSshConfig text) \<subseteq> Collect entry_ok"
    using first_named_subset by (fastforce simp: parseSshConfig_def state_ok_def)
  show "distinct (map sce_name (parseSshConfig text))"
    by (simp add: parseSshConfig_def first_named_distinct)
qed

section \<open>Round trip\<close>

definition config_text :: "ssh_config_entry \<Rightarrow> string" where
  "config_text e = ''Host '' @ sce_name e @ LF # ''  HostName '' @ sce_address e @ LF #
     ''  Port '' @ show_nat (nat (sce_port e)) @ LF # ''  User '' @ sce_user e @ [LF]"

text \<open>A word that can stand as a value: not empty, no space, quote, comment or equals sign.\<close>

definition config_word :: "string \<Rightarrow> bool" where
  "config_word v \<longleftrightarrow> v \<noteq> [] \<and> no_ws v \<and> CHR ''#'' \<notin> set v \<and> CHR ''='' \<notin> set v \<and> CHR 0x22 \<notin> set v"

definition plain_entry :: "ssh_config_entry \<Rightarrow> bool" where
  "plain_entry e \<longleftrightarrow> config_word (sce_name e) \<and> \<not> pattern_name (sce_name e) \<and>
     config_word (sce_address e) \<and> config_word (sce_user e) \<and> 0 < sce_port e"

lemma strip_comment_id: "CHR ''#'' \<notin> set s \<Longrightarrow> strip_comment s = s"
  by (induction s) auto

lemma ws_eol: "ws CR" "ws LF"
  by (simp_all add: js_simps)

lemma no_ws_eol: "no_ws s \<Longrightarrow> CR \<notin> set s \<and> LF \<notin> set s"
  using ws_eol by (auto simp: no_ws_def)

lemma rest_value_word: "no_ws v \<Longrightarrow> CHR ''='' \<notin> set v \<Longrightarrow> rest_value v = None"
proof (cases v)
  case (Cons c s)
  assume "no_ws v" "CHR ''='' \<notin> set v"
  with Cons have "\<not> ws c" "c \<noteq> CHR ''=''" by auto
  with Cons show ?thesis by (simp add: rest_value_def)
qed (simp add: rest_value_def)

lemma blank_ws: "ws (CHR '' '')"
  by (simp add: js_simps)

lemma rest_value_space: "config_word v \<Longrightarrow> rest_value (CHR '' '' # v) = Some v"
proof (cases v)
  case (Cons c s)
  assume v: "config_word v"
  with Cons have c: "\<not> ws c" "c \<noteq> CHR ''=''" by (auto simp: config_word_def)
  have "CR \<notin> set v" using v no_ws_eol by (simp add: config_word_def)
  with Cons c show ?thesis by (simp add: rest_value_def value_text_def blank_ws)
qed (simp add: config_word_def)

text \<open>A keyword: letters only, so no space and no equals sign.\<close>

definition keyword :: "string \<Rightarrow> bool" where
  "keyword k \<longleftrightarrow> k \<noteq> [] \<and> no_ws k \<and> CHR ''='' \<notin> set k \<and> CHR ''#'' \<notin> set k"

lemma key_value_from_word:
  "k \<noteq> [] \<Longrightarrow> no_ws k \<Longrightarrow> CHR ''='' \<notin> set k \<Longrightarrow> config_word v \<Longrightarrow>
   key_value_from acc (k @ CHR '' '' # v) = Some (acc @ k, v)"
proof (induction k arbitrary: acc)
  case (Cons c k)
  show ?case
  proof (cases k)
    case Nil
    with Cons.prems show ?thesis by (simp add: rest_value_space)
  next
    case (Cons d k')
    with Cons.prems have d: "\<not> ws d" "d \<noteq> CHR ''=''" by auto
    then have "rest_value (k @ CHR '' '' # v) = None" by (simp add: Cons rest_value_def)
    with Cons.IH [of "acc @ [c]"] Cons.prems Cons show ?thesis by auto
  qed
qed simp

lemma key_value_word: "keyword k \<Longrightarrow> config_word v \<Longrightarrow> key_value (k @ CHR '' '' # v) = Some (k, v)"
  by (simp add: key_value_def keyword_def key_value_from_word)

lemma unquote_id: "CHR 0x22 \<notin> set v \<Longrightarrow> unquote v = v"
  by (cases v) (auto simp: unquote_def)

lemma word_value: "config_word v \<Longrightarrow> unquote (trim v) = v"
  by (simp add: config_word_def trim_id unquote_id)

text \<open>One line of a block, indented or not.\<close>

lemma config_line_word:
  assumes k: "keyword k" and v: "config_word v" and p: "list_all ws p" "CHR ''#'' \<notin> set p"
  shows "config_line st (p @ k @ CHR '' '' # v) = config_key (to_lower k) v st"
proof -
  have "CHR ''#'' \<notin> set (p @ k @ CHR '' '' # v)" using assms by (auto simp: keyword_def config_word_def)
  then have sc: "strip_comment (p @ k @ CHR '' '' # v) = p @ k @ CHR '' '' # v" by (rule strip_comment_id)
  have "\<not> ws (hd (k @ CHR '' '' # v))" using k by (auto simp: keyword_def no_ws_def)
  moreover have "\<not> ws (last (k @ CHR '' '' # v))" using v by (auto simp: config_word_def no_ws_def)
  ultimately have "trim (k @ CHR '' '' # v) = k @ CHR '' '' # v" by (rule trim_no_ws)
  then have "trim (p @ k @ CHR '' '' # v) = k @ CHR '' '' # v" using p(1) by (simp add: trim_left_pad)
  then show ?thesis
    using key_value_word [OF k v] word_value [OF v] by (simp add: config_line_def sc)
qed

definition entry_lines :: "ssh_config_entry \<Rightarrow> string list" where
  "entry_lines e = [''Host '' @ sce_name e, ''  HostName '' @ sce_address e,
     ''  Port '' @ show_nat (nat (sce_port e)), ''  User '' @ sce_user e]"

lemma ssh_keys: "keyword ''Host''" "keyword ''HostName''" "keyword ''Port''" "keyword ''User''"
  by (simp_all add: keyword_def js_simps)

lemma lower_ssh_keys: "to_lower ''Host'' = ''host''" "to_lower ''HostName'' = ''hostname''"
  "to_lower ''Port'' = ''port''" "to_lower ''User'' = ''user''"
  by code_simp+

lemma config_word_nat: "config_word (show_nat n)"
proof -
  have "c \<in> set (show_nat n) \<Longrightarrow> digit c" for c by (rule show_nat_digits)
  then have "CHR ''#'' \<notin> set (show_nat n)" "CHR ''='' \<notin> set (show_nat n)" "CHR 0x22 \<notin> set (show_nat n)"
    by (auto simp: js_simps dest!: show_nat_digits)
  then show ?thesis using no_ws_digits [OF digits_show_nat] by (simp add: config_word_def)
qed

lemma config_lines:
  assumes "plain_entry e"
  shows "flush (foldl config_line st (entry_lines e)) = (fst (flush st) @ [e], None)"
proof -
  have w: "config_word (sce_name e)" "config_word (sce_address e)" "config_word (sce_user e)"
    and n: "\<not> pattern_name (sce_name e)" and p: "0 < sce_port e"
    using assms by (simp_all add: plain_entry_def)
  let ?b = "new_block [sce_name e]"
  have "config_line st (''Host '' @ sce_name e) = config_key ''host'' (sce_name e) st" for st
    using config_line_word [OF ssh_keys(1) w(1), of "[]"] by (simp add: lower_ssh_keys)
  moreover have "words (sce_name e) = [sce_name e]"
    using w by (intro words_single) (simp_all add: config_word_def)
  ultimately have h: "config_line st (''Host '' @ sce_name e) = (fst (flush st), Some ?b)"
    by (simp add: config_key_def)
  have a: "config_line st (''  HostName '' @ sce_address e) = config_key ''hostname'' (sce_address e) st" for st
    using config_line_word [OF ssh_keys(2) w(2), of "''  ''"] by (simp add: lower_ssh_keys blank_ws)
  have q: "config_line st (''  Port '' @ show_nat (nat (sce_port e))) = config_key ''port'' (show_nat (nat (sce_port e))) st" for st
    using config_line_word [OF ssh_keys(3) config_word_nat, of "''  ''"] by (simp add: lower_ssh_keys blank_ws)
  have u: "config_line st (''  User '' @ sce_user e) = config_key ''user'' (sce_user e) st" for st
    using config_line_word [OF ssh_keys(4) w(3), of "''  ''"] by (simp add: lower_ssh_keys blank_ws)
  let ?b' = "?b\<lparr>cb_hostName := Some (sce_address e), cb_port := Some (sce_port e), cb_user := Some (sce_user e)\<rparr>"
  have "foldl config_line st (entry_lines e) = (fst (flush st), Some ?b')"
    using p unfolding entry_lines_def foldl_Cons foldl_Nil h a q u
    by (simp add: config_key_def parse_int_show_nat)
  moreover have "block_entry ?b' (sce_name e) = e"
    using w p by (simp add: block_entry_def config_word_def new_block_def)
  ultimately show ?thesis using n by (simp add: new_block_def)
qed

lemma config_blocks:
  "list_all plain_entry es \<Longrightarrow>
   fst (flush (foldl config_line st (concat (map entry_lines es)))) = fst (flush st) @ es"
proof (induction es arbitrary: st)
  case (Cons e es)
  then show ?case using config_lines [of e st] by simp
qed simp

lemma split_line: "CR \<notin> set l \<Longrightarrow> LF \<notin> set l \<Longrightarrow> split_lines (l @ LF # s) = l # split_lines s"
  by (simp add: split_lines_cons drop_cr_def) (metis last_in_set)

lemma config_text_lines:
  "plain_entry e \<Longrightarrow> split_lines (config_text e @ s) = entry_lines e @ split_lines s"
proof -
  assume e: "plain_entry e"
  have eol: "CR \<notin> set k \<and> LF \<notin> set k \<Longrightarrow> config_word v \<Longrightarrow> CR \<notin> set (k @ v) \<and> LF \<notin> set (k @ v)" for k v
    using no_ws_eol [of v] by (simp add: config_word_def)
  have k: "CR \<notin> set ''Host '' \<and> LF \<notin> set ''Host ''" "CR \<notin> set ''  HostName '' \<and> LF \<notin> set ''  HostName ''"
    "CR \<notin> set ''  Port '' \<and> LF \<notin> set ''  Port ''" "CR \<notin> set ''  User '' \<and> LF \<notin> set ''  User ''"
    by code_simp+
  define l1 where "l1 = ''Host '' @ sce_name e"
  define l2 where "l2 = ''  HostName '' @ sce_address e"
  define l3 where "l3 = ''  Port '' @ show_nat (nat (sce_port e))"
  define l4 where "l4 = ''  User '' @ sce_user e"
  note ls = l1_def l2_def l3_def l4_def
  have t: "config_text e @ s = l1 @ LF # l2 @ LF # l3 @ LF # l4 @ LF # s"
    by (simp add: config_text_def ls)
  have "CR \<notin> set l1 \<and> LF \<notin> set l1" "CR \<notin> set l2 \<and> LF \<notin> set l2"
    "CR \<notin> set l3 \<and> LF \<notin> set l3" "CR \<notin> set l4 \<and> LF \<notin> set l4"
    unfolding ls using e eol [OF k(1)] eol [OF k(2)] eol [OF k(3) config_word_nat] eol [OF k(4)]
    by (simp_all only: plain_entry_def simp_thms)
  then have "split_lines (config_text e @ s) = [l1, l2, l3, l4] @ split_lines s"
    unfolding t by (simp add: split_line)
  then show ?thesis by (simp only: entry_lines_def ls)
qed

lemma config_texts_lines:
  "list_all plain_entry es \<Longrightarrow> split_lines (concat (map config_text es)) = concat (map entry_lines es) @ [[]]"
proof (induction es)
  case (Cons e es)
  then show ?case by (simp add: config_text_lines del: append.simps)
qed simp

lemma first_named_id:
  "distinct (map sce_name es) \<Longrightarrow> sce_name ` set es \<inter> seen = {} \<Longrightarrow> first_named seen es = es"
  by (induction es arbitrary: seen) auto

text \<open>C12: a configuration written out from hosts with distinct, concrete names is read back as
  exactly those hosts, in their order.\<close>

theorem parseSshConfig_roundtrip:
  assumes "list_all plain_entry es" "distinct (map sce_name es)"
  shows "parseSshConfig (concat (map config_text es)) = es"
proof -
  have "config_line st [] = st" for st by (simp add: config_line_def)
  then have "fst (flush (foldl config_line ([], None) (split_lines (concat (map config_text es))))) = es"
    using config_blocks [OF assms(1), of "([], None)"] by (simp add: config_texts_lines [OF assms(1)])
  then show ?thesis using assms(2) by (simp add: parseSshConfig_def first_named_id)
qed

definition sample_entries :: "ssh_config_entry list" where
  "sample_entries =
    [\<lparr>sce_name = ''web'', sce_address = ''10.0.0.5'', sce_port = 2222, sce_user = ''deploy''\<rparr>,
     \<lparr>sce_name = ''db'', sce_address = ''db.lan'', sce_port = 22, sce_user = ''root''\<rparr>]"

lemma parseSshConfig_roundtrip_witness:
  "parseSshConfig (concat (map config_text sample_entries)) = sample_entries \<and> length sample_entries = 2"
proof
  have "list_all plain_entry sample_entries" "distinct (map sce_name sample_entries)" by code_simp+
  then show "parseSshConfig (concat (map config_text sample_entries)) = sample_entries"
    by (rule parseSshConfig_roundtrip)
qed (simp add: sample_entries_def)

section \<open>Connection tests\<close>

text \<open>While a test runs its five steps are shown in the API's order with only the first one
  running, and over the local socket the connection steps after it are marked skipped;
  a result keeps every step's label, in order, and gives no time for a skipped step.\<close>

theorem test_steps_shown:
  "map js_label (pendingSteps m) = TEST_LABELS \<and>
   map js_status (pendingSteps m) =
     (if m = Method_local then [Step_running, Step_skipped, Step_skipped, Step_pending, Step_pending]
      else [Step_running, Step_pending, Step_pending, Step_pending, Step_pending]) \<and>
   map js_label (resultSteps r) = map ts_label (htr_steps r) \<and>
   filter (\<lambda>s. js_status s = Step_skipped \<and> js_t s \<noteq> []) (resultSteps r) = []"
proof (intro conjI)
  have u: "[0 ..< 5 :: nat] = [0, 1, 2, 3, 4]" by code_simp
  show "map js_label (pendingSteps m) = TEST_LABELS"
    by (simp add: pendingSteps_def TEST_LABELS_def pending_step_def u)
  show "map js_status (pendingSteps m) =
     (if m = Method_local then [Step_running, Step_skipped, Step_skipped, Step_pending, Step_pending]
      else [Step_running, Step_pending, Step_pending, Step_pending, Step_pending])"
    by (simp add: pendingSteps_def TEST_LABELS_def pending_step_def u)
  show "map js_label (resultSteps r) = map ts_label (htr_steps r)"
    by (simp add: resultSteps_def)
  have "test_step_state t = Step_skipped \<longleftrightarrow> t = TestStep_skipped" for t by (cases t) simp_all
  then show "filter (\<lambda>s. js_status s = Step_skipped \<and> js_t s \<noteq> []) (resultSteps r) = []"
    by (auto simp: resultSteps_def filter_empty_conv)
qed

end
