(* ===== verification/Api_Client.thy ===== *)
theory Api_Client
  imports Js_Text Api_Ops
begin

text \<open>
  The HTTP client (web/lib/api.ts): one request with its error and sign-in handling, the
  cache keys an invalidation reaches, WebSocket addresses, and the job poller \<open>useJob\<close> as a
  step relation. The text of a response is classified by what \<open>JSON.parse\<close> makes of it; the
  SWR cache itself is a library the client only calls.
\<close>

section \<open>Requests\<close>

datatype http_method = GET | POST | PUT | PATCH | DELETE

record request_opts =
  ro_method :: "http_method option"
  ro_body :: "json option"

datatype response_text = Empty_text | Json_text json | Plain_text string

record response =
  rs_status :: nat
  rs_statusText :: string
  rs_text :: response_text

datatype fetch_result = Unreachable string | Answered response

record fetch_call =
  fc_path :: string
  fc_method :: http_method
  fc_headers :: "(string \<times> string) list"
  fc_body :: "json option"

record location =
  loc_secure :: bool
  loc_host :: string
  loc_pathname :: string
  loc_search :: string

datatype js_error = ApiError nat string | Type_error string

definition response_ok :: "response \<Rightarrow> bool" where
  "response_ok r \<longleftrightarrow> 200 \<le> rs_status r \<and> rs_status r \<le> 299"

text \<open>\<open>encodeURIComponent\<close>, byte by byte of the UTF-8 text.\<close>

definition uri_plain :: "char \<Rightarrow> bool" where
  "uri_plain c \<longleftrightarrow> digit c \<or> upper_letter c \<or> lower_letter c \<or> c \<in> set ''-_.!~*()'' \<or> c = CHR 0x27"

definition hex_upper :: "nat \<Rightarrow> char" where
  "hex_upper n = (if n < 10 then digit_char n else char_of (55 + n))"

definition uri_escape :: "char \<Rightarrow> string" where
  "uri_escape c = [CHR ''%'', hex_upper (code c div 16), hex_upper (code c mod 16)]"

definition encodeURIComponent :: "string \<Rightarrow> string" where
  "encodeURIComponent s = concat (map (\<lambda>c. if uri_plain c then [c] else uri_escape c) s)"

definition fetch_of :: "string \<Rightarrow> request_opts \<Rightarrow> fetch_call" where
  "fetch_of path opts =
    \<lparr>fc_path = path,
     fc_method = (case ro_method opts of None \<Rightarrow> GET | Some m \<Rightarrow> m),
     fc_headers = [(''Accept'', ''application/json''), (''X-Requested-With'', ''dockhand'')] @
       (if ro_body opts \<noteq> None then [(''Content-Type'', ''application/json'')] else []),
     fc_body = ro_body opts\<rparr>"

text \<open>The page the browser is sent to when the session is gone.\<close>

definition sign_in_redirect :: "location \<Rightarrow> string \<Rightarrow> response \<Rightarrow> string option" where
  "sign_in_redirect loc path r =
    (if rs_status r = 401 \<and> \<not> starts_with path ''/api/auth/'' \<and>
        loc_pathname loc \<noteq> ''/login'' \<and> loc_pathname loc \<noteq> ''/setup''
     then Some (''/login?next='' @ encodeURIComponent (loc_pathname loc @ loc_search loc)) else None)"

definition response_data :: "response \<Rightarrow> json option" where
  "response_data r = (case rs_text r of Empty_text \<Rightarrow> None | Json_text j \<Rightarrow> Some j | Plain_text t \<Rightarrow> Some (JStr t))"

fun truthy :: "json \<Rightarrow> bool" where
  "truthy JNull \<longleftrightarrow> False"
| "truthy (JBool b) \<longleftrightarrow> b"
| "truthy (JNum x) \<longleftrightarrow> x \<noteq> 0"
| "truthy (JStr s) \<longleftrightarrow> s \<noteq> []"
| "truthy (JArr _) \<longleftrightarrow> True"
| "truthy (JObj _) \<longleftrightarrow> True"

text \<open>The \<open>error\<close> member of an object body, and \<open>String\<close> of it (\<open>str\<close> gives the text of a value
  that is not a string).\<close>

definition error_field :: "(json \<Rightarrow> string) \<Rightarrow> json option \<Rightarrow> string" where
  "error_field str data =
    (case data of
       Some (JObj kvs) \<Rightarrow>
         (case map_of (rev kvs) ''error'' of
            None \<Rightarrow> [] | Some e \<Rightarrow> if truthy e then (case e of JStr s \<Rightarrow> s | _ \<Rightarrow> str e) else [])
     | _ \<Rightarrow> [])"

definition error_message :: "(json \<Rightarrow> string) \<Rightarrow> response \<Rightarrow> string" where
  "error_message str r =
    (let m = error_field str (response_data r) in
     if m \<noteq> [] then m else if rs_statusText r \<noteq> [] then rs_statusText r else ''Request failed'')"

text \<open>The result of \<open>api\<close>: where the page goes, and the error or the data.\<close>

definition api :: "(json \<Rightarrow> string) \<Rightarrow> location \<Rightarrow> string \<Rightarrow> fetch_result \<Rightarrow>
    string option \<times> (js_error + json option)" where
  "api str loc path res = (case res of
     Unreachable m \<Rightarrow> (None, Inl (Type_error m))
   | Answered r \<Rightarrow>
       (sign_in_redirect loc path r,
        if response_ok r then Inr (response_data r)
        else Inl (ApiError (rs_status r) (error_message str r))))"

definition get_opts :: request_opts where
  "get_opts = \<lparr>ro_method = None, ro_body = None\<rparr>"

definition send_opts :: "http_method \<Rightarrow> json option \<Rightarrow> request_opts" where
  "send_opts m body = \<lparr>ro_method = Some m, ro_body = Some (case body of None \<Rightarrow> JObj [] | Some b \<Rightarrow> b)\<rparr>"

definition post_opts where "post_opts = send_opts POST"
definition put_opts where "put_opts = send_opts PUT"
definition patch_opts where "patch_opts = send_opts PATCH"

definition del_opts :: request_opts where
  "del_opts = \<lparr>ro_method = Some DELETE, ro_body = None\<rparr>"

text \<open>\<open>errMsg\<close>: both errors are \<open>Error\<close> objects, whose message it takes.\<close>

fun errMsg :: "js_error \<Rightarrow> string" where
  "errMsg (ApiError _ m) = m"
| "errMsg (Type_error m) = m"

text \<open>The SWR keys an invalidation revalidates: the strings with the prefix.\<close>

definition invalidated :: "string \<Rightarrow> string option list \<Rightarrow> string option list" where
  "invalidated p keys = filter (\<lambda>k. case k of None \<Rightarrow> False | Some s \<Rightarrow> starts_with s p) keys"

definition wsUrl :: "string option \<Rightarrow> location \<Rightarrow> string \<Rightarrow> string" where
  "wsUrl devApi loc path =
    (case devApi of
       Some d \<Rightarrow> if d \<noteq> [] then (if starts_with d ''http'' then ''ws'' @ drop 4 d else d) @ path
         else (if loc_secure loc then ''wss:'' else ''ws:'') @ ''//'' @ loc_host loc @ path
     | None \<Rightarrow> (if loc_secure loc then ''wss:'' else ''ws:'') @ ''//'' @ loc_host loc @ path)"

section \<open>What a request reports\<close>


text \<open>Only a 401 outside the sign-in endpoints sends the browser to the login page, never
  from the login or setup page itself, so the redirect cannot loop.\<close>

theorem redirect_only_when_signed_out:
  "(fst (api str loc path res) \<noteq> None) =
     (\<exists>r. res = Answered r \<and> rs_status r = 401 \<and> \<not> prefix ''/api/auth/'' path \<and>
       loc_pathname loc \<noteq> ''/login'' \<and> loc_pathname loc \<noteq> ''/setup'')"
  by (auto simp: api_def sign_in_redirect_def starts_with_prefix split: fetch_result.splits)

section \<open>The job poller\<close>

text \<open>
  \<open>useJob\<close>: each change of the job id starts a new effect (numbered by \<open>ps_gen\<close>) and stops
  the previous one: its timer is cleared, its outstanding request, if any, is ignored when
  it answers. \<open>ps_inflight\<close> are the requests that have not answered, with the effect that
  sent them; an empty id is \<open>null\<close>.
\<close>

record poll_state =
  ps_id :: string
  ps_gen :: nat
  ps_job :: "job option"
  ps_inflight :: "(nat \<times> string) list"
  ps_timer :: "nat option"

datatype poll_event = Set_id string | Reply nat job | Failure nat | Timer

definition poll_start :: poll_state where
  "poll_start = \<lparr>ps_id = [], ps_gen = 0, ps_job = None, ps_inflight = [], ps_timer = None\<rparr>"

definition remove_gen :: "nat \<Rightarrow> (nat \<times> string) list \<Rightarrow> (nat \<times> string) list" where
  "remove_gen g rs = filter (\<lambda>r. fst r \<noteq> g) rs"

fun poll_step :: "poll_event \<Rightarrow> poll_state \<Rightarrow> poll_state" where
  "poll_step (Set_id i) st = st\<lparr>ps_id := i, ps_gen := Suc (ps_gen st), ps_job := None, ps_timer := None,
     ps_inflight := (if i = [] then ps_inflight st else (Suc (ps_gen st), i) # ps_inflight st)\<rparr>"
| "poll_step (Reply g j) st =
     (let st' = st\<lparr>ps_inflight := remove_gen g (ps_inflight st)\<rparr> in
      if g \<noteq> ps_gen st then st'
      else st'\<lparr>ps_job := Some j, ps_timer := (if job_status j = JobStatus_running then Some 700 else ps_timer st)\<rparr>)"
| "poll_step (Failure g) st =
     (let st' = st\<lparr>ps_inflight := remove_gen g (ps_inflight st)\<rparr> in
      if g \<noteq> ps_gen st then st' else st'\<lparr>ps_timer := Some 1500\<rparr>)"
| "poll_step Timer st = st\<lparr>ps_timer := None, ps_inflight := (ps_gen st, ps_id st) # ps_inflight st\<rparr>"

text \<open>When an event can happen. The API answers a request with the job that was asked for.\<close>

fun poll_enabled :: "poll_event \<Rightarrow> poll_state \<Rightarrow> bool" where
  "poll_enabled (Set_id i) st \<longleftrightarrow> i \<noteq> ps_id st"
| "poll_enabled (Reply g j) st \<longleftrightarrow> (g, job_id j) \<in> set (ps_inflight st)"
| "poll_enabled (Failure g) st \<longleftrightarrow> g \<in> fst ` set (ps_inflight st)"
| "poll_enabled Timer st \<longleftrightarrow> ps_timer st \<noteq> None"

inductive poll_reaches :: "poll_event list \<Rightarrow> poll_state \<Rightarrow> bool" where
  start: "poll_reaches [] poll_start"
| step: "poll_reaches es st \<Longrightarrow> poll_enabled e st \<Longrightarrow> poll_reaches (es @ [e]) (poll_step e st)"

inductive_cases poll_reaches_snocE: "poll_reaches (es @ [e]) st"

definition poll_finished :: "poll_state \<Rightarrow> bool" where
  "poll_finished st \<longleftrightarrow> ps_id st = [] \<or> (\<exists>j. ps_job st = Some j \<and> job_status j \<noteq> JobStatus_running)"

definition current_requests :: "poll_state \<Rightarrow> (nat \<times> string) list" where
  "current_requests st = filter (\<lambda>r. fst r = ps_gen st) (ps_inflight st)"

definition poll_ok :: "poll_state \<Rightarrow> bool" where
  "poll_ok st \<longleftrightarrow>
    (\<forall>r \<in> set (ps_inflight st). fst r \<le> ps_gen st) \<and>
    (\<forall>j. ps_job st = Some j \<longrightarrow> job_id j = ps_id st \<and> ps_id st \<noteq> []) \<and>
    (if poll_finished st then current_requests st = [] \<and> ps_timer st = None
     else current_requests st = [(ps_gen st, ps_id st)] \<and> ps_timer st = None \<or>
       current_requests st = [] \<and> ps_timer st \<noteq> None)"

lemma remove_gen_current: "filter (\<lambda>r. fst r = g) (remove_gen h rs) = (if g = h then [] else filter (\<lambda>r. fst r = g) rs)"
  by (auto simp: remove_gen_def filter_empty_conv intro: filter_cong)

lemma remove_gen_subset: "set (remove_gen g rs) \<subseteq> set rs"
  by (auto simp: remove_gen_def)

lemma newer_requests:
  "\<forall>r \<in> set rs. fst r \<le> g \<Longrightarrow> filter (\<lambda>r. fst r = Suc g) rs = []"
  by (auto simp: filter_empty_conv)

lemma poll_ok_start: "poll_ok poll_start"
  by (simp add: poll_ok_def poll_start_def poll_finished_def current_requests_def)

lemma poll_ok_set_id: "poll_ok st \<Longrightarrow> poll_ok (poll_step (Set_id i) st)"
  by (auto simp: poll_ok_def poll_finished_def current_requests_def newer_requests)

lemma poll_ok_stale:
  assumes "poll_ok st" "g \<noteq> ps_gen st"
  shows "poll_ok (st\<lparr>ps_inflight := remove_gen g (ps_inflight st)\<rparr>)"
proof -
  let ?st = "st\<lparr>ps_inflight := remove_gen g (ps_inflight st)\<rparr>"
  have c: "current_requests ?st = current_requests st"
    using assms(2) by (simp add: current_requests_def remove_gen_current)
  have f: "poll_finished ?st = poll_finished st" by (simp add: poll_finished_def)
  have "\<forall>r \<in> set (ps_inflight ?st). fst r \<le> ps_gen st"
    using assms(1) by (auto simp: poll_ok_def remove_gen_def)
  with assms(1) c f show ?thesis unfolding poll_ok_def by (cases "poll_finished st") auto
qed

lemma poll_ok_reply:
  assumes ok: "poll_ok st" and e: "poll_enabled (Reply g j) st"
  shows "poll_ok (poll_step (Reply g j) st)"
proof (cases "g = ps_gen st")
  case True
  with e have "(g, job_id j) \<in> set (current_requests st)" by (simp add: current_requests_def)
  then have "current_requests st = [(ps_gen st, ps_id st)]" and id: "job_id j = ps_id st" and
    nf: "\<not> poll_finished st" and t: "ps_timer st = None"
    using ok by (auto simp: poll_ok_def split: if_splits)
  have "ps_id st \<noteq> []" using nf by (simp add: poll_finished_def)
  with True ok id t show ?thesis
    using remove_gen_subset [of g "ps_inflight st"]
    by (auto simp: poll_ok_def Let_def poll_finished_def current_requests_def remove_gen_current)
next
  case False
  with poll_ok_stale [OF ok False] show ?thesis by (simp add: Let_def)
qed

lemma poll_ok_failure:
  assumes ok: "poll_ok st" and e: "poll_enabled (Failure g) st"
  shows "poll_ok (poll_step (Failure g) st)"
proof (cases "g = ps_gen st")
  case True
  then have "current_requests st \<noteq> []"
    using e by (fastforce simp: current_requests_def filter_empty_conv)
  with True ok show ?thesis
    using remove_gen_subset [of g "ps_inflight st"]
    by (auto simp: poll_ok_def Let_def poll_finished_def current_requests_def remove_gen_current split: if_splits)
next
  case False
  with poll_ok_stale [OF ok False] show ?thesis by (simp add: Let_def)
qed

lemma poll_ok_timer: "poll_ok st \<Longrightarrow> poll_enabled Timer st \<Longrightarrow> poll_ok (poll_step Timer st)"
  by (auto simp: poll_ok_def poll_finished_def current_requests_def split: if_splits)

lemma poll_reaches_ok: "poll_reaches es st \<Longrightarrow> poll_ok st"
proof (induction rule: poll_reaches.induct)
  case start
  show ?case by (rule poll_ok_start)
next
  case (step es st e)
  then show ?case
    by (cases e) (simp_all only: poll_ok_set_id poll_ok_reply poll_ok_failure poll_ok_timer)
qed

text \<open>C1: whatever the order of answers, failures, timers and changes of the job id, the job
  shown is one the API gave for the current id, never a late answer for an earlier one; and
  while the job is not known to have finished there is exactly one outstanding request or
  one timer for it: polling neither stops early nor doubles, and stops when the job ends.\<close>

theorem useJob_invariant:
  assumes "poll_reaches es st"
  shows "(\<forall>j. ps_job st = Some j \<longrightarrow> job_id j = ps_id st) \<and>
    length (current_requests st) + (if ps_timer st = None then 0 else 1) =
      (if ps_id st = [] \<or> (\<exists>j. ps_job st = Some j \<and> job_status j \<noteq> JobStatus_running) then 0 else 1)"
  using poll_reaches_ok [OF assms] by (auto simp: poll_ok_def poll_finished_def split: if_splits)

definition sample_job :: "string \<Rightarrow> job_status \<Rightarrow> job" where
  "sample_job i s = \<lparr>job_id = i, job_kind = JobKind_pull, job_title = ''Pull nginx'', job_hostId = None,
    job_status = s, job_actor = ''admin'', job_steps = [], job_log = [], job_result = [],
    job_startedAt = '''', job_finishedAt = None\<rparr>"

definition sample_poll :: "poll_event list" where
  "sample_poll = [Set_id ''a'', Set_id ''b'', Reply 1 (sample_job ''a'' JobStatus_success),
    Reply 2 (sample_job ''b'' JobStatus_running), Timer]"

lemma useJob_invariant_witness:
  "\<exists>st. poll_reaches sample_poll st \<and> ps_job st = Some (sample_job ''b'' JobStatus_running) \<and>
    length (current_requests st) = 1 \<and> ps_timer st = None"
proof -
  define s where "s = fold poll_step sample_poll poll_start"
  have "poll_reaches ([] @ [Set_id ''a''] @ [Set_id ''b''] @ [Reply 1 (sample_job ''a'' JobStatus_success)] @
      [Reply 2 (sample_job ''b'' JobStatus_running)] @ [Timer]) s"
    unfolding s_def sample_poll_def append_assoc [symmetric] fold.simps comp_apply id_apply
    by (intro poll_reaches.intros) (simp_all add: poll_start_def sample_job_def remove_gen_def)
  then have r: "poll_reaches sample_poll s" by (simp add: sample_poll_def)
  moreover have j: "ps_job s = Some (sample_job ''b'' JobStatus_running)" "ps_timer s = None" "ps_id s = ''b''"
    by (simp_all add: s_def sample_poll_def poll_start_def sample_job_def)
  ultimately show ?thesis using useJob_invariant [OF r] by (intro exI [of _ s]) (simp add: sample_job_def)
qed

end
