(* ===== verification/Sign_In.thy ===== *)
theory Sign_In
  imports Api_Client Api_Core
begin

text \<open>
  The login page (web/app/login/page.tsx): where to go after signing in, what its submit
  handler does, and the round trip with the redirect of the HTTP client. A query is parsed
  as \<open>URLSearchParams\<close> does: pairs split at \<open>&\<close>, the first one with the name wins, \<open>+\<close> is a
  space and \<open>%xy\<close> a byte.
\<close>

definition hex_upper_val :: "char \<Rightarrow> nat" where
  "hex_upper_val c = (if digit c then digit_val c else if upper_letter c then code c - 55 else code c - 87)"

definition is_hex :: "char \<Rightarrow> bool" where
  "is_hex c \<longleftrightarrow> digit c \<or> (65 \<le> code c \<and> code c \<le> 70) \<or> (97 \<le> code c \<and> code c \<le> 102)"

fun query_decode :: "string \<Rightarrow> string" where
  "query_decode (c # d # e # s) =
     (if c = CHR ''%'' \<and> is_hex d \<and> is_hex e
      then char_of (16 * hex_upper_val d + hex_upper_val e) # query_decode s
      else (if c = CHR ''+'' then CHR '' '' else c) # query_decode (d # e # s))"
| "query_decode s = map (\<lambda>c. if c = CHR ''+'' then CHR '' '' else c) s"

definition query_pair :: "string \<Rightarrow> string \<times> string" where
  "query_pair p = (query_decode (takeWhile (\<lambda>c. c \<noteq> CHR ''='') p),
     query_decode (drop 1 (dropWhile (\<lambda>c. c \<noteq> CHR ''='') p)))"

definition query_get :: "string \<Rightarrow> string \<Rightarrow> string option" where
  "query_get search k =
     map_of (map query_pair (filter (\<lambda>p. p \<noteq> []) (split_on (CHR ''&'') (if starts_with search ''?'' then tl search else search)))) k"

text \<open>Where to go after signing in.\<close>

definition nextPath :: "string \<Rightarrow> string" where
  "nextPath search =
    (let n = (case query_get search ''next'' of None \<Rightarrow> [] | Some v \<Rightarrow> v)
     in if starts_with n ''/'' \<and> \<not> starts_with n ''//'' then n else ''/'')"

text \<open>The effect that leaves the page once the session state is known.\<close>

definition login_route :: "string \<Rightarrow> auth_state option \<Rightarrow> string option" where
  "login_route search state = (case state of
     None \<Rightarrow> None
   | Some s \<Rightarrow> if as_setupRequired s then Some ''/setup''
       else if as_user s \<noteq> None then Some (nextPath search) else None)"

record login_form =
  lf_username :: string
  lf_password :: string
  lf_remember :: bool
  lf_err :: string
  lf_busy :: bool

text \<open>The handler up to its first \<open>await\<close>: the request it sends, if any.\<close>

definition login_submit :: "login_form \<Rightarrow> login_form \<times> (string \<times> string \<times> bool) option" where
  "login_submit f =
    (if trim (lf_username f) = [] \<or> lf_password f = []
     then (f\<lparr>lf_err := ''Enter your username and password.''\<rparr>, None)
     else (f\<lparr>lf_err := [], lf_busy := True\<rparr>, Some (trim (lf_username f), lf_password f, lf_remember f)))"

text \<open>What follows the answer: the page it goes to, or the message it shows.\<close>

definition login_answer :: "string \<Rightarrow> (js_error + 'a) \<Rightarrow> login_form \<Rightarrow> login_form \<times> string option" where
  "login_answer search r f = (case r of
     Inr _ \<Rightarrow> (f, Some (nextPath search))
   | Inl e \<Rightarrow> (f\<lparr>lf_err := (if errMsg e \<noteq> [] then errMsg e else ''Sign-in failed.''), lf_busy := False\<rparr>, None))"

definition resetCmd :: "string \<Rightarrow> string" where
  "resetCmd username = ''docker compose exec api dockhand reset-password '' @
     (if trim username = [] then ''<user>'' else trim username)"

section \<open>Going back to the page\<close>

lemma hex_upper_code: "n < 16 \<Longrightarrow> code (hex_upper n) = (if n < 10 then 48 + n else 55 + n)"
  by (simp add: hex_upper_def js_simps)

lemma hex_upper_back: "n < 16 \<Longrightarrow> is_hex (hex_upper n) \<and> hex_upper_val (hex_upper n) = n"
  using hex_upper_code [of n]
  by (auto simp: is_hex_def hex_upper_val_def digit_def upper_letter_def digit_val_def split: if_splits)

lemma plain_not_special: "uri_plain c \<Longrightarrow> c \<noteq> CHR ''%'' \<and> c \<noteq> CHR ''+'' \<and> c \<noteq> CHR ''&'' \<and> c \<noteq> CHR ''=''"
  by (auto simp: uri_plain_def js_simps)

lemma code_escape: "char_of (16 * (code c div 16) + code c mod 16) = c" "char_of (code c) = c"
  by (simp_all add: code_def)

lemma code_lt: "code c < 256"
  by (simp add: code_def)

lemma query_decode_plain: "c \<noteq> CHR ''%'' \<Longrightarrow> c \<noteq> CHR ''+'' \<Longrightarrow> query_decode (c # s) = c # query_decode s"
  by (cases s rule: query_decode.cases) auto

lemma query_decode_escape: "query_decode (uri_escape c @ s) = c # query_decode s"
proof -
  have "code c div 16 < 16" "code c mod 16 < 16" using code_lt [of c] by simp_all
  then show ?thesis
    using hex_upper_back [of "code c div 16"] hex_upper_back [of "code c mod 16"]
    by (simp add: uri_escape_def code_escape)
qed

lemma decode_encode: "query_decode (encodeURIComponent s) = s"
proof (induction s)
  case (Cons c s)
  have enc: "encodeURIComponent (c # s) = (if uri_plain c then [c] else uri_escape c) @ encodeURIComponent s"
    by (simp add: encodeURIComponent_def)
  show ?case
  proof (cases "uri_plain c")
    case True
    with plain_not_special [OF True] Cons show ?thesis by (simp add: enc query_decode_plain)
  next
    case False
    with Cons show ?thesis by (simp add: enc query_decode_escape)
  qed
qed (simp add: encodeURIComponent_def)

lemma hex_upper_plain: "n < 16 \<Longrightarrow> hex_upper n \<noteq> CHR ''&''"
proof
  assume "n < 16" "hex_upper n = CHR ''&''"
  then have "code (CHR ''&'') = (if n < 10 then 48 + n else 55 + n)" using hex_upper_code by metis
  then show False by (auto simp: code_def split: if_splits)
qed

lemma encode_no_amp: "CHR ''&'' \<notin> set (encodeURIComponent s)"
proof (induction s)
  case (Cons c s)
  have "code c div 16 < 16" "code c mod 16 < 16" using code_lt [of c] by simp_all
  then have "CHR ''&'' \<notin> set (uri_escape c)"
    using hex_upper_plain [of "code c div 16"] hex_upper_plain [of "code c mod 16"] by (auto simp: uri_escape_def)
  with Cons plain_not_special [of c] show ?case by (auto simp: encodeURIComponent_def)
qed (simp add: encodeURIComponent_def)

lemma query_get_next: "query_get (''?next='' @ encodeURIComponent s) ''next'' = Some s"
proof -
  have "CHR ''&'' \<notin> set (''next='' @ encodeURIComponent s)" using encode_no_amp by simp
  then have "split_on (CHR ''&'') (''next='' @ encodeURIComponent s) = [''next='' @ encodeURIComponent s]"
    by (rule split_on_no_sep)
  moreover have "query_pair (''next='' @ encodeURIComponent s) = (''next'', s)"
    by (simp add: query_pair_def decode_encode)
  ultimately show ?thesis by (simp add: query_get_def)
qed

text \<open>A session that expires on a page leads through the login page back to exactly that
  page, its query included, whatever characters they hold.\<close>

theorem sign_in_returns:
  assumes "fst (api str loc path (Answered r)) = Some url"
    and "prefix ''/'' (loc_pathname loc)" "\<not> prefix ''//'' (loc_pathname loc @ loc_search loc)"
  shows "\<exists>search. url = ''/login'' @ search \<and> nextPath search = loc_pathname loc @ loc_search loc"
proof -
  let ?here = "loc_pathname loc @ loc_search loc"
  have "url = ''/login'' @ (''?next='' @ encodeURIComponent ?here)"
    using assms(1) by (auto simp: api_def sign_in_redirect_def split: if_splits)
  moreover have "nextPath (''?next='' @ encodeURIComponent ?here) = ?here"
    using assms(2,3) unfolding nextPath_def query_get_next by (auto simp: starts_with_prefix Let_def)
  ultimately show ?thesis by blast
qed

definition sample_loc :: location where
  "sample_loc = \<lparr>loc_secure = True, loc_host = ''dock.lan'', loc_pathname = ''/hosts/1'', loc_search = ''?tab=a&b''\<rparr>"

lemma sign_in_returns_witness:
  "\<exists>search. ''/login?next=%2Fhosts%2F1%3Ftab%3Da%26b'' = ''/login'' @ search \<and> nextPath search = ''/hosts/1?tab=a&b''"
proof -
  let ?r = "\<lparr>rs_status = 401, rs_statusText = [], rs_text = Empty_text\<rparr>"
  have "fst (api (\<lambda>_. []) sample_loc ''/api/hosts'' (Answered ?r)) = Some ''/login?next=%2Fhosts%2F1%3Ftab%3Da%26b''"
    by code_simp
  from sign_in_returns [OF this] show ?thesis by (simp add: sample_loc_def)
qed

text \<open>After signing in the page goes to a path of this site, never to an absolute address
  or to one that starts with two slashes.\<close>

theorem nextPath_local:
  "prefix ''/'' (nextPath search) \<and> \<not> prefix ''//'' (nextPath search)"
  by (auto simp: nextPath_def Let_def starts_with_prefix)

text \<open>A slash and a backslash pass that test, and browsers read them as two slashes.\<close>

lemma nextPath_backslash:
  "nextPath ''?next=%2F%5Cevil.example'' = CHR ''/'' # CHR 0x5C # ''evil.example''"
  by code_simp

end
