(* ===== verification/Ui_Text.thy ===== *)
theory Ui_Text
  imports Js_Text
begin

text \<open>The punctuation of the user interface, as UTF-8.\<close>

definition ellipsis :: string where
  "ellipsis = map char_of [226 :: nat, 128, 166]"

definition dash :: string where
  "dash = map char_of [226 :: nat, 128, 148]"

definition endash :: string where
  "endash = map char_of [226 :: nat, 128, 147]"

definition middot :: string where
  "middot = map char_of [194 :: nat, 183]"

definition times_sign :: string where
  "times_sign = map char_of [195 :: nat, 151]"

definition apostrophe :: string where
  "apostrophe = [CHR 0x27]"

text \<open>\<open>n === 1 ? "" : "s"\<close>.\<close>

definition s_unless_1 :: "int \<Rightarrow> string" where
  "s_unless_1 n = (if n = 1 then [] else ''s'')"

end
