(* ===== verification/Jobs.thy ===== *)
theory Jobs
  imports Api_Client Ui_Text
begin

text \<open>
  Background jobs (web/components/host/jobs.ts): \<open>trackJob\<close> polls a job and toasts its
  outcome, \<open>act\<close> runs one mutation. The polls' answers are an input, one entry per request:
  the job, or \<open>None\<close> when the request fails. \<open>poll_job\<close> is \<open>None\<close> while the loop still runs
  when the given answers are used up.
\<close>

datatype toast_kind = Toast_ok | Toast_error | Toast_info | Toast_warn

record toast =
  to_kind :: toast_kind
  to_title :: string
  to_text :: "string option"

text \<open>What a caller sees: toasts, invalidated prefixes and the \<open>onDone\<close> call, in order.\<close>

datatype job_effect = Toasted toast | Invalidated string | On_done job

record track_opts =
  tk_title :: string
  tk_done :: "string option"
  tk_invalidate :: "string list option"
  tk_quiet :: bool
  tk_onDone :: bool

text \<open>The loop: the delay before each request, and the job and the misses so far.\<close>

definition poll_delay :: "job option \<Rightarrow> nat" where
  "poll_delay job = (if job = None then 500 else 900)"

fun poll_job :: "job option \<Rightarrow> nat \<Rightarrow> job option list \<Rightarrow> job option option" where
  "poll_job job misses [] = None"
| "poll_job job misses (Some j # rs) =
     (if job_status j \<noteq> JobStatus_running then Some (Some j) else poll_job (Some j) 0 rs)"
| "poll_job job misses (None # rs) =
     (if 20 < Suc misses then Some job else poll_job job (Suc misses) rs)"

fun first_nonempty :: "string option list \<Rightarrow> string option" where
  "first_nonempty [] = None"
| "first_nonempty (Some s # ss) = (if s \<noteq> [] then Some s else first_nonempty ss)"
| "first_nonempty (None # ss) = first_nonempty ss"

definition failure_text :: "job \<Rightarrow> string" where
  "failure_text j =
    (let failed = find (\<lambda>s. js_status s = Step_failed) (job_steps j);
         lastErr = find (\<lambda>l. jl_level l = JobLogLineLevel_error) (rev (job_log j))
     in case first_nonempty [map_option js_sub failed, map_option jl_text lastErr, map_option js_label failed] of
          Some t \<Rightarrow> t | None \<Rightarrow> job_title j)"

definition started_toast :: "track_opts \<Rightarrow> toast" where
  "started_toast opts = \<lparr>to_kind = Toast_info, to_title = tk_title opts @ ellipsis,
    to_text = Some (''Running in the background '' @ dash @ '' you'' @ apostrophe @ ''ll get a toast when it'' @ apostrophe @ ''s done.'')\<rparr>"

definition lost_toast :: "track_opts \<Rightarrow> toast" where
  "lost_toast opts = \<lparr>to_kind = Toast_warn, to_title = tk_title opts,
    to_text = Some (''Lost track of the job '' @ dash @ '' check the host for its result.'')\<rparr>"

definition outcome_toast :: "track_opts \<Rightarrow> job \<Rightarrow> toast" where
  "outcome_toast opts j =
    (if job_status j = JobStatus_success
     then \<lparr>to_kind = Toast_ok, to_title = (case tk_done opts of Some d \<Rightarrow> d | None \<Rightarrow> tk_title opts @ '' '' @ dash @ '' done''),
            to_text = Some (job_title j)\<rparr>
     else \<lparr>to_kind = Toast_error, to_title = tk_title opts @ '' failed'', to_text = Some (failure_text j)\<rparr>)"

definition finish_track :: "track_opts \<Rightarrow> job option \<Rightarrow> job_effect list \<times> job option" where
  "finish_track opts job =
    (map Invalidated (case tk_invalidate opts of None \<Rightarrow> [''/api/hosts''] | Some ps \<Rightarrow> ps) @
     (case job of
        None \<Rightarrow> [Toasted (lost_toast opts)]
      | Some j \<Rightarrow> Toasted (outcome_toast opts j) # (if tk_onDone opts then [On_done j] else [])),
     job)"

text \<open>\<open>trackJob\<close> from the answer to the call that starts the job; \<open>None\<close> while it still polls.\<close>

definition trackJob :: "track_opts \<Rightarrow> (js_error + job_ref) \<Rightarrow> job option list \<Rightarrow> (job_effect list \<times> job option) option" where
  "trackJob opts ref answers = (case ref of
     Inl e \<Rightarrow> Some ([Toasted \<lparr>to_kind = Toast_error, to_title = tk_title opts @ '' failed'', to_text = Some (errMsg e)\<rparr>], None)
   | Inr _ \<Rightarrow> (case poll_job None 0 answers of
       None \<Rightarrow> None
     | Some job \<Rightarrow>
         (let (effects, r) = finish_track opts job
          in Some ((if tk_quiet opts then [] else [Toasted (started_toast opts)]) @ effects, r))))"

text \<open>\<open>act\<close>: the toasts and the value of one mutation; \<open>ok\<close> gives the success toast's title and text.\<close>

definition act :: "(js_error + 'a) \<Rightarrow> ('a \<Rightarrow> string \<times> string option) option \<Rightarrow> string \<Rightarrow> toast list \<times> 'a option" where
  "act result ok errTitle = (case result of
     Inr r \<Rightarrow> (case ok of None \<Rightarrow> [] | Some f \<Rightarrow>
         [\<lparr>to_kind = Toast_ok, to_title = fst (f r), to_text = snd (f r)\<rparr>], Some r)
   | Inl e \<Rightarrow> ([\<lparr>to_kind = Toast_error, to_title = errTitle, to_text = Some (errMsg e)\<rparr>], None))"

section \<open>When the polling ends\<close>

text \<open>The polls that leave the loop running: a run of fewer than 21 misses at a time, and no
  finished job.\<close>

definition still_running :: "job option \<Rightarrow> bool" where
  "still_running r \<longleftrightarrow> (\<forall>j. r = Some j \<longrightarrow> job_status j = JobStatus_running)"

lemma poll_misses: "length ms + n = 21 \<Longrightarrow> ms \<noteq> [] \<Longrightarrow> set ms \<subseteq> {None} \<Longrightarrow> poll_job job n (ms @ rs) = Some job"
proof (induction ms arbitrary: n)
  case (Cons m ms)
  then show ?case by (cases "ms = []") auto
qed simp

lemma poll_settles:
  "poll_job job n rs = Some r \<Longrightarrow>
   (\<exists>j pre post. r = Some j \<and> job_status j \<noteq> JobStatus_running \<and> rs = pre @ Some j # post \<and> list_all still_running pre) \<or>
   (\<exists>pre post. list_all still_running pre \<and> rs = pre @ post \<and> r = last (job # filter (\<lambda>x. x \<noteq> None) pre) \<and>
     (\<exists>k. 20 < k \<and> suffix (replicate k None) (replicate n None @ pre)))"
proof (induction job n rs rule: poll_job.induct)
  case (2 job n j rs)
  show ?case
  proof (cases "job_status j = JobStatus_running")
    case False
    with 2 have "r = Some j" by simp
    with False show ?thesis by (intro disjI1 exI [of _ j] exI [of _ "[]"] exI [of _ rs]) simp
  next
    case True
    with 2 consider (fin) j' pre post where "r = Some j'" "job_status j' \<noteq> JobStatus_running"
        "rs = pre @ Some j' # post" "list_all still_running pre"
      | (lost) pre post k where "list_all still_running pre" "rs = pre @ post"
        "r = last (Some j # filter (\<lambda>x. x \<noteq> None) pre)" "20 < k" "suffix (replicate k None) (replicate 0 None @ pre)"
      by auto
    then show ?thesis
    proof cases
      case fin
      with True have "list_all still_running (Some j # pre)" by (simp add: still_running_def)
      with fin show ?thesis by (intro disjI1 exI [of _ j'] exI [of _ "Some j # pre"] exI [of _ post]) simp
    next
      case lost
      with True have a: "list_all still_running (Some j # pre)" by (simp add: still_running_def)
      have "suffix (replicate k None) (replicate n None @ Some j # pre)"
        using lost(5) by (auto simp: suffix_def)
      with lost a show ?thesis
        by (intro disjI2 exI [of _ "Some j # pre"] exI [of _ post] conjI exI [of _ k]) simp_all
    qed
  qed
next
  case (3 job n rs)
  show ?case
  proof (cases "20 < Suc n")
    case True
    with 3 have "r = job" by simp
    with True show ?thesis
      by (intro disjI2 exI [of _ "[None]"] exI [of _ rs] conjI exI [of _ "Suc n"])
        (simp_all add: still_running_def replicate_append_same suffix_def)
  next
    case False
    with 3 consider (fin) j' pre post where "r = Some j'" "job_status j' \<noteq> JobStatus_running"
        "rs = pre @ Some j' # post" "list_all still_running pre"
      | (lost) pre post k where "list_all still_running pre" "rs = pre @ post"
        "r = last (job # filter (\<lambda>x. x \<noteq> None) pre)" "20 < k" "suffix (replicate k None) (replicate (Suc n) None @ pre)"
      by auto
    then show ?thesis
    proof cases
      case fin
      then have "list_all still_running (None # pre)" by (simp add: still_running_def)
      with fin show ?thesis by (intro disjI1 exI [of _ j'] exI [of _ "None # pre"] exI [of _ post]) simp
    next
      case lost
      then have a: "list_all still_running (None # pre)" by (simp add: still_running_def)
      have "replicate n None @ None # pre = replicate (Suc n) None @ pre"
        by (simp add: replicate_app_Cons_same)
      then have "suffix (replicate k None) (replicate n None @ None # pre)" using lost(5) by (simp only:)
      with lost a show ?thesis
        by (intro disjI2 exI [of _ "None # pre"] exI [of _ post] conjI exI [of _ k]) (simp_all only:, simp_all)
    qed
  qed
qed simp

text \<open>C25: polling ends only when an answer shows a finished job, which is then the result, or
  after 21 requests in a row have failed, and then with the last job seen, if any.\<close>

theorem poll_job_ends:
  assumes "poll_job None 0 answers = Some r"
  shows "(\<exists>j pre post. r = Some j \<and> job_status j \<noteq> JobStatus_running \<and> answers = pre @ Some j # post) \<or>
    (\<exists>pre post. answers = pre @ post \<and> r = last (None # filter (\<lambda>x. x \<noteq> None) pre) \<and>
      (\<exists>k. 20 < k \<and> suffix (replicate k None) pre))"
proof -
  from poll_settles [OF assms] show ?thesis
  proof
    assume "\<exists>j pre post. r = Some j \<and> job_status j \<noteq> JobStatus_running \<and> answers = pre @ Some j # post \<and> list_all still_running pre"
    then show ?thesis by blast
  next
    assume "\<exists>pre post. list_all still_running pre \<and> answers = pre @ post \<and> r = last (None # filter (\<lambda>x. x \<noteq> None) pre) \<and>
      (\<exists>k. 20 < k \<and> suffix (replicate k None) (replicate 0 None @ pre))"
    then obtain pre post k where "answers = pre @ post" "r = last (None # filter (\<lambda>x. x \<noteq> None) pre)"
      "20 < k" "suffix (replicate k None) pre" by auto
    then show ?thesis by blast
  qed
qed

lemma poll_job_ends_witness:
  "poll_job None 0 (Some (sample_job ''a'' JobStatus_running) # replicate 21 None) = Some (Some (sample_job ''a'' JobStatus_running)) \<and>
   ((\<exists>j pre post. Some (sample_job ''a'' JobStatus_running) = Some j \<and> job_status j \<noteq> JobStatus_running \<and>
       Some (sample_job ''a'' JobStatus_running) # replicate 21 None = pre @ Some j # post) \<or>
    (\<exists>pre post. Some (sample_job ''a'' JobStatus_running) # replicate 21 None = pre @ post \<and>
      Some (sample_job ''a'' JobStatus_running) = last (None # filter (\<lambda>x. x \<noteq> None) pre) \<and>
      (\<exists>k. 20 < k \<and> suffix (replicate k None) pre)))"
proof
  show p: "poll_job None 0 (Some (sample_job ''a'' JobStatus_running) # replicate 21 None) = Some (Some (sample_job ''a'' JobStatus_running))"
    using poll_misses [of "replicate 21 None" 0 "Some (sample_job ''a'' JobStatus_running)" "[]"] by (simp add: sample_job_def)
  show "(\<exists>j pre post. Some (sample_job ''a'' JobStatus_running) = Some j \<and> job_status j \<noteq> JobStatus_running \<and>
       Some (sample_job ''a'' JobStatus_running) # replicate 21 None = pre @ Some j # post) \<or>
    (\<exists>pre post. Some (sample_job ''a'' JobStatus_running) # replicate 21 None = pre @ post \<and>
      Some (sample_job ''a'' JobStatus_running) = last (None # filter (\<lambda>x. x \<noteq> None) pre) \<and>
      (\<exists>k. 20 < k \<and> suffix (replicate k None) pre))"
    by (rule poll_job_ends [OF p])
qed

text \<open>C26: the loop always ends: 21 failed requests in a row, or one finished job, end it from
  every state, whatever was answered before.\<close>

theorem poll_job_terminates:
  "poll_job job n (replicate 21 None @ rs) \<noteq> None \<and>
   poll_job job n (Some (j\<lparr>job_status := JobStatus_success\<rparr>) # rs) \<noteq> None \<and>
   poll_job job n (Some (j\<lparr>job_status := JobStatus_failed\<rparr>) # rs) \<noteq> None"
proof -
  have "poll_job job n (replicate 21 None @ rs) \<noteq> None"
  proof (cases "n < 21")
    case True
    have "replicate 21 None @ rs = replicate (21 - n) None @ replicate n None @ rs"
      using True by (simp add: replicate_add [symmetric] append_assoc [symmetric] del: append_assoc)
    then show ?thesis using True poll_misses [of "replicate (21 - n) None" n job "replicate n None @ rs"]
      by (simp add: set_replicate_conv_if)
  next
    case False
    then show ?thesis by (simp add: numeral_eq_Suc)
  qed
  then show ?thesis by simp
qed

text \<open>A job that was seen running and then lost is reported as failed: only a job that was
  never seen gets the "lost track" toast.\<close>

theorem lost_running_job_reported_failed:
  "trackJob opts (Inr ref) (Some (sample_job i JobStatus_running) # replicate 21 None) =
    Some ((if tk_quiet opts then [] else [Toasted (started_toast opts)]) @
      map Invalidated (case tk_invalidate opts of None \<Rightarrow> [''/api/hosts''] | Some ps \<Rightarrow> ps) @
      Toasted \<lparr>to_kind = Toast_error, to_title = tk_title opts @ '' failed'', to_text = Some ''Pull nginx''\<rparr> #
      (if tk_onDone opts then [On_done (sample_job i JobStatus_running)] else []),
      Some (sample_job i JobStatus_running))"
proof -
  have "poll_job None 0 (Some (sample_job i JobStatus_running) # replicate 21 None) = Some (Some (sample_job i JobStatus_running))"
    using poll_misses [of "replicate 21 None" 0 "Some (sample_job i JobStatus_running)" "[]"] by (simp add: sample_job_def)
  then show ?thesis
    by (simp add: trackJob_def finish_track_def outcome_toast_def failure_text_def) (simp add: sample_job_def)
qed

text \<open>Tracking a job that cannot be started gives one error toast and nothing else;
  otherwise every listed prefix is revalidated exactly once, before the one closing toast,
  and the toast is the success one exactly for a job that succeeded.\<close>

theorem trackJob_effects:
  "trackJob opts (Inl e) answers =
     Some ([Toasted \<lparr>to_kind = Toast_error, to_title = tk_title opts @ '' failed'', to_text = Some (errMsg e)\<rparr>], None) \<and>
   (\<exists>t. finish_track opts r =
      (map Invalidated (case tk_invalidate opts of None \<Rightarrow> [''/api/hosts''] | Some ps \<Rightarrow> ps) @
         Toasted t # (case r of Some j \<Rightarrow> if tk_onDone opts then [On_done j] else [] | None \<Rightarrow> []), r) \<and>
      (to_kind t = Toast_ok) = (\<exists>j. r = Some j \<and> job_status j = JobStatus_success) \<and>
      (to_kind t = Toast_warn) = (r = None))"
  by (cases r) (auto simp: trackJob_def finish_track_def outcome_toast_def lost_toast_def)

end
