(* ===== verification/Log_Stream.thy ===== *)
theory Log_Stream
  imports Js_Text "HOL-Library.Sublist"
begin

text \<open>
  Live container logs (web/components/host/logStream.tsx and the log view of LogsTab.tsx):
  the level of a line, the buffered stream of \<open>useLogStream\<close> as a state machine, the
  filtered rows, the highlighting, and the query of the download. \<open>parse\<close> is \<open>JSON.parse\<close> of
  one frame: its \<open>t\<close>, \<open>stream\<close> and \<open>line\<close> members, or \<open>None\<close> when the text is not JSON.
\<close>

datatype log_level = ERROR | WARN | INFO | DEBUG
datatype log_origin = Stdout | Stderr

record log_line =
  ll_id :: nat
  ll_t :: string
  ll_stream :: log_origin
  ll_line :: string
  ll_level :: log_level

datatype log_mode = Mode_1h | Mode_tail | Mode_all
datatype log_status = LS_idle | LS_connecting | LS_live | LS_ended | LS_error

fun LEVEL_COLOR :: "log_level \<Rightarrow> string" where
  "LEVEL_COLOR ERROR = ''#ff8a85''"
| "LEVEL_COLOR WARN = ''#f2c05c''"
| "LEVEL_COLOR INFO = ''#7dc4ff''"
| "LEVEL_COLOR DEBUG = ''#6b7280''"

section \<open>Levels\<close>

text \<open>The regular expressions ignore case: the words are matched in the lowered text.
  \<open>word_at b w s\<close> is the word \<open>w\<close> at the start of \<open>s\<close> between word boundaries, \<open>b\<close> telling whether
  the character before it is a word character.\<close>

definition word_char :: "char \<Rightarrow> bool" where
  "word_char c \<longleftrightarrow> digit c \<or> upper_letter c \<or> lower_letter c \<or> c = CHR ''_''"

definition word_at :: "bool \<Rightarrow> string \<Rightarrow> string \<Rightarrow> bool" where
  "word_at before w s \<longleftrightarrow> \<not> before \<and> starts_with s w \<and>
     (case drop (length w) s of [] \<Rightarrow> True | c # _ \<Rightarrow> \<not> word_char c)"

text \<open>\<open>"level":\\s*"w"\<close> at the start of a text.\<close>

definition json_level_at :: "string \<Rightarrow> string \<Rightarrow> bool" where
  "json_level_at w s \<longleftrightarrow>
     starts_with s (CHR 0x22 # ''level'' @ CHR 0x22 # '':'') \<and>
     starts_with (dropWhile ws (drop 8 s)) (CHR 0x22 # w @ [CHR 0x22])"

fun some_match :: "string list \<Rightarrow> string list \<Rightarrow> bool \<Rightarrow> string \<Rightarrow> bool" where
  "some_match bare named before [] \<longleftrightarrow> False"
| "some_match bare named before (c # s) \<longleftrightarrow>
     list_ex (\<lambda>w. word_at before w (c # s)) (bare @ map (\<lambda>w. ''level='' @ w) named) \<or>
     list_ex (\<lambda>w. json_level_at w (c # s)) named \<or>
     some_match bare named (word_char c) s"

definition re_err :: "string \<Rightarrow> bool" where
  "re_err s = some_match [''error'', ''err'', ''fatal'', ''crit'', ''critical'', ''panic'', ''emerg'', ''alert'']
     [''error'', ''fatal'', ''panic''] False (to_lower s)"

definition re_warn :: "string \<Rightarrow> bool" where
  "re_warn s = some_match [''warn'', ''warning''] [''warn'', ''warning''] False (to_lower s)"

definition re_debug :: "string \<Rightarrow> bool" where
  "re_debug s = some_match [''debug'', ''trace'', ''dbg''] [''debug'', ''trace''] False (to_lower s)"

definition detectLevel :: "string \<Rightarrow> log_level" where
  "detectLevel line =
    (let head = take 160 line in
     if re_err head then ERROR else if re_warn head then WARN else if re_debug head then DEBUG else INFO)"

definition msgColor :: "log_line \<Rightarrow> string" where
  "msgColor l =
    (if ll_level l = ERROR then ''#ffb1ad''
     else if ll_level l = DEBUG then ''#8b93a1''
     else if ll_stream l = Stderr then ''#e9c3bf'' else ''#d5d8de'')"

definition logQuery :: "log_mode \<Rightarrow> bool \<Rightarrow> string" where
  "logQuery mode follow =
    (case mode of Mode_tail \<Rightarrow> ''tail=200'' | Mode_1h \<Rightarrow> ''since=1h&tail=all'' | Mode_all \<Rightarrow> ''tail=all'') @
    (if follow then ''&follow=1'' else [])"

definition downloadQuery :: "log_mode \<Rightarrow> string" where
  "downloadQuery mode =
    (case mode of Mode_tail \<Rightarrow> ''tail=5000'' | Mode_1h \<Rightarrow> ''since=1h&tail=all'' | Mode_all \<Rightarrow> ''tail=all'') @ ''&download=1''"

section \<open>The stream\<close>

definition MAX_LINES :: nat where
  "MAX_LINES = 5000"

text \<open>\<open>slice(-MAX_LINES)\<close>, taken where a list is longer.\<close>

definition cap :: "'a list \<Rightarrow> 'a list" where
  "cap xs = (if MAX_LINES < length xs then last_n MAX_LINES xs else xs)"

record log_state =
  lg_lines :: "log_line list"
  lg_pending :: "log_line list"
  lg_status :: log_status
  lg_seq :: nat
  lg_timer :: bool
  lg_paused :: bool

type_synonym frame = "string option \<times> string option \<times> string option"

text \<open>\<open>replace(/\\x1b\\[[0-9;?]*[A-Za-z]/g, "")\<close>.\<close>

definition ansi_param :: "char \<Rightarrow> bool" where
  "ansi_param c \<longleftrightarrow> digit c \<or> c = CHR '';'' \<or> c = CHR ''?''"

definition ansi_rest :: "string \<Rightarrow> string option" where
  "ansi_rest s =
    (if starts_with s [CHR 0x1B, CHR ''[''] then
       (case dropWhile ansi_param (drop 2 s) of
          c # t \<Rightarrow> if upper_letter c \<or> lower_letter c then Some t else None
        | [] \<Rightarrow> None)
     else None)"

lemma ansi_rest_shorter: "ansi_rest s = Some r \<Longrightarrow> length r < length s"
proof -
  assume a: "ansi_rest s = Some r"
  then obtain c where d: "dropWhile ansi_param (drop 2 s) = c # r"
    by (auto simp: ansi_rest_def split: if_splits list.splits)
  have "length (dropWhile ansi_param (drop 2 s)) \<le> length (drop 2 s)" by (rule length_dropWhile_le)
  with d show ?thesis by simp
qed

function strip_ansi :: "string \<Rightarrow> string" where
  "strip_ansi s = (case s of [] \<Rightarrow> [] | c # t \<Rightarrow>
     (case ansi_rest s of Some r \<Rightarrow> strip_ansi r | None \<Rightarrow> c # strip_ansi t))"
  by pat_completeness auto

termination
  by (relation "measure length") (auto dest: ansi_rest_shorter)

declare strip_ansi.simps [simp del]

definition frame_line :: "(string \<Rightarrow> frame option) \<Rightarrow> string \<Rightarrow> nat \<Rightarrow> string \<Rightarrow> log_line" where
  "frame_line parse now i raw =
    (let (t, stream, line) = (case parse raw of Some m \<Rightarrow> m | None \<Rightarrow> (None, None, Some raw));
         text = drop_cr (strip_ansi (case line of None \<Rightarrow> [] | Some l \<Rightarrow> l))
     in \<lparr>ll_id = i, ll_t = (case t of None \<Rightarrow> now | Some x \<Rightarrow> x),
         ll_stream = (if stream = Some ''stderr'' then Stderr else Stdout),
         ll_line = text, ll_level = detectLevel text\<rparr>)"

text \<open>The lines of one message: its non-blank pieces, numbered on from \<open>seq\<close>.\<close>

definition message_pieces :: "string \<Rightarrow> string list" where
  "message_pieces text = filter (\<lambda>raw. trim raw \<noteq> []) (split_on LF text)"

definition message_lines :: "(string \<Rightarrow> frame option) \<Rightarrow> string \<Rightarrow> nat \<Rightarrow> string \<Rightarrow> log_line list" where
  "message_lines parse now seq text =
    map2 (\<lambda>i raw. frame_line parse now (Suc i) raw) [seq ..< seq + length (message_pieces text)] (message_pieces text)"

text \<open>The effect's start: everything shown and buffered is dropped.\<close>

definition log_start :: "bool \<Rightarrow> bool \<Rightarrow> log_state" where
  "log_start container paused =
    \<lparr>lg_lines = [], lg_pending = [], lg_status = (if container then LS_connecting else LS_idle),
     lg_seq = 0, lg_timer = False, lg_paused = paused\<rparr>"

definition log_flush :: "log_state \<Rightarrow> log_state" where
  "log_flush st =
    (let st' = st\<lparr>lg_timer := False\<rparr> in
     if lg_paused st \<or> lg_pending st = [] then st'
     else st'\<lparr>lg_pending := [], lg_lines := cap (lg_lines st @ lg_pending st)\<rparr>)"

datatype log_event = Opened | Message "log_line list" | Flush_timer | Errored | Closed | Set_paused bool | Cleared

text \<open>A message arrives as its lines; \<open>message_lines\<close> says which, see \<open>log_message\<close>.\<close>

fun log_step :: "log_event \<Rightarrow> log_state \<Rightarrow> log_state" where
  "log_step Opened st = st\<lparr>lg_status := LS_live\<rparr>"
| "log_step (Message ls) st =
     st\<lparr>lg_pending := cap (lg_pending st @ ls), lg_seq := lg_seq st + length ls, lg_timer := True\<rparr>"
| "log_step Flush_timer st = log_flush st"
| "log_step Errored st = st\<lparr>lg_status := LS_error\<rparr>"
| "log_step Closed st = (let st' = log_flush st in
     st'\<lparr>lg_status := (if lg_status st = LS_error then LS_error else LS_ended)\<rparr>)"
| "log_step (Set_paused p) st =
     (if p = lg_paused st then st
      else if p then st\<lparr>lg_paused := True\<rparr> else log_flush (st\<lparr>lg_paused := False\<rparr>))"
| "log_step Cleared st = st\<lparr>lg_lines := []\<rparr>"

definition log_message :: "(string \<Rightarrow> frame option) \<Rightarrow> string \<Rightarrow> string \<Rightarrow> log_state \<Rightarrow> log_state" where
  "log_message parse now text st = log_step (Message (message_lines parse now (lg_seq st) text)) st"

text \<open>
  What the user should see: every line received since the last clearing that a flush has
  released, and the lines still waiting. \<open>released\<close> and \<open>waiting\<close> are the uncapped lists.
\<close>

fun log_spec :: "log_event \<Rightarrow> bool \<times> log_line list \<times> log_line list \<Rightarrow> bool \<times> log_line list \<times> log_line list" where
  "log_spec (Message ls) (p, released, waiting) = (p, released, waiting @ ls)"
| "log_spec Flush_timer (p, released, waiting) = (if p then (p, released, waiting) else (p, released @ waiting, []))"
| "log_spec Closed (p, released, waiting) = (if p then (p, released, waiting) else (p, released @ waiting, []))"
| "log_spec (Set_paused b) (p, released, waiting) =
     (if p \<and> \<not> b then (b, released @ waiting, []) else (b, released, waiting))"
| "log_spec Cleared (p, released, waiting) = (p, [], waiting)"
| "log_spec Opened s = s"
| "log_spec Errored s = s"

lemma cap_def': "cap xs = drop (length xs - MAX_LINES) xs"
  by (simp add: cap_def last_n_def MAX_LINES_def)

lemma length_cap: "length (cap xs) = min MAX_LINES (length xs)"
  by (simp add: cap_def')

lemma cap_append_cap: "cap (cap xs @ ys) = cap (xs @ ys)"
proof (cases "length xs \<le> MAX_LINES")
  case False
  have "length (drop (length xs - MAX_LINES) xs @ ys) - MAX_LINES = length ys" using False by simp
  moreover have "length (xs @ ys) - MAX_LINES = length ys + (length xs - MAX_LINES)" using False by simp
  ultimately show ?thesis unfolding cap_def' by (simp only: drop_append drop_drop) simp
qed (simp add: cap_def')

lemma cap_cap_append: "cap (xs @ cap ys) = cap (xs @ ys)"
proof (cases "length ys \<le> MAX_LINES")
  case False
  then have "cap (xs @ cap ys) = cap ys" "cap (xs @ ys) = cap ys" by (simp_all add: cap_def')
  then show ?thesis by simp
qed (simp add: cap_def')

lemma cap_empty: "cap xs = [] \<longleftrightarrow> xs = []"
  by (cases xs) (auto simp: cap_def' MAX_LINES_def)

lemma cap_nil [simp]: "cap [] = []"
  by (simp add: cap_def')

definition log_rel :: "log_state \<Rightarrow> bool \<times> log_line list \<times> log_line list \<Rightarrow> bool" where
  "log_rel st s \<longleftrightarrow> (case s of (p, released, waiting) \<Rightarrow>
     lg_paused st = p \<and> lg_lines st = cap released \<and> lg_pending st = cap waiting \<and>
     (p \<or> waiting = [] \<or> lg_timer st))"

lemma log_rel_flush:
  "log_rel st (p, released, waiting) \<Longrightarrow>
   log_rel (log_flush st) (if p then (p, released, waiting) else (p, released @ waiting, []))"
  by (auto simp: log_rel_def log_flush_def Let_def cap_append_cap cap_cap_append cap_empty)

lemma log_rel_step: "log_rel st s \<Longrightarrow> log_rel (log_step e st) (log_spec e s)"
proof -
  assume r: "log_rel st s"
  obtain p released waiting where s: "s = (p, released, waiting)" by (cases s)
  note fl = log_rel_flush [OF r [unfolded s]]
  show ?thesis
  proof (cases e)
    case (Message ls)
    with r s show ?thesis by (auto simp: log_rel_def cap_append_cap)
  next
    case Flush_timer
    with fl s show ?thesis by simp
  next
    case Closed
    with fl s show ?thesis by (auto simp: log_rel_def Let_def)
  next
    case (Set_paused b)
    have "p \<Longrightarrow> \<not> b \<Longrightarrow> log_rel (log_flush (st\<lparr>lg_paused := False\<rparr>)) (False, released @ waiting, [])"
      using r s by (auto simp: log_rel_def log_flush_def Let_def cap_append_cap cap_cap_append cap_empty)
    with r s Set_paused show ?thesis by (cases b; cases p) (simp_all add: log_rel_def)
  next
    case Cleared
    with r s show ?thesis by (auto simp: log_rel_def cap_def')
  qed (use r s in \<open>simp_all add: log_rel_def\<close>)
qed

lemma log_rel_run: "log_rel st s \<Longrightarrow> log_rel (fold log_step es st) (fold log_spec es s)"
  by (induction es arbitrary: st s) (simp_all add: log_rel_step)

lemma log_rel_start: "log_rel (log_start c p) (p, [], [])"
  by (simp add: log_rel_def log_start_def cap_def')

text \<open>C8: after any sequence of messages, timers, pauses, clears and socket events the lines
  shown are the last 5000 of all the lines released since the last clearing, in order and
  without gaps, however many arrived while the stream was paused; the buffer holds the
  last 5000 waiting ones; and unless the stream is paused a waiting line always has a timer
  that will show it.\<close>

theorem log_stream_refines:
  "(case fold log_spec es (p, [], []) of (paused, released, waiting) \<Rightarrow>
     lg_lines (fold log_step es (log_start c p)) = drop (length released - MAX_LINES) released \<and>
     lg_pending (fold log_step es (log_start c p)) = drop (length waiting - MAX_LINES) waiting \<and>
     (paused \<or> waiting = [] \<or> lg_timer (fold log_step es (log_start c p))))"
  using log_rel_run [OF log_rel_start, of es c p]
  by (cases "fold log_spec es (p, [], [])") (simp add: log_rel_def cap_def')

text \<open>The rows and the buffer never exceed 5000 lines each.\<close>

theorem log_stream_bounded:
  "length (lg_lines (fold log_step es (log_start c p))) \<le> 5000 \<and>
   length (lg_pending (fold log_step es (log_start c p))) \<le> 5000"
proof -
  obtain q released waiting where s: "fold log_spec es (p, [], []) = (q, released, waiting)" by (metis prod_cases3)
  have "log_rel (fold log_step es (log_start c p)) (q, released, waiting)"
    using log_rel_run [OF log_rel_start, of es c p] s by simp
  then show ?thesis by (simp add: log_rel_def length_cap MAX_LINES_def)
qed

section \<open>Rows\<close>

text \<open>The rows of \<open>LogRows\<close> for the text in the filter box.\<close>

definition log_matches :: "string \<Rightarrow> log_line \<Rightarrow> bool" where
  "log_matches q l \<longleftrightarrow> str_includes (to_lower (ll_line l)) (to_lower q)"

definition log_rows :: "log_line list \<Rightarrow> string \<Rightarrow> log_line list" where
  "log_rows lines filter_text =
    (let q = trim filter_text in if q \<noteq> [] then filter (log_matches q) lines else lines)"

text \<open>The match count of the toolbar, and the text copied from the view (\<open>clock\<close> the time shown).\<close>

definition match_count :: "log_line list \<Rightarrow> string \<Rightarrow> nat" where
  "match_count lines filter_text =
    (let q = to_lower (trim filter_text)
     in if q \<noteq> [] then length (filter (\<lambda>l. str_includes (to_lower (ll_line l)) q) lines) else length lines)"

fun level_text :: "log_level \<Rightarrow> string" where
  "level_text ERROR = ''ERROR''" | "level_text WARN = ''WARN''" | "level_text INFO = ''INFO''" | "level_text DEBUG = ''DEBUG''"

definition copied_lines :: "(string \<Rightarrow> string) \<Rightarrow> log_line list \<Rightarrow> string \<Rightarrow> string list" where
  "copied_lines clk lines filter_text =
    (let q = to_lower (trim filter_text)
     in map (\<lambda>l. clk (ll_t l) @ '' '' @ pad_right 5 (CHR '' '') (level_text (ll_level l)) @ '' '' @ ll_line l)
          (filter (\<lambda>l. q = [] \<or> str_includes (to_lower (ll_line l)) q) lines))"

text \<open>The number of matches the toolbar shows is the number of rows below it, and copying
  takes exactly those rows, in order.\<close>

theorem log_rows_agree:
  "match_count lines q = length (log_rows lines q) \<and>
   copied_lines clk lines q =
     map (\<lambda>l. clk (ll_t l) @ '' '' @ pad_right 5 (CHR '' '') (level_text (ll_level l)) @ '' '' @ ll_line l) (log_rows lines q)"
  by (auto simp: match_count_def log_rows_def copied_lines_def Let_def log_matches_def [abs_def])

section \<open>Highlighting\<close>

datatype piece = Plain string | Marked string

fun piece_text :: "piece \<Rightarrow> string" where
  "piece_text (Plain s) = s" | "piece_text (Marked s) = s"

text \<open>The loop: \<open>rest\<close> is the text from \<open>i\<close> on, and lowering keeps its length.\<close>

function highlight_from :: "string \<Rightarrow> string \<Rightarrow> piece list" where
  "highlight_from q rest =
    (if q = [] then [Plain rest]
     else case index_of (to_lower rest) (to_lower q) of
       None \<Rightarrow> [Plain rest]
     | Some j \<Rightarrow> (if 0 < j then [Plain (take j rest)] else []) @
         Marked (take (length q) (drop j rest)) # highlight_from q (drop (j + length q) rest))"
  by pat_completeness auto
termination
proof (relation "measure (\<lambda>(q, rest). length rest)")
  fix q rest :: string and j
  assume "q \<noteq> []" "index_of (to_lower rest) (to_lower q) = Some j"
  then show "((q, drop (j + length q) rest), q, rest) \<in> measure (\<lambda>(q, rest). length rest)"
    using index_of_Some [of "to_lower rest" "to_lower q" j] by (cases q) (simp_all, arith)
qed simp

declare highlight_from.simps [simp del]

definition highlight :: "string \<Rightarrow> string \<Rightarrow> piece list" where
  "highlight text q = (if q = [] then [Plain text] else highlight_from q text)"

lemma highlight_from_text: "concat (map piece_text (highlight_from q rest)) = rest"
proof (induction q rest rule: highlight_from.induct)
  case (1 q rest)
  show ?case
  proof (cases "q = [] \<or> index_of (to_lower rest) (to_lower q) = None")
    case True
    then show ?thesis by (auto simp: highlight_from.simps [of q rest])
  next
    case False
    then obtain j where j: "index_of (to_lower rest) (to_lower q) = Some j" and q: "q \<noteq> []" by auto
    have "take j rest @ take (length q) (drop j rest) @ drop (j + length q) rest = rest"
      by (metis append_take_drop_id drop_drop add.commute)
    with j q 1 [OF q j] show ?thesis by (auto simp: highlight_from.simps [of q rest])
  qed
qed

lemma highlight_from_marks: "Marked m \<in> set (highlight_from q rest) \<Longrightarrow> to_lower m = to_lower q"
proof (induction q rest rule: highlight_from.induct)
  case (1 q rest)
  show ?case
  proof (cases "q = [] \<or> index_of (to_lower rest) (to_lower q) = None")
    case True
    then have "highlight_from q rest = [Plain rest]" by (auto simp: highlight_from.simps [of q rest])
    with "1.prems" show ?thesis by simp
  next
    case False
    then obtain j where j: "index_of (to_lower rest) (to_lower q) = Some j" and q: "q \<noteq> []" by auto
    have "take (length q) (drop j (to_lower rest)) = to_lower q"
      using index_of_Some [OF j] by simp
    then have t: "to_lower (take (length q) (drop j rest)) = to_lower q"
      by (simp only: to_lower_def take_map drop_map)
    from "1.prems" j q consider "m = take (length q) (drop j rest)"
      | "Marked m \<in> set (highlight_from q (drop (j + length q) rest))"
      by (auto simp: highlight_from.simps [of q rest] split: if_splits)
    then show ?thesis using t "1.IH" [OF q j] by cases auto
  qed
qed

text \<open>Highlighting loses nothing and marks only matches: the pieces joined are the line, and
  every marked piece is the search text up to letter case.\<close>

theorem highlight_faithful:
  "concat (map piece_text (highlight text q)) = text \<and>
   {m. Marked m \<in> set (highlight text q) \<and> to_lower m \<noteq> to_lower q} = {}"
  using highlight_from_text highlight_from_marks by (auto simp: highlight_def)

section \<open>Sticking to the bottom\<close>

record scroll_state =
  sc_top :: int
  sc_height :: int
  sc_client :: int
  sc_atBottom :: bool

definition on_scroll :: "scroll_state \<Rightarrow> scroll_state" where
  "on_scroll st = st\<lparr>sc_atBottom := sc_height st - sc_top st - sc_client st < 40\<rparr>"

text \<open>The layout effect after new rows; the browser keeps \<open>scrollTop\<close> in range.\<close>

definition after_rows :: "int \<Rightarrow> scroll_state \<Rightarrow> scroll_state" where
  "after_rows height st =
    (let st' = st\<lparr>sc_height := height\<rparr> in
     if sc_atBottom st then st'\<lparr>sc_top := max 0 (height - sc_client st)\<rparr> else st')"

text \<open>A view at the bottom stays there when rows are added, also once the scroll event that
  follows is handled; a view the user has scrolled up does not move.\<close>

theorem scroll_sticks:
  "sc_atBottom (on_scroll (after_rows h (st\<lparr>sc_atBottom := True\<rparr>))) \<and>
   sc_top (after_rows h (st\<lparr>sc_atBottom := False\<rparr>)) = sc_top st"
  by (simp add: on_scroll_def after_rows_def Let_def)

end
