(* ===== verification/Terminal_Window.thy ===== *)
theory Terminal_Window
  imports Custom_Ssh Api_Core Log_Stream
begin

text \<open>
  The floating terminal window (web/components/shell/TerminalWindow.tsx): its geometry and the
  store it is kept in, its tabs, dragging and resizing, the texts of a tab, and the window as
  one state machine over the user's actions. Pixels are reals, the viewport is whole.
\<close>

section \<open>Geometry\<close>

record geom =
  g_x :: real
  g_y :: real
  g_w :: real
  g_h :: real

record viewport =
  vp_w :: int
  vp_h :: int

definition HEAD :: real where "HEAD = 44"
definition MIN_W :: real where "MIN_W = 420"
definition MIN_H :: real where "MIN_H = 240"
definition FONT_MIN :: real where "FONT_MIN = 10"
definition FONT_MAX :: real where "FONT_MAX = 20"

definition clamp_size :: "real \<Rightarrow> int \<Rightarrow> real \<Rightarrow> real" where
  "clamp_size least v s = max (min least (of_int v - 16)) (min s (of_int v - 16))"

definition clamp :: "viewport \<Rightarrow> geom \<Rightarrow> geom" where
  "clamp vp g =
    (let vw = of_int (vp_w vp); vh = of_int (vp_h vp);
         w = clamp_size MIN_W (vp_w vp) (g_w g);
         h = clamp_size MIN_H (vp_h vp) (g_h g);
         x = min (max (g_x g) (160 - w)) (vw - 160);
         y = min (max (g_y g) 8) (vh - HEAD - 8)
     in \<lparr>g_x = of_int (js_round x), g_y = of_int (js_round y), g_w = of_int (js_round w), g_h = of_int (js_round h)\<rparr>)"

definition defaultGeom :: "viewport \<Rightarrow> geom" where
  "defaultGeom vp =
    (let vw = of_int (vp_w vp); vh = of_int (vp_h vp); w = min 860 (vw - 32); h = min 500 (vh - 120)
     in clamp vp \<lparr>g_x = vw - w - 24, g_y = vh - h - 24, g_w = w, g_h = h\<rparr>)"

text \<open>What the store may hold: each member absent or not a finite number is \<open>None\<close>.\<close>

record stored_window =
  sw_x :: "real option"
  sw_y :: "real option"
  sw_w :: "real option"
  sw_h :: "real option"
  sw_font :: "real option"

definition clamp_font :: "real \<Rightarrow> real" where
  "clamp_font f = min FONT_MAX (max FONT_MIN f)"

definition loadStore :: "viewport \<Rightarrow> stored_window slot \<Rightarrow> geom \<times> real" where
  "loadStore vp st = (case st of
     Stored s \<Rightarrow>
       (case (sw_x s, sw_y s, sw_w s, sw_h s) of
          (Some x, Some y, Some w, Some h) \<Rightarrow>
            (clamp vp \<lparr>g_x = x, g_y = y, g_w = w, g_h = h\<rparr>,
             case sw_font s of Some f \<Rightarrow> clamp_font f | None \<Rightarrow> 13)
        | _ \<Rightarrow> (defaultGeom vp, 13))
   | _ \<Rightarrow> (defaultGeom vp, 13))"

definition saveStore :: "bool \<Rightarrow> geom \<Rightarrow> real \<Rightarrow> stored_window slot \<Rightarrow> stored_window slot" where
  "saveStore ok g font st = slot_write ok
    \<lparr>sw_x = Some (g_x g), sw_y = Some (g_y g), sw_w = Some (g_w g), sw_h = Some (g_h g), sw_font = Some font\<rparr> st"

lemma js_round_of_int_bounds:
  "x \<le> of_int i \<Longrightarrow> js_round x \<le> i" "of_int i \<le> x \<Longrightarrow> i \<le> js_round x"
  using js_round_mono [of x "of_int i"] js_round_mono [of "of_int i" x] by simp_all

lemma js_round_complement: "160 - js_round w \<le> js_round (160 - w)"
  unfolding js_round_def by linarith

text \<open>Sizes: between the least size and the viewport, and clamped again unchanged.\<close>

lemma clamp_size_bounds:
  "clamp_size l v s \<le> of_int v - 16" "min l (of_int v - 16) \<le> clamp_size l v s"
  by (simp_all add: clamp_size_def)

lemma clamp_size_round:
  "clamp_size (of_int l) v (of_int (js_round (clamp_size (of_int l) v s))) = of_int (js_round (clamp_size (of_int l) v s))"
proof -
  let ?c = "clamp_size (of_int l) v s"
  have "?c \<le> of_int (v - 16)" using clamp_size_bounds(1) [of "of_int l" v s] by simp
  then have u: "js_round ?c \<le> v - 16" by (rule js_round_of_int_bounds)
  have "of_int (min l (v - 16)) \<le> ?c" using clamp_size_bounds(2) [of "of_int l" v s] by (simp add: of_int_min)
  then have l: "min l (v - 16) \<le> js_round ?c" by (rule js_round_of_int_bounds)
  have "min (real_of_int (js_round ?c)) (of_int v - 16) = of_int (js_round ?c)" using u by simp
  moreover have "min (real_of_int l) (of_int v - 16) \<le> of_int (js_round ?c)"
    using l by (metis of_int_diff of_int_le_iff of_int_min of_int_numeral)
  ultimately show ?thesis by (simp add: clamp_size_def)
qed

lemma min_sizes: "MIN_W = of_int 420" "MIN_H = of_int 240" "HEAD = of_int 44"
  by (simp_all add: MIN_W_def MIN_H_def HEAD_def)

lemma clamp_x_round:
  fixes w x :: real and v :: int
  defines "r \<equiv> js_round (min (max x (160 - w)) (of_int v - 160))"
  shows "min (max (of_int r) (160 - of_int (js_round w))) (of_int v - 160) = real_of_int r"
proof -
  have "min (max x (160 - w)) (of_int v - 160) \<le> of_int (v - 160)" by simp
  then have u: "r \<le> v - 160" unfolding r_def by (rule js_round_of_int_bounds)
  show ?thesis
  proof (cases "160 - w \<le> of_int v - 160")
    case True
    then have "160 - w \<le> min (max x (160 - w)) (of_int v - 160)" by simp
    then have "js_round (160 - w) \<le> r" unfolding r_def by (rule js_round_mono)
    then have "160 - js_round w \<le> r" using js_round_complement [of w] by linarith
    then have "(160 :: real) - of_int (js_round w) \<le> of_int r" by linarith
    with u show ?thesis by (simp add: min_def max_def)
  next
    case False
    then have "r = js_round (of_int (v - 160))" unfolding r_def by (simp add: min_def max_def)
    then have r: "r = v - 160" by (simp only: js_round_int)
    then show ?thesis by (simp add: min_def max_def)
  qed
qed

lemma clamp_y_round:
  fixes y :: real and v :: int
  defines "r \<equiv> js_round (min (max y 8) (of_int v - HEAD - 8))"
  shows "min (max (of_int r) 8) (of_int v - HEAD - 8) = real_of_int r"
proof -
  have e: "of_int v - HEAD - 8 = real_of_int (v - 52)" by (simp add: HEAD_def)
  have "min (max y 8) (of_int v - HEAD - 8) \<le> of_int (v - 52)" using e by simp
  then have u: "r \<le> v - 52" unfolding r_def by (rule js_round_of_int_bounds)
  have "of_int (min 8 (v - 52)) \<le> min (max y 8) (of_int v - HEAD - 8)" unfolding e by (simp add: of_int_min)
  then have l: "min 8 (v - 52) \<le> r" unfolding r_def by (rule js_round_of_int_bounds)
  from u l show ?thesis unfolding e by (auto simp: min_def max_def)
qed

text \<open>Clamping the window to the viewport is idempotent, so a saved position that is still on
  the screen is restored exactly.\<close>

theorem clamp_idem: "clamp vp (clamp vp g) = clamp vp g"
  unfolding clamp_def Let_def
  by (simp only: geom.simps min_sizes(1,2) clamp_size_round clamp_x_round clamp_y_round js_round_int)

text \<open>However it is dragged, the window stays reachable: at least 160 pixels of its width are
  inside the viewport on either side, the title bar is inside it vertically, and the window
  is never larger than the viewport (in a viewport at least 320 by 60).\<close>

theorem clamp_on_screen:
  assumes "320 \<le> vp_w vp" "60 \<le> vp_h vp"
  shows "160 \<le> g_x (clamp vp g) + g_w (clamp vp g) \<and> g_x (clamp vp g) \<le> of_int (vp_w vp) - 160 \<and>
    8 \<le> g_y (clamp vp g) \<and> g_y (clamp vp g) + HEAD + 8 \<le> of_int (vp_h vp) \<and>
    g_w (clamp vp g) \<le> of_int (vp_w vp) - 16 \<and> g_h (clamp vp g) \<le> of_int (vp_h vp) - 16"
proof -
  define w where "w = clamp_size MIN_W (vp_w vp) (g_w g)"
  define h where "h = clamp_size MIN_H (vp_h vp) (g_h g)"
  define x where "x = min (max (g_x g) (160 - w)) (of_int (vp_w vp) - 160)"
  define y where "y = min (max (g_y g) 8) (of_int (vp_h vp) - HEAD - 8)"
  have c: "clamp vp g = \<lparr>g_x = of_int (js_round x), g_y = of_int (js_round y), g_w = of_int (js_round w), g_h = of_int (js_round h)\<rparr>"
    by (simp add: clamp_def Let_def w_def h_def x_def y_def)
  have wb: "w \<le> of_int (vp_w vp - 16)" and hb: "h \<le> of_int (vp_h vp - 16)"
    using clamp_size_bounds(1) [of MIN_W "vp_w vp" "g_w g"] clamp_size_bounds(1) [of MIN_H "vp_h vp" "g_h g"]
    by (simp_all add: w_def h_def)
  have "of_int (min 420 (vp_w vp - 16)) \<le> w"
    using clamp_size_bounds(2) [of MIN_W "vp_w vp" "g_w g"] by (simp add: w_def MIN_W_def of_int_min)
  then have "160 - w \<le> of_int (vp_w vp) - 160" using assms(1) by (auto simp: min_def split: if_splits)
  then have "160 - w \<le> x" by (simp add: x_def)
  then have "160 - js_round w \<le> js_round x" using js_round_mono [of "160 - w" x] js_round_complement [of w] by linarith
  moreover have "js_round x \<le> vp_w vp - 160" by (rule js_round_of_int_bounds) (simp add: x_def)
  moreover have "8 \<le> js_round y" "js_round y \<le> vp_h vp - 52"
    using assms(2) by (auto intro!: js_round_of_int_bounds simp: y_def HEAD_def)
  moreover have "js_round w \<le> vp_w vp - 16" "js_round h \<le> vp_h vp - 16"
    using wb hb by (auto intro!: js_round_of_int_bounds)
  ultimately show ?thesis unfolding c by (simp add: HEAD_def)
qed

lemma clamp_on_screen_witness:
  "160 \<le> g_x (clamp \<lparr>vp_w = 1280, vp_h = 800\<rparr> \<lparr>g_x = - 4000, g_y = 5000, g_w = 860, g_h = 500\<rparr>) +
      g_w (clamp \<lparr>vp_w = 1280, vp_h = 800\<rparr> \<lparr>g_x = - 4000, g_y = 5000, g_w = 860, g_h = 500\<rparr>) \<and>
   g_y (clamp \<lparr>vp_w = 1280, vp_h = 800\<rparr> \<lparr>g_x = - 4000, g_y = 5000, g_w = 860, g_h = 500\<rparr>) + HEAD + 8 \<le> 800"
  using clamp_on_screen [of "\<lparr>vp_w = 1280, vp_h = 800\<rparr>" "\<lparr>g_x = - 4000, g_y = 5000, g_w = 860, g_h = 500\<rparr>"] by simp

lemma load_saved:
  "loadStore vp (saveStore True g f st) = (clamp vp g, clamp_font f)"
  by (cases g) (simp add: loadStore_def saveStore_def slot_write_def)

section \<open>Tabs\<close>

datatype terminal_target =
    T_shell string
  | T_exec string string "string option"
  | T_logs string string "string option"
  | T_ssh string custom_ssh_conn

record tab =
  tb_key :: nat
  tb_target :: terminal_target

datatype tab_state = Tab_connecting | Tab_open | Tab_ended | Tab_error | Tab_paused

record tab_status =
  st_state :: tab_state
  st_latency :: "int option"
  st_cols :: "nat option"
  st_rows :: "nat option"
  st_lines :: "nat option"

fun sameTarget :: "terminal_target \<Rightarrow> terminal_target \<Rightarrow> bool" where
  "sameTarget (T_ssh i _) (T_ssh j _) \<longleftrightarrow> i = j"
| "sameTarget (T_shell h) (T_shell h') \<longleftrightarrow> h = h'"
| "sameTarget (T_exec h c _) (T_exec h' c' _) \<longleftrightarrow> h = h' \<and> c = c'"
| "sameTarget (T_logs h c _) (T_logs h' c' _) \<longleftrightarrow> h = h' \<and> c = c'"
| "sameTarget _ _ \<longleftrightarrow> False"

datatype drag_mode = D_move | D_se | D_e | D_s

record window =
  tw_vp :: viewport
  tw_geom :: geom
  tw_font :: real
  tw_maxed :: bool
  tw_minimized :: bool
  tw_drag :: "(drag_mode \<times> real \<times> real \<times> geom) option"
  tw_tabs :: "tab list"
  tw_active :: "nat option"
  tw_seq :: nat
  tw_seen :: nat
  tw_store :: "stored_window slot"
  tw_open :: bool

definition window_start :: "viewport \<Rightarrow> stored_window slot \<Rightarrow> window" where
  "window_start vp st =
    \<lparr>tw_vp = vp, tw_geom = fst (loadStore vp st), tw_font = snd (loadStore vp st), tw_maxed = False,
     tw_minimized = False, tw_drag = None, tw_tabs = [], tw_active = None, tw_seq = 0, tw_seen = 0,
     tw_store = st, tw_open = True\<rparr>"

definition addTab :: "terminal_target \<Rightarrow> bool \<Rightarrow> window \<Rightarrow> window" where
  "addTab target forceNew w =
    (case (if forceNew then None else find (\<lambda>t. sameTarget (tb_target t) target) (tw_tabs w)) of
       Some t \<Rightarrow> w\<lparr>tw_active := Some (tb_key t)\<rparr>
     | None \<Rightarrow> (let key = Suc (tw_seq w) in
         w\<lparr>tw_seq := key, tw_tabs := tw_tabs w @ [\<lparr>tb_key = key, tb_target = target\<rparr>], tw_active := Some key\<rparr>))"

text \<open>The effect on \<open>requests\<close>: the new ones are opened or focused, in order.\<close>

definition open_requests :: "(terminal_target \<times> nat) list \<Rightarrow> window \<Rightarrow> window" where
  "open_requests reqs w =
    (let fresh = filter (\<lambda>r. tw_seen w < snd r) reqs in
     if fresh = [] then w
     else (fold (\<lambda>r. addTab (fst r) False) fresh (w\<lparr>tw_seen := Max (snd ` set fresh)\<rparr>))\<lparr>tw_minimized := False\<rparr>)"

fun index_where :: "('a \<Rightarrow> bool) \<Rightarrow> 'a list \<Rightarrow> nat" where
  "index_where P [] = 0"
| "index_where P (x # xs) = (if P x then 0 else Suc (index_where P xs))"

text \<open>Closing the last tab closes the window.\<close>

definition closeTab :: "nat \<Rightarrow> window \<Rightarrow> window" where
  "closeTab key w =
    (let rest = filter (\<lambda>t. tb_key t \<noteq> key) (tw_tabs w) in
     if rest = [] then w\<lparr>tw_open := False\<rparr>
     else w\<lparr>tw_tabs := rest,
       tw_active := (if tw_active w = Some key
         then Some (tb_key (rest ! min (index_where (\<lambda>t. tb_key t = key) (tw_tabs w)) (length rest - 1)))
         else tw_active w)\<rparr>)"

text \<open>\<open>onMouseDown\<close>: \<open>control\<close> tells whether the press was on a button or an input of the bar.\<close>

definition beginDrag :: "drag_mode \<Rightarrow> nat \<Rightarrow> bool \<Rightarrow> real \<Rightarrow> real \<Rightarrow> window \<Rightarrow> window" where
  "beginDrag mode button control mx my w =
    (if button \<noteq> 0 \<or> tw_maxed w \<or> (mode = D_move \<and> control) \<or> (mode \<noteq> D_move \<and> tw_minimized w) then w
     else w\<lparr>tw_drag := Some (mode, mx, my, tw_geom w)\<rparr>)"

definition dragged :: "viewport \<Rightarrow> drag_mode \<Rightarrow> geom \<Rightarrow> real \<Rightarrow> real \<Rightarrow> geom" where
  "dragged vp mode g dx dy =
    (if mode = D_move then clamp vp (g\<lparr>g_x := g_x g + dx, g_y := g_y g + dy\<rparr>)
     else clamp vp (g\<lparr>g_w := (if mode = D_s then g_w g else max MIN_W (g_w g + dx)),
       g_h := (if mode = D_e then g_h g else max MIN_H (g_h g + dy))\<rparr>))"

datatype window_event =
    Requests "(terminal_target \<times> nat) list"
  | Menu_open terminal_target bool
  | Close_tab nat
  | Select_tab nat
  | Viewport viewport
  | Mouse_down drag_mode nat bool real real
  | Mouse_move real real
  | Mouse_up bool
  | Font_size real bool
  | Toggle_max
  | Toggle_min

text \<open>The buttons select only tabs that are shown; the guards are in \<open>window_step\<close>.\<close>

fun window_step :: "window_event \<Rightarrow> window \<Rightarrow> window" where
  "window_step (Requests rs) w = open_requests rs w"
| "window_step (Menu_open t force) w = (addTab t force w)\<lparr>tw_minimized := False\<rparr>"
| "window_step (Close_tab k) w = closeTab k w"
| "window_step (Select_tab k) w =
     (if k \<in> tb_key ` set (tw_tabs w) then w\<lparr>tw_active := Some k, tw_minimized := False\<rparr> else w)"
| "window_step (Viewport vp) w = w\<lparr>tw_vp := vp, tw_geom := clamp vp (tw_geom w)\<rparr>"
| "window_step (Mouse_down m b c x y) w = beginDrag m b c x y w"
| "window_step (Mouse_move x y) w = (case tw_drag w of
     None \<Rightarrow> w
   | Some (mode, mx, my, g) \<Rightarrow> w\<lparr>tw_geom := dragged (tw_vp w) mode g (x - mx) (y - my)\<rparr>)"
| "window_step (Mouse_up ok) w = (case tw_drag w of
     None \<Rightarrow> w
   | Some _ \<Rightarrow> w\<lparr>tw_drag := None, tw_store := saveStore ok (tw_geom w) (tw_font w) (tw_store w)\<rparr>)"
| "window_step (Font_size f ok) w =
     w\<lparr>tw_font := clamp_font f, tw_store := saveStore ok (tw_geom w) (clamp_font f) (tw_store w)\<rparr>"
| "window_step Toggle_max w = w\<lparr>tw_maxed := \<not> tw_maxed w, tw_minimized := False\<rparr>"
| "window_step Toggle_min w = w\<lparr>tw_minimized := \<not> tw_minimized w\<rparr>"

section \<open>What every sequence of actions keeps\<close>

definition tabs_ok :: "window \<Rightarrow> bool" where
  "tabs_ok w \<longleftrightarrow> distinct (map tb_key (tw_tabs w)) \<and> (\<forall>t \<in> set (tw_tabs w). tb_key t \<le> tw_seq w) \<and>
     (tw_active w = None \<longrightarrow> tw_tabs w = []) \<and> (\<forall>k. tw_active w = Some k \<longrightarrow> k \<in> tb_key ` set (tw_tabs w))"

definition shape_ok :: "window \<Rightarrow> bool" where
  "shape_ok w \<longleftrightarrow> clamp (tw_vp w) (tw_geom w) = tw_geom w \<and> FONT_MIN \<le> tw_font w \<and> tw_font w \<le> FONT_MAX"

lemma tabs_ok_add: "tabs_ok w \<Longrightarrow> tabs_ok (addTab t f w)"
proof -
  assume ok: "tabs_ok w"
  show ?thesis
  proof (cases "if f then None else find (\<lambda>x. sameTarget (tb_target x) t) (tw_tabs w)")
    case None
    have "Suc (tw_seq w) \<notin> tb_key ` set (tw_tabs w)" using ok by (fastforce simp: tabs_ok_def)
    with ok None show ?thesis by (auto simp: addTab_def tabs_ok_def Let_def le_Suc_eq split: option.splits)
  next
    case (Some x)
    then have "x \<in> set (tw_tabs w)" by (metis find_Some_iff nth_mem option.distinct(1))
    with ok Some show ?thesis by (auto simp: addTab_def tabs_ok_def)
  qed
qed

lemma tabs_ok_fold: "tabs_ok w \<Longrightarrow> tabs_ok (fold (\<lambda>r. addTab (fst r) False) rs w)"
  by (induction rs arbitrary: w) (simp_all add: tabs_ok_add)

lemma tabs_ok_cong:
  "tw_tabs v = tw_tabs w \<Longrightarrow> tw_active v = tw_active w \<Longrightarrow> tw_seq v = tw_seq w \<Longrightarrow> tabs_ok v = tabs_ok w"
  by (simp add: tabs_ok_def)

lemma tabs_ok_flags:
  "tabs_ok w \<Longrightarrow> tabs_ok (w\<lparr>tw_minimized := m\<rparr>)" "tabs_ok w \<Longrightarrow> tabs_ok (w\<lparr>tw_seen := n\<rparr>)"
  by (simp_all add: tabs_ok_def)

lemma tabs_ok_requests: "tabs_ok w \<Longrightarrow> tabs_ok (open_requests rs w)"
proof -
  assume ok: "tabs_ok w"
  then have "tabs_ok ((fold (\<lambda>r. addTab (fst r) False) fresh (w\<lparr>tw_seen := n\<rparr>))\<lparr>tw_minimized := False\<rparr>)" for fresh n
    by (intro tabs_ok_flags tabs_ok_fold)
  with ok show ?thesis unfolding open_requests_def Let_def by (simp only: if_split) blast
qed

lemma tabs_ok_close: "tabs_ok w \<Longrightarrow> tabs_ok (closeTab k w)"
proof -
  assume ok: "tabs_ok w"
  let ?rest = "filter (\<lambda>t. tb_key t \<noteq> k) (tw_tabs w)"
  show ?thesis
  proof (cases "?rest = []")
    case True
    with ok show ?thesis by (simp add: closeTab_def tabs_ok_def)
  next
    case False
    then have "0 < length ?rest" by (rule length_greater_0_conv [THEN iffD2])
    then have "min i (length ?rest - 1) < length ?rest" for i by linarith
    then have "?rest ! min i (length ?rest - 1) \<in> set ?rest" for i by (rule nth_mem)
    then have n: "tb_key (?rest ! min i (length ?rest - 1)) \<in> tb_key ` set ?rest" for i by blast
    have d: "distinct (map tb_key ?rest)" using ok by (simp add: tabs_ok_def distinct_map_filter)
    have le: "\<forall>t \<in> set ?rest. tb_key t \<le> tw_seq w" using ok by (simp add: tabs_ok_def)
    have keep: "tw_active w = Some j \<Longrightarrow> j \<noteq> k \<Longrightarrow> j \<in> tb_key ` set ?rest" for j
      using ok by (auto simp: tabs_ok_def)
    have some: "tw_active w \<noteq> None" using ok False by (auto simp: tabs_ok_def)
    define act where "act = (if tw_active w = Some k
      then Some (tb_key (?rest ! min (index_where (\<lambda>t. tb_key t = k) (tw_tabs w)) (length ?rest - 1))) else tw_active w)"
    have a: "\<exists>j. act = Some j \<and> j \<in> tb_key ` set ?rest"
    proof (cases "tw_active w = Some k")
      case True
      then have "act = Some (tb_key (?rest ! min (index_where (\<lambda>t. tb_key t = k) (tw_tabs w)) (length ?rest - 1)))"
        by (simp add: act_def)
      with n show ?thesis by blast
    next
      case False
      with some keep show ?thesis unfolding act_def by (cases "tw_active w") auto
    qed
    have "closeTab k w = w\<lparr>tw_tabs := ?rest, tw_active := act\<rparr>"
      using False unfolding closeTab_def Let_def act_def by (simp only: if_False)
    then show ?thesis using d le a unfolding tabs_ok_def by auto
  qed
qed

lemma shape_ok_cong:
  "tw_vp v = tw_vp w \<Longrightarrow> tw_geom v = tw_geom w \<Longrightarrow> tw_font v = tw_font w \<Longrightarrow> shape_ok v = shape_ok w"
  by (simp add: shape_ok_def)

lemma add_shape [simp]: "tw_vp (addTab t f w) = tw_vp w" "tw_geom (addTab t f w) = tw_geom w" "tw_font (addTab t f w) = tw_font w"
  by (simp_all add: addTab_def Let_def split: option.splits)

lemma fold_add_shape:
  "tw_vp (fold (\<lambda>r. addTab (fst r) False) rs w) = tw_vp w \<and> tw_geom (fold (\<lambda>r. addTab (fst r) False) rs w) = tw_geom w \<and>
   tw_font (fold (\<lambda>r. addTab (fst r) False) rs w) = tw_font w"
  by (induction rs arbitrary: w) simp_all

lemma clamp_font_bounds: "FONT_MIN \<le> clamp_font f" "clamp_font f \<le> FONT_MAX"
  by (simp_all add: clamp_font_def FONT_MIN_def FONT_MAX_def)

lemma shape_ok_step: "shape_ok w \<Longrightarrow> shape_ok (window_step e w)"
proof (cases e)
  case (Requests rs)
  assume "shape_ok w"
  then show ?thesis by (simp add: Requests open_requests_def Let_def shape_ok_def fold_add_shape)
next
  case (Mouse_move x y)
  assume "shape_ok w"
  then show ?thesis by (auto simp: Mouse_move shape_ok_def dragged_def clamp_idem split: option.splits)
qed (auto simp: shape_ok_def closeTab_def beginDrag_def Let_def clamp_idem clamp_font_bounds split: option.splits)

lemma tabs_ok_step: "tabs_ok w \<Longrightarrow> tabs_ok (window_step e w)"
proof (cases e)
  case (Requests rs)
  assume "tabs_ok w"
  then show ?thesis by (simp add: Requests tabs_ok_requests)
next
  case (Menu_open t f)
  assume "tabs_ok w"
  then have "tabs_ok (addTab t f w)" by (rule tabs_ok_add)
  then show ?thesis by (simp add: Menu_open tabs_ok_def)
next
  case (Close_tab k)
  assume "tabs_ok w"
  then show ?thesis by (simp add: Close_tab tabs_ok_close)
qed (auto simp: tabs_ok_def beginDrag_def split: option.splits)

lemma shape_ok_start: "shape_ok (window_start vp st)"
  by (auto simp: shape_ok_def window_start_def loadStore_def defaultGeom_def Let_def clamp_idem clamp_font_bounds
      split: slot.splits option.splits) (simp_all add: FONT_MIN_def FONT_MAX_def)

lemma window_run: "shape_ok w \<Longrightarrow> tabs_ok w \<Longrightarrow> shape_ok (fold window_step es w) \<and> tabs_ok (fold window_step es w)"
  by (induction es arbitrary: w) (simp_all add: shape_ok_step tabs_ok_step)

text \<open>C27: whatever is stored and whatever the user does, the window is placed where clamping
  leaves it and its font is between 10 and 20; its tabs have distinct keys, and the active
  one is a tab of the window as soon as there is one.\<close>

theorem window_invariant:
  "clamp (tw_vp (fold window_step es (window_start vp st))) (tw_geom (fold window_step es (window_start vp st))) =
     tw_geom (fold window_step es (window_start vp st)) \<and>
   10 \<le> tw_font (fold window_step es (window_start vp st)) \<and> tw_font (fold window_step es (window_start vp st)) \<le> 20 \<and>
   distinct (map tb_key (tw_tabs (fold window_step es (window_start vp st)))) \<and>
   (case tw_active (fold window_step es (window_start vp st)) of
      None \<Rightarrow> tw_tabs (fold window_step es (window_start vp st)) = []
    | Some k \<Rightarrow> k \<in> tb_key ` set (tw_tabs (fold window_step es (window_start vp st))))"
proof -
  have "tabs_ok (window_start vp st)" by (simp add: tabs_ok_def window_start_def)
  from window_run [OF shape_ok_start this, of es] show ?thesis
    by (simp add: shape_ok_def tabs_ok_def FONT_MIN_def FONT_MAX_def split: option.split)
qed

text \<open>Opening a target that is already shown focuses its tab instead of opening a second
  one, and a new target gets the one new tab, which becomes active.\<close>

theorem open_or_focus:
  "(\<exists>t. t \<in> set (tw_tabs (addTab target f w)) \<and> sameTarget (tb_target t) target \<and>
      tw_active (addTab target f w) = Some (tb_key t)) \<and>
   length (tw_tabs (addTab target False w)) =
     length (tw_tabs w) + (if list_ex (\<lambda>t. sameTarget (tb_target t) target) (tw_tabs w) then 0 else 1)"
proof
  have refl: "sameTarget target target" by (cases target) simp_all
  show "\<exists>t. t \<in> set (tw_tabs (addTab target f w)) \<and> sameTarget (tb_target t) target \<and>
      tw_active (addTab target f w) = Some (tb_key t)"
  proof (cases "if f then None else find (\<lambda>t. sameTarget (tb_target t) target) (tw_tabs w)")
    case None
    with refl show ?thesis
      by (intro exI [of _ "\<lparr>tb_key = Suc (tw_seq w), tb_target = target\<rparr>"]) (simp add: addTab_def Let_def)
  next
    case (Some t)
    then have "find (\<lambda>t. sameTarget (tb_target t) target) (tw_tabs w) = Some t" by (simp split: if_splits)
    then have "t \<in> set (tw_tabs w)" "sameTarget (tb_target t) target" by (auto simp: find_Some_iff)
    with Some show ?thesis by (intro exI [of _ t]) (simp add: addTab_def)
  qed
  show "length (tw_tabs (addTab target False w)) =
     length (tw_tabs w) + (if list_ex (\<lambda>t. sameTarget (tb_target t) target) (tw_tabs w) then 0 else 1)"
  proof (cases "find (\<lambda>t. sameTarget (tb_target t) target) (tw_tabs w)")
    case None
    then have "\<not> list_ex (\<lambda>t. sameTarget (tb_target t) target) (tw_tabs w)" by (auto simp: find_None_iff list_ex_iff)
    with None show ?thesis by (simp add: addTab_def Let_def)
  next
    case (Some t)
    then have "list_ex (\<lambda>t. sameTarget (tb_target t) target) (tw_tabs w)" by (auto simp: find_Some_iff list_ex_iff)
    with Some show ?thesis by (simp add: addTab_def Let_def)
  qed
qed

text \<open>The tab that is activated when the active one is closed is its right neighbour, or the
  last tab when it was the last.\<close>

theorem close_active:
  assumes "tw_tabs w = ls @ t # rs" "distinct (map tb_key (tw_tabs w))" "tw_active w = Some (tb_key t)" "ls @ rs \<noteq> []"
  shows "tw_tabs (closeTab (tb_key t) w) = ls @ rs \<and>
    tw_active (closeTab (tb_key t) w) = Some (tb_key (if rs = [] then last ls else hd rs))"
proof -
  have n: "tb_key t \<notin> tb_key ` set ls" "tb_key t \<notin> tb_key ` set rs" using assms(1,2) by auto
  then have f: "filter (\<lambda>x. tb_key x \<noteq> tb_key t) (tw_tabs w) = ls @ rs"
  proof -
    have "filter (\<lambda>x. tb_key x \<noteq> tb_key t) ls = ls" "filter (\<lambda>x. tb_key x \<noteq> tb_key t) rs = rs"
      using n by (simp_all add: filter_id_conv) (metis imageI)+
    then show ?thesis by (simp add: assms(1))
  qed
  have i: "index_where (\<lambda>x. tb_key x = tb_key t) (ls @ t # rs) = length ls"
    using n(1) by (induction ls) auto
  have "(ls @ rs) ! min (length ls) (length (ls @ rs) - 1) = (if rs = [] then last ls else hd rs)"
  proof (cases rs)
    case Nil
    with assms(4) have "min (length ls) (length ls - 1) = length ls - 1" "ls \<noteq> []" by simp_all
    with Nil show ?thesis by (simp add: last_conv_nth)
  next
    case (Cons r rs')
    then show ?thesis by (simp add: nth_append)
  qed
  then show ?thesis using assms f i by (simp add: closeTab_def Let_def)
qed

definition sample_window :: window where
  "sample_window = fold window_step
    [Requests [(T_shell ''h1'', 1), (T_logs ''h1'' ''c1'' None, 2)], Requests [(T_shell ''h1'', 1), (T_logs ''h1'' ''c1'' None, 2), (T_shell ''h1'', 3)],
     Menu_open (T_shell ''h2'') True, Select_tab 2]
    (window_start \<lparr>vp_w = 1280, vp_h = 800\<rparr> Absent)"

lemma sample_window_tabs:
  "tw_tabs sample_window = [\<lparr>tb_key = 1, tb_target = T_shell ''h1''\<rparr>, \<lparr>tb_key = 2, tb_target = T_logs ''h1'' ''c1'' None\<rparr>,
     \<lparr>tb_key = 3, tb_target = T_shell ''h2''\<rparr>] \<and> tw_active sample_window = Some 2"
  by (simp add: sample_window_def window_start_def open_requests_def addTab_def Let_def)

lemma close_active_witness:
  "tw_active (closeTab 2 sample_window) = Some 3"
  using close_active [of sample_window "[\<lparr>tb_key = 1, tb_target = T_shell ''h1''\<rparr>]"
      "\<lparr>tb_key = 2, tb_target = T_logs ''h1'' ''c1'' None\<rparr>" "[\<lparr>tb_key = 3, tb_target = T_shell ''h2''\<rparr>]"]
    sample_window_tabs by simp

text \<open>The window's place and font survive being closed and opened again: what the last drag
  or font change stored is what the next window starts with.\<close>

theorem window_reopens:
  "tw_geom (window_start (tw_vp w) (tw_store (window_step (Font_size f True) (fold window_step es (window_start vp st))))) =
     clamp (tw_vp w) (tw_geom (fold window_step es (window_start vp st))) \<and>
   tw_font (window_start (tw_vp w) (tw_store (window_step (Font_size f True) (fold window_step es (window_start vp st))))) =
     tw_font (window_step (Font_size f True) (fold window_step es (window_start vp st)))"
proof -
  have "clamp_font (clamp_font f) = clamp_font f" by (simp add: clamp_font_def FONT_MIN_def FONT_MAX_def)
  then show ?thesis by (simp add: window_start_def load_saved)
qed

end
