(* ===== verification/Terminal_Session.thy ===== *)
theory Terminal_Session
  imports Terminal_Window Format Api_Client Ui_Text
begin

text \<open>
  One terminal session (web/components/host/XTerm.tsx): its WebSocket protocol as a state machine
  with the frames and notifications it emits, and its keyboard handling; and the texts the
  window shows for its tabs (labels, commands, states) with what \<open>Copy output\<close> copies.
\<close>

section \<open>The session protocol\<close>

text \<open>A text frame, classified by what \<open>JSON.parse\<close> makes of it; other JSON and plain text are
  terminal output.\<close>

datatype server_frame =
    Exit_frame "int option"
  | Error_frame string
  | Control_frame string json
  | Output string

datatype client_frame = Hello json | Input string | Resize nat nat

datatype session_action =
    Send client_frame
  | Write string
  | State_connecting | State_open | State_ended
  | Control string json
  | Dims nat nat

datatype session_event =
    Ws_open
  | Ws_frame server_frame
  | Ws_error
  | Ws_close
  | Typed string
  | Resized nat nat
  | Dispose

text \<open>\<open>xs_ready\<close> is \<open>readyState === OPEN\<close>.\<close>

record session =
  xs_ready :: bool
  xs_exited :: bool
  xs_disposed :: bool
  xs_closed :: bool

definition session_start :: session where
  "session_start = \<lparr>xs_ready = False, xs_exited = False, xs_disposed = False, xs_closed = False\<rparr>"

definition esc :: "string \<Rightarrow> string" where
  "esc s = CHR 0x1B # s"

definition crlf :: string where
  "crlf = [CR, LF]"

text \<open>\<open>end(msg)\<close>.\<close>

definition session_end :: "string \<Rightarrow> session \<Rightarrow> session \<times> session_action list" where
  "session_end msg s =
    (if xs_exited s then (s, [])
     else (s\<lparr>xs_exited := True\<rparr>, [Write (crlf @ esc ''[90m'' @ msg @ esc ''[0m'' @ crlf), State_ended]))"

definition exit_message :: "int option \<Rightarrow> string" where
  "exit_message c = ''[session ended'' @
     (case c of Some n \<Rightarrow> if n \<noteq> 0 then '' '' @ middot @ '' exit '' @ show_int n else [] | None \<Rightarrow> []) @ '']''"

fun on_frame :: "server_frame \<Rightarrow> session \<Rightarrow> session \<times> session_action list" where
  "on_frame (Exit_frame c) s = session_end (exit_message c) s"
| "on_frame (Error_frame m) s = (s, [Write (crlf @ esc ''[31m'' @ m @ esc ''[0m'' @ crlf)])"
| "on_frame (Control_frame t m) s = (s, [Control t m])"
| "on_frame (Output d) s = (s, [Write d])"

definition open_error :: string where
  "open_error = crlf @ esc ''[31mCouldn'' @ [CHR 0x27] @ ''t open the terminal connection.'' @ esc ''[0m''"

text \<open>An event of the socket, the terminal or the component; the socket's events stop at its
  close, its handlers are detached by the cleanup.\<close>

fun session_step :: "json option \<Rightarrow> session_event \<Rightarrow> session \<Rightarrow> session \<times> session_action list" where
  "session_step hello Ws_open s = (s\<lparr>xs_ready := True\<rparr>,
     (case hello of Some h \<Rightarrow> [Send (Hello h)] | None \<Rightarrow> []) @ [State_open])"
| "session_step hello (Ws_frame f) s = on_frame f s"
| "session_step hello Ws_error s = (s, [Write open_error])"
| "session_step hello Ws_close s =
     (let s' = s\<lparr>xs_ready := False, xs_closed := True\<rparr> in
      if xs_disposed s then (s', []) else session_end ''[session ended]'' s')"
| "session_step hello (Typed d) s = (s, if xs_ready s then [Send (Input d)] else [])"
| "session_step hello (Resized c r) s = (s, Dims c r # (if xs_ready s then [Send (Resize c r)] else []))"
| "session_step hello Dispose s = (s\<lparr>xs_disposed := True, xs_ready := False, xs_closed := True\<rparr>, [])"

text \<open>What can happen when: the socket opens once and says nothing after it closed.\<close>

fun session_enabled :: "session_event \<Rightarrow> session \<Rightarrow> bool" where
  "session_enabled Ws_open s \<longleftrightarrow> \<not> xs_ready s \<and> \<not> xs_closed s"
| "session_enabled (Ws_frame _) s \<longleftrightarrow> xs_ready s"
| "session_enabled Ws_error s \<longleftrightarrow> \<not> xs_closed s"
| "session_enabled Ws_close s \<longleftrightarrow> \<not> xs_closed s"
| "session_enabled (Typed _) s \<longleftrightarrow> \<not> xs_disposed s"
| "session_enabled (Resized _ _) s \<longleftrightarrow> \<not> xs_disposed s"
| "session_enabled Dispose s \<longleftrightarrow> \<not> xs_disposed s"

inductive session_run :: "json option \<Rightarrow> session \<Rightarrow> session_action list \<Rightarrow> bool" for hello where
  connect: "session_run hello session_start [State_connecting]"
| act: "session_run hello s acts \<Longrightarrow> session_enabled e s \<Longrightarrow>
    session_run hello (fst (session_step hello e s)) (acts @ snd (session_step hello e s))"

inductive_simps session_run_start: "session_run hello session_start acts"

fun is_send :: "session_action \<Rightarrow> bool" where
  "is_send (Send _) \<longleftrightarrow> True" | "is_send _ \<longleftrightarrow> False"

definition ends :: "session_action list \<Rightarrow> nat" where
  "ends acts = length (filter (\<lambda>a. a = State_ended) acts)"

definition opens :: "session_action list \<Rightarrow> nat" where
  "opens acts = length (filter (\<lambda>a. a = State_open) acts)"

definition hello_frames :: "json option \<Rightarrow> session_action list" where
  "hello_frames hello = (case hello of Some h \<Rightarrow> [Send (Hello h)] | None \<Rightarrow> [])"

text \<open>The session's invariant over what it has emitted so far.\<close>

definition session_ok :: "json option \<Rightarrow> session \<Rightarrow> session_action list \<Rightarrow> bool" where
  "session_ok hello s acts \<longleftrightarrow>
     ends acts = (if xs_exited s then 1 else 0) \<and>
     (xs_closed s \<and> \<not> xs_disposed s \<longrightarrow> xs_exited s) \<and>
     (xs_ready s \<longrightarrow> \<not> xs_closed s) \<and>
     (if filter is_send acts = [] then opens acts = 0 \<or> hello = None
      else opens acts \<noteq> 0 \<and> prefix (hello_frames hello) (filter is_send acts)) \<and>
     (xs_ready s \<longrightarrow> opens acts \<noteq> 0)"

lemma emit_counts [simp]:
  "ends (as @ bs) = ends as + ends bs" "opens (as @ bs) = opens as + opens bs" "ends [] = 0" "opens [] = 0"
  "ends (a # as) = (if a = State_ended then 1 else 0) + ends as"
  "opens (a # as) = (if a = State_open then 1 else 0) + opens as"
  by (simp_all add: ends_def opens_def)

lemma filter_send_ends: "filter is_send (snd (session_end m s)) = []" "opens (snd (session_end m s)) = 0"
  by (simp_all add: session_end_def)

lemma session_ok_end:
  "session_ok hello s acts \<Longrightarrow> session_ok hello (fst (session_end m s)) (acts @ snd (session_end m s))"
  by (auto simp: session_ok_def session_end_def)

lemma session_ok_quiet:
  "session_ok hello s acts \<Longrightarrow> filter is_send new = [] \<Longrightarrow> ends new = 0 \<Longrightarrow> opens new = 0 \<Longrightarrow>
   session_ok hello s (acts @ new)"
  by (simp add: session_ok_def)

lemma session_ok_send:
  "session_ok hello s acts \<Longrightarrow> xs_ready s \<Longrightarrow> f \<noteq> Hello h \<Longrightarrow> session_ok hello s (acts @ [Send f])"
  by (auto simp: session_ok_def hello_frames_def split: if_splits option.splits)

lemma session_ok_frame: "session_ok hello s acts \<Longrightarrow> session_ok hello (fst (on_frame f s)) (acts @ snd (on_frame f s))"
proof (cases f)
  case (Exit_frame c)
  assume "session_ok hello s acts"
  then show ?thesis by (simp add: Exit_frame session_ok_end)
qed (simp_all add: session_ok_quiet)

lemma session_ok_open:
  "session_ok hello s acts \<Longrightarrow> \<not> xs_closed s \<Longrightarrow>
   session_ok hello (s\<lparr>xs_ready := True\<rparr>) (acts @ hello_frames hello @ [State_open])"
  by (auto simp: session_ok_def hello_frames_def split: if_splits option.splits)

lemma session_ok_close:
  "session_ok hello s acts \<Longrightarrow> session_ok hello (fst (session_step hello Ws_close s)) (acts @ snd (session_step hello Ws_close s))"
  by (auto simp: session_ok_def session_end_def Let_def)

lemma session_ok_step:
  assumes ok: "session_ok hello s acts" and e: "session_enabled e s"
  shows "session_ok hello (fst (session_step hello e s)) (acts @ snd (session_step hello e s))"
proof (cases e)
  case Ws_open
  with ok e session_ok_open show ?thesis by (simp add: hello_frames_def)
next
  case (Ws_frame f)
  with ok session_ok_frame show ?thesis by simp
next
  case Ws_error
  with ok session_ok_quiet show ?thesis by simp
next
  case Ws_close
  with ok session_ok_close show ?thesis by (simp only:)
next
  case (Typed d)
  with ok show ?thesis by (simp add: session_ok_send)
next
  case (Resized c r)
  have "session_ok hello s (acts @ [Dims c r])" by (rule session_ok_quiet [OF ok]) simp_all
  then have "xs_ready s \<Longrightarrow> session_ok hello s ((acts @ [Dims c r]) @ [Send (Resize c r)])"
    by (intro session_ok_send) simp_all
  with Resized \<open>session_ok hello s (acts @ [Dims c r])\<close> show ?thesis by simp
next
  case Dispose
  with ok show ?thesis by (simp add: session_ok_def)
qed

lemma session_run_ok: "session_run hello s acts \<Longrightarrow> session_ok hello s acts"
proof (induction rule: session_run.induct)
  case connect
  show ?case by (simp add: session_ok_def session_start_def)
next
  case (act s acts e)
  then show ?case by (intro session_ok_step)
qed

text \<open>C4: over every order of socket events, keystrokes and resizes a session reports its end at
  most once, always when the socket closed under a mounted terminal, and nothing is sent to
  the server before it is open and greeted: the first frame is the hello (the custom SSH
  credentials), when there is one.\<close>

theorem session_protocol:
  assumes "session_run hello s acts"
  shows "length (filter (\<lambda>a. a = State_ended) acts) =
      (if xs_exited s then 1 else 0) \<and>
    (xs_disposed s \<or> xs_exited s \<or> xs_closed s = False) \<and>
    (filter is_send acts = [] \<or> (State_open \<in> set acts \<and> prefix (hello_frames hello) (filter is_send acts)))"
proof -
  note ok = session_run_ok [OF assms, unfolded session_ok_def]
  have "opens acts \<noteq> 0 \<Longrightarrow> State_open \<in> set acts"
    by (auto simp: opens_def filter_empty_conv)
  with ok show ?thesis unfolding ends_def by (auto split: if_splits)
qed

lemma session_protocol_witness:
  "\<exists>s acts. session_run (Some JNull) s acts \<and> State_ended \<in> set acts \<and>
     length (filter (\<lambda>a. a = State_ended) acts) = 1 \<and> prefix [Send (Hello JNull)] (filter is_send acts)"
proof -
  define run where "run = (\<lambda>(s, acts) e. (fst (session_step (Some JNull) e s), acts @ snd (session_step (Some JNull) e s)))"
  define r0 where "r0 = (session_start, [State_connecting])"
  define r where "r = foldl run r0 [Ws_open, Typed ''ls'', Ws_frame (Exit_frame (Some 0)), Ws_close]"
  note d = run_def r0_def session_start_def session_end_def Let_def
  have "session_run (Some JNull) (fst r0) (snd r0)" by (simp add: r0_def connect)
  then have "session_run (Some JNull) (fst (run r0 Ws_open)) (snd (run r0 Ws_open))"
    using act [of "Some JNull" "fst r0" "snd r0" Ws_open] by (simp add: d)
  then have "session_run (Some JNull) (fst (run (run r0 Ws_open) (Typed ''ls''))) (snd (run (run r0 Ws_open) (Typed ''ls'')))"
    using act [of "Some JNull" "fst (run r0 Ws_open)" "snd (run r0 Ws_open)" "Typed ''ls''"] by (simp add: d)
  then have "session_run (Some JNull) (fst (foldl run r0 [Ws_open, Typed ''ls'', Ws_frame (Exit_frame (Some 0))]))
      (snd (foldl run r0 [Ws_open, Typed ''ls'', Ws_frame (Exit_frame (Some 0))]))"
    using act [of "Some JNull" "fst (run (run r0 Ws_open) (Typed ''ls''))" "snd (run (run r0 Ws_open) (Typed ''ls''))" "Ws_frame (Exit_frame (Some 0))"]
    by (simp add: d)
  then have run: "session_run (Some JNull) (fst r) (snd r)"
    using act [of "Some JNull" "fst (foldl run r0 [Ws_open, Typed ''ls'', Ws_frame (Exit_frame (Some 0))])"
        "snd (foldl run r0 [Ws_open, Typed ''ls'', Ws_frame (Exit_frame (Some 0))])" Ws_close]
    by (simp add: r_def d)
  have x: "xs_exited (fst r)" "State_ended \<in> set (snd r)" "filter is_send (snd r) \<noteq> []"
    by (simp_all add: r_def d)
  show ?thesis
    using session_protocol [OF run] x run by (intro exI [of _ "fst r"] exI [of _ "snd r"]) (simp add: hello_frames_def)
qed

section \<open>Keys\<close>

record key_event =
  ke_keydown :: bool
  ke_ctrl :: bool
  ke_meta :: bool
  ke_shift :: bool
  ke_key :: string

datatype key_action = Prevent_default | Copy_selection | Paste_clipboard

text \<open>What the handler does, and whether xterm handles the key too.\<close>

definition term_key :: "bool \<Rightarrow> string \<Rightarrow> key_event \<Rightarrow> key_action list \<times> bool" where
  "term_key isMac selection e =
    (let m = ke_ctrl e \<or> ke_meta e; key = to_lower (ke_key e) in
     if \<not> ke_keydown e then ([], True)
     else if ke_key e = ''Tab'' then ([Prevent_default], True)
     else if m \<and> ke_shift e \<and> key = ''c'' then
       (Prevent_default # (if selection \<noteq> [] then [Copy_selection] else []), False)
     else if m \<and> ke_shift e \<and> key = ''v'' then ([Prevent_default, Paste_clipboard], False)
     else if isMac \<and> ke_meta e \<and> \<not> ke_shift e \<and> key = ''c'' \<and> selection \<noteq> [] then ([Copy_selection], False)
     else if isMac \<and> ke_meta e \<and> key = ''v'' then ([], False)
     else ([], True))"

text \<open>Ctrl+C always reaches the shell (as an interrupt), Tab never leaves the terminal, and
  the only keys kept from the shell are the copy and paste chords.\<close>

theorem keys_reach_shell:
  "snd (term_key isMac sel \<lparr>ke_keydown = True, ke_ctrl = True, ke_meta = False, ke_shift = False, ke_key = ''c''\<rparr>) \<and>
   term_key isMac sel \<lparr>ke_keydown = True, ke_ctrl = c, ke_meta = m, ke_shift = s, ke_key = ''Tab''\<rparr> = ([Prevent_default], True) \<and>
   (snd (term_key isMac sel e) \<or>
     (ke_keydown e \<and> (ke_ctrl e \<or> ke_meta e) \<and> (to_lower (ke_key e) = ''c'' \<or> to_lower (ke_key e) = ''v'')))"
proof -
  have "to_lower ''c'' = ''c''" by code_simp
  then show ?thesis by (auto simp: term_key_def Let_def)
qed

section \<open>What the window shows of a tab\<close>

text \<open>\<open>hosts\<close> and \<open>containers\<close> are the lookups the window builds from the two lists; later entries
  with the same key win, as in \<open>new Map\<close>.\<close>

definition hostById :: "host list \<Rightarrow> string \<Rightarrow> host option" where
  "hostById hosts i = map_of (rev (map (\<lambda>h. (h_id h, h)) hosts)) i"

definition ctrById :: "container list \<Rightarrow> string \<Rightarrow> container option" where
  "ctrById cs k = map_of (rev (map (\<lambda>c. (c_hostId c @ ''/'' @ c_id c, c)) cs)) k"

definition target_name :: "container list \<Rightarrow> string \<Rightarrow> string \<Rightarrow> string option \<Rightarrow> string" where
  "target_name cs h c n = (case n of Some x \<Rightarrow> x | None \<Rightarrow>
     (case ctrById cs (h @ ''/'' @ c) of Some k \<Rightarrow> c_name k | None \<Rightarrow> take 12 c))"

definition host_user :: "host \<Rightarrow> string" where
  "host_user h = (if h_user h = [] then ''root'' else h_user h)"

fun tab_label :: "host list \<Rightarrow> container list \<Rightarrow> terminal_target \<Rightarrow> string" where
  "tab_label hs cs (T_ssh _ conn) = sshDest conn"
| "tab_label hs cs (T_shell h) = (case hostById hs h of
     Some x \<Rightarrow> (if h_method x = Method_local then ''root'' else host_user x) @ ''@'' @ h_name x
   | None \<Rightarrow> ''host shell'')"
| "tab_label hs cs (T_logs h c n) = target_name cs h c n @ '' '' @ middot @ '' logs''"
| "tab_label hs cs (T_exec h c n) = target_name cs h c n"

definition on_host :: "host list \<Rightarrow> string \<Rightarrow> string" where
  "on_host hs h = (case hostById hs h of Some x \<Rightarrow> '' '' @ middot @ '' '' @ h_name x | None \<Rightarrow> [])"

fun tab_meta :: "host list \<Rightarrow> container list \<Rightarrow> terminal_target \<Rightarrow> string" where
  "tab_meta hs cs (T_ssh _ conn) = sshCommand conn"
| "tab_meta hs cs (T_shell h) = (case hostById hs h of
     Some x \<Rightarrow> if h_method x = Method_local then ''nsenter -t 1 (host shell)''
       else ''ssh '' @ host_user x @ ''@'' @ h_address x @
         (if h_port x \<noteq> 0 \<and> h_port x \<noteq> 22 then '' -p '' @ show_int (h_port x) else [])
   | None \<Rightarrow> ''ssh'')"
| "tab_meta hs cs (T_exec h c n) = ''docker exec -it '' @ target_name cs h c n @ '' bash'' @ on_host hs h"
| "tab_meta hs cs (T_logs h c n) = ''docker logs -f '' @ target_name cs h c n @ on_host hs h"

definition dotColor :: "tab_status option \<Rightarrow> string" where
  "dotColor s = (case s of None \<Rightarrow> ''#f2c05c''
   | Some x \<Rightarrow> (case st_state x of Tab_open \<Rightarrow> ''#3ccf7a'' | Tab_paused \<Rightarrow> ''#aab1bf'' | Tab_connecting \<Rightarrow> ''#f2c05c''
       | _ \<Rightarrow> ''#ff5f57''))"

fun is_logs :: "terminal_target \<Rightarrow> bool" where
  "is_logs (T_logs _ _ _) \<longleftrightarrow> True" | "is_logs _ \<longleftrightarrow> False"

definition stateText :: "terminal_target \<Rightarrow> tab_status option \<Rightarrow> string" where
  "stateText t s =
    (if is_logs t then
       (case s of None \<Rightarrow> ''connecting'' @ ellipsis
        | Some x \<Rightarrow> (case st_state x of Tab_open \<Rightarrow> ''streaming'' | Tab_paused \<Rightarrow> ''paused''
            | Tab_connecting \<Rightarrow> ''connecting'' @ ellipsis | Tab_error \<Rightarrow> ''stream failed'' | Tab_ended \<Rightarrow> ''stream ended''))
     else
       (case s of None \<Rightarrow> ''connecting'' @ ellipsis
        | Some x \<Rightarrow> (case st_state x of
            Tab_open \<Rightarrow> ''connected'' @ (case st_latency x of Some l \<Rightarrow> '' '' @ middot @ '' '' @ show_int l @ ''ms'' | None \<Rightarrow> [])
          | Tab_ended \<Rightarrow> ''disconnected''
          | _ \<Rightarrow> ''connecting'' @ ellipsis)))"

definition sizeText :: "terminal_target \<Rightarrow> tab_status option \<Rightarrow> string" where
  "sizeText t s =
    (if is_logs t then show_nat (case s of Some x \<Rightarrow> (case st_lines x of Some n \<Rightarrow> n | None \<Rightarrow> 0) | None \<Rightarrow> 0) @ '' lines''
     else (case s of Some x \<Rightarrow> (case st_cols x of
         Some c \<Rightarrow> if c \<noteq> 0 then show_nat c @ times_sign @ (case st_rows x of Some r \<Rightarrow> show_nat r | None \<Rightarrow> ''undefined'') else []
       | None \<Rightarrow> []) | None \<Rightarrow> []))"

text \<open>The address a session's WebSocket is opened at; a log tab has no terminal session.\<close>

fun session_path :: "terminal_target \<Rightarrow> string option" where
  "session_path (T_ssh _ _) = Some ''/api/ssh''"
| "session_path (T_shell h) = Some (''/api/hosts/'' @ h @ ''/shell'')"
| "session_path (T_exec h c _) = Some (''/api/hosts/'' @ h @ ''/containers/'' @ c @ ''/exec?cmd=auto'')"
| "session_path (T_logs _ _ _) = None"

definition session_url :: "string \<Rightarrow> nat \<Rightarrow> nat \<Rightarrow> string" where
  "session_url path cols rows =
    path @ (if CHR ''?'' \<in> set path then ''&'' else ''?'') @ ''cols='' @ show_nat cols @ ''&rows='' @ show_nat rows"

text \<open>\<open>patchStatus\<close> with a full patch of the members it names.\<close>

record status_patch =
  sp_state :: "tab_state option"
  sp_latency :: "int option option"
  sp_cols :: "nat option"
  sp_rows :: "nat option"
  sp_lines :: "nat option"

definition apply_patch :: "status_patch \<Rightarrow> tab_status \<Rightarrow> tab_status" where
  "apply_patch p s = s
    \<lparr>st_state := (case sp_state p of Some x \<Rightarrow> x | None \<Rightarrow> st_state s),
     st_latency := (case sp_latency p of Some x \<Rightarrow> x | None \<Rightarrow> st_latency s),
     st_cols := (case sp_cols p of Some x \<Rightarrow> Some x | None \<Rightarrow> st_cols s),
     st_rows := (case sp_rows p of Some x \<Rightarrow> Some x | None \<Rightarrow> st_rows s),
     st_lines := (case sp_lines p of Some x \<Rightarrow> Some x | None \<Rightarrow> st_lines s)\<rparr>"

definition fresh_status :: tab_status where
  "fresh_status = \<lparr>st_state = Tab_connecting, st_latency = None, st_cols = None, st_rows = None, st_lines = None\<rparr>"

definition patchStatus :: "nat \<Rightarrow> status_patch \<Rightarrow> (nat \<rightharpoonup> tab_status) \<Rightarrow> (nat \<rightharpoonup> tab_status)" where
  "patchStatus key p m =
    (let prev = (case m key of Some s \<Rightarrow> s | None \<Rightarrow> fresh_status); new = apply_patch p prev
     in if new = prev then m else m(key \<mapsto> new))"

section \<open>Copying the output\<close>

text \<open>The terminal's buffer, one text per line, without the blank lines at its end; or the text of
  the log view.\<close>

definition buffer_text :: "string list \<Rightarrow> string" where
  "buffer_text ls = join [LF] (rev (dropWhile (\<lambda>l. trim l = []) (rev ls)))"

definition copy_output :: "string list option \<Rightarrow> string option \<Rightarrow> string" where
  "copy_output term logs = (case term of Some ls \<Rightarrow> buffer_text ls | None \<Rightarrow> (case logs of Some t \<Rightarrow> t | None \<Rightarrow> []))"

definition copy_title :: "string \<Rightarrow> string" where
  "copy_title text = (if text = [] then ''Nothing to copy yet''
     else (let n = int (length (split_on LF text)) in ''Copied '' @ show_int n @ '' line'' @ s_unless_1 n))"

lemma split_join_lines: "\<forall>l \<in> set ls. LF \<notin> set l \<Longrightarrow> ls \<noteq> [] \<Longrightarrow> split_on LF (join [LF] ls) = ls"
proof (induction ls)
  case (Cons s ls)
  show ?case
  proof (cases ls)
    case Nil
    with Cons show ?thesis by (simp add: split_on_no_sep)
  next
    case (Cons t ts)
    then have "split_on LF (s @ LF # join [LF] ls) = s # split_on LF (join [LF] ls)"
      using Cons.prems by (intro split_on_append) simp
    moreover have "join [LF] (s # ls) = s @ LF # join [LF] ls" by (simp add: \<open>ls = t # ts\<close>)
    ultimately show ?thesis using Cons.IH Cons.prems \<open>ls = t # ts\<close> by simp
  qed
qed simp

text \<open>Copying a terminal takes its lines up to the last one that is not blank, and the
  number of lines the toast reports is the number that was copied.\<close>

theorem copy_reports_lines:
  assumes "\<forall>l \<in> set ls. LF \<notin> set l" "trim x \<noteq> []" "LF \<notin> set x" "\<forall>b \<in> set blanks. trim b = []"
  shows "copy_output (Some (ls @ x # blanks)) logs = join [LF] (ls @ [x]) \<and>
    copy_title (copy_output (Some (ls @ x # blanks)) logs) =
      ''Copied '' @ show_int (1 + int (length ls)) @ '' line'' @ (if ls = [] then [] else ''s'')"
proof -
  have "dropWhile (\<lambda>l. trim l = []) (rev (ls @ x # blanks)) = x # rev ls"
  proof -
    have "dropWhile (\<lambda>l. trim l = []) (rev blanks @ x # rev ls) = dropWhile (\<lambda>l. trim l = []) (x # rev ls)"
      by (rule dropWhile_append2) (simp add: assms(4))
    then show ?thesis using assms(2) by simp
  qed
  then have c: "copy_output (Some (ls @ x # blanks)) logs = join [LF] (ls @ [x])"
    by (simp add: copy_output_def buffer_text_def)
  have n: "split_on LF (join [LF] (ls @ [x])) = ls @ [x]"
    using assms(1,3) by (intro split_join_lines) auto
  have "join [LF] (ls @ [x]) \<noteq> []"
  proof
    assume "join [LF] (ls @ [x]) = []"
    then have "ls @ [x] = [[]]" using n by simp
    with assms(2) show False by (cases ls) auto
  qed
  with c n show ?thesis by (auto simp: copy_title_def Let_def s_unless_1_def)
qed

lemma copy_reports_lines_witness:
  "copy_output (Some [''$ ls'', ''a b'', '''', '' '']) None = join [LF] [''$ ls'', ''a b''] \<and>
   copy_title (copy_output (Some [''$ ls'', ''a b'', '''', '' '']) None) = ''Copied 2 lines''"
proof -
  have "trim ''a b'' \<noteq> []" "trim '' '' = []" "LF \<notin> set ''$ ls''" "LF \<notin> set ''a b''"
    by (simp_all add: eol_literals trim_def trim_left_def trim_right_def js_simps)
  moreover have "show_int 2 = ''2''" by code_simp
  ultimately have "copy_output (Some [''$ ls'', ''a b'', '''', '' '']) None = join [LF] [''$ ls'', ''a b'']"
    and "copy_title (copy_output (Some [''$ ls'', ''a b'', '''', '' '']) None) = ''Copied 2 lines''"
    using copy_reports_lines [of "[''$ ls'']" "''a b''" "['''', '' '']" None, THEN conjunct1]
      copy_reports_lines [of "[''$ ls'']" "''a b''" "['''', '' '']" None, THEN conjunct2]
    by (simp, simp del: join.simps)
  then show ?thesis by blast
qed

section \<open>The menu of new tabs\<close>

text \<open>Running containers of known hosts, by host, each list in name order.\<close>

definition running_of :: "host list \<Rightarrow> container list \<Rightarrow> string \<Rightarrow> container list" where
  "running_of hs cs i = filter (\<lambda>c. c_state c = CS_running \<and> hostById hs (c_hostId c) \<noteq> None \<and> c_hostId c = i) cs"

definition runningByHost :: "(string \<Rightarrow> string \<Rightarrow> real) \<Rightarrow> host list \<Rightarrow> container list \<Rightarrow> string \<Rightarrow> container list option" where
  "runningByHost lc hs cs i =
    (case running_of hs cs i of [] \<Rightarrow> None | l \<Rightarrow> Some (js_sort (on_key lc c_name) l))"

definition sshHosts :: "host list \<Rightarrow> host list" where
  "sshHosts hs = filter (\<lambda>h. h_status h \<noteq> HS_offline \<and> h_status h \<noteq> HS_pending) hs"

text \<open>The \<open>+\<close> menu offers, for a known host, exactly its running containers, and nothing for a
  host it does not know.\<close>

theorem menu_containers:
  "(case runningByHost lc hs cs i of None \<Rightarrow> {#} | Some l \<Rightarrow> mset l) =
     {# c \<in># mset cs. c_state c = CS_running \<and> c_hostId c = i \<and> i \<in> h_id ` set hs #}"
proof -
  have k: "hostById hs j \<noteq> None \<longleftrightarrow> j \<in> h_id ` set hs" for j
    by (simp add: hostById_def map_of_eq_None_iff image_comp comp_def)
  have f: "running_of hs cs i = filter (\<lambda>c. c_state c = CS_running \<and> c_hostId c = i \<and> i \<in> h_id ` set hs) cs"
    unfolding running_of_def by (rule filter_cong) (use k in auto)
  have "(case runningByHost lc hs cs i of None \<Rightarrow> {#} | Some l \<Rightarrow> mset l) = mset (running_of hs cs i)"
    by (cases "running_of hs cs i") (simp_all add: runningByHost_def)
  then show ?thesis unfolding f by simp
qed

end
