(* ===== verification/View.thy ===== *)
theory View
  imports Ui_Text
begin

text \<open>
  What a component renders, without its styling: the texts, the buttons with their label, whether
  they can be pressed and the event they raise, the inputs with their value and the event a
  change raises, the links. \<open>texts\<close> is the text a reader sees, \<open>offers\<close> the events the buttons
  that can be pressed raise. A child \<open>{cond && <...>}\<close> is \<open>shown_if\<close>.
\<close>

datatype 'e view =
  Text string
| Button string bool 'e
| Input string string "string \<Rightarrow> 'e"
| Link string string
| Group "'e view list"

fun texts :: "'e view \<Rightarrow> string list" where
  "texts (Text s) = [s]"
| "texts (Button l b e) = [l]"
| "texts (Input l v f) = [v]"
| "texts (Link l h) = [l]"
| "texts (Group vs) = concat (map texts vs)"

fun offers :: "'e view \<Rightarrow> 'e list" where
  "offers (Text s) = []"
| "offers (Button l b e) = (if b then [e] else [])"
| "offers (Input l v f) = []"
| "offers (Link l h) = []"
| "offers (Group vs) = concat (map offers vs)"

fun links :: "'e view \<Rightarrow> string list" where
  "links (Text s) = []"
| "links (Button l b e) = []"
| "links (Input l v f) = []"
| "links (Link l h) = [h]"
| "links (Group vs) = concat (map links vs)"

definition shown_if :: "bool \<Rightarrow> 'e view \<Rightarrow> 'e view" where
  "shown_if b v = (if b then v else Group [])"

definition shown_opt :: "('a \<Rightarrow> 'e view) \<Rightarrow> 'a option \<Rightarrow> 'e view" where
  "shown_opt f x = (case x of None \<Rightarrow> Group [] | Some a \<Rightarrow> f a)"

text \<open>A component's view placed in its parent: its events become the parent's.\<close>

abbreviation placed :: "('e \<Rightarrow> 'f) \<Rightarrow> 'e view \<Rightarrow> 'f view" where
  "placed \<equiv> map_view"

lemma offers_placed [simp]: "offers (map_view f v) = map f (offers v)"
  by (induction v) (auto simp: map_concat comp_def intro!: arg_cong [of _ _ concat])

lemma texts_placed [simp]: "texts (map_view f v) = texts v"
  by (induction v) (auto simp: comp_def intro!: arg_cong [of _ _ concat])

lemma links_placed [simp]: "links (map_view f v) = links v"
  by (induction v) (auto simp: comp_def intro!: arg_cong [of _ _ concat])

lemma shown_if_simps [simp]:
  "offers (shown_if b v) = (if b then offers v else [])"
  "texts (shown_if b v) = (if b then texts v else [])"
  "links (shown_if b v) = (if b then links v else [])"
  by (auto simp: shown_if_def)

lemma shown_opt_simps [simp]: "shown_opt f None = Group []" "shown_opt f (Some a) = f a"
  by (auto simp: shown_opt_def)

end
