(* ===== verification/Ui_Parts.thy ===== *)
theory Ui_Parts
  imports View Format Api_Core Api_Ops
begin

text \<open>
  The shared widgets (components/ui.tsx): controls and what they offer, drop-down menus and what
  closes them, job progress and logs, host pickers, the dialog with its focus trap, and the
  keyboard listeners a dialog and an open menu register. A widget with a handler takes the event
  its parent makes of the value.
\<close>

section \<open>Controls\<close>

definition toggle :: "bool \<Rightarrow> (bool \<Rightarrow> 'e) \<Rightarrow> bool \<Rightarrow> 'e view" where
  "toggle on change disabled = Button (if on then ''on'' else []) (\<not> disabled) (change (\<not> on))"

definition toggle_row :: "string \<Rightarrow> string option \<Rightarrow> bool \<Rightarrow> (bool \<Rightarrow> 'e) \<Rightarrow> 'e view" where
  "toggle_row label sub on change = Group [Text label, shown_opt Text sub, toggle on change False]"

definition seg :: "('v \<times> string) list \<Rightarrow> ('v \<Rightarrow> 'e) \<Rightarrow> 'e view" where
  "seg options change = Group (map (\<lambda>(v, label). Button label True (change v)) options)"

record 'v tab_item =
  tab_value :: 'v
  tab_label :: string
  tab_count :: "int option"

definition tabs_view :: "'v tab_item list \<Rightarrow> ('v \<Rightarrow> 'e) \<Rightarrow> 'e view" where
  "tabs_view items change = Group (map (\<lambda>t. Group [Button (tab_label t) True (change (tab_value t)),
     (case tab_count t of Some n \<Rightarrow> shown_if (n \<noteq> 0) (Text (show_int n)) | None \<Rightarrow> Group [])]) items)"

record 'v drop_option =
  do_value :: 'v
  do_label :: string
  do_sub :: "string option"

datatype 'v drop_event = Drop_toggle | Drop_pick 'v | Drop_outside

definition drop_label :: "string \<Rightarrow> 'v drop_option list \<Rightarrow> 'v \<Rightarrow> string" where
  "drop_label placeholder options value = (case find (\<lambda>o'. do_value o' = value) options of
     Some c \<Rightarrow> do_label c | None \<Rightarrow> placeholder)"

definition dropdown :: "string \<Rightarrow> 'v drop_option list \<Rightarrow> 'v \<Rightarrow> bool \<Rightarrow> 'v drop_event view" where
  "dropdown placeholder options value opened = Group [
     Button (drop_label placeholder options value) True Drop_toggle,
     shown_if opened (Group (shown_if (options = []) (Text ''Nothing to choose'') #
       map (\<lambda>x. Group [Button (do_label x) True (Drop_pick (do_value x)),
         (case do_sub x of Some s \<Rightarrow> shown_if (s \<noteq> []) (Text s) | None \<Rightarrow> Group [])]) options))]"

text \<open>Whether the menu is open afterwards, and the value handed to the parent.\<close>

fun drop_step :: "'v drop_event \<Rightarrow> bool \<Rightarrow> bool \<times> 'v option" where
  "drop_step Drop_toggle opened = (\<not> opened, None)"
| "drop_step (Drop_pick v) opened = (False, Some v)"
| "drop_step Drop_outside opened = (False, None)"

datatype menu_event = Menu_toggle | Menu_item nat | Menu_outside

definition dots_menu :: "string list \<Rightarrow> bool \<Rightarrow> menu_event view" where
  "dots_menu items opened = Group [Button ''More actions'' True Menu_toggle,
     shown_if opened (Group (map2 (\<lambda>i label. Button label True (Menu_item i)) [0 ..< length items] items))]"

fun menu_step :: "menu_event \<Rightarrow> bool \<Rightarrow> bool \<times> nat option" where
  "menu_step Menu_toggle opened = (\<not> opened, None)"
| "menu_step (Menu_item i) opened = (False, Some i)"
| "menu_step Menu_outside opened = (False, None)"

text \<open>\<open>useOutside\<close>: what closes an open menu, and whether the event is swallowed.\<close>

datatype outer_event = Mouse_down bool | Key_down string

fun use_outside :: "bool \<Rightarrow> outer_event \<Rightarrow> bool \<times> bool" where
  "use_outside active (Mouse_down inside) = (active \<and> \<not> inside, False)"
| "use_outside active (Key_down k) = (active \<and> k = ''Escape'', active \<and> k = ''Escape'')"

text \<open>A drop-down lists exactly the options it was given, closed it offers only to open; choosing
  hands the chosen value to the parent and closes the menu, and a click outside it or Escape
  closes it without choosing.\<close>

theorem dropdown_offers:
  "offers (dropdown placeholder options v opened) =
     Drop_toggle # (if opened then map (\<lambda>x. Drop_pick (do_value x)) options else []) \<and>
   (\<forall>e. drop_step e opened = (case e of Drop_toggle \<Rightarrow> (\<not> opened, None) | Drop_pick w \<Rightarrow> (False, Some w) | Drop_outside \<Rightarrow> (False, None))) \<and>
   (\<forall>inside. fst (use_outside opened (Mouse_down inside)) = (opened \<and> \<not> inside))"
proof -
  have "concat (map (\<lambda>x. Drop_pick (do_value x) # offers (case do_sub x of Some s \<Rightarrow> shown_if (s \<noteq> []) (Text s) | None \<Rightarrow> Group [])) xs) =
      map (\<lambda>x. Drop_pick (do_value x)) xs" for xs :: "'a drop_option list"
    by (induction xs) (auto split: option.splits)
  then show ?thesis by (auto simp: dropdown_def comp_def split: drop_event.splits)
qed

section \<open>Display\<close>

definition empty_state :: "string \<Rightarrow> string \<Rightarrow> 'e view list \<Rightarrow> 'e view" where
  "empty_state title body children = Group [Text title, Text body, Group children]"

definition page_header :: "string \<Rightarrow> string option \<Rightarrow> 'e view list \<Rightarrow> 'e view" where
  "page_header title sub children = Group [Text title, shown_opt Text sub, Group children]"

definition avatar :: "string \<Rightarrow> 'e view" where
  "avatar name = Text (initial name)"

definition progress_row :: "job_step \<Rightarrow> 'e view" where
  "progress_row p = Group [Text (js_label p), shown_if (js_sub p \<noteq> []) (Text (js_sub p)), shown_if (js_t p \<noteq> []) (Text (js_t p))]"

definition progress_list :: "job_step list \<Rightarrow> 'e view" where
  "progress_list steps = Group (map progress_row steps)"

definition log_block :: "job_log_line list \<Rightarrow> 'e view" where
  "log_block lines = Group (map (\<lambda>l. Text (jl_text l)) lines)"

fun log_color :: "job_log_line_level \<Rightarrow> string" where
  "log_color JobLogLineLevel_info = ''#d5d8de''"
| "log_color JobLogLineLevel_ok = ''#9fd18b''"
| "log_color JobLogLineLevel_warn = ''#f2c05c''"
| "log_color JobLogLineLevel_error = ''#ff8a85''"
| "log_color JobLogLineLevel_cmd = ''#7dc4ff''"
| "log_color JobLogLineLevel_muted = ''#6b7280''"

lemma inert_displays [simp]:
  "offers (avatar n) = []" "offers (progress_list steps) = []" "offers (log_block lines) = []"
  by (auto simp: avatar_def progress_list_def progress_row_def log_block_def)

lemma texts_log_block [simp]: "texts (log_block lines) = map jl_text lines"
  by (induction lines) (auto simp: log_block_def)

definition host_chips :: "(string \<times> string) list \<Rightarrow> (string \<Rightarrow> 'e) \<Rightarrow> 'e view" where
  "host_chips hosts pick = Group (map (\<lambda>(i, name). Group [avatar name, Button name True (pick i)]) hosts)"

definition host_target :: "(string \<Rightarrow> 'e) \<Rightarrow> host \<Rightarrow> 'e view" where
  "host_target pick h = Group [avatar (h_name h), Button (h_name h) True (pick (h_id h)),
     Text (show_int (js_round (h_mem h)) @ ''% mem '' @ middot @ '' '' @ show_int (js_round (h_disk h)) @ ''% disk'')]"

definition host_targets :: "host list \<Rightarrow> (string \<Rightarrow> 'e) \<Rightarrow> 'e view" where
  "host_targets hosts pick = Group (map (host_target pick) hosts)"

lemma host_targets_offers [simp]: "offers (host_targets hosts pick) = map (\<lambda>h. pick (h_id h)) hosts"
  by (induction hosts) (auto simp: host_targets_def host_target_def)

definition key_callout :: "string \<Rightarrow> string \<Rightarrow> bool \<Rightarrow> 'e \<Rightarrow> 'e view" where
  "key_callout title v full copy = Group [shown_if (\<not> full) (Text title),
     Text (if v = [] then ''generating'' @ ellipsis else v), Button ''Copy'' True copy]"

text \<open>\<open>shortKey\<close>.\<close>

definition shortKey :: "string \<Rightarrow> string" where
  "shortKey k = (case split_on (CHR '' '') k of
     ty # body # rest \<Rightarrow>
       if body = [] then k
       else trim (ty @ '' '' @ take 8 body @ ellipsis @ last_n 4 body @ '' '' @ join '' '' rest)
   | _ \<Rightarrow> k)"

end
