(* ===== verification/Dialog_Keys.thy ===== *)
theory Dialog_Keys
  imports View
begin

text \<open>
  The keyboard behaviour of dialogs and open menus (components/ui.tsx): where the focus goes when
  a dialog opens and closes, how Tab is kept inside it, and which of the listeners that
  \<open>Dialog\<close> and \<open>useOutside\<close> register on the window see Escape. Elements are values of a type
  \<open>'n\<close>; the focusable elements of the page are a list in tab order, in which those of the dialog,
  rendered into the end of the body, are contiguous.
\<close>

section \<open>Focus\<close>

text \<open>The browser's own Tab: the next (or the previous) element of the page; at the ends the focus
  leaves the page.\<close>

fun next_in :: "'n list \<Rightarrow> 'n \<Rightarrow> 'n option" where
  "next_in (x # y # ys) a = (if x = a then Some y else next_in (y # ys) a)"
| "next_in _ a = None"

definition browser_tab :: "'n list \<Rightarrow> bool \<Rightarrow> 'n option \<Rightarrow> 'n option" where
  "browser_tab page shift active = (case active of
     None \<Rightarrow> (if page = [] then None else Some (if shift then last page else hd page))
   | Some a \<Rightarrow> if shift then next_in (rev page) a else next_in page a)"

text \<open>The Tab of a mounted dialog with the focusable elements \<open>els\<close>.\<close>

definition dialog_tab :: "'n list \<Rightarrow> 'n list \<Rightarrow> bool \<Rightarrow> 'n option \<Rightarrow> 'n option" where
  "dialog_tab page els shift active =
    (if els = [] then browser_tab page shift active
     else case active of
       None \<Rightarrow> Some (hd els)
     | Some a \<Rightarrow>
         if a \<notin> set els then Some (hd els)
         else if shift \<and> a = hd els then Some (last els)
         else if \<not> shift \<and> a = last els then Some (hd els)
         else browser_tab page shift active)"

text \<open>The first focus: the first element that is not the close button, else the first; without any
  the focus stays.\<close>

definition first_focus :: "('n \<Rightarrow> bool) \<Rightarrow> 'n list \<Rightarrow> 'n option \<Rightarrow> 'n option" where
  "first_focus is_close els active = (case find (\<lambda>e. \<not> is_close e) els of
     Some e \<Rightarrow> Some e
   | None \<Rightarrow> (case els of [] \<Rightarrow> active | e # _ \<Rightarrow> Some e))"

lemma next_in_skip: "a \<notin> set pre \<Longrightarrow> ys \<noteq> [] \<Longrightarrow> next_in (pre @ ys) a = next_in ys a"
proof (induction pre)
  case (Cons x pre)
  then show ?case by (cases "pre @ ys") auto
qed simp

lemma next_in_middle:
  assumes "distinct (pre @ els @ post)" "a \<in> set els" "a \<noteq> last els"
  shows "\<exists>b. next_in (pre @ els @ post) a = Some b \<and> b \<in> set els"
proof -
  obtain us vs where els: "els = us @ a # vs" using split_list [OF assms(2)] by blast
  with assms obtain b ws where vs: "vs = b # ws" by (cases vs) auto
  have "next_in ((pre @ us) @ a # b # ws @ post) a = Some b"
    using assms(1) els by (subst next_in_skip) auto
  then show ?thesis using els vs by simp
qed

lemma dialog_tab_inside:
  assumes "distinct (pre @ els @ post)" "els \<noteq> []"
  shows "\<exists>b. dialog_tab (pre @ els @ post) els shift active = Some b \<and> b \<in> set els"
proof (cases active)
  case None
  with assms show ?thesis by (simp add: dialog_tab_def)
next
  case (Some a)
  show ?thesis
  proof (cases "a \<in> set els \<and> \<not> (shift \<and> a = hd els) \<and> \<not> (\<not> shift \<and> a = last els)")
    case True
    then have a: "a \<in> set els" "shift \<Longrightarrow> a \<noteq> hd els" "\<not> shift \<Longrightarrow> a \<noteq> last els" by auto
    show ?thesis
    proof (cases shift)
      case True
      have "\<exists>b. next_in (rev post @ rev els @ rev pre) a = Some b \<and> b \<in> set (rev els)"
        using assms a True by (intro next_in_middle) (auto simp: last_rev)
      with True a Some assms show ?thesis by (auto simp: dialog_tab_def browser_tab_def)
    next
      case False
      with next_in_middle [OF assms(1)] a Some assms show ?thesis by (auto simp: dialog_tab_def browser_tab_def)
    qed
  next
    case False
    with assms Some show ?thesis by (auto simp: dialog_tab_def)
  qed
qed



lemma tab_moves:
  assumes "distinct (pre @ els @ post)" "i < length els"
  shows "dialog_tab (pre @ els @ post) els False (Some (els ! i)) = Some (els ! (Suc i mod length els))"
proof (cases "Suc i = length els")
  case True
  then have i: "i = length els - 1" by simp
  have "els \<noteq> []" using assms by auto
  then have "els ! i = last els" by (simp add: i last_conv_nth)
  note this \<open>els \<noteq> []\<close>
  with True show ?thesis by (simp add: dialog_tab_def hd_conv_nth)
next
  case False
  with assms have i: "Suc i < length els" by simp
  have e: "els \<noteq> []" "distinct els" using assms by auto
  with i have ne: "els ! i \<noteq> last els" by (simp add: last_conv_nth nth_eq_iff_index_eq)
  note this e
  moreover have "next_in (pre @ els @ post) (els ! i) = Some (els ! Suc i)"
  proof -
    have e: "els = take i els @ els ! i # els ! Suc i # drop (Suc (Suc i)) els"
      using i by (metis Cons_nth_drop_Suc Suc_lessD append_take_drop_id)
    have n: "els ! i \<notin> set (pre @ take i els)"
      using assms(1) by (subst (asm) e) auto
    have p: "pre @ els @ post = (pre @ take i els) @ els ! i # els ! Suc i # drop (Suc (Suc i)) els @ post"
      by (subst e) simp
    show ?thesis unfolding p by (subst next_in_skip [OF n]) simp_all
  qed
  ultimately show ?thesis using i assms by (simp add: dialog_tab_def browser_tab_def)
qed

lemma tab_moves_many:
  assumes "distinct (pre @ els @ post)" "i < length els"
  shows "(dialog_tab (pre @ els @ post) els False ^^ k) (Some (els ! i)) = Some (els ! ((i + k) mod length els))"
proof (induction k)
  case (Suc k)
  have "0 < length els" using assms(2) by linarith
  then have "(i + k) mod length els < length els" by simp
  from tab_moves [OF assms(1) this] Suc show ?case by (simp add: mod_Suc_eq)
qed (use assms in simp)

text \<open>Tab visits every element of the dialog: from any of them, \<open>k\<close> presses reach the element \<open>k\<close>
  places further, around the end, so that as many presses as there are elements come back.\<close>

theorem dialog_tab_cycles:
  assumes "distinct (pre @ els @ post)" "i < length els" "j < length els"
  shows "(dialog_tab (pre @ els @ post) els False ^^ ((j + length els - i) mod length els)) (Some (els ! i)) = Some (els ! j) \<and>
    (dialog_tab (pre @ els @ post) els False ^^ length els) (Some (els ! i)) = Some (els ! i)"
proof -
  have "(i + (j + length els - i) mod length els) mod length els = (i + (j + length els - i)) mod length els"
    by (simp add: mod_add_right_eq)
  also have "\<dots> = j" using assms by simp
  finally have j: "(i + (j + length els - i) mod length els) mod length els = j" .
  show ?thesis
    unfolding tab_moves_many [OF assms(1, 2)] j using assms by simp
qed

lemma dialog_tab_cycles_witness:
  "(dialog_tab [''menu'', ''a'', ''b'', ''c''] [''a'', ''b'', ''c''] False ^^ 2) (Some ''b'') = Some ''a''"
proof -
  have "(0 + length [''a'', ''b'', ''c''] - 1) mod length [''a'', ''b'', ''c''] = 2" by simp
  with dialog_tab_cycles [of "[''menu'']" "[''a'', ''b'', ''c'']" "[]" 1 0, THEN conjunct1] show ?thesis
    by (simp add: numeral_2_eq_2)
qed

section \<open>Escape\<close>

text \<open>The listeners on the window. \<open>Dialog\<close> and \<open>useOutside\<close> listen in the capture phase, in the order
  they registered; a menu's stops the event for every listener after it
  (\<open>stopImmediatePropagation\<close>), a dialog's only for the later phases (\<open>stopPropagation\<close>). The
  drawers and the page itself listen in the bubble phase.\<close>

datatype listener = Dialog_keys nat | Menu_keys nat

fun escape_capture :: "listener list \<Rightarrow> listener list \<times> bool" where
  "escape_capture [] = ([], False)"
| "escape_capture (Menu_keys m # ls) = ([Menu_keys m], True)"
| "escape_capture (Dialog_keys d # ls) = (Dialog_keys d # fst (escape_capture ls), True)"

text \<open>What Escape closes, and whether the page underneath sees it.\<close>

definition escape_closes :: "listener list \<Rightarrow> listener list" where
  "escape_closes ls = fst (escape_capture ls)"

definition page_sees_escape :: "listener list \<Rightarrow> bool" where
  "page_sees_escape ls \<longleftrightarrow> \<not> snd (escape_capture ls)"

definition listen :: "listener \<Rightarrow> listener list \<Rightarrow> listener list" where
  "listen l ls = ls @ [l]"

definition unlisten :: "listener \<Rightarrow> listener list \<Rightarrow> listener list" where
  "unlisten l ls = remove1 l ls"

definition is_menu :: "listener \<Rightarrow> bool" where
  "is_menu l \<longleftrightarrow> (case l of Menu_keys _ \<Rightarrow> True | Dialog_keys _ \<Rightarrow> False)"

lemma escape_closes_split:
  "escape_closes ls = takeWhile (\<lambda>l. \<not> is_menu l) ls @ take 1 (dropWhile (\<lambda>l. \<not> is_menu l) ls)"
  unfolding escape_closes_def by (induction ls rule: escape_capture.induct) (auto simp: is_menu_def)


text \<open>The focus goes back to the element that had it when the dialog opened.\<close>

record 'n dialog_focus =
  df_opener :: "'n option"
  df_active :: "'n option"

definition dialog_open :: "('n \<Rightarrow> bool) \<Rightarrow> 'n list \<Rightarrow> 'n option \<Rightarrow> 'n dialog_focus" where
  "dialog_open is_close els active = \<lparr>df_opener = active, df_active = first_focus is_close els active\<rparr>"

definition dialog_press :: "'n list \<Rightarrow> 'n list \<Rightarrow> bool \<Rightarrow> 'n dialog_focus \<Rightarrow> 'n dialog_focus" where
  "dialog_press page els shift st = st\<lparr>df_active := dialog_tab page els shift (df_active st)\<rparr>"

definition dialog_close :: "'n dialog_focus \<Rightarrow> 'n option" where
  "dialog_close st = (case df_opener st of Some o' \<Rightarrow> Some o' | None \<Rightarrow> df_active st)"

text \<open>A dialog never starts on its close button when it has another element to focus, and whatever
  is pressed while it is open, closing it gives the focus back to the element that opened it.\<close>

theorem dialog_returns_focus:
  "dialog_close (fold (dialog_press page els) presses (dialog_open is_close els (Some a))) = Some a \<and>
   (case df_active (dialog_open is_close els (Some a)) of
      None \<Rightarrow> False
    | Some e \<Rightarrow> (if list_ex (\<lambda>x. \<not> is_close x) els then e \<in> set els \<and> \<not> is_close e
                else e = (if els = [] then a else hd els)))"
proof
  have "df_opener (fold (dialog_press page els) presses st) = df_opener st" for st
    by (induction presses arbitrary: st) (auto simp: dialog_press_def)
  then show "dialog_close (fold (dialog_press page els) presses (dialog_open is_close els (Some a))) = Some a"
    by (simp add: dialog_close_def dialog_open_def)

  show "case df_active (dialog_open is_close els (Some a)) of
      None \<Rightarrow> False
    | Some e \<Rightarrow> (if list_ex (\<lambda>x. \<not> is_close x) els then e \<in> set els \<and> \<not> is_close e
                else e = (if els = [] then a else hd els))"
  proof (cases "find (\<lambda>e. \<not> is_close e) els")
    case None
    then have "\<not> list_ex (\<lambda>x. \<not> is_close x) els" by (simp add: find_None_iff list_ex_iff)
    with None show ?thesis by (cases els) (simp_all add: dialog_open_def first_focus_def split: if_splits)
  next
    case (Some e)
    with find_SomeD [OF Some] show ?thesis by (auto simp: dialog_open_def first_focus_def list_ex_iff)
  qed
qed

end
