(* ===== verification/Deploy_Shared.thy ===== *)
theory Deploy_Shared
  imports Ui_Text Api_System Api_Client Format
begin

text \<open>
  What the three deploy flows share (web/components/deploy/shared.tsx): the \<open>.env\<close> parser, the
  editable rows and the merge of variables into them, the colour of a name, the debounced
  pre-flight check as a state machine, its texts, and the dry run.
\<close>

section \<open>The .env parser\<close>

text \<open>\<open>/^(?:export\\s+)?([A-Za-z_][A-Za-z0-9_.-]*)\\s*=\\s*(.*)$/\<close>.\<close>

definition env_start :: "char \<Rightarrow> bool" where
  "env_start c \<longleftrightarrow> upper_letter c \<or> lower_letter c \<or> c = CHR ''_''"

definition env_char :: "char \<Rightarrow> bool" where
  "env_char c \<longleftrightarrow> env_start c \<or> digit c \<or> c = CHR ''.'' \<or> c = CHR ''-''"

definition env_name :: "string \<Rightarrow> bool" where
  "env_name k \<longleftrightarrow> k \<noteq> [] \<and> env_start (hd k) \<and> list_all env_char k"

definition env_assign :: "string \<Rightarrow> (string \<times> string) option" where
  "env_assign s =
    (let k = takeWhile env_char s; r = dropWhile ws (dropWhile env_char s) in
     if k \<noteq> [] \<and> env_start (hd k) \<and> starts_with r ''='' then
       (let v = dropWhile ws (tl r) in if CR \<in> set v then None else Some (k, v))
     else None)"

definition after_export :: "string \<Rightarrow> string option" where
  "after_export s =
    (if starts_with s ''export'' \<and> drop 6 s \<noteq> [] \<and> ws (hd (drop 6 s)) then Some (dropWhile ws (drop 6 s)) else None)"

definition env_match :: "string \<Rightarrow> (string \<times> string) option" where
  "env_match s =
    (case (case after_export s of Some t \<Rightarrow> env_assign t | None \<Rightarrow> None) of
       Some m \<Rightarrow> Some m | None \<Rightarrow> env_assign s)"

text \<open>\<open>replace(/\\s+#.*$/, "")\<close> of a text without line breaks.\<close>

fun strip_inline :: "string \<Rightarrow> string" where
  "strip_inline [] = []"
| "strip_inline (c # s) = (if ws c \<and> starts_with (dropWhile ws s) ''#'' then [] else c # strip_inline s)"

definition env_value :: "string \<Rightarrow> string" where
  "env_value v =
    (if 2 \<le> length v \<and> (hd v = CHR 0x22 \<and> last v = CHR 0x22 \<or> hd v = CHR 0x27 \<and> last v = CHR 0x27)
     then butlast (tl v) else strip_inline v)"

definition env_line :: "string \<Rightarrow> kv option" where
  "env_line raw =
    (let line = trim raw in
     if line = [] \<or> starts_with line ''#'' then None
     else map_option (\<lambda>(k, v). \<lparr>kv_k = k, kv_v = env_value v\<rparr>) (env_match line))"

definition parseDotenv :: "string \<Rightarrow> kv list" where
  "parseDotenv text = List.map_filter env_line (split_lines text)"

lemma env_assign_name: "env_assign s = Some (k, v) \<Longrightarrow> env_name k \<and> set v \<subseteq> set s"
proof -
  assume a: "env_assign s = Some (k, v)"
  then have k: "k = takeWhile env_char s" "k \<noteq> []" "env_start (hd k)"
    and v: "v = dropWhile ws (tl (dropWhile ws (dropWhile env_char s)))"
    by (simp_all add: env_assign_def Let_def split: if_splits)
  have "list_all env_char k" unfolding k(1) list_all_iff by (blast dest: set_takeWhileD)
  moreover have "suffix v s" unfolding v by (meson suffix_dropWhile suffix_tl suffix_order.trans)
  ultimately show ?thesis using k by (simp add: env_name_def set_mono_suffix)
qed

lemma env_match_name: "env_match s = Some (k, v) \<Longrightarrow> env_name k"
  unfolding env_match_def using env_assign_name by (auto split: option.splits)

text \<open>Whatever text is pasted, every variable read from it has a valid name.\<close>

theorem parseDotenv_names:
  "kv_k ` set (parseDotenv text) \<subseteq> Collect env_name"
proof
  fix k
  assume "k \<in> kv_k ` set (parseDotenv text)"
  then obtain l e where "env_line l = Some e" "kv_k e = k"
    by (auto simp: parseDotenv_def List.map_filter_def)
  then show "k \<in> Collect env_name"
    using env_match_name by (fastforce simp: env_line_def Let_def split: if_splits)
qed

text \<open>A variable written out in double quotes, one per line.\<close>

definition env_quoted :: "kv \<Rightarrow> string" where
  "env_quoted e = kv_k e @ ''='' @ CHR 0x22 # kv_v e @ [CHR 0x22]"

definition one_line :: "kv \<Rightarrow> bool" where
  "one_line e \<longleftrightarrow> env_name (kv_k e) \<and> LF \<notin> set (kv_v e) \<and> CR \<notin> set (kv_v e)"

lemma env_char_special: "\<not> env_char (CHR ''='')" "\<not> env_char LF" "\<not> env_char CR" "\<not> env_start (CHR ''#'')"
  "\<not> ws (CHR ''='')" "\<not> ws (CHR 0x22)"
  by (simp_all add: eol_literals env_char_def env_start_def js_simps)

lemma eol_plain: "LF \<noteq> CHR 0x22" "CR \<noteq> CHR 0x22" "LF \<noteq> CHR ''=''" "CR \<noteq> CHR ''=''"
  by (simp_all add: eol_literals)

lemma env_char_not_ws: "env_char c \<Longrightarrow> \<not> ws c"
  by (auto simp: env_char_def env_start_def js_simps)

lemma env_start_char: "env_start c \<Longrightarrow> env_char c"
  by (simp add: env_char_def)

lemma after_export_assign: "list_all env_char k \<Longrightarrow> after_export (k @ CHR ''='' # r) = None"
proof (rule ccontr)
  assume k: "list_all env_char k" and "after_export (k @ CHR ''='' # r) \<noteq> None"
  moreover have six: "length ''export'' = 6" by simp
  ultimately have e: "take 6 (k @ CHR ''='' # r) = ''export''" "ws (hd (drop 6 (k @ CHR ''='' # r)))"
    unfolding after_export_def starts_with_def six by argo+
  show False
  proof (cases "length k < 6")
    case True
    then obtain m where m: "6 - length k = Suc m" by (metis Suc_diff_Suc)
    have "take 6 (k @ CHR ''='' # r) = take 6 k @ take (6 - length k) (CHR ''='' # r)" by (rule take_append)
    then have "CHR ''='' \<in> set (take 6 (k @ CHR ''='' # r))" unfolding m by simp
    with e(1) show False by simp
  next
    case False
    then have d: "drop 6 (k @ CHR ''='' # r) = drop 6 k @ CHR ''='' # r" by simp
    then show False
    proof (cases "drop 6 k")
      case Nil
      with e(2) d env_char_special show False by simp
    next
      case (Cons c k')
      then have "c \<in> set k" by (metis in_set_dropD list.set_intros(1))
      with k have "\<not> ws c" by (auto simp: list_all_iff env_char_not_ws)
      with e(2) d Cons show False by simp
    qed
  qed
qed

lemma env_line_quoted: "one_line e \<Longrightarrow> env_line (env_quoted e) = Some e"
proof -
  assume e: "one_line e"
  let ?v = "CHR 0x22 # kv_v e @ [CHR 0x22]"
  let ?l = "kv_k e @ CHR ''='' # ?v"
  have k: "kv_k e \<noteq> []" "env_start (hd (kv_k e))" "list_all env_char (kv_k e)"
    using e by (simp_all add: one_line_def env_name_def)
  then obtain c k' where ck: "kv_k e = c # k'" "env_start c" by (cases "kv_k e") auto
  have "trim ?l = ?l"
    using ck env_char_special by (intro trim_no_ws) (auto dest: env_start_char env_char_not_ws)
  moreover have "\<not> starts_with ?l ''#''" using ck env_char_special by auto
  moreover have "env_assign ?l = Some (kv_k e, ?v)"
  proof -
    have t: "takeWhile env_char ?l = kv_k e" "dropWhile env_char ?l = CHR ''='' # ?v"
      using k(3) env_char_special by (simp_all add: takeWhile_append2 dropWhile_append2 list_all_iff)
    have "CR \<notin> set ?v" using e eol_plain by (simp add: one_line_def)
    then show ?thesis unfolding env_assign_def t using k env_char_special by simp
  qed
  then have "env_match ?l = Some (kv_k e, ?v)" by (simp add: env_match_def after_export_assign [OF k(3)])
  moreover have "env_value ?v = kv_v e" by (simp add: env_value_def)
  ultimately show ?thesis by (simp add: env_line_def env_quoted_def ck(1))
qed

text \<open>C31: a set of variables written out as \<open>KEY="value"\<close> lines is read back exactly, whatever the
  values hold but line breaks: quotes, spaces, hashes and equals signs included.\<close>

theorem parseDotenv_roundtrip:
  assumes "list_all one_line es"
  shows "parseDotenv (concat (map (\<lambda>e. env_quoted e @ [LF]) es)) = es"
  using assms
proof (induction es)
  case Nil
  then show ?case by (simp add: parseDotenv_def env_line_def List.map_filter_def)
next
  case (Cons e es)
  then have e: "one_line e" by simp
  then have "list_all env_char (kv_k e)" by (simp add: one_line_def env_name_def)
  then have "LF \<notin> set (kv_k e)" "CR \<notin> set (kv_k e)" using env_char_special by (auto simp: list_all_iff)
  with e have l: "LF \<notin> set (env_quoted e)" "CR \<notin> set (env_quoted e)"
    using eol_plain by (auto simp: env_quoted_def one_line_def)
  have "drop_cr (env_quoted e) = env_quoted e" using l(2) by (auto simp: drop_cr_def dest: last_in_set)
  with l(1) have "split_lines (env_quoted e @ LF # s) = env_quoted e # split_lines s" for s
    by (simp add: split_lines_cons)
  with Cons e show ?case by (simp add: parseDotenv_def List.map_filter_simps env_line_quoted)
qed

definition sample_env :: "kv list" where
  "sample_env = [\<lparr>kv_k = ''DATABASE_URL'', kv_v = ''postgres://u:p#1@db/x y''\<rparr>, \<lparr>kv_k = ''EMPTY'', kv_v = ''''\<rparr>]"

lemma parseDotenv_roundtrip_witness:
  "parseDotenv (concat (map (\<lambda>e. env_quoted e @ [LF]) sample_env)) = sample_env \<and> length sample_env = 2"
proof
  have "list_all one_line sample_env"
    by (simp add: sample_env_def one_line_def env_name_def eol_literals env_char_def env_start_def js_simps)
  then show "parseDotenv (concat (map (\<lambda>e. env_quoted e @ [LF]) sample_env)) = sample_env"
    by (rule parseDotenv_roundtrip)
qed (simp add: sample_env_def)

text \<open>A comment right after the equals sign becomes the value.\<close>

lemma env_comment_value: "parseDotenv ''KEY= # unset'' = [\<lparr>kv_k = ''KEY'', kv_v = ''# unset''\<rparr>]"
  by code_simp

section \<open>Rows\<close>

record pair =
  p_a :: string
  p_b :: string

text \<open>The edits of \<open>PairRows\<close>: a field of one row, a removed row, a new one.\<close>

definition set_row :: "nat \<Rightarrow> (pair \<Rightarrow> pair) \<Rightarrow> pair list \<Rightarrow> pair list" where
  "set_row i f rows = map2 (\<lambda>j r. if j = i then f r else r) [0 ..< length rows] rows"

definition remove_row :: "nat \<Rightarrow> pair list \<Rightarrow> pair list" where
  "remove_row i rows = map snd (filter (\<lambda>(j, r). j \<noteq> i) (zip [0 ..< length rows] rows))"

definition add_row :: "pair list \<Rightarrow> pair list" where
  "add_row rows = rows @ [\<lparr>p_a = [], p_b = []\<rparr>]"

text \<open>\<open>mergeKV\<close>: each variable replaces the first row with its key, or is added.\<close>

fun merge_one :: "('r \<Rightarrow> string) \<Rightarrow> ('r option \<Rightarrow> kv \<Rightarrow> 'r) \<Rightarrow> kv \<Rightarrow> 'r list \<Rightarrow> 'r list" where
  "merge_one key set_kv e [] = [set_kv None e]"
| "merge_one key set_kv e (r # rs) = (if key r = kv_k e then set_kv (Some r) e # rs else r # merge_one key set_kv e rs)"

definition mergeKV :: "('r \<Rightarrow> string) \<Rightarrow> ('r option \<Rightarrow> kv \<Rightarrow> 'r) \<Rightarrow> 'r list \<Rightarrow> kv list \<Rightarrow> 'r list" where
  "mergeKV key set_kv rows vars = fold (merge_one key set_kv) vars rows"

text \<open>The value a list of rows gives a key: that of its first row.\<close>

definition row_value :: "('r \<Rightarrow> string) \<Rightarrow> ('r \<Rightarrow> string) \<Rightarrow> 'r list \<Rightarrow> string \<Rightarrow> string option" where
  "row_value key val rows k = map_option val (find (\<lambda>r. key r = k) rows)"

text \<open>The contract of the two callbacks a flow hands to \<open>mergeKV\<close>: a row set from a variable has
  the variable's key and value.\<close>

locale row_editor =
  fixes key :: "'r \<Rightarrow> string" and val :: "'r \<Rightarrow> string" and set_kv :: "'r option \<Rightarrow> kv \<Rightarrow> 'r"
  assumes key_set: "key (set_kv r e) = kv_k e"
    and val_set: "val (set_kv r e) = kv_v e"
begin

lemma merge_one_value:
  "row_value key val (merge_one key set_kv e rows) = (row_value key val rows)(kv_k e \<mapsto> kv_v e)"
proof (rule ext)
  fix k
  show "row_value key val (merge_one key set_kv e rows) k = ((row_value key val rows)(kv_k e \<mapsto> kv_v e)) k"
  proof (induction rows)
    case Nil
    then show ?case by (simp add: row_value_def key_set val_set)
  next
    case (Cons r rows)
    then show ?case by (cases "key r = kv_k e") (auto simp: row_value_def key_set val_set)
  qed
qed

text \<open>Merging overrides the rows' map by the variables' map, the last of equal keys winning.\<close>

lemma merge_value:
  "row_value key val (mergeKV key set_kv rows vars) =
     row_value key val rows ++ map_of (rev (map (\<lambda>e. (kv_k e, kv_v e)) vars))"
proof (induction vars arbitrary: rows)
  case (Cons e vars)
  have "mergeKV key set_kv rows (e # vars) = mergeKV key set_kv (merge_one key set_kv e rows) vars"
    by (simp add: mergeKV_def)
  with Cons show ?case by (auto simp: merge_one_value map_add_def fun_eq_iff split: option.splits)
qed (simp add: mergeKV_def)

lemma merge_one_keys:
  "map key (merge_one key set_kv e rows) =
     (if kv_k e \<in> key ` set rows then map key rows else map key rows @ [kv_k e])"
  by (induction rows) (auto simp: key_set)

lemma merge_keys:
  "\<exists>new. map key (mergeKV key set_kv rows vars) = map key rows @ new \<and> distinct new \<and>
     set new = kv_k ` set vars - key ` set rows"
proof (induction vars arbitrary: rows)
  case (Cons e vars)
  let ?rows = "merge_one key set_kv e rows"
  have m: "mergeKV key set_kv rows (e # vars) = mergeKV key set_kv ?rows vars" by (simp add: mergeKV_def)
  obtain new where new: "map key (mergeKV key set_kv ?rows vars) = map key ?rows @ new" "distinct new"
    "set new = kv_k ` set vars - key ` set ?rows" using Cons.IH by blast
  have ks: "key ` set ?rows = insert (kv_k e) (key ` set rows)"
    using arg_cong [OF merge_one_keys [of e rows], of set] by (auto split: if_splits)
  show ?case
  proof (cases "kv_k e \<in> key ` set rows")
    case True
    with new ks show ?thesis by (intro exI [of _ new]) (auto simp: m merge_one_keys)
  next
    case False
    with new ks show ?thesis by (intro exI [of _ "kv_k e # new"]) (auto simp: m merge_one_keys)
  qed
qed (simp add: mergeKV_def)

end

text \<open>The callbacks of the image flow.\<close>

definition pair_set :: "pair option \<Rightarrow> kv \<Rightarrow> pair" where
  "pair_set r e = \<lparr>p_a = kv_k e, p_b = kv_v e\<rparr>"

interpretation pairs: row_editor p_a p_b pair_set
  by unfold_locales (simp_all add: pair_set_def)

section \<open>Colours\<close>

text \<open>\<open>h = (h * 31 + charCodeAt(i)) >>> 0\<close>.\<close>

definition hash_word :: "string \<Rightarrow> 32 word" where
  "hash_word s = foldl (\<lambda>h c. h * 31 + of_nat (code c)) 0 s"

definition hashColor :: "string \<Rightarrow> string list \<Rightarrow> string" where
  "hashColor s palette = palette ! (unat (hash_word s) mod length palette)"

text \<open>The colour of a name is always one of the palette, whatever the name's length: the hash
  stays an unsigned 32-bit number.\<close>

theorem hashColor_in_palette:
  assumes "palette \<noteq> []"
  shows "hashColor s palette \<in> set palette \<and>
    unat (hash_word (s @ [c])) = (unat (hash_word s) * 31 + code c) mod 2 ^ 32"
proof
  show "hashColor s palette \<in> set palette" using assms by (simp add: hashColor_def)
  have "hash_word (s @ [c]) = of_nat (unat (hash_word s) * 31 + code c)" by (simp add: hash_word_def)
  then show "unat (hash_word (s @ [c])) = (unat (hash_word s) * 31 + code c) mod 2 ^ 32"
    by (simp only: unsigned_of_nat take_bit_eq_mod) simp
qed

lemma hashColor_in_palette_witness:
  "hashColor ''nginx'' AVATAR_COLORS \<in> set AVATAR_COLORS \<and>
   unat (hash_word ''ng'') = (unat (hash_word ''n'') * 31 + 103) mod 2 ^ 32"
proof -
  have "AVATAR_COLORS \<noteq> []" by (simp add: AVATAR_COLORS_def)
  moreover have "code (CHR ''g'') = 103" by (simp add: code_def)
  ultimately show ?thesis
    using hashColor_in_palette [of AVATAR_COLORS "''nginx''" "CHR ''g''"] hashColor_in_palette [of AVATAR_COLORS "''n''" "CHR ''g''"]
    by simp
qed

section \<open>The pre-flight check\<close>

text \<open>
  \<open>useDeployCheck\<close>: \<open>dc_key\<close> is the serialised input (empty for none), \<open>dc_seq\<close> counts its
  changes, \<open>dc_timer\<close> is the debounce of the current change, \<open>dc_sent\<close> the requests that have not
  answered, with the change and the input they were sent for. A result carries the input it
  answers, which the code does not keep.
\<close>

record check_state =
  dc_key :: string
  dc_seq :: nat
  dc_timer :: bool
  dc_sent :: "(nat \<times> string) list"
  dc_result :: "(string \<times> deploy_check_result) option"
  dc_checking :: bool

datatype check_event = Input_key string | Debounced | Check_answer nat deploy_check_result | Check_failed nat

definition check_start :: check_state where
  "check_start = \<lparr>dc_key = [], dc_seq = 1, dc_timer = False, dc_sent = [], dc_result = None, dc_checking = False\<rparr>"

definition sent_for :: "nat \<Rightarrow> check_state \<Rightarrow> string" where
  "sent_for n st = (case map_of (dc_sent st) n of Some k \<Rightarrow> k | None \<Rightarrow> [])"

definition drop_sent :: "nat \<Rightarrow> check_state \<Rightarrow> check_state" where
  "drop_sent n st = st\<lparr>dc_sent := filter (\<lambda>r. fst r \<noteq> n) (dc_sent st)\<rparr>"

fun check_step :: "check_event \<Rightarrow> check_state \<Rightarrow> check_state" where
  "check_step (Input_key k) st =
     (if k = [] then st\<lparr>dc_key := k, dc_seq := Suc (dc_seq st), dc_timer := False, dc_result := None, dc_checking := False\<rparr>
      else st\<lparr>dc_key := k, dc_seq := Suc (dc_seq st), dc_timer := True, dc_checking := True\<rparr>)"
| "check_step Debounced st = st\<lparr>dc_timer := False, dc_sent := (dc_seq st, dc_key st) # dc_sent st\<rparr>"
| "check_step (Check_answer n r) st =
     (if n = dc_seq st then (drop_sent n st)\<lparr>dc_result := Some (sent_for n st, r), dc_checking := False\<rparr>
      else drop_sent n st)"
| "check_step (Check_failed n) st =
     (if n = dc_seq st then (drop_sent n st)\<lparr>dc_result := None, dc_checking := False\<rparr> else drop_sent n st)"

fun check_enabled :: "check_event \<Rightarrow> check_state \<Rightarrow> bool" where
  "check_enabled (Input_key k) st \<longleftrightarrow> k \<noteq> dc_key st"
| "check_enabled Debounced st \<longleftrightarrow> dc_timer st"
| "check_enabled (Check_answer n r) st \<longleftrightarrow> n \<in> fst ` set (dc_sent st)"
| "check_enabled (Check_failed n) st \<longleftrightarrow> n \<in> fst ` set (dc_sent st)"

inductive check_reaches :: "check_state \<Rightarrow> bool" where
  check_init: "check_reaches check_start"
| check_next: "check_reaches st \<Longrightarrow> check_enabled e st \<Longrightarrow> check_reaches (check_step e st)"

definition check_ok :: "check_state \<Rightarrow> bool" where
  "check_ok st \<longleftrightarrow>
     (\<forall>r \<in> set (dc_sent st). fst r \<le> dc_seq st \<and> (fst r = dc_seq st \<longrightarrow> snd r = dc_key st)) \<and>
     (dc_checking st \<longleftrightarrow> dc_timer st \<or> dc_seq st \<in> fst ` set (dc_sent st)) \<and>
     \<not> (dc_timer st \<and> dc_seq st \<in> fst ` set (dc_sent st)) \<and>
     (dc_key st = [] \<longrightarrow> \<not> dc_checking st) \<and>
     (\<forall>k r. dc_result st = Some (k, r) \<longrightarrow> dc_checking st \<or> k = dc_key st)"

lemma sent_for_current:
  "check_ok st \<Longrightarrow> dc_seq st \<in> fst ` set (dc_sent st) \<Longrightarrow> sent_for (dc_seq st) st = dc_key st"
proof -
  assume ok: "check_ok st" and "dc_seq st \<in> fst ` set (dc_sent st)"
  then obtain k where k: "map_of (dc_sent st) (dc_seq st) = Some k"
    by (metis map_of_eq_None_iff not_None_eq)
  then have "(dc_seq st, k) \<in> set (dc_sent st)" by (rule map_of_SomeD)
  with ok k show ?thesis by (fastforce simp: check_ok_def sent_for_def)
qed

lemma check_ok_step: "check_ok st \<Longrightarrow> check_enabled e st \<Longrightarrow> check_ok (check_step e st)"
proof (cases e)
  case (Input_key k)
  assume ok: "check_ok st"
  then have "Suc (dc_seq st) \<notin> fst ` set (dc_sent st)" by (fastforce simp: check_ok_def)
  moreover have "\<forall>r \<in> set (dc_sent st). fst r \<le> Suc (dc_seq st) \<and> (fst r = Suc (dc_seq st) \<longrightarrow> snd r = k)"
    using ok by (fastforce simp: check_ok_def)
  ultimately show ?thesis unfolding Input_key by (cases "k = []") (simp_all add: check_ok_def)
next
  case Debounced
  assume "check_ok st" "check_enabled e st"
  then show ?thesis unfolding Debounced by (auto simp: check_ok_def)
next
  case (Check_answer n r)
  assume ok: "check_ok st" and e: "check_enabled e st"
  show ?thesis
  proof (cases "n = dc_seq st")
    case True
    with e Check_answer have s: "dc_seq st \<in> fst ` set (dc_sent st)" by simp
    then have t: "\<not> dc_timer st" using ok by (simp add: check_ok_def)
    have "dc_seq st \<notin> fst ` set (filter (\<lambda>r. fst r \<noteq> dc_seq st) (dc_sent st))" by auto
    with ok True Check_answer t show ?thesis
      using sent_for_current [OF ok s] by (simp add: check_ok_def drop_sent_def)
  next
    case False
    with ok Check_answer show ?thesis by (auto simp: check_ok_def drop_sent_def)
  qed
next
  case (Check_failed n)
  assume ok: "check_ok st" and e: "check_enabled e st"
  show ?thesis
  proof (cases "n = dc_seq st")
    case True
    with e Check_failed have s: "dc_seq st \<in> fst ` set (dc_sent st)" by simp
    then have t: "\<not> dc_timer st" using ok by (simp add: check_ok_def)
    have "dc_seq st \<notin> fst ` set (filter (\<lambda>r. fst r \<noteq> dc_seq st) (dc_sent st))" by auto
    with ok True Check_failed t show ?thesis by (simp add: check_ok_def drop_sent_def)
  next
    case False
    with ok Check_failed show ?thesis by (auto simp: check_ok_def drop_sent_def)
  qed
qed

lemma check_reaches_ok: "check_reaches st \<Longrightarrow> check_ok st"
  by (induction rule: check_reaches.induct)
    (simp_all add: check_ok_step, simp add: check_ok_def check_start_def)

text \<open>C9: over every order of edits, debounces and answers, once the check no longer says it is
  checking, the issues shown are the API's answer for the input as it is now, never those of
  an earlier edit; and while it is checking a timer or a request for the current input is
  still outstanding, so it ends.\<close>

theorem deploy_check_current:
  assumes "check_reaches st"
  shows "(case dc_result st of None \<Rightarrow> True | Some (k, r) \<Rightarrow> dc_checking st \<or> k = dc_key st) \<and>
    dc_checking st = (dc_timer st \<or> (dc_seq st, dc_key st) \<in> set (dc_sent st))"
proof
  note ok = check_reaches_ok [OF assms]
  show "case dc_result st of None \<Rightarrow> True | Some (k, r) \<Rightarrow> dc_checking st \<or> k = dc_key st"
    using ok by (auto simp: check_ok_def split: option.split)
  have "\<forall>r \<in> set (dc_sent st). fst r = dc_seq st \<longrightarrow> snd r = dc_key st"
    using ok by (simp add: check_ok_def)
  then have "dc_seq st \<in> fst ` set (dc_sent st) \<longleftrightarrow> (dc_seq st, dc_key st) \<in> set (dc_sent st)"
    by (metis (no_types, lifting) fst_conv image_iff prod.collapse)
  then show "dc_checking st = (dc_timer st \<or> (dc_seq st, dc_key st) \<in> set (dc_sent st))"
    using ok by (simp add: check_ok_def)
qed

definition sample_check :: check_state where
  "sample_check = fold check_step [Input_key ''a'', Debounced, Input_key ''ab'', Debounced,
     Check_answer 3 \<lparr>dcr_ok = True, dcr_issues = []\<rparr>, Check_answer 2 \<lparr>dcr_ok = False, dcr_issues = []\<rparr>] check_start"

lemma deploy_check_current_witness:
  "check_reaches sample_check \<and> dc_checking sample_check = False \<and>
   dc_result sample_check = Some (''ab'', \<lparr>dcr_ok = True, dcr_issues = []\<rparr>) \<and>
   (case dc_result sample_check of None \<Rightarrow> True | Some (k, r) \<Rightarrow> dc_checking sample_check \<or> k = dc_key sample_check)"
proof -
  have r: "check_reaches sample_check"
    unfolding sample_check_def fold.simps comp_apply id_apply
    by (intro check_next check_init) (simp_all add: check_start_def drop_sent_def)
  from deploy_check_current [OF r] r show ?thesis
    by (simp add: sample_check_def check_start_def drop_sent_def sent_for_def)
qed

text \<open>The counts the flows use: \<open>crit\<close> blocks the deploy button.\<close>

definition check_issues :: "check_state \<Rightarrow> deploy_issue list" where
  "check_issues st = (case dc_result st of None \<Rightarrow> [] | Some (_, r) \<Rightarrow> dcr_issues r)"

definition check_crit :: "check_state \<Rightarrow> nat" where
  "check_crit st = length (filter (\<lambda>i. di_severity i = DeployIssueSeverity_crit) (check_issues st))"

definition check_warn :: "check_state \<Rightarrow> nat" where
  "check_warn st = length (check_issues st) - check_crit st"

definition issueTitle :: "nat \<Rightarrow> nat \<Rightarrow> string" where
  "issueTitle crit warn =
    (if crit \<noteq> 0 then show_nat crit @ '' thing'' @ s_unless_1 crit @ '' to fix before deploying'' @
       (if warn \<noteq> 0 then '' '' @ middot @ '' '' @ show_nat warn @ '' warning'' @ s_unless_1 warn else [])
     else show_nat warn @ '' warning'' @ s_unless_1 warn)"

definition deployBtnLabel :: "nat \<Rightarrow> nat \<Rightarrow> string option \<Rightarrow> string" where
  "deployBtnLabel crit warn hostName =
    (if crit \<noteq> 0 then ''Fix '' @ show_nat crit @ '' issue'' @ s_unless_1 crit @ '' to deploy''
     else if warn \<noteq> 0 then ''Deploy anyway''
     else ''Deploy to '' @ (case hostName of Some n \<Rightarrow> n | None \<Rightarrow> ellipsis))"

lemma check_warn_count:
  "check_warn st = length (filter (\<lambda>i. di_severity i = DeployIssueSeverity_warn) (check_issues st))"
proof -
  have "length xs = length (filter (\<lambda>i. di_severity i = DeployIssueSeverity_crit) xs) +
      length (filter (\<lambda>i. di_severity i = DeployIssueSeverity_warn) xs)" for xs :: "deploy_issue list"
  proof (induction xs)
    case (Cons i xs)
    then show ?case by (cases "di_severity i") auto
  qed simp
  from this [of "check_issues st"] show ?thesis by (simp add: check_warn_def check_crit_def)
qed

section \<open>The stepper and the dry run\<close>

datatype step_look = Step_done_look | Step_current | Step_ahead

definition stepper :: "nat \<Rightarrow> string list \<Rightarrow> (string \<times> step_look \<times> string) list" where
  "stepper current steps = map2 (\<lambda>i s. (s,
      (if i < current then Step_done_look else if i = current then Step_current else Step_ahead),
      (if i < current then map char_of [226 :: nat, 156, 147] else show_nat (i + 1)))) [0 ..< length steps] steps"

record dry_run_state =
  dy_open :: bool
  dy_loading :: bool
  dy_result :: "dry_run_result option"
  dy_error :: "string option"

definition dry_run_start :: "dry_run_state \<Rightarrow> dry_run_state" where
  "dry_run_start st = \<lparr>dy_open = True, dy_loading = True, dy_result = None, dy_error = None\<rparr>"

definition dry_run_answer :: "(js_error + dry_run_result) \<Rightarrow> dry_run_state \<Rightarrow> dry_run_state" where
  "dry_run_answer r st = (case r of
     Inr x \<Rightarrow> st\<lparr>dy_loading := False, dy_result := Some x, dy_error := None\<rparr>
   | Inl e \<Rightarrow> st\<lparr>dy_loading := False, dy_result := None, dy_error := Some (errMsg e)\<rparr>)"

definition dry_run_failed :: "dry_run_state \<Rightarrow> bool" where
  "dry_run_failed st \<longleftrightarrow> (case dy_error st of Some m \<Rightarrow> m \<noteq> [] | None \<Rightarrow> False) \<or>
     (case dy_result st of Some r \<Rightarrow> \<not> dr_ok r | None \<Rightarrow> False)"

definition dry_run_output :: "dry_run_state \<Rightarrow> string" where
  "dry_run_output st = (case dy_error st of Some m \<Rightarrow> m
     | None \<Rightarrow> (case dy_result st of Some r \<Rightarrow> dr_output r | None \<Rightarrow> []))"

definition dry_run_line :: "dry_run_state \<Rightarrow> string" where
  "dry_run_line st =
    (if dy_loading st then ''Rendering configuration'' @ ellipsis
     else if dry_run_failed st then ''Dry run failed '' @ dash @ '' nothing was changed''
     else ''Configuration is valid '' @ dash @ '' nothing was changed'')"

end
