(* ===== verification/Deploy_Views.thy ===== *)
theory Deploy_Views
  imports Deploy_Shared Ui_Parts
begin

text \<open>
  What the shared pieces of the deploy pages render (components/deploy/shared.tsx) and the edits
  their buttons and inputs make: the stepper, pair rows, the \<open>.env\<close> import panel, the issues of the
  check, the deploy button and the dry-run dialog.
\<close>

section \<open>The stepper\<close>

definition stepper_view :: "nat \<Rightarrow> string list \<Rightarrow> 'e view" where
  "stepper_view current steps = Group (map (\<lambda>(s, look, mark). Group [Text mark, Text s]) (stepper current steps))"

lemma stepper_view_offers [simp]: "offers (stepper_view n steps) = []"
  by (auto simp: stepper_view_def)

section \<open>Pair rows\<close>

datatype pair_event = Set_a nat string | Set_b nat string | Remove_row nat | Add_row

fun pair_step :: "pair_event \<Rightarrow> pair list \<Rightarrow> pair list" where
  "pair_step (Set_a i s) rows = set_row i (\<lambda>r. r\<lparr>p_a := s\<rparr>) rows"
| "pair_step (Set_b i s) rows = set_row i (\<lambda>r. r\<lparr>p_b := s\<rparr>) rows"
| "pair_step (Remove_row i) rows = remove_row i rows"
| "pair_step Add_row rows = add_row rows"

definition cross :: string where
  "cross = map char_of [226 :: nat, 156, 149]"

definition pair_row :: "string \<Rightarrow> nat \<Rightarrow> pair \<Rightarrow> pair_event view" where
  "pair_row sep i r = Group [Input ''a'' (p_a r) (Set_a i), Text sep, Input ''b'' (p_b r) (Set_b i),
     Button cross True (Remove_row i)]"

definition pair_rows :: "string \<Rightarrow> pair list \<Rightarrow> pair_event view" where
  "pair_rows sep rows = Group (map2 (pair_row sep) [0 ..< length rows] rows @ [Button ''Add'' True Add_row])"

lemma concat_singles: "concat (map (\<lambda>x. [f x]) xs) = map f xs"
  by (induction xs) auto

lemma pair_rows_offers: "offers (pair_rows sep rows) = map Remove_row [0 ..< length rows] @ [Add_row]"
proof -
  have "offers (pair_row sep i r) = [Remove_row i]" for i r by (simp add: pair_row_def)
  then have "concat (map offers (map2 (pair_row sep) ns rows)) = map Remove_row (take (length rows) ns)" for ns
    by (induction ns arbitrary: rows) (auto simp: zip_Cons1 split: list.splits)
  then show ?thesis by (simp add: pair_rows_def)
qed

lemma set_row_nth: "set_row i f rows = (if i < length rows then rows[i := f (rows ! i)] else rows)"
  by (rule nth_equalityI) (auto simp: set_row_def nth_list_update)

lemma remove_row_split: "remove_row i rows = take i rows @ drop (Suc i) rows"
proof (induction rows rule: rev_induct)
  case (snoc r rows)
  then show ?case by (cases "i < length rows") (auto simp: remove_row_def)
qed (simp add: remove_row_def)

text \<open>The buttons of the row editor are one "remove" per row and "add": a remove takes out exactly
  its row and keeps the order of the others, an add appends an empty row, and typing changes one
  side of one row.\<close>

theorem pair_rows_edit:
  "offers (pair_rows sep rows) = map Remove_row [0 ..< length rows] @ [Add_row] \<and>
   pair_step (Remove_row i) rows = take i rows @ drop (Suc i) rows \<and>
   pair_step Add_row rows = rows @ [\<lparr>p_a = [], p_b = []\<rparr>] \<and>
   pair_step (Set_a i s) rows = (if i < length rows then rows[i := (rows ! i)\<lparr>p_a := s\<rparr>] else rows) \<and>
   pair_step (Set_b i s) rows = (if i < length rows then rows[i := (rows ! i)\<lparr>p_b := s\<rparr>] else rows)"
  by (simp add: pair_rows_offers set_row_nth remove_row_split add_row_def)

section \<open>The import panel\<close>

datatype import_event = Type_env string | Upload_env string | Import_cancel | Import_merge "kv list"

record import_state =
  im_open :: bool
  im_text :: string

definition import_count :: "kv list \<Rightarrow> string" where
  "import_count vars = (if vars \<noteq> [] then show_nat (length vars) @ '' variable'' @ s_unless_1 (int (length vars)) @ '' found''
     else ''KEY=value per line'')"

definition env_import_view :: "import_state \<Rightarrow> import_event view" where
  "env_import_view st = (let parsed = parseDotenv (im_text st) in
     Group [Input ''.env'' (im_text st) Type_env, Input ''Upload file'' [] Upload_env,
       Text (import_count parsed), Button ''Cancel'' True Import_cancel,
       Button ''Merge'' (parsed \<noteq> []) (Import_merge parsed)])"

text \<open>The panel's own state, and the variables it hands to its parent.\<close>

fun import_step :: "import_event \<Rightarrow> import_state \<Rightarrow> import_state \<times> kv list option" where
  "import_step (Type_env s) st = (st\<lparr>im_text := s\<rparr>, None)"
| "import_step (Upload_env s) st = (st\<lparr>im_text := s\<rparr>, None)"
| "import_step Import_cancel st = (st\<lparr>im_open := False\<rparr>, None)"
| "import_step (Import_merge vars) st = (st\<lparr>im_open := False\<rparr>, Some vars)"

section \<open>The issues and the deploy button\<close>

definition fixable :: "(deploy_issue \<Rightarrow> bool) option \<Rightarrow> deploy_issue \<Rightarrow> bool" where
  "fixable canFix i \<longleftrightarrow> di_fix i \<noteq> None \<and> (case canFix of Some f \<Rightarrow> f i | None \<Rightarrow> True)"

definition fix_label :: "deploy_issue \<Rightarrow> string" where
  "fix_label i = (case di_fix i of Some x \<Rightarrow> deploy_issue_fix_label x | None \<Rightarrow> [])"

definition issue_row :: "(deploy_issue \<Rightarrow> bool) option \<Rightarrow> deploy_issue \<Rightarrow> deploy_issue view" where
  "issue_row canFix i = Group [Text (di_field i), Text (dash @ '' '' @ di_text i),
     shown_if (fixable canFix i) (Button (fix_label i) True i)]"

definition issues_panel :: "(deploy_issue \<Rightarrow> bool) option \<Rightarrow> deploy_issue list \<Rightarrow> nat \<Rightarrow> nat \<Rightarrow> deploy_issue view" where
  "issues_panel canFix issues crit warn =
    (if issues = [] then Group [] else Group (Text (issueTitle crit warn) # map (issue_row canFix) issues))"

lemma issues_panel_offers: "offers (issues_panel canFix issues crit warn) = filter (fixable canFix) issues"
proof -
  have row: "offers (issue_row canFix i) = (if fixable canFix i then [i] else [])" for i
    by (simp add: issue_row_def)
  have "concat (map (\<lambda>i. offers (issue_row canFix i)) xs) = filter (fixable canFix) xs" for xs
    by (induction xs) (simp_all add: row)
  then show ?thesis by (simp add: issues_panel_def comp_def)
qed

definition big_button :: "string \<Rightarrow> bool \<Rightarrow> bool \<Rightarrow> bool \<Rightarrow> 'e \<Rightarrow> 'e view" where
  "big_button label disabled busy blocked e = Button label (\<not> (disabled \<or> busy \<or> blocked)) e"

definition back_button :: "'e \<Rightarrow> 'e view" where
  "back_button e = Button (map char_of [226 :: nat, 134, 144]) True e"

definition chip_button :: "string \<Rightarrow> 'e \<Rightarrow> 'e view" where
  "chip_button label e = Button label True e"

definition summary_row :: "string \<Rightarrow> string \<Rightarrow> 'e view" where
  "summary_row k v = Group [Text k, Text v]"

definition deploy_targets :: "host list option \<Rightarrow> (string \<Rightarrow> 'e) \<Rightarrow> host list \<Rightarrow> 'e view" where
  "deploy_targets loaded pick hosts =
    (if loaded \<noteq> None \<and> hosts = [] then Text (''No online hosts '' @ dash @ '' add or reconnect a host first.'')
     else host_targets hosts pick)"

lemma deploy_targets_offers [simp]:
  "set (offers (deploy_targets loaded pick hosts)) = (\<lambda>h. pick (h_id h)) ` set hosts"
  by (auto simp: deploy_targets_def)

section \<open>The dry run\<close>

datatype dry_run_event = Dry_run | Dry_run_close | Copy_command string | Copy_output string

text \<open>\<open>DryRunDialog\<close>.\<close>

definition dry_run_dialog :: "string \<Rightarrow> string \<Rightarrow> dry_run_state \<Rightarrow> dry_run_event view" where
  "dry_run_dialog title sub st = Group [
     Text title, Text sub,
     (case dy_result st of
        Some r \<Rightarrow> shown_if (dr_command r \<noteq> []) (Group [Text ''$'', Text (dr_command r), Button ''copy'' True (Copy_command (dr_command r))])
      | None \<Rightarrow> Group []),
     Text (dry_run_line st),
     Text (if dy_loading st then ellipsis else if dry_run_output st \<noteq> [] then dry_run_output st else ''(no output)''),
     shown_if (dry_run_failed st \<and> \<not> dy_loading st) (Button ''Retry'' True Dry_run),
     Button ''Copy output'' (dry_run_output st \<noteq> [] \<and> \<not> dy_loading st) (Copy_output (dry_run_output st)),
     Button ''Done'' True Dry_run_close]"

definition dry_run_button :: "string \<Rightarrow> string \<Rightarrow> string \<Rightarrow> bool \<Rightarrow> dry_run_state \<Rightarrow> dry_run_event view" where
  "dry_run_button label title sub disabled st = Group [
     Button label (\<not> (disabled \<or> dy_loading st)) Dry_run,
     shown_if (dy_open st) (dry_run_dialog title sub st)]"

text \<open>The dry-run dialog never offers a second request while one runs; once answered it says
  "valid" exactly when the server answered "ok", and it offers a retry exactly when the request
  failed (an error message is never empty) or the server said the configuration is not valid.\<close>

theorem dry_run_dialog_outcome:
  "Dry_run \<notin> set (offers (dry_run_button label title sub disabled (dry_run_start st))) \<and>
   (case r of
      Inr x \<Rightarrow>
        (dry_run_line (dry_run_answer r (dry_run_start st)) = ''Configuration is valid '' @ dash @ '' nothing was changed'' \<longleftrightarrow> dr_ok x) \<and>
        (Dry_run \<in> set (offers (dry_run_dialog title sub (dry_run_answer r (dry_run_start st)))) \<longleftrightarrow> \<not> dr_ok x)
    | Inl e \<Rightarrow>
        (Dry_run \<in> set (offers (dry_run_dialog title sub (dry_run_answer r (dry_run_start st)))) \<longleftrightarrow> errMsg e \<noteq> []))"
proof -
  have [simp]: "set (offers (case dy_result s of None \<Rightarrow> Group [] | Some r \<Rightarrow> shown_if (dr_command r \<noteq> [])
      (Group [Text ''$'', Text (dr_command r), Button ''copy'' True (Copy_command (dr_command r))]))) \<subseteq>
      Copy_command ` UNIV" for s :: dry_run_state
    by (auto split: option.splits)
  show ?thesis
    by (auto simp: dry_run_button_def dry_run_start_def dry_run_answer_def dry_run_dialog_def dry_run_failed_def
        dry_run_line_def split: sum.splits)
qed

end
