(* ===== verification/Image_Flow.thy ===== *)
theory Image_Flow
  imports Deploy_Shared Api_Core Api_Machines
begin

text \<open>
  Deploying an image (web/components/deploy/ImageFlow.tsx): image references, the registry
  chips and presets of the picker, and the configuration form with the request, the
  pre-flight input and the equivalent command it makes.
\<close>

section \<open>Image references\<close>

definition splitRegistry :: "string \<Rightarrow> string \<times> string" where
  "splitRegistry img =
    (case index_of img ''/'' of
       None \<Rightarrow> ([], img)
     | Some i \<Rightarrow>
         let first = take i img in
         if 0 < i \<and> (CHR ''.'' \<in> set first \<or> CHR '':'' \<in> set first \<or> first = ''localhost'')
         then (first, drop (Suc i) img) else ([], img))"

definition last_segment :: "string \<Rightarrow> string" where
  "last_segment s = last (split_on (CHR ''/'') s)"

definition hasTag :: "string \<Rightarrow> bool" where
  "hasTag img \<longleftrightarrow> CHR '':'' \<in> set (last_segment img) \<or> CHR ''@'' \<in> set img"

definition withTag :: "string \<Rightarrow> string" where
  "withTag img = (let s = trim img in if s = [] \<or> hasTag s then s else s @ '':latest'')"

text \<open>\<open>lastIndexOf\<close> with its -1.\<close>

definition last_index :: "char \<Rightarrow> string \<Rightarrow> int" where
  "last_index c s = (case last_index_of c s of Some i \<Rightarrow> int i | None \<Rightarrow> - 1)"

definition repoOf :: "string \<Rightarrow> string" where
  "repoOf img =
    (let s = hd (split_on (CHR ''@'') img); l = last_index (CHR '':'') s in
     if last_index (CHR ''/'') s < l then take (nat l) s else s)"

definition name_char :: "char \<Rightarrow> bool" where
  "name_char c \<longleftrightarrow> lower_letter c \<or> digit c \<or> c = CHR ''_'' \<or> c = CHR ''.'' \<or> c = CHR ''-''"

definition defaultName :: "string \<Rightarrow> string" where
  "defaultName img =
    (let base = to_lower (last_segment (repoOf img));
         n = map (\<lambda>c. if name_char c then c else CHR ''-'') base
     in if n = [] then ''app'' else n)"

lemma index_of_char: "index_of s [c] = Some i \<Longrightarrow> i < length s \<and> s ! i = c \<and> c \<notin> set (take i s)"
proof (induction s arbitrary: i)
  case (Cons d s)
  show ?case
  proof (cases "d = c")
    case False
    with Cons.prems obtain j where "i = Suc j" "index_of s [c] = Some j" by auto
    with Cons.IH False show ?thesis by auto
  qed (use Cons.prems in simp)
qed simp

text \<open>Splitting an image reference loses nothing: the registry host, when one is recognised, and
  the rest join back to the reference.\<close>

theorem splitRegistry_join:
  "(case splitRegistry img of (reg, rest) \<Rightarrow>
     img = (if reg = [] then rest else reg @ ''/'' @ rest) \<and> CHR ''/'' \<notin> set reg)"
proof (cases "index_of img ''/''")
  case (Some i)
  then have i: "i < length img" "img ! i = CHR ''/''" "CHR ''/'' \<notin> set (take i img)"
    using index_of_char by blast+
  then have "img = take i img @ CHR ''/'' # drop (Suc i) img" by (metis id_take_nth_drop)
  with Some i show ?thesis by (auto simp: splitRegistry_def Let_def)
qed (simp add: splitRegistry_def)

lemma last_split_append: "c \<notin> set t \<Longrightarrow> last (split_on c (s @ t)) = last (split_on c s) @ t"
proof (induction s)
  case Nil
  then show ?case by (simp add: split_on_no_sep)
next
  case (Cons d s)
  obtain p ps where ps: "split_on c s = p # ps" by (meson list.exhaust split_on_not_nil)
  obtain q qs where qs: "split_on c (s @ t) = q # qs" by (meson list.exhaust split_on_not_nil)
  show ?case
  proof (cases "d = c")
    case True
    with Cons show ?thesis by simp
  next
    case False
    have len: "length (split_on c (s @ t)) = length (split_on c s)" for s
      using Cons.prems by (induction s) (auto simp: split_on_no_sep split: list.splits)
    show ?thesis
    proof (cases ps)
      case Nil
      then have "qs = []" using len [of s] ps qs by simp
      with False Cons ps qs Nil show ?thesis by simp
    next
      case (Cons p' ps')
      then have "qs \<noteq> []" using len [of s] ps qs by auto
      with False Cons.IH Cons.prems ps qs \<open>ps = p' # ps'\<close> show ?thesis by simp
    qed
  qed
qed

lemma hasTag_tagged: "hasTag (s @ '':latest'')"
proof -
  have s: "CHR ''/'' \<notin> set '':latest''" by simp
  show ?thesis unfolding hasTag_def last_segment_def last_split_append [OF s] by simp
qed

lemma hd_split_on: "hd (split_on c s) = takeWhile (\<lambda>x. x \<noteq> c) s"
proof (induction s)
  case (Cons d s)
  then show ?case by (cases "split_on c s") auto
qed simp

lemma last_index_in_segment:
  "CHR '':'' \<notin> set (last_segment s) \<Longrightarrow> last_index (CHR '':'') s \<le> last_index (CHR ''/'') s"
proof (induction s)
  case (Cons d s)
  obtain p ps where ps: "split_on (CHR ''/'') s = p # ps" by (meson list.exhaust split_on_not_nil)
  have seg: "last_segment (d # s) = (if d \<noteq> CHR ''/'' \<and> ps = [] then d # p else last_segment s)"
    by (simp add: last_segment_def ps)
  show ?case
  proof (cases "CHR ''/'' \<in> set s")
    case True
    have "ps \<noteq> []"
    proof
      assume "ps = []"
      then have "s = p" using join_split_on [of "CHR ''/''" s] ps by simp
      then show False using True split_on_pieces [of p "CHR ''/''" s] ps by simp
    qed
    then have "CHR '':'' \<notin> set (last_segment s)" using Cons.prems seg by simp
    then have "last_index (CHR '':'') s \<le> last_index (CHR ''/'') s" by (rule Cons.IH)
    moreover obtain i where "last_index_of (CHR ''/'') s = Some i" using True by (metis last_index_of_None not_Some_eq)
    ultimately show ?thesis by (auto simp: last_index_def split: option.splits)
  next
    case False
    then have "last_segment s = s" by (simp add: last_segment_def split_on_no_sep)
    moreover have "ps = [] \<and> p = s" using False ps by (simp add: split_on_no_sep)
    ultimately have "CHR '':'' \<notin> set s" using Cons.prems seg by (simp split: if_splits)
    then have "last_index_of (CHR '':'') s = None" by (simp add: last_index_of_None)
    moreover have "d = CHR '':'' \<Longrightarrow> False" using Cons.prems seg \<open>ps = [] \<and> p = s\<close> by simp
    ultimately show ?thesis by (auto simp: last_index_def split: option.splits)
  qed
qed (simp add: last_index_def)

lemma trim_append_id: "trim s = s \<Longrightarrow> s \<noteq> [] \<Longrightarrow> trim (s @ '':latest'') = s @ '':latest''"
proof -
  assume "trim s = s" "s \<noteq> []"
  then have "\<not> ws (hd (s @ '':latest''))" using trim_ends [of s] by simp
  moreover have "\<not> ws (last (s @ '':latest''))" by (simp add: js_simps)
  ultimately show ?thesis by (rule trim_no_ws)
qed

lemma trim_trim: "trim (trim s) = trim s"
proof (cases "trim s = []")
  case False
  then show ?thesis using trim_ends [OF False] by (intro trim_no_ws) simp_all
qed simp

text \<open>Completing an image reference with its default tag is idempotent, always gives a tagged
  reference (or none for a blank one), and does not change the repository it names.\<close>

theorem withTag_stable:
  "withTag (withTag img) = withTag img \<and> (withTag img = [] \<or> hasTag (withTag img)) \<and>
   repoOf (withTag img) = repoOf (trim img)"
proof (cases "trim img = [] \<or> hasTag (trim img)")
  case True
  then show ?thesis by (auto simp: withTag_def Let_def trim_trim)
next
  case False
  let ?s = "trim img" and ?t = "trim img @ '':latest''"
  have w: "withTag img = ?t" using False by (simp add: withTag_def Let_def)
  have t: "trim ?t = ?t" using False by (intro trim_append_id trim_trim) simp
  have "CHR ''@'' \<notin> set ?s" and seg: "CHR '':'' \<notin> set (last_segment ?s)" using False by (auto simp: hasTag_def)
  then have "CHR ''@'' \<notin> set ?t" by simp
  then have hd: "hd (split_on (CHR ''@'') ?t) = ?t" "hd (split_on (CHR ''@'') ?s) = ?s"
    using split_on_no_sep [of _ ?t] split_on_no_sep [of _ ?s] \<open>CHR ''@'' \<notin> set ?s\<close> by (metis list.sel(1))+
  have a: "last_index_of (CHR '':'') ?t = Some (length ?s)"
    using last_index_of_append [of "CHR '':''" "''latest''" ?s] by simp
  have sl: "last_index_of (CHR ''/'') ?t = last_index_of (CHR ''/'') ?s"
    by (rule last_index_of_skip) simp
  have "last_index (CHR ''/'') ?t < last_index (CHR '':'') ?t"
    using a sl last_index_of_Some [of "CHR ''/''" ?s] by (auto simp: last_index_def split: option.splits)
  then have "repoOf ?t = ?s" using a by (simp add: repoOf_def hd Let_def last_index_def)
  moreover have "repoOf ?s = ?s"
    using last_index_in_segment [OF seg] by (simp add: repoOf_def hd Let_def)
  ultimately show ?thesis using hasTag_tagged [of ?s] t by (simp add: w) (simp add: withTag_def Let_def)
qed

section \<open>The picker\<close>

record registry_chip =
  rg_id :: string
  rg_label :: string
  rg_prefix :: string

definition REGISTRIES :: "registry_chip list" where
  "REGISTRIES =
    [\<lparr>rg_id = ''hub'', rg_label = ''Docker Hub'', rg_prefix = ''''\<rparr>,
     \<lparr>rg_id = ''ghcr'', rg_label = ''GHCR'', rg_prefix = ''ghcr.io''\<rparr>,
     \<lparr>rg_id = ''quay'', rg_label = ''Quay'', rg_prefix = ''quay.io''\<rparr>,
     \<lparr>rg_id = ''custom'', rg_label = ''Custom'' @ ellipsis, rg_prefix = ''registry.example.com''\<rparr>]"

definition registries :: "string \<Rightarrow> registry_chip list" where
  "registries regAddr =
    (if regAddr \<noteq> [] then \<lparr>rg_id = ''dockhand'', rg_label = ''Dockhand'', rg_prefix = regAddr\<rparr> # REGISTRIES
     else REGISTRIES)"

definition active_registry :: "string \<Rightarrow> string \<Rightarrow> string" where
  "active_registry regAddr value =
    (let reg = fst (splitRegistry (trim value)) in
     if reg = [] then ''hub''
     else if regAddr \<noteq> [] \<and> reg = regAddr then ''dockhand''
     else if reg = ''ghcr.io'' then ''ghcr''
     else if reg = ''quay.io'' then ''quay'' else ''custom'')"

text \<open>The new text of the input when a chip is picked.\<close>

definition pickRegistry :: "string \<Rightarrow> string \<Rightarrow> string \<Rightarrow> string option" where
  "pickRegistry regAddr value i =
    map_option (\<lambda>r. let rest = snd (splitRegistry (trim value)) in
        if rg_prefix r \<noteq> [] then rg_prefix r @ ''/'' @ rest else rest)
      (find (\<lambda>r. rg_id r = i) (registries regAddr))"

definition searchable :: "string \<Rightarrow> bool" where
  "searchable value \<longleftrightarrow>
    (let term = trim value in
     2 \<le> length term \<and> CHR '':'' \<notin> set term \<and> CHR ''@'' \<notin> set term \<and> fst (splitRegistry term) = [])"

text \<open>\<open>compact\<close>: \<open>toFixed(1)\<close> without a final ".0".\<close>

definition strip_point_zero :: "string \<Rightarrow> string" where
  "strip_point_zero s = (if ends_with s ''.0'' then take (length s - 2) s else s)"

definition compact :: "nat \<Rightarrow> string" where
  "compact n =
    (if 10 ^ 9 \<le> n then strip_point_zero (to_fixed 1 (real n / 10 ^ 9)) @ ''B''
     else if 10 ^ 6 \<le> n then strip_point_zero (to_fixed 1 (real n / 10 ^ 6)) @ ''M''
     else if 10 ^ 3 \<le> n then strip_point_zero (to_fixed 1 (real n / 10 ^ 3)) @ ''k''
     else show_nat n)"

text \<open>The arrow keys in the open menu, over \<open>n\<close> hits; -1 is no hit.\<close>

definition arrow_down :: "nat \<Rightarrow> int \<Rightarrow> int" where
  "arrow_down n h = (h + 1) mod int n"

definition arrow_up :: "nat \<Rightarrow> int \<Rightarrow> int" where
  "arrow_up n h = (if h \<le> 0 then int n - 1 else h - 1)"

record preset =
  ps_name :: string
  ps_image :: string
  ps_color :: string

definition PRESETS :: "preset list" where
  "PRESETS =
    [\<lparr>ps_name = ''nginx'', ps_image = ''nginx:1.27-alpine'', ps_color = ''#22a06b''\<rparr>,
     \<lparr>ps_name = ''PostgreSQL'', ps_image = ''postgres:16-alpine'', ps_color = ''#2f6fed''\<rparr>,
     \<lparr>ps_name = ''Redis'', ps_image = ''redis:7-alpine'', ps_color = ''#e2504c''\<rparr>,
     \<lparr>ps_name = ''Traefik'', ps_image = ''traefik:v3.1'', ps_color = ''#14b8c4''\<rparr>,
     \<lparr>ps_name = ''Grafana'', ps_image = ''grafana/grafana:latest'', ps_color = ''#e0a020''\<rparr>,
     \<lparr>ps_name = ''Prometheus'', ps_image = ''prom/prometheus:latest'', ps_color = ''#d9468f''\<rparr>,
     \<lparr>ps_name = ''Uptime Kuma'', ps_image = ''louislam/uptime-kuma:1'', ps_color = ''#7a5cf0''\<rparr>,
     \<lparr>ps_name = ''Vaultwarden'', ps_image = ''vaultwarden/server:latest'', ps_color = ''#5f6675''\<rparr>]"

text \<open>The images in use: repository, the first reference seen of it, and how many containers, in the
  order first seen.\<close>

fun count_image :: "string \<Rightarrow> string \<Rightarrow> (string \<times> string \<times> nat) list \<Rightarrow> (string \<times> string \<times> nat) list" where
  "count_image repo img [] = [(repo, img, 1)]"
| "count_image repo img ((r, i, n) # cs) =
     (if r = repo then (r, i, Suc n) # cs else (r, i, n) # count_image repo img cs)"

definition image_counts :: "container list \<Rightarrow> (string \<times> string \<times> nat) list" where
  "image_counts cs = fold (\<lambda>c m.
     if repoOf (c_image c) = [] \<or> starts_with (c_image c) ''sha256:'' then m
     else count_image (repoOf (c_image c)) (c_image c) m) cs []"

definition count_of :: "(string \<times> string \<times> nat) list \<Rightarrow> string \<Rightarrow> nat" where
  "count_of m repo = (case map_of m repo of Some (_, n) \<Rightarrow> n | None \<Rightarrow> 0)"

definition by_use :: "(string \<times> string \<times> nat) \<Rightarrow> (string \<times> string \<times> nat) \<Rightarrow> real" where
  "by_use a b = real (snd (snd b)) - real (snd (snd a))"

definition preset_by_use :: "(string \<times> string \<times> nat) list \<Rightarrow> preset \<Rightarrow> preset \<Rightarrow> real" where
  "preset_by_use m a b = real (count_of m (repoOf (ps_image b))) - real (count_of m (repoOf (ps_image a)))"

interpretation uses: comparator by_use
  by unfold_locales (auto simp: by_use_def)

interpretation preset_uses: comparator "preset_by_use m" for m
  by unfold_locales (auto simp: preset_by_use_def)

definition used_presets :: "(string \<times> string \<times> nat) list \<Rightarrow> preset list" where
  "used_presets m =
    map (\<lambda>(repo, img, n). \<lparr>ps_name = last_segment repo, ps_image = img, ps_color = hashColor repo AVATAR_COLORS\<rparr>)
      (take 4 (js_sort by_use (filter (\<lambda>(repo, _). repo \<notin> (\<lambda>p. repoOf (ps_image p)) ` set PRESETS) m)))"

definition presets :: "container list \<Rightarrow> preset list" where
  "presets cs = (let m = image_counts cs in used_presets m @ js_sort (preset_by_use m) PRESETS)"

lemma count_image_repos:
  "map fst (count_image repo img m) = (if repo \<in> fst ` set m then map fst m else map fst m @ [repo])"
proof (induction m)
  case (Cons e m)
  obtain r i n where "e = (r, i, n)" by (cases e)
  with Cons show ?case by (cases "r = repo") simp_all
qed simp

lemma count_image_image:
  "\<forall>(r, i, n) \<in> set m. repoOf i = r \<Longrightarrow> repoOf img = repo \<Longrightarrow> \<forall>(r, i, n) \<in> set (count_image repo img m). repoOf i = r"
proof (induction m)
  case (Cons e m)
  obtain r i n where "e = (r, i, n)" by (cases e)
  with Cons show ?case by (cases "r = repo") simp_all
qed simp

lemma image_counts_ok:
  "distinct (map fst (image_counts cs)) \<and> (\<forall>(r, i, n) \<in> set (image_counts cs). repoOf i = r)"
proof -
  have "distinct (map fst m) \<Longrightarrow> \<forall>(r, i, n) \<in> set m. repoOf i = r \<Longrightarrow>
      distinct (map fst (fold (\<lambda>c m. if repoOf (c_image c) = [] \<or> starts_with (c_image c) ''sha256:'' then m
        else count_image (repoOf (c_image c)) (c_image c) m) cs m)) \<and>
      (\<forall>(r, i, n) \<in> set (fold (\<lambda>c m. if repoOf (c_image c) = [] \<or> starts_with (c_image c) ''sha256:'' then m
        else count_image (repoOf (c_image c)) (c_image c) m) cs m). repoOf i = r)" for m
  proof (induction cs arbitrary: m)
    case (Cons c cs)
    let ?m = "if repoOf (c_image c) = [] \<or> starts_with (c_image c) ''sha256:'' then m
        else count_image (repoOf (c_image c)) (c_image c) m"
    have "distinct (map fst ?m)" using Cons.prems(1) by (auto simp: count_image_repos)
    moreover have "\<forall>(r, i, n) \<in> set ?m. repoOf i = r"
      using Cons.prems(2) count_image_image [OF Cons.prems(2) refl, of "c_image c"]
      by (cases "repoOf (c_image c) = [] \<or> starts_with (c_image c) ''sha256:''") (simp_all only: if_True if_False)
    ultimately show ?case using Cons.IH [of ?m] by simp
  qed simp
  from this [of "[]"] show ?thesis by (simp add: image_counts_def)
qed

lemma preset_repos: "map (\<lambda>p. repoOf (ps_image p)) PRESETS =
   [''nginx'', ''postgres'', ''redis'', ''traefik'', ''grafana/grafana'', ''prom/prometheus'', ''louislam/uptime-kuma'', ''vaultwarden/server'']"
  by code_simp

text \<open>The popular images offer every built-in preset and at most four images of one's own, no
  repository twice, the built-in ones in the order of how many containers use them.\<close>

theorem presets_offered:
  "distinct (map (\<lambda>p. repoOf (ps_image p)) (presets cs)) \<and>
   (\<exists>own. presets cs = own @ js_sort (preset_by_use (image_counts cs)) PRESETS \<and> length own \<le> 4) \<and>
   sorted_wrt (\<lambda>a b. count_of (image_counts cs) (repoOf (ps_image b)) \<le> count_of (image_counts cs) (repoOf (ps_image a)))
     (js_sort (preset_by_use (image_counts cs)) PRESETS)"
proof (intro conjI)
  let ?m = "image_counts cs" and ?r = "\<lambda>p. repoOf (ps_image p)"
  let ?f = "filter (\<lambda>(repo, _). repo \<notin> ?r ` set PRESETS) ?m"
  let ?u = "take 4 (js_sort by_use ?f)"
  have sub: "set ?u \<subseteq> set ?f" by (metis set_js_sort set_take_subset)
  have ui: "repoOf i = r \<and> r \<notin> ?r ` set PRESETS" if "(r, i, n) \<in> set ?u" for r i n
  proof -
    have "(r, i, n) \<in> set ?f" using that sub by (rule rev_subsetD)
    then have "(r, i, n) \<in> set ?m" "r \<notin> ?r ` set PRESETS" by auto
    then show ?thesis using image_counts_ok [of cs] by blast
  qed
  have "map ?r (used_presets ?m) = map fst ?u"
    unfolding used_presets_def map_map
  proof (rule map_cong [OF refl])
    fix e
    assume "e \<in> set ?u"
    then show "((\<lambda>p. repoOf (ps_image p)) \<circ> (\<lambda>(repo, img, n). \<lparr>ps_name = last_segment repo, ps_image = img, ps_color = hashColor repo AVATAR_COLORS\<rparr>)) e = fst e"
      using ui [of "fst e" "fst (snd e)" "snd (snd e)"] by (simp add: prod.case_eq_if)
  qed
  moreover have "distinct (map fst ?f)" using image_counts_ok [of cs] by (simp add: distinct_map_filter)
  then have "distinct (map fst (js_sort by_use ?f))"
    by (metis distinct_map distinct_js_sort set_js_sort)
  then have "distinct (map fst ?u)" by (metis distinct_take take_map)
  moreover have "fst ` set ?u \<inter> ?r ` set PRESETS = {}"
  proof -
    have "fst e \<notin> ?r ` set PRESETS" if "e \<in> set ?u" for e
      using ui [of "fst e" "fst (snd e)" "snd (snd e)"] that by (simp only: prod.collapse simp_thms)
    then show ?thesis by blast
  qed
  moreover have "distinct (map ?r PRESETS)" unfolding preset_repos by simp
  then have "distinct (map ?r (js_sort (preset_by_use ?m) PRESETS))"
    by (metis distinct_map distinct_js_sort set_js_sort)
  ultimately show "distinct (map ?r (presets cs))"
    by (simp add: presets_def Let_def)
  show "\<exists>own. presets cs = own @ js_sort (preset_by_use ?m) PRESETS \<and> length own \<le> 4"
    by (intro exI [of _ "used_presets ?m"]) (simp add: presets_def Let_def used_presets_def)
  show "sorted_wrt (\<lambda>a b. count_of ?m (?r b) \<le> count_of ?m (?r a)) (js_sort (preset_by_use ?m) PRESETS)"
    using preset_uses.sorted_js_sort [of ?m PRESETS]
    by (rule sorted_wrt_mono_rel [rotated]) (simp add: preset_by_use_def)
qed

section \<open>Quoting for the shell\<close>

definition shell_safe :: "char \<Rightarrow> bool" where
  "shell_safe c \<longleftrightarrow> upper_letter c \<or> lower_letter c \<or> digit c \<or> c \<in> set ''_@%+=:,./-''"

definition quote_char :: "char \<Rightarrow> string" where
  "quote_char c = (if c = CHR 0x27 then [CHR 0x27, CHR 0x5C, CHR 0x27, CHR 0x27] else [c])"

definition shellQuote :: "string \<Rightarrow> string" where
  "shellQuote s =
    (if list_all shell_safe s \<and> s \<noteq> [] then s
     else CHR 0x27 # concat (map quote_char s) @ [CHR 0x27])"

text \<open>How a POSIX shell reads one word: unquoted safe characters, single quotes, and a backslash
  before any character. \<open>None\<close> when the word is not finished or has a character the shell treats
  specially.\<close>

datatype sh_mode = Sh_plain | Sh_quoted | Sh_escaped

fun sh_word :: "sh_mode \<Rightarrow> string \<Rightarrow> string option" where
  "sh_word m [] = (if m = Sh_plain then Some [] else None)"
| "sh_word Sh_quoted (c # s) = (if c = CHR 0x27 then sh_word Sh_plain s else map_option ((#) c) (sh_word Sh_quoted s))"
| "sh_word Sh_escaped (c # s) = map_option ((#) c) (sh_word Sh_plain s)"
| "sh_word Sh_plain (c # s) =
     (if c = CHR 0x27 then sh_word Sh_quoted s
      else if c = CHR 0x5C then sh_word Sh_escaped s
      else if shell_safe c then map_option ((#) c) (sh_word Sh_plain s) else None)"

lemma sh_quoted: "sh_word Sh_quoted (concat (map quote_char s) @ [CHR 0x27]) = Some s"
  by (induction s) (auto simp: quote_char_def)

lemma shell_safe_special: "\<not> shell_safe (CHR 0x27)" "\<not> shell_safe (CHR 0x5C)"
  by code_simp+


section \<open>The form\<close>

type_synonym restart = run_container_input_restart

fun restart_text :: "restart \<Rightarrow> string" where
  "restart_text RunContainerInputRestart_no = ''no''"
| "restart_text RunContainerInputRestart_always = ''always''"
| "restart_text RunContainerInputRestart_unless_stopped = ''unless-stopped''"
| "restart_text RunContainerInputRestart_on_failure = ''on-failure''"

record image_form =
  if_image :: string
  if_name :: string
  if_restart :: restart
  if_hostId :: string
  if_ports :: "pair list"
  if_vols :: "pair list"
  if_env :: "pair list"
  if_network :: string
  if_traefik :: bool
  if_seeded :: bool

definition form_start :: "string \<Rightarrow> string \<Rightarrow> image_form" where
  "form_start img initialHost =
    \<lparr>if_image = img, if_name = defaultName img, if_restart = RunContainerInputRestart_unless_stopped,
     if_hostId = initialHost, if_ports = [], if_vols = [], if_env = [], if_network = ''bridge'',
     if_traefik = False, if_seeded = False\<rparr>"

record image_inspect =
  ii_exposedPorts :: "string list"
  ii_volumes :: "string list"
  ii_env :: "kv list"

definition usable_hosts :: "host list \<Rightarrow> host list" where
  "usable_hosts hs = filter (\<lambda>h. h_status h = HS_online \<or> h_status h = HS_degraded) hs"

text \<open>The effect that keeps the chosen host among the usable ones.\<close>

definition choose_host :: "host list \<Rightarrow> string \<Rightarrow> string" where
  "choose_host hosts hostId =
    (if hosts = [] then hostId else if list_ex (\<lambda>h. h_id h = hostId) hosts then hostId else h_id (hd hosts))"

definition seed_port :: "string \<Rightarrow> pair" where
  "seed_port p = (let n = hd (split_on (CHR ''/'') p) in \<lparr>p_a = n, p_b = (if ends_with p ''/udp'' then p else n)\<rparr>)"

definition seed_volume :: "string \<Rightarrow> string \<Rightarrow> pair" where
  "seed_volume img v =
    (let parts = filter (\<lambda>x. x \<noteq> []) (split_on (CHR ''/'') v) in
     \<lparr>p_a = defaultName img @ ''_'' @ (if parts = [] then ''data'' else last parts), p_b = v\<rparr>)"

text \<open>The effect that seeds the rows from the inspected image, once.\<close>

definition seed_form :: "image_inspect \<Rightarrow> image_form \<Rightarrow> image_form" where
  "seed_form d f =
    (if if_seeded f then f
     else f\<lparr>if_seeded := True,
       if_ports := map seed_port (ii_exposedPorts d),
       if_vols := map (seed_volume (if_image f)) (ii_volumes d),
       if_env := map (\<lambda>e. \<lparr>p_a = kv_k e, p_b = kv_v e\<rparr>) (filter (\<lambda>e. kv_k e \<noteq> ''PATH'') (ii_env d))\<rparr>)"

definition netOptions :: "network list \<Rightarrow> string list" where
  "netOptions nets = uniq ([''bridge'', ''host''] @ map net_name (filter (\<lambda>n. \<not> net_system n \<and> net_driver n \<noteq> ''null'') nets))"

definition choose_network :: "network list option \<Rightarrow> string \<Rightarrow> string" where
  "choose_network nets network = (case nets of None \<Rightarrow> network
     | Some ns \<Rightarrow> if network \<in> set (netOptions ns) then network else ''bridge'')"

definition clean_ports :: "image_form \<Rightarrow> pair list" where
  "clean_ports f = filter (\<lambda>p. trim (p_b p) \<noteq> []) (if_ports f)"

definition clean_vols :: "image_form \<Rightarrow> pair list" where
  "clean_vols f = filter (\<lambda>v. trim (p_a v) \<noteq> [] \<and> trim (p_b v) \<noteq> []) (if_vols f)"

definition clean_env :: "image_form \<Rightarrow> pair list" where
  "clean_env f = filter (\<lambda>e. trim (p_a e) \<noteq> []) (if_env f)"

definition cname :: "image_form \<Rightarrow> string" where
  "cname f = (if trim (if_name f) = [] then defaultName (if_image f) else trim (if_name f))"

definition port_arg :: "pair \<Rightarrow> string" where
  "port_arg p = (if trim (p_a p) = [] then [] else trim (p_a p) @ '':'') @ trim (p_b p)"

definition domain_or :: "string \<Rightarrow> string" where
  "domain_or d = (if d = [] then ''<domain>'' else d)"

definition cmd_parts :: "string \<Rightarrow> image_form \<Rightarrow> string list" where
  "cmd_parts domain f =
    [''docker run -d'', ''--name '' @ shellQuote (cname f)] @
    (if if_restart f = RunContainerInputRestart_no then [] else [''--restart '' @ restart_text (if_restart f)]) @
    (if if_network f = ''host'' then [] else map (\<lambda>p. ''-p '' @ port_arg p) (clean_ports f)) @
    map (\<lambda>v. ''-v '' @ shellQuote (trim (p_a v) @ '':'' @ trim (p_b v))) (clean_vols f) @
    map (\<lambda>e. ''-e '' @ shellQuote (trim (p_a e) @ ''='' @ p_b e)) (clean_env f) @
    (if if_network f = ''bridge'' then [] else [''--network '' @ shellQuote (if_network f)]) @
    (if if_traefik f then [''-l traefik.enable=true'',
       ''-l '' @ shellQuote (''traefik.http.routers.'' @ cname f @ ''.rule=Host(`'' @ cname f @ ''.'' @ domain_or domain @ ''`)'')] else []) @
    [shellQuote (if_image f)]"

definition cmd :: "string \<Rightarrow> image_form \<Rightarrow> string" where
  "cmd domain f = join ('' '' @ [CHR 0x5C, LF] @ ''  '') (cmd_parts domain f)"

definition setEnvVars :: "kv list \<Rightarrow> image_form \<Rightarrow> image_form" where
  "setEnvVars vars f = f\<lparr>if_env :=
     mergeKV p_a pair_set (filter (\<lambda>e. trim (p_a e) \<noteq> [] \<or> trim (p_b e) \<noteq> []) (if_env f)) vars\<rparr>"

definition port_list :: "image_form \<Rightarrow> pair list" where
  "port_list f = (if if_network f = ''host'' then [] else map (\<lambda>p. \<lparr>p_a = trim (p_a p), p_b = trim (p_b p)\<rparr>) (clean_ports f))"

definition env_list :: "image_form \<Rightarrow> kv list" where
  "env_list f = map (\<lambda>e. \<lparr>kv_k = trim (p_a e), kv_v = p_b e\<rparr>) (clean_env f)"

definition run_body :: "host option \<Rightarrow> image_form \<Rightarrow> run_container_input" where
  "run_body h f =
    \<lparr>rci_hostId = (case h of Some x \<Rightarrow> h_id x | None \<Rightarrow> []), rci_image = if_image f, rci_name = cname f,
     rci_restart = if_restart f,
     rci_ports = map (\<lambda>p. \<lparr>run_container_input_ports_host = p_a p, run_container_input_ports_container = p_b p\<rparr>) (port_list f),
     rci_volumes = map (\<lambda>v. \<lparr>run_container_input_volumes_src = trim (p_a v), run_container_input_volumes_dst = trim (p_b v)\<rparr>) (clean_vols f),
     rci_env = env_list f, rci_network = if_network f, rci_traefik = if_traefik f\<rparr>"

definition check_input :: "host option \<Rightarrow> image_form \<Rightarrow> deploy_check_input option" where
  "check_input h f = map_option (\<lambda>x.
    \<lparr>dci_kind = DeployCheckInputKind_image, dci_hostId = h_id x, dci_name = cname f, dci_path = None,
     dci_image = Some (if_image f),
     dci_ports = Some (map (\<lambda>p. \<lparr>deploy_check_input_ports_host = p_a p, deploy_check_input_ports_container = p_b p\<rparr>) (port_list f)),
     dci_env = Some (env_list f), dci_requiredEnv = None, dci_composeFile = None\<rparr>) h"

definition some_text :: "string option \<Rightarrow> bool" where
  "some_text s \<longleftrightarrow> (case s of Some t \<Rightarrow> t \<noteq> [] | None \<Rightarrow> False)"

definition some_items :: "'a list option \<Rightarrow> bool" where
  "some_items l \<longleftrightarrow> (case l of Some xs \<Rightarrow> xs \<noteq> [] | None \<Rightarrow> False)"

definition can_fix :: "deploy_issue \<Rightarrow> bool" where
  "can_fix i = (case di_fix i of None \<Rightarrow> False
     | Some x \<Rightarrow> (let p = deploy_issue_fix_patch x in
         some_text (deploy_issue_fix_patch_name p) \<or> some_items (deploy_issue_fix_patch_ports p) \<or>
         some_items (deploy_issue_fix_patch_env p)))"

definition fix_port :: "deploy_issue_fix_patch_ports list \<Rightarrow> pair \<Rightarrow> pair" where
  "fix_port ps r = (case find (\<lambda>x. deploy_issue_fix_patch_ports_from x = trim (p_a r)) ps of
     Some m \<Rightarrow> r\<lparr>p_a := deploy_issue_fix_patch_ports_to m\<rparr> | None \<Rightarrow> r)"

definition apply_fix :: "deploy_issue \<Rightarrow> image_form \<Rightarrow> image_form" where
  "apply_fix i f = (case di_fix i of None \<Rightarrow> f
     | Some x \<Rightarrow>
         (let p = deploy_issue_fix_patch x;
              f1 = (case deploy_issue_fix_patch_name p of Some n \<Rightarrow> if n \<noteq> [] then f\<lparr>if_name := n\<rparr> else f | None \<Rightarrow> f);
              f2 = (case deploy_issue_fix_patch_ports p of
                      Some ps \<Rightarrow> if ps \<noteq> [] then f1\<lparr>if_ports := map (fix_port ps) (if_ports f1)\<rparr> else f1 | None \<Rightarrow> f1)
          in (case deploy_issue_fix_patch_env p of Some e \<Rightarrow> if e \<noteq> [] then setEnvVars e f2 else f2 | None \<Rightarrow> f2)))"

text \<open>\<open>/^[a-zA-Z0-9][a-zA-Z0-9_.-]*$/\<close>.\<close>

definition container_name :: "string \<Rightarrow> bool" where
  "container_name s \<longleftrightarrow> s \<noteq> [] \<and> (upper_letter (hd s) \<or> lower_letter (hd s) \<or> digit (hd s)) \<and>
     list_all (\<lambda>c. upper_letter c \<or> name_char c) s"

datatype run_start = Run_refused string | Run_sent run_container_input

definition run_image :: "host option \<Rightarrow> image_form \<Rightarrow> run_start" where
  "run_image h f = (case h of
     None \<Rightarrow> Run_refused ''Pick a host to run on''
   | Some x \<Rightarrow> if container_name (cname f) then Run_sent (run_body h f) else Run_refused ''Invalid container name'')"

definition ports_summary :: "image_form \<Rightarrow> string" where
  "ports_summary f =
    (if if_network f = ''host'' then ''host network''
     else if clean_ports f = [] then ''none''
     else join '', '' (map (\<lambda>p. if trim (p_a p) \<noteq> [] then trim (p_a p) @ arrow @ trim (p_b p) else trim (p_b p) @ '' (internal)'') (clean_ports f)))"

section \<open>What the form sends\<close>

text \<open>The variables of a fix or of a pasted \<open>.env\<close> override the form's: afterwards every one of
  them has its (last) value there, and every other variable keeps the value it had.\<close>

theorem setEnvVars_values:
  assumes "k \<noteq> []" "trim k = k"
  shows "row_value p_a p_b (if_env (setEnvVars vars f)) k =
    (case map_of (rev (map (\<lambda>e. (kv_k e, kv_v e)) vars)) k of
       Some v \<Rightarrow> Some v | None \<Rightarrow> row_value p_a p_b (if_env f) k)"
proof -
  let ?keep = "\<lambda>e. trim (p_a e) \<noteq> [] \<or> trim (p_b e) \<noteq> []"
  have "row_value p_a p_b (filter ?keep es) k = row_value p_a p_b es k" for es
    using assms by (induction es) (auto simp: row_value_def)
  from this [of "if_env f"] show ?thesis
    by (simp add: setEnvVars_def pairs.merge_value map_add_def split: option.splits)
qed

lemma setEnvVars_values_witness:
  "row_value p_a p_b (if_env (setEnvVars [\<lparr>kv_k = ''A'', kv_v = ''1''\<rparr>, \<lparr>kv_k = ''B'', kv_v = ''2''\<rparr>]
      ((form_start ''nginx'' ''h1'')\<lparr>if_env := [\<lparr>p_a = ''B'', p_b = ''0''\<rparr>]\<rparr>))) ''B'' = Some ''2''"
proof -
  have "trim ''B'' = ''B''" by code_simp
  then show ?thesis
    using setEnvVars_values [of "''B''" "[\<lparr>kv_k = ''A'', kv_v = ''1''\<rparr>, \<lparr>kv_k = ''B'', kv_v = ''2''\<rparr>]"
        "(form_start ''nginx'' ''h1'')\<lparr>if_env := [\<lparr>p_a = ''B'', p_b = ''0''\<rparr>]\<rparr>"] by simp
qed

text \<open>What is checked before a deploy is what is deployed: the pre-flight input and the request
  have the same host, name, image, ports and environment; a request is sent only to a chosen
  host and with a valid container name; and on the host network it maps no ports.\<close>

theorem run_matches_check:
  "(case run_image h f of
     Run_refused m \<Rightarrow> \<not> (h \<noteq> None \<and> container_name (cname f))
   | Run_sent b \<Rightarrow> container_name (rci_name b) \<and>
       (\<exists>x c. h = Some x \<and> check_input h f = Some c \<and> rci_hostId b = dci_hostId c \<and> dci_hostId c = h_id x \<and>
         rci_name b = dci_name c \<and> Some (rci_image b) = dci_image c \<and> Some (rci_env b) = dci_env c \<and>
         dci_ports c = Some (map (\<lambda>p. \<lparr>deploy_check_input_ports_host = run_container_input_ports_host p,
           deploy_check_input_ports_container = run_container_input_ports_container p\<rparr>) (rci_ports b)) \<and>
         \<not> (rci_network b = ''host'' \<and> rci_ports b \<noteq> [])))"
  by (cases h) (auto simp: run_image_def run_body_def check_input_def port_list_def)

text \<open>Once the list of hosts is known the chosen host is a usable one, an already chosen usable
  host stays chosen, and choosing again changes nothing.\<close>

theorem host_choice:
  assumes "usable_hosts hs \<noteq> []"
  shows "choose_host (usable_hosts hs) i \<in> h_id ` {h \<in> set hs. h_status h = HS_online \<or> h_status h = HS_degraded} \<and>
    choose_host (usable_hosts hs) (choose_host (usable_hosts hs) i) = choose_host (usable_hosts hs) i"
proof -
  have "hd (usable_hosts hs) \<in> set (usable_hosts hs)" using assms by simp
  then have "choose_host (usable_hosts hs) i \<in> h_id ` set (usable_hosts hs)"
    using assms by (auto simp: choose_host_def list_ex_iff)
  moreover have "j \<in> h_id ` set (usable_hosts hs) \<Longrightarrow> choose_host (usable_hosts hs) j = j" for j
    by (auto simp: choose_host_def list_ex_iff)
  ultimately show ?thesis by (simp add: usable_hosts_def)
qed

text \<open>A host to apply the claims at.\<close>

definition sample_host :: "string \<Rightarrow> host_status \<Rightarrow> real \<Rightarrow> host" where
  "sample_host i st c = \<lparr>h_id = i, h_name = i, h_address = ''10.0.0.1'', h_port = 22, h_user = ''root'',
    h_method = Method_key, h_color = [], h_status = st, h_os = [], h_kernel = [], h_dockerVersion = [],
    h_cpuCores = 4, h_uptimeSec = 0, h_cpu = c, h_mem = 0, h_disk = 0, h_memUsed = 0, h_memTotal = 0,
    h_diskUsed = 0, h_diskTotal = 0, h_running = 0, h_total = 0, h_updates = 0, h_spark = [],
    h_lastSeenAt = None, h_lastError = [], h_failCount = 0, h_monitored = True, h_mcpExposed = True, h_createdAt = []\<rparr>"

lemma host_choice_witness:
  "choose_host (usable_hosts [sample_host ''a'' HS_offline 0, sample_host ''b'' HS_online 0]) ''a'' = ''b'' \<and>
   choose_host (usable_hosts [sample_host ''a'' HS_offline 0, sample_host ''b'' HS_online 0])
     (choose_host (usable_hosts [sample_host ''a'' HS_offline 0, sample_host ''b'' HS_online 0]) ''a'') = ''b''"
  using host_choice [of "[sample_host ''a'' HS_offline 0, sample_host ''b'' HS_online 0]" "''a''"]
  by (simp add: usable_hosts_def sample_host_def choose_host_def)

end
