(* ===== verification/Image_Page.thy ===== *)
theory Image_Page
  imports Image_Flow Deploy_Views
begin

text \<open>
  The three pages of the image deploy (components/deploy/ImageFlow.tsx): the picker with its
  Docker Hub search, the form with its buttons, and the flow between picker, form and progress.
  Each page has its state, the events its view offers, and one step function.
\<close>

section \<open>The picker\<close>

record hub_hit =
  hh_name :: string
  hh_description :: string
  hh_stars :: nat
  hh_pulls :: nat
  hh_official :: bool
  hh_private :: bool

record picker_data =
  pd_hub :: "hub_hit list option"
  pd_hub_error :: bool
  pd_containers :: "container list"
  pd_regAddr :: string
  pd_repos :: "registry_repo list"

record picker =
  pk_value :: string
  pk_dq :: string
  pk_menu :: bool
  pk_hi :: int

definition picker_start :: "string \<Rightarrow> picker" where
  "picker_start v = \<lparr>pk_value = v, pk_dq = [], pk_menu = False, pk_hi = -1\<rparr>"

definition hits :: "picker_data \<Rightarrow> picker \<Rightarrow> hub_hit list" where
  "hits d p = (if searchable (pk_value p) \<and> pk_dq p = trim (pk_value p)
     then (case pd_hub d of Some h \<Rightarrow> h | None \<Rightarrow> []) else [])"

definition searching :: "picker_data \<Rightarrow> picker \<Rightarrow> bool" where
  "searching d p \<longleftrightarrow> searchable (pk_value p) \<and>
     (pk_dq p \<noteq> trim (pk_value p) \<or> pd_hub d = None \<and> \<not> pd_hub_error d)"

definition show_menu :: "picker_data \<Rightarrow> picker \<Rightarrow> bool" where
  "show_menu d p \<longleftrightarrow> pk_menu p \<and> searchable (pk_value p) \<and> (searching d p \<or> hits d p \<noteq> [] \<or> pd_hub d \<noteq> None)"

datatype picker_event =
  Pick_type string | Pick_focus | Pick_outside | Pick_debounced
| Pick_down | Pick_up | Pick_escape | Pick_hover nat | Pick_submit
| Pick_image string | Pick_chip string

text \<open>The debounced search term; the highlight is reset when it changes.\<close>

definition debounced :: "picker \<Rightarrow> picker" where
  "debounced p = (let dq = (if searchable (pk_value p) then trim (pk_value p) else []) in
     if dq = pk_dq p then p else p\<lparr>pk_dq := dq, pk_hi := -1\<rparr>)"

definition key_move :: "(nat \<Rightarrow> int \<Rightarrow> int) \<Rightarrow> picker_data \<Rightarrow> picker \<Rightarrow> picker" where
  "key_move f d p = (if show_menu d p \<and> hits d p \<noteq> [] then p\<lparr>pk_hi := f (length (hits d p)) (pk_hi p)\<rparr> else p)"

definition submitted :: "picker_data \<Rightarrow> picker \<Rightarrow> string option" where
  "submitted d p =
    (if show_menu d p \<and> 0 \<le> pk_hi p \<and> pk_hi p < int (length (hits d p)) then Some (hh_name (hits d p ! nat (pk_hi p)))
     else if trim (pk_value p) \<noteq> [] then Some (trim (pk_value p)) else None)"

text \<open>The picker after an event, and the image it hands to the flow.\<close>

fun pick_step :: "picker_data \<Rightarrow> picker_event \<Rightarrow> picker \<Rightarrow> picker \<times> string option" where
  "pick_step d (Pick_type s) p = (p\<lparr>pk_value := s, pk_menu := True\<rparr>, None)"
| "pick_step d Pick_focus p = (p\<lparr>pk_menu := True\<rparr>, None)"
| "pick_step d Pick_outside p = (p\<lparr>pk_menu := False\<rparr>, None)"
| "pick_step d Pick_debounced p = (debounced p, None)"
| "pick_step d Pick_down p = (key_move arrow_down d p, None)"
| "pick_step d Pick_up p = (key_move arrow_up d p, None)"
| "pick_step d Pick_escape p = ((if show_menu d p \<and> hits d p \<noteq> [] then p\<lparr>pk_menu := False\<rparr> else p), None)"
| "pick_step d (Pick_hover i) p = (p\<lparr>pk_hi := int i\<rparr>, None)"
| "pick_step d Pick_submit p = (p, submitted d p)"
| "pick_step d (Pick_image img) p = (p, Some img)"
| "pick_step d (Pick_chip i) p = (case pickRegistry (pd_regAddr d) (pk_value p) i of
     Some v \<Rightarrow> (p\<lparr>pk_value := v\<rparr>, None) | None \<Rightarrow> (p, None))"

definition hit_row :: "hub_hit \<Rightarrow> picker_event view" where
  "hit_row h = Group [Button (hh_name h) True (Pick_image (hh_name h)),
     shown_if (hh_official h) (Text ''official''), shown_if (hh_private h) (Text ''your registry''),
     shown_if (hh_description h \<noteq> []) (Text (hh_description h)),
     shown_if (\<not> hh_private h) (Group [Text (compact (hh_stars h)), Text (compact (hh_pulls h) @ '' pulls'')])]"

definition hub_menu :: "picker_data \<Rightarrow> picker \<Rightarrow> picker_event view" where
  "hub_menu d p = Group [
     Text (if list_ex hh_private (hits d p) then ''Your registry & Docker Hub'' else ''Docker Hub''),
     shown_if (\<not> searching d p \<and> hits d p = [])
       (Text (''No images match '' @ trim (pk_value p) @ '' '' @ dash @ '' press Enter to use it as typed.'')),
     Group (map hit_row (hits d p))]"

definition repo_image :: "string \<Rightarrow> registry_repo \<Rightarrow> string" where
  "repo_image addr r = addr @ ''/'' @ rr_name r @ '':'' @ (if rr_latest r = [] then ''latest'' else rr_latest r)"

definition repo_tile :: "string \<Rightarrow> registry_repo \<Rightarrow> picker_event view" where
  "repo_tile addr r = Group [Button (last (split_on (CHR ''/'') (rr_name r))) True (Pick_image (repo_image addr r)),
     Text (rr_name r @ '':'' @ rr_latest r @ '' '' @ middot @ '' '' @ show_int (rr_tags r) @ '' tag'' @ s_unless_1 (rr_tags r))]"

definition preset_tile :: "preset \<Rightarrow> picker_event view" where
  "preset_tile p = Group [Button (ps_name p) True (Pick_image (ps_image p)), Text (ps_image p)]"

definition picker_view :: "picker_data \<Rightarrow> picker \<Rightarrow> picker_event view" where
  "picker_view d p = Group [
     Text ''Image'', Input ''nginx:1.27, ghcr.io/org/app:tag'' (pk_value p) Pick_type,
     shown_if (show_menu d p) (hub_menu d p),
     Text ''Registry'', Group (map (\<lambda>r. chip_button (rg_label r) (Pick_chip (rg_id r))) (registries (pd_regAddr d))),
     shown_if (trim (pk_value p) \<noteq> []) (Button ''Continue'' True (Pick_image (trim (pk_value p)))),
     shown_if (pd_regAddr d \<noteq> [] \<and> pd_repos d \<noteq> [])
       (Group (Text ''In your registry'' # map (repo_tile (pd_regAddr d)) (take 8 (pd_repos d)))),
     Text ''Popular on your hosts'', Group (map preset_tile (presets (pd_containers d)))]"

lemma arrow_inverse: "0 \<le> h \<Longrightarrow> h < int n \<Longrightarrow> arrow_up n (arrow_down n h) = h"
  by (cases "h + 1 = int n") (auto simp: arrow_up_def arrow_down_def)

text \<open>In the open search menu the arrow keys stay on the hits and up undoes down, and Enter starts
  with exactly the highlighted hit; with the menu closed, or nothing highlighted, Enter starts with
  the typed text, and with nothing typed it does nothing.\<close>

theorem picker_keys:
  assumes "pk_hi p < int (length (hits d p))" "-1 \<le> pk_hi p"
  shows "(let q = fst (pick_step d Pick_down p); r = fst (pick_step d Pick_up q) in
     (if show_menu d p \<and> hits d p \<noteq> [] then 0 \<le> pk_hi q \<and> pk_hi q < int (length (hits d p)) \<and>
          snd (pick_step d Pick_submit q) = Some (hh_name (hits d p ! nat (pk_hi q))) \<and> (pk_hi p < 0 \<or> \<not> r \<noteq> p)
      else q = p \<and> r = p \<and> snd (pick_step d Pick_submit p) =
          (if trim (pk_value p) = [] then None else Some (trim (pk_value p)))))"
proof -
  let ?n = "length (hits d p)"
  have keep: "hits d (p\<lparr>pk_hi := x\<rparr>) = hits d p" "show_menu d (p\<lparr>pk_hi := x\<rparr>) = show_menu d p" for x
    by (simp_all add: hits_def show_menu_def searching_def)
  have "hits d p \<noteq> [] \<Longrightarrow> 0 \<le> arrow_down ?n (pk_hi p) \<and> arrow_down ?n (pk_hi p) < int ?n"
    by (simp add: arrow_down_def)
  moreover have "arrow_up ?n (arrow_down ?n (pk_hi p)) = pk_hi p \<or> pk_hi p < 0"
    using arrow_inverse [of "pk_hi p" ?n] assms by linarith
  ultimately show ?thesis
    by (auto simp: key_move_def keep submitted_def Let_def)
qed

definition sample_hits :: picker_data where
  "sample_hits = \<lparr>pd_hub = Some [\<lparr>hh_name = ''redis'', hh_description = [], hh_stars = 12, hh_pulls = 900,
       hh_official = True, hh_private = False\<rparr>],
     pd_hub_error = False, pd_containers = [], pd_regAddr = [], pd_repos = []\<rparr>"

lemma picker_keys_witness:
  "snd (pick_step sample_hits Pick_submit (fst (pick_step sample_hits Pick_down
     \<lparr>pk_value = ''redi'', pk_dq = ''redi'', pk_menu = True, pk_hi = -1\<rparr>))) = Some ''redis''"
proof -
  let ?p = "\<lparr>pk_value = ''redi'', pk_dq = ''redi'', pk_menu = True, pk_hi = -1\<rparr>"
  have h: "hits sample_hits ?p = [\<lparr>hh_name = ''redis'', hh_description = [], hh_stars = 12, hh_pulls = 900,
      hh_official = True, hh_private = False\<rparr>]" by code_simp
  have m: "show_menu sample_hits ?p" by code_simp
  from picker_keys [of ?p sample_hits] h m show ?thesis by (auto simp: Let_def)
qed

section \<open>The form\<close>

record image_page =
  pg_form :: image_form
  pg_import :: import_state
  pg_busy :: bool
  pg_dry :: dry_run_state

record page_data =
  gd_hosts :: "host list option"
  gd_inspect :: "(js_error + nat \<times> image_inspect) option"
  gd_nets :: "network list option"
  gd_domain :: string
  gd_issues :: "deploy_issue list"
  gd_crit :: nat
  gd_warn :: nat

definition page_hosts :: "page_data \<Rightarrow> host list" where
  "page_hosts d = (case gd_hosts d of Some hs \<Rightarrow> usable_hosts hs | None \<Rightarrow> [])"

definition page_host :: "page_data \<Rightarrow> image_form \<Rightarrow> host option" where
  "page_host d f = find (\<lambda>h. h_id h = if_hostId f) (page_hosts d)"

definition page_start :: "string \<Rightarrow> string \<Rightarrow> image_page" where
  "page_start img initialHost = \<lparr>pg_form = form_start img initialHost,
     pg_import = \<lparr>im_open = False, im_text = []\<rparr>, pg_busy = False,
     pg_dry = \<lparr>dy_open = False, dy_loading = False, dy_result = None, dy_error = None\<rparr>\<rparr>"

text \<open>The effects that run after each render.\<close>

definition settle :: "page_data \<Rightarrow> image_form \<Rightarrow> image_form" where
  "settle d f = (let g = (case gd_inspect d of Some (Inr (_, i)) \<Rightarrow> seed_form i f | _ \<Rightarrow> f) in
     g\<lparr>if_hostId := choose_host (page_hosts d) (if_hostId g),
       if_network := choose_network (gd_nets d) (if_network g)\<rparr>)"

datatype page_event =
  Pg_back | Pg_name string | Pg_restart restart | Pg_host string
| Pg_ports pair_event | Pg_vols pair_event | Pg_env pair_event
| Pg_importing | Pg_import import_event
| Pg_network string | Pg_traefik bool | Pg_fix deploy_issue | Pg_run | Pg_dry dry_run_event

datatype page_effect =
  Go_back | Toast_ok string | Toast_warn string | Post_run run_container_input
| Post_dry_run run_container_input | Copied string

definition imported :: "kv list \<Rightarrow> string" where
  "imported vars = ''Imported '' @ show_nat (length vars) @ '' variable'' @ s_unless_1 (int (length vars))"

fun dry_event :: "run_container_input \<Rightarrow> dry_run_event \<Rightarrow> dry_run_state \<Rightarrow> dry_run_state \<times> page_effect list" where
  "dry_event body Dry_run st = (dry_run_start st, [Post_dry_run body])"
| "dry_event body Dry_run_close st = (st\<lparr>dy_open := False\<rparr>, [])"
| "dry_event body (Copy_command s) st = (st, [Copied s])"
| "dry_event body (Copy_output s) st = (st, [Copied s])"

text \<open>The page after an event, and what it does to the outside, in order.\<close>

fun page_step :: "page_data \<Rightarrow> page_event \<Rightarrow> image_page \<Rightarrow> image_page \<times> page_effect list" where
  "page_step d Pg_back p = (p, [Go_back])"
| "page_step d (Pg_name s) p = (p\<lparr>pg_form := (pg_form p)\<lparr>if_name := s\<rparr>\<rparr>, [])"
| "page_step d (Pg_restart r) p = (p\<lparr>pg_form := (pg_form p)\<lparr>if_restart := r\<rparr>\<rparr>, [])"
| "page_step d (Pg_host h) p = (p\<lparr>pg_form := (pg_form p)\<lparr>if_hostId := h\<rparr>\<rparr>, [])"
| "page_step d (Pg_ports e) p = (p\<lparr>pg_form := (pg_form p)\<lparr>if_ports := pair_step e (if_ports (pg_form p))\<rparr>\<rparr>, [])"
| "page_step d (Pg_vols e) p = (p\<lparr>pg_form := (pg_form p)\<lparr>if_vols := pair_step e (if_vols (pg_form p))\<rparr>\<rparr>, [])"
| "page_step d (Pg_env e) p = (p\<lparr>pg_form := (pg_form p)\<lparr>if_env := pair_step e (if_env (pg_form p))\<rparr>\<rparr>, [])"
| "page_step d Pg_importing p = (p\<lparr>pg_import := \<lparr>im_open = \<not> im_open (pg_import p), im_text = []\<rparr>\<rparr>, [])"
| "page_step d (Pg_import e) p =
     (case import_step e (pg_import p) of
        (st, None) \<Rightarrow> (p\<lparr>pg_import := st\<rparr>, [])
      | (st, Some vars) \<Rightarrow> (p\<lparr>pg_import := st, pg_form := setEnvVars vars (pg_form p)\<rparr>, [Toast_ok (imported vars)]))"
| "page_step d (Pg_network n) p = (p\<lparr>pg_form := (pg_form p)\<lparr>if_network := n\<rparr>\<rparr>, [])"
| "page_step d (Pg_traefik b) p = (p\<lparr>pg_form := (pg_form p)\<lparr>if_traefik := b\<rparr>\<rparr>, [])"
| "page_step d (Pg_fix i) p = (p\<lparr>pg_form := apply_fix i (pg_form p)\<rparr>,
     (if di_fix i = None then [] else [Toast_ok (fix_label i)]))"
| "page_step d Pg_run p =
     (case run_image (page_host d (pg_form p)) (pg_form p) of
        Run_refused m \<Rightarrow> (p, [Toast_warn m])
      | Run_sent body \<Rightarrow> (p\<lparr>pg_busy := True\<rparr>, [Post_run body]))"
| "page_step d (Pg_dry e) p =
     (case dry_event (run_body (page_host d (pg_form p)) (pg_form p)) e (pg_dry p) of
        (st, fx) \<Rightarrow> (p\<lparr>pg_dry := st\<rparr>, fx))"

definition after_event :: "page_data \<Rightarrow> page_event \<Rightarrow> image_page \<Rightarrow> image_page" where
  "after_event d e p = (let q = fst (page_step d e p) in q\<lparr>pg_form := settle d (pg_form q)\<rparr>)"

text \<open>The answer to the run request: the started job is handed to the flow, an error is shown.\<close>

record started =
  sj_id :: string
  sj_name :: string
  sj_hostId :: string
  sj_hostName :: string

definition run_answered :: "host \<Rightarrow> string \<Rightarrow> (js_error + string) \<Rightarrow> image_page \<Rightarrow> image_page \<times> (string + started)" where
  "run_answered h name r p = (p\<lparr>pg_busy := False\<rparr>,
     (case r of Inr jobId \<Rightarrow> Inr \<lparr>sj_id = jobId, sj_name = name, sj_hostId = h_id h, sj_hostName = h_name h\<rparr>
      | Inl e \<Rightarrow> Inl (errMsg e)))"

section \<open>What the form shows\<close>

definition size_tag :: "(js_error + nat \<times> image_inspect) option \<Rightarrow> 'e view" where
  "size_tag i = (case i of
     Some (Inr (sz, _)) \<Rightarrow> shown_if (0 < sz) (Text (bytes (Some (real sz)) 1))
   | Some (Inl e) \<Rightarrow> Text ''size unknown''
   | None \<Rightarrow> Text (''inspecting'' @ ellipsis))"



definition fields_card :: "page_data \<Rightarrow> image_page \<Rightarrow> page_event view" where
  "fields_card d p = (let f = pg_form p in Group [
     back_button Pg_back, Text (if_image f), size_tag (gd_inspect d),
     Text ''Container name'', Input (defaultName (if_image f)) (if_name f) Pg_name,
     Text ''Restart policy'',
     seg [(RunContainerInputRestart_unless_stopped, ''Unless stopped''), (RunContainerInputRestart_always, ''Always''),
       (RunContainerInputRestart_no, ''Never'')] Pg_restart,
     Text ''Deploy to'', deploy_targets (gd_hosts d) Pg_host (page_hosts d)])"

definition rows_card :: "page_data \<Rightarrow> image_page \<Rightarrow> page_event view" where
  "rows_card d p = (let f = pg_form p in Group [
     Text ''Ports'', Text (if if_network f = ''host'' then ''ignored on the host network'' else ''host '' @ arrow @ '' container''),
     placed Pg_ports (pair_rows arrow (if_ports f)),
     Text ''Volumes'', Text (''host path or volume '' @ arrow @ '' container path''),
     placed Pg_vols (pair_rows arrow (if_vols f)),
     Text ''Environment'', Button ''Paste .env'' True Pg_importing,
     shown_if (im_open (pg_import p)) (placed Pg_import (env_import_view (pg_import p))),
     placed Pg_env (pair_rows ''='' (if_env f)),
     Text ''Network'',
     Group (map (\<lambda>n. Button n True (Pg_network n)) (netOptions (case gd_nets d of Some ns \<Rightarrow> ns | None \<Rightarrow> []))),
     Text ''Expose via Traefik'', toggle (if_traefik f) Pg_traefik False])"

definition summary_card :: "page_data \<Rightarrow> image_page \<Rightarrow> page_event view" where
  "summary_card d p = (let f = pg_form p in Group [
     Text ''Summary'', summary_row ''Image'' (if_image f), summary_row ''Container'' (cname f),
     summary_row ''Host'' (case page_host d f of Some h \<Rightarrow> h_name h | None \<Rightarrow> dash),
     summary_row ''Restart'' (restart_text (if_restart f)), summary_row ''Ports'' (ports_summary f),
     summary_row ''Volumes'' (if clean_vols f = [] then ''none'' else join '', '' (map (\<lambda>v. trim (p_b v)) (clean_vols f))),
     summary_row ''Network'' (if_network f),
     shown_if (if_traefik f) (summary_row ''URL'' (''https://'' @ cname f @ ''.'' @ domain_or (gd_domain d))),
     Text ''Equivalent command'', Text (cmd (gd_domain d) f)])"

definition actions_card :: "page_data \<Rightarrow> image_page \<Rightarrow> page_event view" where
  "actions_card d p = (let f = pg_form p; h = page_host d f in Group [
     placed Pg_fix (issues_panel (Some can_fix) (gd_issues d) (gd_crit d) (gd_warn d)),
     big_button (deployBtnLabel (gd_crit d) (gd_warn d) (map_option h_name h)) (h = None) (pg_busy p) (0 < gd_crit d) Pg_run,
     placed Pg_dry (dry_run_button (''Dry run '' @ middot @ '' preview config'') ''Dry run''
       (cname f @ '' '' @ middot @ '' '' @ if_image f) (h = None) (pg_dry p))])"

definition configure_view :: "page_data \<Rightarrow> image_page \<Rightarrow> page_event view" where
  "configure_view d p = Group [fields_card d p, rows_card d p, summary_card d p, actions_card d p]"

section \<open>What the form does\<close>

lemma page_host_usable: "page_host d f = Some h \<Longrightarrow> h \<in> set (page_hosts d) \<and> h_id h = if_hostId f"
  unfolding page_host_def by (drule find_SomeD) simp



lemma summary_rows_inert [simp]: "offers (summary_row k v) = []"
  by (simp add: summary_row_def)

lemma run_not_in_cards:
  "Pg_run \<notin> set (offers (fields_card d p))" "Pg_run \<notin> set (offers (rows_card d p))" "Pg_run \<notin> set (offers (summary_card d p))"
  by (auto simp: fields_card_def rows_card_def summary_card_def Let_def back_button_def size_tag_def seg_def toggle_def
      split: option.splits sum.splits if_splits)


lemma choose_host_idem: "choose_host hs (choose_host hs x) = choose_host hs x"
  by (cases hs) (auto simp: choose_host_def)

lemma choose_network_idem: "choose_network ns (choose_network ns x) = choose_network ns x"
  by (auto simp: choose_network_def netOptions_def uniq_def split: option.splits)

text \<open>The effects of the form settle in one render: running them again changes nothing, and the
  rows an image seeds are seeded once, so that what the reader typed afterwards is kept.\<close>

theorem image_form_settles:
  "settle d (settle d f) = settle d f \<and>
   (if if_seeded (settle d f) then if_ports (settle d (settle d f\<lparr>if_ports := ports\<rparr>)) = ports else True)"
proof
  show "settle d (settle d f) = settle d f"
    by (auto simp: settle_def Let_def seed_form_def choose_host_idem choose_network_idem split: option.splits sum.splits)
  show "if if_seeded (settle d f) then if_ports (settle d (settle d f\<lparr>if_ports := ports\<rparr>)) = ports else True"
    by (auto simp: settle_def Let_def seed_form_def split: option.splits sum.splits)
qed

section \<open>The flow\<close>

record image_flow =
  fl_step :: nat
  fl_image :: string
  fl_job :: "started option"

datatype flow_event = Fl_type string | Fl_next string | Fl_back | Fl_started started | Fl_another

datatype flow_shown = Show_picker string | Show_form string | Show_progress started | Show_nothing

definition flow_start :: "string \<Rightarrow> image_flow" where
  "flow_start img = \<lparr>fl_step = (if img \<noteq> [] then 1 else 0), fl_image = img, fl_job = None\<rparr>"

definition flow_page :: "image_flow \<Rightarrow> flow_shown" where
  "flow_page st =
    (if fl_step st = 0 then Show_picker (fl_image st)
     else if fl_step st = 1 then Show_form (withTag (fl_image st))
     else (case (fl_step st = 2, fl_job st) of (True, Some j) \<Rightarrow> Show_progress j | _ \<Rightarrow> Show_nothing))"

text \<open>The callbacks the shown page can raise, and what each does.\<close>

fun flow_enabled :: "flow_event \<Rightarrow> image_flow \<Rightarrow> bool" where
  "flow_enabled (Fl_type s) st \<longleftrightarrow> fl_step st = 0"
| "flow_enabled (Fl_next img) st \<longleftrightarrow> fl_step st = 0"
| "flow_enabled Fl_back st \<longleftrightarrow> fl_step st = 1 \<or> fl_step st = 2 \<and> fl_job st \<noteq> None"
| "flow_enabled (Fl_started j) st \<longleftrightarrow> fl_step st = 1"
| "flow_enabled Fl_another st \<longleftrightarrow> fl_step st = 2 \<and> fl_job st \<noteq> None"

fun flow_step :: "flow_event \<Rightarrow> image_flow \<Rightarrow> image_flow" where
  "flow_step (Fl_type s) st = st\<lparr>fl_image := s\<rparr>"
| "flow_step (Fl_next img) st = st\<lparr>fl_image := img, fl_step := 1\<rparr>"
| "flow_step Fl_back st = (if fl_step st = 2 then st\<lparr>fl_step := 1\<rparr> else st\<lparr>fl_step := 0\<rparr>)"
| "flow_step (Fl_started j) st = st\<lparr>fl_job := Some j, fl_step := 2\<rparr>"
| "flow_step Fl_another st = st\<lparr>fl_job := None, fl_image := [], fl_step := 0\<rparr>"

inductive flow_reaches :: "string \<Rightarrow> image_flow \<Rightarrow> bool" for img where
  flow_init: "flow_reaches img (flow_start img)"
| flow_next: "flow_reaches img st \<Longrightarrow> flow_enabled e st \<Longrightarrow> flow_reaches img (flow_step e st)"

lemma flow_ok: "flow_reaches img st \<Longrightarrow> fl_step st \<le> 2 \<and> (fl_step st = 2 \<longrightarrow> fl_job st \<noteq> None)"
proof (induction rule: flow_reaches.induct)
  case (flow_next st e)
  then show ?case by (cases e) auto
qed (simp add: flow_start_def)

text \<open>The image flow always shows a page: the progress page only appears with the job that was
  started last, and the form always gets an image with a tag or digest, when it gets one.\<close>

theorem image_flow_pages:
  assumes "flow_reaches img st"
  shows "flow_page st \<noteq> Show_nothing \<and>
    (case flow_page st of Show_form i \<Rightarrow> i = [] \<or> hasTag i | Show_progress j \<Rightarrow> fl_job st = Some j | _ \<Rightarrow> True)"
proof -
  have "withTag i = [] \<or> hasTag (withTag i)" for i
    using withTag_stable [of i] by (auto simp: withTag_def Let_def hasTag_tagged)
  moreover note flow_ok [OF assms]
  moreover have "fl_step st = 0 \<or> fl_step st = 1 \<or> fl_step st = 2" using flow_ok [OF assms] by linarith
  ultimately show ?thesis by (auto simp: flow_page_def)
qed

definition sample_started :: started where
  "sample_started = \<lparr>sj_id = ''j1'', sj_name = ''web'', sj_hostId = ''h1'', sj_hostName = ''nuc''\<rparr>"

lemma image_flow_pages_witness:
  "flow_page (fold flow_step [Fl_next ''nginx'', Fl_started sample_started] (flow_start [])) = Show_progress sample_started \<and>
   fl_job (fold flow_step [Fl_next ''nginx'', Fl_started sample_started] (flow_start [])) = Some sample_started"
proof -
  let ?s = "fold flow_step [Fl_next ''nginx'', Fl_started sample_started] (flow_start [])"
  have "flow_reaches [] ?s"
    unfolding fold.simps comp_apply id_apply
    by (intro flow_next flow_init) (simp_all add: flow_start_def)
  from image_flow_pages [OF this] show ?thesis by (simp add: flow_page_def flow_start_def)
qed

end
