(* ===== verification/Git_Flow.thy ===== *)
theory Git_Flow
  imports Image_Flow Deploy_Views
begin

text \<open>
  The repository deploy (components/deploy/GitFlow.tsx): the repository picker, the form with its
  environment rows seeded from the repository's example and merged with pasted variables, the
  stack's name and folder, the fixes of the check, and the request.
\<close>

section \<open>The repository picker\<close>

datatype ('e, 'a) fetched = Loading | Failed 'e | Loaded 'a

record repo_picker =
  rk_q :: string
  rk_dq :: string
  rk_compose :: bool

definition repo_picker_start :: repo_picker where
  "repo_picker_start = \<lparr>rk_q = [], rk_dq = [], rk_compose = True\<rparr>"

datatype repo_event = Repo_type string | Repo_debounced | Repo_filter bool | Repo_pick repo | Repo_retry | Repo_connect

fun repo_step :: "repo_event \<Rightarrow> repo_picker \<Rightarrow> repo_picker" where
  "repo_step (Repo_type s) p = p\<lparr>rk_q := s\<rparr>"
| "repo_step Repo_debounced p = p\<lparr>rk_dq := trim (rk_q p)\<rparr>"
| "repo_step (Repo_filter b) p = p\<lparr>rk_compose := b\<rparr>"
| "repo_step (Repo_pick r) p = p"
| "repo_step Repo_retry p = p"
| "repo_step Repo_connect p = p"

definition has_account :: "(js_error, git_account list) fetched \<Rightarrow> bool" where
  "has_account a \<longleftrightarrow> (case a of Loaded as \<Rightarrow> as \<noteq> [] | _ \<Rightarrow> False)"

text \<open>The address the list is read from, when there is an account.\<close>

definition repo_query :: "bool \<Rightarrow> repo_picker \<Rightarrow> string option" where
  "repo_query hasAccount p = (if hasAccount then Some (''/api/github/repos?compose='' @
     (if rk_compose p then ''1'' else ''0'') @ ''&q='' @ encodeURIComponent (rk_dq p)) else None)"

definition repo_totals :: "(js_error, git_account list) fetched \<Rightarrow> int \<times> int" where
  "repo_totals a = (case a of Loaded as \<Rightarrow> (sum_list (map ga_repoCount as), sum_list (map ga_composeRepoCount as)) | _ \<Rightarrow> (0, 0))"

definition repos_loading :: "(js_error, git_account list) fetched \<Rightarrow> (js_error, repo list) fetched \<Rightarrow> bool" where
  "repos_loading a r \<longleftrightarrow> (case a of Loading \<Rightarrow> True | _ \<Rightarrow> False) \<or>
     has_account a \<and> (case r of Loading \<Rightarrow> True | _ \<Rightarrow> False)"

definition repo_card :: "(string option \<Rightarrow> string) \<Rightarrow> repo \<Rightarrow> repo_event view" where
  "repo_card ago_text r = Group [Button (rp_name r) True (Repo_pick r),
     Text (rp_owner r @ '' '' @ middot @ '' '' @ (if rp_private r then ''private'' else ''public'') @ '' '' @ middot @
       '' updated '' @ ago_text (rp_pushedAt r)),
     shown_if (rp_deployedOn r \<noteq> []) (Text (''on '' @ rp_deployedOn r)),
     Group (map Text (rp_composeFiles r)),
     Text (if rp_description r = [] then ''No description'' else rp_description r)]"

definition no_repos_title :: "repo_picker \<Rightarrow> string" where
  "no_repos_title p = (if rk_dq p \<noteq> [] then ''No repos match '' @ rk_dq p
     else if rk_compose p then ''No repos with a compose file'' else ''No repositories'')"

definition repo_results :: "(string option \<Rightarrow> string) \<Rightarrow> (js_error, git_account list) fetched \<Rightarrow> (js_error, repo list) fetched \<Rightarrow>
    repo_picker \<Rightarrow> repo_event view" where
  "repo_results ago_text a rs p =
    (if repos_loading a rs then Group []
     else case rs of
       Failed e \<Rightarrow> empty_state ''Couldn't load repositories'' (errMsg e) [Button ''Retry'' True Repo_retry]
     | Loaded (r # rest) \<Rightarrow> Group (map (repo_card ago_text) (r # rest))
     | _ \<Rightarrow> empty_state (no_repos_title p)
         (if rk_compose p then ''Only repos with a docker-compose.yml (or compose.yaml) are shown. Switch to All repos to see everything.''
          else ''Check which repositories this account grants Dockhand access to.'')
         [shown_if (rk_compose p) (Button ''Show all repos'' True (Repo_filter False))])"

definition repo_picker_view :: "(string option \<Rightarrow> string) \<Rightarrow> (js_error, git_account list) fetched \<Rightarrow> (js_error, repo list) fetched \<Rightarrow>
    repo_picker \<Rightarrow> repo_event view" where
  "repo_picker_view ago_text a rs p =
    (if a = Loaded [] then empty_state ''No GitHub account connected''
       ''Connect an account and Dockhand will list every repo that has a compose file, ready to deploy onto any host.''
       [Button ''Connect GitHub'' True Repo_connect]
     else Group [
       Input ''Search repositories'' (rk_q p) Repo_type,
       Button ''With compose'' True (Repo_filter True), Button ''All repos'' True (Repo_filter False),
       (case a of Loaded _ \<Rightarrow> Text (show_int (fst (repo_totals a)) @ '' repos '' @ middot @ '' '' @
          show_int (snd (repo_totals a)) @ '' with compose'') | _ \<Rightarrow> Group []),
       repo_results ago_text a rs p])"

section \<open>The environment rows\<close>

record env_row =
  er_k :: string
  er_v :: string
  er_required :: bool
  er_comment :: string

definition env_row_set :: "env_row option \<Rightarrow> kv \<Rightarrow> env_row" where
  "env_row_set r e = (case r of
     Some x \<Rightarrow> x\<lparr>er_k := kv_k e, er_v := kv_v e\<rparr>
   | None \<Rightarrow> \<lparr>er_k = kv_k e, er_v = kv_v e, er_required = False, er_comment = []\<rparr>)"

interpretation env_rows: row_editor er_k er_v env_row_set
  by unfold_locales (simp_all add: env_row_set_def split: option.splits)

definition example_row :: "repo_inspect_env \<Rightarrow> env_row" where
  "example_row e = \<lparr>er_k = repo_inspect_env_k e, er_v = repo_inspect_env_v e,
     er_required = repo_inspect_env_required e, er_comment = repo_inspect_env_comment e\<rparr>"

text \<open>The rows seeded from the example again: the values typed so far are kept, the last of equal
  names winning, and rows the example does not have stay at the end.\<close>

definition typed_values :: "env_row list \<Rightarrow> string \<Rightarrow> string option" where
  "typed_values cur = map_of (rev (map (\<lambda>e. (er_k e, er_v e)) cur))"

definition seed_row :: "env_row list \<Rightarrow> repo_inspect_env \<Rightarrow> env_row" where
  "seed_row cur e = (example_row e)\<lparr>er_v := (case typed_values cur (repo_inspect_env_k e) of
     Some v \<Rightarrow> v | None \<Rightarrow> repo_inspect_env_v e)\<rparr>"

definition reseed :: "repo_inspect_env list \<Rightarrow> env_row list \<Rightarrow> env_row list" where
  "reseed ex cur = map (seed_row cur) ex @
     filter (\<lambda>e. \<not> list_ex (\<lambda>x. repo_inspect_env_k x = er_k e) ex) cur"

definition mergeEnv :: "kv list \<Rightarrow> env_row list \<Rightarrow> env_row list" where
  "mergeEnv vars cur = mergeKV er_k env_row_set cur vars"

lemma seed_row_key [simp]: "er_k (seed_row cur e) = repo_inspect_env_k e"
  by (simp add: seed_row_def example_row_def)

lemma seed_row_value: "er_v (seed_row cur e) =
    (case typed_values cur (repo_inspect_env_k e) of Some v \<Rightarrow> v | None \<Rightarrow> repo_inspect_env_v e)"
  by (simp add: seed_row_def)



lemma typed_values_row: "distinct (map er_k cur) \<Longrightarrow> typed_values cur k = row_value er_k er_v cur k"
proof (induction cur)
  case (Cons e cur)
  have "map_of (rev (map (\<lambda>e. (er_k e, er_v e)) cur)) (er_k e) = None"
    using Cons.prems by (auto simp: map_of_eq_None_iff)
  with Cons show ?case by (auto simp: typed_values_def row_value_def map_add_def split: option.splits)
qed (simp add: typed_values_def row_value_def)

text \<open>C6: when the example is read again, after a change of branch or compose file, a value already in
  the form stays, a variable the example adds starts with the example's value, and reading the same
  example once more changes nothing.\<close>

theorem reseed_keeps_typed:
  assumes "distinct (map er_k cur)" "distinct (map repo_inspect_env_k ex)"
  shows "row_value er_k er_v (reseed ex cur) k =
      (case row_value er_k er_v cur k of
         Some v \<Rightarrow> Some v
       | None \<Rightarrow> row_value repo_inspect_env_k repo_inspect_env_v ex k) \<and>
    reseed ex (reseed ex cur) = reseed ex cur \<and> distinct (map er_k (reseed ex cur))"
proof -
  have val: "row_value er_k er_v (reseed ex c) k =
      (case row_value er_k er_v c k of Some v \<Rightarrow> Some v | None \<Rightarrow> row_value repo_inspect_env_k repo_inspect_env_v ex k)"
    if c: "distinct (map er_k c)" for c k
  proof (cases "find (\<lambda>x. repo_inspect_env_k x = k) ex")
    case None
    then have "\<not> list_ex (\<lambda>x. repo_inspect_env_k x = k) ex" by (auto simp: find_None_iff list_ex_iff)
    then have "find (\<lambda>r. er_k r = k) (filter (\<lambda>e. \<not> list_ex (\<lambda>x. repo_inspect_env_k x = er_k e) ex) c) = find (\<lambda>r. er_k r = k) c"
      by (rule find_filter_key [where P = "\<lambda>k. \<not> list_ex (\<lambda>x. repo_inspect_env_k x = k) ex"])
    with None show ?thesis by (simp add: row_value_def reseed_def find_append find_map_key split: option.splits)
  next
    case (Some e)
    then have "repo_inspect_env_k e = k" by (auto simp: find_Some_iff)
    with Some typed_values_row [OF c, of k] show ?thesis
      by (simp add: row_value_def reseed_def find_append find_map_key seed_row_value split: option.splits)
  qed
  have keys: "distinct (map er_k (reseed ex c))" if c: "distinct (map er_k c)" for c
    using c assms(2) by (auto simp: reseed_def comp_def distinct_map_filter list_ex_iff)
  have typed: "typed_values (reseed ex cur) (repo_inspect_env_k e) = Some (er_v (seed_row cur e))" if e: "e \<in> set ex" for e
  proof -
    have "find (\<lambda>x. repo_inspect_env_k x = repo_inspect_env_k e) ex = Some e"
      using e assms(2) by (induction ex) (auto simp: image_iff)
    then have "row_value er_k er_v (reseed ex cur) (repo_inspect_env_k e) = Some (er_v (seed_row cur e))"
      by (simp add: row_value_def reseed_def find_append find_map_key)
    with typed_values_row [OF keys [OF assms(1)]] show ?thesis by simp
  qed
  have "map (seed_row (reseed ex cur)) ex = map (seed_row cur) ex"
    using typed by (auto simp: seed_row_def)
  then have "reseed ex (reseed ex cur) = reseed ex cur"
    by (auto simp: reseed_def filter_empty_conv list_ex_iff)
  with val [OF assms(1)] keys [OF assms(1)] show ?thesis by simp
qed

definition sample_example :: "repo_inspect_env list" where
  "sample_example =
    [\<lparr>repo_inspect_env_k = ''PORT'', repo_inspect_env_v = ''80'', repo_inspect_env_required = False, repo_inspect_env_comment = []\<rparr>,
     \<lparr>repo_inspect_env_k = ''KEY'', repo_inspect_env_v = [], repo_inspect_env_required = True, repo_inspect_env_comment = []\<rparr>]"

lemma reseed_keeps_typed_witness:
  "row_value er_k er_v (reseed sample_example [\<lparr>er_k = ''KEY'', er_v = ''s3'', er_required = True, er_comment = []\<rparr>]) ''KEY'' = Some ''s3''"
  using reseed_keeps_typed [of "[\<lparr>er_k = ''KEY'', er_v = ''s3'', er_required = True, er_comment = []\<rparr>]" sample_example "''KEY''"]
  by (simp add: sample_example_def row_value_def)

section \<open>The form\<close>

record git_form =
  gf_branch :: string
  gf_file :: string
  gf_hostId :: string
  gf_path :: string
  gf_auto :: bool
  gf_env :: "env_row list"

definition git_form_start :: "repo \<Rightarrow> string \<Rightarrow> git_form" where
  "git_form_start r initialHost = \<lparr>gf_branch = rp_defaultBranch r,
     gf_file = (case rp_composeFiles r of f # _ \<Rightarrow> f | [] \<Rightarrow> []), gf_hostId = initialHost,
     gf_path = ''/opt/dockhand/stacks/'' @ rp_name r, gf_auto = True, gf_env = []\<rparr>"

definition choose_file :: "repo_inspect option \<Rightarrow> string \<Rightarrow> string" where
  "choose_file i file = (case i of
     Some d \<Rightarrow> if file = [] \<and> ri_composeFiles d \<noteq> [] then hd (ri_composeFiles d) else file
   | None \<Rightarrow> file)"

definition git_files :: "repo \<Rightarrow> repo_inspect option \<Rightarrow> string \<Rightarrow> string list" where
  "git_files r i file = uniq ((case i of Some d \<Rightarrow> ri_composeFiles d | None \<Rightarrow> []) @ rp_composeFiles r @
     (if file \<noteq> [] then [file] else []))"

definition missing_vars :: "git_form \<Rightarrow> env_row list" where
  "missing_vars f = filter (\<lambda>e. er_required e \<and> trim (er_v e) = []) (gf_env f)"

definition git_env :: "git_form \<Rightarrow> kv list" where
  "git_env f = map (\<lambda>e. \<lparr>kv_k = er_k e, kv_v = er_v e\<rparr>) (filter (\<lambda>e. trim (er_k e) \<noteq> []) (gf_env f))"

definition git_input :: "repo \<Rightarrow> host option \<Rightarrow> git_form \<Rightarrow> git_deploy_input" where
  "git_input r h f = \<lparr>gdi_accountId = rp_accountId r, gdi_owner = rp_owner r, gdi_name = rp_name r,
     gdi_branch = gf_branch f, gdi_composeFile = gf_file f,
     gdi_hostId = (case h of Some x \<Rightarrow> h_id x | None \<Rightarrow> []), gdi_path = trim (gf_path f),
     gdi_env = git_env f, gdi_autoDeploy = gf_auto f\<rparr>"

text \<open>\<open>path.trim().replace(/\/+$/, "")\<close>, its last segment and what comes before.\<close>

definition folder :: "string \<Rightarrow> string" where
  "folder path = rev (dropWhile (\<lambda>c. c = CHR ''/'') (rev (trim path)))"

definition stackName :: "repo \<Rightarrow> string \<Rightarrow> string" where
  "stackName r path = (let s = last (split_on (CHR ''/'') (folder path)) in if s = [] then rp_name r else s)"

definition parent_folder :: "string \<Rightarrow> string" where
  "parent_folder path = (let p = join ''/'' (butlast (split_on (CHR ''/'') (folder path))) in
     if p = [] then ''/opt/dockhand/stacks'' else p)"

definition git_check_input :: "repo \<Rightarrow> host option \<Rightarrow> git_form \<Rightarrow> deploy_check_input option" where
  "git_check_input r h f = (case h of
     None \<Rightarrow> None
   | Some x \<Rightarrow> if gf_file f = [] then None else Some
       \<lparr>dci_kind = DeployCheckInputKind_git, dci_hostId = h_id x, dci_name = stackName r (gf_path f),
        dci_path = Some (trim (gf_path f)), dci_image = None, dci_ports = None, dci_env = Some (git_env f),
        dci_requiredEnv = Some (map er_k (filter er_required (gf_env f))), dci_composeFile = None\<rparr>)"

definition git_can_fix :: "deploy_issue \<Rightarrow> bool" where
  "git_can_fix i = (case di_fix i of None \<Rightarrow> False
     | Some x \<Rightarrow> (let p = deploy_issue_fix_patch x in
         some_text (deploy_issue_fix_patch_name p) \<or> some_text (deploy_issue_fix_patch_path p) \<or>
         some_items (deploy_issue_fix_patch_env p)))"

definition fixed_path :: "deploy_issue_fix_patch \<Rightarrow> string \<Rightarrow> string" where
  "fixed_path p cur =
    (case deploy_issue_fix_patch_path p of
       Some x \<Rightarrow> if x \<noteq> [] then x else
         (case deploy_issue_fix_patch_name p of Some n \<Rightarrow> if n \<noteq> [] then parent_folder cur @ ''/'' @ n else cur | None \<Rightarrow> cur)
     | None \<Rightarrow>
         (case deploy_issue_fix_patch_name p of Some n \<Rightarrow> if n \<noteq> [] then parent_folder cur @ ''/'' @ n else cur | None \<Rightarrow> cur))"

definition git_apply_fix :: "deploy_issue \<Rightarrow> git_form \<Rightarrow> git_form" where
  "git_apply_fix i f = (case di_fix i of None \<Rightarrow> f
     | Some x \<Rightarrow> (let p = deploy_issue_fix_patch x; g = f\<lparr>gf_path := fixed_path p (gf_path f)\<rparr> in
         (case deploy_issue_fix_patch_env p of
            Some e \<Rightarrow> if e \<noteq> [] then g\<lparr>gf_env := mergeEnv e (gf_env g)\<rparr> else g | None \<Rightarrow> g)))"

datatype git_start = Git_refused string string | Git_sent git_deploy_input

definition git_deploy :: "repo \<Rightarrow> host option \<Rightarrow> git_form \<Rightarrow> git_start" where
  "git_deploy r h f =
    (if h = None then Git_refused ''Pick a host to deploy to'' []
     else if gf_file f = [] then Git_refused ''This repo has no compose file selected'' []
     else if missing_vars f \<noteq> [] then Git_refused ''Fill in the required variables'' (join '', '' (map er_k (missing_vars f)))
     else Git_sent (git_input r h f))"

lemma last_split_slash: "CHR ''/'' \<notin> set n \<Longrightarrow> last (split_on (CHR ''/'') (s @ ''/'' @ n)) = n"
proof -
  assume n: "CHR ''/'' \<notin> set n"
  have "split_on (CHR ''/'') (s @ ''/'') = split_on (CHR ''/'') s @ [[]]"
    by (induction s) (auto split: list.splits)
  then have "last (split_on (CHR ''/'') (s @ ''/'')) = []" by simp
  with last_split_append [OF n, of "s @ ''/''"] show ?thesis by simp
qed

lemma folder_ends:
  assumes "n \<noteq> []" "no_ws n" "CHR ''/'' \<notin> set n"
  shows "\<exists>q. folder (p @ ''/'' @ n) = q @ ''/'' @ n"
proof -
  have s: "\<not> ws (CHR ''/'')" by (simp add: js_simps)
  have "\<exists>q. dropWhile ws (p @ ''/'' @ n) = q @ ''/'' @ n"
  proof (induction p)
    case (Cons c p)
    then show ?case by (cases "ws c") (auto intro: exI [of _ "c # p"])
  qed (use s in \<open>auto intro: exI [of _ "[]"]\<close>)
  then obtain q where q: "dropWhile ws (p @ ''/'' @ n) = q @ ''/'' @ n" by blast
  have "last n \<in> set n" using assms(1) by (rule last_in_set)
  then have l: "\<not> ws (last n)" "last n \<noteq> CHR ''/''" using assms(2, 3) by (auto simp: no_ws_def)
  obtain x m where n: "n = m @ [x]" using assms(1) by (cases n rule: rev_cases) auto
  have "trim (p @ ''/'' @ n) = q @ ''/'' @ n"
    using l by (simp add: trim_def trim_left_def trim_right_def q [simplified]) (simp add: n)
  then show ?thesis using l by (simp add: folder_def n)
qed

text \<open>C18: the fix that renames a stack does so: afterwards the stack deployed under the new clone path
  has the suggested name, whatever the path was before; and the check is sent the path and the
  environment the deploy is sent.\<close>

theorem git_fix_renames:
  assumes "n \<noteq> []" "no_ws n" "CHR ''/'' \<notin> set n"
    "di_fix i = Some x" "deploy_issue_fix_patch_name (deploy_issue_fix_patch x) = Some n"
    "deploy_issue_fix_patch_path (deploy_issue_fix_patch x) = None"
  shows "stackName r (gf_path (git_apply_fix i f)) = n \<and>
    (case git_check_input r h f of
       None \<Rightarrow> (case git_deploy r h f of Git_refused _ _ \<Rightarrow> True | Git_sent _ \<Rightarrow> False)
     | Some c \<Rightarrow> dci_path c = Some (gdi_path (git_input r h f)) \<and> dci_env c = Some (gdi_env (git_input r h f)) \<and>
         dci_hostId c = gdi_hostId (git_input r h f))"
proof -
  have p: "gf_path (git_apply_fix i f) = parent_folder (gf_path f) @ ''/'' @ n"
    using assms by (auto simp: git_apply_fix_def fixed_path_def Let_def split: option.splits)
  obtain q where "folder (gf_path (git_apply_fix i f)) = q @ ''/'' @ n"
    using folder_ends [OF assms(1-3)] p by metis
  then have "stackName r (gf_path (git_apply_fix i f)) = n"
    using last_split_slash [OF assms(3), of q] assms(1) by (simp add: stackName_def Let_def)
  then show ?thesis
    by (auto simp: git_check_input_def git_input_def git_deploy_def split: option.splits)
qed

definition rename_issue :: deploy_issue where
  "rename_issue = \<lparr>di_field = ''name'', di_text = ''taken'', di_severity = DeployIssueSeverity_crit,
     di_fix = Some \<lparr>deploy_issue_fix_label = ''Use shop-2'',
       deploy_issue_fix_patch = \<lparr>deploy_issue_fix_patch_name = Some ''shop-2'', deploy_issue_fix_patch_path = None,
         deploy_issue_fix_patch_ports = None, deploy_issue_fix_patch_env = None\<rparr>\<rparr>\<rparr>"

definition sample_shop :: repo where
  "sample_shop = \<lparr>rp_id = 1, rp_accountId = ''a1'', rp_owner = ''acme'', rp_name = ''shop'', rp_fullName = ''acme/shop'',
     rp_private = False, rp_description = [], rp_defaultBranch = ''main'', rp_composeFiles = [''compose.yaml''],
     rp_pushedAt = None, rp_deployedOn = []\<rparr>"

lemma git_fix_renames_witness:
  "stackName sample_shop (gf_path (git_apply_fix rename_issue (git_form_start sample_shop ''h1''))) = ''shop-2''"
proof -
  have "no_ws ''shop-2''" by code_simp
  then show ?thesis
    using git_fix_renames [of "''shop-2''" rename_issue "the (di_fix rename_issue)" sample_shop "git_form_start sample_shop ''h1''" None]
    by (simp add: rename_issue_def)
qed

text \<open>A deploy that is sent names a usable host's id and a compose file, and every required variable
  is sent with a value; otherwise nothing is sent and the message names what is missing.\<close>

theorem git_deploy_complete:
  "(case git_deploy r (find (\<lambda>x. h_id x = gf_hostId f) (usable_hosts hs)) f of
      Git_sent b \<Rightarrow> gdi_hostId b = gf_hostId f \<and> gf_hostId f \<in> h_id ` set (usable_hosts hs) \<and> gdi_composeFile b \<noteq> [] \<and>
        list_all (\<lambda>e. \<not> (er_required e \<and> trim (er_k e) \<noteq> [] \<and>
          \<not> (\<lparr>kv_k = er_k e, kv_v = er_v e\<rparr> \<in> set (gdi_env b) \<and> trim (er_v e) \<noteq> []))) (gf_env f)
    | Git_refused t m \<Rightarrow>
        find (\<lambda>x. h_id x = gf_hostId f) (usable_hosts hs) = None \<or> gf_file f = [] \<or>
        m = join '', '' (map er_k (missing_vars f)) \<and> missing_vars f \<noteq> [])"
proof (cases "find (\<lambda>x. h_id x = gf_hostId f) (usable_hosts hs)")
  case None
  then show ?thesis by (simp add: git_deploy_def)
next
  case (Some h)
  then have "h \<in> set (usable_hosts hs)" "gf_hostId f = h_id h" using find_SomeD [OF Some] by auto
  with Some show ?thesis
    by (auto simp: git_deploy_def git_input_def git_env_def missing_vars_def list_all_iff filter_empty_conv)
qed

end
