(* ===== verification/Git_Page.thy ===== *)
theory Git_Page
  imports Git_Flow Image_Page
begin

text \<open>
  The form of the repository deploy and its flow (components/deploy/GitFlow.tsx): the page's state,
  the events its cards offer, one step function, the effects that follow each render, and the
  three steps picker, form and progress.
\<close>

section \<open>The form's state and events\<close>

record git_page =
  gp_form :: git_form
  gp_import :: import_state
  gp_busy :: bool
  gp_dry :: dry_run_state

record git_data =
  gt_hosts :: "host list option"
  gt_branches :: "branch list option"
  gt_inspect :: "(js_error, repo_inspect) fetched"
  gt_issues :: "deploy_issue list"
  gt_crit :: nat
  gt_warn :: nat

definition git_page_start :: "repo \<Rightarrow> string \<Rightarrow> git_page" where
  "git_page_start r initialHost = \<lparr>gp_form = git_form_start r initialHost,
     gp_import = \<lparr>im_open = False, im_text = []\<rparr>, gp_busy = False,
     gp_dry = \<lparr>dy_open = False, dy_loading = False, dy_result = None, dy_error = None\<rparr>\<rparr>"

definition git_hosts :: "git_data \<Rightarrow> host list" where
  "git_hosts d = (case gt_hosts d of Some hs \<Rightarrow> usable_hosts hs | None \<Rightarrow> [])"

definition git_host :: "git_data \<Rightarrow> git_form \<Rightarrow> host option" where
  "git_host d f = find (\<lambda>h. h_id h = gf_hostId f) (git_hosts d)"

definition inspected :: "git_data \<Rightarrow> repo_inspect option" where
  "inspected d = (case gt_inspect d of Loaded i \<Rightarrow> Some i | _ \<Rightarrow> None)"

text \<open>The effects on the host and the compose file, and the seeding when a new inspection arrives.\<close>

definition git_settle :: "git_data \<Rightarrow> git_form \<Rightarrow> git_form" where
  "git_settle d f = f\<lparr>gf_hostId := choose_host (git_hosts d) (gf_hostId f),
     gf_file := choose_file (inspected d) (gf_file f)\<rparr>"

definition git_inspected :: "repo_inspect \<Rightarrow> git_form \<Rightarrow> git_form" where
  "git_inspected i f = f\<lparr>gf_env := reseed (ri_env i) (gf_env f)\<rparr>"

datatype git_event =
  Gt_back | Gt_branch string | Gt_file string | Gt_host string | Gt_path string | Gt_auto bool
| Gt_env nat string | Gt_importing | Gt_import import_event | Gt_fix deploy_issue | Gt_deploy | Gt_dry dry_run_event

datatype git_effect =
  Gt_leave | Gt_toast string | Gt_warn string string | Post_git git_deploy_input
| Post_git_dry git_deploy_input | Gt_copied string

definition set_env_value :: "nat \<Rightarrow> string \<Rightarrow> env_row list \<Rightarrow> env_row list" where
  "set_env_value i v rows = map2 (\<lambda>j r. if j = i then r\<lparr>er_v := v\<rparr> else r) [0 ..< length rows] rows"

fun git_dry :: "git_deploy_input \<Rightarrow> dry_run_event \<Rightarrow> dry_run_state \<Rightarrow> dry_run_state \<times> git_effect list" where
  "git_dry body Dry_run st = (dry_run_start st, [Post_git_dry body])"
| "git_dry body Dry_run_close st = (st\<lparr>dy_open := False\<rparr>, [])"
| "git_dry body (Copy_command s) st = (st, [Gt_copied s])"
| "git_dry body (Copy_output s) st = (st, [Gt_copied s])"

fun git_step :: "repo \<Rightarrow> git_data \<Rightarrow> git_event \<Rightarrow> git_page \<Rightarrow> git_page \<times> git_effect list" where
  "git_step r d Gt_back p = (p, [Gt_leave])"
| "git_step r d (Gt_branch b) p = (p\<lparr>gp_form := (gp_form p)\<lparr>gf_branch := b\<rparr>\<rparr>, [])"
| "git_step r d (Gt_file s) p = (p\<lparr>gp_form := (gp_form p)\<lparr>gf_file := s\<rparr>\<rparr>, [])"
| "git_step r d (Gt_host h) p = (p\<lparr>gp_form := (gp_form p)\<lparr>gf_hostId := h\<rparr>\<rparr>, [])"
| "git_step r d (Gt_path s) p = (p\<lparr>gp_form := (gp_form p)\<lparr>gf_path := s\<rparr>\<rparr>, [])"
| "git_step r d (Gt_auto b) p = (p\<lparr>gp_form := (gp_form p)\<lparr>gf_auto := b\<rparr>\<rparr>, [])"
| "git_step r d (Gt_env i v) p = (p\<lparr>gp_form := (gp_form p)\<lparr>gf_env := set_env_value i v (gf_env (gp_form p))\<rparr>\<rparr>, [])"
| "git_step r d Gt_importing p = (p\<lparr>gp_import := \<lparr>im_open = \<not> im_open (gp_import p), im_text = []\<rparr>\<rparr>, [])"
| "git_step r d (Gt_import e) p =
     (case import_step e (gp_import p) of
        (st, None) \<Rightarrow> (p\<lparr>gp_import := st\<rparr>, [])
      | (st, Some vars) \<Rightarrow> (p\<lparr>gp_import := st, gp_form := (gp_form p)\<lparr>gf_env := mergeEnv vars (gf_env (gp_form p))\<rparr>\<rparr>,
          [Gt_toast (imported vars)]))"
| "git_step r d (Gt_fix i) p = (p\<lparr>gp_form := git_apply_fix i (gp_form p)\<rparr>,
     (if di_fix i = None then [] else [Gt_toast (fix_label i)]))"
| "git_step r d Gt_deploy p =
     (case git_deploy r (git_host d (gp_form p)) (gp_form p) of
        Git_refused t m \<Rightarrow> (p, [Gt_warn t m])
      | Git_sent body \<Rightarrow> (p\<lparr>gp_busy := True\<rparr>, [Post_git body]))"
| "git_step r d (Gt_dry e) p =
     (case git_dry (git_input r (git_host d (gp_form p)) (gp_form p)) e (gp_dry p) of
        (st, fx) \<Rightarrow> (p\<lparr>gp_dry := st\<rparr>, fx))"

definition git_answered :: "repo \<Rightarrow> host \<Rightarrow> (js_error + string) \<Rightarrow> git_page \<Rightarrow> git_page \<times> (string + started)" where
  "git_answered r h res p = (p\<lparr>gp_busy := False\<rparr>,
     (case res of Inr jobId \<Rightarrow> Inr \<lparr>sj_id = jobId, sj_name = rp_name r, sj_hostId = h_id h, sj_hostName = h_name h\<rparr>
      | Inl e \<Rightarrow> Inl (errMsg e)))"

section \<open>What the form shows\<close>

definition branch_options :: "(string option \<Rightarrow> string) \<Rightarrow> repo \<Rightarrow> branch list option \<Rightarrow> string drop_option list" where
  "branch_options ago_text r bs = map (\<lambda>b. \<lparr>do_value = br_name b, do_label = br_name b,
       do_sub = (if br_isDefault b then Some ''default''
         else (case br_updatedAt b of Some t \<Rightarrow> if t \<noteq> [] then Some (ago_text (Some t)) else None | None \<Rightarrow> None))\<rparr>)
     (case bs of Some l \<Rightarrow> l
      | None \<Rightarrow> [\<lparr>br_name = rp_defaultBranch r, br_sha = [], br_updatedAt = None, br_isDefault = True\<rparr>])"

definition file_options :: "string list \<Rightarrow> string drop_option list" where
  "file_options files = map (\<lambda>f. \<lparr>do_value = f, do_label = f, do_sub = None\<rparr>) files"

text \<open>The menus' own open state is the drop-down's; what a choice raises is the parent's event.\<close>

definition choice :: "(string \<Rightarrow> git_event) \<Rightarrow> string \<Rightarrow> string drop_option list \<Rightarrow> string \<Rightarrow> git_event view" where
  "choice pick placeholder options v = Group (Text (drop_label placeholder options v) #
     map (\<lambda>x. Button (do_label x) True (pick (do_value x))) options)"

definition source_card :: "(string option \<Rightarrow> string) \<Rightarrow> repo \<Rightarrow> git_data \<Rightarrow> git_page \<Rightarrow> git_event view" where
  "source_card ago_text r d p = (let f = gp_form p in Group [
     back_button Gt_back, Text (rp_owner r @ ''/'' @ rp_name r), Text (''updated '' @ ago_text (rp_pushedAt r)),
     Text ''Branch'', choice Gt_branch (''Select'' @ ellipsis) (branch_options ago_text r (gt_branches d)) (gf_branch f),
     Text ''Compose file'', choice Gt_file ''No compose file'' (file_options (git_files r (inspected d) (gf_file f))) (gf_file f),
     Text ''Deploy to'', deploy_targets (gt_hosts d) Gt_host (git_hosts d),
     Text ''Clone path on host'', Input ''path'' (gf_path f) Gt_path])"

definition env_input :: "nat \<Rightarrow> env_row \<Rightarrow> git_event view" where
  "env_input i e = Group [Text (er_k e), shown_if (er_required e) (Text ''*''),
     Input (if er_comment e \<noteq> [] then er_comment e else if er_required e then ''required'' else []) (er_v e) (Gt_env i)]"

definition env_card :: "git_data \<Rightarrow> git_page \<Rightarrow> git_event view" where
  "env_card d p = (let env = gf_env (gp_form p) in Group [
     Text ''Environment'', Text (''from .env.example '' @ dash @ '' fill in the blanks''),
     Button ''Import .env'' True Gt_importing,
     shown_if (im_open (gp_import p)) (placed Gt_import (env_import_view (gp_import p))),
     (case gt_inspect d of
        Failed e \<Rightarrow> Text (''Couldn't read the repo: '' @ errMsg e)
      | Loaded _ \<Rightarrow> shown_if (env = []) (Text (''No .env.example found '' @ dash @ '' nothing to fill in. Use Import .env to add variables.''))
      | Loading \<Rightarrow> Group []),
     Group (map2 env_input [0 ..< length env] env)])"

definition service_row :: "repo_inspect_services \<Rightarrow> git_event view" where
  "service_row s = Group [Text (repo_inspect_services_name s),
     Text (if repo_inspect_services_image s = [] then ''built from source'' else repo_inspect_services_image s),
     Text (repo_inspect_services_meta s)]"

definition created_card :: "git_data \<Rightarrow> git_page \<Rightarrow> git_event view" where
  "created_card d p = (let f = gp_form p in Group [
     Text ''What will be created'',
     (case gt_inspect d of
        Loaded i \<Rightarrow> (if ri_services i = []
          then Text (''No services found in '' @ (if gf_file f = [] then ''the compose file'' else gf_file f) @ ''.'')
          else Group (map service_row (ri_services i)))
      | _ \<Rightarrow> Group []),
     Text (''Auto-redeploy when '' @ gf_branch f @ '' changes''), toggle (gf_auto f) Gt_auto False])"

definition git_actions :: "repo \<Rightarrow> git_data \<Rightarrow> git_page \<Rightarrow> git_event view" where
  "git_actions r d p = (let f = gp_form p; h = git_host d f in Group [
     placed Gt_fix (issues_panel (Some git_can_fix) (gt_issues d) (gt_crit d) (gt_warn d)),
     big_button (deployBtnLabel (gt_crit d) (gt_warn d) (map_option h_name h)) (h = None \<or> gf_file f = []) (gp_busy p) (0 < gt_crit d) Gt_deploy,
     placed Gt_dry (dry_run_button (''Dry run '' @ middot @ '' compose config'') ''Dry run''
       (rp_owner r @ ''/'' @ rp_name r @ ''@'' @ gf_branch f @ '' '' @ middot @ '' '' @ (if gf_file f = [] then ''compose'' else gf_file f))
       (h = None \<or> gf_file f = []) (gp_dry p)),
     Text (''Clones with a read-only deploy key '' @ middot @ '' nothing is pushed back'')])"

definition git_view :: "(string option \<Rightarrow> string) \<Rightarrow> repo \<Rightarrow> git_data \<Rightarrow> git_page \<Rightarrow> git_event view" where
  "git_view ago_text r d p = Group [source_card ago_text r d p, env_card d p, created_card d p, git_actions r d p]"

text \<open>A group's offers, child by child.\<close>

lemma group_offers: "offers (Group []) = []" "offers (Group (v # vs)) = offers v @ offers (Group vs)"
  by simp_all

lemma choice_offers [simp]: "offers (choice pick ph opts v) = map (\<lambda>x. pick (do_value x)) opts"
  by (induction opts) (auto simp: choice_def)

lemma env_inputs_inert: "concat (map offers (map2 env_input is rows)) = []"
  by (induction "is" arbitrary: rows) (auto simp: env_input_def zip_Cons1 split: list.splits)

lemma env_rows_inert [simp]: "offers (Group (map2 env_input is rows)) = []"
  using env_inputs_inert [of "is" rows] by simp

lemma service_rows_inert [simp]: "offers (Group (map service_row ss)) = []"
  by (induction ss) (auto simp: service_row_def)

lemma deploy_not_in_cards:
  "Gt_deploy \<notin> set (offers (source_card ago_text r d p))" "Gt_deploy \<notin> set (offers (env_card d p))"
  "Gt_deploy \<notin> set (offers (created_card d p))"
  by (auto simp: source_card_def env_card_def created_card_def Let_def back_button_def toggle_def group_offers
      simp del: offers.simps(5) split: fetched.splits if_splits)

text \<open>The deploy button of the repository form can be pressed exactly when a usable host and a
  compose file are chosen, no request is running and the check found nothing critical; what a
  press sends is what the dry run sends, and a refused press changes nothing.\<close>

theorem git_deploy_gate:
  "(Gt_deploy \<in> set (offers (git_view ago_text r d p)) \<longleftrightarrow>
      git_host d (gp_form p) \<noteq> None \<and> gf_file (gp_form p) \<noteq> [] \<and> \<not> gp_busy p \<and> gt_crit d = 0) \<and>
   (case snd (git_step r d Gt_deploy p) of
      [Post_git b] \<Rightarrow> snd (git_step r d (Gt_dry Dry_run) p) = [Post_git_dry b] \<and> missing_vars (gp_form p) = []
    | [Gt_warn t m] \<Rightarrow> fst (git_step r d Gt_deploy p) = p
    | _ \<Rightarrow> False)"
proof
  show "Gt_deploy \<in> set (offers (git_view ago_text r d p)) \<longleftrightarrow>
      git_host d (gp_form p) \<noteq> None \<and> gf_file (gp_form p) \<noteq> [] \<and> \<not> gp_busy p \<and> gt_crit d = 0"
    by (auto simp: git_view_def deploy_not_in_cards git_actions_def Let_def big_button_def)
  show "case snd (git_step r d Gt_deploy p) of
      [Post_git b] \<Rightarrow> snd (git_step r d (Gt_dry Dry_run) p) = [Post_git_dry b] \<and> missing_vars (gp_form p) = []
    | [Gt_warn t m] \<Rightarrow> fst (git_step r d Gt_deploy p) = p
    | _ \<Rightarrow> False"
    by (auto simp: git_deploy_def split: if_splits)
qed

section \<open>The flow\<close>

record git_flow =
  gw_step :: nat
  gw_repo :: "repo option"
  gw_job :: "started option"

datatype git_flow_event = Gw_pick repo | Gw_back | Gw_started started | Gw_another

datatype git_flow_shown = Repo_page | Form_page repo | Job_page started | Blank_page

definition git_flow_start :: git_flow where
  "git_flow_start = \<lparr>gw_step = 0, gw_repo = None, gw_job = None\<rparr>"

definition git_flow_page :: "git_flow \<Rightarrow> git_flow_shown" where
  "git_flow_page st =
    (if gw_step st = 0 then Repo_page
     else if gw_step st = 1 then (case gw_repo st of Some r \<Rightarrow> Form_page r | None \<Rightarrow> Blank_page)
     else if gw_step st = 2 then (case gw_job st of Some j \<Rightarrow> Job_page j | None \<Rightarrow> Blank_page)
     else Blank_page)"

fun git_flow_enabled :: "git_flow_event \<Rightarrow> git_flow_shown \<Rightarrow> bool" where
  "git_flow_enabled (Gw_pick r) Repo_page \<longleftrightarrow> True"
| "git_flow_enabled Gw_back (Form_page r) \<longleftrightarrow> True"
| "git_flow_enabled (Gw_started j) (Form_page r) \<longleftrightarrow> True"
| "git_flow_enabled Gw_back (Job_page j) \<longleftrightarrow> True"
| "git_flow_enabled Gw_another (Job_page j) \<longleftrightarrow> True"
| "git_flow_enabled _ _ \<longleftrightarrow> False"

fun git_flow_step :: "git_flow_event \<Rightarrow> git_flow \<Rightarrow> git_flow" where
  "git_flow_step (Gw_pick r) st = st\<lparr>gw_repo := Some r, gw_step := 1\<rparr>"
| "git_flow_step Gw_back st = (if gw_step st = 2 then st\<lparr>gw_step := 1\<rparr> else st\<lparr>gw_step := 0\<rparr>)"
| "git_flow_step (Gw_started j) st = st\<lparr>gw_job := Some j, gw_step := 2\<rparr>"
| "git_flow_step Gw_another st = st\<lparr>gw_job := None, gw_repo := None, gw_step := 0\<rparr>"

inductive git_flow_reaches :: "git_flow \<Rightarrow> bool" where
  git_flow_init: "git_flow_reaches git_flow_start"
| git_flow_next: "git_flow_reaches st \<Longrightarrow> git_flow_enabled e (git_flow_page st) \<Longrightarrow> git_flow_reaches (git_flow_step e st)"

inductive_cases git_flow_reachesE: "git_flow_reaches st"

definition git_flow_ok :: "git_flow \<Rightarrow> bool" where
  "git_flow_ok st \<longleftrightarrow> (gw_step st = 0 \<or> gw_step st = 1 \<and> gw_repo st \<noteq> None \<or>
     gw_step st = 2 \<and> gw_repo st \<noteq> None \<and> gw_job st \<noteq> None)"

lemma git_flow_ok_step: "git_flow_ok st \<Longrightarrow> git_flow_enabled e (git_flow_page st) \<Longrightarrow> git_flow_ok (git_flow_step e st)"
  by (cases e) (auto simp: git_flow_ok_def git_flow_page_def split: if_splits option.splits)

text \<open>The repository flow never shows an empty page: the form always has the repository that was
  picked and the progress page the job that was started, and "back" from the progress finds the
  form of that repository again.\<close>

theorem git_flow_never_blank:
  assumes "git_flow_reaches st"
  shows "git_flow_page st \<noteq> Blank_page \<and>
    (case git_flow_page st of
       Job_page j \<Rightarrow> (\<exists>r. git_flow_page (git_flow_step Gw_back st) = Form_page r \<and> gw_repo st = Some r)
     | Form_page r \<Rightarrow> git_flow_page (git_flow_step Gw_back st) = Repo_page
     | _ \<Rightarrow> True)"
proof -
  from assms have "git_flow_ok st"
  proof (induction rule: git_flow_reaches.induct)
    case git_flow_init
    then show ?case by (simp add: git_flow_ok_def git_flow_start_def)
  next
    case (git_flow_next st e)
    then show ?case using git_flow_ok_step by blast
  qed
  then show ?thesis by (auto simp: git_flow_ok_def git_flow_page_def)
qed

lemma git_flow_never_blank_witness:
  "git_flow_page (git_flow_step Gw_back (fold git_flow_step [Gw_pick sample_shop, Gw_started sample_started] git_flow_start)) = Form_page sample_shop"
proof -
  let ?s = "fold git_flow_step [Gw_pick sample_shop, Gw_started sample_started] git_flow_start"
  have "git_flow_reaches ?s"
    unfolding fold.simps comp_apply id_apply
    by (intro git_flow_next git_flow_init) (simp_all add: git_flow_start_def git_flow_page_def)
  from git_flow_never_blank [OF this] show ?thesis by (auto simp: git_flow_page_def git_flow_start_def)
qed

end
