(* ===== verification/Compose_Editor.thy ===== *)
theory Compose_Editor
  imports View Api_Client Api_Core
begin

text \<open>
  The compose editor (components/dialogs/ComposeEditor.tsx): the YAML highlighting of a line, the
  Tab key, and the debounced validation. The regular expressions are written out as the scanners
  they are; the line terminators \<open>.\<close> refuses are LF and CR.
\<close>

section \<open>Highlighting\<close>

datatype tone = Key_tone | String_tone | Number_tone | Punct_tone | Comment_tone | Plain_tone | No_tone

fun tone_color :: "tone \<Rightarrow> string option" where
  "tone_color Key_tone = Some ''#7dc4ff''"
| "tone_color String_tone = Some ''#9fd18b''"
| "tone_color Number_tone = Some ''#f2c05c''"
| "tone_color Punct_tone = Some ''#aab1bf''"
| "tone_color Comment_tone = Some ''#5d6470''"
| "tone_color Plain_tone = Some ''#d5d8de''"
| "tone_color No_tone = None"

type_synonym yaml_piece = "tone \<times> string"

text \<open>\<open>/^-?\d+(\.\d+)?$/\<close> and the YAML words.\<close>

definition yaml_number :: "string \<Rightarrow> bool" where
  "yaml_number s = (let t = (if starts_with s ''-'' then drop 1 s else s);
       whole = takeWhile digit t; rest = dropWhile digit t in
     whole \<noteq> [] \<and> (rest = [] \<or> hd rest = CHR ''.'' \<and> tl rest \<noteq> [] \<and> list_all digit (tl rest)))"

definition yaml_word :: "string \<Rightarrow> bool" where
  "yaml_word s \<longleftrightarrow> to_lower s \<in> set [''true'', ''false'', ''yes'', ''no'', ''on'', ''off'', ''null'', ''~'']"

definition valueColor :: "string \<Rightarrow> tone" where
  "valueColor v = (let s = trim v in if yaml_word s \<or> yaml_number s then Number_tone else String_tone)"

text \<open>The loop of \<open>splitComment\<close>: the open quote, and the character before, if there is one.\<close>

fun comment_at :: "char option \<Rightarrow> char option \<Rightarrow> string \<Rightarrow> string \<times> string" where
  "comment_at q prev [] = ([], [])"
| "comment_at q prev (c # cs) =
    (case q of
       Some x \<Rightarrow> (let (v, k) = comment_at (if c = x then None else q) (Some c) cs in (c # v, k))
     | None \<Rightarrow>
         if c = CHR 0x22 \<or> c = CHR 0x27 then (let (v, k) = comment_at (Some c) (Some c) cs in (c # v, k))
         else if c = CHR ''#'' \<and> (case prev of None \<Rightarrow> True | Some p \<Rightarrow> ws p) then ([], c # cs)
         else (let (v, k) = comment_at None (Some c) cs in (c # v, k)))"

definition splitComment :: "string \<Rightarrow> string \<times> string" where
  "splitComment v = comment_at None None v"

definition one_line_text :: "string \<Rightarrow> bool" where
  "one_line_text s \<longleftrightarrow> LF \<notin> set s \<and> CR \<notin> set s"

text \<open>The key at the start of a text: a plain key runs to the first colon or hash, a quoted one to its
  closing quote.\<close>

definition yaml_key :: "string \<Rightarrow> (string \<times> string) option" where
  "yaml_key s = (case s of
     [] \<Rightarrow> None
   | c # cs \<Rightarrow>
       if c = CHR 0x22 \<or> c = CHR 0x27 then
         (let b = takeWhile (\<lambda>x. x \<noteq> c) cs; r = dropWhile (\<lambda>x. x \<noteq> c) cs in
          if r = [] then None else Some (c # b @ [c], tl r))
       else if ws c \<or> c = CHR '':'' \<or> c = CHR ''#'' then None
       else Some (takeWhile (\<lambda>x. x \<noteq> CHR '':'' \<and> x \<noteq> CHR ''#'') s, dropWhile (\<lambda>x. x \<noteq> CHR '':'' \<and> x \<noteq> CHR ''#'') s))"

text \<open>The key, the blank after its colon, and the rest of the line.\<close>

definition key_part :: "string \<Rightarrow> (string \<times> string \<times> string) option" where
  "key_part s = (case yaml_key s of
     None \<Rightarrow> None
   | Some (k, r) \<Rightarrow> (case r of
       [] \<Rightarrow> None
     | c # r' \<Rightarrow> if c \<noteq> CHR '':'' then None
         else (case r' of
             [] \<Rightarrow> Some (k, [], [])
           | b # rest \<Rightarrow> if ws b \<and> one_line_text rest then Some (k, [b], rest) else None)))"

record key_match =
  km_ind :: string
  km_dash :: string
  km_key :: string
  km_sp :: string
  km_rest :: string

definition match_key :: "string \<Rightarrow> key_match option" where
  "match_key line =
    (let ind = takeWhile ws line; s = dropWhile ws line;
         gap = takeWhile ws (drop 1 s);
         dashed = (if starts_with s ''-'' \<and> gap \<noteq> [] then key_part (dropWhile ws (drop 1 s)) else None) in
     case dashed of
       Some (k, sp, rest) \<Rightarrow> Some \<lparr>km_ind = ind, km_dash = CHR ''-'' # gap, km_key = k, km_sp = sp, km_rest = rest\<rparr>
     | None \<Rightarrow> map_option (\<lambda>(k, sp, rest). \<lparr>km_ind = ind, km_dash = [], km_key = k, km_sp = sp, km_rest = rest\<rparr>) (key_part s))"

definition match_item :: "string \<Rightarrow> (string \<times> string \<times> string) option" where
  "match_item line =
    (let ind = takeWhile ws line; s = dropWhile ws line; gap = takeWhile ws (drop 1 s); rest = dropWhile ws (drop 1 s) in
     if starts_with s ''-'' \<and> one_line_text rest then Some (ind, gap, rest) else None)"

definition block_scalar :: "string \<Rightarrow> bool" where
  "block_scalar v = (let s = dropWhile ws v in s \<noteq> [] \<and> (hd s = CHR ''|'' \<or> hd s = CHR ''>''))"

definition unless_empty :: "tone \<Rightarrow> string \<Rightarrow> yaml_piece list" where
  "unless_empty t s = (if s = [] then [] else [(t, s)])"

definition highlightLine :: "string \<Rightarrow> yaml_piece list" where
  "highlightLine line =
    (let s = dropWhile ws line in
     if s \<noteq> [] \<and> hd s = CHR ''#'' then [(Comment_tone, line)]
     else (case match_key line of
       Some m \<Rightarrow> (let (v, com) = splitComment (km_rest m) in
         [(No_tone, km_ind m)] @ unless_empty Punct_tone (km_dash m) @ [(Key_tone, km_key m), (Punct_tone, '':''), (No_tone, km_sp m)] @
         unless_empty (if block_scalar v then Punct_tone else valueColor v) v @ unless_empty Comment_tone com)
     | None \<Rightarrow> (case match_item line of
         Some (ind, gap, rest) \<Rightarrow> (let (v, com) = splitComment rest in
           [(No_tone, ind), (Punct_tone, ''-''), (No_tone, gap), (valueColor v, v)] @ unless_empty Comment_tone com)
       | None \<Rightarrow> [(Plain_tone, line)])))"

lemma comment_at_join: "fst (comment_at q prev s) @ snd (comment_at q prev s) = s"
proof (induction s arbitrary: q prev)
  case (Cons c cs)
  then show ?case by (simp add: Let_def case_prod_beta split: option.split)
qed simp

lemma splitComment_join: "splitComment s = (v, k) \<Longrightarrow> v @ k = s"
  using comment_at_join [of None None s] by (simp add: splitComment_def)

lemma comment_at_hash: "snd (comment_at q prev s) = [] \<or> hd (snd (comment_at q prev s)) = CHR ''#''"
proof (induction s arbitrary: q prev)
  case (Cons c cs)
  then show ?case by (simp add: Let_def case_prod_beta split: option.split)
qed simp

lemma starts_with_char: "starts_with s [c] \<longleftrightarrow> (\<exists>r. s = c # r)"
  by (cases s) (auto simp: starts_with_def)

lemma yaml_key_join: "yaml_key s = Some (k, r) \<Longrightarrow> k @ r = s"
proof (cases s)
  case (Cons c cs)
  assume y: "yaml_key s = Some (k, r)"
  have d: "dropWhile P cs \<noteq> [] \<Longrightarrow> takeWhile P cs @ hd (dropWhile P cs) # tl (dropWhile P cs) = cs" for P
    by simp
  show ?thesis
  proof (cases "c = CHR 0x22 \<or> c = CHR 0x27")
    case True
    with y Cons have r: "dropWhile (\<lambda>x. x \<noteq> c) cs \<noteq> []" "k = c # takeWhile (\<lambda>x. x \<noteq> c) cs @ [c]"
      "r = tl (dropWhile (\<lambda>x. x \<noteq> c) cs)" by (auto simp: yaml_key_def Let_def split: if_splits)
    moreover have "hd (dropWhile (\<lambda>x. x \<noteq> c) cs) = c" using hd_dropWhile [OF r(1)] by simp
    ultimately show ?thesis using d [OF r(1)] Cons by simp
  next
    case False
    with y Cons show ?thesis by (auto simp: yaml_key_def split: if_splits simp del: takeWhile.simps dropWhile.simps)
  qed
qed (simp add: yaml_key_def)

lemma key_part_join: "key_part s = Some (k, sp, rest) \<Longrightarrow> k @ '':'' @ sp @ rest = s"
  by (auto simp: key_part_def dest!: yaml_key_join split: option.splits list.splits if_splits)

lemma match_key_join: "match_key line = Some m \<Longrightarrow> km_ind m @ km_dash m @ km_key m @ '':'' @ km_sp m @ km_rest m = line"
proof -
  assume m: "match_key line = Some m"
  let ?s = "dropWhile ws line"
  have line: "takeWhile ws line @ ?s = line" by simp
  show ?thesis
  proof (cases "starts_with ?s ''-'' \<and> takeWhile ws (drop 1 ?s) \<noteq> [] \<and> key_part (dropWhile ws (drop 1 ?s)) \<noteq> None")
    case True
    then obtain k sp rest where k: "key_part (dropWhile ws (drop 1 ?s)) = Some (k, sp, rest)" by auto
    with True m have "m = \<lparr>km_ind = takeWhile ws line, km_dash = CHR ''-'' # takeWhile ws (drop 1 ?s), km_key = k, km_sp = sp, km_rest = rest\<rparr>"
      by (simp add: match_key_def Let_def)
    moreover obtain r where "?s = CHR ''-'' # r" using True by (auto simp: starts_with_char)
    moreover from this key_part_join [OF k] have "takeWhile ws r @ k @ '':'' @ sp @ rest = r"
      by (metis drop0 drop_Suc_Cons One_nat_def takeWhile_dropWhile_id)
    ultimately show ?thesis using line by simp
  next
    case False
    then have none: "(if starts_with ?s ''-'' \<and> takeWhile ws (drop 1 ?s) \<noteq> [] then key_part (dropWhile ws (drop 1 ?s)) else None) = None"
      by metis
    obtain k sp rest where k: "key_part ?s = Some (k, sp, rest)"
      and "m = \<lparr>km_ind = takeWhile ws line, km_dash = [], km_key = k, km_sp = sp, km_rest = rest\<rparr>"
      using m unfolding match_key_def Let_def none by auto
    with key_part_join [OF k] line show ?thesis by simp
  qed
qed

lemma match_item_join: "match_item line = Some (ind, gap, rest) \<Longrightarrow> ind @ ''-'' @ gap @ rest = line"
proof -
  assume m: "match_item line = Some (ind, gap, rest)"
  let ?s = "dropWhile ws line"
  obtain r where r: "?s = CHR ''-'' # r" using m by (auto simp: match_item_def Let_def starts_with_char split: if_splits)
  with m have "ind = takeWhile ws line" "gap @ rest = r" by (auto simp: match_item_def Let_def split: if_splits)
  with r show ?thesis by (metis append_Cons append_Nil takeWhile_dropWhile_id)
qed

lemma highlight_line_join: "concat (map snd (highlightLine line)) = line"
proof (cases "match_key line")
  case (Some m)
  obtain v k where s: "splitComment (km_rest m) = (v, k)" by fastforce
  from match_key_join [OF Some] splitComment_join [OF s]
  have "km_ind m @ km_dash m @ km_key m @ '':'' @ km_sp m @ v @ k = line" by simp
  then show ?thesis by (auto simp: highlightLine_def Let_def Some s unless_empty_def)
next
  case None
  show ?thesis
  proof (cases "match_item line")
    case (Some x)
    obtain ind gap rest where x: "x = (ind, gap, rest)" by (cases x)
    obtain v k where s: "splitComment rest = (v, k)" by fastforce
    from match_item_join [OF Some [unfolded x]] splitComment_join [OF s]
    have "ind @ ''-'' @ gap @ v @ k = line" by simp
    then show ?thesis by (auto simp: highlightLine_def Let_def None Some x s unless_empty_def)
  qed (simp add: highlightLine_def Let_def None)
qed

lemma highlight_pieces: "join [LF] (map (\<lambda>l. concat (map snd (highlightLine l))) (split_on LF v)) = v"
  by (simp add: highlight_line_join join_split_on)

text \<open>C16: highlighting loses nothing: the coloured pieces of every line joined are the line, so the
  layer under the transparent text area shows exactly the text that is edited.\<close>

theorem highlight_lossless:
  "concat (map snd (highlightLine line)) = line \<and>
   join [LF] (map (\<lambda>l. concat (map snd (highlightLine l))) (split_on LF v)) = v"
  by (simp add: highlight_line_join join_split_on)

section \<open>The Tab key\<close>

record edit =
  ed_value :: string
  ed_start :: nat
  ed_end :: nat

text \<open>\<open>value.lastIndexOf("\n", s - 1) + 1\<close>: a negative position counts as 0.\<close>

definition line_start :: "string \<Rightarrow> nat \<Rightarrow> nat" where
  "line_start v s = (case last_index_of LF (take (max 1 s) v) of Some i \<Rightarrow> Suc i | None \<Rightarrow> 0)"

definition outdent_by :: "string \<Rightarrow> nat \<Rightarrow> nat" where
  "outdent_by v ls = (if take 2 (drop ls v) = ''  '' then 2
     else if ls < length v \<and> v ! ls = CHR '' '' then 1 else 0)"

definition tab_edit :: "bool \<Rightarrow> bool \<Rightarrow> edit \<Rightarrow> edit" where
  "tab_edit readOnly shift e =
    (if readOnly then e
     else if shift then
       (let ls = line_start (ed_value e) (ed_start e); n = outdent_by (ed_value e) ls in
        if n = 0 then e
        else \<lparr>ed_value = take ls (ed_value e) @ drop (ls + n) (ed_value e),
              ed_start = max ls (ed_start e - n), ed_end = max ls (ed_end e - n)\<rparr>)
     else \<lparr>ed_value = take (ed_start e) (ed_value e) @ ''  '' @ drop (ed_end e) (ed_value e),
           ed_start = ed_start e + 2, ed_end = ed_start e + 2\<rparr>)"

lemma outdent_blanks: "outdent_by v ls \<le> 2 \<and> take (outdent_by v ls) (drop ls v) = replicate (outdent_by v ls) (CHR '' '')"
  by (auto simp: outdent_by_def take_Suc_conv_app_nth numeral_2_eq_2)

lemma line_start_bound: "line_start v s \<le> length v"
proof (cases "last_index_of LF (take (max 1 s) v)")
  case (Some i)
  from last_index_of_Some [OF this] have "i < length (take (max 1 s) v)" by blast
  then show ?thesis using Some by (simp add: line_start_def)
qed (simp add: line_start_def)



text \<open>With the caret on an empty first line, \<open>lastIndexOf("\n", -1)\<close> finds the line's own end, and
  Shift+Tab outdents the second line.\<close>

lemma outdent_first_line_empty:
  "tab_edit False True \<lparr>ed_value = [LF] @ ''  image: nginx'', ed_start = 0, ed_end = 0\<rparr> =
     \<lparr>ed_value = [LF] @ ''image: nginx'', ed_start = 1, ed_end = 1\<rparr>"
  by code_simp

section \<open>Validation\<close>

text \<open>\<open>useComposeValidation\<close>: the content being validated (none when disabled or blank), and whether the
  current effect waits for its timer or for its answer. A finished state carries the content it
  answers, which the code does not keep.\<close>

datatype validation = Val_idle | Val_checking | Val_done string compose_validation | Val_error string

datatype val_wait = No_wait | Wait_timer | Wait_answer

record val_state =
  vl_content :: "string option"
  vl_wait :: val_wait
  vl_shown :: validation

datatype val_event = Val_input "string option" | Val_timer | Val_answer compose_validation | Val_fail string | Val_late

definition val_input :: "bool \<Rightarrow> string \<Rightarrow> string option" where
  "val_input enabled content = (if \<not> enabled \<or> trim content = [] then None else Some content)"

definition val_start :: val_state where
  "val_start = \<lparr>vl_content = None, vl_wait = No_wait, vl_shown = Val_idle\<rparr>"

definition keep_done :: "validation \<Rightarrow> validation" where
  "keep_done s = (case s of Val_done c r \<Rightarrow> Val_done c r | _ \<Rightarrow> Val_checking)"

text \<open>The answer to a request whose effect has been cleaned up (\<open>Val_late\<close>) is ignored.\<close>

fun val_step :: "val_event \<Rightarrow> val_state \<Rightarrow> val_state" where
  "val_step (Val_input k) st = (case k of
     None \<Rightarrow> st\<lparr>vl_content := None, vl_wait := No_wait, vl_shown := Val_idle\<rparr>
   | Some c \<Rightarrow> st\<lparr>vl_content := Some c, vl_wait := Wait_timer, vl_shown := keep_done (vl_shown st)\<rparr>)"
| "val_step Val_timer st = st\<lparr>vl_wait := Wait_answer\<rparr>"
| "val_step (Val_answer r) st = st\<lparr>vl_wait := No_wait, vl_shown := Val_done (case vl_content st of Some c \<Rightarrow> c | None \<Rightarrow> []) r\<rparr>"
| "val_step (Val_fail m) st = st\<lparr>vl_wait := No_wait, vl_shown := Val_error m\<rparr>"
| "val_step Val_late st = st"

fun val_enabled :: "val_event \<Rightarrow> val_state \<Rightarrow> bool" where
  "val_enabled (Val_input k) st \<longleftrightarrow> k \<noteq> vl_content st"
| "val_enabled Val_timer st \<longleftrightarrow> vl_wait st = Wait_timer"
| "val_enabled (Val_answer r) st \<longleftrightarrow> vl_wait st = Wait_answer"
| "val_enabled (Val_fail m) st \<longleftrightarrow> vl_wait st = Wait_answer"
| "val_enabled Val_late st \<longleftrightarrow> True"

inductive val_reaches :: "val_state \<Rightarrow> bool" where
  val_init: "val_reaches val_start"
| val_next: "val_reaches st \<Longrightarrow> val_enabled e st \<Longrightarrow> val_reaches (val_step e st)"

definition isValid :: "validation \<Rightarrow> bool" where
  "isValid s \<longleftrightarrow> (case s of Val_done c r \<Rightarrow> cv_ok r | _ \<Rightarrow> False)"

definition val_ok :: "val_state \<Rightarrow> bool" where
  "val_ok st \<longleftrightarrow>
     (case vl_shown st of
        Val_idle \<Rightarrow> vl_content st = None \<and> vl_wait st = No_wait
      | Val_checking \<Rightarrow> vl_content st \<noteq> None \<and> vl_wait st \<noteq> No_wait
      | Val_done c r \<Rightarrow> vl_content st \<noteq> None \<and> (vl_wait st \<noteq> No_wait \<or> vl_content st = Some c)
      | Val_error m \<Rightarrow> vl_content st \<noteq> None \<and> vl_wait st = No_wait)"

lemma val_ok_step: "val_ok st \<Longrightarrow> val_enabled e st \<Longrightarrow> val_ok (val_step e st)"
  by (cases e) (auto simp: val_ok_def keep_done_def split: validation.splits option.splits)


definition sample_valid :: val_state where
  "sample_valid = fold val_step [Val_input (Some ''a''), Val_timer, Val_input (Some ''ab''), Val_timer,
     Val_answer \<lparr>cv_ok = True, cv_error = [], cv_line = 0, cv_services = []\<rparr>] val_start"


definition validation_line :: "validation \<Rightarrow> 'e view" where
  "validation_line s = (case s of
     Val_idle \<Rightarrow> Text ''Empty file''
   | Val_checking \<Rightarrow> Text (''Validating'' @ ellipsis)
   | Val_error m \<Rightarrow> Text (''Couldn't validate: '' @ m)
   | Val_done c r \<Rightarrow>
       if cv_ok r then Text (''Valid '' @ middot @ '' '' @ show_nat (length (cv_services r)) @ '' service'' @ s_unless_1 (int (length (cv_services r))))
       else Text ((if cv_line r \<noteq> 0 then ''Line '' @ show_int (cv_line r) @ '': '' else []) @
         (if cv_error r = [] then ''Invalid compose file'' else cv_error r)))"

section \<open>The editor and the templates\<close>

definition error_at :: "int option \<Rightarrow> nat \<Rightarrow> bool" where
  "error_at errorLine i \<longleftrightarrow> errorLine = Some (int i + 1)"

text \<open>The gutter: the number of each line and whether it is marked; the coloured lines beside it.\<close>

definition gutter :: "int option \<Rightarrow> string \<Rightarrow> (string \<times> bool) list" where
  "gutter errorLine v = map (\<lambda>i. (show_nat (i + 1), error_at errorLine i)) [0 ..< length (split_on LF v)]"

definition code_layer :: "int option \<Rightarrow> string \<Rightarrow> (yaml_piece list \<times> bool) list" where
  "code_layer errorLine v = map2 (\<lambda>i l. (highlightLine l, error_at errorLine i)) [0 ..< length (split_on LF v)] (split_on LF v)"

record compose_template =
  ct_id :: string
  ct_label :: string
  ct_content :: string

definition template_chips :: "compose_template list \<Rightarrow> (compose_template \<Rightarrow> 'e) \<Rightarrow> 'e view" where
  "template_chips ts pick = Group (map (\<lambda>t. Button (ct_label t) True (pick t)) ts)"

text \<open>\<open>/^[a-z0-9][a-z0-9_-]*$/\<close>.\<close>

definition stack_char :: "char \<Rightarrow> bool" where
  "stack_char c \<longleftrightarrow> lower_letter c \<or> digit c \<or> c = CHR ''_'' \<or> c = CHR ''-''"

definition stack_name :: "string \<Rightarrow> bool" where
  "stack_name s \<longleftrightarrow> s \<noteq> [] \<and> (lower_letter (hd s) \<or> digit (hd s)) \<and> list_all stack_char s"

text \<open>The numbers in the gutter and the coloured lines agree line by line, with each other and with
  the text, and the line the validation names is marked in both, when it is a line of the text.\<close>

theorem gutter_agrees:
  "map snd (gutter errorLine v) = map snd (code_layer errorLine v) \<and>
   length (gutter errorLine v) = length (split_on LF v) \<and>
   join [LF] (map (\<lambda>(ps, m). concat (map snd ps)) (code_layer errorLine v)) = v \<and>
   \<not> (\<exists>n < length (split_on LF v). \<not> snd (gutter (Some (int n + 1)) v ! n))"
proof -
  have "map (\<lambda>(ps, m). concat (map snd ps)) (map2 (\<lambda>i l. (highlightLine l, f i)) [k ..< k + length ls] ls) =
      map (\<lambda>l. concat (map snd (highlightLine l))) ls" for f :: "nat \<Rightarrow> bool" and k ls
    by (rule nth_equalityI) auto
  from this [of "error_at errorLine" 0 "split_on LF v"]
  have j: "join [LF] (map (\<lambda>(ps, m). concat (map snd ps)) (code_layer errorLine v)) = v"
    using highlight_pieces [of v] by (simp add: code_layer_def)
  have s: "map snd (gutter errorLine v) = map snd (code_layer errorLine v)"
    by (rule nth_equalityI) (auto simp: gutter_def code_layer_def)
  show ?thesis
    using j s by (auto simp: gutter_def error_at_def)
qed

end
