(* ===== verification/Compose_Flow.thy ===== *)
theory Compose_Flow
  imports Compose_Editor Image_Page
begin

text \<open>
  The compose deploy (components/deploy/ComposeFlow.tsx): the name and template step, the editor
  step with its validation and check, the rewriting of published ports by a fix, and the
  request. A text is rewritten by one scan from the left, as a global regular expression with a
  sticky position does; the new port has no dollar sign, which a replacement text would read.
\<close>

section \<open>Rewriting published ports\<close>

text \<open>\<open>[\s"'\-\[,:]\<close>, and \<open>from(?=:\d)\<close> at the start of a text.\<close>

definition before_port :: "char \<Rightarrow> bool" where
  "before_port c \<longleftrightarrow> ws c \<or> c = CHR 0x22 \<or> c = CHR 0x27 \<or> c = CHR ''-'' \<or> c = CHR ''['' \<or> c = CHR '','' \<or> c = CHR '':''"

definition port_here :: "string \<Rightarrow> string \<Rightarrow> bool" where
  "port_here old s \<longleftrightarrow> starts_with s old \<and>
     (case drop (length old) s of c # d # _ \<Rightarrow> c = CHR '':'' \<and> digit d | _ \<Rightarrow> False)"

text \<open>The scan: whether the position is the start of a line, and the rest of the text.\<close>

function rewrite_port :: "string \<Rightarrow> string \<Rightarrow> bool \<Rightarrow> string \<Rightarrow> string" where
  "rewrite_port old new bol s =
    (if bol \<and> port_here old s \<and> old \<noteq> [] then new @ rewrite_port old new False (drop (length old) s)
     else case s of
       [] \<Rightarrow> []
     | c # cs \<Rightarrow>
         if before_port c \<and> port_here old cs then c # new @ rewrite_port old new False (drop (length old) cs)
         else c # rewrite_port old new (c = LF \<or> c = CR) cs)"
  by pat_completeness auto
termination
proof (relation "measure (\<lambda>(f, t, b, s). length s)")
  fix old :: string and bol and s :: string
  assume h: "bol \<and> port_here old s \<and> old \<noteq> []"
  then have "s \<noteq> []" by (cases old) (auto simp: port_here_def starts_with_def)
  with h show "\<And>new. ((old, new, False, drop (length old) s), old, new, bol, s) \<in> measure (\<lambda>(f, t, b, s). length s)"
    by (cases old) auto
qed auto

declare rewrite_port.simps [simp del]

definition fix_ports :: "deploy_issue_fix_patch_ports list \<Rightarrow> string \<Rightarrow> string" where
  "fix_ports ps txt = fold (\<lambda>p t. rewrite_port (deploy_issue_fix_patch_ports_from p) (deploy_issue_fix_patch_ports_to p) True t) ps txt"

text \<open>Whether a port is published at a position of a text.\<close>

fun mentions_port :: "string \<Rightarrow> bool \<Rightarrow> string \<Rightarrow> bool" where
  "mentions_port old bol [] \<longleftrightarrow> bol \<and> port_here old []"
| "mentions_port old bol (c # cs) \<longleftrightarrow> bol \<and> port_here old (c # cs) \<or> before_port c \<and> port_here old cs \<or>
     mentions_port old (c = LF \<or> c = CR) cs"

lemma rewrite_port_unmentioned: "\<not> mentions_port old bol s \<Longrightarrow> rewrite_port old new bol s = s"
proof (induction s arbitrary: bol)
  case Nil
  then show ?case by (subst rewrite_port.simps) (auto simp: port_here_def)
next
  case (Cons c cs)
  then show ?case by (subst rewrite_port.simps) auto
qed

lemma rewrite_port_same: "rewrite_port old old bol s = s"
proof (induction s arbitrary: bol rule: length_induct)
  case (1 s)
  have split: "port_here old r \<Longrightarrow> old @ drop (length old) r = r" for r
    by (auto simp: port_here_def starts_with_def) (metis append_take_drop_id)
  have ne: "port_here old r \<Longrightarrow> r \<noteq> []" for r by (cases old) (auto simp: port_here_def starts_with_def)
  show ?case
  proof (cases "bol \<and> port_here old s \<and> old \<noteq> []")
    case True
    then have "length (drop (length old) s) < length s" using ne [of s] by (cases old) auto
    with 1 have "rewrite_port old old False (drop (length old) s) = drop (length old) s" by blast
    with True split show ?thesis by (subst rewrite_port.simps) simp
  next
    case False
    show ?thesis
    proof (cases s)
      case Nil
      with False show ?thesis by (subst rewrite_port.simps) auto
    next
      case (Cons c cs)
      have "length (drop (length old) cs) < length s" using Cons by simp
      then have "rewrite_port old old b (drop (length old) cs) = drop (length old) cs" for b using 1 by blast
      moreover have "rewrite_port old old b cs = cs" for b using 1 Cons by simp
      ultimately show ?thesis using False split [of cs] Cons by (subst rewrite_port.simps) auto
    qed
  qed
qed

lemma rewrite_port_lines:
  assumes "LF \<notin> set old" "LF \<notin> set new"
  shows "length (filter (\<lambda>c. c = LF) (rewrite_port old new bol s)) = length (filter (\<lambda>c. c = LF) s)"
proof (induction s arbitrary: bol rule: length_induct)
  case (1 s)
  let ?n = "\<lambda>s. length (filter (\<lambda>c. c = LF) s)"
  have split: "port_here old r \<Longrightarrow> ?n (drop (length old) r) = ?n r" for r
  proof -
    assume "port_here old r"
    then have "r = old @ drop (length old) r" by (auto simp: port_here_def starts_with_def) (metis append_take_drop_id)
    then have "?n r = ?n old + ?n (drop (length old) r)" by (metis filter_append length_append)
    moreover have "filter (\<lambda>c. c = LF) old = []" using assms(1) by (auto simp: filter_empty_conv)
    ultimately show ?thesis by simp
  qed
  have lf: "filter (\<lambda>c. c = LF) new = []" using assms(2) by (auto simp: filter_empty_conv)
  have ne: "port_here old r \<Longrightarrow> r \<noteq> []" for r by (cases old) (auto simp: port_here_def starts_with_def)
  show ?case
  proof (cases "bol \<and> port_here old s \<and> old \<noteq> []")
    case True
    then have "length (drop (length old) s) < length s" using ne [of s] by (cases old) auto
    with 1 have "?n (rewrite_port old new False (drop (length old) s)) = ?n (drop (length old) s)" by blast
    with True split [of s] lf show ?thesis by (subst rewrite_port.simps) simp
  next
    case False
    show ?thesis
    proof (cases s)
      case Nil
      with False show ?thesis by (subst rewrite_port.simps) auto
    next
      case (Cons c cs)
      have "length (drop (length old) cs) < length s" using Cons by simp
      then have "?n (rewrite_port old new b (drop (length old) cs)) = ?n (drop (length old) cs)" for b using 1 by blast
      moreover have "?n (rewrite_port old new b cs) = ?n cs" for b using 1 Cons by simp
      ultimately show ?thesis using False split [of cs] lf Cons by (subst rewrite_port.simps) auto
    qed
  qed
qed

text \<open>A port of digits is published exactly where a run of digits equals it and a colon and a digit
  follow.\<close>

definition port_number :: "string \<Rightarrow> bool" where
  "port_number p \<longleftrightarrow> p \<noteq> [] \<and> list_all digit p"

definition colon_digit :: "string \<Rightarrow> bool" where
  "colon_digit s \<longleftrightarrow> (case s of c # d # _ \<Rightarrow> c = CHR '':'' \<and> digit d | _ \<Rightarrow> False)"

lemma digit_plain: "digit c \<Longrightarrow> \<not> before_port c \<and> c \<noteq> LF \<and> c \<noteq> CR"
  using digit_not_ws [of c] by (auto simp: before_port_def digit_def code_def LF_def CR_def ws_def)

lemma port_here_digits:
  assumes "port_number p"
  shows "port_here p s \<longleftrightarrow> takeWhile digit s = p \<and> colon_digit (dropWhile digit s)"
proof
  assume h: "port_here p s"
  then obtain r where s: "s = p @ r" and c: "colon_digit r"
    by (auto simp: port_here_def starts_with_def colon_digit_def) (metis append_take_drop_id)
  then obtain d t where r: "r = CHR '':'' # d # t" by (auto simp: colon_digit_def split: list.splits)
  have "\<not> digit (CHR '':'')" by (simp add: js_simps)
  with assms have "takeWhile digit (p @ r) = p \<and> dropWhile digit (p @ r) = r"
    unfolding r port_number_def by (simp add: list_all_iff takeWhile_append2 dropWhile_append2)
  with s c show "takeWhile digit s = p \<and> colon_digit (dropWhile digit s)" by simp
next
  assume h: "takeWhile digit s = p \<and> colon_digit (dropWhile digit s)"
  then have "s = p @ dropWhile digit s" by (metis takeWhile_dropWhile_id)
  then have "take (length p) s = p" "drop (length p) s = dropWhile digit s"
    by (metis append_eq_conv_conj)+
  with h show "port_here p s" by (simp add: port_here_def starts_with_def colon_digit_def)
qed

lemma rewrite_digits:
  "rewrite_port old new False s = takeWhile digit s @ rewrite_port old new False (dropWhile digit s)"
proof (induction s)
  case (Cons c cs)
  then show ?case using digit_plain [of c] by (cases "digit c") (subst rewrite_port.simps, auto)+
qed simp

lemma rewrite_head:
  assumes "port_number old" "port_number new" "s = [] \<or> \<not> digit (hd s)"
  shows "colon_digit (rewrite_port old new False s) \<longleftrightarrow> colon_digit s"
    "rewrite_port old new False s = [] \<or> \<not> digit (hd (rewrite_port old new False s))"
proof -
  have first: "colon_digit (c # r) \<longleftrightarrow> c = CHR '':'' \<and> r \<noteq> [] \<and> digit (hd r)" for c r
    by (cases r) (auto simp: colon_digit_def)
  have d: "port_here old cs \<Longrightarrow> cs \<noteq> [] \<and> digit (hd cs)" for cs
    using assms(1) by (cases cs) (auto simp: port_here_digits port_number_def split: if_splits)
  have n: "new \<noteq> []" "digit (hd new)" using assms(2) by (cases new; simp add: port_number_def)+
  have h: "r \<noteq> [] \<and> digit (hd r) \<longleftrightarrow> cs \<noteq> [] \<and> digit (hd cs)"
    if "r = rewrite_port old new False cs" "\<not> port_here old cs" for r cs
  proof (cases cs)
    case Nil
    with that show ?thesis by (subst (asm) rewrite_port.simps) simp
  next
    case (Cons x xs)
    with that show ?thesis by (subst (asm) rewrite_port.simps) (auto split: if_splits)
  qed
  show "colon_digit (rewrite_port old new False s) \<longleftrightarrow> colon_digit s"
  proof (cases s)
    case Nil
    then show ?thesis by (subst rewrite_port.simps) simp
  next
    case (Cons c cs)
    have b: "before_port (CHR '':'')" "CHR '':'' \<noteq> LF" "CHR '':'' \<noteq> CR" by (simp_all add: before_port_def eol_literals)
    show ?thesis
      using d [of cs] n h [of "rewrite_port old new False cs" cs] Cons b
      by (subst rewrite_port.simps) (auto simp: first)
  qed
  show "rewrite_port old new False s = [] \<or> \<not> digit (hd (rewrite_port old new False s))"
  proof (cases s)
    case Nil
    then show ?thesis by (subst rewrite_port.simps) simp
  next
    case (Cons c cs)
    with assms(3) have "\<not> digit c" by simp
    then show ?thesis unfolding Cons rewrite_port.simps [of old new False "c # cs"] by simp
  qed
qed

lemma rewrite_port_here:
  assumes "port_number old" "port_number new"
  shows "port_here old (rewrite_port old new False s) \<longleftrightarrow> port_here old s"
proof -
  let ?r = "rewrite_port old new False (dropWhile digit s)"
  have r: "dropWhile digit s = [] \<or> \<not> digit (hd (dropWhile digit s))"
    using hd_dropWhile [of digit s] by blast
  note h = rewrite_head [OF assms r]
  have all: "\<And>x. x \<in> set (takeWhile digit s) \<Longrightarrow> digit x" by (auto dest: set_takeWhileD)
  have "takeWhile digit ?r = []" "dropWhile digit ?r = ?r" using h(2) by (cases ?r; simp)+
  then have "takeWhile digit (rewrite_port old new False s) = takeWhile digit s"
    "dropWhile digit (rewrite_port old new False s) = ?r"
    unfolding rewrite_digits [of old new s] using all by (simp_all add: takeWhile_append2 dropWhile_append2)
  then show ?thesis by (simp add: port_here_digits [OF assms(1)] h(1))
qed

lemma mentions_after_digits: "list_all digit ds \<Longrightarrow> mentions_port old False (ds @ r) \<longleftrightarrow> mentions_port old False r"
  using digit_plain by (induction ds) auto

lemma no_port_new:
  assumes "port_number old" "port_number new" "old \<noteq> new" "colon_digit r"
  shows "\<not> port_here old (new @ r)"
proof -
  obtain d t where r: "r = CHR '':'' # d # t" using assms(4) by (auto simp: colon_digit_def split: list.splits)
  have "\<not> digit (CHR '':'')" by (simp add: js_simps)
  with assms(2) have "takeWhile digit (new @ r) = new"
    unfolding r port_number_def by (simp add: list_all_iff takeWhile_append2)
  with assms show ?thesis by (simp add: port_here_digits)
qed

lemma after_port:
  assumes "port_number old" "port_number new" "port_here old s"
  shows "colon_digit (rewrite_port old new False (drop (length old) s))"
proof -
  have c: "colon_digit (drop (length old) s)" using assms(3) by (simp add: port_here_def colon_digit_def)
  then have "\<not> digit (hd (drop (length old) s))"
    by (auto simp: colon_digit_def js_simps split: list.splits)
  with rewrite_head(1) [OF assms(1, 2)] c show ?thesis by blast
qed

lemma mentions_new:
  assumes "port_number old" "port_number new" "old \<noteq> new" "colon_digit r" "\<not> mentions_port old False r"
  shows "\<not> mentions_port old b (new @ r)"
proof -
  obtain d ds where new: "new = d # ds" "digit d" "list_all digit ds"
    using assms(2) by (cases new) (auto simp: port_number_def)
  have "\<not> mentions_port old False (ds @ r)" using mentions_after_digits [OF new(3)] assms(5) by blast
  moreover have "\<not> port_here old (d # ds @ r)" using no_port_new [OF assms(1-4)] new(1) by simp
  ultimately show ?thesis using new digit_plain [OF new(2)] by simp
qed

lemma rewrite_port_gone:
  assumes "port_number old" "port_number new" "old \<noteq> new"
  shows "\<not> mentions_port old bol (rewrite_port old new bol s)"
proof (induction s arbitrary: bol rule: length_induct)
  case (1 s)
  note here = rewrite_port_here [OF assms(1, 2)]
  have old: "old \<noteq> []" "digit (hd old)" using assms(1) by (cases old; simp add: port_number_def)+
  have done': "\<not> mentions_port old b (new @ rewrite_port old new False (drop (length old) t))"
    if "port_here old t" "length t \<le> length s" for b t
  proof -
    have "t \<noteq> []" using that(1) old by (auto simp: port_here_def starts_with_def)
    then have "length (drop (length old) t) < length s" using that(2) old by (cases old; cases t) auto
    then have "\<not> mentions_port old False (rewrite_port old new False (drop (length old) t))" using 1 by blast
    with mentions_new [OF assms after_port [OF assms(1, 2) that(1)]] show ?thesis by blast
  qed
  show ?case
  proof (cases "bol \<and> port_here old s")
    case True
    then show ?thesis using done' [of s bol] old by (subst rewrite_port.simps) simp
  next
    case False
    then have same: "rewrite_port old new bol s = rewrite_port old new False s"
      by (subst (1 2) rewrite_port.simps) auto
    show ?thesis
    proof (cases s)
      case Nil
      then show ?thesis using old by (subst rewrite_port.simps) (auto simp: port_here_def starts_with_def)
    next
      case (Cons c cs)
      have no: "\<not> (bol \<and> port_here old (rewrite_port old new False s))" using False here by blast
      show ?thesis
      proof (cases "before_port c \<and> port_here old cs")
        case True
        then have r: "rewrite_port old new False s = c # new @ rewrite_port old new False (drop (length old) cs)"
          unfolding Cons rewrite_port.simps [of old new False "c # cs"] by simp
        have "\<not> port_here old (new @ rewrite_port old new False (drop (length old) cs))"
          using no_port_new [OF assms after_port [OF assms(1, 2)]] True by blast
        with no done' [of cs] True Cons show ?thesis unfolding same unfolding r by simp
      next
        case f: False
        let ?b = "c = LF \<or> c = CR"
        have r: "rewrite_port old new False s = c # rewrite_port old new ?b cs"
          using f unfolding Cons rewrite_port.simps [of old new False "c # cs"] by auto
        have b: "?b \<Longrightarrow> before_port c" by (auto simp: before_port_def ws_def code_def LF_def CR_def)
        have "\<not> (before_port c \<and> port_here old (rewrite_port old new ?b cs))"
        proof
          assume a: "before_port c \<and> port_here old (rewrite_port old new ?b cs)"
          with f have n: "\<not> port_here old cs" by blast
          then have "rewrite_port old new ?b cs = rewrite_port old new False cs"
            by (subst (1 2) rewrite_port.simps) auto
          with a n here show False by simp
        qed
        moreover have "\<not> mentions_port old ?b (rewrite_port old new ?b cs)" using 1 Cons by simp
        ultimately show ?thesis using no unfolding same unfolding r by simp
      qed
    qed
  qed
qed



section \<open>The flow\<close>

record compose_flow =
  cf_step :: nat
  cf_name :: string
  cf_hostId :: string
  cf_tpl :: string
  cf_content :: string
  cf_busy :: bool
  cf_job :: "started option"

record compose_data =
  cd_hosts :: "host list option"
  cd_templates :: "compose_template list"
  cd_validation :: validation
  cd_issues :: "deploy_issue list"
  cd_crit :: nat
  cd_warn :: nat

definition compose_start :: "string \<Rightarrow> compose_flow" where
  "compose_start initialHost = \<lparr>cf_step = 0, cf_name = [], cf_hostId = initialHost, cf_tpl = [],
     cf_content = [], cf_busy = False, cf_job = None\<rparr>"

definition compose_hosts :: "compose_data \<Rightarrow> host list" where
  "compose_hosts d = (case cd_hosts d of Some hs \<Rightarrow> usable_hosts hs | None \<Rightarrow> [])"

definition compose_host :: "compose_data \<Rightarrow> compose_flow \<Rightarrow> host option" where
  "compose_host d st = find (\<lambda>h. h_id h = cf_hostId st) (compose_hosts d)"

text \<open>The effects: the host, and the first template once, before any is chosen.\<close>

definition compose_settle :: "compose_data \<Rightarrow> compose_flow \<Rightarrow> compose_flow" where
  "compose_settle d st = (let s = st\<lparr>cf_hostId := choose_host (compose_hosts d) (cf_hostId st)\<rparr> in
     (case cd_templates d of
        t # _ \<Rightarrow> if cf_tpl s = [] then s\<lparr>cf_tpl := ct_id t, cf_content := ct_content t\<rparr> else s
      | [] \<Rightarrow> s))"

definition name_ok :: "compose_flow \<Rightarrow> bool" where
  "name_ok st \<longleftrightarrow> stack_name (trim (cf_name st))"

definition compose_check_input :: "compose_data \<Rightarrow> compose_flow \<Rightarrow> deploy_check_input option" where
  "compose_check_input d st = (case compose_host d st of
     None \<Rightarrow> None
   | Some h \<Rightarrow> if cf_step st = 1 \<and> name_ok st then Some
       \<lparr>dci_kind = DeployCheckInputKind_compose, dci_hostId = h_id h, dci_name = trim (cf_name st), dci_path = None,
        dci_image = None, dci_ports = None, dci_env = None, dci_requiredEnv = None, dci_composeFile = Some (cf_content st)\<rparr>
     else None)"

definition compose_can_fix :: "deploy_issue \<Rightarrow> bool" where
  "compose_can_fix i = (case di_fix i of None \<Rightarrow> False
     | Some x \<Rightarrow> (let p = deploy_issue_fix_patch x in
         some_text (deploy_issue_fix_patch_name p) \<or> some_items (deploy_issue_fix_patch_ports p)))"

definition compose_apply_fix :: "deploy_issue \<Rightarrow> compose_flow \<Rightarrow> compose_flow" where
  "compose_apply_fix i st = (case di_fix i of None \<Rightarrow> st
     | Some x \<Rightarrow> (let p = deploy_issue_fix_patch x;
         s = (case deploy_issue_fix_patch_name p of Some n \<Rightarrow> if n \<noteq> [] then st\<lparr>cf_name := to_lower n\<rparr> else st | None \<Rightarrow> st) in
       (case deploy_issue_fix_patch_ports p of Some ps \<Rightarrow> s\<lparr>cf_content := fix_ports ps (cf_content s)\<rparr> | None \<Rightarrow> s)))"

datatype compose_event =
  Cf_name string | Cf_host string | Cf_template compose_template | Cf_next | Cf_back
| Cf_content string | Cf_fix deploy_issue | Cf_deploy | Cf_answer host "js_error + string" | Cf_progress progress_click
and progress_click = To_form | Another

datatype compose_effect = Cf_warn string | Cf_toast string | Cf_error string | Post_stack string string string

text \<open>The page after an event, and what it does to the outside.\<close>

fun compose_step :: "compose_data \<Rightarrow> compose_event \<Rightarrow> compose_flow \<Rightarrow> compose_flow \<times> compose_effect list" where
  "compose_step d (Cf_name s) st = (st\<lparr>cf_name := to_lower s\<rparr>, [])"
| "compose_step d (Cf_host h) st = (st\<lparr>cf_hostId := h\<rparr>, [])"
| "compose_step d (Cf_template t) st = (st\<lparr>cf_tpl := ct_id t, cf_content := ct_content t\<rparr>, [])"
| "compose_step d Cf_next st =
     (if \<not> name_ok st then (st, [Cf_warn ''Give the stack a name''])
      else if compose_host d st = None then (st, [Cf_warn ''Pick a host to deploy to''])
      else (st\<lparr>cf_step := 1\<rparr>, []))"
| "compose_step d Cf_back st = (st\<lparr>cf_step := 0\<rparr>, [])"
| "compose_step d (Cf_content s) st = (st\<lparr>cf_content := s\<rparr>, [])"
| "compose_step d (Cf_fix i) st = (compose_apply_fix i st, if di_fix i = None then [] else [Cf_toast (fix_label i)])"
| "compose_step d Cf_deploy st = (case compose_host d st of
     None \<Rightarrow> (st, [])
   | Some h \<Rightarrow> (st\<lparr>cf_busy := True\<rparr>, [Post_stack (h_id h) (trim (cf_name st)) (cf_content st)]))"
| "compose_step d (Cf_answer h r) st = (case r of
     Inr j \<Rightarrow> (st\<lparr>cf_busy := False, cf_step := 2,
         cf_job := Some \<lparr>sj_id = j, sj_name = trim (cf_name st), sj_hostId = h_id h, sj_hostName = h_name h\<rparr>\<rparr>, [])
   | Inl e \<Rightarrow> (st\<lparr>cf_busy := False\<rparr>, [Cf_error (errMsg e)]))"
| "compose_step d (Cf_progress To_form) st = (st\<lparr>cf_step := 1\<rparr>, [])"
| "compose_step d (Cf_progress Another) st = (st\<lparr>cf_job := None, cf_name := [], cf_step := 0\<rparr>, [])"

section \<open>What it shows\<close>

definition name_card :: "compose_data \<Rightarrow> compose_flow \<Rightarrow> compose_event view" where
  "name_card d st = Group [Text ''New stack'', Text ''Stack name'', Input ''e.g. paperless'' (cf_name st) Cf_name,
     Text (''Written to /opt/dockhand/stacks/'' @ (if trim (cf_name st) = [] then ''<name>'' else trim (cf_name st)) @ ''/docker-compose.yml''),
     Text ''Deploy to'', deploy_targets (cd_hosts d) Cf_host (compose_hosts d),
     Text ''Start from'', template_chips (cd_templates d) Cf_template,
     Button ''Continue to compose'' True Cf_next]"

definition host_text :: "compose_data \<Rightarrow> compose_flow \<Rightarrow> string" where
  "host_text d st = (case compose_host d st of Some h \<Rightarrow> h_name h | None \<Rightarrow> [])"

definition error_line :: "validation \<Rightarrow> int option" where
  "error_line v = (case v of Val_done c r \<Rightarrow> if cv_ok r then None else Some (cv_line r) | _ \<Rightarrow> None)"

definition editor_card :: "compose_data \<Rightarrow> compose_flow \<Rightarrow> compose_event view" where
  "editor_card d st = Group [back_button Cf_back, Text (cf_name st), Text (arrow @ '' '' @ host_text d st),
     Input ''docker-compose.yml'' (cf_content st) Cf_content,
     validation_line (cd_validation d), Text (''Runs docker compose up -d on '' @ host_text d st @ ''.''),
     placed Cf_fix (issues_panel (Some compose_can_fix) (cd_issues d) (cd_crit d) (cd_warn d)),
     big_button (deployBtnLabel (cd_crit d) (cd_warn d) (map_option h_name (compose_host d st)))
       (\<not> isValid (cd_validation d)) (cf_busy st) (0 < cd_crit d) Cf_deploy]"

definition compose_view :: "compose_data \<Rightarrow> compose_flow \<Rightarrow> compose_event view" where
  "compose_view d st =
    (if cf_step st = 0 then name_card d st
     else if cf_step st = 1 then editor_card d st
     else case cf_job st of
       Some j \<Rightarrow> Group [Button ''Back to configuration'' True (Cf_progress To_form), Button ''Deploy another'' True (Cf_progress Another)]
     | None \<Rightarrow> Group [])"

text \<open>A stack is only deployed from the editor step with a text the last validation found valid, no
  critical issue and no request running; and what is sent is the trimmed name and the text in the
  editor, to a usable host.\<close>

theorem compose_deploy_gate:
  "(Cf_deploy \<in> set (offers (compose_view d st)) \<longleftrightarrow>
      cf_step st = 1 \<and> isValid (cd_validation d) \<and> \<not> cf_busy st \<and> cd_crit d = 0) \<and>
   (case compose_step d Cf_deploy st of
      (s, [Post_stack h n c]) \<Rightarrow> h \<in> h_id ` set (compose_hosts d) \<and> n = trim (cf_name st) \<and> c = cf_content st \<and> cf_busy s
    | (s, fx) \<Rightarrow> s = st \<and> fx = [] \<and> compose_host d st = None)"
proof
  have "Cf_deploy \<notin> set (offers (name_card d st))"
    by (auto simp: name_card_def template_chips_def)
  moreover have "offers (validation_line (cd_validation d) :: compose_event view) = []"
    by (auto simp: validation_line_def split: validation.splits)
  ultimately show "Cf_deploy \<in> set (offers (compose_view d st)) \<longleftrightarrow>
      cf_step st = 1 \<and> isValid (cd_validation d) \<and> \<not> cf_busy st \<and> cd_crit d = 0"
    by (auto simp: compose_view_def editor_card_def back_button_def big_button_def split: option.splits)
  show "case compose_step d Cf_deploy st of
      (s, [Post_stack h n c]) \<Rightarrow> h \<in> h_id ` set (compose_hosts d) \<and> n = trim (cf_name st) \<and> c = cf_content st \<and> cf_busy s
    | (s, fx) \<Rightarrow> s = st \<and> fx = [] \<and> compose_host d st = None"
    by (auto simp: compose_host_def split: option.splits dest: find_SomeD)
qed

end
