(* ===== verification/Deploy_Progress.thy ===== *)
theory Deploy_Progress
  imports Image_Flow Ui_Parts
begin

text \<open>
  The last page of every deploy (components/deploy/DeployProgress.tsx): the effect that announces
  the end of the job, once, over the snapshots the poller delivers, and what the page shows. The
  title of the announcement and the buttons depend on how the job ended.
\<close>

record deploy_target =
  dt_name :: string
  dt_hostId :: string
  dt_hostName :: string
  dt_stack :: bool

datatype announce = Invalidate string | Live string string | Failed_toast string string

definition failed_step :: "job \<Rightarrow> job_step option" where
  "failed_step j = find (\<lambda>s. js_status s = Step_failed) (job_steps j)"

definition deploy_failure_text :: "job \<Rightarrow> string" where
  "deploy_failure_text j = (case failed_step j of
     Some s \<Rightarrow> if js_sub s \<noteq> [] then js_sub s else ''See the log for details''
   | None \<Rightarrow> ''See the log for details'')"

definition refreshed :: "announce list" where
  "refreshed = map Invalidate [''/api/hosts'', ''/api/containers'', ''/api/overview'', ''/api/github'']"

definition verdict :: "deploy_target \<Rightarrow> job \<Rightarrow> announce" where
  "verdict t j = (if job_status j = JobStatus_success
     then Live (dt_name t @ '' is live'') (''Deployed to '' @ dt_hostName t)
     else Failed_toast (''Deploy of '' @ dt_name t @ '' failed'') (deploy_failure_text j))"

text \<open>The effect, run for every snapshot: whether the end has been announced, and what was done.\<close>

definition announce_job :: "deploy_target \<Rightarrow> job option \<Rightarrow> bool \<times> announce list \<Rightarrow> bool \<times> announce list" where
  "announce_job t j st = (case j of
     None \<Rightarrow> st
   | Some j \<Rightarrow> if job_status j = JobStatus_running \<or> fst st then st
               else (True, snd st @ refreshed @ [verdict t j]))"

definition finished :: "job option \<Rightarrow> bool" where
  "finished j \<longleftrightarrow> (case j of None \<Rightarrow> False | Some j \<Rightarrow> job_status j \<noteq> JobStatus_running)"

lemma announced_stays: "fold (announce_job t) snaps (True, out) = (True, out)"
  by (induction snaps) (auto simp: announce_job_def split: option.splits)

text \<open>Whatever snapshots the poller delivers, the end of the deploy is announced once, with the
  verdict of the first finished snapshot after the lists it made stale were refreshed, and not at
  all while the job runs.\<close>

theorem deploy_announced_once:
  "snd (fold (announce_job t) snaps (False, [])) =
    (case find finished snaps of Some (Some j) \<Rightarrow> refreshed @ [verdict t j] | _ \<Rightarrow> [])"
proof (induction snaps)
  case (Cons s snaps)
  show ?case
  proof (cases "finished s")
    case True
    then obtain j where "s = Some j" "job_status j \<noteq> JobStatus_running"
      by (auto simp: finished_def split: option.splits)
    then have "announce_job t s (False, []) = (True, refreshed @ [verdict t j])" by (simp add: announce_job_def)
    with True \<open>s = Some j\<close> show ?thesis by (simp add: announced_stays)
  next
    case False
    then have "announce_job t s (False, []) = (False, [])"
      by (auto simp: announce_job_def finished_def split: option.splits)
    with False Cons show ?thesis by simp
  qed
qed simp

section \<open>The page\<close>

datatype progress_event = Open_target string | Deploy_another | Back_to_form

definition open_path :: "deploy_target \<Rightarrow> string" where
  "open_path t = ''/hosts/'' @ dt_hostId t @ ''?tab='' @ (if dt_stack t then ''stacks'' else ''containers'')"

definition progress_lines :: "job option \<Rightarrow> job_log_line list" where
  "progress_lines j = (case j of
     Some j \<Rightarrow> if job_log j \<noteq> [] then job_log j else [\<lparr>jl_text = ''Starting'' @ ellipsis, jl_level = JobLogLineLevel_muted\<rparr>]
   | None \<Rightarrow> [\<lparr>jl_text = ''Starting'' @ ellipsis, jl_level = JobLogLineLevel_muted\<rparr>])"

definition outcome_card :: "deploy_target \<Rightarrow> job \<Rightarrow> progress_event view" where
  "outcome_card t j = (case job_status j of
     JobStatus_running \<Rightarrow> Group []
   | JobStatus_success \<Rightarrow> Group [
       Button (''Open '' @ (if dt_stack t then ''stack'' else ''container'') @ '' on '' @ dt_hostName t) True (Open_target (open_path t)),
       Button ''Deploy another'' True Deploy_another]
   | JobStatus_failed \<Rightarrow> Group [
       (case failed_step j of
          Some s \<Rightarrow> Group [Text (js_label s @ '' failed.''), Text (js_sub s)]
        | None \<Rightarrow> Text (''The deploy failed '' @ dash @ '' see the log for details.'')),
       Button ''Back to configuration'' True Back_to_form,
       Button ''Deploy another'' True Deploy_another])"

definition progress_view :: "deploy_target \<Rightarrow> job option \<Rightarrow> progress_event view" where
  "progress_view t j = Group [
     Text (dt_name t), Text (arrow @ '' '' @ dt_hostName t),
     (case j of Some j \<Rightarrow> progress_list (job_steps j) | None \<Rightarrow> Text (''Queuing job'' @ ellipsis)),
     (case j of Some j \<Rightarrow> outcome_card t j | None \<Rightarrow> Group []),
     log_block (progress_lines j)]"

text \<open>The progress page offers nothing while the deploy runs; a success offers to open the result or
  deploy another, a failure to go back to the form or deploy another, and its log is never
  empty.\<close>

theorem progress_offers:
  "offers (progress_view t j) =
    (case j of None \<Rightarrow> []
     | Some j \<Rightarrow> (case job_status j of
         JobStatus_running \<Rightarrow> []
       | JobStatus_success \<Rightarrow> [Open_target (open_path t), Deploy_another]
       | JobStatus_failed \<Rightarrow> [Back_to_form, Deploy_another])) \<and>
   progress_lines j \<noteq> []"
  by (auto simp: progress_view_def outcome_card_def progress_lines_def split: option.splits job_status.splits)

end
