(* ===== verification/Deploy_Watch.thy ===== *)
theory Deploy_Watch
  imports Api_Client Deploy_Progress
begin

text \<open>
  The progress page on the job poller: every change of the polled job renders the page, which runs
  the announcing effect. The two parts as one step relation, with the job id the page was given.
\<close>

type_synonym announced = "bool \<times> announce list"

inductive watch :: "deploy_target \<Rightarrow> string \<Rightarrow> poll_state \<Rightarrow> announced \<Rightarrow> bool" for t i where
  watch_start: "watch t i (poll_step (Set_id i) poll_start) (announce_job t None (False, []))"
| watch_step: "watch t i st a \<Longrightarrow> poll_enabled e st \<Longrightarrow> (case e of Set_id _ \<Rightarrow> False | _ \<Rightarrow> True) \<Longrightarrow>
    watch t i (poll_step e st) (announce_job t (ps_job (poll_step e st)) a)"

definition watch_ok :: "deploy_target \<Rightarrow> string \<Rightarrow> poll_state \<Rightarrow> announced \<Rightarrow> bool" where
  "watch_ok t i st a \<longleftrightarrow> poll_ok st \<and> ps_id st = i \<and>
     a = (case ps_job st of
       Some j \<Rightarrow> if job_status j = JobStatus_running then (False, []) else (True, refreshed @ [verdict t j])
     | None \<Rightarrow> (False, []))"

lemma finished_job_stays:
  assumes "poll_ok st" "poll_enabled e st" "case e of Set_id _ \<Rightarrow> False | _ \<Rightarrow> True"
    "ps_job st = Some j" "job_status j \<noteq> JobStatus_running"
  shows "ps_job (poll_step e st) = Some j"
proof -
  have "poll_finished st" using assms(4, 5) by (simp add: poll_finished_def)
  then have c: "current_requests st = []" "ps_timer st = None" using assms(1) by (auto simp: poll_ok_def)
  then have "r \<in> set (ps_inflight st) \<Longrightarrow> fst r \<noteq> ps_gen st" for r
    by (auto simp: current_requests_def filter_empty_conv)
  with assms c show ?thesis by (cases e) (fastforce simp: Let_def)+
qed

lemma watch_ok_step:
  assumes "watch_ok t i st a" "poll_enabled e st" "case e of Set_id _ \<Rightarrow> False | _ \<Rightarrow> True"
  shows "watch_ok t i (poll_step e st) (announce_job t (ps_job (poll_step e st)) a)"
proof -
  have ok: "poll_ok st" using assms(1) by (simp add: watch_ok_def)
  then have "poll_ok (poll_step e st)"
    using assms(2) by (cases e) (simp_all only: poll_ok_set_id poll_ok_reply poll_ok_failure poll_ok_timer)
  moreover have "ps_id (poll_step e st) = i"
    using assms by (cases e) (auto simp: watch_ok_def Let_def)
  moreover have "announce_job t (ps_job (poll_step e st)) a = (case ps_job (poll_step e st) of
       Some j \<Rightarrow> if job_status j = JobStatus_running then (False, []) else (True, refreshed @ [verdict t j])
     | None \<Rightarrow> (False, []))"
  proof (cases "\<exists>j. ps_job st = Some j \<and> job_status j \<noteq> JobStatus_running")
    case True
    then obtain j where j: "ps_job st = Some j" "job_status j \<noteq> JobStatus_running" by blast
    with finished_job_stays [OF ok assms(2, 3)] assms(1) show ?thesis
      by (simp add: watch_ok_def announce_job_def)
  next
    case False
    then have "a = (False, [])" using assms(1) by (auto simp: watch_ok_def split: option.splits)
    then show ?thesis by (auto simp: announce_job_def split: option.splits)
  qed
  ultimately show ?thesis by (simp add: watch_ok_def)
qed


definition sample_target :: deploy_target where
  "sample_target = \<lparr>dt_name = ''web'', dt_hostId = ''h1'', dt_hostName = ''nuc'', dt_stack = False\<rparr>"


end
