(* ===== verification/Fleet_Pulse.thy ===== *)
theory Fleet_Pulse
  imports Container_Filters Browser_Store Ui_Parts Api_System Api_Machines
begin

text \<open>
  The fleet pulse (components/fleet/FleetPulse.tsx): the load of the reachable hosts with its
  headline and rows, the folded panel, and the next best actions, worst first, with what the alert
  ticker already says and what is snoozed left out. \<open>bytes\<close> and the counts are those of the format
  library; the snoozes are a map from suggestion ids to the end of the snooze.
\<close>

section \<open>The load\<close>

datatype metric = M_cpu | M_mem | M_disk

definition METRICS :: "(metric \<times> string) list" where
  "METRICS = [(M_cpu, ''CPU''), (M_mem, ''Memory''), (M_disk, ''Disk'')]"

definition HOT :: real where "HOT = 85"
definition WARM :: real where "WARM = 70"

definition level :: "real \<Rightarrow> string" where
  "level v = (if HOT \<le> v then C_crit else if WARM \<le> v then C_warn else C_ok)"

fun load :: "host \<Rightarrow> metric \<Rightarrow> real" where
  "load h M_cpu = h_cpu h"
| "load h M_mem = h_mem h"
| "load h M_disk = h_disk h"

definition online :: "host \<Rightarrow> bool" where
  "online h \<longleftrightarrow> h_status h \<noteq> HS_offline \<and> h_status h \<noteq> HS_pending"

definition live :: "host list \<Rightarrow> host list" where
  "live hosts = filter online hosts"

definition average :: "host list \<Rightarrow> metric \<Rightarrow> real" where
  "average hosts m = (if live hosts = [] then 0
     else sum_list (map (\<lambda>h. load h m) (live hosts)) / real (length (live hosts)))"

definition by_load :: "metric \<Rightarrow> host \<Rightarrow> host \<Rightarrow> real" where
  "by_load m = by_key (\<lambda>h. - load h m)"

definition online_first :: "host \<Rightarrow> host \<Rightarrow> real" where
  "online_first = by_key (\<lambda>h. - of_bool (online h))"

interpretation loads: comparator "by_load m" for m
  unfolding by_load_def by (rule comparator_by_key)

interpretation pulse_order: comparator "or_else online_first (by_load m)" for m
  unfolding by_load_def online_first_def by (intro comparator_or_else comparator_by_key)

definition busiest :: "host list \<Rightarrow> metric \<Rightarrow> host option" where
  "busiest hosts m = (case js_sort (by_load m) (live hosts) of h # _ \<Rightarrow> Some h | [] \<Rightarrow> None)"

definition hot_count :: "host list \<Rightarrow> metric \<Rightarrow> nat" where
  "hot_count hosts m = length (filter (\<lambda>h. HOT \<le> load h m) (live hosts))"

definition warm_count :: "host list \<Rightarrow> metric \<Rightarrow> nat" where
  "warm_count hosts m = length (filter (\<lambda>h. WARM \<le> load h m) (live hosts)) - hot_count hosts m"

definition pulse_rows :: "host list \<Rightarrow> metric \<Rightarrow> host list" where
  "pulse_rows hosts m = js_sort (or_else online_first (by_load m)) hosts"

definition metric_word :: "metric \<Rightarrow> string" where
  "metric_word m = (case map_of METRICS m of Some l \<Rightarrow> to_lower l | None \<Rightarrow> [])"

definition percent :: "real \<Rightarrow> string" where
  "percent x = show_int (js_round x) @ ''%''"

definition busiest_at :: "host list \<Rightarrow> metric \<Rightarrow> string" where
  "busiest_at hosts m = (case busiest hosts m of
     Some h \<Rightarrow> '' '' @ dash @ '' '' @ h_name h @ '' at '' @ percent (load h m) | None \<Rightarrow> [])"

definition headline :: "host list \<Rightarrow> metric \<Rightarrow> string" where
  "headline hosts m =
    (if 0 < hot_count hosts m then plural_s (int (hot_count hosts m)) ''host'' @ '' over 85% '' @ metric_word m @ busiest_at hosts m @ ''.''
     else if 0 < warm_count hosts m then plural_s (int (warm_count hosts m)) ''host'' @ '' over 70% '' @ metric_word m @ busiest_at hosts m @ ''.''
     else (case busiest hosts m of
       Some h \<Rightarrow> ''Everything comfortable '' @ dash @ '' busiest is '' @ h_name h @ '' at '' @ percent (load h m) @ ''.''
     | None \<Rightarrow> ''No hosts are reachable right now.''))"

fun point_of :: "fleet_metrics_points \<Rightarrow> metric \<Rightarrow> real" where
  "point_of p M_cpu = fleet_metrics_points_cpu p"
| "point_of p M_mem = fleet_metrics_points_mem p"
| "point_of p M_disk = fleet_metrics_points_disk p"

fun avg_of :: "fleet_metrics_avg \<Rightarrow> metric \<Rightarrow> real" where
  "avg_of p M_cpu = fleet_metrics_avg_cpu p"
| "avg_of p M_mem = fleet_metrics_avg_mem p"
| "avg_of p M_disk = fleet_metrics_avg_disk p"

fun prev_of :: "fleet_metrics_prev \<Rightarrow> metric \<Rightarrow> real" where
  "prev_of p M_cpu = fleet_metrics_prev_cpu p"
| "prev_of p M_mem = fleet_metrics_prev_mem p"
| "prev_of p M_disk = fleet_metrics_prev_disk p"

definition series :: "fleet_metrics option \<Rightarrow> metric \<Rightarrow> (string \<times> real) list" where
  "series fm m = (case fm of Some f \<Rightarrow> map (\<lambda>p. (fleet_metrics_points_at p, point_of p m)) (fm_points f) | None \<Rightarrow> [])"

definition trend_delta :: "fleet_metrics option \<Rightarrow> metric \<Rightarrow> real option" where
  "trend_delta fm m = (case fm of
     Some f \<Rightarrow> if 0 < prev_of (fm_prev f) m then Some (avg_of (fm_avg f) m - prev_of (fm_prev f) m) else None
   | None \<Rightarrow> None)"

definition trend_text :: "fleet_metrics option \<Rightarrow> metric \<Rightarrow> string" where
  "trend_text fm m = (if trend_delta fm m = None
     then (if series fm m \<noteq> [] then ''no history yet'' else ''collecting'' @ ellipsis) else ''vs the day before'')"

definition trend_points :: "real \<Rightarrow> string" where
  "trend_points d = (if 0 < d then ''+'' else []) @ to_fixed 1 d @ '' pts''"

text \<open>The pulse rows are every host once, the reachable ones first and each group by falling load;
  the host the headline names is reachable and none is busier; and the headline speaks of hot
  hosts exactly when one is, and calls everything comfortable only when none is even warm.\<close>

theorem pulse_reads_load:
  "mset (pulse_rows hosts m) = mset hosts \<and>
   sorted_wrt (\<lambda>a b. \<not> (online b \<and> \<not> online a) \<and> \<not> (online a = online b \<and> load a m < load b m)) (pulse_rows hosts m) \<and>
   (case busiest hosts m of
      None \<Rightarrow> live hosts = [] \<and> headline hosts m = ''No hosts are reachable right now.''
    | Some h \<Rightarrow> h \<in> set (live hosts) \<and> \<not> (\<exists>g \<in> set (live hosts). load h m < load g m) \<and>
        (0 < hot_count hosts m \<longleftrightarrow> HOT \<le> load h m) \<and>
        (hot_count hosts m = 0 \<and> warm_count hosts m = 0 \<longleftrightarrow> load h m < WARM))"
proof (intro conjI)
  show "mset (pulse_rows hosts m) = mset hosts" by (simp add: pulse_rows_def)
  have le: "\<not> (online b \<and> \<not> online a) \<and> \<not> (online a = online b \<and> load a m < load b m)"
    if "or_else online_first (by_load m) a b \<le> 0" for a b
    using that by (auto simp: or_else_def online_first_def by_load_def by_key_def split: if_splits)
  show "sorted_wrt (\<lambda>a b. \<not> (online b \<and> \<not> online a) \<and> \<not> (online a = online b \<and> load a m < load b m)) (pulse_rows hosts m)"
    unfolding pulse_rows_def by (rule sorted_wrt_mono_rel [OF _ pulse_order.sorted_js_sort]) (rule le)
  show "case busiest hosts m of
      None \<Rightarrow> live hosts = [] \<and> headline hosts m = ''No hosts are reachable right now.''
    | Some h \<Rightarrow> h \<in> set (live hosts) \<and> \<not> (\<exists>g \<in> set (live hosts). load h m < load g m) \<and>
        (0 < hot_count hosts m \<longleftrightarrow> HOT \<le> load h m) \<and>
        (hot_count hosts m = 0 \<and> warm_count hosts m = 0 \<longleftrightarrow> load h m < WARM)"
  proof (cases "js_sort (by_load m) (live hosts)")
    case Nil
    then have "live hosts = []" by (metis length_0_conv length_js_sort)
    then show ?thesis by (simp add: busiest_def headline_def hot_count_def warm_count_def)
  next
    case (Cons h hs)
    then have h: "h \<in> set (live hosts)" by (metis list.set_intros(1) set_js_sort)
    have max: "load g m \<le> load h m" if "g \<in> set (live hosts)" for g
      using loads.hd_js_sort_least [OF that, of m] Cons by (simp add: by_load_def by_key_def)
    have any: "0 < length (filter (\<lambda>g. t \<le> load g m) (live hosts)) \<longleftrightarrow> t \<le> load h m" for t
      using h max by (auto simp: filter_empty_conv) (meson order_trans)
    have "HOT \<le> x \<Longrightarrow> WARM \<le> x" for x by (simp add: HOT_def WARM_def)
    then show ?thesis
      using Cons h max any [of HOT] any [of WARM]
      by (auto simp: busiest_def hot_count_def warm_count_def not_less)
  qed
qed

section \<open>The next best actions\<close>

record suggestion =
  sg_id :: string
  sg_severity :: severity
  sg_title :: string
  sg_gain :: "string option"
  sg_href :: string

definition crashed :: "container \<Rightarrow> bool" where
  "crashed c \<longleftrightarrow> c_state c = CS_dead \<or> c_state c = CS_exited \<and> c_exitCode c \<noteq> 0"

definition unwell :: "container \<Rightarrow> bool" where
  "unwell c \<longleftrightarrow> c_health c = Health_unhealthy \<or> c_state c = CS_restarting"

definition finished_well :: "container \<Rightarrow> bool" where
  "finished_well c \<longleftrightarrow> c_state c = CS_exited \<and> c_exitCode c = 0"

definition host_page :: "host \<Rightarrow> string \<Rightarrow> string" where
  "host_page h q = ''/hosts/'' @ h_id h @ q"

text \<open>A suggestion about the containers of a host, when there are any.\<close>

definition containers_on :: "host \<Rightarrow> string \<Rightarrow> severity \<Rightarrow> string \<Rightarrow> string \<Rightarrow> container list \<Rightarrow> suggestion list" where
  "containers_on h kind sev what q cs = (case cs of [] \<Rightarrow> []
   | c # _ \<Rightarrow> [\<lparr>sg_id = kind @ '':'' @ h_id h, sg_severity = sev,
       sg_title = plural_s (int (length cs)) ''container'' @ '' '' @ what @ '' on '' @ h_name h,
       sg_gain = Some (c_name c), sg_href = host_page h q\<rparr>])"

definition disk_or_memory :: "host \<Rightarrow> suggestion list" where
  "disk_or_memory h =
    (if HOT \<le> h_disk h then [\<lparr>sg_id = ''disk:'' @ h_id h, sg_severity = (if 92 \<le> h_disk h then Sev_crit else Sev_warn),
        sg_title = ''Disk '' @ percent (h_disk h) @ '' on '' @ h_name h,
        sg_gain = (if h_diskTotal h \<noteq> 0 then Some (bytes (Some (real_of_int (h_diskTotal h - h_diskUsed h))) 1 @ '' free'') else None),
        sg_href = host_page h ''?tab=storage''\<rparr>]
     else if HOT \<le> h_mem h then [\<lparr>sg_id = ''mem:'' @ h_id h, sg_severity = Sev_warn,
        sg_title = ''Memory '' @ percent (h_mem h) @ '' on '' @ h_name h, sg_gain = None, sg_href = host_page h []\<rparr>]
     else [])"

definition updates_on :: "host \<Rightarrow> suggestion list" where
  "updates_on h = (if 0 < h_updates h then [\<lparr>sg_id = ''updates:'' @ h_id h, sg_severity = Sev_info,
     sg_title = ''Update '' @ plural_s (h_updates h) ''container'' @ '' on '' @ h_name h, sg_gain = None,
     sg_href = host_page h ''?status=updates''\<rparr>] else [])"

definition stopped_on :: "host \<Rightarrow> container list \<Rightarrow> suggestion list" where
  "stopped_on h cs = (if 5 \<le> length cs then [\<lparr>sg_id = ''stopped:'' @ h_id h, sg_severity = Sev_info,
     sg_title = plural_s (int (length cs)) ''container'' @ '' stopped on '' @ h_name h, sg_gain = Some ''clean up'',
     sg_href = host_page h ''?status=stopped''\<rparr>] else [])"

definition host_suggestions :: "container list \<Rightarrow> host \<Rightarrow> suggestion list" where
  "host_suggestions containers h =
    (if \<not> online h then [\<lparr>sg_id = ''offline:'' @ h_id h, sg_severity = Sev_crit, sg_title = h_name h @ '' is unreachable'',
        sg_gain = (if h_lastError h \<noteq> [] then Some ''see why'' else None), sg_href = host_page h []\<rparr>]
     else (let cs = filter (\<lambda>c. c_hostId c = h_id h) containers in
       containers_on h ''crashed'' Sev_crit ''crashed'' ''?status=crashed'' (filter crashed cs) @
       containers_on h ''unhealthy'' Sev_warn ''unhealthy'' ''?status=unhealthy'' (filter unwell cs) @
       disk_or_memory h @ updates_on h @ stopped_on h (filter finished_well cs)))"

definition machine_page :: "machine \<Rightarrow> string \<Rightarrow> string" where
  "machine_page m q = ''/machines?host='' @ m_hostId m @ q"

definition patches_on :: "machine \<Rightarrow> suggestion list" where
  "patches_on m =
    (if 0 < m_security m then [\<lparr>sg_id = ''sec:'' @ m_hostId m, sg_severity = Sev_crit,
        sg_title = plural (m_security m) ''security patch'' ''security patches'' @ '' on '' @ m_name m, sg_gain = None,
        sg_href = machine_page m []\<rparr>]
     else if m_packages m \<noteq> [] then [\<lparr>sg_id = ''pkgs:'' @ m_hostId m, sg_severity = Sev_info,
        sg_title = plural_s (int (length (m_packages m))) ''OS update'' @ '' on '' @ m_name m, sg_gain = None,
        sg_href = machine_page m []\<rparr>]
     else [])"

definition failing_checks :: "machine \<Rightarrow> nat" where
  "failing_checks m = length (filter (\<lambda>c. mc_status c = Check_bad) (m_checks m))"

definition machine_suggestions :: "machine \<Rightarrow> suggestion list" where
  "machine_suggestions m = patches_on m @
    (if m_reboot m then [\<lparr>sg_id = ''reboot:'' @ m_hostId m, sg_severity = Sev_warn, sg_title = m_name m @ '' needs a reboot'',
        sg_gain = Some ''after updates'', sg_href = machine_page m []\<rparr>] else []) @
    (if 0 < failing_checks m then [\<lparr>sg_id = ''hard:'' @ m_hostId m, sg_severity = Sev_warn,
        sg_title = plural_s (int (failing_checks m)) ''hardening check'' @ '' failing on '' @ m_name m, sg_gain = None,
        sg_href = machine_page m ''&tab=security''\<rparr>] else [])"

text \<open>The two parts of an id, and what the ticker is already showing.\<close>

definition alert_kinds :: "(string \<times> string) list" where
  "alert_kinds = [(''offline'', ''host_down''), (''crashed'', ''container_crash''), (''unhealthy'', ''unhealthy''), (''disk'', ''disk_space'')]"

definition ticking :: "alert list \<Rightarrow> string set" where
  "ticking alerts = set (map (\<lambda>a. al_kind a @ '':'' @ (case al_hostId a of Some h \<Rightarrow> h | None \<Rightarrow> [])) alerts)"

definition covered :: "alert list \<Rightarrow> suggestion \<Rightarrow> bool" where
  "covered alerts s = (let parts = split_on (CHR '':'') (sg_id s); h = (case parts of _ # h # _ \<Rightarrow> h | _ \<Rightarrow> []) in
     case map_of alert_kinds (hd parts) of
       Some k \<Rightarrow> k @ '':'' @ h \<in> ticking alerts
     | None \<Rightarrow> False)"

fun severity_rank :: "severity \<Rightarrow> real" where
  "severity_rank Sev_crit = 0"
| "severity_rank Sev_warn = 1"
| "severity_rank Sev_info = 2"
| "severity_rank Sev_ok = 3"

definition by_severity :: "suggestion \<Rightarrow> suggestion \<Rightarrow> real" where
  "by_severity = by_key (\<lambda>s. severity_rank (sg_severity s))"

interpretation severities: comparator by_severity
  unfolding by_severity_def by (rule comparator_by_key)

definition found :: "host list \<Rightarrow> container list \<Rightarrow> machine list \<Rightarrow> suggestion list" where
  "found hosts containers machines = concat (map (host_suggestions containers) hosts) @ concat (map machine_suggestions machines)"

definition all_suggestions :: "host list \<Rightarrow> container list \<Rightarrow> machine list \<Rightarrow> alert list \<Rightarrow> suggestion list" where
  "all_suggestions hosts containers machines alerts =
    js_sort by_severity (filter (\<lambda>s. \<not> covered alerts s) (found hosts containers machines))"

definition snoozed :: "(string \<rightharpoonup> string) \<Rightarrow> suggestion \<Rightarrow> bool" where
  "snoozed z s \<longleftrightarrow> (case z (sg_id s) of Some t \<Rightarrow> t \<noteq> [] | None \<Rightarrow> False)"

definition listed :: "(string \<rightharpoonup> string) \<Rightarrow> suggestion list \<Rightarrow> suggestion list" where
  "listed z all = filter (\<lambda>s. \<not> snoozed z s) all"

definition snoozed_count :: "(string \<rightharpoonup> string) \<Rightarrow> suggestion list \<Rightarrow> nat" where
  "snoozed_count z all = length all - length (listed z all)"

text \<open>The map shown at once when a suggestion is snoozed, or (with the empty id) all are shown again;
  \<open>until\<close> is a day from now.\<close>

definition write_snooze :: "string \<Rightarrow> string \<Rightarrow> (string \<rightharpoonup> string) \<Rightarrow> (string \<rightharpoonup> string)" where
  "write_snooze until i z = (if i \<noteq> [] then z(i \<mapsto> until) else Map.empty)"

definition shown_suggestions :: "bool \<Rightarrow> suggestion list \<Rightarrow> suggestion list" where
  "shown_suggestions every list = (if every then list else take 4 list)"

definition urgent :: "suggestion list \<Rightarrow> nat" where
  "urgent list = length (filter (\<lambda>s. sg_severity s = Sev_crit) list)"

definition no_colon :: "string \<Rightarrow> bool" where
  "no_colon s \<longleftrightarrow> CHR '':'' \<notin> set s"

lemma sorted_filter_prefix:
  assumes "sorted_wrt (\<lambda>a b. by_severity a b \<le> 0) xs"
  shows "length (filter (\<lambda>s. sg_severity s = Sev_crit) (take n xs)) = min n (urgent xs)"
  using assms
proof (induction xs arbitrary: n)
  case (Cons x xs)
  show ?case
  proof (cases "sg_severity x = Sev_crit")
    case True
    with Cons show ?thesis by (cases n) (auto simp: urgent_def)
  next
    case False
    have "sg_severity y \<noteq> Sev_crit" if "y \<in> set xs" for y
    proof
      assume "sg_severity y = Sev_crit"
      moreover have "by_severity x y \<le> 0" using Cons.prems that by simp
      ultimately show False using False by (cases "sg_severity x") (auto simp: by_severity_def by_key_def)
    qed
    then have none: "filter (\<lambda>s. sg_severity s = Sev_crit) (x # xs) = []"
      using False by (simp add: filter_empty_conv)
    then have "filter (\<lambda>s. sg_severity s = Sev_crit) (take n (x # xs)) = []"
      by (metis append_take_drop_id filter_append append_is_Nil_conv)
    then show ?thesis using none by (simp only: urgent_def list.size min_0R)
  qed
qed (simp add: urgent_def)

text \<open>C7: the actions are exactly the found ones that no ticking alert covers and no snooze hides, each as
  often as it was found, worst first and in the order found within a severity; the snoozed ones
  are counted; and the four shown first include every urgent one, up to four.\<close>

theorem actions_worst_first:
  "(let list = listed z (all_suggestions hosts containers machines alerts) in
     mset list = mset (filter (\<lambda>s. \<not> covered alerts s \<and> \<not> snoozed z s) (found hosts containers machines)) \<and>
     sorted_wrt (\<lambda>a b. severity_rank (sg_severity a) \<le> severity_rank (sg_severity b)) list \<and>
     filter (\<lambda>s. sg_severity s = sev) list =
       filter (\<lambda>s. sg_severity s = sev \<and> \<not> covered alerts s \<and> \<not> snoozed z s) (found hosts containers machines) \<and>
     length list + snoozed_count z (all_suggestions hosts containers machines alerts) =
       length (all_suggestions hosts containers machines alerts) \<and>
     urgent (shown_suggestions False list) = min 4 (urgent list))"
proof -
  let ?f = "found hosts containers machines"
  let ?all = "all_suggestions hosts containers machines alerts"
  let ?list = "listed z ?all"
  have m: "mset ?list = mset (filter (\<lambda>s. \<not> covered alerts s \<and> \<not> snoozed z s) ?f)"
    by (simp add: listed_def all_suggestions_def mset_filter [symmetric] del: mset_filter)
      (simp add: filter_filter_mset conj_commute)
  have srt: "sorted_wrt (\<lambda>a b. by_severity a b \<le> 0) ?all"
    unfolding all_suggestions_def by (rule severities.sorted_js_sort)
  then have s: "sorted_wrt (\<lambda>a b. by_severity a b \<le> 0) ?list"
    unfolding listed_def by (rule sorted_wrt_filter)
  have rank: "sg_severity b = sev \<longleftrightarrow> by_severity a b = 0" if "sg_severity a = sev" for a b :: suggestion and sev
    using that by (cases "sg_severity a"; cases "sg_severity b") (auto simp: by_severity_def by_key_def)
  have st: "filter (\<lambda>s. sg_severity s = sev) ?all = filter (\<lambda>s. sg_severity s = sev) (filter (\<lambda>s. \<not> covered alerts s) ?f)"
  proof -
    obtain a :: suggestion where a: "sg_severity a = sev" by (metis suggestion.select_convs(2))
    show ?thesis unfolding all_suggestions_def rank [OF a] by (rule severities.stable_js_sort)
  qed
  have "filter (\<lambda>s. sg_severity s = sev) ?list = filter (\<lambda>s. \<not> snoozed z s) (filter (\<lambda>s. sg_severity s = sev) ?all)"
    by (simp add: listed_def conj_commute)
  also have "\<dots> = filter (\<lambda>s. sg_severity s = sev \<and> \<not> covered alerts s \<and> \<not> snoozed z s) ?f"
    unfolding st by (simp add: conj_ac)
  finally have e: "filter (\<lambda>s. sg_severity s = sev) ?list = \<dots>" .
  have c: "length ?list + snoozed_count z ?all = length ?all"
    by (simp add: snoozed_count_def listed_def)
  have "sorted_wrt (\<lambda>a b. severity_rank (sg_severity a) \<le> severity_rank (sg_severity b)) ?list"
    using s by (simp add: by_severity_def by_key_def)
  with m e c sorted_filter_prefix [OF s, of 4] show ?thesis
    by (simp add: shown_suggestions_def urgent_def)
qed

text \<open>Snoozing takes exactly that suggestion off the list and keeps the rest in order, and showing the
  snoozed ones again lists everything.\<close>

theorem snooze_hides_one:
  assumes "until \<noteq> []" "i \<noteq> []"
  shows "listed (write_snooze until i z) all = filter (\<lambda>s. sg_id s \<noteq> i) (listed z all) \<and>
    listed (write_snooze until [] z) all = all \<and> snoozed_count (write_snooze until [] z) all = 0"
proof -
  have "snoozed (write_snooze until i z) s \<longleftrightarrow> sg_id s = i \<or> snoozed z s" for s
    using assms by (auto simp: snoozed_def write_snooze_def)
  then show ?thesis by (simp add: listed_def snoozed_count_def) (simp add: snoozed_def write_snooze_def conj_commute)
qed

definition sample_action :: "string \<Rightarrow> severity \<Rightarrow> suggestion" where
  "sample_action i sev = \<lparr>sg_id = i, sg_severity = sev, sg_title = i, sg_gain = None, sg_href = []\<rparr>"

lemma snooze_hides_one_witness:
  "listed (write_snooze ''2026-01-02T00:00:00Z'' ''b'' Map.empty) [sample_action ''a'' Sev_crit, sample_action ''b'' Sev_info] =
     [sample_action ''a'' Sev_crit]"
  using snooze_hides_one [of "''2026-01-02T00:00:00Z''" "''b''" Map.empty "[sample_action ''a'' Sev_crit, sample_action ''b'' Sev_info]"]
  by (simp add: sample_action_def listed_def snoozed_def)

text \<open>The crashed suggestion of a reachable host counts exactly the containers its link's filter shows,
  and appears exactly when there is one, naming one of them.\<close>

theorem crashed_count_matches_link:
  "(let cs = filter (\<lambda>c. c_hostId c = h_id h) containers in
    containers_on h ''crashed'' Sev_crit ''crashed'' ''?status=crashed'' (filter crashed cs) =
     (case filter (\<lambda>c. matchesStatus c F_crashed) cs of
        [] \<Rightarrow> []
      | c # r \<Rightarrow> [\<lparr>sg_id = ''crashed:'' @ h_id h, sg_severity = Sev_crit,
          sg_title = plural_s (1 + int (length r)) ''container'' @ '' crashed on '' @ h_name h,
          sg_gain = Some (c_name c), sg_href = ''/hosts/'' @ h_id h @ ''?status=crashed''\<rparr>]))"
proof -
  have "crashed = (\<lambda>c. matchesStatus c F_crashed)" by (auto simp: crashed_def fun_eq_iff)
  then show ?thesis by (simp add: containers_on_def host_page_def Let_def split: list.split)
qed

text \<open>A restarting container counts as unhealthy here, but the page the suggestion opens, filtered by
  "unhealthy", does not show it; and a suggestion counts only the cleanly finished containers,
  where the page shows all stopped ones.\<close>

lemma unhealthy_link_mismatch:
  "unwell (sample ''web'' CS_restarting Health_none 0 0 []) \<and>
   \<not> matchesStatus (sample ''web'' CS_restarting Health_none 0 0 []) F_unhealthy \<and>
   \<not> finished_well (sample ''job'' CS_exited Health_none 1 0 []) \<and>
   matchesStatus (sample ''job'' CS_exited Health_none 1 0 []) F_stopped"
  by (simp add: unwell_def finished_well_def sample_def)

section \<open>The panel\<close>

record pulse =
  pu_metric :: metric
  pu_open :: bool
  pu_all :: bool
  pu_slot :: "string slot"
  pu_snoozed :: "string \<rightharpoonup> string"

datatype pulse_event = Pu_metric metric | Pu_toggle bool | Pu_host string | Pu_go string | Pu_snooze string | Pu_reset | Pu_more

text \<open>The stored preference is the raw text "0" or "1"; storage that is absent or refuses leaves the
  panel open.\<close>

definition pulse_open :: "string slot \<Rightarrow> bool" where
  "pulse_open s = (case s of Stored v \<Rightarrow> v \<noteq> ''0'' | _ \<Rightarrow> True)"

definition pulse_start :: "string slot \<Rightarrow> (string \<rightharpoonup> string) \<Rightarrow> pulse" where
  "pulse_start s z = \<lparr>pu_metric = M_cpu, pu_open = pulse_open s, pu_all = False, pu_slot = s, pu_snoozed = z\<rparr>"

text \<open>The panel after an event, and the page it opens or the snooze it posts; \<open>Pu_toggle\<close> carries
  whether the browser accepts the write.\<close>

fun pulse_step :: "string \<Rightarrow> pulse_event \<Rightarrow> pulse \<Rightarrow> pulse \<times> string option" where
  "pulse_step until (Pu_metric m) p = (p\<lparr>pu_metric := m\<rparr>, None)"
| "pulse_step until (Pu_toggle ok) p =
     (p\<lparr>pu_open := \<not> pu_open p, pu_slot := slot_write ok (if pu_open p then ''0'' else ''1'') (pu_slot p)\<rparr>, None)"
| "pulse_step until (Pu_host i) p = (p, Some (''/hosts/'' @ i))"
| "pulse_step until (Pu_go href) p = (p, Some href)"
| "pulse_step until (Pu_snooze i) p = (p\<lparr>pu_snoozed := write_snooze until i (pu_snoozed p)\<rparr>, None)"
| "pulse_step until Pu_reset p = (p\<lparr>pu_snoozed := write_snooze until [] (pu_snoozed p)\<rparr>, None)"
| "pulse_step until Pu_more p = (p\<lparr>pu_all := \<not> pu_all p\<rparr>, None)"

text \<open>A panel folded or unfolded is found that way when the page is opened again, as long as the
  browser accepted the last write.\<close>

theorem pulse_fold_remembered:
  "pulse_open (pu_slot (fst (pulse_step until (Pu_toggle True) p))) = pu_open (fst (pulse_step until (Pu_toggle True) p)) \<and>
   pu_slot (fst (pulse_step until (Pu_toggle False) p)) = pu_slot p"
  using slots.read_written [of "if pu_open p then ''0'' else ''1''" "pu_slot p"] slots.write_lost [of _ "pu_slot p"]
  by (simp add: pulse_open_def slot_write_def)

section \<open>What the panel shows\<close>

definition metric_buttons :: "host list \<Rightarrow> pulse_event view" where
  "metric_buttons hosts = Group (map (\<lambda>(m, l). Group [Button l True (Pu_metric m),
     Text (if live hosts \<noteq> [] then percent (average hosts m) else dash)]) METRICS)"

definition bar_width :: "host \<Rightarrow> metric \<Rightarrow> real" where
  "bar_width h m = (if online h then max 2 (min 100 (load h m)) else 0)"

definition pulse_row :: "metric \<Rightarrow> host \<Rightarrow> pulse_event view" where
  "pulse_row m h = Group [Text (initial (h_name h)), Button (h_name h) True (Pu_host (h_id h)),
     Text (if online h then percent (load h m) else ''off'')]"

definition action_chip :: "suggestion \<Rightarrow> pulse_event view" where
  "action_chip s = Group [Button (sg_title s) True (Pu_go (sg_href s)),
     (case sg_gain s of Some g \<Rightarrow> shown_if (g \<noteq> []) (Text g) | None \<Rightarrow> Group []),
     Button (''Snooze '' @ sg_title s @ '' for a day'') True (Pu_snooze (sg_id s))]"

definition next_actions :: "suggestion list \<Rightarrow> pulse \<Rightarrow> pulse_event view" where
  "next_actions all p = (let list = listed (pu_snoozed p) all in Group [
     Text ''Next best actions'', shown_if (0 < urgent list) (Text (show_nat (urgent list) @ '' urgent'')),
     shown_if (list = []) (Text (''Nothing to do '' @ dash @ '' the fleet is healthy.'')),
     Group (map action_chip (shown_suggestions (pu_all p) list)),
     shown_if (4 < length list) (Button (if pu_all p then ''Show less'' else ''+'' @ show_nat (length list - 4) @ '' more'') True Pu_more),
     shown_if (0 < snoozed_count (pu_snoozed p) all)
       (Button (''Show '' @ show_nat (snoozed_count (pu_snoozed p) all) @ '' snoozed'') True Pu_reset)])"

definition pulse_view :: "host list \<Rightarrow> fleet_metrics option \<Rightarrow> suggestion list \<Rightarrow> pulse \<Rightarrow> pulse_event view" where
  "pulse_view hosts fm all p = (let m = pu_metric p in Group [
     Button ''Fleet pulse'' True (Pu_toggle True),
     Text (if live hosts \<noteq> [] then percent (average hosts m) else dash),
     Text (''average '' @ metric_word m @ '' across '' @ plural_s (int (length (live hosts))) ''host''),
     Text (headline hosts m), Text ''Last 24h'',
     shown_opt (\<lambda>d. Text (trend_points d)) (trend_delta fm m), Text (trend_text fm m),
     metric_buttons hosts,
     shown_if (pu_open p) (Group (map (pulse_row m) (pulse_rows hosts m))),
     shown_if (pu_open p) (Text ''Red bars are over 85%, amber over 70%. Click a host to open it.''),
     next_actions all p])"

end
