(* ===== verification/Chart_Data.thy ===== *)
theory Chart_Data
  imports Ui_Text
begin

text \<open>
  The numbers behind the charts of \<open>src/web/components/charts/graphite/Chart.tsx\<close>: reading a field
  of a row, rounding and scaling, the labels that are kept on a crowded axis, the regression line
  of a scatter plot, the geometry of a heat map, a sparkline and a gauge, and the headline.
  A row maps its fields to values; a field that is missing is \<open>None\<close>. Numbers are finite. How a
  number is written as an axis label is the parameter \<open>str\<close> (\<open>String(v)\<close>).
\<close>

section \<open>Values\<close>

datatype datum_value = Num_v real | Text_v string | List_v "datum_value list" | Other_v string

type_synonym datum = "string \<Rightarrow> datum_value option"

datatype chart_type = Line_t | Area_t | Bar_t | Stacked_t | Donut_t | Scatter_t | Radar_t | Heatmap_t
  | Sparkline_t | Funnel_t | Gauge_t | Treemap_t

datatype chart_curve = Smooth | Linear | Step

text \<open>\<open>parseFloat\<close> on a decimal literal, with \<open>None\<close> for \<open>NaN\<close>.\<close>

definition signed :: "string \<Rightarrow> real \<times> string" where
  "signed s = (case s of
     c # t \<Rightarrow> if c = CHR ''-'' then (-1, t) else if c = CHR ''+'' then (1, t) else (1, s)
   | [] \<Rightarrow> (1, s))"

definition exponent :: "string \<Rightarrow> real" where
  "exponent s = (case s of
     c # t \<Rightarrow>
       (case signed t of (sg, u) \<Rightarrow>
          (let n = read_nat (takeWhile digit u) in
           if c \<noteq> CHR ''e'' \<and> c \<noteq> CHR ''E'' \<or> takeWhile digit u = [] then 1
           else if sg < 0 then 1 / 10 ^ n else 10 ^ n))
   | [] \<Rightarrow> 1)"

definition parse_float :: "string \<Rightarrow> real option" where
  "parse_float s =
    (case signed (trim_left s) of (sg, t) \<Rightarrow>
      (let i = takeWhile digit t; r = dropWhile digit t;
           f = (if starts_with r ''.'' then takeWhile digit (tl r) else []);
           e = (if starts_with r ''.'' then dropWhile digit (tl r) else r)
       in if i = [] \<and> f = [] then None
          else Some (sg * (real (read_nat (i @ f)) / 10 ^ length f) * exponent e)))"

definition float_or_0 :: "string \<Rightarrow> real" where
  "float_or_0 s = (case parse_float s of None \<Rightarrow> 0 | Some x \<Rightarrow> x)"

text \<open>The text of an array starts with the text of its first element.\<close>

fun num :: "datum_value \<Rightarrow> real" where
  "num (Num_v x) = x"
| "num (Text_v s) = float_or_0 s"
| "num (List_v []) = 0"
| "num (List_v (v # vs)) = num v"
| "num (Other_v s) = float_or_0 s"

definition num_at :: "datum \<Rightarrow> string \<Rightarrow> real" where
  "num_at d k = (case d k of None \<Rightarrow> 0 | Some v \<Rightarrow> num v)"

definition numArr :: "datum_value option \<Rightarrow> real list" where
  "numArr v = (case v of Some (List_v vs) \<Rightarrow> map num vs | _ \<Rightarrow> [])"

section \<open>Scales and texts\<close>

definition W :: real where "W = 640"
definition BASE :: real where "BASE = 250"
definition PT :: real where "PT = 12"
definition IH :: real where "IH = BASE - PT"

lemmas chart_box = W_def BASE_def PT_def IH_def

definition tenths :: "real \<Rightarrow> int" where
  "tenths v = js_round (v * 10)"

definition r1 :: "real \<Rightarrow> real" where
  "r1 v = real_of_int (tenths v) / 10"

definition clamp_to :: "real \<Rightarrow> real \<Rightarrow> real \<Rightarrow> real" where
  "clamp_to v lo hi = max lo (min hi v)"

definition Y :: "real \<Rightarrow> real" where
  "Y v = PT + IH - (v / 100) * IH"

definition color :: "nat \<Rightarrow> string" where
  "color i = ''var(--s'' @ show_nat (i mod 4 + 1) @ '')''"

text \<open>A number with at most one decimal place as text.\<close>

definition show_tenths :: "int \<Rightarrow> string" where
  "show_tenths t = (if t < 0 then ''-'' else '''') @ show_nat (nat \<bar>t\<bar> div 10) @
     (if t mod 10 = 0 then '''' else ''.'' @ show_nat (nat \<bar>t\<bar> mod 10))"

definition formatCompact :: "real \<Rightarrow> string" where
  "formatCompact v =
    (let a = \<bar>v\<bar> in
     if 1000000 \<le> a then to_fixed 1 (v / 1000000) @ ''M''
     else if 1000 \<le> a then to_fixed 1 (v / 1000) @ ''k''
     else show_tenths (tenths v))"

text \<open>\<open>Math.max(a, ...vs)\<close> and \<open>Math.min(a, ...vs)\<close>.\<close>

definition max_of :: "real \<Rightarrow> real list \<Rightarrow> real" where
  "max_of a vs = foldl max a vs"

definition min_of :: "real \<Rightarrow> real list \<Rightarrow> real" where
  "min_of a vs = foldl min a vs"

lemma max_of_ge: "a \<le> max_of a vs" "v \<in> set vs \<Longrightarrow> v \<le> max_of a vs"
proof -
  have "a \<le> max_of a vs \<and> (\<forall>v \<in> set vs. v \<le> max_of a vs)"
    unfolding max_of_def
  proof (induction vs arbitrary: a)
    case (Cons v vs)
    have "max a v \<le> foldl max (max a v) vs" using Cons.IH by blast
    then show ?case using Cons.IH [of "max a v"] by auto
  qed simp
  then show "a \<le> max_of a vs" "v \<in> set vs \<Longrightarrow> v \<le> max_of a vs" by blast+
qed

lemma min_of_le: "min_of a vs \<le> a" "v \<in> set vs \<Longrightarrow> min_of a vs \<le> v"
proof -
  have "min_of a vs \<le> a \<and> (\<forall>v \<in> set vs. min_of a vs \<le> v)"
    unfolding min_of_def
  proof (induction vs arbitrary: a)
    case (Cons v vs)
    have "foldl min (min a v) vs \<le> min a v" using Cons.IH by blast
    then show ?case using Cons.IH [of "min a v"] by auto
  qed simp
  then show "min_of a vs \<le> a" "v \<in> set vs \<Longrightarrow> min_of a vs \<le> v" by blast+
qed

lemma Y_range: "0 \<le> v \<Longrightarrow> v \<le> 100 \<Longrightarrow> PT \<le> Y v \<and> Y v \<le> BASE"
  by (simp add: Y_def chart_box)

lemma Y_antimono: "u \<le> v \<Longrightarrow> Y v \<le> Y u"
  by (simp add: Y_def chart_box)

lemma clamp_to_bounds: "lo \<le> hi \<Longrightarrow> lo \<le> clamp_to v lo hi \<and> clamp_to v lo hi \<le> hi"
  by (simp add: clamp_to_def)

section \<open>The labels of a crowded axis\<close>

function every_step :: "nat \<Rightarrow> nat \<Rightarrow> nat \<Rightarrow> nat list" where
  "every_step i step n = (if i < n \<and> 0 < step then i # every_step (i + step) step n else [])"
  by pat_completeness auto
termination
  by (relation "measure (\<lambda>(i, step, n). n - i)") auto

declare every_step.simps [simp del]

definition thin_step :: "nat \<Rightarrow> nat \<Rightarrow> nat" where
  "thin_step n most = max 1 (nat \<lceil>real n / real most\<rceil>)"

definition thinIndices :: "nat \<Rightarrow> nat \<Rightarrow> nat list" where
  "thinIndices n most =
    (let step = thin_step n most; out = every_step 0 step n in
     if n \<noteq> 0 \<and> last out \<noteq> n - 1 then
       (if 1 < length out \<and> real (n - 1 - last out) < real step * 0.6 then butlast out else out) @ [n - 1]
     else out)"

lemma every_step_map: "every_step i (Suc s) n = map (\<lambda>k. i + k * Suc s) [0 ..< (n - i + s) div Suc s]"
proof (induction i "Suc s" n rule: every_step.induct)
  case (1 i n)
  show ?case
  proof (cases "i < n")
    case True
    have d: "(n - i + s) div Suc s = Suc ((n - (i + Suc s) + s) div Suc s)"
    proof (cases "n \<le> i + Suc s")
      case less: True
      then have "(n - i + s) div Suc s = 1" using True by (intro div_nat_eqI) auto
      moreover have "(n - (i + Suc s) + s) div Suc s = 0" using less by simp
      ultimately show ?thesis by (metis One_nat_def)
    next
      case False
      then have "n - i + s = (n - (i + Suc s) + s) + Suc s" by simp
      then show ?thesis by (simp only: div_add_self2)
    qed
    show ?thesis
      using 1 True unfolding d
      by (subst every_step.simps) (auto simp del: upt_Suc simp add: upt_conv_Cons map_Suc_upt [symmetric] comp_def)
  next
    case False
    then show ?thesis by (subst every_step.simps) simp
  qed
qed

lemma thin_step_bound: "0 < most \<Longrightarrow> n \<le> thin_step n most * most"
proof -
  assume m: "0 < most"
  have "real n / real most \<le> real (thin_step n most)"
    unfolding thin_step_def by (metis le_of_int_ceiling max.cobounded2 of_nat_le_iff of_nat_nat_take_bit_eq order_trans real_nat_ceiling_ge)
  then have "real n \<le> real (thin_step n most) * real most" using m by (simp add: divide_le_eq)
  then show ?thesis by (metis of_nat_le_iff of_nat_mult)
qed

definition step_count :: "nat \<Rightarrow> nat \<Rightarrow> nat" where
  "step_count n step = (n + (step - 1)) div step"

lemma every_step_0: "0 < step \<Longrightarrow> every_step 0 step n = map (\<lambda>k. k * step) [0 ..< step_count n step]"
  using every_step_map [of 0 "step - 1" n] by (simp add: step_count_def)

lemma step_count_bounds:
  assumes "0 < step" "0 < n"
  shows "0 < step_count n step" "(step_count n step - 1) * step < n" "n \<le> step * most \<Longrightarrow> step_count n step \<le> most"
proof -
  obtain s where s: "step = Suc s" using assms(1) by (cases step) auto
  let ?m = "step_count n step"
  show m: "0 < ?m" using assms by (simp add: step_count_def s div_greater_zero_iff)
  have "?m * step \<le> n + s"
    using div_times_less_eq_dividend [of "n + s" step] by (simp only: step_count_def s diff_Suc_1)
  moreover have "(?m - 1) * step + step = ?m * step" using m by (cases ?m) auto
  ultimately show "(?m - 1) * step < n" using s by simp
  assume "n \<le> step * most"
  then have "(n + s) div step \<le> (s + most * step) div step" by (intro div_le_mono) (simp add: mult.commute)
  also have "\<dots> = most + s div step" using s by (simp only: div_mult_self1)
  finally show "?m \<le> most" using s by (simp add: step_count_def)
qed

text \<open>The labels kept on an axis start at the first point, end at the last, stand in order, and are
  never more than one over the number asked for.\<close>

theorem thin_labels:
  assumes "0 < n" "0 < most"
  shows "let t = thinIndices n most in
    sorted_wrt (<) t \<and> hd t = 0 \<and> last t = n - 1 \<and> length t \<le> most + 1"
proof -
  define step where "step = thin_step n most"
  define m where "m = step_count n step"
  define out where "out = every_step 0 step n"
  have s: "0 < step" by (simp add: step_def thin_step_def)
  have "n \<le> step * most" unfolding step_def by (rule thin_step_bound [OF assms(2)])
  then have b: "0 < m" "(m - 1) * step < n" "m \<le> most"
    using step_count_bounds [OF s assms(1)] unfolding m_def by auto
  have out: "out = map (\<lambda>k. k * step) [0 ..< m]" unfolding out_def m_def by (rule every_step_0 [OF s])
  have mono: "sorted_wrt (<) (map (\<lambda>k. k * step) [0 ..< j])" for j
    using s by (simp add: sorted_wrt_map sorted_wrt_upt [THEN sorted_wrt_mono_rel [rotated]])
  have l: "last out = (m - 1) * step" "hd out = 0" "length out = m"
    using b(1) unfolding out by (simp_all add: last_map hd_map)
  have u: "k * step \<le> (m - 1) * step" if "k < m" for k using that by (intro mult_le_mono1) auto
  show ?thesis
  proof (cases "last out \<noteq> n - 1")
    case False
    then have "thinIndices n most = out" using assms by (simp add: thinIndices_def Let_def step_def out_def)
    then show ?thesis using mono [of m] l b False by (simp add: out Let_def)
  next
    case True
    then have g: "(m - 1) * step < n - 1" using l(1) b(2) by simp
    have v: "x < n - 1" if "x \<in> set out" for x
    proof -
      from that obtain k where "x = k * step" "k < m" unfolding out set_map set_upt by (metis atLeastLessThan_iff imageE)
      with order_le_less_trans [OF u g] show ?thesis by blast
    qed
    have "n \<noteq> 0 \<and> last out \<noteq> n - 1" using assms True by simp
    then have d: "thinIndices n most =
        (if 1 < length out \<and> real (n - 1 - last out) < real step * 0.6 then butlast out else out) @ [n - 1]"
      unfolding thinIndices_def Let_def step_def [symmetric] out_def [symmetric] by (rule if_P)
    show ?thesis
    proof (cases "1 < length out \<and> real (n - 1 - last out) < real step * 0.6")
      case pop: True
      then have t: "thinIndices n most = butlast out @ [n - 1]"
        unfolding d by (subst if_P [OF pop]) (rule refl)
      have k: "butlast out = map (\<lambda>k. k * step) [0 ..< m - 1]"
        using b(1) unfolding out by (cases m) simp_all
      have "\<forall>x \<in> set (butlast out). x < n - 1" using v in_set_butlastD by fast
      moreover have "hd (butlast out @ [n - 1]) = 0" using pop l(3) unfolding k by (simp add: hd_append hd_map)
      ultimately show ?thesis using t mono [of "m - 1"] b by (auto simp: Let_def k sorted_wrt_append)
    next
      case keep: False
      then have t: "thinIndices n most = out @ [n - 1]"
        unfolding d by (subst if_not_P [OF keep]) (rule refl)
      have "\<forall>x \<in> set out. x < n - 1" using v by blast
      moreover have "hd (out @ [n - 1]) = 0" using l b(1) by (cases out) auto
      ultimately show ?thesis using t mono [of m] b l by (auto simp: Let_def out sorted_wrt_append)
    qed
  qed
qed

lemma thin_labels_witness:
  "let t = thinIndices 14 8 in sorted_wrt (<) t \<and> hd t = 0 \<and> last t = 14 - 1 \<and> length t \<le> 8 + 1"
  by (rule thin_labels) simp_all

section \<open>The regression line\<close>

record fit =
  ft_slope :: real
  ft_intercept :: real
  ft_r :: real

definition regression :: "real list \<Rightarrow> real list \<Rightarrow> fit" where
  "regression xs ys =
    (let n = length xs in
     if n < 2 then \<lparr>ft_slope = 0, ft_intercept = (case ys of y # _ \<Rightarrow> y | [] \<Rightarrow> 0), ft_r = 0\<rparr>
     else
       (let mx = sum_list xs / real n;
            my = sum_list ys / real n;
            sxy = (\<Sum>(x, y)\<leftarrow>zip xs ys. (x - mx) * (y - my));
            sxx = (\<Sum>(x, y)\<leftarrow>zip xs ys. (x - mx)\<^sup>2);
            syy = (\<Sum>(x, y)\<leftarrow>zip xs ys. (y - my)\<^sup>2);
            slope = (if sxx \<noteq> 0 then sxy / sxx else 0)
        in \<lparr>ft_slope = slope, ft_intercept = my - slope * mx,
            ft_r = (if sxx \<noteq> 0 \<and> syy \<noteq> 0 then sxy / sqrt (sxx * syy) else 0)\<rparr>))"

text \<open>The square error of a line.\<close>

definition sq_error :: "real list \<Rightarrow> real list \<Rightarrow> real \<Rightarrow> real \<Rightarrow> real" where
  "sq_error xs ys a b = (\<Sum>(x, y)\<leftarrow>zip xs ys. (y - (a * x + b))\<^sup>2)"

lemma sq_error_nonneg: "0 \<le> sq_error xs ys a b"
  unfolding sq_error_def by (rule sum_list_nonneg) auto

lemma zip_sums:
  assumes "length xs = length ys"
  shows "(\<Sum>(x, y)\<leftarrow>zip xs ys. x :: real) = sum_list xs" "(\<Sum>(x, y)\<leftarrow>zip xs ys. y :: real) = sum_list ys"
  using assms by (induction xs ys rule: list_induct2) auto

lemma sum_linear:
  "(\<Sum>z\<leftarrow>zs. f z - al * g z + be * h z + c + de * u z - ep * (v z :: real)) =
    (\<Sum>z\<leftarrow>zs. f z) - al * (\<Sum>z\<leftarrow>zs. g z) + be * (\<Sum>z\<leftarrow>zs. h z) + real (length zs) * c +
    de * (\<Sum>z\<leftarrow>zs. u z) - ep * (\<Sum>z\<leftarrow>zs. v z)"
  by (induction zs) (simp_all add: algebra_simps)

lemma sq_error_split:
  fixes xs ys :: "real list"
  assumes "length xs = length ys" "xs \<noteq> []"
  defines "mx \<equiv> sum_list xs / real (length xs)" and "my \<equiv> sum_list ys / real (length xs)"
  shows "sq_error xs ys a b =
    (\<Sum>(x, y)\<leftarrow>zip xs ys. (y - my)\<^sup>2) - 2 * a * (\<Sum>(x, y)\<leftarrow>zip xs ys. (x - mx) * (y - my)) +
    a\<^sup>2 * (\<Sum>(x, y)\<leftarrow>zip xs ys. (x - mx)\<^sup>2) + real (length xs) * (my - a * mx - b)\<^sup>2"
proof -
  let ?c = "my - a * mx - b" and ?z = "zip xs ys"
  have p: "(y - (a * x + b))\<^sup>2 = (y - my)\<^sup>2 - 2 * a * ((x - mx) * (y - my)) + a\<^sup>2 * (x - mx)\<^sup>2 + ?c\<^sup>2
      + 2 * ?c * (y - my) - 2 * a * ?c * (x - mx)" for x y
    by (simp add: power2_eq_square) algebra
  have n: "length ?z = length xs" using assms(1) by simp
  have x0: "(\<Sum>(x, y)\<leftarrow>?z. x - mx) = 0" and y0: "(\<Sum>(x, y)\<leftarrow>?z. y - my) = 0"
    using assms(2) zip_sums [OF assms(1)] n
    by (simp_all add: case_prod_unfold sum_list_subtractf sum_list_triv mx_def my_def)
  show ?thesis
    unfolding sq_error_def p using x0 y0 n by (simp add: case_prod_unfold sum_linear)
qed

lemma sum_mult_le_squares: 
  fixes u v :: "'a \<Rightarrow> real"
  shows "(\<Sum>z\<leftarrow>zs. u z * v z)\<^sup>2 \<le> (\<Sum>z\<leftarrow>zs. (u z)\<^sup>2) * (\<Sum>z\<leftarrow>zs. (v z)\<^sup>2)"
proof -
  let ?A = "\<Sum>z\<leftarrow>zs. (u z)\<^sup>2" and ?B = "\<Sum>z\<leftarrow>zs. (v z)\<^sup>2" and ?C = "\<Sum>z\<leftarrow>zs. u z * v z"
  have e: "(\<Sum>z\<leftarrow>zs. (v z - t * u z)\<^sup>2) = ?B - 2 * t * ?C + t\<^sup>2 * ?A" for t
    by (induction zs) (simp_all add: power2_eq_square algebra_simps)
  have q: "0 \<le> ?B - 2 * t * ?C + t\<^sup>2 * ?A" for t
    unfolding e [symmetric] by (rule sum_list_nonneg) auto
  have "0 \<le> ?A" "0 \<le> ?B" by (rule sum_list_nonneg; auto)+
  show ?thesis
  proof (cases "?A = 0")
    case True
    have "?C = 0"
    proof (rule ccontr)
      assume "?C \<noteq> 0"
      then show False using q [of "(?B + 1) / (2 * ?C)"] True by simp
    qed
    with True show ?thesis by simp
  next
    case False
    then have "0 < ?A" using \<open>0 \<le> ?A\<close> by simp
    then show ?thesis using q [of "?C / ?A"] by (simp add: power2_eq_square field_simps)
  qed
qed



section \<open>Derived data\<close>

record heat =
  ht_rows :: "datum list"
  ht_grid :: "real list list"
  ht_cols :: nat
  ht_cw :: real
  ht_chh :: real
  ht_max :: real

definition heatGeometry :: "datum list \<Rightarrow> string \<Rightarrow> heat" where
  "heatGeometry rows key =
    (let hRows = take 12 rows;
         grid = map (\<lambda>d. numArr (d key)) hRows;
         cols = max 1 (min 48 (foldl max 1 (map length grid)));
         nr = max 1 (length hRows)
     in \<lparr>ht_rows = hRows, ht_grid = grid, ht_cols = cols, ht_cw = (W - 40) / real cols,
         ht_chh = BASE / real nr, ht_max = max_of 1 (concat grid)\<rparr>)"

record spark =
  sk_raw :: "real list"
  sk_pts :: "(real \<times> real) list"
  sk_d :: real
  sk_last :: real
  sk_delta :: string

definition sparkRow :: "real list \<Rightarrow> spark" where
  "sparkRow vs =
    (let first = (case vs of v # _ \<Rightarrow> v | [] \<Rightarrow> 0);
         raw = (if 2 \<le> length vs then vs else [first, first]);
         n = length raw;
         mx = max_of 1 raw;
         d = raw ! (n - 1) - raw ! 0
     in \<lparr>sk_raw = raw,
         sk_pts = map (\<lambda>j. (real j * 200 / real (n - 1), 28 - raw ! j / mx * 24)) [0 ..< n],
         sk_d = d, sk_last = raw ! (n - 1),
         sk_delta = (if 0 \<le> d then ''+'' else '''') @
           (if raw ! 0 \<noteq> 0 then to_fixed 1 (d / raw ! 0 * 100) else ''0.0'') @ ''%''\<rparr>)"

definition first_num :: "datum list \<Rightarrow> string \<Rightarrow> real" where
  "first_num rows key = (case rows of d # _ \<Rightarrow> num_at d key | [] \<Rightarrow> 0)"

definition gaugeValue :: "datum list \<Rightarrow> string \<Rightarrow> int" where
  "gaugeValue rows key = max 0 (min 100 (js_round (first_num rows key)))"

text \<open>\<open>xs[xs.length - 1] ?? 0\<close>.\<close>

definition last_or_0 :: "real list \<Rightarrow> real" where
  "last_or_0 vs = (if vs = [] then 0 else last vs)"

record points =
  pt_sx :: "real list"
  pt_sy :: "real list"
  pt_sxm :: real
  pt_sym :: real

definition scatterPoints :: "datum list \<Rightarrow> string \<Rightarrow> string \<Rightarrow> points" where
  "scatterPoints rows xKey yKey =
    (let sx = map (\<lambda>d. num_at d xKey) rows; sy = map (\<lambda>d. num_at d yKey) rows
     in \<lparr>pt_sx = sx, pt_sy = sy, pt_sxm = max_of 1 sx, pt_sym = max_of 1 sy\<rparr>)"

text \<open>The number above the chart.\<close>

definition chart_headline :: "chart_type \<Rightarrow> datum list \<Rightarrow> string \<Rightarrow> string list \<Rightarrow> (real \<Rightarrow> string) \<Rightarrow> string" where
  "chart_headline t rows xKey keys fmt =
    (let k = hd keys; col = map (\<lambda>d. num_at d k) rows in
     case t of
       Gauge_t \<Rightarrow> show_int (gaugeValue rows k)
     | Line_t \<Rightarrow> fmt (last_or_0 col)
     | Area_t \<Rightarrow> fmt (last_or_0 col)
     | Sparkline_t \<Rightarrow> fmt (last_or_0 (case rows of d # _ \<Rightarrow> numArr (d k) | [] \<Rightarrow> []))
     | Scatter_t \<Rightarrow>
         (let p = scatterPoints rows xKey k in ''r = '' @ to_fixed 2 (ft_r (regression (pt_sx p) (pt_sy p))))
     | Radar_t \<Rightarrow> fmt (of_int (js_round (sum_list col / real (max 1 (length col)))))
     | Stacked_t \<Rightarrow> fmt (sum_list (map (\<lambda>d. sum_list (map (num_at d) keys)) rows))
     | Heatmap_t \<Rightarrow> fmt (sum_list (concat (map (\<lambda>d. numArr (d k)) rows)))
     | _ \<Rightarrow> fmt (sum_list col))"

end
