(* ===== verification/Chart_Paths.thy ===== *)
theory Chart_Paths
  imports Chart_Data
begin

text \<open>
  The path data of the line charts of \<open>src/web/components/charts/graphite/Chart.tsx\<close>: \<open>pathOf\<close> with
  its three curves and the path of the compact spark line. A path is a list of commands on exact
  points; writing it out rounds every coordinate to one decimal place.
\<close>

type_synonym pt = "real \<times> real"

datatype path_cmd = Move pt | Line_to pt | Horiz real | Vert real | Curve_to pt pt pt

definition show_num :: "real \<Rightarrow> string" where
  "show_num v = show_tenths (tenths v)"

definition show_pt :: "pt \<Rightarrow> string" where
  "show_pt p = show_num (fst p) @ '','' @ show_num (snd p)"

fun show_cmd :: "path_cmd \<Rightarrow> string" where
  "show_cmd (Move p) = ''M'' @ show_pt p"
| "show_cmd (Line_to p) = ''L'' @ show_pt p"
| "show_cmd (Horiz x) = ''H'' @ show_num x"
| "show_cmd (Vert y) = ''V'' @ show_num y"
| "show_cmd (Curve_to a b c) = ''C'' @ show_pt a @ '' '' @ show_pt b @ '' '' @ show_pt c"

definition step_cmds :: "pt list \<Rightarrow> nat \<Rightarrow> path_cmd list" where
  "step_cmds pts i = [Horiz ((fst (pts ! (i - 1)) + fst (pts ! i)) / 2), Vert (snd (pts ! i))]"

definition curve_cmd :: "pt list \<Rightarrow> nat \<Rightarrow> path_cmd" where
  "curve_cmd pts i =
    (let a = (if i = 0 then pts ! i else pts ! (i - 1));
         b = pts ! i;
         c = pts ! (i + 1);
         e = (if i + 2 < length pts then pts ! (i + 2) else c)
     in Curve_to (fst b + (fst c - fst a) / 6, snd b + (snd c - snd a) / 6)
          (fst c - (fst e - fst b) / 6, snd c - (snd e - snd b) / 6) c)"

definition path_cmds :: "pt list \<Rightarrow> chart_curve \<Rightarrow> path_cmd list" where
  "path_cmds pts curve =
    (case pts of
       [] \<Rightarrow> []
     | p0 # ps \<Rightarrow>
         (case curve of
            Linear \<Rightarrow> Move p0 # map Line_to ps
          | Step \<Rightarrow> Move p0 # concat (map (step_cmds pts) [1 ..< length pts]) @ [Horiz (fst (last pts))]
          | Smooth \<Rightarrow> Move p0 # map (curve_cmd pts) [0 ..< length pts - 1]))"

definition pathOf :: "pt list \<Rightarrow> chart_curve \<Rightarrow> string" where
  "pathOf pts curve = concat (map show_cmd (path_cmds pts curve))"

section \<open>What a path draws\<close>

text \<open>Where the pen stands after a command, and the pieces it draws: from, to.\<close>

fun pen :: "pt \<Rightarrow> path_cmd \<Rightarrow> pt" where
  "pen q (Move p) = p"
| "pen q (Line_to p) = p"
| "pen q (Horiz x) = (x, snd q)"
| "pen q (Vert y) = (fst q, y)"
| "pen q (Curve_to a b c) = c"

fun strokes :: "pt \<Rightarrow> path_cmd list \<Rightarrow> (pt \<times> pt) list" where
  "strokes q [] = []"
| "strokes q (Move p # cs) = strokes p cs"
| "strokes q (c # cs) = (q, pen q c) # strokes (pen q c) cs"

text \<open>A stroke meets a point at one of its ends, or in between when it is horizontal.\<close>

definition meets :: "pt \<times> pt \<Rightarrow> pt \<Rightarrow> bool" where
  "meets s p \<longleftrightarrow> p = fst s \<or> p = snd s \<or>
     snd (fst s) = snd p \<and> snd (snd s) = snd p \<and> fst (fst s) \<le> fst p \<and> fst p \<le> fst (snd s)"

lemma strokes_append: "strokes q (cs @ ds) = strokes q cs @ strokes (foldl pen q cs) ds"
proof (induction cs arbitrary: q)
  case (Cons c cs)
  then show ?case by (cases c) auto
qed simp

lemma linear_strokes: "p \<in> set ps \<Longrightarrow> \<exists>s \<in> set (strokes q (map Line_to ps)). snd s = p"
  by (induction ps arbitrary: q) auto

lemma curve_strokes:
  "i < n \<Longrightarrow> Suc n \<le> length pts \<Longrightarrow> \<exists>s \<in> set (strokes q (map (curve_cmd pts) [0 ..< n])). snd s = pts ! Suc i"
proof (induction n)
  case (Suc n)
  then show ?case
    by (cases "i < n") (auto simp: strokes_append curve_cmd_def Let_def less_Suc_eq)
qed simp

lemma step_pen:
  "1 \<le> n \<Longrightarrow> n \<le> length pts \<Longrightarrow>
    snd (foldl pen (pts ! 0) (concat (map (step_cmds pts) [1 ..< n]))) = snd (pts ! (n - 1)) \<and>
    fst (foldl pen (pts ! 0) (concat (map (step_cmds pts) [1 ..< n]))) =
      (if n = 1 then fst (pts ! 0) else (fst (pts ! (n - 2)) + fst (pts ! (n - 1))) / 2)"
proof (induction n)
  case (Suc n)
  then show ?case
    by (cases n) (auto simp: step_cmds_def)
qed simp

lemma step_strokes:
  assumes "sorted (map fst pts)" "1 \<le> n" "n \<le> length pts" "i < n - 1"
  shows "\<exists>s \<in> set (strokes (pts ! 0) (concat (map (step_cmds pts) [1 ..< n]))). meets s (pts ! i)"
  using assms(2-)
proof (induction n)
  case (Suc n)
  show ?case
  proof (cases "i < n - 1")
    case True
    then show ?thesis using Suc by (auto simp: strokes_append)
  next
    case False
    then have i: "i = n - 1" "1 \<le> n" "n < length pts" using Suc.prems by simp_all
    have le: "fst (pts ! j) \<le> fst (pts ! k)" if "j \<le> k" "k < length pts" for j k
      using sorted_nth_mono [OF assms(1), of j k] that by simp
    let ?q = "foldl pen (pts ! 0) (concat (map (step_cmds pts) [1 ..< n]))"
    have q: "snd ?q = snd (pts ! i)" "fst ?q \<le> fst (pts ! i)"
      using step_pen [of n pts] i le [of "n - 2" "n - 1"] by auto
    have "fst (pts ! i) \<le> (fst (pts ! (n - 1)) + fst (pts ! n)) / 2" using le [of "n - 1" n] i by simp
    then have "meets (?q, ((fst (pts ! (n - 1)) + fst (pts ! n)) / 2, snd ?q)) (pts ! i)"
      using q by (simp add: meets_def)
    moreover have "(?q, ((fst (pts ! (n - 1)) + fst (pts ! n)) / 2, snd ?q)) \<in>
        set (strokes (pts ! 0) (concat (map (step_cmds pts) [1 ..< Suc n])))"
      using i(2) by (simp add: strokes_append step_cmds_def)
    ultimately show ?thesis by blast
  qed
qed simp

text \<open>Whatever the curve, the line that is drawn passes through every data point.\<close>

theorem path_through_points:
  assumes "2 \<le> length pts" "sorted (map fst pts)" "p \<in> set pts"
  shows "\<exists>s \<in> set (strokes q (path_cmds pts curve)). meets s p"
proof -
  obtain p0 p1 ps where pts: "pts = p0 # p1 # ps"
    using assms(1) by (cases pts; cases "tl pts") auto
  obtain i where i: "p = pts ! i" "i < length pts" using assms(3) by (metis in_set_conv_nth)
  show ?thesis
  proof (cases curve)
    case Linear
    have "p = p0 \<or> p \<in> set (p1 # ps)" using assms(3) pts by simp
    then show ?thesis
      using linear_strokes [of p "p1 # ps" p0] Linear by (auto simp: path_cmds_def pts meets_def)
  next
    case Smooth
    let ?cs = "map (curve_cmd pts) [0 ..< length pts - 1]"
    have c: "strokes q (path_cmds pts curve) = strokes p0 ?cs" by (simp add: path_cmds_def pts Smooth)
    show ?thesis
    proof (cases i)
      case 0
      have "?cs = curve_cmd pts 0 # map (curve_cmd pts) [1 ..< length pts - 1]" by (simp add: pts upt_rec)
      then have "(p0, pen p0 (curve_cmd pts 0)) \<in> set (strokes p0 ?cs)" by (simp add: curve_cmd_def Let_def)
      moreover have "p = p0" using i 0 by (simp add: pts)
      ultimately show ?thesis unfolding c by (metis fst_conv meets_def)
    next
      case (Suc j)
      then have "\<exists>s \<in> set (strokes p0 ?cs). snd s = pts ! Suc j"
        using i by (intro curve_strokes) auto
      then show ?thesis unfolding c i(1) Suc by (metis meets_def)
    qed
  next
    case Step
    let ?cs = "concat (map (step_cmds pts) [1 ..< length pts])"
    have c: "path_cmds pts Step = Move p0 # ?cs @ [Horiz (fst (last pts))]" by (simp add: path_cmds_def pts)
    have z: "pts ! 0 = p0" by (simp add: pts)
    show ?thesis
    proof (cases "i < length pts - 1")
      case True
      then have "\<exists>s \<in> set (strokes p0 ?cs). meets s p"
        using step_strokes [OF assms(2), of "length pts" i] i z assms(1) by simp
      then show ?thesis using Step by (auto simp: c strokes_append)
    next
      case False
      then have l: "p = last pts" using i pts by (simp add: last_conv_nth less_Suc_eq)
      let ?q = "foldl pen p0 ?cs"
      have "snd ?q = snd p" using step_pen [of "length pts" pts] assms(1) z l pts by (simp add: last_conv_nth)
      then have "meets (?q, (fst (last pts), snd ?q)) p" using l by (simp add: meets_def prod_eq_iff)
      then show ?thesis using Step by (simp add: c strokes_append)
    qed
  qed
qed

lemma path_through_points_witness:
  "\<exists>s \<in> set (strokes (0, 0) (path_cmds [(0, 10), (5, 30), (20, 0)] Step)). meets s (5, 30)"
  by (rule path_through_points) simp_all

section \<open>The compact spark line\<close>

definition spark_y :: "real \<Rightarrow> real \<Rightarrow> real" where
  "spark_y mx v = 64 - 4 - clamp_to v 0 mx / (if mx = 0 then 1 else mx) * (64 - 4 * 2)"

definition spark_pts :: "real list \<Rightarrow> real \<Rightarrow> pt list" where
  "spark_pts vs mx =
    map (\<lambda>i. (if length vs \<le> 1 then 240 else real i / real (length vs - 1) * 240, spark_y mx (vs ! i)))
      [0 ..< length vs]"

definition show_pair :: "pt \<Rightarrow> string" where
  "show_pair p = show_num (fst p) @ '' '' @ show_num (snd p)"

text \<open>Midpoint quadratics: from point to midpoint, and a line to the last point.\<close>

definition spark_d :: "real list \<Rightarrow> real \<Rightarrow> string" where
  "spark_d vs mx =
    (let pts = spark_pts vs mx in
     if pts = [] then []
     else if length pts = 1 then ''M0 '' @ show_num (snd (pts ! 0)) @ '' L240 '' @ show_num (snd (pts ! 0))
     else ''M'' @ show_pair (pts ! 0) @
       concat (map (\<lambda>i. '' Q'' @ show_pair (pts ! (i - 1)) @ '' '' @
           show_pair ((fst (pts ! (i - 1)) + fst (pts ! i)) / 2, (snd (pts ! (i - 1)) + snd (pts ! i)) / 2) @
           (if i = length pts - 1 then '' L'' @ show_pair (pts ! i) else []))
         [1 ..< length pts]))"

definition spark_area :: "real list \<Rightarrow> real \<Rightarrow> string" where
  "spark_area vs mx = (if spark_d vs mx = [] then [] else spark_d vs mx @ '' L240 64 L0 64 Z'')"

lemma spark_inside: "0 \<le> mx \<Longrightarrow> 4 \<le> spark_y mx v \<and> spark_y mx v \<le> 60"
proof -
  assume mx: "0 \<le> mx"
  then have c: "0 \<le> clamp_to v 0 mx" "clamp_to v 0 mx \<le> mx" using clamp_to_bounds by blast+
  define t where "t = clamp_to v 0 mx / (if mx = 0 then 1 else mx)"
  have "0 \<le> t" "t \<le> 1" using mx c by (auto simp: t_def divide_le_eq)
  then show ?thesis by (simp add: spark_y_def t_def [symmetric])
qed

end
