(* ===== verification/Chart_Treemap.thy ===== *)
theory Chart_Treemap
  imports Dockhand_Prelude
begin

text \<open>
  \<open>squarify\<close> of \<open>src/web/components/charts/graphite/Chart.tsx\<close>: the squarified treemap layout.
  An item is its index and its area. The loop over the remaining items is \<open>layout\<close>, the inner
  one that grows a row \<open>grow_row\<close>, and the two loops that place a row \<open>column\<close> and \<open>band\<close>.
  The JavaScript \<open>Infinity\<close> that \<open>worst\<close> gives is \<open>None\<close>. The lemmas show that the cells tile
  the box: they lie inside it, do not overlap, cover it and have areas in proportion to the values.
\<close>

section \<open>The layout\<close>

record rect =
  rc_i :: nat
  rc_x :: real
  rc_y :: real
  rc_w :: real
  rc_h :: real

type_synonym item = "nat \<times> real"

definition row_sum :: "item list \<Rightarrow> real" where
  "row_sum row = sum_list (map snd row)"

definition worst :: "item list \<Rightarrow> real \<Rightarrow> real option" where
  "worst row side =
    (case map snd row of
       [] \<Rightarrow> None
     | a # as \<Rightarrow>
         (let s = row_sum row; mx = foldl max a as; mn = foldl min a as in
          if mn \<le> 0 \<or> s \<le> 0 \<or> side = 0 then None
          else Some (max (side * side * mx / (s * s)) (s * s / (side * side * mn)))))"

definition not_worse :: "real option \<Rightarrow> real option \<Rightarrow> bool" where
  "not_worse a b = (case b of None \<Rightarrow> True | Some y \<Rightarrow> (case a of None \<Rightarrow> False | Some x \<Rightarrow> x \<le> y))"

fun grow_row :: "real \<Rightarrow> item list \<Rightarrow> item list \<Rightarrow> item list \<times> item list" where
  "grow_row side row [] = (row, [])"
| "grow_row side row (it # rest) =
     (if not_worse (worst (row @ [it]) side) (worst row side) then grow_row side (row @ [it]) rest
      else (row, it # rest))"

fun column :: "real \<Rightarrow> real \<Rightarrow> real \<Rightarrow> item list \<Rightarrow> rect list" where
  "column bx cw yy [] = []"
| "column bx cw yy (it # row) =
     (let hh = if 0 < cw then snd it / cw else 0
      in \<lparr>rc_i = fst it, rc_x = bx, rc_y = yy, rc_w = cw, rc_h = hh\<rparr> # column bx cw (yy + hh) row)"

fun band :: "real \<Rightarrow> real \<Rightarrow> real \<Rightarrow> item list \<Rightarrow> rect list" where
  "band by rh xx [] = []"
| "band by rh xx (it # row) =
     (let ww = if 0 < rh then snd it / rh else 0
      in \<lparr>rc_i = fst it, rc_x = xx, rc_y = by, rc_w = ww, rc_h = rh\<rparr> # band by rh (xx + ww) row)"

lemma grow_row_split: "grow_row side row rest = (r, t) \<Longrightarrow> r @ t = row @ rest \<and> length t \<le> length rest"
  by (induction rest arbitrary: row) (auto split: if_splits intro: le_SucI)

function layout :: "item list \<Rightarrow> real \<Rightarrow> real \<Rightarrow> real \<Rightarrow> real \<Rightarrow> rect list" where
  "layout rest bx b_y bw bh =
    (case rest of
       [] \<Rightarrow> []
     | it # its \<Rightarrow>
         (case grow_row (min bw bh) [it] its of (row, rest') \<Rightarrow>
            (let s = row_sum row in
             if bh \<le> bw then
               (let cw = if 0 < bh then s / bh else 0
                in column bx cw b_y row @ layout rest' (bx + cw) b_y (bw - cw) bh)
             else
               (let rh = if 0 < bw then s / bw else 0
                in band b_y rh bx row @ layout rest' bx (b_y + rh) bw (bh - rh)))))"
  by pat_completeness auto
termination
  by (relation "measure (\<lambda>(rest, _). length rest)") (auto dest!: grow_row_split [OF sym] simp: less_Suc_eq_le)

declare layout.simps [simp del]

text \<open>The areas: in proportion to the values, or equal when no value is positive.\<close>

definition cell_areas :: "real list \<Rightarrow> real \<Rightarrow> real \<Rightarrow> real list" where
  "cell_areas values w h =
    (let total = sum_list (map (max 0) values);
         scale = if 0 < total then w * h / total else 0
     in map (\<lambda>v. if 0 < total then max 0 v * scale else w * h / real (length values)) values)"

definition squarify :: "real list \<Rightarrow> real \<Rightarrow> real \<Rightarrow> real \<Rightarrow> real \<Rightarrow> rect list" where
  "squarify values x y w h =
    js_sort (\<lambda>p q. real (rc_i p) - real (rc_i q))
      (layout (js_sort (\<lambda>p q. snd q - snd p) (enumerate 0 (cell_areas values w h))) x y w h)"

section \<open>Rows\<close>

definition inside :: "real \<Rightarrow> real \<Rightarrow> real \<Rightarrow> real \<Rightarrow> rect \<Rightarrow> bool" where
  "inside x y w h r \<longleftrightarrow> x \<le> rc_x r \<and> 0 \<le> rc_w r \<and> rc_x r + rc_w r \<le> x + w \<and>
     y \<le> rc_y r \<and> 0 \<le> rc_h r \<and> rc_y r + rc_h r \<le> y + h"

definition apart :: "rect \<Rightarrow> rect \<Rightarrow> bool" where
  "apart r q \<longleftrightarrow> rc_x r + rc_w r \<le> rc_x q \<or> rc_x q + rc_w q \<le> rc_x r \<or>
     rc_y r + rc_h r \<le> rc_y q \<or> rc_y q + rc_h q \<le> rc_y r"

definition contains :: "rect \<Rightarrow> real \<Rightarrow> real \<Rightarrow> bool" where
  "contains r px py \<longleftrightarrow> rc_x r \<le> px \<and> px \<le> rc_x r + rc_w r \<and> rc_y r \<le> py \<and> py \<le> rc_y r + rc_h r"

text \<open>Rows and columns are mirror images.\<close>

definition flip :: "rect \<Rightarrow> rect" where
  "flip r = \<lparr>rc_i = rc_i r, rc_x = rc_y r, rc_y = rc_x r, rc_w = rc_h r, rc_h = rc_w r\<rparr>"

lemma band_flip: "band b rh xx row = map flip (column b rh xx row)"
  by (induction row arbitrary: xx) (auto simp: flip_def Let_def)

lemma flip_simps [simp]:
  "rc_i (flip r) = rc_i r" "inside x y w h (flip r) = inside y x h w r"
  "apart (flip r) (flip q) = apart r q" "contains (flip r) px py = contains r py px"
  by (auto simp: flip_def inside_def apart_def contains_def)

definition areas :: "rect list \<Rightarrow> item list" where
  "areas rs = map (\<lambda>r. (rc_i r, rc_w r * rc_h r)) rs"

lemma areas_simps [simp]: "areas [] = []" "areas (rs @ qs) = areas rs @ areas qs"
    "areas (map flip rs) = areas rs"
  by (simp_all add: areas_def comp_def flip_def mult.commute)

abbreviation no_debt :: "item list \<Rightarrow> bool" where
  "no_debt row \<equiv> list_all (\<lambda>it. 0 \<le> snd it) row"

lemma row_sum_simps [simp]:
  "row_sum [] = 0" "row_sum (it # row) = snd it + row_sum row" "row_sum (r @ t) = row_sum r + row_sum t"
  by (simp_all add: row_sum_def)

lemma row_sum_nonneg: "no_debt row \<Longrightarrow> 0 \<le> row_sum row"
  by (induction row) auto

lemma row_sum_zero: "no_debt row \<Longrightarrow> row_sum row = 0 \<Longrightarrow> it \<in> set row \<Longrightarrow> snd it = 0"
proof (induction row)
  case (Cons a row)
  then show ?case using row_sum_nonneg [of row] by auto
qed simp

lemma column_areas: "0 < cw \<or> (cw = 0 \<and> row_sum row = 0) \<Longrightarrow> no_debt row \<Longrightarrow> areas (column bx cw yy row) = row"
proof (induction row arbitrary: yy)
  case (Cons it row)
  then have "row_sum row = 0" if "cw = 0"
    using that row_sum_nonneg [of row] by auto
  moreover have "snd it = 0" if "cw = 0" using row_sum_zero [of "it # row" it] that Cons.prems by auto
  ultimately show ?case using Cons by (cases it) (auto simp: Let_def areas_def)
qed simp

lemma column_inside:
  "0 \<le> cw \<Longrightarrow> no_debt row \<Longrightarrow> row_sum row \<le> cw * H \<Longrightarrow> 0 \<le> H \<Longrightarrow> r \<in> set (column bx cw yy row) \<Longrightarrow>
    inside bx yy cw H r"
proof (induction row arbitrary: yy H)
  case (Cons it row)
  define hh where "hh = (if 0 < cw then snd it / cw else 0)"
  have n: "0 \<le> row_sum row" using Cons.prems by (simp add: row_sum_nonneg)
  have p: "0 \<le> cw" "0 \<le> snd it" "snd it + row_sum row \<le> cw * H" "0 \<le> H" using Cons.prems by simp_all
  have h: "0 \<le> hh" "hh \<le> H" "row_sum row \<le> cw * (H - hh)"
  proof -
    show "0 \<le> hh" using p by (simp add: hh_def)
    have c: "cw * hh = snd it" using p n by (cases "cw = 0") (auto simp: hh_def)
    then show "row_sum row \<le> cw * (H - hh)" using p by (simp add: right_diff_distrib)
    show "hh \<le> H" using p n by (simp add: hh_def divide_le_eq mult.commute)
  qed
  have "inside bx yy cw H r" if "inside bx (yy + hh) cw (H - hh) r"
    using that h by (auto simp: inside_def)
  then show ?case
    using Cons.IH [of "H - hh" "yy + hh"] Cons.prems h by (auto simp: Let_def hh_def [symmetric]) (auto simp: inside_def)
qed simp

lemma column_below:
  "0 \<le> cw \<Longrightarrow> no_debt row \<Longrightarrow> r \<in> set (column bx cw yy row) \<Longrightarrow> yy \<le> rc_y r"
proof (induction row arbitrary: yy)
  case (Cons it row)
  define hh where "hh = (if 0 < cw then snd it / cw else 0)"
  have "0 \<le> hh" using Cons.prems by (simp add: hh_def)
  moreover have "yy + hh \<le> rc_y r" if "r \<in> set (column bx cw (yy + hh) row)"
    using that Cons.prems by (intro Cons.IH) auto
  ultimately show ?case using Cons.prems by (auto simp: Let_def hh_def [symmetric])
qed simp

lemma column_apart: "0 \<le> cw \<Longrightarrow> no_debt row \<Longrightarrow> sorted_wrt apart (column bx cw yy row)"
proof (induction row arbitrary: yy)
  case (Cons it row)
  then show ?case using column_below [of cw row] by (auto simp: Let_def apart_def)
qed simp

lemma column_covers:
  "0 < cw \<Longrightarrow> no_debt row \<Longrightarrow> row \<noteq> [] \<Longrightarrow> bx \<le> px \<Longrightarrow> px \<le> bx + cw \<Longrightarrow> yy \<le> py \<Longrightarrow> py \<le> yy + row_sum row / cw \<Longrightarrow>
    \<exists>r \<in> set (column bx cw yy row). contains r px py"
proof (induction row arbitrary: yy)
  case (Cons it row)
  show ?case
  proof (cases "py \<le> yy + snd it / cw")
    case True
    with Cons.prems show ?thesis by (auto simp: Let_def contains_def)
  next
    case False
    then have "row \<noteq> []" using Cons.prems by auto
    then have "\<exists>r \<in> set (column bx cw (yy + snd it / cw) row). contains r px py"
      using False Cons.prems by (intro Cons.IH) (auto simp: field_simps)
    with Cons.prems show ?thesis by (auto simp: Let_def)
  qed
qed simp

section \<open>The tiling\<close>

text \<open>A strip of the area \<open>s\<close> cut off a box of the area \<open>s + t\<close>.\<close>

lemma strip:
  assumes "0 \<le> len" "0 \<le> (side :: real)" "0 \<le> s" "0 \<le> t" "s + t = len * side"
  defines "c \<equiv> if 0 < side then s / side else 0"
  shows "0 \<le> c" "c * side = s" "c \<le> len" "(len - c) * side = t" "0 < c \<or> c = 0 \<and> s = 0"
proof -
  show c: "0 \<le> c" using assms by (simp add: c_def)
  show s: "c * side = s"
  proof (cases "0 < side")
    case False
    then have "side = 0" using assms(2) by simp
    with assms show ?thesis by (simp add: c_def)
  qed (simp add: c_def)
  show "c \<le> len"
  proof (cases "0 < side")
    case True
    have "c * side \<le> len * side" using s assms(4,5) by simp
    with True show ?thesis by simp
  qed (simp add: c_def assms(1))
  show "(len - c) * side = t" using s assms(5) by (simp add: left_diff_distrib)
  show "0 < c \<or> c = 0 \<and> s = 0" using c s by (cases "c = 0") auto
qed

lemma inside_left: "inside x y c h r \<Longrightarrow> c \<le> w \<Longrightarrow> inside x y w h r"
  and inside_right: "inside (x + c) y (w - c) h r \<Longrightarrow> 0 \<le> c \<Longrightarrow> inside x y w h r"
  and inside_above: "inside x y w c r \<Longrightarrow> c \<le> h \<Longrightarrow> inside x y w h r"
  and inside_below: "inside x (y + c) w (h - c) r \<Longrightarrow> 0 \<le> c \<Longrightarrow> inside x y w h r"
  by (auto simp: inside_def)

lemma beside_apart: "inside x y c h r \<Longrightarrow> inside (x + c) y w h q \<Longrightarrow> apart r q"
  and above_apart: "inside x y w c r \<Longrightarrow> inside x (y + c) w h q \<Longrightarrow> apart r q"
  by (auto simp: inside_def apart_def)

definition tiles :: "rect list \<Rightarrow> item list \<Rightarrow> real \<Rightarrow> real \<Rightarrow> real \<Rightarrow> real \<Rightarrow> bool" where
  "tiles rs its x y w h \<longleftrightarrow> areas rs = its \<and> (\<forall>r \<in> set rs. inside x y w h r) \<and> sorted_wrt apart rs"

lemma tiles_column:
  assumes "tiles rs t (x + c) y (w - c) h" "0 \<le> c" "c \<le> w" "0 \<le> h" "no_debt row" "c * h = row_sum row"
    "0 < c \<or> c = 0 \<and> row_sum row = 0"
  shows "tiles (column x c y row @ rs) (row @ t) x y w h"
proof -
  have i: "inside x y c h r" if "r \<in> set (column x c y row)" for r
    using that assms by (intro column_inside [of c row h]) auto
  with assms show ?thesis
    by (auto simp: tiles_def sorted_wrt_append column_areas column_apart
        intro: inside_left inside_right beside_apart)
qed

lemma tiles_flip: "tiles (map flip rs) its x y w h \<longleftrightarrow> tiles rs its y x h w"
  by (simp add: tiles_def sorted_wrt_map)

lemma tiles_band:
  assumes "tiles rs t x (y + c) w (h - c)" "0 \<le> c" "c \<le> h" "0 \<le> w" "no_debt row" "c * w = row_sum row"
    "0 < c \<or> c = 0 \<and> row_sum row = 0"
  shows "tiles (band y c x row @ rs) (row @ t) x y w h"
proof -
  have "flip (flip r) = r" for r by (simp add: flip_def)
  then have f: "map flip (map flip rs) = rs" by (simp add: comp_def)
  have "tiles (map flip rs) t (y + c) x (h - c) w" by (simp add: tiles_flip assms(1))
  then have "tiles (column y c x row @ map flip rs) (row @ t) y x h w"
    using assms by (intro tiles_column) auto
  then show ?thesis
    using tiles_flip [of "column y c x row @ map flip rs" "row @ t" x y w h] f by (simp add: band_flip)
qed

lemma grow_row_nonempty: "grow_row side row rest = (r, t) \<Longrightarrow> row \<noteq> [] \<Longrightarrow> r \<noteq> []"
  by (induction rest arbitrary: row) (auto split: if_splits)

lemma layout_nil [simp]: "layout [] x y w h = []"
  by (simp add: layout.simps)

lemma layout_wide:
  "grow_row (min w h) [it] its = (row, t) \<Longrightarrow> h \<le> w \<Longrightarrow> c = (if 0 < h then row_sum row / h else 0) \<Longrightarrow>
    layout (it # its) x y w h = column x c y row @ layout t (x + c) y (w - c) h"
  by (subst layout.simps) (simp add: Let_def)

lemma layout_tall:
  "grow_row (min w h) [it] its = (row, t) \<Longrightarrow> \<not> h \<le> w \<Longrightarrow> c = (if 0 < w then row_sum row / w else 0) \<Longrightarrow>
    layout (it # its) x y w h = band y c x row @ layout t x (y + c) w (h - c)"
  by (subst layout.simps) (simp add: Let_def)

lemma layout_tiles:
  "0 \<le> w \<Longrightarrow> 0 \<le> h \<Longrightarrow> no_debt its \<Longrightarrow> row_sum its = w * h \<Longrightarrow> tiles (layout its x y w h) its x y w h"
proof (induction its x y w h rule: layout.induct)
  case (1 its x y w h)
  show ?case
  proof (cases its)
    case Nil
    then show ?thesis by (simp add: tiles_def)
  next
    case (Cons it more')
    obtain row t where g: "grow_row (min w h) [it] more' = (row, t)" by fastforce
    with Cons have its: "its = row @ t" using grow_row_split by fastforce
    have d: "no_debt row" "no_debt t" "row_sum row + row_sum t = w * h" using "1.prems" its by auto
    then have n: "0 \<le> row_sum row" "0 \<le> row_sum t" by (simp_all add: row_sum_nonneg)
    show ?thesis
    proof (cases "h \<le> w")
      case True
      define c where "c = (if 0 < h then row_sum row / h else 0)"
      note s = strip [OF "1.prems"(1,2) n d(3), folded c_def]
      have "tiles (layout t (x + c) y (w - c) h) t (x + c) y (w - c) h"
        using "1.IH"(1) [OF Cons g [symmetric] refl True c_def] s d "1.prems" by simp
      then have "tiles (column x c y row @ layout t (x + c) y (w - c) h) (row @ t) x y w h"
        using s d "1.prems" by (intro tiles_column) auto
      then show ?thesis using layout_wide [OF g True c_def] its Cons by simp
    next
      case False
      define c where "c = (if 0 < w then row_sum row / w else 0)"
      have "row_sum row + row_sum t = h * w" using d(3) by (simp add: mult.commute)
      note s = strip [OF "1.prems"(2,1) n this, folded c_def]
      have "tiles (layout t x (y + c) w (h - c)) t x (y + c) w (h - c)"
        using "1.IH"(2) [OF Cons g [symmetric] refl False c_def] s d "1.prems" by (simp add: mult.commute)
      then have "tiles (band y c x row @ layout t x (y + c) w (h - c)) (row @ t) x y w h"
        using s d "1.prems" by (intro tiles_band) auto
      then show ?thesis using layout_tall [OF g False c_def] its Cons by simp
    qed
  qed
qed

lemma column_hit:
  assumes "0 < c" "c * h = row_sum row" "no_debt row" "row \<noteq> []" "x \<le> px" "px \<le> x + c" "y \<le> py" "py \<le> y + h"
  shows "\<exists>r \<in> set (column x c y row). contains r px py"
proof -
  have "row_sum row / c = h" using assms(1,2) by (simp add: field_simps)
  with assms show ?thesis by (intro column_covers) auto
qed

lemma band_hit:
  assumes "0 < c" "c * w = row_sum row" "no_debt row" "row \<noteq> []" "y \<le> py" "py \<le> y + c" "x \<le> px" "px \<le> x + w"
  shows "\<exists>r \<in> set (band y c x row). contains r px py"
  using column_hit [OF assms] by (auto simp: band_flip)

lemma layout_covers:
  "0 < w \<Longrightarrow> 0 < h \<Longrightarrow> no_debt its \<Longrightarrow> row_sum its = w * h \<Longrightarrow> x \<le> px \<Longrightarrow> px \<le> x + w \<Longrightarrow> y \<le> py \<Longrightarrow>
    py \<le> y + h \<Longrightarrow> \<exists>r \<in> set (layout its x y w h). contains r px py"
proof (induction its x y w h rule: layout.induct)
  case (1 its x y w h)
  show ?case
  proof (cases its)
    case Nil
    then show ?thesis using "1.prems" by simp
  next
    case (Cons it more')
    obtain row t where g: "grow_row (min w h) [it] more' = (row, t)" by fastforce
    with Cons have its: "its = row @ t" using grow_row_split by fastforce
    have "row \<noteq> []" using g grow_row_nonempty by fastforce
    have d: "no_debt row" "no_debt t" "row_sum row + row_sum t = w * h" using "1.prems" its by auto
    then have n: "0 \<le> row_sum row" "0 \<le> row_sum t" by (simp_all add: row_sum_nonneg)
    have wh: "0 \<le> w" "0 \<le> h" using "1.prems" by simp_all
    show ?thesis
    proof (cases "h \<le> w")
      case True
      define c where "c = (if 0 < h then row_sum row / h else 0)"
      note s = strip [OF wh n d(3), folded c_def]
      note l = layout_wide [OF g True c_def, of x y]
      show ?thesis
      proof (cases "0 < c \<and> px \<le> x + c")
        case hit: True
        then show ?thesis
          using column_hit [of c h row x px y py] s d \<open>row \<noteq> []\<close> "1.prems" l Cons by auto
      next
        case False
        then have "0 < w - c" "x + c \<le> px" using s "1.prems" by auto
        then show ?thesis
          using "1.IH"(1) [OF Cons g [symmetric] refl True c_def] s d "1.prems" l Cons by auto
      qed
    next
      case False
      define c where "c = (if 0 < w then row_sum row / w else 0)"
      have "row_sum row + row_sum t = h * w" using d(3) by (simp add: mult.commute)
      note s = strip [OF wh(2,1) n this, folded c_def]
      note l = layout_tall [OF g False c_def, of x y]
      show ?thesis
      proof (cases "0 < c \<and> py \<le> y + c")
        case hit: True
        then show ?thesis
          using band_hit [of c w row y py x px] s d \<open>row \<noteq> []\<close> "1.prems" l Cons by auto
      next
        case miss: False
        then have "0 < h - c" "y + c \<le> py" using s "1.prems" by auto
        moreover have "row_sum t = w * (h - c)" using s by (simp add: mult.commute)
        ultimately show ?thesis
          using "1.IH"(2) [OF Cons g [symmetric] refl False c_def] s d "1.prems" l Cons by auto
      qed
    qed
  qed
qed

section \<open>The result\<close>

lemma cell_areas_nonneg: "0 \<le> w \<Longrightarrow> 0 \<le> h \<Longrightarrow> a \<in> set (cell_areas values w h) \<Longrightarrow> 0 \<le> a"
  by (auto simp: cell_areas_def Let_def)

lemma cell_areas_sum: "values \<noteq> [] \<Longrightarrow> sum_list (cell_areas values w h) = w * h"
proof -
  assume "values \<noteq> []"
  have "(\<Sum>v\<leftarrow>values. max 0 v * c) = (\<Sum>v\<leftarrow>values. max 0 v) * c" for c :: real
    by (simp add: sum_list_mult_const)
  from this [of "w * h / sum_list (map (max 0) values)"] \<open>values \<noteq> []\<close> show ?thesis
    by (simp add: cell_areas_def Let_def sum_list_triv)
qed

lemma cell_items:
  fixes "values" :: "real list"
  assumes "0 \<le> w" "0 \<le> h"
  defines "its \<equiv> js_sort (\<lambda>p q. snd q - snd p) (enumerate 0 (cell_areas values w h))"
  shows "no_debt its" "values \<noteq> [] \<Longrightarrow> row_sum its = w * h" "mset its = mset (enumerate 0 (cell_areas values w h))"
proof -
  show m: "mset its = mset (enumerate 0 (cell_areas values w h))" by (simp add: its_def)
  then have "set its = set (enumerate 0 (cell_areas values w h))" by (metis set_mset_mset)
  moreover have "snd it \<in> set as" if "it \<in> set (enumerate 0 as)" for it :: item and as
    using that by (metis image_eqI list.set_map map_snd_enumerate)
  ultimately show "no_debt its"
    using cell_areas_nonneg [OF assms(1,2), of _ "values"] by (simp add: list_all_iff)
  have "mset (map snd its) = mset (cell_areas values w h)"
    using m by (metis map_snd_enumerate mset_map)
  then have "row_sum its = sum_list (cell_areas values w h)"
    unfolding row_sum_def by (metis sum_mset_sum_list)
  then show "values \<noteq> [] \<Longrightarrow> row_sum its = w * h" by (simp add: cell_areas_sum)
qed

lemma squarify_layout:
  assumes "0 \<le> w" "0 \<le> h"
  obtains its where "mset its = mset (enumerate 0 (cell_areas values w h))" "no_debt its"
    "values \<noteq> [] \<Longrightarrow> row_sum its = w * h" "tiles (layout its x y w h) its x y w h"
    "squarify values x y w h = js_sort (by_key (\<lambda>r. real (rc_i r))) (layout its x y w h)"
proof
  let ?its = "js_sort (\<lambda>p q. snd q - snd p) (enumerate 0 (cell_areas values w h))"
  note c = cell_items [OF assms, of "values"]
  show "mset ?its = mset (enumerate 0 (cell_areas values w h))" "no_debt ?its"
    "values \<noteq> [] \<Longrightarrow> row_sum ?its = w * h" by (rule c, assumption?)+
  show "tiles (layout ?its x y w h) ?its x y w h"
  proof (cases "values = []")
    case True
    then have "?its = []" by (simp add: cell_areas_def)
    then show ?thesis by (simp add: tiles_def)
  next
    case False
    then show ?thesis using c assms by (intro layout_tiles) auto
  qed
  have "(\<lambda>p q :: rect. real (rc_i p) - real (rc_i q)) = by_key (\<lambda>r. real (rc_i r))"
    by (intro ext) (simp add: by_key_def)
  then show "squarify values x y w h = js_sort (by_key (\<lambda>r. real (rc_i r))) (layout ?its x y w h)"
    by (simp add: squarify_def)
qed

lemma indexed_items: "mset its = mset (enumerate 0 as) \<Longrightarrow> mset (map fst its) = mset [0 ..< length as]"
  by (metis add.left_neutral map_fst_enumerate mset_map)

interpretation cell_order: comparator "by_key (\<lambda>r. real (rc_i r))"
  by (rule comparator_by_key)

lemma sorted_by_index:
  assumes "mset (map rc_i ls) = mset [0 ..< n]"
  shows "map rc_i (js_sort (by_key (\<lambda>r. real (rc_i r))) ls) = [0 ..< n]"
proof (rule properties_for_sort [symmetric, of _ "[0 ..< n]", simplified])
  show "mset (map rc_i (js_sort (by_key (\<lambda>r. real (rc_i r))) ls)) = mset_set {0 ..< n}"
    using assms by (metis mset_js_sort mset_map mset_upt)
  show "sorted (map rc_i (js_sort (by_key (\<lambda>r. real (rc_i r))) ls))"
    using cell_order.sorted_js_sort [of ls] by (simp add: by_key_def sorted_map)
qed

lemma apart_sym: "apart r q \<longleftrightarrow> apart q r"
  by (auto simp: apart_def)

lemma apart_permuted:
  assumes "sorted_wrt apart ls" "set rs = set ls" "distinct rs"
  shows "sorted_wrt apart rs"
proof -
  have "apart r q" if "r \<in> set ls" "q \<in> set ls" "r \<noteq> q" for r q
    using that assms(1) by (metis apart_sym in_set_conv_nth linorder_neqE_nat sorted_wrt_nth_less)
  moreover have "rs ! i \<noteq> rs ! j" if "i < j" "j < length rs" for i j
    using that assms(3) by (simp add: nth_eq_iff_index_eq)
  ultimately show ?thesis
    using assms(2) by (metis nth_mem order_less_trans sorted_wrt_iff_nth_less)
qed

text \<open>C11: The treemap tiles its box: one cell per value in the order of the values, with an area in
  proportion to the value (negative values count as zero; equal areas when none is positive), every
  cell inside the box, and no two cells overlapping.\<close>

theorem squarify_tiles:
  assumes "0 \<le> w" "0 \<le> h"
  shows "let rs = squarify values x y w h; total = sum_list (map (max 0) values) in
    map rc_i rs = [0 ..< length values] \<and>
    map (\<lambda>r. rc_w r * rc_h r) rs =
      (if 0 < total then map (\<lambda>v. max 0 v * (w * h / total)) values
       else replicate (length values) (w * h / real (length values))) \<and>
    list_all (inside x y w h) rs \<and> sorted_wrt apart rs"
proof -
  let ?A = "cell_areas values w h" and ?rs = "squarify values x y w h"
  obtain its where its: "mset its = mset (enumerate 0 ?A)" and t: "tiles (layout its x y w h) its x y w h"
    and q: "?rs = js_sort (by_key (\<lambda>r. real (rc_i r))) (layout its x y w h)"
    using squarify_layout [OF assms] by metis
  have s: "set ?rs = set (layout its x y w h)" by (simp add: q)
  have n: "length ?A = length values" by (simp add: cell_areas_def Let_def)
  have a: "areas (layout its x y w h) = its" using t by (simp add: tiles_def)
  then have f: "map rc_i (layout its x y w h) = map fst its"
    by (metis (no_types, lifting) areas_def comp_def fst_conv list.map_comp map_eq_conv)
  have i: "map rc_i ?rs = [0 ..< length values]"
    unfolding q using f indexed_items [OF its] n by (intro sorted_by_index) simp
  have "map (\<lambda>r. rc_w r * rc_h r) ?rs = ?A"
  proof (rule nth_equalityI)
    show l: "length (map (\<lambda>r. rc_w r * rc_h r) ?rs) = length ?A" using arg_cong [OF i, of length] n by simp
    fix k
    assume "k < length (map (\<lambda>r. rc_w r * rc_h r) ?rs)"
    then have k: "k < length ?rs" "k < length values" using l n by simp_all
    have "rc_i (?rs ! k) = k" using arg_cong [OF i, of "\<lambda>l. l ! k"] k by simp
    moreover have "(rc_i (?rs ! k), rc_w (?rs ! k) * rc_h (?rs ! k)) \<in> set its"
      using nth_mem [OF k(1)] s a by (metis (mono_tags, lifting) areas_def image_eqI list.set_map)
    moreover have "set its = set (enumerate 0 ?A)" using its by (metis set_mset_mset)
    ultimately show "map (\<lambda>r. rc_w r * rc_h r) ?rs ! k = ?A ! k"
      using k by (auto simp: in_set_enumerate_eq)
  qed
  moreover have "?A = (if 0 < sum_list (map (max 0) values)
      then map (\<lambda>v. max 0 v * (w * h / sum_list (map (max 0) values))) values
      else replicate (length values) (w * h / real (length values)))"
    by (simp add: cell_areas_def Let_def map_replicate_const)
  moreover have "list_all (inside x y w h) ?rs" using t s by (simp add: list_all_iff tiles_def)
  moreover have "sorted_wrt apart ?rs"
  proof (rule apart_permuted)
    show "sorted_wrt apart (layout its x y w h)" using t by (simp add: tiles_def)
    show "set ?rs = set (layout its x y w h)" by (rule s)
    have "distinct (map rc_i ?rs)" unfolding i by simp
    then show "distinct ?rs" unfolding distinct_map by blast
  qed
  ultimately show ?thesis using i by (simp add: Let_def)
qed

lemma squarify_tiles_witness:
  "let rs = squarify [6, 0, 2] 0 0 640 300; total = sum_list (map (max 0) [6, 0, 2]) in
    map rc_i rs = [0 ..< length [6 :: real, 0, 2]] \<and>
    map (\<lambda>r. rc_w r * rc_h r) rs =
      (if 0 < total then map (\<lambda>v. max 0 v * (640 * 300 / total)) [6, 0, 2]
       else replicate (length [6 :: real, 0, 2]) (640 * 300 / real (length [6 :: real, 0, 2]))) \<and>
    list_all (inside 0 0 640 300) rs \<and> sorted_wrt apart rs"
  by (rule squarify_tiles [of 640 300 "[6, 0, 2]" 0 0]) simp_all

text \<open>Every point of the box lies in a cell, so the pointer always hits one.\<close>

lemma squarify_covers:
  assumes "0 < w" "0 < h" "values \<noteq> []" "x \<le> px" "px \<le> x + w" "y \<le> py" "py \<le> y + h"
  shows "\<exists>r \<in> set (squarify values x y w h). contains r px py"
proof -
  have wh: "0 \<le> w" "0 \<le> h" using assms by simp_all
  obtain its where its: "no_debt its" "row_sum its = w * h"
    and q: "squarify values x y w h = js_sort (by_key (\<lambda>r. real (rc_i r))) (layout its x y w h)"
    using squarify_layout [OF wh, of "values" x y] assms(3) by metis
  show ?thesis using layout_covers [OF assms(1,2) its assms(4-7)] by (simp add: q)
qed

end
