(* ===== verification/Chart_Plots.thy ===== *)
theory Chart_Plots
  imports Chart_Paths Chart_Treemap
begin

text \<open>
  The body builders of \<open>src/web/components/charts/graphite/Chart.tsx\<close>: for every chart type the marks
  it draws in the order it draws them, the item the pointer hits, and the tooltip of the item that
  is highlighted. A mark keeps its geometry, its colour and its opacity where they depend on the
  data; strokes, fonts, corner radii, gradients and transitions are left out. A coordinate that the
  code rounds with \<open>r1\<close> is rounded here.
\<close>

section \<open>Marks\<close>

datatype mark =
  Rect_mark real real real real string real
| Line_mark real real real real
| Circle_mark real real real string
| Label_mark real real string string
| Path_mark string string
| Poly_mark "pt list" string
| Arc_mark real real real string real

type_synonym tip_row = "string \<times> string \<times> string"

record tooltip =
  tp_x :: real
  tp_y :: real
  tp_title :: string
  tp_rows :: "tip_row list"

record chart_theme =
  th_fill :: real
  th_curve :: chart_curve
  th_grid :: bool
  th_legend :: bool
  th_labels :: bool

record ctx =
  cx_type :: chart_type
  cx_rows :: "datum list"
  cx_xs :: "string list"
  cx_xKey :: string
  cx_keys :: "string list"
  cx_theme :: chart_theme
  cx_palette :: "string list"
  cx_fmt :: "real \<Rightarrow> string"
  cx_unit :: string
  cx_hi :: "nat option"
  cx_hj :: "nat option"
  cx_uid :: string

record body =
  bd_count :: nat
  bd_marks :: "mark list"
  bd_tip :: "tooltip option"

text \<open>The highlighted item, when there is one of that index.\<close>

definition shown_hi :: "ctx \<Rightarrow> nat \<Rightarrow> nat option" where
  "shown_hi c n = (case cx_hi c of Some i \<Rightarrow> if i < n then Some i else None | None \<Rightarrow> None)"

definition dimmed :: "nat option \<Rightarrow> nat \<Rightarrow> real \<Rightarrow> real" where
  "dimmed h i low = (case h of None \<Rightarrow> 1 | Some j \<Rightarrow> if j = i then 1 else low)"

definition with_unit :: "ctx \<Rightarrow> string \<Rightarrow> string" where
  "with_unit c s = s @ (if cx_unit c = [] then [] else '' '' @ cx_unit c)"

definition y_ticks :: "real \<Rightarrow> bool \<Rightarrow> (real \<Rightarrow> string) \<Rightarrow> mark list" where
  "y_ticks mx grid fmt =
    (if grid then concat (map (\<lambda>v. [Line_mark 0 (r1 (Y v)) W (r1 (Y v)), Label_mark 0 (r1 (Y v - 5)) ''start'' (fmt (v / 92 * mx))])
       [0, 25, 50, 75, 100])
     else [])"

definition x_labels :: "(real \<times> string \<times> string) list \<Rightarrow> mark list" where
  "x_labels items = map (\<lambda>(x, label, anchor). Label_mark (r1 x) 290 anchor label) items"

definition edge_anchor :: "nat \<Rightarrow> nat \<Rightarrow> string" where
  "edge_anchor n i = (if i = 0 then ''start'' else if i = n - 1 then ''end'' else ''middle'')"

text \<open>A colour of the palette; beyond its end there is none.\<close>

definition palette_at :: "ctx \<Rightarrow> nat \<Rightarrow> string" where
  "palette_at c i = (if i < length (cx_palette c) then cx_palette c ! i else [])"

definition value_rows :: "ctx \<Rightarrow> (nat \<Rightarrow> string \<Rightarrow> string) \<Rightarrow> tip_row list" where
  "value_rows c f = map (\<lambda>(j, k). (k, palette_at c (j mod 4), f j k)) (enumerate 0 (cx_keys c))"

section \<open>Lines and areas\<close>

definition line_x :: "nat \<Rightarrow> nat \<Rightarrow> real" where
  "line_x n i = (if n \<le> 1 then (if i = 0 then 0 else W) else real i * W / real (n - 1))"

definition series_cols :: "ctx \<Rightarrow> real list list" where
  "series_cols c = map (\<lambda>k. map (\<lambda>d. num_at d k) (cx_rows c)) (cx_keys c)"

definition line_pts :: "ctx \<Rightarrow> pt list list" where
  "line_pts c =
    (let cols = series_cols c; mx = max_of 1 (concat cols); n = length (cx_rows c) in
     map (\<lambda>col.
       (let p = map (\<lambda>i. (line_x n i, Y (col ! i / mx * 92))) [0 ..< length col]
        in if length p = 1 then [p ! 0, (W, snd (p ! 0))] else p)) cols)"

definition area_path :: "pt list \<Rightarrow> chart_curve \<Rightarrow> string" where
  "area_path p curve = pathOf p curve @ ''L'' @ show_num (fst (last p)) @ '','' @ show_num BASE @
     ''L'' @ show_num (fst (hd p)) @ '','' @ show_num BASE @ ''Z''"

definition line_hit :: "ctx \<Rightarrow> real \<Rightarrow> real \<Rightarrow> nat option" where
  "line_hit c vx vy =
    (let n = length (cx_rows c) in
     if 260 < vy \<or> n = 0 then None
     else Some (nat (max 0 (min (int n - 1) (js_round (vx / (W / real (max 1 (n - 1)))))))))"

definition lineArea :: "ctx \<Rightarrow> body" where
  "lineArea c =
    (let n = length (cx_rows c); cols = series_cols c; mx = max_of 1 (concat cols); pts = line_pts c;
         th = cx_theme c; fmt = cx_fmt c; h = shown_hi c n; curve = th_curve th
     in \<lparr>bd_count = n,
         bd_marks =
           y_ticks mx (th_grid th) fmt @
           concat (rev (map (\<lambda>(j, p). [Path_mark (area_path p curve) (''url(#'' @ cx_uid c @ ''g'' @ show_nat j @ '')''),
             Path_mark (pathOf p curve) (color j)]) (enumerate 0 pts))) @
           (case h of Some i \<Rightarrow> [Line_mark (r1 (fst (pts ! 0 ! i))) 0 (r1 (fst (pts ! 0 ! i))) BASE] | None \<Rightarrow> []) @
           (if th_labels th then
              concat (map (\<lambda>i. let p = pts ! 0 ! i in
                [Circle_mark (r1 (fst p)) (r1 (snd p)) 3.5 ''var(--s1)'',
                 Label_mark (r1 (fst p)) (r1 (snd p - 10)) (edge_anchor n i) (fmt (cols ! 0 ! i))])
                (filter (\<lambda>i. i \<in> set (thinIndices n 8)) [0 ..< n]))
            else []) @
           (case h of Some i \<Rightarrow> rev (map (\<lambda>(j, p). Circle_mark (r1 (fst (p ! i))) (r1 (snd (p ! i))) 5 (color j)) (enumerate 0 pts))
            | None \<Rightarrow> []) @
           x_labels (map (\<lambda>i. (line_x n i, cx_xs c ! i, edge_anchor n i)) (thinIndices n 6)),
         bd_tip = map_option (\<lambda>i.
           \<lparr>tp_x = fst (pts ! 0 ! i) / W * 100,
            tp_y = min_of (snd (pts ! 0 ! i)) (map (\<lambda>p. snd (p ! i)) pts) / 300 * 100,
            tp_title = cx_xs c ! i,
            tp_rows = value_rows c (\<lambda>j k. with_unit c (fmt (cols ! j ! i)))\<rparr>) h\<rparr>)"

section \<open>Bars\<close>

definition bar_raw :: "ctx \<Rightarrow> real list" where
  "bar_raw c = map (\<lambda>d. max 0 (num_at d (hd (cx_keys c)))) (cx_rows c)"

definition slot_width :: "ctx \<Rightarrow> real" where
  "slot_width c = W / real (max 1 (length (cx_rows c)))"

text \<open>The pointer over a row of slots: bars and stacked bars.\<close>

definition slot_hit :: "ctx \<Rightarrow> real \<Rightarrow> real \<Rightarrow> nat option" where
  "slot_hit c vx vy =
    (let n = length (cx_rows c) in
     if 260 < vy \<or> n = 0 then None else Some (nat (max 0 (min (int n - 1) \<lfloor>vx / slot_width c\<rfloor>))))"

definition bar_x :: "ctx \<Rightarrow> nat \<Rightarrow> real" where
  "bar_x c i = real i * slot_width c + (slot_width c - slot_width c * 0.56) / 2"

definition bar_y :: "ctx \<Rightarrow> nat \<Rightarrow> real" where
  "bar_y c i = Y (bar_raw c ! i / max_of 1 (bar_raw c) * 92)"

definition bar :: "ctx \<Rightarrow> body" where
  "bar c =
    (let raw = bar_raw c; mx = max_of 1 raw; n = length raw; bw = slot_width c * 0.56;
         top = find (\<lambda>i. raw ! i = max_of (hd raw) raw) [0 ..< n];
         th = cx_theme c; fmt = cx_fmt c; h = shown_hi c n
     in \<lparr>bd_count = n,
         bd_marks =
           y_ticks mx (th_grid th) fmt @
           concat (map (\<lambda>i.
             Rect_mark (r1 (bar_x c i)) 0 (r1 bw) BASE ''var(--track)'' 1 #
             Rect_mark (r1 (bar_x c i)) (r1 (bar_y c i)) (r1 bw) (r1 (BASE - bar_y c i))
               (if top = Some i then ''var(--s1)''
                else ''color-mix(in oklab, var(--s1) '' @ show_int (js_round (35 + th_fill th * 50)) @ ''%, var(--track))'')
               (dimmed h i 0.45) #
             (if th_labels th then [Label_mark (r1 (bar_x c i + bw / 2)) (r1 (bar_y c i - 10)) ''middle'' (fmt (raw ! i))] else []))
             [0 ..< n]) @
           x_labels (map (\<lambda>(i, label). (real i * slot_width c + slot_width c / 2, label, ''middle'')) (enumerate 0 (cx_xs c))),
         bd_tip = map_option (\<lambda>i.
           \<lparr>tp_x = (bar_x c i + bw / 2) / W * 100, tp_y = bar_y c i / 300 * 100, tp_title = cx_xs c ! i,
            tp_rows = [(hd (cx_keys c), palette_at c 0, fmt (raw ! i))]\<rparr>) h\<rparr>)"

section \<open>Stacked bars\<close>

definition stack_totals :: "ctx \<Rightarrow> real list" where
  "stack_totals c = map (\<lambda>d. sum_list (map (\<lambda>k. max 0 (num_at d k)) (cx_keys c))) (cx_rows c)"

text \<open>The layers of one bar: \<open>cum\<close> is the height below.\<close>

fun stack_layers :: "real \<Rightarrow> real \<Rightarrow> real \<Rightarrow> real \<Rightarrow> datum \<Rightarrow> (nat \<times> string) list \<Rightarrow> real \<Rightarrow> mark list" where
  "stack_layers x sw tmax opacity d [] cum = []"
| "stack_layers x sw tmax opacity d ((j, k) # ks) cum =
     (let v = max 0 (num_at d k) / tmax * 92; y0 = Y cum; y1 = Y (cum + v)
      in Rect_mark (r1 x) (r1 (y1 + 1)) (r1 sw) (r1 (max 0 (y0 - y1 - 2))) (color j) opacity #
         stack_layers x sw tmax opacity d ks (cum + v))"

definition stacked :: "ctx \<Rightarrow> body" where
  "stacked c =
    (let n = length (cx_rows c); sw = slot_width c * 0.5; totals = stack_totals c; tmax = max_of 1 totals;
         th = cx_theme c; fmt = cx_fmt c; h = shown_hi c n;
         totalY = (\<lambda>i. Y (totals ! i / tmax * 92) - 8)
     in \<lparr>bd_count = n,
         bd_marks =
           y_ticks tmax (th_grid th) fmt @
           concat (map (\<lambda>(i, d). stack_layers (real i * slot_width c + (slot_width c - sw) / 2) sw tmax (dimmed h i 0.4) d
             (enumerate 0 (cx_keys c)) 0) (enumerate 0 (cx_rows c))) @
           (if th_labels th then
              map (\<lambda>(i, t). Label_mark (r1 (real i * slot_width c + slot_width c / 2)) (r1 (totalY i)) ''middle'' (fmt t)) (enumerate 0 totals)
            else []) @
           x_labels (map (\<lambda>(i, label). (real i * slot_width c + slot_width c / 2, label, ''middle'')) (enumerate 0 (cx_xs c))),
         bd_tip = map_option (\<lambda>i.
           \<lparr>tp_x = (real i * slot_width c + slot_width c / 2) / W * 100, tp_y = totalY i / 300 * 100,
            tp_title = cx_xs c ! i @ '' '' @ middot @ '' total '' @ fmt (totals ! i),
            tp_rows = value_rows c (\<lambda>j k. fmt (num_at (cx_rows c ! i) k))\<rparr>) h\<rparr>)"

section \<open>Scatter plots\<close>

definition scatter_pts :: "ctx \<Rightarrow> pt list" where
  "scatter_pts c =
    (let p = scatterPoints (cx_rows c) (cx_xKey c) (hd (cx_keys c)) in
     map (\<lambda>(x, y). (20 + x / pt_sxm p * 600, Y (y / pt_sym p * 92))) (zip (pt_sx p) (pt_sy p)))"

definition sq_dist :: "real \<Rightarrow> real \<Rightarrow> pt \<Rightarrow> real" where
  "sq_dist vx vy p = (fst p - vx)\<^sup>2 + (snd p - vy)\<^sup>2"

text \<open>The first of the nearest points: the best index so far and its distance, none at first.\<close>

definition closer :: "real \<Rightarrow> real \<Rightarrow> nat \<times> real option \<Rightarrow> nat \<times> pt \<Rightarrow> nat \<times> real option" where
  "closer vx vy best ip =
    (let d = sq_dist vx vy (snd ip) in
     if (case snd best of None \<Rightarrow> True | Some b \<Rightarrow> d < b) then (fst ip, Some d) else best)"

definition nearest :: "real \<Rightarrow> real \<Rightarrow> pt list \<Rightarrow> nat" where
  "nearest vx vy pts = fst (foldl (closer vx vy) (0, None) (enumerate 0 pts))"

definition scatter_hit :: "ctx \<Rightarrow> real \<Rightarrow> real \<Rightarrow> nat option" where
  "scatter_hit c vx vy =
    (let pts = scatter_pts c in if 260 < vy \<or> pts = [] then None else Some (nearest vx vy pts))"

definition halo_size :: "nat \<Rightarrow> real" where
  "halo_size i = 6 + real (((i + 1) * 9301 + 49297) mod 233280) / 23328"

definition color3 :: "nat \<Rightarrow> string" where
  "color3 i = ''var(--s'' @ show_nat (i mod 3 + 1) @ '')''"

definition scatter :: "ctx \<Rightarrow> body" where
  "scatter c =
    (let p = scatterPoints (cx_rows c) (cx_xKey c) (hd (cx_keys c)); pts = scatter_pts c; n = length pts;
         px = (\<lambda>v. 20 + v / pt_sxm p * 600); py = (\<lambda>v. Y (v / pt_sym p * 92));
         ft = regression (pt_sx p) (pt_sy p); th = cx_theme c; fmt = cx_fmt c; h = shown_hi c n;
         labelEvery = max 1 (nat \<lceil>real n / 8\<rceil>)
     in \<lparr>bd_count = n,
         bd_marks =
           y_ticks (pt_sym p) (th_grid th) fmt @
           (if 2 \<le> n then
              [Line_mark (r1 (px 0)) (r1 (clamp_to (py (ft_intercept ft)) 0 BASE))
                 (r1 (px (pt_sxm p))) (r1 (clamp_to (py (ft_intercept ft + ft_slope ft * pt_sxm p)) 0 BASE))]
            else []) @
           concat (map (\<lambda>(i, q).
             [Circle_mark (r1 (fst q)) (r1 (snd q)) (r1 (halo_size i)) (color3 i),
              Circle_mark (r1 (fst q)) (r1 (snd q)) (if h = Some i then 6 else 3.5) (color3 i)]) (enumerate 0 pts)) @
           (if th_labels th then
              map (\<lambda>i. Label_mark (r1 (fst (pts ! i))) (r1 (snd (pts ! i) - 9)) ''middle'' (fmt (pt_sy p ! i)))
                (filter (\<lambda>i. i mod labelEvery = 0) [0 ..< n])
            else []) @
           x_labels [(0, fmt 0, ''start''), (W, fmt (pt_sxm p), ''end'')],
         bd_tip = map_option (\<lambda>i.
           \<lparr>tp_x = fst (pts ! i) / W * 100, tp_y = snd (pts ! i) / 300 * 100,
            tp_title = cx_xKey c @ '' '' @ fmt (pt_sx p ! i),
            tp_rows = [(hd (cx_keys c), palette_at c (i mod 3), fmt (pt_sy p ! i))]\<rparr>) h\<rparr>)"

section \<open>Heat maps\<close>

definition heat_of :: "ctx \<Rightarrow> heat" where
  "heat_of c = heatGeometry (cx_rows c) (hd (cx_keys c))"

definition heat_hit :: "ctx \<Rightarrow> real \<Rightarrow> real \<Rightarrow> (nat \<times> nat) option" where
  "heat_hit c vx vy =
    (let g = heat_of c; d = \<lfloor>vy / ht_chh g\<rfloor>; hh = \<lfloor>(vx - 40) / ht_cw g\<rfloor> in
     if 0 \<le> d \<and> d < int (length (ht_rows g)) \<and> 0 \<le> hh \<and> hh < int (ht_cols g) then Some (nat d, nat hh) else None)"

text \<open>\<open>num(arr[h])\<close>: a row may be shorter than the widest.\<close>

definition heat_cell :: "heat \<Rightarrow> nat \<Rightarrow> nat \<Rightarrow> real" where
  "heat_cell g d h = (let arr = ht_grid g ! d in if h < length arr then arr ! h else 0)"

definition col_label :: "nat \<Rightarrow> nat \<Rightarrow> string" where
  "col_label cols h = (if cols = 24 then show_nat h @ '':00'' else show_nat h)"

definition tick_cols :: "nat \<Rightarrow> nat list" where
  "tick_cols cols =
    (if cols = 24 then [0, 6, 12, 18, 23]
     else rev (remdups (rev (map (\<lambda>k. nat (js_round (real (k * (cols - 1)) / 4))) [0, 1, 2, 3, 4]))))"

definition heat_active :: "ctx \<Rightarrow> (nat \<times> nat) option" where
  "heat_active c =
    (case (cx_hi c, cx_hj c) of
       (Some i, Some j) \<Rightarrow> if i < length (ht_rows (heat_of c)) \<and> j < ht_cols (heat_of c) then Some (i, j) else None
     | _ \<Rightarrow> None)"

definition heatmap :: "ctx \<Rightarrow> body" where
  "heatmap c =
    (let g = heat_of c; cw = ht_cw g; chh = ht_chh g; cols = ht_cols g; rows = ht_rows g;
         th = cx_theme c; fmt = cx_fmt c; showText = (th_labels th \<and> 14 \<le> cw)
     in \<lparr>bd_count = length rows,
         bd_marks =
           concat (map (\<lambda>d. concat (map (\<lambda>h.
             let v = heat_cell g d h; p = v / ht_max g; x = 40 + real h * cw + 1.5; y = real d * chh + 1.5 in
             Rect_mark (r1 x) (r1 y) (r1 (cw - 3)) (r1 (chh - 3)) ''var(--track)'' 1 #
             Rect_mark (r1 x) (r1 y) (r1 (cw - 3)) (r1 (chh - 3)) ''var(--s1)'' (r1 (p * 100) / 100) #
             (if showText then
                [Label_mark (r1 (40 + real h * cw + cw / 2)) (r1 (real d * chh + chh / 2 + 3)) ''middle'' (fmt v)]
              else [])) [0 ..< cols])) [0 ..< length rows]) @
           map (\<lambda>i. Label_mark 28 (r1 (real i * chh + chh / 2 + 4)) ''end'' (cx_xs c ! i)) [0 ..< length rows] @
           x_labels (map (\<lambda>h. (40 + real h * cw + cw / 2, col_label cols h, ''middle'')) (tick_cols cols)),
         bd_tip = map_option (\<lambda>(i, j).
           \<lparr>tp_x = (40 + real j * cw + cw / 2) / W * 100, tp_y = real i * chh / 300 * 100,
            tp_title = cx_xs c ! i @ '' '' @ middot @ '' '' @ col_label cols j,
            tp_rows = [(hd (cx_keys c), palette_at c 0, fmt (heat_cell g i j))]\<rparr>) (heat_active c)\<rparr>)"

end
