(* ===== verification/Chart_Shapes.thy ===== *)
theory Chart_Shapes
  imports Chart_Plots
begin

text \<open>
  The body builders of \<open>src/web/components/charts/graphite/Chart.tsx\<close> that are not drawn on axes:
  donut, radar, spark rows, funnel, gauge and treemap. Angles are real numbers: \<open>Math.atan2\<close> is
  the argument of a complex number.
\<close>

section \<open>Donuts\<close>

definition donut_raw :: "ctx \<Rightarrow> real list" where
  "donut_raw c = map (\<lambda>d. max 0 (num_at d (hd (cx_keys c)))) (take 8 (cx_rows c))"

definition donut_pct :: "real list \<Rightarrow> real list" where
  "donut_pct raw = (let s = max (1 / 10 ^ 9) (sum_list raw) in map (\<lambda>v. v / s * 100) raw)"

text \<open>\<open>((atan2(dy, dx) * 180) / PI + turn + 360) % 360\<close>.\<close>

definition atan2 :: "real \<Rightarrow> real \<Rightarrow> real" where
  "atan2 y x = Arg (Complex x y)"

definition mod_360 :: "real \<Rightarrow> real" where
  "mod_360 a = a - 360 * of_int \<lfloor>a / 360\<rfloor>"

definition degrees :: "real \<Rightarrow> real \<Rightarrow> real \<Rightarrow> real" where
  "degrees dy dx turn = mod_360 (atan2 dy dx * 180 / pi + turn + 360)"

text \<open>The slice an angle falls into: the loop over the running sum.\<close>

fun slice_at :: "real list \<Rightarrow> real \<Rightarrow> real \<Rightarrow> nat option" where
  "slice_at [] run a = None"
| "slice_at (p # ps) run a =
     (if a \<le> run + p * 3.6 then Some 0 else map_option Suc (slice_at ps (run + p * 3.6) a))"

definition donut_hit :: "ctx \<Rightarrow> real \<Rightarrow> real \<Rightarrow> nat option" where
  "donut_hit c vx vy = slice_at (donut_pct (donut_raw c)) 0 (degrees (vy - 110) (vx - 110) 90)"

text \<open>The share and its offset, for every slice.\<close>

fun slices :: "real \<Rightarrow> real \<Rightarrow> real list \<Rightarrow> (real \<times> real) list" where
  "slices C acc [] = []"
| "slices C acc (p # ps) = (p, - acc * C / 100) # slices C (acc + p) ps"

definition donut_percent :: "real \<Rightarrow> string" where
  "donut_percent v = show_int (js_round v) @ ''%''"

definition donut :: "ctx \<Rightarrow> body" where
  "donut c =
    (let raw = donut_raw c; pct = donut_pct raw; C = 2 * pi * 86; n = length raw; h = shown_hi c n;
         center = (case h of Some i \<Rightarrow> i | None \<Rightarrow> 0); xs = cx_xs c
     in \<lparr>bd_count = n,
         bd_marks =
           map (\<lambda>(i, v, off). Arc_mark (r1 (max 0 (C * v / 100 - 6))) (r1 (C - C * v / 100 + 6)) (r1 off) (color i) (dimmed h i 0.35))
             (enumerate 0 (slices C 0 pct)) @
           [Label_mark 110 106 ''middle'' (if n = 0 then [] else donut_percent (pct ! center)),
            Label_mark 110 130 ''middle'' (if center < length xs then xs ! center else [])] @
           concat (map (\<lambda>i. [Label_mark 0 0 ''start'' (xs ! i), Label_mark 0 0 ''end'' (donut_percent (pct ! i))]) [0 ..< n]),
         bd_tip = map_option (\<lambda>i.
           \<lparr>tp_x = 50, tp_y = 4, tp_title = xs ! i,
            tp_rows = [(hd (cx_keys c), palette_at c (i mod 4),
              cx_fmt c (raw ! i) @ '' '' @ middot @ '' '' @ donut_percent (pct ! i))]\<rparr>) h\<rparr>)"

section \<open>Radar charts\<close>

definition radar_n :: "ctx \<Rightarrow> nat" where
  "radar_n c = max 3 (min 12 (length (cx_rows c)))"

definition radar_angle :: "nat \<Rightarrow> nat \<Rightarrow> real" where
  "radar_angle n i = - pi / 2 + real i * 2 * pi / real n"

definition radar_pt :: "nat \<Rightarrow> nat \<Rightarrow> real \<Rightarrow> pt" where
  "radar_pt n i f = (320 + cos (radar_angle n i) * 118 * f, 150 + sin (radar_angle n i) * 118 * f)"

definition radar_poly :: "nat \<Rightarrow> real list \<Rightarrow> pt list" where
  "radar_poly n fs = map (\<lambda>(i, f). (r1 (fst (radar_pt n i f)), r1 (snd (radar_pt n i f)))) (enumerate 0 fs)"

definition radar_max :: "ctx \<Rightarrow> real" where
  "radar_max c = max_of 1 (concat (map (\<lambda>k. map (\<lambda>d. num_at d k) (take (radar_n c) (cx_rows c))) (cx_keys c)))"

definition radar_frac :: "ctx \<Rightarrow> string \<Rightarrow> real list" where
  "radar_frac c k =
    map (\<lambda>i. if i < length (cx_rows c) then clamp_to (num_at (cx_rows c ! i) k / radar_max c) 0 1 else 0)
      [0 ..< radar_n c]"

definition radar_hit :: "ctx \<Rightarrow> real \<Rightarrow> real \<Rightarrow> nat option" where
  "radar_hit c vx vy =
    (let n = radar_n c; a = degrees (vy - 150) (vx - 320) (90 + 180 / real n); i = \<lfloor>a / (360 / real n)\<rfloor> in
     if i < int (min (length (cx_rows c)) n) then Some (nat i) else None)"

definition radar :: "ctx \<Rightarrow> body" where
  "radar c =
    (let n = radar_n c; count = min (length (cx_rows c)) n; h = shown_hi c count; th = cx_theme c;
         frac = map (radar_frac c) (cx_keys c); xs = cx_xs c
     in \<lparr>bd_count = count,
         bd_marks =
           (if th_grid th then map (\<lambda>f. Poly_mark (radar_poly n (replicate n f)) ''none'') [0.25, 0.5, 0.75, 1] else []) @
           concat (map (\<lambda>i.
             let p = radar_pt n i 1; co = cos (radar_angle n i) in
             (if th_grid th then [Line_mark 320 150 (r1 (fst p)) (r1 (snd p))] else []) @
             [Label_mark (r1 (320 + co * (118 + 18))) (r1 (150 + sin (radar_angle n i) * (118 + 18) + 4))
                (if \<bar>co\<bar> < 0.1 then ''middle'' else if 0 < co then ''start'' else ''end'')
                (if i < length xs then xs ! i else [])]) [0 ..< n]) @
           rev (map (\<lambda>(j, fs). Poly_mark (radar_poly n fs) (color j)) (enumerate 0 frac)) @
           concat (map (\<lambda>i.
             let p = radar_pt n i (hd frac ! i) in
             Circle_mark (r1 (fst p)) (r1 (snd p)) (if h = Some i then 6.5 else 4) ''var(--s1)'' #
             (if th_labels th then
                [Label_mark (r1 (fst p)) (r1 (snd p - 9)) ''middle'' (cx_fmt c (num_at (cx_rows c ! i) (hd (cx_keys c))))]
              else [])) [0 ..< count]),
         bd_tip = map_option (\<lambda>i.
           let p = radar_pt n i (hd frac ! i) in
           \<lparr>tp_x = fst p / W * 100, tp_y = (snd p - 4) / 300 * 100, tp_title = xs ! i,
            tp_rows = value_rows c (\<lambda>j k. cx_fmt c (num_at (cx_rows c ! i) k))\<rparr>) h\<rparr>)"

section \<open>Spark rows\<close>

definition spark_rows :: "ctx \<Rightarrow> spark list" where
  "spark_rows c = map (\<lambda>d. sparkRow (numArr (d (hd (cx_keys c))))) (cx_rows c)"

text \<open>The palette index of the tooltip wraps at the length of the palette.\<close>

definition palette_mod :: "ctx \<Rightarrow> nat \<Rightarrow> string" where
  "palette_mod c i = palette_at c (i mod length (cx_palette c))"

definition sparkline :: "ctx \<Rightarrow> body" where
  "sparkline c =
    (let rows = spark_rows c; h = shown_hi c (length rows); fmt = cx_fmt c
     in \<lparr>bd_count = length rows,
         bd_marks = concat (map (\<lambda>(i, s).
           [Label_mark 0 0 ''start'' (cx_xs c ! i),
            Path_mark (pathOf (sk_pts s) (th_curve (cx_theme c))) (if 0 \<le> sk_d s then ''var(--s2)'' else ''var(--s3)''),
            Label_mark 0 0 ''end'' (fmt (sk_last s)),
            Label_mark 0 0 ''end'' (sk_delta s)]) (enumerate 0 rows)),
         bd_tip = map_option (\<lambda>i.
           let s = rows ! i in
           \<lparr>tp_x = 50, tp_y = 8, tp_title = cx_xs c ! i,
            tp_rows = [(''latest'', palette_mod c 1, fmt (sk_last s)),
              (''min / max'', palette_mod c 3,
               fmt (min_of (hd (sk_raw s)) (sk_raw s)) @ '' / '' @ fmt (max_of (hd (sk_raw s)) (sk_raw s)))]\<rparr>) h\<rparr>)"

section \<open>Funnels\<close>

definition funnel_hit :: "ctx \<Rightarrow> real \<Rightarrow> real \<Rightarrow> nat option" where
  "funnel_hit c vx vy =
    (let i = \<lfloor>vy / 52\<rfloor> in
     if 0 \<le> i \<and> i < int (length (donut_raw c)) then Some (nat i) else None)"

definition funnel :: "ctx \<Rightarrow> body" where
  "funnel c =
    (let raw = donut_raw c; n = length raw; mx = max_of 1 raw; H = max 40 (int n * 52 - 12);
         h = shown_hi c n; fmt = cx_fmt c
     in \<lparr>bd_count = n,
         bd_marks = concat (map (\<lambda>i.
           [Rect_mark 0 (real i * 52) W 40 ''var(--track)'' 1,
            Rect_mark 0 (real i * 52) (r1 (W * raw ! i / mx)) 40 ''var(--s1)'' (max 0.2 (1 - real i * 0.16)),
            Label_mark 16 (real i * 52 + 25) ''start'' (cx_xs c ! i),
            Label_mark 624 (real i * 52 + 25) ''end'' (fmt (raw ! i))]) [0 ..< n]),
         bd_tip = map_option (\<lambda>i.
           \<lparr>tp_x = W * raw ! i / mx / 2 / W * 100, tp_y = real i * 52 / of_int H * 100, tp_title = cx_xs c ! i,
            tp_rows = [(hd (cx_keys c), palette_at c 0, fmt (raw ! i)),
              (''share'', palette_mod c 1,
               if i = 0 then ''100%''
               else donut_percent (raw ! i / (if raw ! 0 = 0 then 1 else raw ! 0) * 100) @ '' of top'')]\<rparr>) h\<rparr>)"

section \<open>Gauges\<close>

definition gauge :: "ctx \<Rightarrow> body" where
  "gauge c =
    (let L = pi * 200; gv = gaugeValue (cx_rows c) (hd (cx_keys c)); ga = pi * (1 - of_int gv / 100);
         x0 = (case cx_xs c of x # _ \<Rightarrow> x | [] \<Rightarrow> [])
     in \<lparr>bd_count = (if cx_rows c = [] then 0 else 1),
         bd_marks =
           [Path_mark ''M 120 250 A 200 200 0 0 1 520 250'' ''none'',
            Arc_mark (r1 (L * of_int gv / 100)) (r1 L) 0 (''url(#'' @ cx_uid c @ ''gauge)'') 1,
            Circle_mark (r1 (320 + cos ga * 200)) (r1 (250 - sin ga * 200)) 10 ''var(--s1)'',
            Label_mark 320 225 ''middle'' (show_int gv),
            Label_mark 320 255 ''middle'' (join ('' '' @ middot @ '' '') (filter (\<lambda>s. s \<noteq> []) [x0, cx_unit c])),
            Label_mark 120 285 ''middle'' ''0'',
            Label_mark 520 285 ''middle'' ''100''],
         bd_tip = None\<rparr>)"

section \<open>Treemaps\<close>

definition tree_raw :: "ctx \<Rightarrow> real list" where
  "tree_raw c = map (\<lambda>d. max 0 (num_at d (hd (cx_keys c)))) (take 12 (cx_rows c))"

definition tree_rects :: "ctx \<Rightarrow> rect list" where
  "tree_rects c = squarify (tree_raw c) 0 0 W 300"

definition tree_hit :: "ctx \<Rightarrow> real \<Rightarrow> real \<Rightarrow> nat option" where
  "tree_hit c vx vy = map_option rc_i (find (\<lambda>r. contains r vx vy) (tree_rects c))"

definition treemap :: "ctx \<Rightarrow> body" where
  "treemap c =
    (let raw = tree_raw c; mx = max_of 1 raw; rects = tree_rects c; h = shown_hi c (length rects); fmt = cx_fmt c
     in \<lparr>bd_count = length rects,
         bd_marks = concat (map (\<lambda>r.
           let p = max 0.3 (raw ! rc_i r / mx); w = max 0 (rc_w r - 4); hh = max 0 (rc_h r - 4) in
           Rect_mark (r1 (rc_x r + 2)) (r1 (rc_y r + 2)) (r1 w) (r1 hh) (color (rc_i r)) (r1 (p * 100) / 100) #
           (if 56 < w \<and> 34 < hh then [Label_mark (r1 (rc_x r + 14)) (r1 (rc_y r + 24)) ''start'' (cx_xs c ! rc_i r)] else []) @
           (if 56 < w \<and> 52 < hh then [Label_mark (r1 (rc_x r + 14)) (r1 (rc_y r + 42)) ''start'' (fmt (raw ! rc_i r))] else []))
           rects),
         bd_tip = map_option (\<lambda>i.
           \<lparr>tp_x = (rc_x (rects ! i) + rc_w (rects ! i) / 2) / W * 100, tp_y = (rc_y (rects ! i) + 12) / 300 * 100,
            tp_title = cx_xs c ! i,
            tp_rows = [(hd (cx_keys c), palette_at c (i mod 4), fmt (raw ! i))]\<rparr>) h\<rparr>)"

end
