(* ===== verification/Chart_Hover.thy ===== *)
theory Chart_Hover
  imports Chart_Shapes
begin

text \<open>
  The highlight of a chart: \<open>ChartRoot\<close> of \<open>src/web/components/charts/graphite/Chart.tsx\<close> keeps the
  hovered item, and for a heat map its column; the pointer handlers of the body builders, the
  arrow keys, Escape and leaving the chart change it. The contract between the root and the
  builders is the locale \<open>hit_plot\<close>: a builder only reports items it drew.
\<close>

section \<open>The pointer over the marks\<close>

lemma slot_pos: "0 < slot_width c"
  by (simp add: slot_width_def W_def)

lemma clamp_index: "0 < n \<Longrightarrow> nat (max 0 (min (int n - 1) m)) < n"
  by (simp add: nat_less_iff max_def min_def)

lemma slot_hit_index: "slot_hit c vx vy = Some i \<Longrightarrow> i < length (cx_rows c)"
  using clamp_index [of "length (cx_rows c)"] by (auto simp: slot_hit_def Let_def split: if_splits)

text \<open>The bar under the pointer is the one whose slot it is over, and bars stay in their slots.\<close>

lemma slot_hit_exact:
  assumes "i < length (cx_rows c)" "real i * slot_width c \<le> vx" "vx < (real i + 1) * slot_width c" "vy \<le> 260"
  shows "slot_hit c vx vy = Some i"
proof -
  have "\<lfloor>vx / slot_width c\<rfloor> = int i"
    using assms slot_pos [of c] by (intro floor_unique) (auto simp: le_divide_eq divide_less_eq)
  with assms show ?thesis by (auto simp: slot_hit_def Let_def)
qed

lemma bar_in_slot: "real i * slot_width c \<le> bar_x c i \<and> bar_x c i + slot_width c * 0.56 \<le> (real i + 1) * slot_width c"
  using slot_pos [of c] by (simp add: bar_x_def field_simps)

lemma line_hit_index: "line_hit c vx vy = Some i \<Longrightarrow> i < length (cx_rows c)"
  using clamp_index [of "length (cx_rows c)"] by (auto simp: line_hit_def Let_def split: if_splits)

lemma line_hit_nearest:
  assumes "line_hit c vx vy = Some i" "j < length (cx_rows c)"
  shows "\<bar>vx - line_x (length (cx_rows c)) i\<bar> \<le> \<bar>vx - line_x (length (cx_rows c)) j\<bar>"
proof (cases "length (cx_rows c) \<le> 1")
  case True
  then show ?thesis using line_hit_index [OF assms(1)] assms(2) by (cases "length (cx_rows c)") auto
next
  case False
  define n where "n = length (cx_rows c)"
  define g where "g = W / real (n - 1)"
  have n: "2 \<le> n" and g: "0 < g" using False by (auto simp: n_def g_def W_def)
  have x: "line_x n k = real k * g" for k using n by (simp add: line_x_def g_def)
  define m where "m = js_round (vx / g)"
  have m: "of_int m \<le> vx / g + 1 / 2" "vx / g - 1 / 2 < of_int m" unfolding m_def by (rule js_round_bounds)+
  have "max 1 (n - 1) = n - 1" using n by simp
  then have "i = nat (max 0 (min (int n - 1) m))"
    using assms(1) unfolding line_hit_def Let_def n_def [symmetric] m_def g_def
    by (metis option.inject option.simps(3))
  then have i: "int i = max 0 (min (int n - 1) m)" by simp
  define t where "t = vx / g"
  have v: "vx = t * g" using g by (simp add: t_def)
  have "\<bar>t - real i\<bar> \<le> \<bar>t - real j\<bar>"
  proof -
    have j: "0 \<le> int j" "int j \<le> int n - 1" using assms(2) by (auto simp: n_def)
    consider "int i = m" | "m < 0" "i = 0" | "int n - 1 < m" "int i = int n - 1" using i n by linarith
    then show ?thesis
    proof cases
      case 1
      have c: "j = i \<or> j + 1 \<le> i \<or> i + 1 \<le> j" by linarith
      have "of_int m = real i" using 1 by (metis of_int_of_nat_eq)
      with m c show ?thesis unfolding t_def [symmetric] by auto
    next
      case 2
      then have "of_int m \<le> (-1 :: real)" by linarith
      with m 2 show ?thesis unfolding t_def [symmetric] by auto
    next
      case 3
      then have "real i + 1 \<le> of_int m" by linarith
      moreover have "real j \<le> real i" using j 3 by linarith
      ultimately show ?thesis using m unfolding t_def [symmetric] by linarith
    qed
  qed
  then have "\<bar>t - real i\<bar> * g \<le> \<bar>t - real j\<bar> * g" using g by (intro mult_right_mono) auto
  moreover have "\<bar>vx - real k * g\<bar> = \<bar>t - real k\<bar> * g" for k
    using g by (simp add: v left_diff_distrib [symmetric] abs_mult)
  ultimately show ?thesis unfolding n_def [symmetric] x by simp
qed

lemma closer_invariant:
  "\<forall>ip \<in> set ips. snd ip = f (fst ip) \<Longrightarrow>
   (case snd b of None \<Rightarrow> ips \<noteq> [] | Some d \<Rightarrow> d = sq_dist vx vy (f (fst b))) \<Longrightarrow>
   (let r = foldl (closer vx vy) b ips in
     (fst r = fst b \<and> snd b \<noteq> None \<or> fst r \<in> fst ` set ips) \<and>
     (\<forall>ip \<in> set ips. sq_dist vx vy (f (fst r)) \<le> sq_dist vx vy (snd ip)) \<and>
     (case snd b of None \<Rightarrow> True | Some d \<Rightarrow> sq_dist vx vy (f (fst r)) \<le> d))"
proof (induction ips arbitrary: b)
  case Nil
  then show ?case by (auto simp: Let_def split: option.splits)
next
  case (Cons ip ips)
  let ?b = "closer vx vy b ip"
  have b: "snd ?b = Some (sq_dist vx vy (f (fst ?b)))" "fst ?b = fst b \<and> snd b \<noteq> None \<or> fst ?b = fst ip"
    "sq_dist vx vy (f (fst ?b)) \<le> sq_dist vx vy (snd ip)"
    "case snd b of None \<Rightarrow> True | Some d \<Rightarrow> sq_dist vx vy (f (fst ?b)) \<le> d"
    using Cons.prems by (auto simp: closer_def Let_def split: option.splits)
  have "case snd ?b of None \<Rightarrow> ips \<noteq> [] | Some d \<Rightarrow> d = sq_dist vx vy (f (fst ?b))" using b(1) by simp
  from Cons.IH [OF _ this] Cons.prems(1) show ?case
    using b by (auto simp: Let_def split: option.splits intro: order_trans)
qed

lemma nearest_point:
  assumes "pts \<noteq> []"
  shows "nearest vx vy pts < length pts" "j < length pts \<Longrightarrow> sq_dist vx vy (pts ! nearest vx vy pts) \<le> sq_dist vx vy (pts ! j)"
proof -
  let ?e = "enumerate 0 pts"
  have e: "\<forall>ip \<in> set ?e. snd ip = pts ! fst ip" by (auto simp: in_set_enumerate_eq)
  have s: "fst ` set ?e = {0 ..< length pts}" by (metis add.left_neutral list.set_map map_fst_enumerate set_upt)
  note r = closer_invariant [where b = "(0, None)" and vx = vx and vy = vy, OF e]
  have ne: "?e \<noteq> []" using assms by (metis length_0_conv length_enumerate)
  show "nearest vx vy pts < length pts" using r ne s by (auto simp: Let_def nearest_def)
  assume "j < length pts"
  then have "(j, pts ! j) \<in> set ?e" by (simp add: in_set_enumerate_eq)
  then show "sq_dist vx vy (pts ! nearest vx vy pts) \<le> sq_dist vx vy (pts ! j)"
    using r ne by (auto simp: Let_def nearest_def)
qed

lemma scatter_hit_index: "scatter_hit c vx vy = Some i \<Longrightarrow> i < length (scatter_pts c)"
  using nearest_point(1) by (auto simp: scatter_hit_def Let_def split: if_splits)

lemma heat_size: "0 < ht_cols (heat_of c)" "0 < ht_cw (heat_of c)" "0 < ht_chh (heat_of c)"
  by (simp_all add: heat_of_def heatGeometry_def Let_def chart_box)

lemma heat_hit_index: "heat_hit c vx vy = Some (i, j) \<Longrightarrow> i < length (ht_rows (heat_of c)) \<and> j < ht_cols (heat_of c)"
  by (auto simp: heat_hit_def Let_def nat_less_iff split: if_splits)

lemma grid_floor: "0 < g \<Longrightarrow> real i * g \<le> v \<Longrightarrow> v < (real i + 1) * g \<Longrightarrow> \<lfloor>v / g\<rfloor> = int i"
  by (intro floor_unique) (auto simp: le_divide_eq divide_less_eq)

lemma heat_hit_exact:
  assumes "i < length (ht_rows (heat_of c))" "j < ht_cols (heat_of c)"
    "real i * ht_chh (heat_of c) \<le> vy" "vy < (real i + 1) * ht_chh (heat_of c)"
    "real j * ht_cw (heat_of c) \<le> vx - 40" "vx - 40 < (real j + 1) * ht_cw (heat_of c)"
  shows "heat_hit c vx vy = Some (i, j)"
proof -
  note f = grid_floor [OF heat_size(3) assms(3,4)] grid_floor [OF heat_size(2) assms(5,6)]
  show ?thesis unfolding heat_hit_def Let_def f using assms(1,2) by simp
qed

lemma funnel_hit_index: "funnel_hit c vx vy = Some i \<Longrightarrow> i < length (donut_raw c)"
  by (auto simp: funnel_hit_def Let_def nat_less_iff split: if_splits)

lemma slice_at_index: "slice_at ps run a = Some i \<Longrightarrow> i < length ps"
  by (induction ps arbitrary: run i) (auto split: if_splits)

lemma slice_at_range:
  "slice_at ps run a = Some i \<Longrightarrow>
    a \<le> run + sum_list (take (Suc i) ps) * 3.6 \<and> (i = 0 \<or> run + sum_list (take i ps) * 3.6 < a)"
proof (induction ps arbitrary: run i)
  case (Cons p ps)
  show ?case
  proof (cases "a \<le> run + p * 3.6")
    case False
    with Cons.prems obtain k where k: "i = Suc k" "slice_at ps (run + p * 3.6) a = Some k" by auto
    with Cons.IH [OF k(2)] False show ?thesis by (cases k) (auto simp: algebra_simps add_divide_distrib)
  qed (use Cons.prems in simp)
qed simp

lemma slice_at_total: "a \<le> run + sum_list ps * 3.6 \<Longrightarrow> ps \<noteq> [] \<Longrightarrow> slice_at ps run a \<noteq> None"
proof (induction ps arbitrary: run)
  case (Cons p ps)
  show ?case
  proof (cases "ps = []")
    case False
    have "a \<le> (run + p * 3.6) + sum_list ps * 3.6" using Cons.prems(1) by (simp add: distrib_right add_divide_distrib)
    from Cons.IH [OF this False] show ?thesis by auto
  qed (use Cons.prems in simp)
qed simp

lemma mod_360_range: "0 \<le> mod_360 a \<and> mod_360 a < 360"
proof -
  define k where "k = real_of_int \<lfloor>a / 360\<rfloor>"
  have "k \<le> a / 360" "a / 360 < k + 1" unfolding k_def by linarith+
  then show ?thesis unfolding mod_360_def k_def [symmetric] by simp
qed

lemma donut_pct_sum: "1 / 10 ^ 9 \<le> sum_list raw \<Longrightarrow> sum_list (donut_pct raw) = 100"
proof -
  assume s: "1 / 10 ^ 9 \<le> sum_list raw"
  then have p: "0 < sum_list raw" by (rule less_le_trans [rotated]) simp
  have "sum_list (map (\<lambda>v. v / s * 100) raw) = sum_list raw / s * 100" for s
    by (induction raw) (auto simp: add_divide_distrib distrib_right)
  with s p show ?thesis by (simp add: donut_pct_def Let_def max_def)
qed

lemma radar_hit_index: "radar_hit c vx vy = Some i \<Longrightarrow> i < min (length (cx_rows c)) (radar_n c)"
proof -
  assume h: "radar_hit c vx vy = Some i"
  define a where "a = degrees (vy - 150) (vx - 320) (90 + 180 / real (radar_n c))"
  have "0 \<le> a" using mod_360_range by (simp add: a_def degrees_def)
  then have "0 \<le> \<lfloor>a / (360 / real (radar_n c))\<rfloor>" by simp
  moreover have "\<lfloor>a / (360 / real (radar_n c))\<rfloor> < int (min (length (cx_rows c)) (radar_n c))"
    "i = nat \<lfloor>a / (360 / real (radar_n c))\<rfloor>"
    using h unfolding radar_hit_def Let_def a_def by (metis option.distinct(1), metis option.distinct(1) option.inject)
  ultimately show ?thesis by linarith
qed

lemma tree_rects_index: "map rc_i (tree_rects c) = [0 ..< length (tree_raw c)]"
  using squarify_tiles [of W 300 "tree_raw c" 0 0] by (simp add: tree_rects_def Let_def W_def)

lemma length_tree_rects: "length (tree_rects c) = length (tree_raw c)"
  using arg_cong [OF tree_rects_index, of length] by simp

lemma tree_hit_index: "tree_hit c vx vy = Some i \<Longrightarrow> i < length (tree_rects c)"
proof -
  assume "tree_hit c vx vy = Some i"
  then obtain r where "r \<in> set (tree_rects c)" "rc_i r = i" unfolding tree_hit_def using find_SomeD by fastforce
  then have "i \<in> set (map rc_i (tree_rects c))" by auto
  then show ?thesis unfolding tree_rects_index length_tree_rects by simp
qed

section \<open>The highlight\<close>

type_synonym hover = "nat option \<times> nat option"

datatype hover_event = Pointer real real | Enter_item nat | Leave_chart | Key_press string

text \<open>\<open>((hover.i ?? -1) + by + count) % count\<close>.\<close>

definition cycle :: "nat \<Rightarrow> int \<Rightarrow> nat option \<Rightarrow> nat" where
  "cycle items by i = nat (((case i of Some i \<Rightarrow> int i | None \<Rightarrow> -1) + by + int items) mod int items)"

definition horizontal :: "string \<Rightarrow> int" where
  "horizontal key = (if key = ''ArrowRight'' then 1 else if key = ''ArrowLeft'' then -1 else 0)"

definition vertical :: "string \<Rightarrow> int" where
  "vertical key = (if key = ''ArrowDown'' then 1 else if key = ''ArrowUp'' then -1 else 0)"

definition or_zero :: "nat option \<Rightarrow> nat" where
  "or_zero i = (case i of Some i \<Rightarrow> i | None \<Rightarrow> 0)"

text \<open>The arrow keys: \<open>cols\<close> are the columns of a heat map.\<close>

definition onKey :: "nat \<Rightarrow> nat option \<Rightarrow> string \<Rightarrow> hover \<Rightarrow> hover" where
  "onKey items cols key h =
    (let dx = horizontal key; dy = vertical key in
     if key = ''Escape'' then (None, None)
     else if dx = 0 \<and> dy = 0 \<or> items = 0 then h
     else case cols of
       Some m \<Rightarrow> (Some (if dy \<noteq> 0 then cycle items dy (fst h) else or_zero (fst h)),
                  Some (if dx \<noteq> 0 then cycle m dx (snd h) else or_zero (snd h)))
     | None \<Rightarrow> (Some (cycle items (if dx \<noteq> 0 then dx else dy) (fst h)), None))"

text \<open>Enter opens the item that is highlighted, when the data still have it.\<close>

definition opened :: "'r list \<Rightarrow> hover \<Rightarrow> 'r option" where
  "opened data h = (case fst h of Some i \<Rightarrow> if i < length data then Some (data ! i) else None | None \<Rightarrow> None)"

definition hover_step ::
  "nat \<Rightarrow> nat option \<Rightarrow> (real \<Rightarrow> real \<Rightarrow> hover option) \<Rightarrow> hover_event \<Rightarrow> hover \<Rightarrow> hover" where
  "hover_step items cols hit e h = (case e of
     Pointer vx vy \<Rightarrow> (case hit vx vy of Some h' \<Rightarrow> h' | None \<Rightarrow> h)
   | Enter_item i \<Rightarrow> if i < items then (Some i, None) else h
   | Leave_chart \<Rightarrow> (None, None)
   | Key_press key \<Rightarrow> onKey items cols key h)"

definition hover_ok :: "nat \<Rightarrow> nat option \<Rightarrow> hover \<Rightarrow> bool" where
  "hover_ok items cols h \<longleftrightarrow>
    (case fst h of Some i \<Rightarrow> i < items | None \<Rightarrow> True) \<and>
    (case snd h of Some j \<Rightarrow> (case cols of Some m \<Rightarrow> j < m | None \<Rightarrow> False) | None \<Rightarrow> True)"

lemma cycle_less: "0 < items \<Longrightarrow> cycle items by i < items"
  by (simp add: cycle_def nat_less_iff)

text \<open>The contract of a body builder: what its pointer handler reports are items it drew.\<close>

locale hit_plot =
  fixes items :: nat and cols :: "nat option" and hit :: "real \<Rightarrow> real \<Rightarrow> hover option"
  assumes hit_ok: "hit vx vy = Some h \<Longrightarrow> hover_ok items cols h"
    and some_cols: "cols \<noteq> Some 0"
begin

lemma key_ok: "hover_ok items cols h \<Longrightarrow> hover_ok items cols (onKey items cols key h)"
  using some_cols
  by (auto simp: hover_ok_def onKey_def Let_def cycle_less or_zero_def split: option.splits)

lemma step_ok: "hover_ok items cols h \<Longrightarrow> hover_ok items cols (hover_step items cols hit e h)"
  using hit_ok key_ok
  by (cases e) (auto simp: hover_step_def hover_ok_def [where h = "(_, None)"] split: option.splits if_splits)

lemma run_ok: "hover_ok items cols h \<Longrightarrow> hover_ok items cols (fold (hover_step items cols hit) es h)"
  by (induction es arbitrary: h) (auto simp: step_ok)

end

section \<open>The chart types\<close>

definition on_items :: "nat option \<Rightarrow> hover option" where
  "on_items = map_option (\<lambda>i. (Some i, None))"

definition chart_hit :: "ctx \<Rightarrow> real \<Rightarrow> real \<Rightarrow> hover option" where
  "chart_hit c vx vy =
    (if cx_rows c = [] then None else case cx_type c of
       Line_t \<Rightarrow> on_items (line_hit c vx vy)
     | Area_t \<Rightarrow> on_items (line_hit c vx vy)
     | Bar_t \<Rightarrow> on_items (slot_hit c vx vy)
     | Stacked_t \<Rightarrow> on_items (slot_hit c vx vy)
     | Donut_t \<Rightarrow> on_items (donut_hit c vx vy)
     | Scatter_t \<Rightarrow> on_items (scatter_hit c vx vy)
     | Radar_t \<Rightarrow> on_items (radar_hit c vx vy)
     | Heatmap_t \<Rightarrow> map_option (\<lambda>(i, j). (Some i, Some j)) (heat_hit c vx vy)
     | Funnel_t \<Rightarrow> on_items (funnel_hit c vx vy)
     | Treemap_t \<Rightarrow> on_items (tree_hit c vx vy)
     | Sparkline_t \<Rightarrow> None
     | Gauge_t \<Rightarrow> None)"

definition build :: "ctx \<Rightarrow> body" where
  "build c = (case cx_type c of
     Line_t \<Rightarrow> lineArea c | Area_t \<Rightarrow> lineArea c | Bar_t \<Rightarrow> bar c | Stacked_t \<Rightarrow> stacked c | Donut_t \<Rightarrow> donut c
   | Scatter_t \<Rightarrow> scatter c | Radar_t \<Rightarrow> radar c | Heatmap_t \<Rightarrow> heatmap c | Sparkline_t \<Rightarrow> sparkline c
   | Funnel_t \<Rightarrow> funnel c | Gauge_t \<Rightarrow> gauge c | Treemap_t \<Rightarrow> treemap c)"

definition chart_body :: "ctx \<Rightarrow> body" where
  "chart_body c =
    (if cx_rows c = [] then \<lparr>bd_count = 0, bd_marks = [Label_mark 0 0 ''middle'' ''No data''], bd_tip = None\<rparr>
     else build c)"

definition chart_cols :: "ctx \<Rightarrow> nat option" where
  "chart_cols c = (if cx_type c = Heatmap_t then Some (ht_cols (heat_of c)) else None)"

definition chart_step :: "ctx \<Rightarrow> hover_event \<Rightarrow> hover \<Rightarrow> hover" where
  "chart_step c = hover_step (bd_count (chart_body c)) (chart_cols c) (chart_hit c)"

lemma body_counts:
  "bd_count (lineArea c) = length (cx_rows c)" "bd_count (bar c) = length (cx_rows c)"
  "bd_count (stacked c) = length (cx_rows c)" "bd_count (donut c) = length (donut_raw c)"
  "bd_count (scatter c) = length (scatter_pts c)" "bd_count (radar c) = min (length (cx_rows c)) (radar_n c)"
  "bd_count (heatmap c) = length (ht_rows (heat_of c))" "bd_count (funnel c) = length (donut_raw c)"
  "bd_count (treemap c) = length (tree_rects c)"
  by (simp_all add: lineArea_def bar_def bar_raw_def stacked_def donut_def scatter_def radar_def heatmap_def
      funnel_def treemap_def Let_def)

lemmas hit_indices = line_hit_index slot_hit_index scatter_hit_index heat_hit_index funnel_hit_index
  radar_hit_index tree_hit_index

interpretation drawn: hit_plot "bd_count (chart_body c)" "chart_cols c" "chart_hit c" for c
proof
  fix vx vy h
  assume "chart_hit c vx vy = Some h"
  then show "hover_ok (bd_count (chart_body c)) (chart_cols c) h"
    by (auto simp: chart_hit_def chart_body_def build_def chart_cols_def on_items_def hover_ok_def body_counts
        donut_hit_def donut_pct_def Let_def dest!: hit_indices slice_at_index split: if_splits chart_type.splits)
next
  show "chart_cols c \<noteq> Some 0" using heat_size(1) [of c] by (simp add: chart_cols_def)
qed

text \<open>C23: Whatever the pointer and the keys do over a chart, the highlight is nothing or an item that is
  drawn, with a column only on a heat map.\<close>

theorem highlight_is_drawn:
  "hover_ok (bd_count (chart_body c)) (chart_cols c) (fold (chart_step c) es (None, None))"
  using drawn.run_ok [of c "(None, None)" es] by (simp add: chart_step_def hover_ok_def [of _ _ "(None, None)"])

text \<open>Over a line chart the pointer picks the point nearest to it along the axis, also beyond both ends.\<close>

theorem line_pointer_nearest:
  assumes "line_hit c vx vy = Some i" "j < length (cx_rows c)"
  shows "i < length (cx_rows c) \<and>
    \<bar>vx - line_x (length (cx_rows c)) i\<bar> \<le> \<bar>vx - line_x (length (cx_rows c)) j\<bar>"
  using line_hit_index [OF assms(1)] line_hit_nearest [OF assms] by blast

definition sample_ctx :: "chart_type \<Rightarrow> real list \<Rightarrow> ctx" where
  "sample_ctx t vs = \<lparr>cx_type = t, cx_rows = map (\<lambda>v. [''v'' \<mapsto> Num_v v]) vs, cx_xs = map (\<lambda>v. ''x'') vs, cx_xKey = ''x'',
     cx_keys = [''v''], cx_theme = \<lparr>th_fill = 1, th_curve = Smooth, th_grid = True, th_legend = False, th_labels = True\<rparr>,
     cx_palette = [''#111111'', ''#222222'', ''#333333'', ''#444444''], cx_fmt = formatCompact, cx_unit = [],
     cx_hi = None, cx_hj = None, cx_uid = ''g''\<rparr>"

lemma line_pointer_nearest_witness:
  "line_hit (sample_ctx Line_t [3, 1, 2]) 500 100 = Some 2 \<and>
   \<bar>500 - line_x 3 2\<bar> \<le> \<bar>500 - line_x 3 1\<bar>"
proof -
  have h: "line_hit (sample_ctx Line_t [3, 1, 2]) 500 100 = Some 2"
    by (simp add: line_hit_def sample_ctx_def W_def js_round_def)
  have n: "length (cx_rows (sample_ctx Line_t [3, 1, 2])) = 3" by (simp add: sample_ctx_def)
  show ?thesis using h line_pointer_nearest [OF h, of 1] unfolding n by simp
qed

text \<open>On a donut and on a treemap the pointer always hits: whatever its angle it is over a slice (once
  there is anything to show), and every point of the plot lies in the cell that is highlighted.\<close>

theorem pointer_always_hits:
  assumes "cx_rows c \<noteq> []" "0 \<le> vx" "vx \<le> W" "0 \<le> vy" "vy \<le> 300" "1 / 10 ^ 9 \<le> sum_list (donut_raw c)"
  shows "donut_hit c vx vy \<noteq> None \<and>
    (\<exists>i < length (tree_rects c). tree_hit c vx vy = Some i \<and> contains (tree_rects c ! i) vx vy)"
proof
  have "sum_list (donut_pct (donut_raw c)) = 100" by (rule donut_pct_sum [OF assms(6)])
  moreover have "degrees (vy - 110) (vx - 110) 90 < 360" unfolding degrees_def using mod_360_range by blast
  moreover have "donut_pct (donut_raw c) \<noteq> []" using assms(1) by (simp add: donut_pct_def donut_raw_def Let_def)
  ultimately show "donut_hit c vx vy \<noteq> None" unfolding donut_hit_def by (intro slice_at_total) auto
next
  have "tree_raw c \<noteq> []" using assms(1) by (simp add: tree_raw_def)
  then have "\<exists>r \<in> set (tree_rects c). contains r vx vy"
    unfolding tree_rects_def using assms by (intro squarify_covers) (auto simp: W_def)
  then obtain r where f: "find (\<lambda>r. contains r vx vy) (tree_rects c) = Some r"
    by (metis find_None_iff not_Some_eq)
  then have r: "r \<in> set (tree_rects c)" "contains r vx vy" by (auto dest: find_SomeD)
  then obtain i where i: "i < length (tree_rects c)" "tree_rects c ! i = r" by (metis in_set_conv_nth)
  have "map rc_i (tree_rects c) ! i = i" unfolding tree_rects_index using i(1) length_tree_rects [of c] by simp
  then have "rc_i r = i" using i by simp
  with f r i show "\<exists>i < length (tree_rects c). tree_hit c vx vy = Some i \<and> contains (tree_rects c ! i) vx vy"
    by (auto simp: tree_hit_def)
qed

lemma pointer_always_hits_witness:
  "donut_hit (sample_ctx Treemap_t [3, 1]) 600 10 \<noteq> None \<and>
   (\<exists>i < length (tree_rects (sample_ctx Treemap_t [3, 1])).
      tree_hit (sample_ctx Treemap_t [3, 1]) 600 10 = Some i \<and> contains (tree_rects (sample_ctx Treemap_t [3, 1]) ! i) 600 10)"
  by (rule pointer_always_hits) (simp_all add: sample_ctx_def donut_raw_def num_at_def W_def)

text \<open>The arrow keys go round the items: from nothing the right arrow shows them in order, and starts
  over after the last; the left arrow takes a step of the right one back.\<close>

theorem arrows_go_round:
  assumes "0 < n"
  shows "(onKey n None ''ArrowRight'' ^^ Suc k) (None, None) = (Some (k mod n), None) \<and>
    onKey n None ''ArrowLeft'' (onKey n None ''ArrowRight'' (Some (k mod n), j)) = (Some (k mod n), None)"
proof
  have s: "onKey n None ''ArrowRight'' (Some i, j) = (Some (Suc i mod n), None)" for i j
    using assms by (simp add: onKey_def horizontal_def vertical_def cycle_def nat_mod_distrib nat_add_distrib)
  show "(onKey n None ''ArrowRight'' ^^ Suc k) (None, None) = (Some (k mod n), None)"
  proof (induction k)
    case 0
    show ?case using assms by (simp add: onKey_def horizontal_def vertical_def cycle_def)
  next
    case (Suc k)
    then show ?case using s [of "k mod n" None] by (simp add: mod_Suc_eq)
  qed
  have "k mod n < n" using assms by simp
  then have l: "onKey n None ''ArrowLeft'' (Some (Suc (k mod n) mod n), None) = (Some (k mod n), None)"
  proof -
    have "(int (Suc (k mod n) mod n) - 1 + int n) mod int n = int (k mod n)"
    proof -
      have "(int (Suc (k mod n) mod n) - 1 + int n) mod int n = (int (Suc (k mod n)) - 1) mod int n"
        by (simp only: zmod_int mod_add_self2 mod_diff_left_eq)
      then show ?thesis by (simp add: zmod_int)
    qed
    then show ?thesis using assms by (simp add: onKey_def horizontal_def vertical_def cycle_def)
  qed
  show "onKey n None ''ArrowLeft'' (onKey n None ''ArrowRight'' (Some (k mod n), j)) = (Some (k mod n), None)"
    by (simp only: s l)
qed

lemma arrows_go_round_witness:
  "(onKey 3 None ''ArrowRight'' ^^ Suc 4) (None, None) = (Some (4 mod 3), None) \<and>
    onKey 3 None ''ArrowLeft'' (onKey 3 None ''ArrowRight'' (Some (4 mod 3), None)) = (Some (4 mod 3), None)"
  by (rule arrows_go_round) simp

text \<open>The left arrow does not start at the last item: \<open>-1\<close> stands for nothing, and one to the left of
  it is the last but one.\<close>

lemma left_arrow_skips_last: "2 \<le> n \<Longrightarrow> onKey n None ''ArrowLeft'' (None, None) = (Some (n - 2), None)"
proof -
  assume n: "2 \<le> n"
  have "(-1 + -1 + int n) mod int n = int n - 2" using n by (subst mod_pos_pos_trivial) auto
  with n show ?thesis
    unfolding onKey_def horizontal_def vertical_def cycle_def Let_def by (simp add: nat_diff_distrib del: minus_add_distrib)
qed

end
