(* ===== verification/Chart_Root.thy ===== *)
theory Chart_Root
  imports Chart_Hover
begin

text \<open>
  \<open>ChartRoot\<close> of \<open>src/web/components/charts/graphite/Chart.tsx\<close>: the fields, palette and labels it
  derives from its properties, the headline and legend, and the compact variants: gauge, semicircle,
  donut, spark line, treemap cells and bars. \<open>str\<close> writes a number as \<open>String\<close> does.
\<close>

section \<open>The colour mode\<close>

datatype chart_mode = Light_mode | Dark_mode | Auto_mode

text \<open>\<open>readMode\<close>: the attribute of the document decides, else the preference of the system.\<close>

definition readMode :: "string option \<Rightarrow> bool \<Rightarrow> bool" where
  "readMode attr prefers_dark =
    (if attr = Some ''light'' then False else if attr = Some ''dark'' then True else prefers_dark)"

text \<open>\<open>useResolvedMode\<close>: whether the chart is dark.\<close>

definition useResolvedMode :: "chart_mode \<Rightarrow> string option \<Rightarrow> bool \<Rightarrow> bool" where
  "useResolvedMode mode attr prefers_dark = (case mode of
     Light_mode \<Rightarrow> False | Dark_mode \<Rightarrow> True | Auto_mode \<Rightarrow> readMode attr prefers_dark)"

section \<open>Properties\<close>

record chart_props =
  cp_type :: chart_type
  cp_theme :: chart_theme
  cp_palette :: "string list"
  cp_data :: "datum list"
  cp_x :: string
  cp_series :: "string list option"
  cp_value :: "string list option"
  cp_values :: "string list option"
  cp_title :: string
  cp_unit :: string
  cp_format :: "(real \<Rightarrow> string) option"
  cp_hint :: string
  cp_colorOf :: "(nat \<Rightarrow> string) option"
  cp_opacityOf :: "(nat \<Rightarrow> real) option"
  cp_tipOf :: "(nat \<Rightarrow> string) option"
  cp_fullHeight :: bool
  cp_max :: "real option"
  cp_centerLabel :: "string option"
  cp_centerSub :: string
  cp_semi :: bool
  cp_threshold :: "real option"
  cp_sparkMax :: "real option"
  cp_highlight :: "nat option option"

text \<open>\<open>a ?? b\<close>.\<close>

definition nullish :: "'a option \<Rightarrow> 'a \<Rightarrow> 'a" where
  "nullish a b = (case a of Some x \<Rightarrow> x | None \<Rightarrow> b)"

definition safe_keys :: "chart_props \<Rightarrow> string list" where
  "safe_keys p =
    (let keys = filter (\<lambda>k. k \<noteq> [])
       (case cp_series p of Some s \<Rightarrow> s | None \<Rightarrow> (case cp_value p of Some s \<Rightarrow> s | None \<Rightarrow> nullish (cp_values p) []))
     in if keys \<noteq> [] then keys else [''value''])"

definition palette_of :: "chart_props \<Rightarrow> string list" where
  "palette_of p = (if cp_palette p \<noteq> [] then cp_palette p else [''#8b7cff''])"

fun js_string :: "(real \<Rightarrow> string) \<Rightarrow> datum_value \<Rightarrow> string" where
  "js_string str (Num_v x) = str x"
| "js_string str (Text_v s) = s"
| "js_string str (List_v vs) = join '','' (map (js_string str) vs)"
| "js_string str (Other_v s) = s"

definition labels_of :: "(real \<Rightarrow> string) \<Rightarrow> chart_props \<Rightarrow> string list" where
  "labels_of str p = map (\<lambda>d. case d (cp_x p) of Some v \<Rightarrow> js_string str v | None \<Rightarrow> []) (cp_data p)"

definition format_of :: "chart_props \<Rightarrow> real \<Rightarrow> string" where
  "format_of p = nullish (cp_format p) formatCompact"

definition ctx_of :: "(real \<Rightarrow> string) \<Rightarrow> string \<Rightarrow> chart_props \<Rightarrow> hover \<Rightarrow> ctx" where
  "ctx_of str uid p h =
    \<lparr>cx_type = cp_type p, cx_rows = cp_data p, cx_xs = labels_of str p, cx_xKey = cp_x p, cx_keys = safe_keys p,
     cx_theme = cp_theme p, cx_palette = palette_of p, cx_fmt = format_of p, cx_unit = cp_unit p,
     cx_hi = fst h, cx_hj = snd h, cx_uid = uid\<rparr>"

text \<open>The series colours \<open>--s1\<close> to \<open>--s4\<close> cycle through the palette.\<close>

definition series_vars :: "chart_props \<Rightarrow> (string \<times> string) list" where
  "series_vars p = map (\<lambda>k. (''--s'' @ show_nat (k + 1), palette_of p ! (k mod length (palette_of p)))) [0, 1, 2, 3]"

definition root_texts :: "(real \<Rightarrow> string) \<Rightarrow> chart_props \<Rightarrow> hover \<Rightarrow> string list" where
  "root_texts str p h =
    [cp_title p, chart_headline (cp_type p) (cp_data p) (cp_x p) (safe_keys p) (format_of p),
     if cp_type p = Scatter_t then [] else cp_unit p] @
    (if th_legend (cp_theme p) then safe_keys p else []) @
    (if cp_hint p \<noteq> [] then [cp_hint p] else [])"

section \<open>Compact gauges\<close>

definition semi_dash :: "real \<Rightarrow> real \<times> real" where
  "semi_dash v = (r1 (pi * 26 * clamp_to v 0 100 / 100), 200)"

definition ring_dash :: "real \<Rightarrow> real \<times> real" where
  "ring_dash v = (r1 (2 * pi * 19.5 * clamp_to v 0 100 / 100), r1 (2 * pi * 19.5))"

definition gauge_label :: "chart_props \<Rightarrow> string" where
  "gauge_label p = nullish (cp_centerLabel p) (show_int (gaugeValue (cp_data p) (hd (safe_keys p))) @ cp_unit p)"

definition compact_color :: "chart_props \<Rightarrow> nat \<Rightarrow> string \<Rightarrow> string" where
  "compact_color p i other = (case cp_colorOf p of Some f \<Rightarrow> f i | None \<Rightarrow> other)"

definition compact_gauge :: "chart_props \<Rightarrow> string \<times> string \<times> real \<times> real" where
  "compact_gauge p =
    (gauge_label p, compact_color p 0 ''var(--s1)'',
     (if cp_semi p then semi_dash else ring_dash) (of_int (gaugeValue (cp_data p) (hd (safe_keys p)))))"

section \<open>Compact donut\<close>

definition compact_values :: "chart_props \<Rightarrow> real list" where
  "compact_values p = map (\<lambda>d. max 0 (num_at d (hd (safe_keys p)))) (cp_data p)"

definition donut_total :: "real list \<Rightarrow> real" where
  "donut_total vs = (if sum_list vs = 0 then 1 else sum_list vs)"

definition donut_gap :: "real list \<Rightarrow> real" where
  "donut_gap vs = (if 1 < length (filter (\<lambda>v. 0 < v) vs) then 4 else 0)"

text \<open>Length and start of the segments, before rounding; \<open>acc\<close> is the length so far.\<close>

fun segments :: "real \<Rightarrow> real \<Rightarrow> real \<Rightarrow> real list \<Rightarrow> (real \<times> real) list" where
  "segments C whole acc [] = []"
| "segments C whole acc (v # vs) = (v / whole * C, acc) # segments C whole (acc + v / whole * C) vs"

definition compact_donut :: "chart_props \<Rightarrow> hover \<Rightarrow> (nat \<times> real \<times> real \<times> real \<times> string) list" where
  "compact_donut p h =
    (let vs = compact_values p; C = 2 * pi * 42; gap = donut_gap vs; hi = nullish (cp_highlight p) (fst h) in
     List.map_filter (\<lambda>(i, len, start).
       if vs ! i \<le> 0 then None
       else Some (i, r1 (max 0.1 (len - gap)), r1 (- start - gap / 2), dimmed hi i 0.35, compact_color p i (color i)))
       (enumerate 0 (segments C (donut_total vs) 0 vs)))"

definition donut_center :: "chart_props \<Rightarrow> string \<times> string" where
  "donut_center p = (nullish (cp_centerLabel p) (format_of p (sum_list (compact_values p))), cp_centerSub p)"

section \<open>Compact spark line, cells and bars\<close>

definition spark_values :: "chart_props \<Rightarrow> real list" where
  "spark_values p = map (\<lambda>d. num_at d (hd (safe_keys p))) (cp_data p)"

definition compact_spark :: "chart_props \<Rightarrow> mark list" where
  "compact_spark p =
    (let vs = spark_values p; mx = nullish (cp_sparkMax p) 100; pts = spark_pts vs mx;
         col = compact_color p 0 ''var(--s1)''
     in (case cp_threshold p of Some t \<Rightarrow> [Line_mark 0 (r1 (spark_y mx t)) 240 (r1 (spark_y mx t))] | None \<Rightarrow> []) @
        (if spark_area vs mx \<noteq> [] then [Path_mark (spark_area vs mx) ''url(#gSparkFade)'', Path_mark (spark_d vs mx) ''none''] else []) @
        (if pts \<noteq> [] then
           [Circle_mark (r1 (fst (last pts))) (r1 (snd (last pts))) 4 col,
            Circle_mark (r1 (fst (last pts))) (r1 (snd (last pts))) 4 ''none'']
         else []))"

definition compact_cells :: "chart_props \<Rightarrow> hover \<Rightarrow> (rect \<times> real) list" where
  "compact_cells p h =
    (let hi = nullish (cp_highlight p) (fst h) in
     map (\<lambda>r. (r, dimmed hi (rc_i r) 0.55)) (squarify (compact_values p) 0 0 100 100))"

definition bars_max :: "chart_props \<Rightarrow> real" where
  "bars_max p = nullish (cp_max p) (max_of 100 (spark_values p))"

definition bar_height :: "real \<Rightarrow> real \<Rightarrow> real" where
  "bar_height mx v = max 8 (clamp_to v 0 mx / (if mx = 0 then 1 else mx) * 100)"

definition bar_tip :: "(real \<Rightarrow> string) \<Rightarrow> chart_props \<Rightarrow> nat \<Rightarrow> string" where
  "bar_tip str p i =
    (case cp_tipOf p of Some f \<Rightarrow> f i
     | None \<Rightarrow> labels_of str p ! i @ '' '' @ middot @ '' '' @ format_of p (spark_values p ! i) @
         (if cp_unit p = [] then [] else '' '' @ cp_unit p))"

text \<open>Height (none in a full-height strip), colour and opacity of every bar.\<close>

definition compact_bars :: "chart_props \<Rightarrow> hover \<Rightarrow> (real option \<times> string \<times> real) list" where
  "compact_bars p h = map (\<lambda>(i, v).
     (if cp_fullHeight p then None else Some (bar_height (bars_max p) v),
      compact_color p i ''var(--s1)'',
      (let o1 = (case cp_opacityOf p of Some f \<Rightarrow> f i | None \<Rightarrow> 1) in
       case fst h of Some j \<Rightarrow> if j \<noteq> i then o1 * 0.55 else o1 | None \<Rightarrow> o1)))
     (enumerate 0 (spark_values p))"

text \<open>The tooltip of the hovered bar: its place in percent, how far it is shifted, and its text.\<close>

definition bars_tip :: "(real \<Rightarrow> string) \<Rightarrow> chart_props \<Rightarrow> hover \<Rightarrow> (real \<times> real \<times> string) option" where
  "bars_tip str p h =
    (let n = length (spark_values p) in
     case fst h of
       Some i \<Rightarrow>
         if i < n \<and> bar_tip str p i \<noteq> [] then
           (let pos = (real i + 0.5) / real n * 100 in Some (pos, clamp_to pos 12 88, bar_tip str p i))
         else None
     | None \<Rightarrow> None)"

section \<open>Facts\<close>

lemma safe_keys_not_nil: "safe_keys p \<noteq> []" "k \<in> set (safe_keys p) \<Longrightarrow> k \<noteq> []"
  by (auto simp: safe_keys_def Let_def split: if_splits)

lemma bar_height_range: "0 \<le> mx \<Longrightarrow> 8 \<le> bar_height mx v \<and> bar_height mx v \<le> 100"
proof -
  assume mx: "0 \<le> mx"
  then have c: "0 \<le> clamp_to v 0 mx" "clamp_to v 0 mx \<le> mx" using clamp_to_bounds by blast+
  define t where "t = clamp_to v 0 mx / (if mx = 0 then 1 else mx)"
  have "t \<le> 1" using mx c by (auto simp: t_def divide_le_eq)
  then show ?thesis by (simp add: bar_height_def t_def [symmetric])
qed

lemma segments_sum: "sum_list (map fst (segments C whole acc vs)) = sum_list vs / whole * C"
  by (induction vs arbitrary: acc) (auto simp: add_divide_distrib distrib_right)

lemma segments_starts:
  "i < length vs \<Longrightarrow> snd (segments C whole acc vs ! i) = acc + sum_list (take i vs) / whole * C"
proof (induction vs arbitrary: acc i)
  case (Cons v vs)
  then show ?case by (cases i) (auto simp: add_divide_distrib distrib_right)
qed simp

text \<open>The segments of the compact donut fill the ring: each begins where the one before ends, and
  together they are as long as the circle when there is anything to show.\<close>

theorem donut_ring_closed:
  assumes "0 < sum_list (compact_values p)"
  defines "segs \<equiv> segments (2 * pi * 42) (donut_total (compact_values p)) 0 (compact_values p)"
  shows "sum_list (map fst segs) = 2 * pi * 42 \<and>
    (\<forall>i. Suc i < length (compact_values p) \<longrightarrow> snd (segs ! Suc i) = snd (segs ! i) + fst (segs ! i))"
proof
  have t: "donut_total (compact_values p) = sum_list (compact_values p)" using assms(1) by (simp add: donut_total_def)
  show "sum_list (map fst segs) = 2 * pi * 42"
    unfolding segs_def t segments_sum using assms(1) by simp
  have f: "fst (segments C whole acc vs ! i) = vs ! i / whole * C" if "i < length vs" for C whole acc vs i
    using that
  proof (induction vs arbitrary: acc i)
    case (Cons v vs)
    then show ?case by (cases i) auto
  qed simp
  show "\<forall>i. Suc i < length (compact_values p) \<longrightarrow> snd (segs ! Suc i) = snd (segs ! i) + fst (segs ! i)"
    unfolding segs_def by (auto simp: segments_starts f take_Suc_conv_app_nth add_divide_distrib distrib_right)
qed

lemma bars_tip_on_bar: "bars_tip str p h = Some (pos, shift, s) \<Longrightarrow> 0 < pos \<and> pos < 100 \<and> 12 \<le> shift \<and> shift \<le> 88"
proof -
  assume a: "bars_tip str p h = Some (pos, shift, s)"
  then obtain i where i: "i < length (spark_values p)" "pos = (real i + 0.5) / real (length (spark_values p)) * 100"
    "shift = clamp_to pos 12 88"
    by (auto simp: bars_tip_def Let_def split: option.splits if_splits)
  define n where "n = real (length (spark_values p))"
  have n: "0 < n" "real i + 1 \<le> n" using i(1) by (auto simp: n_def)
  define q where "q = (real i + 0.5) / n"
  have "0 < q" "q < 1" unfolding q_def using n by (auto simp: divide_less_eq)
  moreover have "pos = q * 100" unfolding q_def n_def by (rule i(2))
  ultimately show ?thesis using i(3) clamp_to_bounds [of 12 88 pos] by simp
qed

end
