(* ===== verification/Shell_Context.thy ===== *)
theory Shell_Context
  imports Terminal_Window Ui_Text
begin

text \<open>
  What a page may ask of the shell around it (\<open>src/web/components/shell/context.tsx\<close>): the dialogs,
  toasts, questions and terminal sessions, as the data that name them. An action a page or a menu
  runs is one of \<open>shell_action\<close>.
\<close>

datatype dialog_state =
  Dialog_host "id_t option" "host_input option"
| Dialog_apiKey
| Dialog_pull "id_t option" "string option"
| Dialog_compose id_t "string option"
| Dialog_github
| Dialog_monitor "id_t option"
| Dialog_network id_t
| Dialog_attachNetwork id_t string string
| Dialog_channel "string option"
| Dialog_customSsh

datatype notice_kind = Notice_ok | Notice_error | Notice_info | Notice_warn

record toast_input =
  ti_title :: string
  ti_text :: "string option"
  ti_kind :: "notice_kind option"
  ti_action :: "string option"
  ti_timeout :: "nat option"

record confirm_input =
  ci_title :: string
  ci_text :: string
  ci_confirmLabel :: string
  ci_danger :: bool
  ci_details :: "(string \<times> string) list"
  ci_typeToConfirm :: "string option"

datatype side_tab = Side_overview | Side_env | Side_mounts | Side_logs | Side_events

datatype shell_action =
  Go_to string
| Show_toast toast_input
| Show_dialog dialog_state
| Show_container id_t string "side_tab option"
| Show_terminal terminal_target
| Show_palette
| Show_shortcuts
| Show_notifications
| Toggle_theme
| Sign_out

end
