(* ===== verification/Command_Palette.thy ===== *)
theory Command_Palette
  imports Shell_Context Ui_Parts
begin

text \<open>
  The command palette (\<open>src/web/components/shell/CommandPalette.tsx\<close>): the commands it knows, how a
  query scores them, the groups it shows, and the list walked with the arrow keys. The code counts
  UTF-16 units, which \<open>units\<close> reads off the UTF-8 bytes; the query is ASCII.
\<close>

section \<open>Scoring\<close>

definition units :: "string \<Rightarrow> nat" where
  "units s = sum_list (map (\<lambda>c. if code c < 128 \<or> 192 \<le> code c \<and> code c < 240 then 1 else if 240 \<le> code c then 2 else 0) s)"

definition word_break :: "char \<Rightarrow> bool" where
  "word_break c \<longleftrightarrow> ws c \<or> c \<in> set ''-_/.:@''"

text \<open>\<open>t.indexOf(ch, from)\<close> as the distance from \<open>from\<close>.\<close>

fun next_char :: "char \<Rightarrow> string \<Rightarrow> nat option" where
  "next_char ch [] = None"
| "next_char ch (c # cs) = (if c = ch then Some 0 else map_option Suc (next_char ch cs))"

text \<open>Whether position \<open>i\<close> starts a word.\<close>

definition starts_word :: "string \<Rightarrow> nat \<Rightarrow> bool" where
  "starts_word t i \<longleftrightarrow> i = 0 \<or> word_break (t ! (i - 1))"

text \<open>The scan for a subsequence: \<open>ti\<close> is where the next search starts, \<open>run\<close> the length of the
  contiguous run, \<open>s\<close> the score so far.\<close>

fun subsequence_score :: "string \<Rightarrow> nat \<Rightarrow> nat \<Rightarrow> real \<Rightarrow> string \<Rightarrow> real" where
  "subsequence_score t ti run s [] = s"
| "subsequence_score t ti run s (ch # q) =
     (if ch = CHR '' '' then subsequence_score t ti run s q
      else case next_char ch (drop ti t) of
        None \<Rightarrow> -1
      | Some d \<Rightarrow>
          (let found = ti + d; run' = (if d = 0 then run + 1 else 0) in
           subsequence_score t (found + 1) run'
             (s + 10 + real run' * 5 + (if starts_word t found then 15 else 0) - min 8 (real (units (take d (drop ti t))))) q))"

definition score :: "string \<Rightarrow> string \<Rightarrow> real" where
  "score q text =
    (if q = [] then 0
     else let t = to_lower text in
       case index_of t q of
         Some i \<Rightarrow> 1000 - real (units (take i t)) * 2 - (real (units t) - real (units q)) * 0.1 +
           (if starts_word t i then 200 else 0)
       | None \<Rightarrow> subsequence_score t 0 0 0 q)"

section \<open>The commands\<close>

datatype item_group = Navigation | Hosts | Containers | Actions

record palette_item =
  it_id :: string
  it_group :: item_group
  it_label :: string
  it_sub :: "string option"
  it_keywords :: "string option"
  it_hint :: "string list"
  it_run :: shell_action
  it_searchOnly :: bool

definition GROUP_ORDER :: "item_group list" where
  "GROUP_ORDER = [Navigation, Hosts, Containers, Actions]"

fun GROUP_LIMIT :: "item_group \<Rightarrow> nat" where
  "GROUP_LIMIT Navigation = 8"
| "GROUP_LIMIT Hosts = 8"
| "GROUP_LIMIT Containers = 8"
| "GROUP_LIMIT Actions = 10"

definition palette_entry :: "string \<Rightarrow> item_group \<Rightarrow> string \<Rightarrow> string \<Rightarrow> string \<Rightarrow> string list \<Rightarrow> bool \<Rightarrow> shell_action \<Rightarrow> palette_item" where
  "palette_entry i g l sub kw hint only run =
    \<lparr>it_id = i, it_group = g, it_label = l, it_sub = (if sub = [] then None else Some sub),
     it_keywords = (if kw = [] then None else Some kw), it_hint = hint, it_run = run, it_searchOnly = only\<rparr>"

definition settings_label :: "string \<Rightarrow> string" where
  "settings_label s = ''Settings '' @ middot @ '' '' @ s"

definition navigation_items :: "palette_item list" where
  "navigation_items =
    [palette_entry ''nav-fleet'' Navigation ''Fleet'' ''All hosts at a glance'' '''' [''G'', ''F''] False (Go_to ''/''),
     palette_entry ''nav-deploy'' Navigation ''Deploy'' ''From GitHub or an image'' '''' [''G'', ''D''] False (Go_to ''/deploy''),
     palette_entry ''nav-resources'' Navigation ''All resources'' ''Containers, stacks, images, volumes and networks on every host''
       ''fleet everything containers images volumes networks stacks'' [''G'', ''R''] False (Go_to ''/resources''),
     palette_entry ''nav-machines'' Navigation ''Machines'' ''OS updates, hardening, services''
       ''os apt packages patch security ssh firewall systemd baseline'' [''G'', ''M''] False (Go_to ''/machines''),
     palette_entry ''nav-uptime'' Navigation ''Uptime'' ''Monitors and incidents'' '''' [''G'', ''U''] False (Go_to ''/uptime''),
     palette_entry ''nav-alerts'' Navigation ''Alerts'' '''' '''' [''G'', ''A''] False (Go_to ''/alerts''),
     palette_entry ''nav-settings'' Navigation ''Settings'' ''Hosts'' '''' [''G'', ''S''] False (Go_to ''/settings/hosts''),
     palette_entry ''nav-github'' Navigation (settings_label ''GitHub'') '''' ''git accounts repos'' [] True (Go_to ''/settings/github''),
     palette_entry ''nav-mcp'' Navigation (settings_label ''MCP'') '''' ''api keys claude ai'' [] True (Go_to ''/settings/mcp''),
     palette_entry ''nav-notif'' Navigation (settings_label ''Notifications'') '''' ''channels email slack ntfy webhook'' [] True
       (Go_to ''/settings/notifications''),
     palette_entry ''nav-registries'' Navigation (settings_label ''Registries'') ''''
       ''registry images push pull docker login credentials ghcr token'' [] True (Go_to ''/settings/registries''),
     palette_entry ''nav-activity'' Navigation ''Activity'' ''What Dockhand has done, and who asked''
       ''jobs history log deploys audit who'' [] True (Go_to ''/alerts?view=activity''),
     palette_entry ''nav-updates'' Navigation (settings_label ''Updates'') '''' ''self update version'' [] True (Go_to ''/settings/updates''),
     palette_entry ''nav-account'' Navigation (settings_label ''Account'') '''' ''password profile sessions'' [] True (Go_to ''/settings/account'')]"

fun status_text :: "host_status \<Rightarrow> string" where
  "status_text HS_online = ''online''"
| "status_text HS_degraded = ''degraded''"
| "status_text HS_offline = ''offline''"
| "status_text HS_pending = ''pending''"

definition host_items :: "host \<Rightarrow> palette_item list" where
  "host_items h =
    [palette_entry (''host-'' @ h_id h) Hosts (h_name h)
       (h_address h @ (if h_os h = [] then [] else '' '' @ middot @ '' '' @ h_os h)) (status_text (h_status h)) [] False
       (Go_to (''/hosts/'' @ h_id h)),
     palette_entry (''os-'' @ h_id h) Hosts (''OS & security on '' @ h_name h) ''updates, hardening, services''
       ''apt patch machine kernel firewall'' [] True (Go_to (''/hosts/'' @ h_id h @ ''?tab=os'')),
     palette_entry (''ssh-'' @ h_id h) Hosts (''Open SSH on '' @ h_name h) (h_user h @ ''@'' @ h_address h)
       ''shell terminal ssh console'' [] True (Show_terminal (T_shell (h_id h)))]"

text \<open>The name of a container's host; the code builds a map, so a later host of the same id wins.\<close>

definition host_name :: "host list \<Rightarrow> id_t \<Rightarrow> string" where
  "host_name hosts i = (case find (\<lambda>h. h_id h = i) (rev hosts) of Some h \<Rightarrow> h_name h | None \<Rightarrow> ''host'')"

definition container_item :: "host list \<Rightarrow> container \<Rightarrow> palette_item" where
  "container_item hosts c =
    palette_entry (''ctr-'' @ c_hostId c @ ''-'' @ c_id c) Containers (c_name c)
      (host_name hosts (c_hostId c) @ '' '' @ middot @ '' '' @ c_image c)
      (c_stack c @ '' '' @ c_service c @ '' '' @ c_shortId c) [] True (Show_container (c_hostId c) (c_id c) None)"

definition container_actions :: "host list \<Rightarrow> container \<Rightarrow> palette_item list" where
  "container_actions hosts c =
    (let place = host_name hosts (c_hostId c) in
     palette_entry (''logs-'' @ c_hostId c @ ''-'' @ c_id c) Actions (''Logs: '' @ c_name c) (''docker logs -f '' @ middot @ '' '' @ place)
       (''tail '' @ c_stack c @ '' '' @ c_service c) [] True (Show_terminal (T_logs (c_hostId c) (c_id c) (Some (c_name c)))) #
     (if c_state c = CS_running then
        [palette_entry (''exec-'' @ c_hostId c @ ''-'' @ c_id c) Actions (''Shell: '' @ c_name c) (''docker exec '' @ middot @ '' '' @ place)
           (''terminal exec sh '' @ c_stack c @ '' '' @ c_service c) [] True
           (Show_terminal (T_exec (c_hostId c) (c_id c) (Some (c_name c))))]
      else []))"

definition custom_ssh_item :: palette_item where
  "custom_ssh_item = palette_entry ''custom-ssh'' Actions (''Custom SSH'' @ ellipsis) ''Open a terminal to any address''
     ''ssh connect terminal remote server ip login'' [] False (Show_dialog Dialog_customSsh)"

definition action_items :: "palette_item list" where
  "action_items =
    [palette_entry ''act-host'' Actions ''Add host'' ''Connect a machine over SSH'' ''new server'' [] False (Show_dialog (Dialog_host None None)),
     palette_entry ''act-git'' Actions ''Deploy from GitHub'' '''' ''repo compose'' [] False (Go_to ''/deploy?mode=git''),
     palette_entry ''act-run'' Actions ''Run a container'' '''' ''image docker run'' [] False (Go_to ''/deploy?mode=image''),
     palette_entry ''act-pull'' Actions ''Pull image'' '''' ''docker pull'' [] False (Show_dialog (Dialog_pull None None)),
     palette_entry ''act-monitor'' Actions ''Add monitor'' '''' ''uptime http tcp check'' [] False (Show_dialog (Dialog_monitor None)),
     palette_entry ''act-theme'' Actions ''Toggle dark mode'' '''' ''theme light'' [''T''] False Toggle_theme,
     palette_entry ''act-keys'' Actions ''Keyboard shortcuts'' '''' '''' [''?''] False Show_shortcuts,
     palette_entry ''act-notif'' Actions ''Notifications'' '''' '''' [''N''] False Show_notifications]"

definition stack_item :: "host \<Rightarrow> palette_item" where
  "stack_item h = palette_entry (''stack-'' @ h_id h) Actions (''New stack on '' @ h_name h) '''' ''compose'' [] True
     (Show_dialog (Dialog_compose (h_id h) None))"

definition logout_item :: palette_item where
  "logout_item = palette_entry ''act-logout'' Actions ''Sign out'' '''' ''log out logout'' [] False Sign_out"

definition palette_items :: "host list \<Rightarrow> container list \<Rightarrow> palette_item list" where
  "palette_items hosts containers =
    navigation_items @ [custom_ssh_item] @ concat (map host_items hosts) @ map (container_item hosts) containers @
    concat (map (container_actions hosts) containers) @ action_items @ map stack_item hosts @ [logout_item]"

section \<open>Results\<close>

definition or_empty :: "string option \<Rightarrow> string" where
  "or_empty s = (case s of Some t \<Rightarrow> t | None \<Rightarrow> [])"

definition item_score :: "string \<Rightarrow> palette_item \<Rightarrow> real" where
  "item_score query it =
    (if query = [] then (if it_searchOnly it then -1 else 0)
     else max (score query (it_label it))
            (score query (it_label it @ '' '' @ or_empty (it_sub it) @ '' '' @ or_empty (it_keywords it)) * 0.6))"

definition scored :: "string \<Rightarrow> palette_item list \<Rightarrow> (palette_item \<times> real) list" where
  "scored query its =
    filter (\<lambda>x. 0 \<le> snd x \<and> (if query = [] then True else 0 < snd x)) (map (\<lambda>it. (it, item_score query it)) its)"

definition group_hits :: "string \<Rightarrow> (palette_item \<times> real) list \<Rightarrow> item_group \<Rightarrow> (palette_item \<times> real) list" where
  "group_hits query sc g =
    (let arr = filter (\<lambda>x. it_group (fst x) = g) sc;
         arr' = (if query = [] then arr else js_sort (\<lambda>a b. snd b - snd a) arr)
     in take (GROUP_LIMIT g) arr')"

definition best_hit :: "(palette_item \<times> real) list \<Rightarrow> real" where
  "best_hit hits = foldl max (snd (hd hits)) (map snd hits)"

definition result_groups :: "string \<Rightarrow> palette_item list \<Rightarrow> (item_group \<times> (palette_item \<times> real) list) list" where
  "result_groups q its =
    (let query = to_lower (trim q); sc = scored query its;
         groups = filter (\<lambda>g. snd g \<noteq> []) (map (\<lambda>g. (g, group_hits query sc g)) GROUP_ORDER)
     in if query = [] then groups else js_sort (\<lambda>a b. best_hit (snd b) - best_hit (snd a)) groups)"

definition flat :: "string \<Rightarrow> palette_item list \<Rightarrow> palette_item list" where
  "flat q its = concat (map (\<lambda>g. map fst (snd g)) (result_groups q its))"

section \<open>The list\<close>

record palette =
  pl_q :: string
  pl_active :: nat
  pl_open :: bool

datatype palette_event = Typed_query string | Palette_key string | Pointed nat | Clicked nat | Outside

definition run_item :: "palette_item option \<Rightarrow> palette \<Rightarrow> palette \<times> shell_action list" where
  "run_item it p = (case it of None \<Rightarrow> (p, []) | Some i \<Rightarrow> (p\<lparr>pl_open := False\<rparr>, [it_run i]))"

definition nth_item :: "palette_item list \<Rightarrow> nat \<Rightarrow> palette_item option" where
  "nth_item its i = (if i < length its then Some (its ! i) else None)"

definition palette_key :: "palette_item list \<Rightarrow> string \<Rightarrow> palette \<Rightarrow> palette \<times> shell_action list" where
  "palette_key its key p =
    (let fl = flat (pl_q p) its; n = length fl in
     if key = ''ArrowDown'' then (p\<lparr>pl_active := (if n = 0 then 0 else (pl_active p + 1) mod n)\<rparr>, [])
     else if key = ''ArrowUp'' then
       (p\<lparr>pl_active := (if n = 0 then 0 else nat ((int (pl_active p) - 1 + int n) mod int n))\<rparr>, [])
     else if key = ''Enter'' then run_item (nth_item fl (pl_active p)) p
     else if key = ''Escape'' then (p\<lparr>pl_open := False\<rparr>, [])
     else (p, []))"

fun palette_step :: "palette_item list \<Rightarrow> palette_event \<Rightarrow> palette \<Rightarrow> palette \<times> shell_action list" where
  "palette_step its (Typed_query q) p = (p\<lparr>pl_q := q, pl_active := (if q = pl_q p then pl_active p else 0)\<rparr>, [])"
| "palette_step its (Palette_key key) p = palette_key its key p"
| "palette_step its (Pointed i) p = (p\<lparr>pl_active := i\<rparr>, [])"
| "palette_step its (Clicked i) p = run_item (nth_item (flat (pl_q p) its) i) p"
| "palette_step its Outside p = (p\<lparr>pl_open := False\<rparr>, [])"

definition palette_start :: palette where
  "palette_start = \<lparr>pl_q = [], pl_active = 0, pl_open = True\<rparr>"

text \<open>The list as drawn: the groups with their entries, numbered through; the line at the foot.\<close>

fun group_text :: "item_group \<Rightarrow> string" where
  "group_text Navigation = ''Navigation''"
| "group_text Hosts = ''Hosts''"
| "group_text Containers = ''Containers''"
| "group_text Actions = ''Actions''"

definition palette_row :: "nat \<Rightarrow> palette_item \<Rightarrow> palette_event view" where
  "palette_row i it = Group
    [Button (it_label it) True (Clicked i), shown_opt (\<lambda>s. shown_if (s \<noteq> []) (Text s)) (it_sub it),
     Group (map Text (it_hint it))]"

fun palette_rows :: "nat \<Rightarrow> (item_group \<times> (palette_item \<times> real) list) list \<Rightarrow> palette_event view list" where
  "palette_rows i [] = []"
| "palette_rows i ((g, hits) # gs) =
     Group (Text (group_text g) # map (\<lambda>(j, x). palette_row j (fst x)) (enumerate i hits)) # palette_rows (i + length hits) gs"

definition palette_view :: "palette_item list \<Rightarrow> palette \<Rightarrow> palette_event view" where
  "palette_view its p =
    (let n = length (flat (pl_q p) its) in Group
       [Input (''Search hosts, containers, or run a command'' @ ellipsis) (pl_q p) Typed_query,
        shown_if (n = 0) (Group [Text ''No results for'', Text (pl_q p)]),
        Group (palette_rows 0 (result_groups (pl_q p) its)),
        Text (show_nat n @ '' result'' @ s_unless_1 (int n))])"

lemma offers_palette_rows:
  "concat (map offers (palette_rows i gs)) = map Clicked [i..<i + length (concat (map snd gs))]"
proof (induction i gs rule: palette_rows.induct)
  case (2 i g hits gs)
  have "concat (map (offers \<circ> (\<lambda>(j, x). palette_row j (fst x))) (enumerate i hits)) = map Clicked [i..<i + length hits]"
    by (induction hits arbitrary: i)
      (auto simp: palette_row_def shown_opt_def shown_if_def upt_conv_Cons comp_def split: option.splits simp del: upt_Suc)
  then show ?case using 2 by (simp add: add.assoc [symmetric] upt_add_eq_append [of i "i + length hits"] flip: map_append)
qed simp

text \<open>Every entry found is offered once, in the order the arrow keys walk them.\<close>

lemma palette_offers: "offers (palette_view its p) = map Clicked [0..<length (flat (pl_q p) its)]"
  by (simp add: palette_view_def Let_def offers_palette_rows flat_def length_concat comp_def)

section \<open>What a query finds\<close>

lemma next_char_Some: "next_char ch cs = Some d \<Longrightarrow> d < length cs \<and> cs ! d = ch \<and> ch \<notin> set (take d cs)"
proof (induction cs arbitrary: d)
  case (Cons c cs)
  then show ?case by (cases d) (auto split: if_splits)
qed simp

lemma next_char_None: "next_char ch cs = None \<longleftrightarrow> ch \<notin> set cs"
  by (induction cs) auto

lemma subseq_next_char:
  "subseq (ch # q) cs \<longleftrightarrow> (case next_char ch cs of None \<Rightarrow> False | Some d \<Rightarrow> subseq q (drop (Suc d) cs))"
proof (induction cs)
  case (Cons c cs)
  show ?case
  proof (cases "c = ch")
    case False
    then have "subseq (ch # q) (c # cs) \<longleftrightarrow> subseq (ch # q) cs" by simp
    with Cons False show ?thesis by (cases "next_char ch cs") auto
  qed simp
qed simp

abbreviation letters :: "string \<Rightarrow> string" where
  "letters q \<equiv> filter (\<lambda>c. c \<noteq> CHR '' '') q"

lemma subsequence_score_match:
  "0 \<le> s \<Longrightarrow>
    (if subseq (letters q) (drop ti t) then s + 2 * real (length (letters q)) \<le> subsequence_score t ti run s q
     else subsequence_score t ti run s q = -1)"
proof (induction q arbitrary: ti run s)
  case (Cons ch q)
  show ?case
  proof (cases "ch = CHR '' ''")
    case True
    then show ?thesis using Cons by simp
  next
    case False
    show ?thesis
    proof (cases "next_char ch (drop ti t)")
      case None
      then show ?thesis using False by (simp add: subseq_next_char)
    next
      case (Some d)
      define run' where "run' = (if d = 0 then run + 1 else 0)"
      define s' where "s' = s + 10 + real run' * 5 + (if starts_word t (ti + d) then 15 else 0) -
        min 8 (real (units (take d (drop ti t))))"
      have "min 8 (real (units (take d (drop ti t)))) \<le> 8" "0 \<le> real run'" by simp_all
      then have s': "s + 2 \<le> s'" unfolding s'_def by (cases "starts_word t (ti + d)") simp_all
      then have "0 \<le> s'" using Cons.prems by simp
      note IH = Cons.IH [OF this, of "ti + d + 1" run']
      have e: "subsequence_score t ti run s (ch # q) = subsequence_score t (ti + d + 1) run' s' q"
        using False Some by (simp add: Let_def run'_def s'_def)
      have "subseq (letters (ch # q)) (drop ti t) \<longleftrightarrow> subseq (letters q) (drop (ti + d + 1) t)"
        using False Some by (simp add: subseq_next_char add.commute add.left_commute)
      then show ?thesis using IH s' False unfolding e by (auto split: if_splits)
    qed
  qed
qed simp

lemma sublist_subseq: "sublist q t \<Longrightarrow> subseq q t"
  by (auto simp: sublist_def intro: list_emb_append2 list_emb_prefix)

lemma units_append [simp]: "units (s @ t) = units s + units t"
  by (simp add: units_def)

lemma units_take_le: "units (take i t) \<le> units t"
  by (metis append_take_drop_id le_add1 units_append)

text \<open>A query matches a text, of up to 470 units, exactly when its characters other than blanks
  appear in it in their order, in either case.\<close>

theorem query_matches:
  assumes "letters q \<noteq> []" "units (to_lower text) \<le> 470"
  shows "0 < score q text \<longleftrightarrow> subseq (letters q) (to_lower text)"
proof -
  let ?t = "to_lower text"
  have q: "q \<noteq> []" using assms(1) by auto
  show ?thesis
  proof (cases "index_of ?t q")
    case None
    then have e: "score q text = subsequence_score ?t 0 0 0 q" using q by (simp add: score_def Let_def)
    have "0 < length (letters q)" using assms(1) by simp
    then have "0 < 2 * real (length (letters q))" by simp
    then show ?thesis
      using subsequence_score_match [of 0 q 0 ?t 0] unfolding e by (cases "subseq (letters q) ?t") (simp_all del: length_greater_0_conv)
  next
    case (Some i)
    then have e: "score q text = 1000 - real (units (take i ?t)) * 2 - (real (units ?t) - real (units q)) * 0.1 +
        (if starts_word ?t i then 200 else 0)" using q by (simp add: score_def Let_def)
    have "real (units (take i ?t)) \<le> 470" "real (units ?t) \<le> 470"
      using units_take_le [of i ?t] assms(2) by linarith+
    then have "0 < score q text" unfolding e by (auto simp: field_simps)
    moreover have "sublist q ?t" using Some index_of_includes [of ?t q] by (simp add: includes_sublist)
    then have "subseq (letters q) ?t" by (meson sublist_subseq subseq_filter_left subseq_order.trans)
    ultimately show ?thesis by simp
  qed
qed

lemma query_matches_witness:
  "0 < score ''flt'' ''Fleet'' \<longleftrightarrow> subseq (letters ''flt'') (to_lower ''Fleet'')"
  by (rule query_matches) (simp, code_simp)

section \<open>What is listed\<close>

lemma desc_comparator: "comparator (\<lambda>a b. f b - f a :: real)"
  by unfold_locales auto

interpretation hits: comparator "\<lambda>a b :: palette_item \<times> real. snd b - snd a"
  by (rule desc_comparator)

interpretation groups: comparator "\<lambda>a b :: item_group \<times> (palette_item \<times> real) list. best_hit (snd b) - best_hit (snd a)"
  by (rule desc_comparator)

lemma foldl_max_ge: "a \<le> foldl max a xs" "x \<in> set xs \<Longrightarrow> x \<le> foldl max (a :: real) xs"
proof -
  have "a \<le> foldl max a xs \<and> (\<forall>x \<in> set xs. x \<le> foldl max a xs)"
  proof (induction xs arbitrary: a)
    case (Cons y ys)
    have "max a y \<le> foldl max (max a y) ys" using Cons.IH by blast
    then show ?case using Cons.IH [of "max a y"] by auto
  qed simp
  then show "a \<le> foldl max a xs" "x \<in> set xs \<Longrightarrow> x \<le> foldl max a xs" by blast+
qed

lemma foldl_max_desc: "sorted_wrt (\<lambda>a b. b \<le> a) (x # xs) \<Longrightarrow> foldl max x xs = (x :: real)"
  by (induction xs) (auto simp: max_def)

lemma group_hits_facts:
  assumes "h = group_hits query sc g"
  shows "set h \<subseteq> set sc" "x \<in> set h \<Longrightarrow> it_group (fst x) = g" "length h \<le> GROUP_LIMIT g"
    "query \<noteq> [] \<Longrightarrow> sorted_wrt (\<lambda>a b. snd b \<le> snd a) h"
proof -
  show "set h \<subseteq> set sc" "x \<in> set h \<Longrightarrow> it_group (fst x) = g"
    using set_take_subset [of "GROUP_LIMIT g"] unfolding assms group_hits_def Let_def by (fastforce split: if_splits)+
  show "length h \<le> GROUP_LIMIT g" unfolding assms group_hits_def Let_def by simp
  assume q: "query \<noteq> []"
  have "sorted_wrt (\<lambda>a b. snd b \<le> snd a) (js_sort (\<lambda>a b. snd b - snd a) xs)" for xs :: "(palette_item \<times> real) list"
    using hits.sorted_js_sort [of xs] by simp
  then show "sorted_wrt (\<lambda>a b. snd b \<le> snd a) h"
    using q unfolding assms group_hits_def Let_def by (simp add: sorted_wrt_take)
qed

lemma best_is_first: "h \<noteq> [] \<Longrightarrow> sorted_wrt (\<lambda>a b. snd b \<le> snd a) h \<Longrightarrow> best_hit h = snd (hd h)"
proof (cases h)
  case (Cons x xs)
  moreover assume "sorted_wrt (\<lambda>a b. snd b \<le> snd a) h"
  ultimately have "sorted_wrt (\<lambda>a b. b \<le> a) (snd x # map snd xs)" by (simp add: sorted_wrt_map)
  then show ?thesis using Cons foldl_max_desc [of "snd x" "snd x # map snd xs"] by (simp add: best_hit_def)
qed simp

lemma result_groups_from:
  "gh \<in> set (result_groups q its) \<Longrightarrow>
    snd gh \<noteq> [] \<and> snd gh = group_hits (to_lower (trim q)) (scored (to_lower (trim q)) its) (fst gh)"
  by (auto simp: result_groups_def Let_def split: if_splits)

text \<open>C37: A search lists matches only, the best first: every group is in falling order of its scores and
  within its limit, and nothing listed scores more than the very first entry.\<close>

theorem palette_best_first:
  assumes "trim q \<noteq> []" "(g, h) \<in> set (result_groups q its)" "x \<in> set h"
  shows "x \<in> set (scored (to_lower (trim q)) its) \<and> 0 < snd x \<and> it_group (fst x) = g \<and> length h \<le> GROUP_LIMIT g \<and>
    sorted_wrt (\<lambda>a b. snd b \<le> snd a) h \<and> snd x \<le> snd (hd (snd (hd (result_groups q its))))"
proof -
  let ?q = "to_lower (trim q)" and ?gs = "result_groups q its"
  have q: "?q \<noteq> []" using assms(1) by simp
  have "h = group_hits ?q (scored ?q its) g \<and> h \<noteq> []" using result_groups_from [OF assms(2)] by auto
  then have h: "h = group_hits ?q (scored ?q its) g" "h \<noteq> []" by blast+
  note f = group_hits_facts [OF h(1)]
  have sc: "x \<in> set (scored ?q its)" using f(1) assms(3) by blast
  have ne: "?gs \<noteq> []" using assms(2) by auto
  then have m: "hd ?gs \<in> set ?gs" by simp
  obtain g0 h0 where g0: "hd ?gs = (g0, h0)" by fastforce
  have "h0 = group_hits ?q (scored ?q its) g0 \<and> h0 \<noteq> []" using result_groups_from [OF m] g0 by auto
  then have h0: "h0 = group_hits ?q (scored ?q its) g0" "h0 \<noteq> []" by blast+
  have "best_hit h \<le> best_hit h0"
  proof -
    let ?groups = "filter (\<lambda>g. snd g \<noteq> []) (map (\<lambda>g. (g, group_hits ?q (scored ?q its) g)) GROUP_ORDER)"
    have e: "?gs = js_sort (\<lambda>a b. best_hit (snd b) - best_hit (snd a)) ?groups"
      using q by (simp add: result_groups_def Let_def)
    have "(g, h) \<in> set ?groups" using assms(2) unfolding e by simp
    from groups.hd_js_sort_least [OF this] show ?thesis unfolding e [symmetric] g0 by simp
  qed
  moreover have "best_hit h0 = snd (hd h0)" using h0 group_hits_facts(4) [OF h0(1) q] by (intro best_is_first)
  moreover have "snd x \<le> best_hit h" using assms(3) foldl_max_ge(2) [of "snd x" "map snd h"] by (simp add: best_hit_def)
  ultimately show ?thesis
    using sc f(2) [OF assms(3)] f(3) f(4) [OF q] q by (simp add: g0) (simp add: scored_def)
qed

definition sample_item :: palette_item where
  "sample_item = palette_entry ''nav-fleet'' Navigation ''Fleet'' '''' '''' [''G'', ''F''] False (Go_to ''/'')"

lemma sample_score: "item_score ''fleet'' sample_item = 1200"
proof -
  have l: "to_lower ''Fleet'' = ''fleet''" "to_lower ''Fleet  '' = ''fleet  ''" by code_simp+
  have u: "units ''fleet'' = 5" "units ''fleet  '' = 7" "units [] = 0" by code_simp+
  show ?thesis
    by (simp add: item_score_def sample_item_def palette_entry_def or_empty_def score_def Let_def l u starts_word_def)
qed

lemma palette_best_first_witness:
  "(sample_item, 1200) \<in> set (scored (to_lower (trim ''fleet'')) [sample_item]) \<and> (0 :: real) < snd (sample_item, 1200) \<and>
    it_group (fst (sample_item, 1200 :: real)) = Navigation \<and>
    length [(sample_item, 1200 :: real)] \<le> GROUP_LIMIT Navigation \<and>
    sorted_wrt (\<lambda>a b. snd b \<le> snd a) [(sample_item, 1200 :: real)] \<and>
    snd (sample_item, 1200) \<le> snd (hd (snd (hd (result_groups ''fleet'' [sample_item]))))"
proof (rule palette_best_first)
  have t: "trim ''fleet'' = ''fleet''" "to_lower ''fleet'' = ''fleet''" by code_simp+
  then show "trim ''fleet'' \<noteq> []" by simp
  have g: "it_group sample_item = Navigation" by (simp add: sample_item_def palette_entry_def)
  show "(Navigation, [(sample_item, 1200)]) \<in> set (result_groups ''fleet'' [sample_item])"
    by (simp add: result_groups_def Let_def t scored_def sample_score group_hits_def GROUP_ORDER_def g)
qed simp

text \<open>An action that leaves the palette is the one of an entry it lists, and closes it.\<close>

lemma palette_runs_listed:
  assumes "palette_step its e p = (p', [a])"
  shows "(\<exists>it \<in> set (flat (pl_q p) its). it_run it = a) \<and> \<not> pl_open p'"
proof -
  have r: "(\<exists>it \<in> set fl. it_run it = a) \<and> \<not> pl_open p'" if "run_item (nth_item fl i) p = (p', [a])" for fl i
    using that by (auto simp: run_item_def nth_item_def split: if_splits)
  show ?thesis using assms by (cases e) (auto simp: palette_key_def Let_def dest: r split: if_splits)
qed

end
