(* ===== verification/Shortcuts.thy ===== *)
theory Shortcuts
  imports Command_Palette
begin

text \<open>
  The global keyboard shortcuts (\<open>src/web/components/shell/Shortcuts.tsx\<close>): which keys are left to
  the element that has the focus, the two-key sequences that start with G, and the help dialog.
\<close>

record element =
  el_tag :: string
  el_contentEditable :: bool
  el_in_xterm :: bool
  el_in_editable :: bool

definition isTyping :: "element option \<Rightarrow> bool" where
  "isTyping t = (case t of
     None \<Rightarrow> False
   | Some el \<Rightarrow>
       if el_tag el = [] then False
       else if el_tag el = ''INPUT'' \<or> el_tag el = ''TEXTAREA'' \<or> el_tag el = ''SELECT'' then True
       else if el_contentEditable el then True
       else el_in_xterm el \<or> el_in_editable el)"

record shortcut_event =
  se_key :: string
  se_meta :: bool
  se_ctrl :: bool
  se_alt :: bool
  se_shift :: bool
  se_prevented :: bool
  se_target :: "element option"

record keys_state =
  ks_paletteOpen :: bool
  ks_keysOpen :: bool
  ks_blocked :: bool
  ks_gAt :: int

datatype shortcut_action = Set_palette bool | Set_keys bool | Push string | Open_notifications | Switch_theme

definition destinations :: "(string \<times> string) list" where
  "destinations = [(''f'', ''/''), (''r'', ''/resources''), (''m'', ''/machines''), (''d'', ''/deploy''), (''u'', ''/uptime''),
     (''a'', ''/alerts''), (''s'', ''/settings/hosts'')]"

text \<open>A key on its own, after the sequences: the action, and the new time of the last G.\<close>

definition single_key :: "int \<Rightarrow> shortcut_event \<Rightarrow> int \<Rightarrow> int \<times> shortcut_action list" where
  "single_key now e gAt =
    (let k = se_key e; lower = to_lower k in
     if k = ''?'' then (gAt, [Set_keys True])
     else if k = ''/'' then (gAt, [Set_palette True])
     else if lower = ''g'' \<and> \<not> se_shift e then (now, [])
     else if lower = ''n'' \<and> \<not> se_shift e then (gAt, [Open_notifications])
     else if lower = ''t'' \<and> \<not> se_shift e then (gAt, [Switch_theme])
     else (gAt, []))"

definition plain_key :: "int \<Rightarrow> shortcut_event \<Rightarrow> int \<Rightarrow> int \<times> shortcut_action list" where
  "plain_key now e gAt =
    (if gAt \<noteq> 0 \<and> now - gAt < 1200 then
       (case map_of destinations (to_lower (se_key e)) of
          Some href \<Rightarrow> (0, [Push href])
        | None \<Rightarrow> single_key now e 0)
     else single_key now e gAt)"

definition on_shortcut :: "int \<Rightarrow> shortcut_event \<Rightarrow> keys_state \<Rightarrow> keys_state \<times> shortcut_action list" where
  "on_shortcut now e st =
    (let k = se_key e in
     if se_prevented e then (st, [])
     else if (se_meta e \<or> se_ctrl e) \<and> \<not> se_alt e \<and> \<not> se_shift e \<and> to_lower k = ''k'' then
       (if ks_blocked st then (st, [])
        else if (case se_target e of Some el \<Rightarrow> el_in_xterm el | None \<Rightarrow> False) then (st, [])
        else (st, [Set_palette (\<not> ks_paletteOpen st)]))
     else if se_meta e \<or> se_ctrl e \<or> se_alt e then (st, [])
     else if ks_blocked st \<or> ks_paletteOpen st \<or> isTyping (se_target e) then (st, [])
     else if ks_keysOpen st then (st, if k = ''?'' then [Set_keys False] else [])
     else (case plain_key now e (ks_gAt st) of (g, acts) \<Rightarrow> (st\<lparr>ks_gAt := g\<rparr>, acts)))"

section \<open>The help dialog\<close>

record help_entry =
  he_keys :: "string list"
  he_label :: string

definition help_row :: "string list \<Rightarrow> string \<Rightarrow> help_entry" where
  "help_row ks l = \<lparr>he_keys = ks, he_label = l\<rparr>"

definition GENERAL_KEYS :: "help_entry list" where
  "GENERAL_KEYS =
    [help_row [''mod'', ''K''] ''Search or run a command'', help_row [''/''] ''Open search'', help_row [''?''] ''Show keyboard shortcuts'',
     help_row [''N''] ''Notifications'', help_row [''T''] ''Toggle dark mode'', help_row [''Esc''] ''Close panel or dialog'']"

definition GO_TO_KEYS :: "help_entry list" where
  "GO_TO_KEYS =
    [help_row [''G'', ''F''] ''Fleet'', help_row [''G'', ''D''] ''Deploy'', help_row [''G'', ''R''] ''Resources'',
     help_row [''G'', ''M''] ''Machines'', help_row [''G'', ''U''] ''Uptime'', help_row [''G'', ''A''] ''Alerts'',
     help_row [''G'', ''S''] ''Settings'']"

definition TERMINAL_KEYS :: "help_entry list" where
  "TERMINAL_KEYS =
    [help_row [''mod'', ''K''] ''Open SSH / logs from search'', help_row [''Esc''] ''Close (outside a shell)'',
     help_row [''2'' @ times_sign, ''title bar''] ''Maximise / restore'', help_row [''middle-click''] ''Close a tab'']"

text \<open>The chips of an entry: \<open>mod\<close> is the platform's key, and a sequence reads "G then F".\<close>

fun then_chips :: "string list \<Rightarrow> bool \<Rightarrow> string list" where
  "then_chips [] s = []"
| "then_chips [k] s = [k]"
| "then_chips (k # l # ks) s = k # (if s then [''then''] else []) @ then_chips (l # ks) s"

definition key_chips :: "string \<Rightarrow> help_entry \<Rightarrow> string list" where
  "key_chips mod_key he =
    map (\<lambda>k. if k = ''mod'' then mod_key else k) (then_chips (he_keys he) (hd (he_keys he) = ''G''))"

section \<open>What the keys do\<close>

definition plain_event :: "string \<Rightarrow> shortcut_event" where
  "plain_event k = \<lparr>se_key = k, se_meta = False, se_ctrl = False, se_alt = False, se_shift = False, se_prevented = False,
     se_target = None\<rparr>"

definition idle :: keys_state where
  "idle = \<lparr>ks_paletteOpen = False, ks_keysOpen = False, ks_blocked = False, ks_gAt = 0\<rparr>"

text \<open>The keys of a hint pressed one after the other, \<open>gap\<close> milliseconds apart.\<close>

fun press_keys :: "int \<Rightarrow> int \<Rightarrow> string list \<Rightarrow> keys_state \<Rightarrow> shortcut_action list" where
  "press_keys now gap [] st = []"
| "press_keys now gap (k # ks) st =
     (case on_shortcut now (plain_event (to_lower k)) st of (st', acts) \<Rightarrow> acts @ press_keys (now + gap) gap ks st')"

text \<open>The shortcut that does what an entry of the palette does.\<close>

fun same_action :: "shell_action \<Rightarrow> shortcut_action \<Rightarrow> bool" where
  "same_action (Go_to h) (Push h') \<longleftrightarrow> h = h'"
| "same_action Toggle_theme Switch_theme \<longleftrightarrow> True"
| "same_action Show_shortcuts (Set_keys b) \<longleftrightarrow> b"
| "same_action Show_palette (Set_palette b) \<longleftrightarrow> b"
| "same_action Show_notifications Open_notifications \<longleftrightarrow> True"
| "same_action _ _ \<longleftrightarrow> False"

definition hint_true :: "int \<Rightarrow> int \<Rightarrow> palette_item \<Rightarrow> bool" where
  "hint_true now gap it \<longleftrightarrow>
    (case it_hint it of [] \<Rightarrow> True
     | h \<Rightarrow> (case press_keys now gap h idle of [a] \<Rightarrow> same_action (it_run it) a | _ \<Rightarrow> False))"

lemma lower_literals:
  "to_lower ''G'' = ''g''" "to_lower ''F'' = ''f''" "to_lower ''D'' = ''d''" "to_lower ''R'' = ''r''" "to_lower ''M'' = ''m''"
  "to_lower ''U'' = ''u''" "to_lower ''A'' = ''a''" "to_lower ''S'' = ''s''" "to_lower ''N'' = ''n''" "to_lower ''T'' = ''t''"
  "to_lower ''?'' = ''?''" "to_lower ''/'' = ''/''"
  "to_lower ''g'' = ''g''" "to_lower ''f'' = ''f''" "to_lower ''d'' = ''d''" "to_lower ''r'' = ''r''" "to_lower ''m'' = ''m''"
  "to_lower ''u'' = ''u''" "to_lower ''a'' = ''a''" "to_lower ''s'' = ''s''" "to_lower ''n'' = ''n''" "to_lower ''t'' = ''t''"
  by code_simp+

lemmas key_eval = on_shortcut_def plain_key_def single_key_def plain_event_def idle_def isTyping_def destinations_def
  lower_literals Let_def

text \<open>G and a letter, pressed within 1.2 seconds, go to the letter's page; later the letter is on its own.\<close>

lemma go_sequence:
  "0 < now \<Longrightarrow> gap < 1200 \<Longrightarrow> map_of destinations (to_lower (to_lower k)) = Some href \<Longrightarrow>
    press_keys now gap [''G'', k] idle = [Push href]"
  by (auto simp: key_eval)

text \<open>While a dialog blocks the page, the palette is open or the user types, no key on its own does
  anything; a shortcut at all needs a key nobody has handled.\<close>

theorem shortcuts_keep_quiet:
  assumes "ks_blocked st \<or> ks_paletteOpen st \<or> isTyping (se_target e)"
  shows "snd (on_shortcut now e st) = [] \<or>
    \<not> ks_blocked st \<and> (se_meta e \<or> se_ctrl e) \<and> to_lower (se_key e) = ''k'' \<and>
      snd (on_shortcut now e st) = [Set_palette (\<not> ks_paletteOpen st)]"
  using assms by (auto simp: on_shortcut_def Let_def split: if_splits prod.splits)

definition sample_typing :: shortcut_event where
  "sample_typing = (plain_event ''n'')\<lparr>se_target := Some \<lparr>el_tag = ''INPUT'', el_contentEditable = False,
     el_in_xterm = False, el_in_editable = False\<rparr>\<rparr>"

lemma shortcuts_keep_quiet_witness:
  "snd (on_shortcut 5 sample_typing idle) = [] \<or>
    \<not> ks_blocked idle \<and> (se_meta sample_typing \<or> se_ctrl sample_typing) \<and> to_lower (se_key sample_typing) = ''k'' \<and>
      snd (on_shortcut 5 sample_typing idle) = [Set_palette (\<not> ks_paletteOpen idle)]"
  by (rule shortcuts_keep_quiet) (simp add: isTyping_def sample_typing_def)

end
