(* ===== verification/App_Theme.thy ===== *)
theory App_Theme
  imports Api_Core Chart_Root
begin

text \<open>
  The colour theme (\<open>src/web/lib/theme.ts\<close>): what \<open>localStorage\<close> holds, whether a theme is dark, and
  what applying it does to the document. \<open>ok\<close> says whether the browser lets the page use its storage.
\<close>

fun theme_text :: "theme \<Rightarrow> string" where
  "theme_text Theme_light = ''light''"
| "theme_text Theme_dark = ''dark''"
| "theme_text Theme_system = ''system''"

record document =
  doc_store :: "string option"
  doc_dark :: bool
  doc_attr :: "string option"
  doc_meta :: "string option"

definition storedTheme :: "bool \<Rightarrow> document \<Rightarrow> string" where
  "storedTheme ok d = (if ok then (case doc_store d of Some t \<Rightarrow> if t = [] then ''system'' else t | None \<Rightarrow> ''system'') else ''system'')"

definition isDark :: "string \<Rightarrow> bool \<Rightarrow> bool" where
  "isDark t prefers_dark \<longleftrightarrow> t = ''dark'' \<or> t = ''system'' \<and> prefers_dark"

text \<open>The colour of the browser's own frame is a \<open>meta\<close> element the page may have.\<close>

definition applyTheme :: "bool \<Rightarrow> bool \<Rightarrow> string \<Rightarrow> document \<Rightarrow> document" where
  "applyTheme ok prefers_dark t d =
    (let dark = isDark t prefers_dark in
     d\<lparr>doc_store := (if ok then Some t else doc_store d), doc_dark := dark,
       doc_attr := Some (if dark then ''dark'' else ''light''),
       doc_meta := map_option (\<lambda>_. if dark then ''#0d1016'' else ''#eef0f5'') (doc_meta d)\<rparr>)"

lemma doc_dark_applyTheme [simp]: "doc_dark (applyTheme ok p t d) = isDark t p"
  by (simp add: applyTheme_def Let_def)

lemma stored_after_apply: "storedTheme True (applyTheme True p (theme_text t) d) = theme_text t"
  by (cases t) (simp_all add: storedTheme_def applyTheme_def Let_def)

text \<open>The charts read the attribute the shell writes: they are dark exactly when the page is.\<close>

lemma charts_follow_theme: "useResolvedMode Auto_mode (doc_attr (applyTheme ok p t d)) q = doc_dark (applyTheme ok p t d)"
  by (simp add: useResolvedMode_def readMode_def applyTheme_def Let_def)

end
