(* ===== verification/App_Shell.thy ===== *)
theory App_Shell
  imports Shortcuts App_Theme Ui_Parts
begin

text \<open>
  The shell around every page (\<open>src/web/components/shell/AppShell.tsx\<close>): toasts with their timers,
  the question on the screen and the promise behind it, dialogs and drawers, the requests to the
  terminal window, the theme and the keyboard, as one state machine.
\<close>

section \<open>State\<close>

record toast_item =
  tt_id :: nat
  tt_input :: toast_input

text \<open>A question is numbered by its promise; \<open>sh_answers\<close> lists the promises resolved so far and
  \<open>sh_timers\<close> the toasts a timer will take away.\<close>

record shell =
  sh_user :: user
  sh_theme :: theme
  sh_doc :: document
  sh_toasts :: "toast_item list"
  sh_toastId :: nat
  sh_timers :: "(nat \<times> nat) list"
  sh_confirm :: "(nat \<times> confirm_input) option"
  sh_asked :: nat
  sh_answers :: "(nat \<times> bool) list"
  sh_dialog :: "dialog_state option"
  sh_side :: "(id_t \<times> string \<times> side_tab option) option"
  sh_paletteOpen :: bool
  sh_keysOpen :: bool
  sh_notifOpen :: bool
  sh_termReqs :: "(terminal_target \<times> nat) list"
  sh_termSeq :: nat
  sh_gAt :: int
  sh_pushed :: "string list"

record browser =
  br_storage :: bool
  br_prefers_dark :: bool

datatype shell_event =
  Act shell_action
| Ask confirm_input
| Answer bool
| Toast_timer nat
| Toast_dismiss nat
| Close_dialog
| Close_container
| Close_terminals
| Close_notifications
| Close_palette
| Close_shortcuts
| Set_theme theme
| Account_saved user
| System_scheme
| Key_pressed int shortcut_event

section \<open>Operations\<close>

definition toast_timeout :: "toast_input \<Rightarrow> nat" where
  "toast_timeout t = (case ti_timeout t of Some n \<Rightarrow> n
     | None \<Rightarrow> if ti_kind t = Some Notice_error then 7000 else 4500)"

definition add_toast :: "toast_input \<Rightarrow> shell \<Rightarrow> shell" where
  "add_toast t s =
    (let i = Suc (sh_toastId s); timeout = toast_timeout t in
     s\<lparr>sh_toastId := i, sh_toasts := last_n 3 (sh_toasts s) @ [\<lparr>tt_id = i, tt_input = t\<rparr>],
       sh_timers := (if timeout > 0 then sh_timers s @ [(i, timeout)] else sh_timers s)\<rparr>)"

definition drop_toast :: "nat \<Rightarrow> shell \<Rightarrow> shell" where
  "drop_toast i s = s\<lparr>sh_toasts := filter (\<lambda>t. tt_id t \<noteq> i) (sh_toasts s)\<rparr>"

definition ask :: "confirm_input \<Rightarrow> shell \<Rightarrow> shell" where
  "ask c s = s\<lparr>sh_confirm := Some (Suc (sh_asked s), c), sh_asked := Suc (sh_asked s)\<rparr>"

definition answer :: "bool \<Rightarrow> shell \<Rightarrow> shell" where
  "answer v s = (case sh_confirm s of
     None \<Rightarrow> s
   | Some (n, c) \<Rightarrow> s\<lparr>sh_answers := sh_answers s @ [(n, v)], sh_confirm := None\<rparr>)"

definition setTheme :: "browser \<Rightarrow> theme \<Rightarrow> shell \<Rightarrow> shell" where
  "setTheme b t s = s\<lparr>sh_theme := t, sh_doc := applyTheme (br_storage b) (br_prefers_dark b) (theme_text t) (sh_doc s)\<rparr>"

definition toggleTheme :: "browser \<Rightarrow> shell \<Rightarrow> shell" where
  "toggleTheme b s =
    setTheme b (if isDark (theme_text (sh_theme s)) (br_prefers_dark b) then Theme_light else Theme_dark) s"

definition openTerminal :: "terminal_target \<Rightarrow> shell \<Rightarrow> shell" where
  "openTerminal t s = s\<lparr>sh_termSeq := Suc (sh_termSeq s), sh_termReqs := sh_termReqs s @ [(t, Suc (sh_termSeq s))]\<rparr>"

definition push_path :: "string \<Rightarrow> shell \<Rightarrow> shell" where
  "push_path href s = s\<lparr>sh_pushed := sh_pushed s @ [href]\<rparr>"

text \<open>What a page or a menu asks of the shell. Signing out leaves the page, so nothing of it is kept.\<close>

fun run_action :: "browser \<Rightarrow> shell_action \<Rightarrow> shell \<Rightarrow> shell" where
  "run_action b (Go_to href) s = push_path href s"
| "run_action b (Show_toast t) s = add_toast t s"
| "run_action b (Show_dialog d) s = s\<lparr>sh_dialog := Some d\<rparr>"
| "run_action b (Show_container h c tab) s = s\<lparr>sh_side := Some (h, c, tab)\<rparr>"
| "run_action b (Show_terminal t) s = openTerminal t s"
| "run_action b Show_palette s = s\<lparr>sh_paletteOpen := True\<rparr>"
| "run_action b Show_shortcuts s = s\<lparr>sh_keysOpen := True\<rparr>"
| "run_action b Show_notifications s = s\<lparr>sh_notifOpen := True\<rparr>"
| "run_action b Toggle_theme s = toggleTheme b s"
| "run_action b Sign_out s = s"

definition keys_of :: "shell \<Rightarrow> keys_state" where
  "keys_of s = \<lparr>ks_paletteOpen = sh_paletteOpen s, ks_keysOpen = sh_keysOpen s,
     ks_blocked = (sh_dialog s \<noteq> None \<or> sh_confirm s \<noteq> None), ks_gAt = sh_gAt s\<rparr>"

fun key_effect :: "browser \<Rightarrow> shortcut_action \<Rightarrow> shell \<Rightarrow> shell" where
  "key_effect b (Set_palette v) s = s\<lparr>sh_paletteOpen := v\<rparr>"
| "key_effect b (Set_keys v) s = s\<lparr>sh_keysOpen := v\<rparr>"
| "key_effect b (Push href) s = push_path href s"
| "key_effect b Open_notifications s = s\<lparr>sh_notifOpen := True\<rparr>"
| "key_effect b Switch_theme s = toggleTheme b s"

definition press :: "browser \<Rightarrow> int \<Rightarrow> shortcut_event \<Rightarrow> shell \<Rightarrow> shell" where
  "press b now e s = (case on_shortcut now e (keys_of s) of
     (k, acts) \<Rightarrow> fold (key_effect b) acts (s\<lparr>sh_gAt := ks_gAt k\<rparr>))"

fun shell_step :: "browser \<Rightarrow> shell_event \<Rightarrow> shell \<Rightarrow> shell" where
  "shell_step b (Act a) s = run_action b a s"
| "shell_step b (Ask c) s = ask c s"
| "shell_step b (Answer v) s = answer v s"
| "shell_step b (Toast_timer i) s = (drop_toast i s)\<lparr>sh_timers := filter (\<lambda>t. fst t \<noteq> i) (sh_timers s)\<rparr>"
| "shell_step b (Toast_dismiss i) s = drop_toast i s"
| "shell_step b Close_dialog s = s\<lparr>sh_dialog := None\<rparr>"
| "shell_step b Close_container s = s\<lparr>sh_side := None\<rparr>"
| "shell_step b Close_terminals s = s\<lparr>sh_termReqs := []\<rparr>"
| "shell_step b Close_notifications s = s\<lparr>sh_notifOpen := False\<rparr>"
| "shell_step b Close_palette s = s\<lparr>sh_paletteOpen := False\<rparr>"
| "shell_step b Close_shortcuts s = s\<lparr>sh_keysOpen := False\<rparr>"
| "shell_step b (Set_theme t) s = setTheme b t s"
| "shell_step b (Account_saved u) s = s\<lparr>sh_user := u\<rparr>"
| "shell_step b System_scheme s =
     (if storedTheme (br_storage b) (sh_doc s) = ''system''
      then s\<lparr>sh_doc := applyTheme (br_storage b) (br_prefers_dark b) ''system'' (sh_doc s)\<rparr> else s)"
| "shell_step b (Key_pressed now e) s = press b now e s"

text \<open>The shell as mounted: the theme saved with the account is applied.\<close>

definition shell_start :: "browser \<Rightarrow> user \<Rightarrow> document \<Rightarrow> shell" where
  "shell_start b u d =
    \<lparr>sh_user = u, sh_theme = u_theme u,
     sh_doc = applyTheme (br_storage b) (br_prefers_dark b) (theme_text (u_theme u)) d,
     sh_toasts = [], sh_toastId = 0, sh_timers = [], sh_confirm = None, sh_asked = 0, sh_answers = [], sh_dialog = None,
     sh_side = None, sh_paletteOpen = False, sh_keysOpen = False, sh_notifOpen = False, sh_termReqs = [], sh_termSeq = 0,
     sh_gAt = 0, sh_pushed = []\<rparr>"

text \<open>Any run of the shell; the preference of the system may change between two events.\<close>

inductive shell_run :: "shell \<Rightarrow> shell \<Rightarrow> bool" where
  shell_here: "shell_run s s"
| shell_next: "shell_run s t \<Longrightarrow> shell_run s (shell_step b e t)"

section \<open>What every run keeps\<close>

definition toasts_ok :: "toast_item list \<Rightarrow> nat \<Rightarrow> (nat \<times> nat) list \<Rightarrow> bool" where
  "toasts_ok ts n timers \<longleftrightarrow> length ts \<le> 4 \<and> sorted_wrt (\<lambda>t u. tt_id t < tt_id u) ts \<and>
    (\<forall>t \<in> set ts. tt_id t \<le> n \<and> (toast_timeout (tt_input t) = 0 \<or> tt_id t \<in> fst ` set timers))"

definition answers_ok :: "(nat \<times> bool) list \<Rightarrow> nat \<Rightarrow> (nat \<times> confirm_input) option \<Rightarrow> bool" where
  "answers_ok as n q \<longleftrightarrow> distinct (map fst as) \<and> (\<forall>a \<in> set as. fst a \<le> n) \<and>
    (\<forall>m c. q = Some (m, c) \<longrightarrow> m \<le> n \<and> m \<notin> fst ` set as)"

definition requests_ok :: "(terminal_target \<times> nat) list \<Rightarrow> nat \<Rightarrow> bool" where
  "requests_ok rs n \<longleftrightarrow> sorted_wrt (\<lambda>r q. snd r < snd q) rs \<and> (\<forall>r \<in> set rs. snd r \<le> n)"

definition shell_ok :: "shell \<Rightarrow> bool" where
  "shell_ok s \<longleftrightarrow> toasts_ok (sh_toasts s) (sh_toastId s) (sh_timers s) \<and>
    answers_ok (sh_answers s) (sh_asked s) (sh_confirm s) \<and> requests_ok (sh_termReqs s) (sh_termSeq s)"

lemmas shell_parts = toasts_ok_def answers_ok_def requests_ok_def

lemma shell_ok_start: "shell_ok (shell_start b u d)"
  by (simp add: shell_ok_def shell_parts shell_start_def)

text \<open>Whatever does not touch toasts, questions and requests keeps them as they are.\<close>

definition same_lists :: "shell \<Rightarrow> shell \<Rightarrow> bool" where
  "same_lists s t \<longleftrightarrow> sh_toasts s = sh_toasts t \<and> sh_toastId s = sh_toastId t \<and> sh_timers s = sh_timers t \<and>
    sh_confirm s = sh_confirm t \<and> sh_asked s = sh_asked t \<and> sh_answers s = sh_answers t \<and>
    sh_termReqs s = sh_termReqs t \<and> sh_termSeq s = sh_termSeq t"

lemma same_lists_refl [simp]: "same_lists s s"
  by (simp add: same_lists_def)

lemma same_lists_trans: "same_lists s t \<Longrightarrow> same_lists t u \<Longrightarrow> same_lists s u"
  by (simp add: same_lists_def)

lemma same_lists_ok: "same_lists s t \<Longrightarrow> shell_ok t = shell_ok s"
  by (simp add: same_lists_def shell_ok_def)

lemma same_lists_theme: "same_lists s (setTheme b t s)" "same_lists s (toggleTheme b s)"
  by (simp_all add: same_lists_def setTheme_def toggleTheme_def)

lemma same_lists_key: "same_lists s (key_effect b a s)"
  by (cases a) (simp_all add: same_lists_theme, simp_all add: same_lists_def push_path_def)

lemma same_lists_keys: "same_lists s (fold (key_effect b) acts s)"
  by (induction acts arbitrary: s) (auto intro: same_lists_trans [OF same_lists_key])

lemma same_lists_press: "same_lists s (press b now e s)"
proof -
  have "same_lists s (s\<lparr>sh_gAt := g\<rparr>)" for g by (simp add: same_lists_def)
  then show ?thesis unfolding press_def by (auto split: prod.splits intro: same_lists_trans [OF _ same_lists_keys])
qed

lemma sorted_wrt_last_n: "sorted_wrt P xs \<Longrightarrow> sorted_wrt P (last_n n xs)"
  by (auto simp: last_n_def sorted_wrt_drop)

lemma toasts_ok_last: "toasts_ok ts n timers \<Longrightarrow> toasts_ok (last_n 3 ts) n timers"
  using set_last_n [of 3 ts] by (auto simp: toasts_ok_def sorted_wrt_last_n length_last_n)

lemma toasts_ok_snoc:
  assumes "toasts_ok ts n timers" "length ts \<le> 3"
  shows "toasts_ok (ts @ [\<lparr>tt_id = Suc n, tt_input = t\<rparr>]) (Suc n)
    (if 0 < toast_timeout t then timers @ [(Suc n, toast_timeout t)] else timers)"
  using assms by (auto simp: toasts_ok_def sorted_wrt_append less_Suc_eq_le le_SucI)

lemma shell_ok_toast: "shell_ok s \<Longrightarrow> shell_ok (add_toast t s)"
  using toasts_ok_snoc [OF toasts_ok_last] by (simp add: shell_ok_def add_toast_def Let_def length_last_n)

lemma toasts_ok_filter: "toasts_ok ts n timers \<Longrightarrow> toasts_ok (filter P ts) n timers"
  by (auto simp: toasts_ok_def sorted_wrt_filter intro: order_trans [OF length_filter_le])

lemma shell_ok_drop: "shell_ok s \<Longrightarrow> shell_ok (drop_toast i s)"
  by (simp add: shell_ok_def drop_toast_def toasts_ok_filter)

lemma timer_kept: "n \<in> fst ` set ts \<Longrightarrow> n \<noteq> i \<Longrightarrow> n \<in> fst ` set (filter (\<lambda>t. fst t \<noteq> i) ts)"
  by auto

lemma toasts_ok_fired:
  "toasts_ok ts n timers \<Longrightarrow> toasts_ok (filter (\<lambda>t. tt_id t \<noteq> i) ts) n (filter (\<lambda>t. fst t \<noteq> i) timers)"
proof -
  assume ok: "toasts_ok ts n timers"
  have "toast_timeout (tt_input t) = 0 \<or> tt_id t \<in> fst ` set (filter (\<lambda>t. fst t \<noteq> i) timers)"
    if "t \<in> set (filter (\<lambda>t. tt_id t \<noteq> i) ts)" for t
    using that ok timer_kept [of "tt_id t" timers i] unfolding toasts_ok_def set_filter by blast
  with toasts_ok_filter [OF ok, of "\<lambda>t. tt_id t \<noteq> i"] show ?thesis by (simp only: toasts_ok_def) blast
qed

lemma shell_ok_timer: "shell_ok s \<Longrightarrow> shell_ok (shell_step b (Toast_timer i) s)"
  by (simp add: shell_ok_def drop_toast_def toasts_ok_fired)

lemma shell_ok_ask: "shell_ok s \<Longrightarrow> shell_ok (ask c s)"
  by (fastforce simp: shell_ok_def answers_ok_def ask_def)

lemma shell_ok_answer: "shell_ok s \<Longrightarrow> shell_ok (answer v s)"
  by (auto simp: shell_ok_def answers_ok_def answer_def split: option.splits)

lemma shell_ok_terminal: "shell_ok s \<Longrightarrow> shell_ok (openTerminal t s)"
  by (auto simp: shell_ok_def requests_ok_def openTerminal_def sorted_wrt_append le_SucI)

lemma same_lists_act:
  "(case a of Show_toast t \<Rightarrow> False | Show_terminal t \<Rightarrow> False | _ \<Rightarrow> True) \<Longrightarrow> same_lists s (run_action b a s)"
  by (cases a) (simp_all add: same_lists_theme, simp_all add: same_lists_def push_path_def)

lemma shell_ok_act: "shell_ok s \<Longrightarrow> shell_ok (run_action b a s)"
  using same_lists_act [of a s b] by (cases a) (auto simp: shell_ok_toast shell_ok_terminal same_lists_ok)

lemma shell_ok_step: "shell_ok s \<Longrightarrow> shell_ok (shell_step b e s)"
proof (cases e)
  case (Key_pressed now k)
  assume "shell_ok s"
  then show ?thesis using Key_pressed by (simp add: same_lists_ok [OF same_lists_press])
next
  case (Toast_timer i)
  assume "shell_ok s"
  then show ?thesis using Toast_timer shell_ok_timer by simp
qed (simp_all add: shell_ok_act shell_ok_ask shell_ok_answer shell_ok_drop same_lists_ok [OF same_lists_theme(1)],
  simp_all add: shell_ok_def requests_ok_def)

lemma shell_ok_run: "shell_run s t \<Longrightarrow> shell_ok s \<Longrightarrow> shell_ok t"
  by (induction rule: shell_run.induct) (auto simp: shell_ok_step)

text \<open>C5: However the shell is used: at most four toasts are on the screen, each with its own number and,
  unless it is sticky, a timer that will take it away; a question is answered at most once and the
  one on the screen not yet; the requests to the terminal window are numbered in their order.\<close>

theorem shell_invariant:
  assumes "shell_run (shell_start b u d) s"
  shows "length (sh_toasts s) \<le> 4 \<and> distinct (map tt_id (sh_toasts s)) \<and>
    list_all (\<lambda>t. toast_timeout (tt_input t) = 0 \<or> tt_id t \<in> fst ` set (sh_timers s)) (sh_toasts s) \<and>
    distinct (map fst (sh_answers s)) \<and>
    (case sh_confirm s of Some (n, c) \<Rightarrow> n \<notin> fst ` set (sh_answers s) | None \<Rightarrow> True) \<and>
    sorted_wrt (\<lambda>r q. snd r < snd q) (sh_termReqs s)"
proof -
  have ok: "shell_ok s" using shell_ok_run [OF assms shell_ok_start] .
  have "sorted_wrt (<) (map tt_id (sh_toasts s))" using ok by (simp add: shell_ok_def toasts_ok_def sorted_wrt_map)
  then have "distinct (map tt_id (sh_toasts s))" by (simp add: strict_sorted_iff)
  with ok show ?thesis by (auto simp: shell_ok_def shell_parts list_all_iff split: option.splits prod.splits)
qed

definition sample_user :: user where
  "sample_user = \<lparr>u_id = ''u1'', u_name = ''Ada'', u_username = ''ada'', u_role = ''admin'', u_theme = Theme_system,
     u_createdAt = []\<rparr>"

definition sample_browser :: browser where
  "sample_browser = \<lparr>br_storage = True, br_prefers_dark = False\<rparr>"

definition sample_document :: document where
  "sample_document = \<lparr>doc_store = None, doc_dark = False, doc_attr = None, doc_meta = None\<rparr>"

definition sample_toast :: toast_input where
  "sample_toast = \<lparr>ti_title = ''Saved'', ti_text = None, ti_kind = None, ti_action = None, ti_timeout = None\<rparr>"

definition sample_shell :: shell where
  "sample_shell = shell_step sample_browser (Act (Show_toast sample_toast)) (shell_start sample_browser sample_user sample_document)"

lemma shell_invariant_witness:
  "length (sh_toasts sample_shell) \<le> 4 \<and> distinct (map tt_id (sh_toasts sample_shell)) \<and>
    list_all (\<lambda>t. toast_timeout (tt_input t) = 0 \<or> tt_id t \<in> fst ` set (sh_timers sample_shell)) (sh_toasts sample_shell) \<and>
    distinct (map fst (sh_answers sample_shell)) \<and>
    (case sh_confirm sample_shell of Some (n, c) \<Rightarrow> n \<notin> fst ` set (sh_answers sample_shell) | None \<Rightarrow> True) \<and>
    sorted_wrt (\<lambda>r q. snd r < snd q) (sh_termReqs sample_shell)"
  unfolding sample_shell_def by (rule shell_invariant, rule shell_next, rule shell_here)

text \<open>A toast is gone once its timer has fired, and does not come back.\<close>

lemma gone_once_fired: "\<forall>t \<in> set (sh_toasts (shell_step b (Toast_timer i) s)). tt_id t \<noteq> i"
  by (simp add: drop_toast_def)

section \<open>Questions\<close>

text \<open>A question that is neither on the screen nor answered stays so.\<close>

definition forgotten :: "nat \<Rightarrow> shell \<Rightarrow> bool" where
  "forgotten n s \<longleftrightarrow> n \<le> sh_asked s \<and> n \<notin> fst ` set (sh_answers s) \<and> (\<forall>c. sh_confirm s \<noteq> Some (n, c))"

lemma forgotten_same: "same_lists s t \<Longrightarrow> forgotten n t = forgotten n s"
  by (simp add: same_lists_def forgotten_def)

lemma forgotten_act: "forgotten n s \<Longrightarrow> forgotten n (run_action b a s)"
  using same_lists_act [of a s b]
  by (cases a) (auto simp: forgotten_same, auto simp: forgotten_def add_toast_def openTerminal_def Let_def)

lemma forgotten_step: "forgotten n s \<Longrightarrow> forgotten n (shell_step b e s)"
proof (cases e)
  case (Key_pressed now k)
  assume "forgotten n s"
  then show ?thesis using Key_pressed by (simp add: forgotten_same [OF same_lists_press])
next
  case (Answer v)
  assume "forgotten n s"
  then show ?thesis using Answer by (cases "sh_confirm s") (auto simp: forgotten_def answer_def)
qed (simp_all add: forgotten_act forgotten_same [OF same_lists_theme(1)],
  simp_all add: forgotten_def ask_def drop_toast_def)

lemma forgotten_run: "shell_run s t \<Longrightarrow> forgotten n s \<Longrightarrow> forgotten n t"
  by (induction rule: shell_run.induct) (auto simp: forgotten_step)

text \<open>A second question takes the place of the one on the screen, whose promise is then never
  resolved: who waits for it waits for ever.\<close>

theorem replaced_question_never_answered:
  assumes "shell_run (shell_start b u d) s" "sh_confirm s = Some (n, c)" "shell_run (shell_step b' (Ask c') s) t"
  shows "n \<notin> fst ` set (sh_answers t)"
proof -
  have "shell_ok s" using shell_ok_run [OF assms(1) shell_ok_start] .
  then have "forgotten n (shell_step b' (Ask c') s)"
    using assms(2) by (auto simp: shell_ok_def answers_ok_def forgotten_def ask_def)
  from forgotten_run [OF assms(3) this] show ?thesis by (simp add: forgotten_def)
qed

definition sample_question :: confirm_input where
  "sample_question = \<lparr>ci_title = ''Remove'', ci_text = ''Sure?'', ci_confirmLabel = ''Remove'', ci_danger = True, ci_details = [],
     ci_typeToConfirm = Some ''web''\<rparr>"

definition asked_once :: shell where
  "asked_once = shell_step sample_browser (Ask sample_question) (shell_start sample_browser sample_user sample_document)"

definition asked_twice :: shell where
  "asked_twice = shell_step sample_browser (Ask sample_question) asked_once"

lemma replaced_question_never_answered_witness:
  "(1 :: nat) \<notin> fst ` set (sh_answers (shell_step sample_browser (Answer True) asked_twice))"
proof (rule replaced_question_never_answered)
  show "shell_run (shell_start sample_browser sample_user sample_document) asked_once"
    unfolding asked_once_def by (rule shell_next, rule shell_here)
  show "sh_confirm asked_once = Some (1, sample_question)"
    by (simp add: asked_once_def ask_def shell_start_def)
  show "shell_run (shell_step sample_browser (Ask sample_question) asked_once)
      (shell_step sample_browser (Answer True) asked_twice)"
    unfolding asked_twice_def by (rule shell_next, rule shell_here)
qed

text \<open>The dialog of a question: what is typed, whether it was confirmed, and the events.\<close>

record confirm_dialog =
  cd_typed :: string
  cd_busy :: bool

datatype confirm_event = Confirm_type string | Confirm_click | Confirm_cancel | Confirm_scrim bool | Confirm_key string

definition confirm_ok :: "confirm_input \<Rightarrow> confirm_dialog \<Rightarrow> bool" where
  "confirm_ok c d \<longleftrightarrow> (case ci_typeToConfirm c of None \<Rightarrow> True | Some w \<Rightarrow> w = [] \<or> cd_typed d = w)"

text \<open>The answer an event gives; \<open>Confirm_scrim\<close> says whether the press was on the scrim itself. Only
  a question that asks for a word has a field to type in.\<close>

fun confirm_step :: "confirm_input \<Rightarrow> confirm_event \<Rightarrow> confirm_dialog \<Rightarrow> confirm_dialog \<times> bool option" where
  "confirm_step c (Confirm_type t) d =
     (case ci_typeToConfirm c of Some w \<Rightarrow> if w = [] then (d, None) else (d\<lparr>cd_typed := t\<rparr>, None) | None \<Rightarrow> (d, None))"
| "confirm_step c Confirm_click d =
     (if \<not> confirm_ok c d \<or> cd_busy d then (d, None) else (d\<lparr>cd_busy := True\<rparr>, Some True))"
| "confirm_step c Confirm_cancel d = (d, Some False)"
| "confirm_step c (Confirm_scrim own) d = (d, if own then Some False else None)"
| "confirm_step c (Confirm_key k) d = (d, if k = ''Escape'' then Some False else None)"

definition confirm_start :: confirm_dialog where
  "confirm_start = \<lparr>cd_typed = [], cd_busy = False\<rparr>"

definition confirm_view :: "confirm_input \<Rightarrow> confirm_dialog \<Rightarrow> confirm_event view" where
  "confirm_view c d = Group
    [Text (ci_title c), Button ''Close'' True Confirm_cancel, Text (ci_text c),
     Group (map (\<lambda>kv. Group [Text (fst kv), Text (snd kv)]) (ci_details c)),
     (case ci_typeToConfirm c of None \<Rightarrow> Group []
      | Some w \<Rightarrow> shown_if (w \<noteq> []) (Group [Text ''Type'', Text w, Text ''to confirm'', Input w (cd_typed d) Confirm_type])),
     Button ''Cancel'' True Confirm_cancel,
     Button (ci_confirmLabel c) (confirm_ok c d \<and> \<not> cd_busy d) Confirm_click]"

text \<open>A question that asks for a word is answered with yes only when exactly that word was typed, and
  its button can be pressed exactly then.\<close>

theorem confirm_needs_word:
  "(snd (confirm_step c e d) = Some True \<longleftrightarrow> e = Confirm_click \<and> Confirm_click \<in> set (offers (confirm_view c d))) \<and>
   (Confirm_click \<in> set (offers (confirm_view c d)) \<longleftrightarrow>
      \<not> cd_busy d \<and> (ci_typeToConfirm c = None \<or> ci_typeToConfirm c = Some [] \<or> ci_typeToConfirm c = Some (cd_typed d)))"
proof -
  have "Confirm_click \<in> set (offers (confirm_view c d)) \<longleftrightarrow> confirm_ok c d \<and> \<not> cd_busy d"
    by (auto simp: confirm_view_def comp_def split: option.splits)
  moreover have "confirm_ok c d \<longleftrightarrow>
      ci_typeToConfirm c = None \<or> ci_typeToConfirm c = Some [] \<or> ci_typeToConfirm c = Some (cd_typed d)"
    by (auto simp: confirm_ok_def split: option.splits)
  ultimately show ?thesis by (cases e) (auto split: option.splits)
qed

section \<open>The theme\<close>

lemma dark_of_setTheme [simp]:
  "doc_dark (sh_doc (setTheme b t s)) = isDark (theme_text t) (br_prefers_dark b)" "sh_theme (setTheme b t s) = t"
  "useResolvedMode Auto_mode (doc_attr (sh_doc (setTheme b t s))) q = isDark (theme_text t) (br_prefers_dark b)"
  by (simp_all add: setTheme_def charts_follow_theme)

text \<open>Toggling turns the page from light to dark or back, whatever the system prefers, and the charts
  with it; the theme is then one the user chose.\<close>

theorem toggle_flips_theme:
  "doc_dark (sh_doc (toggleTheme b s)) \<noteq> isDark (theme_text (sh_theme s)) (br_prefers_dark b) \<and>
   useResolvedMode Auto_mode (doc_attr (sh_doc (toggleTheme b s))) q = doc_dark (sh_doc (toggleTheme b s)) \<and>
   sh_theme (toggleTheme b s) \<in> {Theme_light, Theme_dark}"
  by (simp add: toggleTheme_def isDark_def)

text \<open>A chosen theme stays when the preference of the system changes, as long as the browser has its
  storage; without it, the page falls back to the system's.\<close>

lemma chosen_theme_stays:
  "br_storage b \<Longrightarrow> t \<noteq> Theme_system \<Longrightarrow>
    shell_step (b\<lparr>br_prefers_dark := p\<rparr>) System_scheme (setTheme b t s) = setTheme b t s"
  by (cases t) (simp_all add: setTheme_def stored_after_apply del: theme_text.simps, simp_all)

lemma chosen_theme_lost:
  "\<not> br_storage b \<Longrightarrow>
    doc_dark (sh_doc (shell_step (b\<lparr>br_prefers_dark := True\<rparr>) System_scheme (setTheme b Theme_light s)))"
  by (simp add: storedTheme_def isDark_def)

end
