(* ===== verification/App_Dock.thy ===== *)
theory App_Dock
  imports App_Shell
begin

text \<open>
  What \<open>src/web/components/shell/AppShell.tsx\<close> draws around a page: the dock with its active entry, its
  labels and its hosts, the "+" menu, the command bar and the toasts.
\<close>

section \<open>The entries of the dock\<close>

record dock_entry =
  de_href :: string
  de_label :: string
  de_kbd :: "string list"
  de_match :: "string \<Rightarrow> bool"

definition spine_entry :: "string \<Rightarrow> string \<Rightarrow> string list \<Rightarrow> (string \<Rightarrow> bool) \<Rightarrow> dock_entry" where
  "spine_entry href label kbd m = \<lparr>de_href = href, de_label = label, de_kbd = kbd, de_match = m\<rparr>"

definition MAIN :: "dock_entry list" where
  "MAIN =
    [spine_entry ''/'' ''Fleet'' [''G'', ''F''] (\<lambda>p. p = ''/'' \<or> starts_with p ''/hosts''),
     spine_entry ''/resources'' ''Resources'' [''G'', ''R''] (\<lambda>p. starts_with p ''/resources''),
     spine_entry ''/machines'' ''Machines'' [''G'', ''M''] (\<lambda>p. starts_with p ''/machines''),
     spine_entry ''/deploy'' ''Deploy'' [''G'', ''D''] (\<lambda>p. starts_with p ''/deploy''),
     spine_entry ''/uptime'' ''Uptime'' [''G'', ''U''] (\<lambda>p. starts_with p ''/uptime''),
     spine_entry ''/alerts'' ''Notifications'' [''N''] (\<lambda>p. starts_with p ''/alerts''),
     spine_entry ''/settings/hosts'' ''Settings'' [''G'', ''S''] (\<lambda>p. starts_with p ''/settings'')]"

text \<open>\<open>findIndex\<close>, with \<open>None\<close> for -1.\<close>

fun find_index :: "('a \<Rightarrow> bool) \<Rightarrow> 'a list \<Rightarrow> nat option" where
  "find_index P [] = None"
| "find_index P (x # xs) = (if P x then Some 0 else map_option Suc (find_index P xs))"

definition activeIdx :: "string \<Rightarrow> nat option" where
  "activeIdx path = find_index (\<lambda>d. de_match d path) MAIN"

definition indIdx :: "nat option \<Rightarrow> string \<Rightarrow> nat option" where
  "indIdx hover path = (case hover of Some i \<Rightarrow> Some i | None \<Rightarrow> activeIdx path)"

text \<open>The indicator: its top in pixels and its opacity in hundredths.\<close>

definition indicator :: "nat option \<Rightarrow> string \<Rightarrow> nat \<times> nat" where
  "indicator hover path =
    (case indIdx hover path of None \<Rightarrow> (0, 0)
     | Some i \<Rightarrow> (i * (48 + 4), if hover \<noteq> None \<and> hover \<noteq> activeIdx path then 85 else 100))"

definition badge_text :: "int \<Rightarrow> string" where
  "badge_text n = (if n > 99 then ''99+'' else show_int n)"

definition has_badge :: "int \<Rightarrow> dock_entry \<Rightarrow> bool" where
  "has_badge unread d \<longleftrightarrow> de_href d = ''/alerts'' \<and> unread > 0"

definition entry_action :: "dock_entry \<Rightarrow> shell_action" where
  "entry_action d = (if de_href d = ''/alerts'' then Show_notifications else Go_to (de_href d))"

section \<open>Labels and hosts\<close>

record fly =
  fl_label :: string
  fl_sub :: "string option"
  fl_kbd :: "string list"
  fl_dot :: "string option"

definition entry_fly :: "int \<Rightarrow> dock_entry \<Rightarrow> fly" where
  "entry_fly unread d =
    \<lparr>fl_label = de_label d, fl_sub = (if has_badge unread d then Some (show_int unread @ '' unread'') else None),
     fl_kbd = de_kbd d, fl_dot = None\<rparr>"

definition hostSub :: "host \<Rightarrow> string" where
  "hostSub h = (if h_status h = HS_offline then ''offline''
     else show_int (h_running h) @ '' running '' @ middot @ '' '' @ show_int (js_round (h_cpu h)) @ ''% cpu'')"

definition host_fly :: "host \<Rightarrow> fly" where
  "host_fly h = \<lparr>fl_label = h_name h, fl_sub = Some (hostSub h), fl_kbd = [], fl_dot = Some (hostStatusColor (h_status h))\<rparr>"

definition hosts_fly :: "host list \<Rightarrow> fly" where
  "hosts_fly hs =
    \<lparr>fl_label = ''Hosts'',
     fl_sub = Some (show_nat (length (filter (\<lambda>h. h_status h = HS_online) hs)) @ '' of '' @ show_nat (length hs) @ '' online''),
     fl_kbd = [], fl_dot = None\<rparr>"

definition create_fly :: fly where
  "create_fly = \<lparr>fl_label = ''Add or deploy'',
     fl_sub = Some (''host '' @ middot @ '' container '' @ middot @ '' stack''), fl_kbd = [], fl_dot = None\<rparr>"

text \<open>The fan of up to three hosts while the list is folded: initial, left, top and size.\<close>

definition fan :: "host list \<Rightarrow> (string \<times> real \<times> real \<times> real) list" where
  "fan hs = map (\<lambda>(i, h). let size = 26 - real i * 2 in
     (initial (h_name h), (32 - size) / 2 + (if i = 1 then -5 else if i = 2 then 5 else 0), real i * 7, size))
    (enumerate 0 (take 3 hs))"

definition hosts_caption :: "host list \<Rightarrow> string" where
  "hosts_caption hs = show_nat (length hs) @ '' '' @ (if length hs = 1 then ''host'' else ''hosts'')"

definition host_path :: "host \<Rightarrow> string" where
  "host_path h = ''/hosts/'' @ h_id h"

text \<open>A host's avatar: its initial, the colour of its dot, the beat of the dot, the glow of the page shown.\<close>

datatype beat = Live_beat | Down_beat | No_beat

definition host_avatar :: "string \<Rightarrow> host \<Rightarrow> string \<times> string \<times> beat \<times> bool" where
  "host_avatar path h = (initial (h_name h), hostStatusColor (h_status h),
     (if h_status h = HS_online then Live_beat else if h_status h = HS_offline then Down_beat else No_beat),
     path = host_path h)"

section \<open>The state of the dock\<close>

record dock =
  dk_hoverIdx :: "nat option"
  dk_hoverHost :: "id_t option"
  dk_expanded :: bool
  dk_fly :: "fly option"
  dk_create :: bool

datatype dock_event =
  Over_entry nat
| Over_host host
| Over_hosts
| Over_create
| Leave_dock
| Click_entry nat
| Click_logo
| Click_host host
| Expand_hosts
| Collapse_hosts
| Over_collapse
| Click_create
| Close_create

definition showFly :: "fly \<Rightarrow> nat option \<Rightarrow> dock \<Rightarrow> dock" where
  "showFly f idx d = d\<lparr>dk_fly := Some f, dk_hoverIdx := idx, dk_hoverHost := (if idx \<noteq> None then None else dk_hoverHost d)\<rparr>"

definition leave_dock :: "dock \<Rightarrow> dock" where
  "leave_dock d = d\<lparr>dk_hoverIdx := None, dk_hoverHost := None, dk_fly := None\<rparr>"

fun dock_step :: "host list \<Rightarrow> int \<Rightarrow> dock_event \<Rightarrow> dock \<Rightarrow> dock \<times> shell_action list" where
  "dock_step hs unread (Over_entry i) d =
     (if i < length MAIN then (showFly (entry_fly unread (MAIN ! i)) (Some i) d, []) else (d, []))"
| "dock_step hs unread (Over_host h) d = ((showFly (host_fly h) None d)\<lparr>dk_hoverHost := Some (h_id h)\<rparr>, [])"
| "dock_step hs unread Over_hosts d = (showFly (hosts_fly hs) None d, [])"
| "dock_step hs unread Over_create d = (if dk_create d then d else showFly create_fly None d, [])"
| "dock_step hs unread Leave_dock d = (leave_dock d, [])"
| "dock_step hs unread (Click_entry i) d = (d, if i < length MAIN then [entry_action (MAIN ! i)] else [])"
| "dock_step hs unread Click_logo d = (d, [Go_to ''/''])"
| "dock_step hs unread (Click_host h) d = (d, [Go_to (host_path h)])"
| "dock_step hs unread Expand_hosts d = (d\<lparr>dk_expanded := True\<rparr>, [])"
| "dock_step hs unread Collapse_hosts d = (d\<lparr>dk_expanded := False\<rparr>, [])"
| "dock_step hs unread Over_collapse d = (leave_dock d, [])"
| "dock_step hs unread Click_create d = (d\<lparr>dk_fly := None, dk_create := \<not> dk_create d\<rparr>, [])"
| "dock_step hs unread Close_create d = (d\<lparr>dk_create := False\<rparr>, [])"

definition dock_start :: dock where
  "dock_start = \<lparr>dk_hoverIdx = None, dk_hoverHost = None, dk_expanded = False, dk_fly = None, dk_create = False\<rparr>"

definition dock_view :: "bool \<Rightarrow> host list \<Rightarrow> int \<Rightarrow> dock \<Rightarrow> dock_event view" where
  "dock_view mobile hs unread d =
    (let entries = Group (map (\<lambda>(i, e). Group
           [Button (de_label e) True (Click_entry i), shown_if (has_badge unread e) (Text (badge_text unread))]) (enumerate 0 MAIN));
         avatars = Group (map (\<lambda>h. Button (h_name h) True (Click_host h)) hs);
         plus = Button ''Add or deploy'' True Click_create
     in if mobile then Group [entries, avatars, plus]
        else Group
          [Button ''Dockhand'' True Click_logo, entries,
           (if \<not> dk_expanded d then
              shown_if (hs \<noteq> []) (Group [Button ''Hosts'' True Expand_hosts, Text (hosts_caption hs)])
            else Group [avatars, Button ''Collapse'' True Collapse_hosts]),
           plus,
           shown_opt (\<lambda>f. Group [Text (fl_label f), shown_opt Text (fl_sub f), Text (join '' '' (fl_kbd f))]) (dk_fly d)])"

section \<open>The "+" menu\<close>

text \<open>\<open>/^\/hosts\/([^/?#]+)/\<close> of the path.\<close>

definition page_host_id :: "string \<Rightarrow> id_t option" where
  "page_host_id path =
    (if starts_with path ''/hosts/'' then
       (let i = takeWhile (\<lambda>c. c \<notin> set ''/?#'') (drop 7 path) in if i = [] then None else Some i)
     else None)"

definition menu_host :: "string \<Rightarrow> host list \<Rightarrow> host option" where
  "menu_host path hs = find (\<lambda>h. page_host_id path = Some (h_id h)) hs"

record menu_row =
  mr_label :: string
  mr_sub :: string
  mr_run :: shell_action
  mr_disabled :: bool

definition create_row :: "string \<Rightarrow> string \<Rightarrow> shell_action \<Rightarrow> bool \<Rightarrow> menu_row" where
  "create_row l s r b = \<lparr>mr_label = l, mr_sub = s, mr_run = r, mr_disabled = b\<rparr>"

definition host_query :: "host option \<Rightarrow> string" where
  "host_query h = (case h of Some h \<Rightarrow> ''&host='' @ h_id h | None \<Rightarrow> [])"

definition create_rows :: "string \<Rightarrow> host list \<Rightarrow> menu_row list" where
  "create_rows path hs =
    (let h = menu_host path hs; q = host_query h; none = (hs = []) in
     [create_row ''Run a container''
        (case h of Some h \<Rightarrow> ''From an image, on '' @ h_name h | None \<Rightarrow> ''From Docker Hub, GHCR or any registry'')
        (Go_to (''/deploy?mode=image'' @ q)) none,
      create_row ''Deploy from GitHub'' ''A repo with a compose file'' (Go_to (''/deploy?mode=git'' @ q)) none,
      create_row ''New compose stack'' ''Write or paste a docker-compose.yml'' (Go_to (''/deploy?mode=compose'' @ q)) none,
      create_row ''Add host'' ''Connect a machine running Docker'' (Show_dialog (Dialog_host None None)) False,
      create_row ''Custom SSH'' ''Open a terminal to any address'' (Show_dialog Dialog_customSsh) False])"

definition create_menu :: "string \<Rightarrow> host list \<Rightarrow> shell_action view" where
  "create_menu path hs = Group
    [Text (case menu_host path hs of Some h \<Rightarrow> ''Deploy to '' @ h_name h | None \<Rightarrow> ''Deploy''),
     Group (map (\<lambda>r. Group [Button (mr_label r) (\<not> mr_disabled r) (mr_run r), Text (mr_sub r)]) (create_rows path hs)),
     shown_if (hs = []) (Text ''Add a host first to deploy containers.'')]"

text \<open>Where the menu stands: left and bottom in pixels. \<open>r\<close> is the button's left, top, width, bottom.\<close>

definition menu_position :: "bool \<Rightarrow> real \<times> real \<Rightarrow> real \<times> real \<times> real \<times> real \<Rightarrow> real \<times> real" where
  "menu_position mobile vp r = (case (vp, r) of ((vw, vh), (left, top_, width, bottom)) \<Rightarrow>
     if mobile then (max 12 (min (left + width / 2 - 150) (vw - 312)), vh - top_ + 10)
     else (82, max 12 (vh - bottom)))"

section \<open>Command bar and toasts\<close>

datatype bar_event = Bar_click | Bar_help | Bar_theme

fun bar_action :: "bar_event \<Rightarrow> shell_action" where
  "bar_action Bar_click = Show_palette"
| "bar_action Bar_help = Show_shortcuts"
| "bar_action Bar_theme = Toggle_theme"

definition modifier_key :: "bool \<Rightarrow> string" where
  "modifier_key mac = (if mac then map char_of [226 :: nat, 140, 152] @ ''K'' else ''Ctrl K'')"

definition command_bar :: "bool \<Rightarrow> bool \<Rightarrow> shell_action view" where
  "command_bar mobile mac = Group
    [Button ''Search or run a command'' True (bar_action Bar_click), shown_if (\<not> mobile) (Text (modifier_key mac)),
     shown_if (\<not> mobile) (Button ''Keyboard shortcuts'' True (bar_action Bar_help)),
     Button ''Toggle dark mode'' True (bar_action Bar_theme)]"

datatype toast_event = Toast_x nat | Toast_button nat

definition toast_icon :: "notice_kind option \<Rightarrow> string \<times> string" where
  "toast_icon k = (case k of
     None \<Rightarrow> (''check'', C_ok) | Some Notice_ok \<Rightarrow> (''check'', C_ok) | Some Notice_error \<Rightarrow> (''alert'', C_crit)
   | Some Notice_warn \<Rightarrow> (''alert'', C_warn) | Some Notice_info \<Rightarrow> (''bell'', C_blue))"

definition toast_view :: "toast_item \<Rightarrow> toast_event view" where
  "toast_view t = Group
    [Text (ti_title (tt_input t)), shown_opt (\<lambda>s. shown_if (s \<noteq> []) (Text s)) (ti_text (tt_input t)),
     shown_opt (\<lambda>a. shown_if (a \<noteq> []) (Button a True (Toast_button (tt_id t)))) (ti_action (tt_input t)),
     Button ''Dismiss'' True (Toast_x (tt_id t))]"

text \<open>Both buttons dismiss the toast, the first after running its action.\<close>

fun toast_step :: "browser \<Rightarrow> toast_event \<Rightarrow> shell \<Rightarrow> shell \<times> nat option" where
  "toast_step b (Toast_x i) s = (shell_step b (Toast_dismiss i) s, None)"
| "toast_step b (Toast_button i) s = (shell_step b (Toast_dismiss i) s, Some i)"

definition useIsMobile :: "nat \<Rightarrow> nat \<Rightarrow> bool" where
  "useIsMobile bp width \<longleftrightarrow> width \<le> bp"

section \<open>One page at a time, one meaning for every hint\<close>

lemma find_index_Some: "find_index P xs = Some i \<Longrightarrow> i < length xs \<and> P (xs ! i) \<and> (\<forall>j < i. \<not> P (xs ! j))"
proof (induction xs arbitrary: i)
  case (Cons x xs)
  then show ?case by (fastforce split: if_splits simp: less_Suc_eq_0_disj)
qed simp

text \<open>The paths of each entry, and the search for the first that matches.\<close>

lemma main_matches:
  "length MAIN = 7"
  "de_match (MAIN ! 0) p \<longleftrightarrow> p = ''/'' \<or> starts_with p ''/hosts''" "de_match (MAIN ! 1) p \<longleftrightarrow> starts_with p ''/resources''"
  "de_match (MAIN ! 2) p \<longleftrightarrow> starts_with p ''/machines''" "de_match (MAIN ! 3) p \<longleftrightarrow> starts_with p ''/deploy''"
  "de_match (MAIN ! 4) p \<longleftrightarrow> starts_with p ''/uptime''" "de_match (MAIN ! 5) p \<longleftrightarrow> starts_with p ''/alerts''"
  "de_match (MAIN ! 6) p \<longleftrightarrow> starts_with p ''/settings''"
  by (simp_all add: MAIN_def spine_entry_def)

lemma activeIdx_cases:
  "activeIdx p = (if p = ''/'' \<or> starts_with p ''/hosts'' then Some 0 else if starts_with p ''/resources'' then Some 1
     else if starts_with p ''/machines'' then Some 2 else if starts_with p ''/deploy'' then Some 3
     else if starts_with p ''/uptime'' then Some 4 else if starts_with p ''/alerts'' then Some 5
     else if starts_with p ''/settings'' then Some 6 else None)"
  by (simp add: activeIdx_def MAIN_def spine_entry_def)

lemma starts_withD: "starts_with p q \<Longrightarrow> \<exists>t. p = q @ t"
  by (auto simp: starts_with_prefix prefix_def)

lemma active_when_matched: "k < 7 \<Longrightarrow> de_match (MAIN ! k) p \<Longrightarrow> activeIdx p = Some k"
proof -
  assume m: "de_match (MAIN ! k) p" and "k < 7"
  then consider "k = 0" | "k = 1" | "k = 2" | "k = 3" | "k = 4" | "k = 5" | "k = 6" by linarith
  then show ?thesis using m
    by cases (auto simp: main_matches main_matches(3) [unfolded One_nat_def] activeIdx_cases dest!: starts_withD)
qed

text \<open>No path belongs to two entries of the dock.\<close>

theorem dock_entries_disjoint:
  assumes "i < length MAIN" "j < length MAIN" "de_match (MAIN ! i) path" "de_match (MAIN ! j) path"
  shows "i = j \<and> activeIdx path = Some i"
  using assms active_when_matched [of i path] active_when_matched [of j path] by (simp add: main_matches(1))

lemma dock_entries_disjoint_witness:
  "(0 :: nat) = 0 \<and> activeIdx ''/hosts/h1'' = Some 0"
  by (rule dock_entries_disjoint [of 0 0]) (simp_all add: main_matches)

text \<open>The keys shown beside the entries of the palette and of the dock.\<close>

definition hints :: "(string list \<times> shell_action) list" where
  "hints = map (\<lambda>it. (it_hint it, it_run it)) (navigation_items @ [custom_ssh_item] @ action_items @ [logout_item]) @
     map (\<lambda>d. (de_kbd d, entry_action d)) MAIN"

lemma hint_list:
  "set (filter (\<lambda>h. fst h \<noteq> []) hints) \<subseteq>
    {([''T''], Toggle_theme), ([''?''], Show_shortcuts), ([''N''], Show_notifications), ([''G'', ''F''], Go_to ''/''),
     ([''G'', ''R''], Go_to ''/resources''), ([''G'', ''M''], Go_to ''/machines''), ([''G'', ''D''], Go_to ''/deploy''),
     ([''G'', ''U''], Go_to ''/uptime''), ([''G'', ''A''], Go_to ''/alerts''), ([''G'', ''S''], Go_to ''/settings/hosts'')}"
  by (simp add: hints_def navigation_items_def action_items_def custom_ssh_item_def logout_item_def palette_entry_def MAIN_def
      spine_entry_def entry_action_def)

text \<open>C38: Every hint is true: pressed within 1.2 seconds on an idle page, the keys shown beside an entry of
  the palette or of the dock do what choosing that entry does.\<close>

theorem shortcut_hints_true:
  assumes "0 < now" "gap < 1200" "(keys, a) \<in> set hints" "keys \<noteq> []"
  shows "\<exists>b. press_keys now gap keys idle = [b] \<and> same_action a b"
proof -
  have "(keys, a) \<in> set (filter (\<lambda>h. fst h \<noteq> []) hints)" using assms(3,4) by simp
  with hint_list show ?thesis using assms(1,2)
    by (elim subsetD [THEN insertE] insertE) (auto simp: key_eval)
qed

lemma shortcut_hints_true_witness:
  "\<exists>b. press_keys 5 300 [''G'', ''F''] idle = [b] \<and> same_action (Go_to ''/'') b"
  by (rule shortcut_hints_true) (simp_all add: hints_def navigation_items_def palette_entry_def)

text \<open>What the "+" menu offers: without hosts only to add one or to open a terminal, and every page it
  leads to is the deploy page, on the host whose page is shown when it is a host of the list.\<close>

theorem create_menu_targets:
  "(hs = [] \<longrightarrow> set (offers (create_menu path hs)) = {Show_dialog (Dialog_host None None), Show_dialog Dialog_customSsh}) \<and>
   (\<forall>href. Go_to href \<in> set (offers (create_menu path hs)) \<longrightarrow>
      (\<exists>m \<in> {''image'', ''git'', ''compose''}. href = ''/deploy?mode='' @ m @ host_query (menu_host path hs))) \<and>
   (\<forall>h. menu_host path hs = Some h \<longrightarrow> h \<in> set hs \<and> page_host_id path = Some (h_id h))"
proof (intro conjI)
  show "\<forall>h. menu_host path hs = Some h \<longrightarrow> h \<in> set hs \<and> page_host_id path = Some (h_id h)"
    by (auto simp: menu_host_def dest: find_SomeD)
qed (auto simp: create_menu_def create_rows_def create_row_def Let_def)

lemma page_host_own: "h_id h \<noteq> [] \<Longrightarrow> set (h_id h) \<inter> set ''/?#'' = {} \<Longrightarrow> page_host_id (host_path h) = Some (h_id h)"
proof -
  assume "h_id h \<noteq> []" "set (h_id h) \<inter> set ''/?#'' = {}"
  moreover from this have "takeWhile (\<lambda>c. c \<notin> set ''/?#'') (h_id h) = h_id h"
    unfolding takeWhile_eq_all_conv by blast
  ultimately show ?thesis by (simp add: page_host_id_def host_path_def Let_def del: takeWhile_eq_all_conv)
qed

end
