(* ===== verification/Page_Prog.thy ===== *)
theory Page_Prog
  imports App_Shell Jobs
begin

text \<open>
  The asynchronous handlers of the pages, as programs: what a handler does in the order it does it,
  where it waits for the server or for an answer of the user, and how it goes on. A handler reads the
  state its closure captured as an argument; \<open>Update\<close> is a \<open>setState\<close>, \<open>Refresh\<close> an \<open>invalidate\<close> of the
  cached requests with a prefix, \<open>Track\<close> a call of \<open>trackJob\<close> nobody waits for.
\<close>

record http_call =
  hc_method :: http_method
  hc_path :: string
  hc_body :: "json option"

datatype ('r, 's) prog =
  Stop
| Shell_do shell_action "('r, 's) prog"
| Refresh string "('r, 's) prog"
| Track track_opts http_call "('r, 's) prog"
| Update "'s \<Rightarrow> 's" "('r, 's) prog"
| Fetch http_call "js_error + 'r \<Rightarrow> ('r, 's) prog"
| Query confirm_input "bool \<Rightarrow> ('r, 's) prog"

text \<open>One after the other; the second starts when the first has ended.\<close>

primrec prog_then :: "('r, 's) prog \<Rightarrow> ('r, 's) prog \<Rightarrow> ('r, 's) prog" where
  "prog_then Stop q = q"
| "prog_then (Shell_do a p) q = Shell_do a (prog_then p q)"
| "prog_then (Refresh x p) q = Refresh x (prog_then p q)"
| "prog_then (Track o' c p) q = Track o' c (prog_then p q)"
| "prog_then (Update f p) q = Update f (prog_then p q)"
| "prog_then (Fetch c k) q = Fetch c (\<lambda>r. prog_then (k r) q)"
| "prog_then (Query c k) q = Query c (\<lambda>b. prog_then (k b) q)"

definition get :: "string \<Rightarrow> http_call" where
  "get path = \<lparr>hc_method = GET, hc_path = path, hc_body = None\<rparr>"

definition post :: "string \<Rightarrow> json option \<Rightarrow> http_call" where
  "post path body = \<lparr>hc_method = POST, hc_path = path, hc_body = body\<rparr>"

definition put :: "string \<Rightarrow> json \<Rightarrow> http_call" where
  "put path body = \<lparr>hc_method = PUT, hc_path = path, hc_body = Some body\<rparr>"

definition patch :: "string \<Rightarrow> json \<Rightarrow> http_call" where
  "patch path body = \<lparr>hc_method = PATCH, hc_path = path, hc_body = Some body\<rparr>"

definition del :: "string \<Rightarrow> http_call" where
  "del path = \<lparr>hc_method = DELETE, hc_path = path, hc_body = None\<rparr>"

lemmas calls = get_def post_def put_def patch_def del_def

text \<open>The options the HTTP client is called with.\<close>

definition opts_of :: "http_call \<Rightarrow> request_opts" where
  "opts_of c = (case hc_method c of GET \<Rightarrow> get_opts | DELETE \<Rightarrow> del_opts | m \<Rightarrow> send_opts m (hc_body c))"

lemma opts_of_calls:
  "opts_of (get p) = get_opts" "opts_of (post p b) = post_opts b" "opts_of (put p j) = put_opts (Some j)"
  "opts_of (patch p j) = patch_opts (Some j)" "opts_of (del p) = del_opts"
  by (simp_all add: opts_of_def calls post_opts_def put_opts_def patch_opts_def)

definition notice :: "notice_kind \<Rightarrow> string \<Rightarrow> string option \<Rightarrow> toast_input" where
  "notice kind title text = \<lparr>ti_title = title, ti_text = text, ti_kind = Some kind, ti_action = None, ti_timeout = None\<rparr>"

definition tell :: "notice_kind \<Rightarrow> string \<Rightarrow> string option \<Rightarrow> ('r, 's) prog \<Rightarrow> ('r, 's) prog" where
  "tell kind title text p = Shell_do (Show_toast (notice kind title text)) p"

text \<open>The two ends of a \<open>try\<close>: the request's answer, or a toast with the error's message.\<close>

definition attempt :: "http_call \<Rightarrow> string \<Rightarrow> ('r \<Rightarrow> ('r, 's) prog) \<Rightarrow> ('r, 's) prog" where
  "attempt c errTitle ok = Fetch c (\<lambda>r. case r of
     Inl e \<Rightarrow> tell Notice_error errTitle (Some (errMsg e)) Stop | Inr a \<Rightarrow> ok a)"

section \<open>Running a handler\<close>

datatype 'r reply = Got "js_error + 'r" | Choice bool

datatype deed = Did shell_action | Refreshed string | Started track_opts http_call | Sent http_call | Asked confirm_input | Said bool

text \<open>What happened, as far as the answers go.\<close>

primrec run_prog :: "('r, 's) prog \<Rightarrow> 'r reply list \<Rightarrow> deed list" where
  "run_prog Stop = (\<lambda>rs. [])"
| "run_prog (Shell_do a p) = (\<lambda>rs. Did a # run_prog p rs)"
| "run_prog (Refresh x p) = (\<lambda>rs. Refreshed x # run_prog p rs)"
| "run_prog (Track o' c p) = (\<lambda>rs. Started o' c # run_prog p rs)"
| "run_prog (Update f p) = run_prog p"
| "run_prog (Fetch c k) = (\<lambda>rs. Sent c # (case rs of Got r # rs' \<Rightarrow> run_prog (k r) rs' | _ \<Rightarrow> []))"
| "run_prog (Query c k) = (\<lambda>rs. Asked c # (case rs of Choice b # rs' \<Rightarrow> Said b # run_prog (k b) rs' | _ \<Rightarrow> []))"

primrec state_after :: "('r, 's) prog \<Rightarrow> 'r reply list \<Rightarrow> 's \<Rightarrow> 's" where
  "state_after Stop = (\<lambda>rs s. s)"
| "state_after (Shell_do a p) = state_after p"
| "state_after (Refresh x p) = state_after p"
| "state_after (Track o' c p) = state_after p"
| "state_after (Update f p) = (\<lambda>rs s. state_after p rs (f s))"
| "state_after (Fetch c k) = (\<lambda>rs s. case rs of Got r # rs' \<Rightarrow> state_after (k r) rs' s | _ \<Rightarrow> s)"
| "state_after (Query c k) = (\<lambda>rs s. case rs of Choice b # rs' \<Rightarrow> state_after (k b) rs' s | _ \<Rightarrow> s)"

section \<open>What a handler must not do\<close>

text \<open>No request of a kind \<open>P\<close> before the user has said yes.\<close>

primrec asks_before :: "(http_call \<Rightarrow> bool) \<Rightarrow> ('r, 's) prog \<Rightarrow> bool" where
  "asks_before P Stop = True"
| "asks_before P (Shell_do a p) = asks_before P p"
| "asks_before P (Refresh x p) = asks_before P p"
| "asks_before P (Track o' c p) = (\<not> P c \<and> asks_before P p)"
| "asks_before P (Update f p) = asks_before P p"
| "asks_before P (Fetch c k) = (\<not> P c \<and> (\<forall>r. asks_before P (k r)))"
| "asks_before P (Query c k) = asks_before P (k False)"

text \<open>No failure of a request goes unnoticed: the next thing is a toast with the error's message.\<close>

definition tells_error :: "js_error \<Rightarrow> ('r, 's) prog \<Rightarrow> bool" where
  "tells_error e p \<longleftrightarrow> (case p of
     Shell_do (Show_toast t) _ \<Rightarrow> ti_kind t = Some Notice_error \<and> ti_text t = Some (errMsg e) | _ \<Rightarrow> False)"

primrec no_silent_error :: "('r, 's) prog \<Rightarrow> bool" where
  "no_silent_error Stop = True"
| "no_silent_error (Shell_do a p) = no_silent_error p"
| "no_silent_error (Refresh x p) = no_silent_error p"
| "no_silent_error (Track o' c p) = no_silent_error p"
| "no_silent_error (Update f p) = no_silent_error p"
| "no_silent_error (Fetch c k) = ((\<forall>e. tells_error e (k (Inl e))) \<and> (\<forall>r. no_silent_error (k r)))"
| "no_silent_error (Query c k) = (\<forall>b. no_silent_error (k b))"

lemma sum_all: "(\<forall>r. Q r) \<longleftrightarrow> (\<forall>e. Q (Inl e)) \<and> (\<forall>a. Q (Inr a))"
  by (metis sum.exhaust)

lemma asks_before_tell [simp]: "asks_before P (tell k t x p) = asks_before P p"
  by (simp add: tell_def)

lemma asks_before_attempt [simp]: "asks_before P (attempt c t ok) \<longleftrightarrow> \<not> P c \<and> (\<forall>a. asks_before P (ok a))"
  by (simp add: attempt_def sum_all)

lemma tells_error_tell [simp]: "tells_error e (tell Notice_error t (Some (errMsg e)) p)"
  by (simp add: tells_error_def tell_def notice_def)

lemma no_silent_error_tell [simp]: "no_silent_error (tell k t x p) = no_silent_error p"
  by (simp add: tell_def)

lemma no_silent_error_attempt [simp]: "no_silent_error (attempt c t ok) = (\<forall>a. no_silent_error (ok a))"
  by (simp add: attempt_def sum_all)

lemma asks_before_then: "asks_before P p \<Longrightarrow> asks_before P q \<Longrightarrow> asks_before P (prog_then p q)"
  by (induction p) auto

lemma no_silent_error_then: "no_silent_error p \<Longrightarrow> no_silent_error q \<Longrightarrow> no_silent_error (prog_then p q)"
proof (induction p)
  case (Fetch c k)
  have "tells_error e (prog_then (k (Inl e)) q)" for e
  proof -
    have "tells_error e (k (Inl e))" using Fetch.prems by simp
    then show ?thesis by (auto simp: tells_error_def split: prog.splits shell_action.splits)
  qed
  then show ?case using Fetch by auto
qed auto

text \<open>Read off a run: a request of the kind \<open>P\<close> comes after a yes.\<close>

lemma asks_before_run:
  "asks_before P p \<Longrightarrow> run_prog p rs = ds @ d # ds' \<Longrightarrow> (\<exists>c. P c \<and> (d = Sent c \<or> (\<exists>o'. d = Started o' c))) \<Longrightarrow>
    Said True \<in> set ds"
proof (induction p arbitrary: rs ds)
  case (Shell_do a p)
  then show ?case by (cases ds) auto
next
  case (Refresh x p)
  then show ?case by (cases ds) auto
next
  case (Track o' c p)
  then show ?case by (cases ds) auto
next
  case (Fetch c k)
  then obtain r rs' where rs: "rs = Got r # rs'" "\<exists>ds1. ds = Sent c # ds1 \<and> run_prog (k r) rs' = ds1 @ d # ds'"
    by (cases ds) (auto split: list.splits reply.splits)
  then show ?case using Fetch.IH [OF rangeI] Fetch.prems by fastforce
next
  case (Query c k)
  then obtain b rs' ds1 where rs: "rs = Choice b # rs'" "Said b # run_prog (k b) rs' = ds1 @ d # ds'" "ds = Asked c # ds1"
    by (cases ds) (auto split: list.splits reply.splits)
  show ?case
  proof (cases b)
    case True
    then show ?thesis using rs Query.prems by (cases ds1) auto
  next
    case False
    with rs Query.prems obtain ds2 where "ds1 = Said b # ds2" "run_prog (k False) rs' = ds2 @ d # ds'"
      by (cases ds1) auto
    then show ?thesis using Query.IH [OF rangeI, of False rs' ds2] Query.prems False rs by simp
  qed
qed simp_all

text \<open>The requests that take something away.\<close>

definition removes :: "http_call \<Rightarrow> bool" where
  "removes c \<longleftrightarrow> hc_method c = DELETE"

lemma removes_calls [simp]:
  "\<not> removes (get p)" "\<not> removes (post p b)" "\<not> removes (put p j)" "\<not> removes (patch p j)" "removes (del p)"
  by (simp_all add: removes_def calls)

end
