(* ===== verification/Alerts_Pages.thy ===== *)
theory Alerts_Pages
  imports Page_Prog Git_Flow
begin

text \<open>
  Notifications: \<open>src/web/components/alerts/actions.ts\<close>, the drawer
  (\<open>src/web/components/shell/NotificationsDrawer.tsx\<close>), the page
  (\<open>src/web/app/(app)/alerts/page.tsx\<close>) and the list of jobs
  (\<open>src/web/components/alerts/ActivityView.tsx\<close>). A handler that does not wait for a request is a
  list of programs, begun in their order. Local dates and texts of dates are parameters.
\<close>

section \<open>Actions\<close>

datatype alert_filter = Alerts_all | Alerts_unread | Alerts_critical

fun alert_filter_text :: "alert_filter \<Rightarrow> string" where
  "alert_filter_text Alerts_all = ''all''"
| "alert_filter_text Alerts_unread = ''unread''"
| "alert_filter_text Alerts_critical = ''critical''"

definition ALERT_FILTERS :: "(alert_filter \<times> string) list" where
  "ALERT_FILTERS = [(Alerts_all, ''All''), (Alerts_unread, ''Unread''), (Alerts_critical, ''Critical'')]"

definition refreshAlerts :: "('r, 's) prog \<Rightarrow> ('r, 's) prog" where
  "refreshAlerts p = Refresh ''/api/alerts'' (Refresh ''/api/overview'' p)"

definition read_call :: "id_t \<Rightarrow> http_call" where
  "read_call i = post (''/api/alerts/'' @ i @ ''/read'') None"

definition read_all_call :: http_call where
  "read_all_call = post ''/api/alerts/read-all'' None"

definition snooze_call :: "id_t \<Rightarrow> int \<Rightarrow> http_call" where
  "snooze_call i minutes = post (''/api/alerts/'' @ i @ ''/snooze'') (Some (JObj [(''minutes'', JNum (of_int minutes))]))"

definition markRead :: "id_t \<Rightarrow> string \<Rightarrow> ('r, 's) prog" where
  "markRead i errTitle = attempt (read_call i) errTitle (\<lambda>_. refreshAlerts Stop)"

text \<open>\<open>markRead(id).catch(() => {})\<close>.\<close>

definition markRead_quietly :: "id_t \<Rightarrow> ('r, 's) prog" where
  "markRead_quietly i = Fetch (read_call i) (\<lambda>r. case r of Inl e \<Rightarrow> Stop | Inr _ \<Rightarrow> refreshAlerts Stop)"

definition unread_alerts :: "alert list \<Rightarrow> alert list" where
  "unread_alerts list = filter (\<lambda>a. \<not> al_read a) list"

definition critical_alerts :: "alert list \<Rightarrow> alert list" where
  "critical_alerts list = filter (\<lambda>a. al_severity a = Sev_crit \<and> \<not> al_resolved a) list"

definition alertSummary :: "alert list option \<Rightarrow> string" where
  "alertSummary list = (case list of
     None \<Rightarrow> ''Loading'' @ ellipsis
   | Some as \<Rightarrow>
       (let unread = length (unread_alerts as); crit = length (critical_alerts as) in
        if unread = 0 \<and> crit = 0 then (if as \<noteq> [] then ''All caught up'' else ''Nothing needs your attention'')
        else join ('' '' @ middot @ '' '') (filter (\<lambda>s. s \<noteq> [])
          [show_nat unread @ '' unread'', if crit > 0 then show_nat crit @ '' critical'' else []])))"

text \<open>\<open>loc\<close> gives the local year, month and day of a time.\<close>

definition isToday :: "(int \<Rightarrow> int \<times> int \<times> int) \<Rightarrow> int \<Rightarrow> string \<Rightarrow> bool" where
  "isToday loc now s = (case date_ms s of Some t \<Rightarrow> loc t = loc now | None \<Rightarrow> False)"

section \<open>The drawer\<close>

definition drawer_groups :: "(string \<Rightarrow> bool) \<Rightarrow> alert list \<Rightarrow> (string \<times> alert list) list" where
  "drawer_groups today list =
    filter (\<lambda>g. snd g \<noteq> [])
      [(''Today'', filter (\<lambda>a. today (al_createdAt a)) list), (''Earlier'', filter (\<lambda>a. \<not> today (al_createdAt a)) list)]"

datatype drawer_event = Drawer_filter alert_filter | Drawer_open alert | Drawer_readAll | Drawer_close | Drawer_go string

text \<open>The requests the drawer keeps: all alerts, for the summary, and the filtered list.\<close>

definition alert_requests :: "alert_filter \<Rightarrow> string list" where
  "alert_requests f = [''/api/alerts?filter=all'', ''/api/alerts?filter='' @ alert_filter_text f]"

record drawer =
  dw_filter :: alert_filter
  dw_open :: bool

definition close_drawer :: "('r, drawer) prog \<Rightarrow> ('r, drawer) prog" where
  "close_drawer p = Update (dw_open_update (\<lambda>_. False)) p"

definition drawer_go :: "string \<Rightarrow> ('r, drawer) prog" where
  "drawer_go href = close_drawer (Shell_do (Go_to href) Stop)"

definition drawer_open :: "alert \<Rightarrow> (unit, drawer) prog list" where
  "drawer_open a =
    (if \<not> al_read a then [markRead (al_id a) (''Couldn'' @ apostrophe @ ''t mark read'')] else []) @
    (if al_href a = [] then [] else [drawer_go (al_href a)])"

definition drawer_readAll :: "(unit, drawer) prog" where
  "drawer_readAll = attempt read_all_call (''Couldn'' @ apostrophe @ ''t mark alerts read'')
     (\<lambda>_. refreshAlerts (tell Notice_ok ''All caught up'' (Some ''Every notification is marked as read.'') Stop))"

fun drawer_step :: "drawer_event \<Rightarrow> (unit, drawer) prog list" where
  "drawer_step (Drawer_filter f) = [Update (dw_filter_update (\<lambda>_. f)) Stop]"
| "drawer_step (Drawer_open a) = drawer_open a"
| "drawer_step Drawer_readAll = [drawer_readAll]"
| "drawer_step Drawer_close = [close_drawer Stop]"
| "drawer_step (Drawer_go href) = [drawer_go href]"

definition can_read_all :: "alert list option \<Rightarrow> bool" where
  "can_read_all all \<longleftrightarrow> (\<exists>a \<in> set (case all of None \<Rightarrow> [] | Some as \<Rightarrow> as). \<not> al_read a)"

definition drawer_alert :: "(string \<Rightarrow> string) \<Rightarrow> alert \<Rightarrow> drawer_event view" where
  "drawer_alert age a = Group
    [Button (al_title a) True (Drawer_open a), Text (age (al_createdAt a)), Text (al_text a),
     shown_if (al_hostName a \<noteq> []) (Text (al_hostName a))]"

definition drawer_view :: "(string \<Rightarrow> string) \<Rightarrow> (string \<Rightarrow> bool) \<Rightarrow> alert list option \<Rightarrow>
    (js_error, alert list) fetched \<Rightarrow> drawer_event view" where
  "drawer_view age today all list = Group
    [Text ''Notifications'', Text (alertSummary all), Button ''Mark all read'' (can_read_all all) Drawer_readAll,
     Button ''Close'' True Drawer_close, Group (map (\<lambda>(v, l). Button l True (Drawer_filter v)) ALERT_FILTERS),
     (case list of
        Loading \<Rightarrow> Group []
      | Failed e \<Rightarrow> Text (''Couldn'' @ apostrophe @ ''t load notifications '' @ dash @ '' '' @ errMsg e)
      | Loaded as \<Rightarrow> Group
          [Group (map (\<lambda>(h, items). Group (Text h # map (drawer_alert age) items)) (drawer_groups today as)),
           shown_if (as = []) (Group [Text ''All quiet'', Text ''Nothing needs you right now.''])]),
     Button ''All alerts'' True (Drawer_go ''/alerts''),
     Button ''Notification settings'' True (Drawer_go ''/settings/notifications'')]"

section \<open>The page\<close>

datatype alerts_tab = Tab_alerts | Tab_activity

record alerts_page =
  ap_tab :: alerts_tab
  ap_filter :: alert_filter
  ap_snoozing :: "id_t option"

definition SNOOZE :: "(int \<times> string) list" where
  "SNOOZE = [(60, ''1 hour''), (480, ''8 hours''), (1440, ''24 hours'')]"

datatype alerts_event =
  Alerts_tab alerts_tab
| Alerts_filter alert_filter
| Alerts_readAll
| Alerts_open alert
| Alerts_mark alert
| Alerts_snooze_menu id_t
| Alerts_snooze alert int string
| Alerts_outside
| Alerts_rules

definition alerts_start :: "string option \<Rightarrow> alerts_page" where
  "alerts_start view = \<lparr>ap_tab = (if view = Some ''activity'' then Tab_activity else Tab_alerts), ap_filter = Alerts_all,
     ap_snoozing = None\<rparr>"

definition doSnooze :: "alert \<Rightarrow> int \<Rightarrow> string \<Rightarrow> (unit, alerts_page) prog" where
  "doSnooze a minutes label = Update (ap_snoozing_update (\<lambda>_. None))
    (attempt (snooze_call (al_id a) minutes) (''Couldn'' @ apostrophe @ ''t snooze alert'')
      (\<lambda>_. refreshAlerts (tell Notice_ok (''Snoozed for '' @ label) (Some (al_title a)) Stop)))"

fun alerts_step :: "alerts_event \<Rightarrow> (unit, alerts_page) prog list" where
  "alerts_step (Alerts_tab t) = [Update (ap_tab_update (\<lambda>_. t)) Stop]"
| "alerts_step (Alerts_filter f) = [Update (ap_filter_update (\<lambda>_. f)) Stop]"
| "alerts_step Alerts_readAll =
     [attempt read_all_call (''Couldn'' @ apostrophe @ ''t mark alerts read'')
       (\<lambda>_. refreshAlerts (tell Notice_ok ''All alerts marked as read'' None Stop))]"
| "alerts_step (Alerts_open a) =
     (if \<not> al_read a then [markRead_quietly (al_id a)] else []) @
     (if al_href a \<noteq> [] then [Shell_do (Go_to (al_href a)) Stop] else [])"
| "alerts_step (Alerts_mark a) = [markRead (al_id a) (''Couldn'' @ apostrophe @ ''t mark read'')]"
| "alerts_step (Alerts_snooze_menu i) = [Update (ap_snoozing_update (\<lambda>o'. if o' = Some i then None else Some i)) Stop]"
| "alerts_step (Alerts_snooze a m l) = [doSnooze a m l]"
| "alerts_step Alerts_outside = [Update (ap_snoozing_update (\<lambda>_. None)) Stop]"
| "alerts_step Alerts_rules = [Shell_do (Go_to ''/settings/notifications'') Stop]"

definition alert_card :: "(string \<Rightarrow> string) \<Rightarrow> alerts_page \<Rightarrow> alert \<Rightarrow> alerts_event view" where
  "alert_card age st a = Group
    [Text (al_title a), shown_if (al_hostName a \<noteq> []) (Text (al_hostName a)), shown_if (al_resolved a) (Text ''resolved''),
     Text (age (al_createdAt a)), Text (al_text a),
     shown_if (al_href a \<noteq> []) (Button (if al_action a \<noteq> [] then al_action a else ''Open'') True (Alerts_open a)),
     shown_if (\<not> al_read a \<and> al_href a = []) (Button ''Mark read'' True (Alerts_mark a)),
     Button ''Snooze'' True (Alerts_snooze_menu (al_id a)),
     shown_if (ap_snoozing st = Some (al_id a)) (Group (map (\<lambda>(m, l). Button l True (Alerts_snooze a m l)) SNOOZE))]"

definition nothing_listed :: "alert_filter \<Rightarrow> string" where
  "nothing_listed f = (if f = Alerts_all then ''All quiet'' else if f = Alerts_unread then ''Nothing unread'' else ''No critical alerts'')"

definition alerts_list :: "(string \<Rightarrow> string) \<Rightarrow> alerts_page \<Rightarrow> (js_error, alert list) fetched \<Rightarrow> alerts_event view" where
  "alerts_list age st list = (case list of
     Loading \<Rightarrow> Group []
   | Failed e \<Rightarrow> empty_state (''Couldn'' @ apostrophe @ ''t load alerts'') (errMsg e) []
   | Loaded as \<Rightarrow>
       if as = [] then empty_state (nothing_listed (ap_filter st))
         ''No alerts right now. Dockhand watches every host and container and will tell you the moment something needs attention.''
         [Button ''Notification rules'' True Alerts_rules]
       else Group (map (alert_card age st) as))"

definition alerts_view :: "(string \<Rightarrow> string) \<Rightarrow> alerts_page \<Rightarrow> alert list option \<Rightarrow> (js_error, alert list) fetched \<Rightarrow>
    alerts_event view \<Rightarrow> alerts_event view" where
  "alerts_view age st all list activity = Group
    [Text (if ap_tab st = Tab_alerts then ''Alerts'' else ''Activity''),
     Text (if ap_tab st = Tab_alerts then alertSummary all else ''Everything Dockhand has done, and who asked for it.''),
     Button ''Alerts'' True (Alerts_tab Tab_alerts), Button ''Activity'' True (Alerts_tab Tab_activity),
     shown_if (ap_tab st = Tab_alerts) (Button ''Mark all read'' (can_read_all all) Alerts_readAll),
     (if ap_tab st = Tab_activity then activity
      else Group [Group (map (\<lambda>(v, l). Button l True (Alerts_filter v)) ALERT_FILTERS), alerts_list age st list])]"

section \<open>The jobs done\<close>

fun job_kind_label :: "job_kind \<Rightarrow> string" where
  "job_kind_label JobKind_git = ''Deploy''"
| "job_kind_label JobKind_image = ''Container''"
| "job_kind_label JobKind_compose = ''Stack''"
| "job_kind_label JobKind_stack = ''Stack''"
| "job_kind_label JobKind_pull = ''Pull''"
| "job_kind_label JobKind_update = ''Update''"
| "job_kind_label JobKind_backup = ''Backup''"
| "job_kind_label JobKind_prune = ''Clean-up''"
| "job_kind_label JobKind_self_update = ''Dockhand''"

datatype job_filter = Jobs_all | Jobs_failed | Jobs_running

definition JOB_FILTERS :: "(job_filter \<times> string) list" where
  "JOB_FILTERS = [(Jobs_all, ''Everything''), (Jobs_running, ''Running''), (Jobs_failed, ''Failed'')]"

definition actorLabel :: "string \<Rightarrow> string" where
  "actorLabel actor =
    (if actor = [] \<or> actor = ''unknown'' then ''Dockhand''
     else if actor = ''auto-deploy'' then ''GitHub push''
     else if actor = ''auto-update'' then ''automatic update''
     else if actor = ''webhook'' then ''webhook''
     else actor)"

definition job_listed :: "job_filter \<Rightarrow> job \<Rightarrow> bool" where
  "job_listed f j = (case f of Jobs_all \<Rightarrow> True | Jobs_failed \<Rightarrow> job_status j = JobStatus_failed
     | Jobs_running \<Rightarrow> job_status j = JobStatus_running)"

definition job_color :: "job \<Rightarrow> string" where
  "job_color j = (case job_status j of JobStatus_failed \<Rightarrow> C_crit | JobStatus_running \<Rightarrow> C_blue | _ \<Rightarrow> C_ok)"

definition job_host :: "host list option \<Rightarrow> job \<Rightarrow> string" where
  "job_host hosts j = (case job_hostId j of None \<Rightarrow> [] | Some i \<Rightarrow>
     if i = [] then [] else (case hosts of None \<Rightarrow> []
       | Some hs \<Rightarrow> (case find (\<lambda>h. h_id h = i) hs of Some h \<Rightarrow> h_name h | None \<Rightarrow> [])))"

text \<open>Seconds from start to end, at least one; \<open>None\<close> while the job runs or when a date cannot be read.\<close>

definition job_took :: "job \<Rightarrow> int option" where
  "job_took j = (case job_finishedAt j of None \<Rightarrow> None | Some f \<Rightarrow>
     (case (date_ms f, date_ms (job_startedAt j)) of
        (Some t, Some s) \<Rightarrow> Some (max 1 (js_round (real_of_int (t - s) / 1000))) | _ \<Rightarrow> None))"

definition took_text :: "int \<Rightarrow> string" where
  "took_text n = ''took '' @ (if n < 60 then show_int n @ ''s'' else show_int (js_round (real_of_int n / 60)) @ ''m'')"

definition job_line :: "host list option \<Rightarrow> job \<Rightarrow> string" where
  "job_line hosts j = (let sep = '' '' @ middot @ '' ''; h = job_host hosts j in
     job_kind_label (job_kind j) @ sep @ ''by '' @ actorLabel (job_actor j) @ (if h \<noteq> [] then sep @ h else []) @
     (case job_took j of Some n \<Rightarrow> sep @ took_text n | None \<Rightarrow> []))"

datatype activity_event = Activity_filter job_filter | Activity_toggle id_t | Activity_host id_t

record activity =
  av_filter :: job_filter
  av_open :: "id_t option"

fun activity_step :: "activity_event \<Rightarrow> (unit, activity) prog" where
  "activity_step (Activity_filter f) = Update (av_filter_update (\<lambda>_. f)) Stop"
| "activity_step (Activity_toggle i) = Update (av_open_update (\<lambda>o'. if o' = Some i then None else Some i)) Stop"
| "activity_step (Activity_host i) = Shell_do (Go_to (''/hosts/'' @ i)) Stop"

definition job_detail :: "id_t option \<Rightarrow> job option \<Rightarrow> activity_event view" where
  "job_detail hostId j = (case j of None \<Rightarrow> Group [] | Some j \<Rightarrow> Group
     [Group (map (\<lambda>s. Group [Text (js_label s), shown_if (js_t s \<noteq> []) (Text (js_t s))]) (job_steps j)),
      shown_if (job_log j \<noteq> []) (log_block (job_log j)),
      (case hostId of None \<Rightarrow> Group [] | Some h \<Rightarrow> shown_if (h \<noteq> []) (Button ''Open host'' True (Activity_host h)))])"

text \<open>\<open>detail\<close> answers the request for the open job.\<close>

definition job_card :: "(string \<Rightarrow> string) \<Rightarrow> host list option \<Rightarrow> (id_t \<Rightarrow> job option) \<Rightarrow> activity \<Rightarrow> job \<Rightarrow> activity_event view" where
  "job_card age hosts detail st j = Group
    [Button (job_title j) True (Activity_toggle (job_id j)), Text (job_line hosts j), Text (age (job_startedAt j)),
     shown_if (av_open st = Some (job_id j)) (job_detail (job_hostId j) (detail (job_id j)))]"

definition nothing_done :: "job_filter \<Rightarrow> string" where
  "nothing_done f = (if f = Jobs_failed then ''Nothing has failed'' else if f = Jobs_running then ''Nothing running'' else ''No activity yet'')"

definition activity_view :: "(string \<Rightarrow> string) \<Rightarrow> host list option \<Rightarrow> (id_t \<Rightarrow> job option) \<Rightarrow> activity \<Rightarrow>
    (js_error, job list) fetched \<Rightarrow> activity_event view" where
  "activity_view age hosts detail st jobs = Group
    [Group (map (\<lambda>(v, l). Button l True (Activity_filter v)) JOB_FILTERS),
     (case jobs of
        Loading \<Rightarrow> Group []
      | Failed e \<Rightarrow> empty_state (''Couldn'' @ apostrophe @ ''t load activity'') (errMsg e) []
      | Loaded js \<Rightarrow> (let list = filter (job_listed (av_filter st)) js in Group
          [shown_if (list = []) (empty_state (nothing_done (av_filter st))
             ''Deploys, updates, patches, backups and clean-ups all show up here with who started them.'' []),
           Group (map (job_card age hosts detail st) list)]))]"

section \<open>What the lists show\<close>

text \<open>The drawer offers every alert of its list once, today's first, and each in the order of the list.\<close>

lemma offers_drawer_alerts: "concat (map (offers \<circ> drawer_alert age) as) = map Drawer_open as"
  by (induction as) (auto simp: drawer_alert_def)

lemma drawer_groups_items:
  "concat (map snd (drawer_groups today as)) =
    filter (\<lambda>a. today (al_createdAt a)) as @ filter (\<lambda>a. \<not> today (al_createdAt a)) as"
  by (simp add: drawer_groups_def)

theorem drawer_shows_each_once:
  "filter (\<lambda>e. case e of Drawer_open _ \<Rightarrow> True | _ \<Rightarrow> False) (offers (drawer_view age today all (Loaded as))) =
     map Drawer_open (filter (\<lambda>a. today (al_createdAt a)) as @ filter (\<lambda>a. \<not> today (al_createdAt a)) as) \<and>
   mset (concat (map snd (drawer_groups today as))) = mset as \<and>
   (Drawer_readAll \<in> set (offers (drawer_view age today all (Loaded as))) \<longleftrightarrow> unread_alerts (case all of None \<Rightarrow> [] | Some l \<Rightarrow> l) \<noteq> [])"
proof -
  have g: "concat (map (\<lambda>(h, items). concat (map offers (Text h # map (drawer_alert age) items))) gs) =
      map Drawer_open (concat (map snd gs))" for gs
    by (induction gs) (auto simp: offers_drawer_alerts)
  have f: "filter (\<lambda>e. case e of Drawer_open _ \<Rightarrow> True | _ \<Rightarrow> False) (map Drawer_open l) = map Drawer_open l" for l
    by (induction l) auto
  have v: "offers (drawer_view age today all (Loaded as)) =
      (if can_read_all all then [Drawer_readAll] else []) @ Drawer_close # map (\<lambda>(v, l). Drawer_filter v) ALERT_FILTERS @
      map Drawer_open (concat (map snd (drawer_groups today as))) @
      [Drawer_go ''/alerts'', Drawer_go ''/settings/notifications'']"
    using g [of "drawer_groups today as"] by (simp add: drawer_view_def ALERT_FILTERS_def comp_def case_prod_unfold)
  have m: "mset (concat (map snd (drawer_groups today as))) = mset as"
    by (simp only: drawer_groups_items mset_append mset_filter) simp
  show ?thesis unfolding v by (auto simp: m f drawer_groups_items can_read_all_def unread_alerts_def ALERT_FILTERS_def filter_empty_conv)
qed

text \<open>The summary says that all is well exactly when there is nothing unread and nothing critical open.\<close>

lemma alertSummary_quiet:
  "alertSummary (Some as) \<in> {''All caught up'', ''Nothing needs your attention''} \<longleftrightarrow> unread_alerts as = [] \<and> critical_alerts as = []"
proof (cases "unread_alerts as = [] \<and> critical_alerts as = []")
  case False
  have "\<exists>t. join sep (s # ss) = s @ t" for sep s ss by (cases ss) auto
  then have "\<exists>t. alertSummary (Some as) = show_nat (length (unread_alerts as)) @ t"
    using False by (simp add: alertSummary_def Let_def) (metis append.assoc)
  then obtain t where "alertSummary (Some as) = show_nat (length (unread_alerts as)) @ t" by blast
  moreover obtain c s where "show_nat (length (unread_alerts as)) = c # s" "digit c"
    using show_nat_not_nil [of "length (unread_alerts as)"] show_nat_digits
    by (metis list.exhaust list.set_intros(1))
  ultimately have "digit (hd (alertSummary (Some as)))" by simp
  moreover have "\<not> digit (hd ''All caught up'')" "\<not> digit (hd ''Nothing needs your attention'')" by code_simp+
  ultimately show ?thesis using False by (metis insertE singletonD)
qed (simp add: alertSummary_def)

text \<open>What the drawer does is announced when it fails; opening an alert on the page is not.\<close>

lemma drawer_no_silent_error: "\<forall>p \<in> set (drawer_step e). no_silent_error p"
  by (cases e) (auto simp: drawer_open_def drawer_readAll_def markRead_def refreshAlerts_def drawer_go_def close_drawer_def)

lemma page_silent_error: "\<not> no_silent_error (markRead_quietly i :: (unit, alerts_page) prog)"
  by (auto simp: markRead_quietly_def tells_error_def)

lemma alerts_no_silent_error:
  "(\<forall>a. e \<noteq> Alerts_open a) \<Longrightarrow> \<forall>p \<in> set (alerts_step e). no_silent_error p"
  by (cases e) (auto simp: markRead_def refreshAlerts_def doSnooze_def)

end
