(* ===== verification/Settings_Common.thy ===== *)
theory Settings_Common
  imports Page_Prog "HOL-Library.AList"
begin

text \<open>
  \<open>src/web/components/settings/common.tsx\<close>: the settings as every settings page reads and saves them.
  A change is shown at once, sent, and taken back when the server refuses it. The settings and a
  patch are JSON objects of sections, as the code merges them; the pages read their typed form.
\<close>

section \<open>Merging a patch\<close>

type_synonym settings_doc = "(string \<times> (string \<times> json) list) list"

text \<open>\<open>{ ...a, ...b }\<close>: the members of \<open>b\<close> replace those of \<open>a\<close> in their places, new ones follow.\<close>

definition spread :: "(string \<times> 'v) list \<Rightarrow> (string \<times> 'v) list \<Rightarrow> (string \<times> 'v) list" where
  "spread a b = fold (\<lambda>(k, v). AList.update k v) b a"

definition settings_section :: "settings_doc \<Rightarrow> string \<Rightarrow> (string \<times> json) list" where
  "settings_section s k = (case map_of s k of Some v \<Rightarrow> v | None \<Rightarrow> [])"

definition mergeSettings :: "settings_doc \<Rightarrow> settings_doc \<Rightarrow> settings_doc" where
  "mergeSettings s p = fold (\<lambda>(k, v). AList.update k (spread (settings_section s k) v)) p s"

section \<open>Saving\<close>

text \<open>A save that waits for its answer keeps the settings it found and its patch.\<close>

record saving =
  sv_id :: nat
  sv_prev :: settings_doc
  sv_patch :: settings_doc

record settings_state =
  st_data :: "settings_doc option"
  st_pending :: "saving list"
  st_next :: nat
  st_results :: "(nat \<times> bool) list"
  st_done :: "deed list"

datatype settings_event = Save settings_doc | Saved nat settings_doc | Save_failed nat js_error | Refetched settings_doc

definition find_saving :: "nat \<Rightarrow> settings_state \<Rightarrow> saving option" where
  "find_saving i st = find (\<lambda>s. sv_id s = i) (st_pending st)"

definition end_saving :: "nat \<Rightarrow> bool \<Rightarrow> settings_state \<Rightarrow> settings_state" where
  "end_saving i ok st =
    st\<lparr>st_pending := filter (\<lambda>s. sv_id s \<noteq> i) (st_pending st), st_results := st_results st @ [(i, ok)]\<rparr>"

definition doc_json :: "settings_doc \<Rightarrow> json" where
  "doc_json d = JObj (map (\<lambda>(k, v). (k, JObj v)) d)"

fun settings_step :: "settings_event \<Rightarrow> settings_state \<Rightarrow> settings_state" where
  "settings_step (Save p) st =
     (let i = Suc (st_next st) in case st_data st of
        None \<Rightarrow> st\<lparr>st_next := i, st_results := st_results st @ [(i, False)]\<rparr>
      | Some prev \<Rightarrow>
          st\<lparr>st_next := i, st_data := Some (mergeSettings prev p),
             st_pending := st_pending st @ [\<lparr>sv_id = i, sv_prev = prev, sv_patch = p\<rparr>],
             st_done := st_done st @ [Sent (patch ''/api/settings'' (doc_json p))]\<rparr>)"
| "settings_step (Saved i d) st = (case find_saving i st of
     None \<Rightarrow> st
   | Some s \<Rightarrow> (end_saving i True st)\<lparr>st_data := Some d,
       st_done := st_done st @ (if map_of (sv_patch s) ''updates'' \<noteq> None then [Refreshed ''/api/system''] else [])\<rparr>)"
| "settings_step (Save_failed i e) st = (case find_saving i st of
     None \<Rightarrow> st
   | Some s \<Rightarrow> (end_saving i False st)\<lparr>st_data := Some (sv_prev s),
       st_done := st_done st @ [Did (Show_toast (notice Notice_error (''Couldn'' @ apostrophe @ ''t save setting'') (Some (errMsg e))))]\<rparr>)"
| "settings_step (Refetched d) st = st\<lparr>st_data := Some d\<rparr>"

definition settings_start :: "settings_doc option \<Rightarrow> settings_state" where
  "settings_start d = \<lparr>st_data = d, st_pending = [], st_next = 0, st_results = [], st_done = []\<rparr>"

definition settings_run :: "settings_event list \<Rightarrow> settings_state \<Rightarrow> settings_state" where
  "settings_run es st = fold settings_step es st"

text \<open>A secret with its middle hidden; what already looks hidden is left as it is.\<close>

definition bullet :: string where
  "bullet = map char_of [226 :: nat, 128, 162]"

definition mask :: "string \<Rightarrow> string" where
  "mask v =
    (if v = [] then []
     else if str_includes v bullet \<or> str_includes v ellipsis \<or> str_includes v ''*'' then v
     else if length v \<le> 8 then concat (replicate 8 bullet)
     else take 6 v @ ellipsis @ last_n 4 v)"

section \<open>What a merge changes\<close>

lemma map_of_spread: "distinct (map fst b) \<Longrightarrow> map_of (spread a b) = map_of a ++ map_of b"
proof (induction b arbitrary: a)
  case (Cons kv b)
  obtain k v where kv: "kv = (k, v)" by fastforce
  have "map_of (spread a (kv # b)) = map_of (spread (AList.update k v a) b)" by (simp add: spread_def kv)
  also have "\<dots> = (map_of a)(k \<mapsto> v) ++ map_of b" using Cons by (simp add: update_conv')
  also have "\<dots> = map_of a ++ map_of (kv # b)"
    using Cons.prems kv by (auto simp: map_add_def fun_eq_iff map_of_eq_None_iff image_iff split: option.splits)
  finally show ?case .
qed (simp add: spread_def)

lemma section_update_other: "k \<noteq> j \<Longrightarrow> settings_section (AList.update j v s) k = settings_section s k"
  by (simp add: settings_section_def update_conv')

lemma section_fold_other:
  "k \<notin> fst ` set p \<Longrightarrow> settings_section (fold (\<lambda>(j, v). AList.update j (f j v)) p s) k = settings_section s k"
  by (induction p arbitrary: s) (auto simp: section_update_other)

lemma section_fold_in:
  "distinct (map fst p) \<Longrightarrow> (k, v) \<in> set p \<Longrightarrow>
    settings_section (fold (\<lambda>(j, v). AList.update j (f j v)) p s) k = f k v"
proof (induction p arbitrary: s)
  case (Cons jw p)
  show ?case
  proof (cases "jw = (k, v)")
    case True
    then have "k \<notin> fst ` set p" using Cons.prems(1) by simp
    then show ?thesis using True section_fold_other [of k p f "AList.update k (f k v) s"]
      by (simp add: settings_section_def update_conv')
  next
    case False
    with Cons show ?thesis by auto
  qed
qed simp

text \<open>C29: A patch changes exactly the members it names; every other section and member is as it was.\<close>

theorem merge_changes_named:
  assumes "distinct (map fst p)" "\<And>j v. (j, v) \<in> set p \<Longrightarrow> distinct (map fst v)"
  shows "map_of (settings_section (mergeSettings s p) k) m =
    (case map_of p k of
       None \<Rightarrow> map_of (settings_section s k) m
     | Some v \<Rightarrow> (case map_of v m of None \<Rightarrow> map_of (settings_section s k) m | r \<Rightarrow> r))"
proof (cases "map_of p k")
  case None
  then have "k \<notin> fst ` set p" by (simp add: map_of_eq_None_iff)
  then have "settings_section (mergeSettings s p) k = settings_section s k"
    unfolding mergeSettings_def by (rule section_fold_other)
  then show ?thesis using None by simp
next
  case (Some v)
  then have kv: "(k, v) \<in> set p" by (rule map_of_SomeD)
  then have "settings_section (mergeSettings s p) k = spread (settings_section s k) v"
    unfolding mergeSettings_def by (rule section_fold_in [OF assms(1)])
  then show ?thesis using Some assms(2) [OF kv] by (auto simp: map_of_spread map_add_def split: option.splits)
qed

definition sample_settings :: settings_doc where
  "sample_settings = [(''uptime'', [(''intervalSec'', JNum 30), (''notify'', JBool True)]), (''updates'', [(''auto'', JBool True)])]"

definition sample_patch :: settings_doc where
  "sample_patch = [(''uptime'', [(''intervalSec'', JNum 60)])]"

lemma merge_changes_named_witness:
  "map_of (settings_section (mergeSettings sample_settings sample_patch) ''uptime'') ''notify'' =
    (case map_of sample_patch ''uptime'' of
       None \<Rightarrow> map_of (settings_section sample_settings ''uptime'') ''notify''
     | Some v \<Rightarrow> (case map_of v ''notify'' of None \<Rightarrow> map_of (settings_section sample_settings ''uptime'') ''notify'' | r \<Rightarrow> r))"
  by (rule merge_changes_named) (auto simp: sample_patch_def)

section \<open>One save at a time\<close>

definition saving_ok :: "settings_state \<Rightarrow> bool" where
  "saving_ok st \<longleftrightarrow> distinct (map sv_id (st_pending st)) \<and> (\<forall>s \<in> set (st_pending st). sv_id s \<le> st_next st) \<and>
    distinct (map fst (st_results st)) \<and> (\<forall>r \<in> set (st_results st). fst r \<le> st_next st) \<and>
    fst ` set (st_results st) \<inter> sv_id ` set (st_pending st) = {}"

lemma distinct_map_filter_key: "distinct (map f xs) \<Longrightarrow> distinct (map f (filter P xs))"
  by (induction xs) auto

lemma saving_ok_end: "saving_ok st \<Longrightarrow> find_saving i st = Some s \<Longrightarrow> saving_ok (end_saving i ok st)"
  unfolding saving_ok_def end_saving_def find_saving_def
  by (auto simp: distinct_map_filter_key dest!: find_SomeD)

lemma saving_ok_frame:
  "saving_ok (st\<lparr>st_data := d, st_done := e\<rparr>) = saving_ok st" "saving_ok (st\<lparr>st_data := d\<rparr>) = saving_ok st"
  by (simp_all add: saving_ok_def)

lemma saving_ok_step: "saving_ok st \<Longrightarrow> saving_ok (settings_step e st)"
proof (cases e)
  case (Save p)
  assume "saving_ok st"
  then show ?thesis using Save by (fastforce simp: saving_ok_def Let_def split: option.splits)
qed (auto simp: saving_ok_frame saving_ok_end split: option.splits)

text \<open>Every save is answered at most once, and the one that fails while no other waits leaves the
  settings as they were before it.\<close>

theorem save_answered_once:
  "distinct (map fst (st_results (settings_run es (settings_start d))))"
proof -
  have "saving_ok (settings_run es st)" if "saving_ok st" for st
    using that by (induction es arbitrary: st) (auto simp: settings_run_def saving_ok_step)
  moreover have "saving_ok (settings_start d)" by (simp add: saving_ok_def settings_start_def)
  ultimately show ?thesis by (simp add: saving_ok_def)
qed

theorem failed_save_rolls_back:
  assumes "st_data st = Some prev" "\<forall>s \<in> set (st_pending st). sv_id s \<le> st_next st"
  shows "st_data (settings_step (Save p) st) = Some (mergeSettings prev p) \<and>
    st_data (settings_step (Save_failed (Suc (st_next st)) e) (settings_step (Save p) st)) = Some prev \<and>
    st_data (settings_step (Saved (Suc (st_next st)) d) (settings_step (Save p) st)) = Some d"
proof -
  have "find (\<lambda>s. sv_id s = Suc (st_next st)) (st_pending st) = None"
    using assms(2) by (auto simp: find_None_iff)
  then show ?thesis using assms(1) by (simp add: Let_def find_saving_def find_append end_saving_def)
qed

lemma failed_save_rolls_back_witness:
  "st_data (settings_step (Save sample_patch) (settings_start (Some sample_settings))) = Some (mergeSettings sample_settings sample_patch) \<and>
    st_data (settings_step (Save_failed (Suc (st_next (settings_start (Some sample_settings)))) (Type_error ''offline''))
      (settings_step (Save sample_patch) (settings_start (Some sample_settings)))) = Some sample_settings \<and>
    st_data (settings_step (Saved (Suc (st_next (settings_start (Some sample_settings)))) [])
      (settings_step (Save sample_patch) (settings_start (Some sample_settings)))) = Some []"
  by (rule failed_save_rolls_back) (simp_all add: settings_start_def)

text \<open>Two at a time: a save that fails after a later one was stored shows the settings from before
  both, although the server holds the second change.\<close>

lemma late_failure_hides_saved:
  "st_data (settings_run [Save sample_patch, Save [(''updates'', [(''auto'', JBool False)])],
       Saved 2 [(''uptime'', [(''intervalSec'', JNum 30), (''notify'', JBool True)]), (''updates'', [(''auto'', JBool False)])],
       Save_failed 1 (Type_error ''offline'')] (settings_start (Some sample_settings))) = Some sample_settings"
  by (simp add: settings_run_def settings_start_def find_saving_def end_saving_def Let_def)

section \<open>Small parts\<close>

definition set_toggle :: "string \<Rightarrow> string option \<Rightarrow> bool \<Rightarrow> (bool \<Rightarrow> 'e) \<Rightarrow> bool \<Rightarrow> 'e view" where
  "set_toggle label sub on f disabled = Group [Text label, shown_opt Text sub, Button ''Toggle'' (\<not> disabled) (f (\<not> on))]"

definition labelled :: "string \<Rightarrow> 'e view \<Rightarrow> string option \<Rightarrow> 'e view" where
  "labelled label child hint = Group [Text label, child, shown_opt Text hint]"

definition ink_head :: "string \<Rightarrow> string option \<Rightarrow> 'e view list \<Rightarrow> 'e view" where
  "ink_head title sub children = Group [Text title, shown_opt Text sub, Group children]"

definition ink_seg :: "('v \<times> string) list \<Rightarrow> ('v \<Rightarrow> 'e) \<Rightarrow> 'e view" where
  "ink_seg opts f = Group (map (\<lambda>(v, l). Button l True (f v)) opts)"

lemma set_toggle_offers [simp]: "offers (set_toggle l s on f b) = (if b then [] else [f (\<not> on)])"
  by (simp add: set_toggle_def shown_opt_def split: option.split)

text \<open>The mask hides all but ten characters of a secret and shows no short one at all.\<close>

lemma mask_short: "v \<noteq> [] \<Longrightarrow> length v \<le> 8 \<Longrightarrow> mask v = v \<or> mask v = mask ''a''"
proof -
  have "mask ''a'' = concat (replicate 8 bullet)"
    by (simp add: mask_def bullet_def ellipsis_def)
  then show "v \<noteq> [] \<Longrightarrow> length v \<le> 8 \<Longrightarrow> mask v = v \<or> mask v = mask ''a''" by (simp add: mask_def)
qed

end
