(* ===== verification/Uptime_Pages.thy ===== *)
theory Uptime_Pages
  imports Settings_Common Git_Flow
begin

text \<open>
  Uptime: the bars of a monitor (\<open>src/web/components/uptime/bars.ts\<close>, \<open>charts/UptimeBars.tsx\<close>), its
  card (\<open>uptime/MonitorCard.tsx\<close>), the settings panel (\<open>uptime/ConfigurePanel.tsx\<close>) and the page
  (\<open>src/web/app/(app)/uptime/page.tsx\<close>). Local texts of dates are parameters.
\<close>

section \<open>Bars\<close>

record local_texts =
  lt_hm :: "int \<Rightarrow> string"
  lt_day :: "int \<Rightarrow> string"
  lt_date :: "string \<Rightarrow> string"
  lt_dateTime :: "string \<Rightarrow> string"

text \<open>\<open>None\<close> for a date that cannot be read, whose text the browser decides.\<close>

definition barLabel :: "local_texts \<Rightarrow> int \<Rightarrow> int \<Rightarrow> string" where
  "barLabel loc f t =
    (if t - f \<ge> 20 * 3600 * 1000 then
       (if lt_day loc f = lt_day loc (t - 1) then lt_day loc f else lt_day loc f @ endash @ lt_day loc (t - 1))
     else lt_day loc f @ '' '' @ lt_hm loc f @ endash @ lt_hm loc t)"

record bar_datum =
  bd_label :: string
  bd_value :: real
  bd_status :: "up_status option"

definition bar_as_datum :: "(string \<Rightarrow> string \<Rightarrow> string) \<Rightarrow> uptime_bar \<Rightarrow> bar_datum" where
  "bar_as_datum label b = \<lparr>bd_label = label (ub_from b) (ub_to b), bd_value = ub_pct b, bd_status = ub_status b\<rparr>"

definition no_bar :: bar_datum where
  "no_bar = \<lparr>bd_label = ''No data yet'', bd_value = 0, bd_status = None\<rparr>"

definition toUptimeData :: "(string \<Rightarrow> string \<Rightarrow> string) \<Rightarrow> uptime_bar list \<Rightarrow> nat \<Rightarrow> bar_datum list" where
  "toUptimeData label bars n =
    (let rows = map (bar_as_datum label) (last_n n bars) in replicate (n - length rows) no_bar @ rows)"

fun bar_color :: "up_status option \<Rightarrow> string" where
  "bar_color (Some Up_up) = ''#22a06b''"
| "bar_color (Some Up_degraded) = ''#e0a020''"
| "bar_color (Some Up_down) = ''#e2504c''"
| "bar_color _ = ''var(--track)''"

definition bar_opacity :: "bar_datum \<Rightarrow> real" where
  "bar_opacity r = (if bd_status r = None then 1 else if bd_status r = Some Up_up then 0.9 else max 0.55 (1 - bd_value r / 250))"

definition uptime_tip :: "bar_datum \<Rightarrow> string" where
  "uptime_tip r = bd_label r @ '' '' @ middot @ '' '' @
    (if bd_status r = None then ''no data'' else (if bd_value r \<ge> 99.995 then ''100'' else to_fixed 2 (bd_value r)) @ ''%'')"

text \<open>Exactly \<open>n\<close> bars, the latest buckets at the right in their order, empty ones before them.\<close>

theorem uptime_bars_padded:
  assumes "0 < n"
  shows "length (toUptimeData label bars n) = n \<and>
    suffix (map (bar_as_datum label) (last_n n bars)) (toUptimeData label bars n) \<and>
    (\<forall>r \<in> set (take (n - length bars) (toUptimeData label bars n)). r = no_bar)"
proof -
  have l: "length (last_n n bars) = min n (length bars)" using assms by (rule length_last_n)
  have "set (take (n - length bars) (toUptimeData label bars n)) \<subseteq> set (replicate (n - length (last_n n bars)) no_bar)"
    using l by (auto simp: toUptimeData_def Let_def dest: in_set_takeD)
  then show ?thesis using l by (auto simp: toUptimeData_def Let_def suffix_def)
qed

definition sample_bars :: "uptime_bar list" where
  "sample_bars = [\<lparr>ub_status = Some Up_up, ub_pct = 100, ub_from = ''a'', ub_to = ''b''\<rparr>]"

lemma uptime_bars_padded_witness:
  "length (toUptimeData (\<lambda>a b. a) sample_bars 30) = 30 \<and>
    suffix (map (bar_as_datum (\<lambda>a b. a)) (last_n 30 sample_bars)) (toUptimeData (\<lambda>a b. a) sample_bars 30) \<and>
    (\<forall>r \<in> set (take (30 - length sample_bars) (toUptimeData (\<lambda>a b. a) sample_bars 30)). r = no_bar)"
  by (rule uptime_bars_padded) simp

section \<open>A monitor's card\<close>

fun window_label :: "up_window \<Rightarrow> string" where
  "window_label UpWindow_24h = ''24h''"
| "window_label UpWindow_7d = ''7 days''"
| "window_label UpWindow_30d = ''30 days''"

definition pctColor :: "real \<Rightarrow> string" where
  "pctColor p = (if p < 0 then ''var(--ink-3)'' else if p \<ge> 99.9 then C_ok else if p \<ge> 99 then C_warn else C_crit)"

definition statusDot :: "up_status \<Rightarrow> string" where
  "statusDot s = (if s = Up_paused \<or> s = Up_unknown then ''#9aa1ad'' else upColor (Some s))"

definition checkedAgo :: "(string \<Rightarrow> string) \<Rightarrow> int \<Rightarrow> string option \<Rightarrow> string" where
  "checkedAgo localeDate now ts = (case ts of None \<Rightarrow> ''not checked yet'' | Some t \<Rightarrow>
     if t = [] then ''not checked yet''
     else (case since now ts of
         Some s \<Rightarrow> if s < 60 then ''checked '' @ show_int (max 0 (js_round s)) @ ''s ago'' else ''checked '' @ ago localeDate now ts
       | None \<Rightarrow> ''checked '' @ ago localeDate now ts))"

definition nowLabel :: "int \<Rightarrow> monitor_view \<Rightarrow> string option \<Rightarrow> string" where
  "nowLabel now m openSince =
    (if \<not> mv_enabled m \<or> mv_status m = Up_paused then ''Paused''
     else if mv_status m = Up_unknown then ''Pending''
     else if mv_status m = Up_up then ''Up''
     else let base = (if mv_status m = Up_down then ''Down'' else ''Degraded'') in
       case openSince of None \<Rightarrow> base
       | Some t \<Rightarrow> if t = [] then base else base @ '' '' @ duration (since now (Some t)))"

text \<open>\<open>name.charCodeAt(0) || 0\<close>: the first UTF-16 unit of a UTF-8 text.\<close>

definition first_unit :: "string \<Rightarrow> nat" where
  "first_unit s = (let b = \<lambda>i. (case char_at s i of Some c \<Rightarrow> code c mod 64 | None \<Rightarrow> 0) in
     case s of [] \<Rightarrow> 0
     | c # _ \<Rightarrow>
       if code c < 128 then code c
       else if code c < 224 then (code c mod 32) * 64 + b 1
       else if code c < 240 then ((code c mod 16) * 64 + b 1) * 64 + b 2
       else 55296 + ((((code c mod 8) * 64 + b 1) * 64 + b 2) * 64 + b 3 - 65536) div 1024)"

definition monitor_color :: "monitor_view \<Rightarrow> host option \<Rightarrow> string" where
  "monitor_color m h = (case h of Some h \<Rightarrow> h_color h
     | None \<Rightarrow> AVATAR_COLORS ! (first_unit (mv_name m) mod length AVATAR_COLORS))"

lemma monitor_color_known: "h = None \<Longrightarrow> monitor_color m h \<in> set AVATAR_COLORS"
proof -
  have "length AVATAR_COLORS = 8" by (simp add: AVATAR_COLORS_def)
  then have "first_unit (mv_name m) mod length AVATAR_COLORS < length AVATAR_COLORS" by simp
  then show "h = None \<Longrightarrow> monitor_color m h \<in> set AVATAR_COLORS" by (simp add: monitor_color_def)
qed

fun up_text :: "up_status \<Rightarrow> string" where
  "up_text Up_up = ''up''"
| "up_text Up_degraded = ''degraded''"
| "up_text Up_down = ''down''"
| "up_text Up_unknown = ''unknown''"
| "up_text Up_paused = ''paused''"

record monitor_card =
  mc_editing :: bool
  mc_menu :: bool
  mc_name :: string
  mc_busy :: bool

definition refresh_uptime :: "('r, 's) prog" where
  "refresh_uptime = Refresh ''/api/uptime'' Stop"

definition monitor_path :: "monitor_view \<Rightarrow> string" where
  "monitor_path m = ''/api/monitors/'' @ mv_id m"

definition checkNow :: "monitor_view \<Rightarrow> (monitor_view, monitor_card) prog" where
  "checkNow m = attempt (post (monitor_path m @ ''/check'') None) ''Check failed'' (\<lambda>r.
     tell (if mv_status r = Up_up then Notice_ok else if mv_status r = Up_down then Notice_error else Notice_warn)
       (mv_name m @ '' is '' @ up_text (mv_status r))
       (if mv_latencyMs r > 0 then Some (''Responded in '' @ show_int (js_round (mv_latencyMs r)) @ '' ms'') else None)
       refresh_uptime)"

definition setEnabled :: "monitor_view \<Rightarrow> bool \<Rightarrow> (monitor_view, monitor_card) prog" where
  "setEnabled m b = attempt (patch (monitor_path m) (JObj [(''enabled'', JBool b)])) (''Couldn'' @ apostrophe @ ''t update monitor'')
     (\<lambda>_. tell Notice_ok (if b then ''Resumed '' @ mv_name m else ''Paused '' @ mv_name m) None refresh_uptime)"

definition remove_question :: "monitor_view \<Rightarrow> confirm_input" where
  "remove_question m = \<lparr>ci_title = ''Remove '' @ mv_name m @ ''?'',
     ci_text = ''The monitor and its uptime history are deleted. Past incidents stay in the log.'',
     ci_confirmLabel = ''Remove monitor'', ci_danger = True, ci_details = [], ci_typeToConfirm = None\<rparr>"

definition remove_monitor :: "monitor_view \<Rightarrow> (monitor_view, monitor_card) prog" where
  "remove_monitor m = Query (remove_question m) (\<lambda>ok. if \<not> ok then Stop else
     attempt (del (monitor_path m)) (''Couldn'' @ apostrophe @ ''t remove monitor'')
       (\<lambda>_. tell Notice_ok (''Removed '' @ mv_name m) None refresh_uptime))"

datatype card_event = Card_menu | Card_outside | Card_check | Card_enable bool | Card_edit | Card_remove
  | Rename_type string | Rename_save | Rename_cancel

definition save_name :: "monitor_view \<Rightarrow> monitor_card \<Rightarrow> (monitor_view, monitor_card) prog" where
  "save_name m st =
    (let v = trim (mc_name st); close = mc_editing_update (\<lambda>_. False) in
     if v = [] \<or> v = mv_name m then Update close Stop
     else Update (mc_busy_update (\<lambda>_. True))
       (Fetch (patch (monitor_path m) (JObj [(''name'', JStr v)])) (\<lambda>r. case r of
          Inr _ \<Rightarrow> tell Notice_ok ''Monitor renamed'' (Some v) (Refresh ''/api/uptime'' (Update close Stop))
        | Inl e \<Rightarrow> tell Notice_error (''Couldn'' @ apostrophe @ ''t rename monitor'') (Some (errMsg e))
            (Update (mc_busy_update (\<lambda>_. False)) Stop))))"

abbreviation close_menu :: "('r, monitor_card) prog \<Rightarrow> ('r, monitor_card) prog" where
  "close_menu p \<equiv> Update (mc_menu_update (\<lambda>_. False)) p"

fun card_step :: "monitor_view \<Rightarrow> card_event \<Rightarrow> monitor_card \<Rightarrow> (monitor_view, monitor_card) prog" where
  "card_step m Card_menu st = Update (mc_menu_update Not) Stop"
| "card_step m Card_outside st = close_menu Stop"
| "card_step m Card_check st = close_menu (checkNow m)"
| "card_step m (Card_enable b) st = close_menu (setEnabled m b)"
| "card_step m Card_edit st = close_menu (Update (\<lambda>s. s\<lparr>mc_editing := True, mc_name := mv_name m, mc_busy := False\<rparr>) Stop)"
| "card_step m Card_remove st = close_menu (remove_monitor m)"
| "card_step m (Rename_type n) st = Update (mc_name_update (\<lambda>_. n)) Stop"
| "card_step m Rename_save st = save_name m st"
| "card_step m Rename_cancel st = Update (mc_editing_update (\<lambda>_. False)) Stop"

definition card_menu :: "monitor_view \<Rightarrow> (string \<times> card_event) list" where
  "card_menu m =
    [(''Check now'', Card_check), if mv_enabled m then (''Pause'', Card_enable False) else (''Resume'', Card_enable True),
     (''Edit name'', Card_edit)] @ (if mv_type m \<noteq> MonitorViewType_host then [(''Remove'', Card_remove)] else [])"

definition card_sub :: "monitor_view \<Rightarrow> host option \<Rightarrow> string" where
  "card_sub m h = mv_target m @
    (if mv_type m = MonitorViewType_host then
       (case h of Some h \<Rightarrow> if h_os h \<noteq> [] then '' '' @ middot @ '' '' @ h_os h else [] | None \<Rightarrow> [])
     else if mv_hostName m \<noteq> [] then '' '' @ middot @ '' '' @ mv_hostName m else [])"

definition rename_view :: "monitor_view \<Rightarrow> monitor_card \<Rightarrow> card_event view" where
  "rename_view m st = Group
    [Text ''Rename monitor'', Text (mv_target m), Input ''Name'' (mc_name st) Rename_type, Button ''Cancel'' True Rename_cancel,
     Button ''Save'' (\<not> (mc_busy st \<or> trim (mc_name st) = [])) Rename_save]"

definition card_view :: "local_texts \<Rightarrow> int \<Rightarrow> monitor_view \<Rightarrow> host option \<Rightarrow> string \<Rightarrow> string option \<Rightarrow> monitor_card \<Rightarrow> card_event view" where
  "card_view loc now m h windowLabel openSince st = Group
    [Text (mv_name m), Text (card_sub m h), Text (nowLabel now m openSince), Button ''More actions'' True Card_menu,
     shown_if (mc_menu st) (Group (map (\<lambda>(l, e). Button l True e) (card_menu m))),
     Text (uptimePct (mv_pct m)), Text (''uptime '' @ middot @ '' '' @ windowLabel),
     Text (if mv_incidents m \<noteq> 0 then plural_s (mv_incidents m) ''incident'' else ''No incidents''),
     Text ((if mv_latencyMs m > 0 then show_int (js_round (mv_latencyMs m)) else dash) @ '' ms''),
     Text (checkedAgo (lt_date loc) now (mv_lastCheckAt m)),
     shown_if (mc_editing st) (rename_view m st)]"

text \<open>Whatever is pressed on a card, a monitor is deleted only after a yes, and no failed request goes
  unnoticed; the menu offers to delete it unless it is a host's own.\<close>

theorem card_deletes_after_yes:
  "asks_before removes (card_step m e st) \<and> no_silent_error (card_step m e st) \<and>
   (Card_remove \<in> set (offers (card_view loc now m h w os st)) \<longleftrightarrow> mc_menu st \<and> mv_type m \<noteq> MonitorViewType_host)"
proof -
  have "asks_before removes (card_step m e st) \<and> no_silent_error (card_step m e st)"
    by (cases e) (auto simp: checkNow_def setEnabled_def remove_monitor_def refresh_uptime_def save_name_def Let_def sum_all)
  then show ?thesis by (auto simp: card_view_def card_menu_def rename_view_def comp_def)
qed

section \<open>The settings panel\<close>

datatype configure_event = Set_interval int | Set_retries int | Toggle_host id_t | Set_auto bool | Set_notify bool | Set_public bool

datatype configure_effect = Configure_toast toast_input | Configure_save settings_doc

definition selected_hosts :: "settings_uptime \<Rightarrow> host list \<Rightarrow> id_t list" where
  "selected_hosts u hs =
    (if settings_uptime_hostIds u \<noteq> [] then filter (\<lambda>i. \<exists>h \<in> set hs. h_id h = i) (settings_uptime_hostIds u)
     else map h_id hs)"

definition toggled_hosts :: "id_t list \<Rightarrow> id_t \<Rightarrow> id_t list" where
  "toggled_hosts sel i = (if i \<in> set sel then filter (\<lambda>x. x \<noteq> i) sel else sel @ [i])"

definition save_uptime :: "string \<Rightarrow> json \<Rightarrow> configure_effect" where
  "save_uptime k v = Configure_save [(''uptime'', [(k, v)])]"

definition stored_hosts :: "id_t list \<Rightarrow> host list \<Rightarrow> id_t list" where
  "stored_hosts sel hs = (if length sel = length hs then [] else sel)"

definition toggle_host :: "settings_uptime \<Rightarrow> host list \<Rightarrow> id_t \<Rightarrow> configure_effect" where
  "toggle_host u hs i =
    (let sel = toggled_hosts (selected_hosts u hs) i in
     if sel = [] then Configure_toast (notice Notice_warn ''Keep at least one host'' (Some ''Dockhand needs a host to monitor.''))
     else save_uptime ''hostIds'' (JArr (map JStr (stored_hosts sel hs))))"

fun configure_step :: "settings_uptime \<Rightarrow> host list \<Rightarrow> configure_event \<Rightarrow> configure_effect" where
  "configure_step u hs (Set_interval n) = save_uptime ''intervalSec'' (JNum (of_int n))"
| "configure_step u hs (Set_retries n) = save_uptime ''retries'' (JNum (of_int n))"
| "configure_step u hs (Toggle_host i) = toggle_host u hs i"
| "configure_step u hs (Set_auto b) = save_uptime ''autoMonitor'' (JBool b)"
| "configure_step u hs (Set_notify b) = save_uptime ''notify'' (JBool b)"
| "configure_step u hs (Set_public b) = save_uptime ''publicStatus'' (JBool b)"

text \<open>Once a save has gone through, the overview is read again.\<close>

definition after_uptime_save :: "bool \<Rightarrow> deed list" where
  "after_uptime_save ok = (if ok then [Refreshed ''/api/uptime''] else [])"

definition drop_slashes :: "string \<Rightarrow> string" where
  "drop_slashes s = rev (dropWhile (\<lambda>c. c = CHR ''/'') (rev s))"

definition status_url :: "string \<Rightarrow> string \<Rightarrow> string" where
  "status_url publicUrl origin = drop_slashes (if publicUrl \<noteq> [] then publicUrl else origin) @ ''/status''"

definition without_scheme :: "string \<Rightarrow> string" where
  "without_scheme u = (if starts_with u ''https://'' then drop 8 u else if starts_with u ''http://'' then drop 7 u else u)"

definition uptime_settings_view :: "settings option \<Rightarrow> host list \<Rightarrow> string \<Rightarrow> configure_event view" where
  "uptime_settings_view s hs origin = (case s of None \<Rightarrow> Group [] | Some s \<Rightarrow>
    (let u = set_uptime s; url = status_url (settings_general_publicUrl (set_general s)) origin; label = without_scheme url in Group
      [labelled ''Check interval'' (seg [(30, ''30s''), (60, ''1m''), (300, ''5m'')] Set_interval)
         (Some ''Applies to host reachability and Docker health checks.''),
       labelled ''Mark down after'' (seg [(1, ''1 failure''), (2, ''2 failures''), (3, ''3 failures'')] Set_retries)
         (Some ''Consecutive failures before an alert fires.''),
       labelled ''Hosts to monitor'' (if hs \<noteq> [] then host_chips (map (\<lambda>h. (h_id h, h_name h)) hs) Toggle_host else Text ''No hosts yet.'') None,
       set_toggle ''Auto-monitor new containers'' (Some ''Docker health for anything that starts'') (settings_uptime_autoMonitor u) Set_auto False,
       set_toggle ''Notify on state change'' (Some ''Down and recovered'') (settings_uptime_notify u) Set_notify False,
       set_toggle ''Public status page'' None (settings_uptime_publicStatus u) Set_public False,
       (if settings_uptime_publicStatus u then Link label url else Text label)]))"

definition panel_host :: "string \<Rightarrow> host" where
  "panel_host i = \<lparr>h_id = i, h_name = i, h_address = [], h_port = 22, h_user = [], h_method = Method_key, h_color = [],
     h_status = HS_online, h_os = [], h_kernel = [], h_dockerVersion = [], h_cpuCores = 1, h_uptimeSec = 0, h_cpu = 0, h_mem = 0,
     h_disk = 0, h_memUsed = 0, h_memTotal = 0, h_diskUsed = 0, h_diskTotal = 0, h_running = 0, h_total = 0, h_updates = 0,
     h_spark = [], h_lastSeenAt = None, h_lastError = [], h_failCount = 0, h_monitored = True, h_mcpExposed = False,
     h_createdAt = []\<rparr>"

definition panel_settings :: "id_t list \<Rightarrow> settings_uptime" where
  "panel_settings is = \<lparr>settings_uptime_intervalSec = 30, settings_uptime_retries = 2, settings_uptime_hostIds = is,
     settings_uptime_autoMonitor = True, settings_uptime_notify = True, settings_uptime_publicStatus = False\<rparr>"

text \<open>The selection shown after a change is stored is the one asked for, and is never empty.\<close>

lemma selected_stored:
  assumes "distinct (map h_id hs)" "distinct sel" "set sel \<subseteq> set (map h_id hs)" "sel \<noteq> []"
    "settings_uptime_hostIds u = stored_hosts sel hs"
  shows "set (selected_hosts u hs) = set sel"
proof (cases "length sel = length hs")
  case True
  then have "card (set sel) = card (set (map h_id hs))"
    using assms(1,2) by (simp add: distinct_card [symmetric] del: set_map length_map) (metis distinct_card length_map)
  then have "set sel = set (map h_id hs)" using card_subset_eq [OF _ assms(3)] by simp
  then show ?thesis using assms(5) True by (simp add: selected_hosts_def stored_hosts_def)
next
  case False
  then show ?thesis using assms(3-5) by (auto simp: selected_hosts_def stored_hosts_def)
qed

theorem host_toggle_kept:
  assumes "distinct (map h_id hs)" "distinct (settings_uptime_hostIds u)" "i \<in> set (map h_id hs)"
    "toggled_hosts (selected_hosts u hs) i \<noteq> []"
    "settings_uptime_hostIds u' = stored_hosts (toggled_hosts (selected_hosts u hs) i) hs"
  shows "(i \<in> set (selected_hosts u' hs) \<longleftrightarrow> i \<notin> set (selected_hosts u hs)) \<and>
    (\<forall>j. j \<noteq> i \<longrightarrow> (j \<in> set (selected_hosts u' hs) \<longleftrightarrow> j \<in> set (selected_hosts u hs))) \<and> selected_hosts u' hs \<noteq> []"
proof -
  let ?sel = "toggled_hosts (selected_hosts u hs) i"
  have s: "distinct (selected_hosts u hs)" "set (selected_hosts u hs) \<subseteq> set (map h_id hs)"
    using assms(1,2) by (auto simp: selected_hosts_def)
  then have "distinct ?sel" "set ?sel \<subseteq> set (map h_id hs)" using assms(3) by (auto simp: toggled_hosts_def)
  from selected_stored [OF assms(1) this assms(4,5)] have e: "set (selected_hosts u' hs) = set ?sel" .
  moreover have "selected_hosts u' hs \<noteq> []" using e assms(4) by (metis set_empty)
  ultimately show ?thesis by (auto simp: toggled_hosts_def)
qed

lemma host_toggle_kept_witness:
  "(''a'' \<in> set (selected_hosts (panel_settings []) [panel_host ''a'', panel_host ''b'']) \<longleftrightarrow>
      ''a'' \<notin> set (selected_hosts (panel_settings [''b'']) [panel_host ''a'', panel_host ''b''])) \<and>
    (\<forall>j. j \<noteq> ''a'' \<longrightarrow> (j \<in> set (selected_hosts (panel_settings []) [panel_host ''a'', panel_host ''b'']) \<longleftrightarrow>
      j \<in> set (selected_hosts (panel_settings [''b'']) [panel_host ''a'', panel_host ''b'']))) \<and>
    selected_hosts (panel_settings []) [panel_host ''a'', panel_host ''b''] \<noteq> []"
  by (rule host_toggle_kept)
    (simp_all add: panel_host_def panel_settings_def selected_hosts_def toggled_hosts_def stored_hosts_def)

section \<open>The page\<close>

datatype uptime_filter = Uptime_all | Uptime_issues | Uptime_net

definition WINDOWS :: "(up_window \<times> string \<times> string) list" where
  "WINDOWS = [(UpWindow_24h, ''24 hours'', ''the last 24 hours''), (UpWindow_7d, ''7 days'', ''the last 7 days''),
     (UpWindow_30d, ''30 days'', ''the last 30 days'')]"

fun window_value :: "up_window \<Rightarrow> string" where
  "window_value UpWindow_24h = ''24h''"
| "window_value UpWindow_7d = ''7d''"
| "window_value UpWindow_30d = ''30d''"

text \<open>The query of the address, as its pairs in order.\<close>

definition query_window :: "(string \<times> string) list \<Rightarrow> up_window" where
  "query_window q = (case find (\<lambda>w. map_of q ''window'' = Some (window_value (fst w))) WINDOWS of
     Some w \<Rightarrow> fst w | None \<Rightarrow> UpWindow_24h)"

text \<open>\<open>URLSearchParams.set\<close>: the first pair of the name gets the value, its others go; else it is appended.\<close>

fun params_set :: "string \<Rightarrow> string \<Rightarrow> (string \<times> string) list \<Rightarrow> (string \<times> string) list" where
  "params_set k v [] = [(k, v)]"
| "params_set k v ((j, w) # q) = (if j = k then (k, v) # filter (\<lambda>p. fst p \<noteq> k) q else (j, w) # params_set k v q)"

definition set_window :: "up_window \<Rightarrow> (string \<times> string) list \<Rightarrow> (string \<times> string) list" where
  "set_window w q = (if w = UpWindow_24h then filter (\<lambda>p. fst p \<noteq> ''window'') q else params_set ''window'' (window_value w) q)"

definition window_long :: "up_window \<Rightarrow> string" where
  "window_long w = (case find (\<lambda>x. fst x = w) WINDOWS of Some x \<Rightarrow> snd (snd x) | None \<Rightarrow> [])"

text \<open>The start of the first incident of a monitor that has not ended.\<close>

definition openSince :: "incident_view list \<Rightarrow> id_t \<Rightarrow> string option" where
  "openSince is m = map_option iv_startedAt
     (find (\<lambda>i. (case iv_endedAt i of None \<Rightarrow> True | Some t \<Rightarrow> t = []) \<and> iv_monitorId i = m) is)"

definition count_up :: "(monitor_view \<Rightarrow> bool) \<Rightarrow> monitor_view list \<Rightarrow> int" where
  "count_up P ms = int (length (filter P ms))"

definition uptime_summary :: "up_window \<Rightarrow> uptime_overview option \<Rightarrow> string" where
  "uptime_summary w d = (case d of None \<Rightarrow> ''Checking every host and service'' @ ellipsis | Some d \<Rightarrow>
    (let active = filter mv_enabled (uo_hosts d @ uo_monitors d);
         down = count_up (\<lambda>m. mv_status m = Up_down) active; deg = count_up (\<lambda>m. mv_status m = Up_degraded) active;
         last = uptimePct (uptime_overview_stats_overall (uo_stats d)) @ '' over '' @ window_long w; sep = '' '' @ middot @ '' '' in
     if active = [] then ''No monitors yet '' @ dash @ '' add a host or a service to start tracking uptime.''
     else if down = 0 \<and> deg = 0 then ''All '' @ plural_s (int (length active)) ''monitor'' @ '' up'' @ sep @ last
     else join '', '' ((if down \<noteq> 0 then [show_int down @ '' down''] else []) @ (if deg \<noteq> 0 then [show_int deg @ '' degraded''] else [])) @
       '' of '' @ show_nat (length active) @ sep @ last))"

definition is_issue :: "monitor_view \<Rightarrow> bool" where
  "is_issue m \<longleftrightarrow> mv_status m = Up_down \<or> mv_status m = Up_degraded \<or> \<not> mv_enabled m \<or> mv_status m = Up_paused"

definition listed_monitors :: "uptime_filter \<Rightarrow> monitor_view list \<Rightarrow> monitor_view list" where
  "listed_monitors f ms = (case f of
     Uptime_issues \<Rightarrow> filter is_issue ms
   | Uptime_net \<Rightarrow> filter (\<lambda>m. mv_type m = MonitorViewType_http \<or> mv_type m = MonitorViewType_tcp) ms
   | Uptime_all \<Rightarrow> ms)"

definition interval_label :: "settings option \<Rightarrow> string" where
  "interval_label s = (case s of None \<Rightarrow> ellipsis | Some s \<Rightarrow>
     (let n = settings_uptime_intervalSec (set_uptime s) in
      if n = 30 then ''30s'' else if n = 60 then ''minute'' else if n = 300 then ''5 minutes'' else show_int n @ ''s''))"

text \<open>The four figures: name, value, what is under it and the colour.\<close>

definition uptime_stats :: "up_window \<Rightarrow> uptime_overview_stats \<Rightarrow> (string \<times> string \<times> string \<times> string) list" where
  "uptime_stats w s =
    (let o' = uptime_overview_stats_overall s; up = uptime_overview_stats_monitorsUp s; n = uptime_overview_stats_monitorsTotal s;
         lat = uptime_overview_stats_avgLatencyMs s; inc = uptime_overview_stats_incidents s; op = uptime_overview_stats_openIncidents s in
     [(''Overall uptime'', uptimePct o', (if starts_with (window_long w) ''the '' then drop 4 (window_long w) else window_long w),
         if o' < 0 then C_blue else pctColor o'),
      (''Monitors up'', show_int up @ ''/'' @ show_int n, if up = n then ''all healthy'' else show_int (n - up) @ '' need attention'',
         if up = n then C_ok else C_crit),
      (''Avg latency'', if lat > 0 then show_int (js_round lat) @ '' ms'' else dash, ''across all checks'', C_blue),
      (''Incidents'', show_int inc, if op \<noteq> 0 then show_int op @ '' still open'' else ''none open'',
         if op \<noteq> 0 then C_crit else if inc \<noteq> 0 then C_warn else C_ok)])"

definition incident_card :: "local_texts \<Rightarrow> incident_view \<Rightarrow> 'e view" where
  "incident_card loc i =
    (let took = duration (Some (iv_durationSec i)) in Group
      [Text (iv_target i),
       Text (case iv_endedAt i of Some t \<Rightarrow> if t = [] then ''ongoing '' @ middot @ '' '' @ took else took
          | None \<Rightarrow> ''ongoing '' @ middot @ '' '' @ took),
       Text (if iv_message i \<noteq> [] then iv_message i else if iv_status i = IncidentViewStatus_down then ''Unreachable'' else ''Degraded''),
       Text (dateTime (lt_dateTime loc) (Some (iv_startedAt i)) @
         (case iv_endedAt i of
            Some t \<Rightarrow> if t = [] then '' '' @ middot @ '' still open'' else '' '' @ arrow @ '' '' @ dateTime (lt_dateTime loc) (Some t)
          | None \<Rightarrow> '' '' @ middot @ '' still open''))])"

definition incidents_view :: "local_texts \<Rightarrow> incident_view list option \<Rightarrow> 'e view" where
  "incidents_view loc is = Group [Text ''Incidents'', Text ''last 30 days'',
     (case is of None \<Rightarrow> Group [] | Some is \<Rightarrow>
        if is = [] then Text ''No incidents in the last 30 days.'' else Group (map (incident_card loc) is))]"

datatype uptime_event = Pick_window up_window | Toggle_configure | Pick_filter uptime_filter | Add_monitor
  | On_card id_t card_event | On_configure configure_event

record uptime_page =
  up_config :: bool
  up_filter :: uptime_filter

text \<open>The events of the page itself; those of its cards and of the panel are theirs.\<close>

fun uptime_step :: "uptime_event \<Rightarrow> (string \<times> string) list \<times> uptime_page \<Rightarrow>
    ((string \<times> string) list \<times> uptime_page) \<times> shell_action list" where
  "uptime_step (Pick_window w) (q, st) = ((set_window w q, st), [])"
| "uptime_step Toggle_configure (q, st) = ((q, st\<lparr>up_config := \<not> up_config st\<rparr>), [])"
| "uptime_step (Pick_filter f) (q, st) = ((q, st\<lparr>up_filter := f\<rparr>), [])"
| "uptime_step Add_monitor (q, st) = ((q, st), [Show_dialog (Dialog_monitor None)])"
| "uptime_step (On_card i e) (q, st) = ((q, st), [])"
| "uptime_step (On_configure e) (q, st) = ((q, st), [])"

definition hint_text :: "uptime_filter \<Rightarrow> string" where
  "hint_text f = (case f of
     Uptime_issues \<Rightarrow> ''Nothing is down, degraded or paused.''
   | Uptime_net \<Rightarrow> ''No HTTP or TCP monitors yet.''
   | Uptime_all \<Rightarrow> ''No container or service monitors yet. Turn on auto-monitoring under Configure, or add one.'')"

definition monitor_host :: "host list \<Rightarrow> monitor_view \<Rightarrow> host option" where
  "monitor_host hs m = (case mv_hostId m of None \<Rightarrow> None | Some i \<Rightarrow> if i = [] then None else find (\<lambda>h. h_id h = i) (rev hs))"

definition uptime_view :: "local_texts \<Rightarrow> int \<Rightarrow> string \<Rightarrow> (string \<times> string) list \<Rightarrow> (js_error, uptime_overview) fetched \<Rightarrow>
    host list option \<Rightarrow> settings option \<Rightarrow> (id_t \<Rightarrow> monitor_card) \<Rightarrow> uptime_page \<Rightarrow> uptime_event view" where
  "uptime_view loc now origin q d hosts settings cards st =
    (let w = query_window q; data = (case d of Loaded x \<Rightarrow> Some x | _ \<Rightarrow> None);
         hs = (case hosts of Some h \<Rightarrow> h | None \<Rightarrow> []);
         card = \<lambda>is m. placed (On_card (mv_id m)) (card_view loc now m (monitor_host hs m) (window_label w) (openSince is (mv_id m)) (cards (mv_id m)))
     in Group
      [page_header ''Uptime'' (Some (uptime_summary w data))
         [Group (map (\<lambda>x. Button (fst (snd x)) True (Pick_window (fst x))) WINDOWS), Button ''Configure'' True Toggle_configure,
          Button ''Add monitor'' True Add_monitor],
       (case d of Failed e \<Rightarrow> empty_state (''Couldn'' @ apostrophe @ ''t load uptime'') (errMsg e) []
        | _ \<Rightarrow> Group
          [Group (case data of None \<Rightarrow> [] | Some x \<Rightarrow> map (\<lambda>s. Group [Text (fst (snd s)), Text (fst s), Text (fst (snd (snd s)))]) (uptime_stats w (uo_stats x))),
           shown_if (up_config st) (placed On_configure (uptime_settings_view settings hs origin)),
           Text (''SSH reachability every '' @ interval_label settings),
           shown_opt (\<lambda>x. Group [Group (map (card (uo_incidents x)) (uo_hosts x)),
             shown_if (uo_hosts x = []) (Text ''No hosts are monitored. Add a host, or pick hosts under Configure.'')]) data,
           Text (case data of Some x \<Rightarrow> plural_s (int (length (uo_monitors x))) ''monitor'' | None \<Rightarrow> []),
           seg [(Uptime_all, ''All''), (Uptime_issues, ''Issues''), (Uptime_net, ''HTTP & TCP'')] Pick_filter,
           shown_opt (\<lambda>x. Group [Group (map (card (uo_incidents x)) (listed_monitors (up_filter st) (uo_monitors x))),
             shown_if (listed_monitors (up_filter st) (uo_monitors x) = [])
               (Group [Text (hint_text (up_filter st)), shown_if (up_filter st = Uptime_all) (Button ''Add monitor'' True Add_monitor)])]) data,
           incidents_view loc (map_option uo_incidents data)])])"

text \<open>The window picked is the one the address then names, whatever else it holds.\<close>

lemma map_of_params_set: "map_of (params_set k v q) k = Some v"
  by (induction k v q rule: params_set.induct) auto

lemma map_of_params_other: "j \<noteq> k \<Longrightarrow> map_of (params_set k v q) j = map_of q j"
proof (induction k v q rule: params_set.induct)
  case (2 k v i w q)
  have "map_of (filter (\<lambda>p. fst p \<noteq> k) q) j = map_of q j" if "j \<noteq> k" for q :: "(string \<times> string) list"
    using that by (induction q) auto
  then show ?case using 2 by auto
qed simp

theorem window_in_address:
  "query_window (set_window w q) = w \<and>
   map_of (filter (\<lambda>p. fst p \<noteq> ''window'') (set_window w q)) = map_of (filter (\<lambda>p. fst p \<noteq> ''window'') q)"
proof
  have n: "map_of (filter (\<lambda>p. fst p \<noteq> ''window'') q) ''window'' = None"
    by (simp add: map_of_eq_None_iff image_iff)
  show "query_window (set_window w q) = w"
    by (cases w) (simp_all add: set_window_def query_window_def WINDOWS_def map_of_params_set n)
  have f: "map_of (filter (\<lambda>p. fst p \<noteq> k) r) j = (if j = k then None else map_of r j)" for k j :: string and r :: "(string \<times> string) list"
    by (induction r) auto
  show "map_of (filter (\<lambda>p. fst p \<noteq> ''window'') (set_window w q)) = map_of (filter (\<lambda>p. fst p \<noteq> ''window'') q)"
    by (rule ext) (simp add: f set_window_def map_of_params_other)
qed

end
