(* ===== verification/Monitor_Dialog.thy ===== *)
theory Monitor_Dialog
  imports Page_Prog Container_Filters Git_Flow
begin

text \<open>
  Adding a monitor (\<open>src/web/components/dialogs/MonitorDialog.tsx\<close>) and the links to GitHub's token
  pages (\<open>src/web/components/dialogs/common.tsx\<close>). \<open>url_host\<close> is \<open>new URL(u).host\<close>, \<open>None\<close> when it
  throws; \<open>collate\<close> compares names as \<open>localeCompare\<close> does.
\<close>

record monitor_form =
  mf_type :: monitor_input_type
  mf_name :: string
  mf_hostId :: "id_t option"
  mf_container :: string
  mf_url :: string
  mf_expect :: string
  mf_tcp :: string
  mf_err :: string
  mf_busy :: bool
  mf_open :: bool

definition monitor_form_start :: "id_t option \<Rightarrow> monitor_form" where
  "monitor_form_start h = \<lparr>mf_type = MonitorInputType_docker, mf_name = [], mf_hostId = h, mf_container = [], mf_url = [],
     mf_expect = ''200'', mf_tcp = [], mf_err = [], mf_busy = False, mf_open = True\<rparr>"

definition host_containers :: "(string \<Rightarrow> string \<Rightarrow> real) \<Rightarrow> container list option \<Rightarrow> id_t option \<Rightarrow> container list" where
  "host_containers collate all h =
    js_sort (on_key collate c_name) (filter (\<lambda>c. Some (c_hostId c) = h) (case all of Some cs \<Rightarrow> cs | None \<Rightarrow> []))"

text \<open>The effects after a render: a host is picked for a container monitor that has none, and a
  container that is not on the host is dropped.\<close>

definition no_host_picked :: "monitor_form \<Rightarrow> bool" where
  "no_host_picked f \<longleftrightarrow> mf_hostId f = None \<or> mf_hostId f = Some []"

definition monitor_settle :: "(string \<Rightarrow> string \<Rightarrow> real) \<Rightarrow> host list \<Rightarrow> container list option \<Rightarrow> monitor_form \<Rightarrow> monitor_form" where
  "monitor_settle collate hs all f =
    (let f1 = (if no_host_picked f \<and> mf_type f = MonitorInputType_docker \<and> hs \<noteq> [] then f\<lparr>mf_hostId := Some (h_id (hd hs))\<rparr> else f)
     in if mf_container f \<noteq> [] \<and> (\<forall>c \<in> set (host_containers collate all (mf_hostId f)). c_name c \<noteq> mf_container f)
        then f1\<lparr>mf_container := []\<rparr> else f1)"

definition monitor_default :: "(string \<Rightarrow> string option) \<Rightarrow> monitor_form \<Rightarrow> string" where
  "monitor_default url_host f = (case mf_type f of
     MonitorInputType_docker \<Rightarrow> mf_container f
   | MonitorInputType_http \<Rightarrow> (case url_host (trim (mf_url f)) of Some h \<Rightarrow> h | None \<Rightarrow> trim (mf_url f))
   | MonitorInputType_tcp \<Rightarrow> trim (mf_tcp f))"

section \<open>The checks\<close>

text \<open>\<open>/^https?:\/\/[^\s]+$/i\<close>, \<open>/^[1-5]\d\d(\s*-\s*[1-5]\d\d)?$/\<close>, \<open>/^[^\s:]+:\d{1,5}$/\<close> and
  \<open>/^\[[0-9a-f:]+\]:\d{1,5}$/i\<close>.\<close>

definition no_blank :: "string \<Rightarrow> bool" where
  "no_blank s \<longleftrightarrow> s \<noteq> [] \<and> (\<forall>c \<in> set s. \<not> ws c)"

definition url_ok :: "string \<Rightarrow> bool" where
  "url_ok u \<longleftrightarrow> (let l = to_lower u in
     starts_with l ''http://'' \<and> no_blank (drop 7 u) \<or> starts_with l ''https://'' \<and> no_blank (drop 8 u))"

definition status_code :: "string \<Rightarrow> bool" where
  "status_code s = (case s of [a, b, c] \<Rightarrow> a \<in> set ''12345'' \<and> digit b \<and> digit c | _ \<Rightarrow> False)"

definition expect_ok :: "string \<Rightarrow> bool" where
  "expect_ok s \<longleftrightarrow> status_code s \<or>
    status_code (take 3 s) \<and> (case trim_left (drop 3 s) of [] \<Rightarrow> False | c # t \<Rightarrow> c = CHR ''-'' \<and> status_code (trim_left t))"

definition port_digits :: "string \<Rightarrow> bool" where
  "port_digits p \<longleftrightarrow> p \<noteq> [] \<and> length p \<le> 5 \<and> list_all digit p"

definition colon :: char where
  "colon = CHR '':''"

definition name_target :: "string \<Rightarrow> bool" where
  "name_target t = (let h = takeWhile (\<lambda>c. c \<noteq> colon) t in no_blank h \<and> (case drop (length h) t of [] \<Rightarrow> False | _ # p \<Rightarrow> port_digits p))"

definition bracket_char :: "char \<Rightarrow> bool" where
  "bracket_char c \<longleftrightarrow> digit c \<or> c \<in> set ''abcdefABCDEF'' \<or> c = colon"

definition bracket_target :: "string \<Rightarrow> bool" where
  "bracket_target t = (case t of [] \<Rightarrow> False | c # r \<Rightarrow>
     (let a = takeWhile bracket_char r in
      c = CHR ''['' \<and> a \<noteq> [] \<and> (case drop (length a) r of x # y # p \<Rightarrow> x = CHR '']'' \<and> y = colon \<and> port_digits p | _ \<Rightarrow> False)))"

definition tcp_ok :: "string \<Rightarrow> bool" where
  "tcp_ok t \<longleftrightarrow> name_target t \<or> bracket_target t"

text \<open>The target of the monitor, or what is wrong.\<close>

definition monitor_target :: "monitor_form \<Rightarrow> string + string" where
  "monitor_target f = (case mf_type f of
     MonitorInputType_docker \<Rightarrow>
       if no_host_picked f then Inl ''Pick the host the container runs on.''
       else if mf_container f = [] then Inl ''Pick a container.'' else Inr (mf_container f)
   | MonitorInputType_http \<Rightarrow>
       (let u = trim (mf_url f); e = trim (mf_expect f) in
        if \<not> url_ok u then Inl ''Enter a full URL, e.g. https://cloud.example.com/status''
        else if e \<noteq> [] \<and> \<not> expect_ok e then Inl ''Expected status is a code like 200 or a range like 200-399.''
        else Inr u)
   | MonitorInputType_tcp \<Rightarrow>
       (let t = trim (mf_tcp f) in if \<not> tcp_ok t then Inl ''Use host:port, e.g. 10.0.0.12:5432'' else Inr t))"

definition monitor_body :: "(string \<Rightarrow> string option) \<Rightarrow> monitor_form \<Rightarrow> string \<Rightarrow> monitor_input" where
  "monitor_body url_host f target =
    \<lparr>mi_name = (if trim (mf_name f) \<noteq> [] then trim (mf_name f) else monitor_default url_host f),
     mi_type = mf_type f, mi_hostId = (if mf_hostId f = Some [] then None else mf_hostId f), mi_target = target,
     mi_expect = (if mf_type f = MonitorInputType_http then Some (if trim (mf_expect f) \<noteq> [] then trim (mf_expect f) else ''200'') else None)\<rparr>"

fun monitor_type_text :: "monitor_input_type \<Rightarrow> string" where
  "monitor_type_text MonitorInputType_docker = ''docker''"
| "monitor_type_text MonitorInputType_http = ''http''"
| "monitor_type_text MonitorInputType_tcp = ''tcp''"

definition monitor_json :: "monitor_input \<Rightarrow> json" where
  "monitor_json m = JObj ([(''name'', JStr (mi_name m)), (''type'', JStr (monitor_type_text (mi_type m))),
     (''hostId'', case mi_hostId m of Some h \<Rightarrow> JStr h | None \<Rightarrow> JNull), (''target'', JStr (mi_target m))] @
     (case mi_expect m of Some e \<Rightarrow> [(''expect'', JStr e)] | None \<Rightarrow> []))"

definition monitor_save :: "(string \<Rightarrow> string option) \<Rightarrow> monitor_form \<Rightarrow> (monitor_view, monitor_form) prog" where
  "monitor_save url_host f = Update (mf_err_update (\<lambda>_. [])) (case monitor_target f of
     Inl e \<Rightarrow> Update (mf_err_update (\<lambda>_. e)) Stop
   | Inr t \<Rightarrow> Update (mf_busy_update (\<lambda>_. True)) (Fetch (post ''/api/monitors'' (Some (monitor_json (monitor_body url_host f t)))) (\<lambda>r. case r of
       Inr m \<Rightarrow> Refresh ''/api/uptime'' (tell Notice_ok (''Monitoring '' @ mv_name m) (Some ''The first check runs now.'')
         (Update (\<lambda>s. s\<lparr>mf_open := False, mf_busy := False\<rparr>) Stop))
     | Inl e \<Rightarrow> Update (\<lambda>s. s\<lparr>mf_err := errMsg e, mf_busy := False\<rparr>) Stop)))"

datatype monitor_event = Mon_type monitor_input_type | Mon_name string | Mon_host id_t | Mon_container string | Mon_url string
  | Mon_expect string | Mon_tcp string | Mon_cancel | Mon_save

fun monitor_step :: "(string \<Rightarrow> string option) \<Rightarrow> monitor_event \<Rightarrow> monitor_form \<Rightarrow> (monitor_view, monitor_form) prog" where
  "monitor_step uh (Mon_type t) f = Update (\<lambda>s. s\<lparr>mf_type := t, mf_err := []\<rparr>) Stop"
| "monitor_step uh (Mon_name n) f = Update (mf_name_update (\<lambda>_. n)) Stop"
| "monitor_step uh (Mon_host i) f =
     Update (mf_hostId_update (\<lambda>_. if mf_hostId f = Some i \<and> mf_type f \<noteq> MonitorInputType_docker then None else Some i)) Stop"
| "monitor_step uh (Mon_container c) f = Update (mf_container_update (\<lambda>_. c)) Stop"
| "monitor_step uh (Mon_url u) f = Update (mf_url_update (\<lambda>_. u)) Stop"
| "monitor_step uh (Mon_expect e) f = Update (mf_expect_update (\<lambda>_. e)) Stop"
| "monitor_step uh (Mon_tcp t) f = Update (mf_tcp_update (\<lambda>_. t)) Stop"
| "monitor_step uh Mon_cancel f = Update (mf_open_update (\<lambda>_. False)) Stop"
| "monitor_step uh Mon_save f = monitor_save uh f"

definition container_option :: "container \<Rightarrow> string \<times> string \<times> string" where
  "container_option c = (c_name c, if c_stack c \<noteq> [] then c_stack c else last (split_on (CHR ''/'') (c_image c)),
     containerColor (c_state c) (c_health c))"

definition container_placeholder :: "bool \<Rightarrow> container list \<Rightarrow> string" where
  "container_placeholder loading cs =
    (if loading then ''Loading containers'' @ ellipsis else if cs \<noteq> [] then ''Pick a container'' else ''No containers on this host'')"

definition monitor_dialog_view :: "(string \<Rightarrow> string \<Rightarrow> real) \<Rightarrow> host list \<Rightarrow> container list option \<Rightarrow> monitor_form \<Rightarrow> monitor_event view" where
  "monitor_dialog_view collate hs all f =
    (let cs = host_containers collate all (mf_hostId f) in Group
     [Text ''Add monitor'', Text (''Watch a container'' @ apostrophe @ ''s health, an HTTP endpoint, or a TCP port.''),
      seg [(MonitorInputType_docker, ''Container health''), (MonitorInputType_http, ''HTTP''), (MonitorInputType_tcp, ''TCP port'')] Mon_type,
      Input ''Name'' (mf_name f) Mon_name, host_chips (map (\<lambda>h. (h_id h, h_name h)) hs) Mon_host,
      shown_if (mf_type f = MonitorInputType_docker) (Group
        [Text (container_placeholder (all = None) cs), Group (map (\<lambda>c. Button (c_name c) True (Mon_container (c_name c))) cs)]),
      shown_if (mf_type f = MonitorInputType_http) (Group [Input ''URL'' (mf_url f) Mon_url, Input ''Expect status'' (mf_expect f) Mon_expect]),
      shown_if (mf_type f = MonitorInputType_tcp) (Input ''Host and port'' (mf_tcp f) Mon_tcp),
      shown_if (mf_err f \<noteq> []) (Text (mf_err f)), Button ''Cancel'' True Mon_cancel, Button ''Add monitor'' (\<not> mf_busy f) Mon_save])"

section \<open>GitHub's token pages\<close>

definition githubWebBase :: "string \<Rightarrow> string" where
  "githubWebBase server =
    (let s = rev (dropWhile (\<lambda>c. c = CHR ''/'') (rev (trim server)));
         rest = (if starts_with s ''https://'' then Some (drop 8 s) else if starts_with s ''http://'' then Some (drop 7 s) else None)
     in case rest of Some (c # _) \<Rightarrow> if c = CHR ''/'' \<or> ws c then ''https://github.com'' else s | _ \<Rightarrow> ''https://github.com'')"

definition CLASSIC_SCOPES :: string where
  "CLASSIC_SCOPES = ''repo,admin:repo_hook,read:org''"

definition githubTokenUrls :: "string \<Rightarrow> string \<times> string" where
  "githubTokenUrls server =
    (githubWebBase server @ ''/settings/tokens/new?description=Dockhand&scopes='' @ CLASSIC_SCOPES,
     githubWebBase server @ ''/settings/personal-access-tokens/new'')"

section \<open>What is accepted\<close>

lemma takeWhile_split: "(\<forall>c \<in> set h. P c) \<Longrightarrow> \<not> P x \<Longrightarrow> takeWhile P (h @ x # t) = h"
  by (induction h) auto

lemma name_target_iff:
  "name_target t \<longleftrightarrow> (\<exists>h p. t = h @ colon # p \<and> no_blank h \<and> colon \<notin> set h \<and> port_digits p)"
proof
  assume n: "name_target t"
  let ?h = "takeWhile (\<lambda>c. c \<noteq> colon) t"
  obtain x p where p: "drop (length ?h) t = x # p" "port_digits p" "no_blank ?h"
    using n by (auto simp: name_target_def Let_def split: list.splits)
  have d: "dropWhile (\<lambda>c. c \<noteq> colon) t = x # p" using p(1) by (simp add: dropWhile_eq_drop)
  then have t: "t = ?h @ x # p" by (metis takeWhile_dropWhile_id)
  have "x = colon" using d by (simp add: dropWhile_eq_Cons_conv)
  moreover have "colon \<notin> set ?h" using set_takeWhileD [of colon "\<lambda>c. c \<noteq> colon" t] by blast
  ultimately show "\<exists>h p. t = h @ colon # p \<and> no_blank h \<and> colon \<notin> set h \<and> port_digits p" using p(2,3) t by blast
next
  assume "\<exists>h p. t = h @ colon # p \<and> no_blank h \<and> colon \<notin> set h \<and> port_digits p"
  then obtain h p where t: "t = h @ colon # p" "no_blank h" "colon \<notin> set h" "port_digits p" by blast
  have "takeWhile (\<lambda>c. c \<noteq> colon) t = h" unfolding t(1) using t(3) by (intro takeWhile_split) auto
  then show "name_target t" using t by (simp add: name_target_def)
qed

lemma bracket_target_iff:
  "bracket_target t \<longleftrightarrow> (\<exists>a p. t = CHR ''['' # a @ CHR '']'' # colon # p \<and> a \<noteq> [] \<and> (\<forall>c \<in> set a. bracket_char c) \<and> port_digits p)"
proof
  assume "bracket_target t"
  then obtain r p where r: "t = CHR ''['' # r" "takeWhile bracket_char r \<noteq> []"
      "drop (length (takeWhile bracket_char r)) r = CHR '']'' # colon # p" "port_digits p"
    by (auto simp: bracket_target_def Let_def split: list.splits)
  then have "r = takeWhile bracket_char r @ CHR '']'' # colon # p" by (metis append_take_drop_id dropWhile_eq_drop takeWhile_dropWhile_id)
  then show "\<exists>a p. t = CHR ''['' # a @ CHR '']'' # colon # p \<and> a \<noteq> [] \<and> (\<forall>c \<in> set a. bracket_char c) \<and> port_digits p"
    using r by (metis set_takeWhileD)
next
  assume "\<exists>a p. t = CHR ''['' # a @ CHR '']'' # colon # p \<and> a \<noteq> [] \<and> (\<forall>c \<in> set a. bracket_char c) \<and> port_digits p"
  then obtain a p where t: "t = CHR ''['' # a @ CHR '']'' # colon # p" "a \<noteq> []" "\<forall>c \<in> set a. bracket_char c" "port_digits p" by blast
  have "\<not> bracket_char (CHR '']'')" by (simp add: bracket_char_def colon_def) code_simp
  then have "takeWhile bracket_char (a @ CHR '']'' # colon # p) = a" using t(3) by (intro takeWhile_split) auto
  then show "bracket_target t" using t by (simp add: bracket_target_def)
qed


text \<open>Nothing is sent while something is wrong, and what goes wrong is written in the dialog, whose
  button works again.\<close>

theorem monitor_save_outcome:
  "run_prog (monitor_save uh f) [Got r] = (case monitor_target f of
     Inl e \<Rightarrow> []
   | Inr t \<Rightarrow> Sent (post ''/api/monitors'' (Some (monitor_json (monitor_body uh f t)))) # (case r of
       Inl e \<Rightarrow> [] | Inr m \<Rightarrow> [Refreshed ''/api/uptime'', Did (Show_toast (notice Notice_ok (''Monitoring '' @ mv_name m) (Some ''The first check runs now.'')))])) \<and>
   mf_err (state_after (monitor_save uh f) [Got r] f) = (case monitor_target f of
     Inl e \<Rightarrow> e | Inr t \<Rightarrow> (case r of Inl e \<Rightarrow> errMsg e | Inr m \<Rightarrow> [])) \<and>
   mf_busy (state_after (monitor_save uh f) [Got r] f) = (case monitor_target f of Inl e \<Rightarrow> mf_busy f | Inr t \<Rightarrow> False)"
  by (cases r) (auto simp: monitor_save_def tell_def split: sum.splits)

lemma monitor_target_error: "monitor_target f = Inl e \<Longrightarrow> e \<noteq> []"
  by (auto simp: monitor_target_def Let_def split: monitor_input_type.splits if_splits)

lemma monitor_target_filled: "monitor_target f = Inr t \<Longrightarrow> t \<noteq> []"
  by (auto simp: monitor_target_def Let_def url_ok_def tcp_ok_def name_target_iff bracket_target_iff no_blank_def
      split: monitor_input_type.splits if_splits)

end
