(* ===== verification/Registries.thy ===== *)
theory Registries
  imports Settings_Common Git_Flow
begin

text \<open>
  Settings, registries (\<open>src/web/components/settings/RegistriesTab.tsx\<close>): Dockhand's own registry, its
  repositories and tags, its access tokens, and the saved logins for other registries. \<open>age\<close> is \<open>ago\<close>
  at the moment of the render, \<open>quote\<close> the JSON text of a string.
\<close>

section \<open>The built-in registry\<close>

abbreviation size_text :: "int \<Rightarrow> string" where
  "size_text n \<equiv> bytes (Some (of_int n)) 1"

definition copy_toast :: "string \<Rightarrow> string option \<Rightarrow> shell_action" where
  "copy_toast label text = Show_toast (notice Notice_ok label text)"

record registry_card =
  rgc_addr :: "string option"
  rgc_trust :: bool

definition registry_on :: "settings option \<Rightarrow> bool" where
  "registry_on s \<longleftrightarrow> (case s of Some s \<Rightarrow> settings_registry_enabled (set_registry s) | None \<Rightarrow> False)"

definition saved_address :: "settings option \<Rightarrow> string" where
  "saved_address s = (case s of Some s \<Rightarrow> settings_registry_address (set_registry s) | None \<Rightarrow> [])"

definition registry_address :: "registry_info option \<Rightarrow> string" where
  "registry_address info = (case info of Some i \<Rightarrow> if rgi_address i \<noteq> [] then rgi_address i else ''dockhand.lan:5773''
     | None \<Rightarrow> ''dockhand.lan:5773'')"

definition address_value :: "settings option \<Rightarrow> registry_card \<Rightarrow> string" where
  "address_value s st = (case rgc_addr st of Some a \<Rightarrow> a | None \<Rightarrow> saved_address s)"

definition push_commands :: "string \<Rightarrow> string" where
  "push_commands a = ''docker login '' @ a @ [LF] @ ''docker tag myapp:latest '' @ a @ ''/myapp:1.0'' @ [LF] @
     ''docker push '' @ a @ ''/myapp:1.0''"

definition daemon_json :: "(string \<Rightarrow> string) \<Rightarrow> string \<Rightarrow> string" where
  "daemon_json quote a = ''{'' @ [LF] @ ''  '' @ quote ''insecure-registries'' @ '': ['' @ [LF] @ ''    '' @ quote a @ [LF] @
     ''  ]'' @ [LF] @ ''}''"

datatype registry_event = Registry_toggle bool | Registry_type string | Registry_blur | Registry_how bool | Registry_copy string string

text \<open>What is saved, if anything; a save that goes through reads the registry again.\<close>

fun registry_step :: "settings option \<Rightarrow> registry_event \<Rightarrow> registry_card \<Rightarrow> registry_card \<times> settings_doc option \<times> shell_action list" where
  "registry_step s (Registry_toggle v) st = (st, Some [(''registry'', [(''enabled'', JBool v)])], [])"
| "registry_step s (Registry_type a) st = (st\<lparr>rgc_addr := Some a\<rparr>, None, [])"
| "registry_step s Registry_blur st = (case rgc_addr st of
     None \<Rightarrow> (st, None, [])
   | Some a \<Rightarrow> if a = saved_address s then (st, None, []) else (st, Some [(''registry'', [(''address'', JStr (trim a))])], []))"
| "registry_step s (Registry_how t) st = (st\<lparr>rgc_trust := t\<rparr>, None, [])"
| "registry_step s (Registry_copy text label) st = (st, None, [copy_toast label None])"

definition address_saved :: "bool \<Rightarrow> registry_card \<Rightarrow> registry_card \<times> deed list" where
  "address_saved ok st = (if ok then (st\<lparr>rgc_addr := None\<rparr>, [Refreshed ''/api/registry'']) else (st, []))"

definition registry_state_text :: "registry_info option \<Rightarrow> string" where
  "registry_state_text info = (case info of None \<Rightarrow> [] | Some i \<Rightarrow>
     plural (rgi_repos i) ''repository'' ''repositories'' @
       (if rgi_size i \<ge> 0 then '' '' @ middot @ '' '' @ size_text (rgi_size i) else []))"

definition copy_block :: "string \<Rightarrow> string \<Rightarrow> registry_event view" where
  "copy_block text label = Group [Text text, Button ''Copy'' True (Registry_copy text label)]"

definition registry_view :: "(string \<Rightarrow> string) \<Rightarrow> settings option \<Rightarrow> registry_info option \<Rightarrow> registry_card \<Rightarrow> registry_event view" where
  "registry_view quote s info st =
    (let on = registry_on s; a = registry_address info; secure = (case info of Some i \<Rightarrow> rgi_secure i | None \<Rightarrow> False) in Group
     [ink_head ''Dockhand registry'' (Some ''Push your own images to Dockhand and deploy them to any host.'')
        [Button ''Toggle'' (s \<noteq> None) (Registry_toggle (\<not> on))],
      shown_if (s \<noteq> None \<and> \<not> on) (Text ''Off.''),
      shown_if (s \<noteq> None \<and> on) (Group
        [(case info of
            Some i \<Rightarrow> if \<not> rgi_reachable i
              then Text ((case rgi_error i of Some e \<Rightarrow> e | None \<Rightarrow> ''The registry service isn'' @ apostrophe @ ''t answering.'') @
                '' Run docker compose up -d in Dockhand'' @ apostrophe @ ''s folder to start it.'')
              else Group [Text ''Serving'', Text (rgi_address i), Text (registry_state_text info)]
          | None \<Rightarrow> Group [Text ''Serving'', Text ellipsis, Text []]),
         Input ''Registry address'' (address_value s st) Registry_type,
         seg [(False, ''Push an image''), (True, if secure then ''Hosts'' else ''Allow HTTP on hosts'')] Registry_how,
         (if \<not> rgc_trust st then copy_block (push_commands a) ''Commands copied''
          else if secure then Text ''Dockhand is served over HTTPS, so hosts and your machine can push and pull without extra configuration.''
          else copy_block (daemon_json quote a) ''daemon.json copied'')])])"

section \<open>Repositories and tags\<close>

record repos_card =
  rpc_open :: "string option"
  rpc_q :: string

definition shown_repos :: "string \<Rightarrow> registry_repo list \<Rightarrow> registry_repo list" where
  "shown_repos q repos = filter (\<lambda>r. q = [] \<or> str_includes (to_lower (rr_name r)) (to_lower q)) repos"

definition gc_question :: "registry_info \<Rightarrow> confirm_input" where
  "gc_question info = \<lparr>ci_title = ''Reclaim space?'',
     ci_text = ''Deletes image layers no tag points to any more '' @ dash @ '' what'' @ apostrophe @
       ''s left behind after deleting tags or re-pushing a tag. Avoid pushing while it runs.'',
     ci_confirmLabel = ''Reclaim space'', ci_danger = False,
     ci_details = (if rgi_size info \<ge> 0 then [(''Registry size'', size_text (rgi_size info))] else []), ci_typeToConfirm = None\<rparr>"

definition gc_job :: track_opts where
  "gc_job = \<lparr>tk_title = ''Reclaiming registry space'', tk_done = Some ''Registry space reclaimed'',
     tk_invalidate = Some [''/api/registry''], tk_quiet = False, tk_onDone = False\<rparr>"

definition gc :: "registry_info \<Rightarrow> (unit, repos_card) prog" where
  "gc info = Query (gc_question info) (\<lambda>ok. if \<not> ok then Stop else Track gc_job (post ''/api/registry/gc'' None) Stop)"

text \<open>The other tags of the same image, which go with it.\<close>

definition same_image :: "registry_tag list option \<Rightarrow> registry_tag \<Rightarrow> string list" where
  "same_image tags t = map rt_tag
     (filter (\<lambda>x. rt_digest x \<noteq> [] \<and> rt_digest x = rt_digest t \<and> rt_tag x \<noteq> rt_tag t) (case tags of Some ts \<Rightarrow> ts | None \<Rightarrow> []))"

definition open_quote :: string where
  "open_quote = map char_of [226 :: nat, 128, 156]"

definition close_quote :: string where
  "close_quote = map char_of [226 :: nat, 128, 157]"

definition quoted :: "string \<Rightarrow> string" where
  "quoted s = open_quote @ s @ close_quote"

definition short_digest :: "string \<Rightarrow> string" where
  "short_digest d = take 12 (drop 7 d)"

definition tag_question :: "registry_repo \<Rightarrow> registry_tag list option \<Rightarrow> registry_tag \<Rightarrow> confirm_input" where
  "tag_question repo tags t = (let same = same_image tags t in
    \<lparr>ci_title = ''Delete '' @ rr_name repo @ '':'' @ rt_tag t @ ''?'',
     ci_text = (if same \<noteq> []
       then ''This image is also tagged '' @ join '', '' (map quoted same) @ '' '' @ dash @
         '' those tags are deleted with it. Hosts keep any copy they already pulled.''
       else ''Hosts keep any copy they already pulled. Reclaim space afterwards to free the disk.''),
     ci_confirmLabel = ''Delete'', ci_danger = True,
     ci_details = [(''Digest'', short_digest (rt_digest t)), (''Size'', size_text (rt_size t))], ci_typeToConfirm = None\<rparr>)"

definition tags_path :: "string \<Rightarrow> string" where
  "tags_path name = ''/api/registry/tags?repo='' @ encodeURIComponent name"

definition remove_tag :: "registry_repo \<Rightarrow> registry_tag list option \<Rightarrow> registry_tag \<Rightarrow> (unit, repos_card) prog" where
  "remove_tag repo tags t = Query (tag_question repo tags t) (\<lambda>ok. if \<not> ok then Stop else
     attempt (del (tags_path (rr_name repo) @ ''&tag='' @ encodeURIComponent (rt_tag t))) (''Couldn'' @ apostrophe @ ''t delete tag'')
       (\<lambda>_. tell Notice_ok (''Deleted '' @ rr_name repo @ '':'' @ rt_tag t) None
         (Refresh (tags_path (rr_name repo)) (Refresh ''/api/registry/repos'' (Refresh ''/api/registry'' Stop)))))"

definition image_ref :: "string \<Rightarrow> registry_repo \<Rightarrow> registry_tag \<Rightarrow> string" where
  "image_ref address repo t = address @ ''/'' @ rr_name repo @ '':'' @ rt_tag t"

definition tag_line :: "(string \<Rightarrow> string) \<Rightarrow> registry_tag \<Rightarrow> string" where
  "tag_line age t = join ('' '' @ middot @ '' '') (filter (\<lambda>s. s \<noteq> [])
    [if rt_digest t \<noteq> [] then short_digest (rt_digest t) else [], if rt_size t \<noteq> 0 then size_text (rt_size t) else [],
     join '', '' (rt_platforms t), (case rt_createdAt t of Some c \<Rightarrow> if c \<noteq> [] then ''built '' @ age c else [] | None \<Rightarrow> [])])"

datatype repos_event = Repos_type string | Repos_open string | Repos_gc | Tag_deploy string | Tag_copy string | Tag_remove registry_repo registry_tag

fun repos_step :: "registry_info \<Rightarrow> registry_tag list option \<Rightarrow> repos_event \<Rightarrow> (unit, repos_card) prog" where
  "repos_step info tags (Repos_type q) = Update (rpc_q_update (\<lambda>_. q)) Stop"
| "repos_step info tags (Repos_open n) = Update (rpc_open_update (\<lambda>o'. if o' = Some n then None else Some n)) Stop"
| "repos_step info tags Repos_gc = gc info"
| "repos_step info tags (Tag_deploy ref) = Shell_do (Go_to (''/deploy?mode=image&image='' @ encodeURIComponent ref)) Stop"
| "repos_step info tags (Tag_copy ref) = Shell_do (copy_toast ''Pull command copied'' (Some ref)) Stop"
| "repos_step info tags (Tag_remove repo t) = remove_tag repo tags t"

definition tag_row :: "(string \<Rightarrow> string) \<Rightarrow> string \<Rightarrow> registry_repo \<Rightarrow> registry_tag \<Rightarrow> repos_event view" where
  "tag_row age address repo t = (let ref = image_ref address repo t in Group
    [Text (rt_tag t), Text (tag_line age t), Button ''Deploy'' True (Tag_deploy ref), Button ''Copy docker pull command'' True (Tag_copy ref),
     Button ''Delete this tag'' True (Tag_remove repo t)])"

definition repo_row :: "(string \<Rightarrow> string) \<Rightarrow> string \<Rightarrow> registry_tag list option \<Rightarrow> repos_card \<Rightarrow> registry_repo \<Rightarrow> repos_event view" where
  "repo_row age address tags st repo = Group
    [Button (rr_name repo) True (Repos_open (rr_name repo)), Text (plural_s (rr_tags repo) ''tag''),
     shown_if (rpc_open st = Some (rr_name repo)) (shown_opt (\<lambda>ts. Group (map (tag_row age address repo) ts)) tags)]"

text \<open>\<open>tags\<close> are those of the open repository. Without a reachable registry the card is not there.\<close>

definition repos_view :: "(string \<Rightarrow> string) \<Rightarrow> settings option \<Rightarrow> registry_info option \<Rightarrow> (js_error, registry_repo list) fetched \<Rightarrow>
    registry_tag list option \<Rightarrow> repos_card \<Rightarrow> repos_event view" where
  "repos_view age s info repos tags st = (case info of None \<Rightarrow> Group [] | Some i \<Rightarrow>
    shown_if (registry_on s \<and> rgi_reachable i) (Group
      [ink_head ''Repositories'' (case repos of Loaded rs \<Rightarrow> Some (plural (int (length rs)) ''image'' ''images'') | _ \<Rightarrow> None)
         [Button ''Reclaim space'' True Repos_gc],
       (case repos of
          Loading \<Rightarrow> Group []
        | Failed e \<Rightarrow> Text (errMsg e)
        | Loaded rs \<Rightarrow> Group
            [shown_if (length rs > 6) (Input (''Filter'' @ ellipsis) (rpc_q st) Repos_type),
             shown_if (rs = []) (Text (''Nothing pushed yet. Tag an image as '' @ rgi_address i @ ''/name:tag and docker push it.'')),
             Group (map (repo_row age (rgi_address i) tags st) (shown_repos (rpc_q st) rs))])]))"

text \<open>The question before a tag goes names every tag that goes with it, and only those.\<close>

lemma same_image_iff:
  "x \<in> set (same_image (Some ts) t) \<longleftrightarrow> (\<exists>u \<in> set ts. rt_tag u = x \<and> rt_digest u = rt_digest t \<and> rt_digest t \<noteq> [] \<and> x \<noteq> rt_tag t)"
  by (auto simp: same_image_def)

theorem repos_delete_after_yes:
  "asks_before (\<lambda>c. removes c \<or> c = post ''/api/registry/gc'' None) (repos_step info tags e) \<and> no_silent_error (repos_step info tags e)"
  by (cases e) (auto simp: gc_def remove_tag_def)

section \<open>Access tokens\<close>

record tokens_card =
  tkc_name :: string
  tkc_scope :: registry_token_scope
  tkc_busy :: bool
  tkc_fresh :: "registry_token option"

datatype token_event = Token_name string | Token_scope registry_token_scope | Token_create | Token_revoke registry_token
  | Token_copy string string | Token_hide

fun scope_text :: "registry_token_scope \<Rightarrow> string" where
  "scope_text RegistryTokenScope_pull = ''pull''"
| "scope_text RegistryTokenScope_push = ''push''"

definition create_token :: "tokens_card \<Rightarrow> (registry_token, tokens_card) prog" where
  "create_token st = Update (tkc_busy_update (\<lambda>_. True))
    (Fetch (post ''/api/registry/tokens'' (Some (JObj [(''name'', JStr (tkc_name st)), (''scope'', JStr (scope_text (tkc_scope st)))]))) (\<lambda>r. case r of
       Inr t \<Rightarrow> Update (\<lambda>s. s\<lparr>tkc_fresh := Some t, tkc_name := []\<rparr>) (Refresh ''/api/registry/tokens'' (Update (tkc_busy_update (\<lambda>_. False)) Stop))
     | Inl e \<Rightarrow> tell Notice_error (''Couldn'' @ apostrophe @ ''t create token'') (Some (errMsg e)) (Update (tkc_busy_update (\<lambda>_. False)) Stop)))"

definition revoke_question :: "(string \<Rightarrow> string) \<Rightarrow> registry_token \<Rightarrow> confirm_input" where
  "revoke_question age t = \<lparr>ci_title = ''Revoke '' @ quoted (rtok_name t) @ ''?'',
     ci_text = ''Anything logged in with this token loses access immediately.'', ci_confirmLabel = ''Revoke'', ci_danger = True,
     ci_details = [(''Token'', rtok_prefix t @ ellipsis), (''Last used'', case rtok_lastUsedAt t of
       Some u \<Rightarrow> if u \<noteq> [] then age u else ''never'' | None \<Rightarrow> ''never'')], ci_typeToConfirm = None\<rparr>"

definition revoke :: "(string \<Rightarrow> string) \<Rightarrow> registry_token \<Rightarrow> (registry_token, tokens_card) prog" where
  "revoke age t = Query (revoke_question age t) (\<lambda>ok. if \<not> ok then Stop else
     attempt (del (''/api/registry/tokens/'' @ rtok_id t)) (''Couldn'' @ apostrophe @ ''t revoke token'')
       (\<lambda>_. tell Notice_ok (''Revoked '' @ rtok_name t) None (Refresh ''/api/registry/tokens'' Stop)))"

fun token_step :: "(string \<Rightarrow> string) \<Rightarrow> token_event \<Rightarrow> tokens_card \<Rightarrow> (registry_token, tokens_card) prog" where
  "token_step age (Token_name n) st = Update (tkc_name_update (\<lambda>_. n)) Stop"
| "token_step age (Token_scope s) st = Update (tkc_scope_update (\<lambda>_. s)) Stop"
| "token_step age Token_create st = create_token st"
| "token_step age (Token_revoke t) st = revoke age t"
| "token_step age (Token_copy text label) st = Shell_do (copy_toast label None) Stop"
| "token_step age Token_hide st = Update (tkc_fresh_update (\<lambda>_. None)) Stop"

definition used_text :: "(string \<Rightarrow> string) \<Rightarrow> string \<Rightarrow> iso_date option \<Rightarrow> string" where
  "used_text age never u = (case u of Some t \<Rightarrow> if t \<noteq> [] then ''used '' @ age t else never | None \<Rightarrow> never)"

definition token_line :: "(string \<Rightarrow> string) \<Rightarrow> registry_token \<Rightarrow> string" where
  "token_line age t = (if rtok_system t then ''used by Dockhand to pull on your hosts''
     else rtok_prefix t @ ellipsis @ '' '' @ middot @ '' '' @ (if rtok_scope t = RegistryTokenScope_push then ''push + pull'' else ''pull only'')) @
     '' '' @ middot @ '' '' @ used_text age ''never used'' (rtok_lastUsedAt t)"

definition login_command :: "registry_info option \<Rightarrow> string \<Rightarrow> string" where
  "login_command info token = ''echo '' @ apostrophe @ token @ apostrophe @ '' | docker login '' @
     (case info of Some i \<Rightarrow> rgi_address i | None \<Rightarrow> ''<registry>'') @ '' -u ci --password-stdin''"

definition token_row :: "(string \<Rightarrow> string) \<Rightarrow> registry_token \<Rightarrow> token_event view" where
  "token_row age t = Group [Text (rtok_name t), Text (token_line age t),
     if rtok_system t then Text ''built in'' else Button ''Revoke'' True (Token_revoke t)]"

definition fresh_view :: "registry_info option \<Rightarrow> registry_token \<Rightarrow> token_event view" where
  "fresh_view info t = (case rtok_token t of None \<Rightarrow> Group [] | Some k \<Rightarrow> shown_if (k \<noteq> []) (Group
     [Text (''Copy '' @ quoted (rtok_name t) @ '' now '' @ dash @ '' it won'' @ apostrophe @ ''t be shown again.''),
      Text k, Button ''Copy'' True (Token_copy k ''Token copied''), Text ''Log in with any username:'',
      Text (login_command info k), Button ''Copy'' True (Token_copy (login_command info k) ''Login command copied''),
      Button ''Done'' True Token_hide]))"

definition tokens_view :: "(string \<Rightarrow> string) \<Rightarrow> settings option \<Rightarrow> registry_info option \<Rightarrow> registry_token list option \<Rightarrow> tokens_card \<Rightarrow> token_event view" where
  "tokens_view age s info tokens st = shown_if (registry_on s) (Group
    [ink_head ''Access tokens'' (Some ''for CI and scripts'') [], shown_opt (fresh_view info) (tkc_fresh st),
     Input ''Token name, e.g. GitHub Actions'' (tkc_name st) Token_name,
     seg [(RegistryTokenScope_push, ''Push + pull''), (RegistryTokenScope_pull, ''Pull only'')] Token_scope,
     Button ''Create'' (\<not> (tkc_busy st \<or> trim (tkc_name st) = [])) Token_create,
     shown_opt (\<lambda>ts. Group (map (token_row age) ts)) tokens])"

lemma tokens_delete_after_yes:
  "asks_before removes (token_step age e st) \<and> no_silent_error (token_step age e st)"
  by (cases e) (auto simp: create_token_def revoke_def sum_all)

section \<open>Logins for other registries\<close>

record registry_preset =
  rps_id :: string
  rps_label :: string
  rps_user :: string
  rps_pass :: string
  rps_tokenUrl :: string
  rps_hint :: string

definition preset_row :: "string \<Rightarrow> string \<Rightarrow> string \<Rightarrow> string \<Rightarrow> string \<Rightarrow> string \<Rightarrow> registry_preset" where
  "preset_row i l u p t h = \<lparr>rps_id = i, rps_label = l, rps_user = u, rps_pass = p, rps_tokenUrl = t, rps_hint = h\<rparr>"

definition REGISTRY_PRESETS :: "registry_preset list" where
  "REGISTRY_PRESETS =
    [preset_row ''docker.io'' ''Docker Hub'' ''Docker Hub username'' ''Personal access token''
       ''https://app.docker.com/settings/personal-access-tokens'' ''A read-only personal access token is enough for pulls.'',
     preset_row ''ghcr.io'' ''GitHub'' ''GitHub username'' ''Personal access token (classic)''
       ''https://github.com/settings/tokens/new?scopes=read:packages&description=Dockhand'' ''Needs the read:packages scope.'',
     preset_row ''registry.gitlab.com'' ''GitLab'' ''GitLab username or deploy token user'' ''Token''
       ''https://gitlab.com/-/user_settings/personal_access_tokens?name=Dockhand&scopes=read_registry'' ''Needs read_registry.'',
     preset_row ''quay.io'' ''Quay'' ''Robot account or username'' ''Password or robot token'' [] [],
     preset_row [] ''Other'' ''Username'' ''Password or token'' []
       (''Any registry: self-hosted, Harbor, Gitea, AWS ECR (username AWS + a token from aws ecr get-login-password; it expires after 12 hours)'' @ ellipsis)]"

definition preset_of :: "string \<Rightarrow> registry_preset" where
  "preset_of i = (case find (\<lambda>p. rps_id p = i) REGISTRY_PRESETS of Some p \<Rightarrow> p | None \<Rightarrow> last REGISTRY_PRESETS)"

record creds_card =
  cc_adding :: bool
  cc_testing :: "id_t option"

datatype login_result = Login_result bool "string option"

definition test_login :: "registry_credential \<Rightarrow> (login_result, creds_card) prog" where
  "test_login c = Update (cc_testing_update (\<lambda>_. Some (rc_id c)))
    (Fetch (post (''/api/registries/credentials/test?id='' @ rc_id c) None) (\<lambda>r.
       let fin = Update (cc_testing_update (\<lambda>_. None)) Stop in case r of
         Inl e \<Rightarrow> tell Notice_error (''Couldn'' @ apostrophe @ ''t test'') (Some (errMsg e)) fin
       | Inr (Login_result ok err) \<Rightarrow>
           if ok then tell Notice_ok (''Logged in to '' @ rc_server c) None fin
           else tell Notice_error (rc_server c @ '' refused the login'') err fin))"

definition remove_login_question :: "registry_credential \<Rightarrow> confirm_input" where
  "remove_login_question c = \<lparr>ci_title = ''Remove the login for '' @ rc_server c @ ''?'',
     ci_text = ''Private images from this registry can'' @ apostrophe @ ''t be pulled or updated until you add it again. Containers that are already running keep running.'',
     ci_confirmLabel = ''Remove'', ci_danger = True, ci_details = [(''User'', rc_username c)], ci_typeToConfirm = None\<rparr>"

definition remove_login :: "registry_credential \<Rightarrow> (login_result, creds_card) prog" where
  "remove_login c = Query (remove_login_question c) (\<lambda>ok. if \<not> ok then Stop else
     attempt (del (''/api/registries/credentials/'' @ rc_id c)) (''Couldn'' @ apostrophe @ ''t remove'')
       (\<lambda>_. tell Notice_ok (''Removed '' @ rc_server c) None (Refresh ''/api/registries/credentials'' Stop)))"

datatype creds_event = Creds_add | Creds_added | Creds_test registry_credential | Creds_remove registry_credential

fun creds_step :: "creds_event \<Rightarrow> (login_result, creds_card) prog" where
  "creds_step Creds_add = Update (cc_adding_update (\<lambda>_. True)) Stop"
| "creds_step Creds_added = Update (cc_adding_update (\<lambda>_. False)) Stop"
| "creds_step (Creds_test c) = test_login c"
| "creds_step (Creds_remove c) = remove_login c"

definition creds_row :: "(string \<Rightarrow> string) \<Rightarrow> creds_card \<Rightarrow> registry_credential \<Rightarrow> creds_event view" where
  "creds_row age st c = Group
    [Text (rc_server c), Text (rc_username c @ '' '' @ middot @ '' '' @ used_text age ''not used yet'' (rc_lastUsedAt c)),
     Button ''Test'' (cc_testing st \<noteq> Some (rc_id c)) (Creds_test c), Button (''Remove '' @ rc_server c) True (Creds_remove c)]"

definition creds_view :: "(string \<Rightarrow> string) \<Rightarrow> registry_credential list option \<Rightarrow> creds_event view \<Rightarrow> creds_card \<Rightarrow> creds_event view" where
  "creds_view age creds form st = Group
    [ink_head ''Private registries'' (Some ''logins Dockhand uses on every host'') [shown_if (\<not> cc_adding st) (Button ''Add'' True Creds_add)],
     Text (''Used for pulls, compose deploys and update checks. Hosts are never logged in: each command gets a temporary Docker config that'' @ apostrophe @ ''s deleted when it finishes.''),
     shown_if (cc_adding st) form,
     (case creds of None \<Rightarrow> Group [] | Some cs \<Rightarrow> Group
        [shown_if (cs = [] \<and> \<not> cc_adding st) (Text ''No private registries yet. Public images work without one.''),
         Group (map (creds_row age st) cs)])]"

lemma logins_delete_after_yes: "asks_before removes (creds_step e)"
  by (cases e) (auto simp: test_login_def remove_login_def Let_def sum_all split: login_result.splits)

section \<open>Adding a login\<close>

text \<open>What is awaited: the test, or the answer to storing, with whether it was tested.\<close>

datatype login_wait = Await_test | Await_store bool

record registry_login =
  rl_preset :: string
  rl_server :: string
  rl_user :: string
  rl_pass :: string
  rl_err :: string
  rl_failed :: bool
  rl_busy :: bool
  rl_waiting :: "(login_wait \<times> string \<times> string \<times> string) option"

text \<open>The login as sent; \<open>rl_waiting\<close> is the one whose answer is awaited.\<close>

definition login_body :: "registry_login \<Rightarrow> string \<times> string \<times> string" where
  "login_body f = (trim (rl_server f), trim (rl_user f), rl_pass f)"

definition login_json :: "string \<times> string \<times> string \<Rightarrow> json" where
  "login_json b = (case b of (s, u, p) \<Rightarrow> JObj [(''server'', JStr s), (''username'', JStr u), (''password'', JStr p)])"

definition test_call :: "string \<times> string \<times> string \<Rightarrow> http_call" where
  "test_call b = post ''/api/registries/credentials/test'' (Some (login_json b))"

definition store_call :: "string \<times> string \<times> string \<Rightarrow> http_call" where
  "store_call b = post ''/api/registries/credentials'' (Some (login_json b))"

datatype login_event = Lg_preset string | Lg_server string | Lg_user string | Lg_pass string | Lg_save bool
  | Lg_tested "js_error + login_result" | Lg_stored "js_error + registry_credential"

definition login_start :: registry_login where
  "login_start = \<lparr>rl_preset = ''ghcr.io'', rl_server = ''ghcr.io'', rl_user = [], rl_pass = [], rl_err = [], rl_failed = False,
     rl_busy = False, rl_waiting = None\<rparr>"

text \<open>The effect that runs when the server, user or password has changed.\<close>

definition login_edited :: "registry_login \<Rightarrow> registry_login \<Rightarrow> registry_login" where
  "login_edited old f =
    (if (rl_server f, rl_user f, rl_pass f) \<noteq> (rl_server old, rl_user old, rl_pass old) then f\<lparr>rl_err := [], rl_failed := False\<rparr> else f)"

definition login_save :: "bool \<Rightarrow> registry_login \<Rightarrow> registry_login \<times> deed list" where
  "login_save skip f =
    (let f = f\<lparr>rl_err := []\<rparr>; b = login_body f in
     if trim (rl_server f) = [] \<or> trim (rl_user f) = [] \<or> rl_pass f = []
     then (f\<lparr>rl_err := ''Fill in the registry, username and password.''\<rparr>, [])
     else if skip then (f\<lparr>rl_busy := True, rl_waiting := Some (Await_store False, b)\<rparr>, [Sent (store_call b)])
     else (f\<lparr>rl_busy := True, rl_waiting := Some (Await_test, b)\<rparr>, [Sent (test_call b)]))"

definition login_ended :: "registry_login \<Rightarrow> registry_login" where
  "login_ended f = f\<lparr>rl_busy := False, rl_waiting := None\<rparr>"

definition stored_toast :: "bool \<Rightarrow> registry_credential \<Rightarrow> deed" where
  "stored_toast tested c = Did (Show_toast (notice Notice_ok (''Saved login for '' @ rc_server c)
     (Some (if tested then ''Login tested and works.'' else ''Saved without testing.''))))"

text \<open>After a test that went well the same login is stored.\<close>

fun login_step :: "login_event \<Rightarrow> registry_login \<Rightarrow> registry_login \<times> deed list" where
  "login_step (Lg_preset i) f = (login_edited f (f\<lparr>rl_preset := i, rl_server := i\<rparr>), [])"
| "login_step (Lg_server s) f = (login_edited f (f\<lparr>rl_server := s\<rparr>), [])"
| "login_step (Lg_user s) f = (login_edited f (f\<lparr>rl_user := s\<rparr>), [])"
| "login_step (Lg_pass s) f = (login_edited f (f\<lparr>rl_pass := s\<rparr>), [])"
| "login_step (Lg_save skip) f = login_save skip f"
| "login_step (Lg_tested r) f = (case rl_waiting f of
     Some (Await_test, b) \<Rightarrow> (case r of
         Inl e \<Rightarrow> ((login_ended f)\<lparr>rl_err := errMsg e\<rparr>, [])
       | Inr (Login_result ok err) \<Rightarrow>
           if ok then (f\<lparr>rl_waiting := Some (Await_store True, b)\<rparr>, [Sent (store_call b)])
           else ((login_ended f)\<lparr>rl_err := (case err of Some e \<Rightarrow> e | None \<Rightarrow> ''The registry refused the login.''), rl_failed := True\<rparr>, []))
   | _ \<Rightarrow> (f, []))"
| "login_step (Lg_stored r) f = (case rl_waiting f of
     Some (Await_store tested, b) \<Rightarrow> (case r of
         Inl e \<Rightarrow> ((login_ended f)\<lparr>rl_err := errMsg e\<rparr>, [])
       | Inr c \<Rightarrow> (login_ended f, [stored_toast tested c, Refreshed ''/api/registries/credentials'']))
   | _ \<Rightarrow> (f, []))"

definition login_view :: "registry_login \<Rightarrow> login_event view" where
  "login_view f = (let p = preset_of (rl_preset f) in Group
    [Group (map (\<lambda>x. Button (rps_label x) True (Lg_preset (rps_id x))) REGISTRY_PRESETS),
     shown_if (rps_id p = []) (Input ''Registry'' (rl_server f) Lg_server), Input (rps_user p) (rl_user f) Lg_user,
     Group [Text (rps_hint p), shown_if (rps_tokenUrl p \<noteq> []) (Link ''Create one'' (rps_tokenUrl p))],
     Input (rps_pass p) (rl_pass f) Lg_pass, shown_if (rl_err f \<noteq> []) (Text (rl_err f)),
     shown_if (rl_failed f) (Button ''Save anyway'' (\<not> rl_busy f) (Lg_save True)),
     Button ''Test & save'' (\<not> rl_busy f) (Lg_save False)])"

text \<open>What the user and the server can do next: press a button that is there, type, or answer.\<close>

definition login_enabled :: "login_event \<Rightarrow> registry_login \<Rightarrow> bool" where
  "login_enabled e f = (case e of
     Lg_save skip \<Rightarrow> Lg_save skip \<in> set (offers (login_view f))
   | Lg_tested r \<Rightarrow> (\<exists>b. rl_waiting f = Some (Await_test, b))
   | Lg_stored r \<Rightarrow> (\<exists>t b. rl_waiting f = Some (Await_store t, b))
   | _ \<Rightarrow> True)"

lemma save_offered: "Lg_save skip \<in> set (offers (login_view f)) \<longleftrightarrow> \<not> rl_busy f \<and> (\<not> skip \<or> rl_failed f)"
  by (auto simp: login_view_def Let_def comp_def)

text \<open>Runs in which nothing is typed while an answer is awaited, with the login last refused.\<close>

inductive login_run :: "registry_login \<Rightarrow> (string \<times> string \<times> string) option \<Rightarrow> bool" where
  login_begin: "login_run login_start None"
| login_typed: "login_run f r \<Longrightarrow> \<not> rl_busy f \<Longrightarrow> e \<in> {Lg_preset s, Lg_server s, Lg_user s, Lg_pass s} \<Longrightarrow>
    login_run (fst (login_step e f)) r"
| login_pressed: "login_run f r \<Longrightarrow> login_enabled (Lg_save skip) f \<Longrightarrow> login_run (fst (login_step (Lg_save skip) f)) r"
| login_tested: "login_run f r \<Longrightarrow> rl_waiting f = Some (Await_test, b) \<Longrightarrow>
    login_run (fst (login_step (Lg_tested x) f)) (case x of Inr (Login_result False _) \<Rightarrow> Some b | _ \<Rightarrow> r)"
| login_stored: "login_run f r \<Longrightarrow> login_enabled (Lg_stored x) f \<Longrightarrow> login_run (fst (login_step (Lg_stored x) f)) r"

definition login_ok :: "registry_login \<Rightarrow> (string \<times> string \<times> string) option \<Rightarrow> bool" where
  "login_ok f r \<longleftrightarrow> (rl_busy f \<longleftrightarrow> rl_waiting f \<noteq> None) \<and> (rl_failed f \<longrightarrow> r = Some (login_body f)) \<and>
    (\<forall>t b. rl_waiting f = Some (t, b) \<longrightarrow> b = login_body f)"

lemma login_ok_edited: "login_ok f r \<Longrightarrow> \<not> rl_busy f \<Longrightarrow> rl_busy g = rl_busy f \<Longrightarrow> rl_waiting g = rl_waiting f \<Longrightarrow>
    rl_failed g = rl_failed f \<Longrightarrow> login_ok (login_edited f g) r"
  by (auto simp: login_ok_def login_edited_def login_body_def)

lemma login_run_ok: "login_run f r \<Longrightarrow> login_ok f r"
proof (induction rule: login_run.induct)
  case login_begin
  then show ?case by (simp add: login_ok_def login_start_def)
next
  case (login_typed f r e s)
  then show ?case by (auto intro!: login_ok_edited)
next
  case (login_pressed f r skip)
  then show ?case by (auto simp: login_ok_def login_save_def login_body_def Let_def login_enabled_def save_offered)
next
  case (login_tested f r b x)
  have b: "b = login_body f" using login_tested.IH login_tested.hyps unfolding login_ok_def by blast
  show ?case using login_tested.IH login_tested.hyps unfolding b
    by (auto simp: login_ok_def login_ended_def login_body_def split: sum.splits login_result.splits bool.splits)
next
  case (login_stored f r x)
  then show ?case by (auto simp: login_ok_def login_ended_def login_body_def login_enabled_def split: sum.splits)
qed

text \<open>C28: As long as nothing is typed while an answer is awaited, a login is stored untested only when the
  registry has just refused that very login.\<close>

theorem untested_login_was_refused:
  assumes "login_run f r" "login_enabled (Lg_save True) f" "snd (login_step (Lg_save True) f) = [Sent (store_call b)]"
  shows "r = Some b"
proof -
  have "rl_failed f" using assms(2) by (simp add: login_enabled_def save_offered)
  then have "r = Some (login_body f)" using login_run_ok [OF assms(1)] by (simp add: login_ok_def)
  moreover have "store_call b = store_call (login_body f)"
    using assms(3) by (auto simp: login_save_def Let_def login_body_def split: if_splits)
  ultimately show ?thesis by (auto simp: store_call_def calls login_json_def split: prod.splits)
qed

definition typed_login :: registry_login where
  "typed_login = fst (login_step (Lg_pass ''secret'') (fst (login_step (Lg_user ''ada'') login_start)))"

definition refused_login :: registry_login where
  "refused_login = fst (login_step (Lg_tested (Inr (Login_result False None))) (fst (login_step (Lg_save False) typed_login)))"

lemma trims: "trim ''ghcr.io'' = ''ghcr.io''" "trim ''ada'' = ''ada''"
  by code_simp+

lemmas login_eval = refused_login_def typed_login_def login_start_def login_edited_def login_save_def login_body_def login_ended_def Let_def trims

lemma untested_login_was_refused_witness:
  "Some (''ghcr.io'', ''ada'', ''secret'') = Some (''ghcr.io'', ''ada'', ''secret'')"
proof (rule untested_login_was_refused)
  have "login_run (fst (login_step (Lg_user ''ada'') login_start)) None"
    by (rule login_typed [OF login_begin, where s = "''ada''"]) (simp_all add: login_start_def)
  then have "login_run typed_login None"
    unfolding typed_login_def by (rule login_typed [where s = "''secret''"]) (simp_all add: login_start_def login_edited_def)
  then have "login_run (fst (login_step (Lg_save False) typed_login)) None"
    by (rule login_pressed) (simp add: login_enabled_def save_offered login_eval)
  from login_tested [OF this, of "(''ghcr.io'', ''ada'', ''secret'')" "Inr (Login_result False None)"]
  show "login_run refused_login (Some (''ghcr.io'', ''ada'', ''secret''))" by (simp add: login_eval)
  show "login_enabled (Lg_save True) refused_login" by (simp add: login_enabled_def save_offered login_eval)
  show "snd (login_step (Lg_save True) refused_login) = [Sent (store_call (''ghcr.io'', ''ada'', ''secret''))]"
    by (simp add: login_eval)
qed

text \<open>A password typed while the test of another is on its way can be stored untested: its refusal
  brings up the button for the new one.\<close>

lemma refusal_of_another_login:
  "let f = fst (login_step (Lg_tested (Inr (Login_result False None)))
       (fst (login_step (Lg_pass ''other'') (fst (login_step (Lg_save False) typed_login)))))
   in login_enabled (Lg_save True) f \<and> snd (login_step (Lg_save True) f) = [Sent (store_call (''ghcr.io'', ''ada'', ''other''))]"
  by (simp add: login_enabled_def save_offered login_eval)

end
