(* ===== verification/Page_Text.thy ===== *)
theory Page_Text
  imports View Format
begin

text \<open>
  Texts the pages share: optional texts as JavaScript tests them, the curly quotes around a name and
  the degree sign, as UTF-8.
\<close>

text \<open>A text that is there and not empty.\<close>

definition filled :: "string option \<Rightarrow> bool" where
  "filled s \<longleftrightarrow> (case s of Some x \<Rightarrow> x \<noteq> [] | None \<Rightarrow> False)"

text \<open>\<open>s ?? d\<close>.\<close>

definition text_or :: "string \<Rightarrow> string option \<Rightarrow> string" where
  "text_or d s = (case s of Some x \<Rightarrow> x | None \<Rightarrow> d)"

text \<open>\<open>s || d\<close>.\<close>

definition nonempty_or :: "string \<Rightarrow> string \<Rightarrow> string" where
  "nonempty_or d s = (if s \<noteq> [] then s else d)"

definition curly :: "string \<Rightarrow> string" where
  "curly s = map char_of [226 :: nat, 128, 156] @ s @ map char_of [226 :: nat, 128, 157]"

definition degree_sign :: string where
  "degree_sign = map char_of [194 :: nat, 176]"

lemma filled_simps [simp]: "\<not> filled None" "filled (Some x) \<longleftrightarrow> x \<noteq> []"
  by (simp_all add: filled_def)

lemma text_or_simps [simp]: "text_or d None = d" "text_or d (Some x) = x"
  by (simp_all add: text_or_def)

end
