(* ===== verification/Impact_View.thy ===== *)
theory Impact_View
  imports Page_Prog Ui_Parts Api_Machines
begin

text \<open>
  Blast radius (\<open>src/web/components/impact/Impact.tsx\<close>): what an action would take down, as the details of
  a question, as a line and as the full report.
\<close>

definition names_of :: "impact_item list \<Rightarrow> string" where
  "names_of xs = join '', '' (map ii_name xs)"

definition impactDetails :: "impact option \<Rightarrow> (string \<times> string) list" where
  "impactDetails i = (case i of None \<Rightarrow> [] | Some i \<Rightarrow>
     (if im_stops i \<noteq> [] then [(''Containers that stop'', show_nat (length (im_stops i)) @ '' '' @ dash @ '' '' @
        names_of (take 3 (im_stops i)) @ (if length (im_stops i) > 3 then ellipsis else []))] else []) @
     (if im_stacks i \<noteq> [] then [(''Stacks affected'', names_of (im_stacks i))] else []) @
     (if im_ports i \<noteq> [] then [(''Ports going quiet'', take 60 (names_of (im_ports i)))] else []) @
     (if im_monitors i \<noteq> [] then [(''Uptime checks that will fail'', names_of (im_monitors i))] else []) @
     map (\<lambda>s. (''Comes back'', s)) (im_safe i))"

fun item_color :: "impact_item_severity \<Rightarrow> string" where
  "item_color ImpactItemSeverity_crit = C_crit" | "item_color ImpactItemSeverity_warn = C_warn"
| "item_color ImpactItemSeverity_info = ''var(--ink-3)''"

fun impact_tone :: "impact_severity \<Rightarrow> string" where
  "impact_tone ImpactSeverity_crit = C_crit" | "impact_tone ImpactSeverity_warn = C_warn"
| "impact_tone ImpactSeverity_info = C_ok"

definition impact_row :: "impact_item \<Rightarrow> impact_item view" where
  "impact_row i = Group [Button (ii_name i) True i, Text (ii_detail i)]"

definition impact_group :: "string \<Rightarrow> impact_item list \<Rightarrow> impact_item view" where
  "impact_group title items = (if items = [] then Group [] else Group
     [Text (title @ '' '' @ middot @ '' '' @ show_nat (length items)), Group (map impact_row (take 40 items)),
      shown_if (length items > 40) (Text (''and '' @ show_nat (length items - 40) @ '' more''))])"

text \<open>A row with an address goes there; the others do nothing.\<close>

definition open_item :: "impact_item \<Rightarrow> shell_action list" where
  "open_item i = (case ii_href i of Some h \<Rightarrow> if h \<noteq> [] then [Go_to h] else [] | None \<Rightarrow> [])"

definition impact_panel :: "impact option \<Rightarrow> bool \<Rightarrow> impact_item view" where
  "impact_panel i loading = (case i of None \<Rightarrow> Group [] | Some i \<Rightarrow> if loading then Group [] else Group
     [Text (im_summary i), impact_group ''Containers that stop'' (im_stops i), impact_group ''Uptime checks that will fail'' (im_monitors i),
      impact_group ''Published ports going quiet'' (im_ports i), impact_group ''Stacks affected'' (im_stacks i),
      impact_group ''May depend on it'' (im_depends i), Group (map Text (im_safe i))])"

datatype impact_event = Impact_open impact_item | Impact_close

definition impact_dialog :: "string \<Rightarrow> string option \<Rightarrow> js_error + impact option \<Rightarrow> impact_event view" where
  "impact_dialog title sub r = Group
    [Text title, Text (case sub of Some s \<Rightarrow> s | None \<Rightarrow> ''What stops if you do this''),
     (case r of Inl e \<Rightarrow> Text (errMsg e) | Inr i \<Rightarrow> map_view Impact_open (impact_panel i (i = None))), Button ''Close'' True Impact_close]"

definition impactLine :: "impact option \<Rightarrow> string" where
  "impactLine i = (case i of None \<Rightarrow> [] | Some i \<Rightarrow>
     (let bits = (if im_stops i \<noteq> [] then [plural_s (int (length (im_stops i))) ''container'' @ '' stop''] else []) @
        (if im_monitors i \<noteq> [] then [plural_s (int (length (im_monitors i))) ''check'' @ '' fail''] else []) in
      if bits = [] then ''Nothing running stops'' else join ('' '' @ middot @ '' '') bits))"

lemma offers_impact_group: "offers (impact_group t items) = take 40 items"
proof -
  have "concat (map (offers \<circ> impact_row) xs) = xs" for xs by (induction xs) (simp_all add: impact_row_def)
  then show ?thesis by (simp add: impact_group_def comp_def)
qed

text \<open>The report lists what stops, fails, goes quiet, is part of it or depends on it, each group up to
  forty; what comes back by itself leads nowhere.\<close>

theorem report_lists_all:
  "offers (impact_panel (Some i) False) =
    take 40 (im_stops i) @ take 40 (im_monitors i) @ take 40 (im_ports i) @ take 40 (im_stacks i) @ take 40 (im_depends i)"
proof -
  have "concat (map (offers \<circ> Text) xs) = ([] :: impact_item list)" for xs by (induction xs) simp_all
  then show ?thesis by (simp add: impact_panel_def offers_impact_group comp_def)
qed

text \<open>The details name every affected stack and check, and nothing where nothing is affected.\<close>

lemma details_quiet:
  "impactDetails (Some i) = [] \<longleftrightarrow> im_stops i = [] \<and> im_stacks i = [] \<and> im_ports i = [] \<and> im_monitors i = [] \<and> im_safe i = []"
  by (auto simp: impactDetails_def)

end
