(* ===== verification/Machine_Panel.thy ===== *)
theory Machine_Panel
  imports Page_Text Impact_View Command_Palette "HOL-Library.List_Lexorder" "HOL-Library.Char_ord"
begin

text \<open>
  The machine side of a host (\<open>src/web/components/machines/MachinePanel.tsx\<close>): its packages, hardening
  checks, ports and services. \<open>age\<close> is \<open>ago\<close> at the moment of the render.
\<close>

section \<open>The head\<close>

definition MACHINE_INVALIDATE :: "string list" where
  "MACHINE_INVALIDATE = [''/api/machines'', ''/api/baselines'']"

fun CHECK_COLOR :: "check_status \<Rightarrow> string" where
  "CHECK_COLOR Check_ok = C_ok" | "CHECK_COLOR Check_warn = C_warn" | "CHECK_COLOR Check_bad = C_crit"
| "CHECK_COLOR Check_unknown = ''var(--fill-2)''"

datatype machine_tab = Mtab_updates | Mtab_security | Mtab_services

definition machine_offline :: "machine \<Rightarrow> bool" where
  "machine_offline m \<longleftrightarrow> m_status m = HS_offline \<or> m_status m = HS_pending"

definition machine_dot :: "machine \<Rightarrow> string" where
  "machine_dot m = (if machine_offline m then ''#9aa1ad'' else if m_status m = HS_degraded then C_warn else C_ok)"

definition machine_meta :: "machine \<Rightarrow> string" where
  "machine_meta m = join ('' '' @ middot @ '' '') (filter (\<lambda>s. s \<noteq> [])
     [if m_os m \<noteq> [] then m_os m @ '' '' @ m_release m else [], m_kernel m, if m_load m \<noteq> [] then ''load '' @ m_load m else [],
      (case m_tempC m of Some t \<Rightarrow> to_fixed 0 t @ degree_sign @ ''C'' | None \<Rightarrow> []),
      if m_uptimeSec m > 0 then ''up '' @ duration (Some (of_int (m_uptimeSec m))) else []])"

definition machine_path :: "machine \<Rightarrow> string \<Rightarrow> string" where
  "machine_path m rest = ''/api/machines/'' @ m_hostId m @ rest"

text \<open>\<open>reload\<close>: the machine itself, then the lists.\<close>

definition reload_machine :: "string \<Rightarrow> ('r, 's) prog \<Rightarrow> ('r, 's) prog" where
  "reload_machine hostId p = Refresh (''/api/machines/'' @ hostId) (Refresh ''/api/machines'' (Refresh ''/api/baselines'' p))"

text \<open>The state is \<open>busy\<close>.\<close>

definition rescan :: "string \<Rightarrow> string \<Rightarrow> string \<Rightarrow> ('r, bool) prog" where
  "rescan hostId okTitle errTitle = Update (\<lambda>_. True) (Fetch (post (''/api/machines/'' @ hostId @ ''/refresh'') None) (\<lambda>r. case r of
     Inr _ \<Rightarrow> reload_machine hostId (tell Notice_ok okTitle None (Update (\<lambda>_. False) Stop))
   | Inl e \<Rightarrow> tell Notice_error errTitle (Some (errMsg e)) (Update (\<lambda>_. False) Stop)))"

definition detail_rescan :: "machine \<Rightarrow> ('r, bool) prog" where
  "detail_rescan m = rescan (m_hostId m) (''Scanned '' @ m_name m) (''Couldn'' @ apostrophe @ ''t scan '' @ m_name m)"

definition panel_rescan :: "string \<Rightarrow> ('r, bool) prog" where
  "panel_rescan hostId = rescan hostId ''Machine scanned'' (''Couldn'' @ apostrophe @ ''t scan this machine'')"

definition machine_job :: "string \<Rightarrow> string \<Rightarrow> bool \<Rightarrow> track_opts" where
  "machine_job title fin reloads = \<lparr>tk_title = title, tk_done = Some fin, tk_invalidate = Some MACHINE_INVALIDATE, tk_quiet = False, tk_onDone = reloads\<rparr>"

definition reboot_question :: "machine \<Rightarrow> impact option \<Rightarrow> confirm_input" where
  "reboot_question m blast = \<lparr>ci_title = ''Reboot '' @ m_name m @ ''?'',
     ci_text = (case blast of Some b \<Rightarrow> im_summary b | None \<Rightarrow> ''Every container on this machine stops and starts again with it.''),
     ci_confirmLabel = ''Reboot'', ci_danger = True,
     ci_details = impactDetails blast @ (if m_rebootPkgs m \<noteq> [] then [(''Waiting on'', join '', '' (take 3 (m_rebootPkgs m)))] else []),
     ci_typeToConfirm = None\<rparr>"

text \<open>What goes down is said before the question; without an answer the question is asked all the same.\<close>

definition reboot_call :: "machine \<Rightarrow> http_call" where
  "reboot_call m = post (machine_path m ''/fix/reboot'') None"

definition reboot :: "machine \<Rightarrow> (impact, bool) prog" where
  "reboot m = Fetch (get (''/api/hosts/'' @ m_hostId m @ ''/impact?action=reboot'')) (\<lambda>r.
     Query (reboot_question m (case r of Inr b \<Rightarrow> Some b | Inl _ \<Rightarrow> None)) (\<lambda>ok. if \<not> ok then Stop else
       Track (machine_job (''Rebooting '' @ m_name m) (m_name m @ '' is rebooting'') False) (reboot_call m) Stop))"

datatype machine_event = Machine_rescan | Machine_open | Machine_reboot | Machine_ssh

definition machine_head :: "machine \<Rightarrow> bool \<Rightarrow> machine_event view" where
  "machine_head m busy = (let off = machine_offline m; meta = machine_meta m in Group
     [Text (initial (m_name m)), Text (m_name m), Text (if off then ''offline'' else status_text (m_status m)),
      Text (if meta \<noteq> [] then meta else ''not scanned yet''),
      Button ''Rescan'' (\<not> busy \<and> \<not> off) Machine_rescan, Button ''Open host'' True Machine_open,
      Button ''Reboot'' (\<not> off) Machine_reboot, Button ''Open SSH'' (\<not> off) Machine_ssh])"

definition machine_step :: "machine \<Rightarrow> machine_event \<Rightarrow> (impact, bool) prog" where
  "machine_step m e = (case e of
     Machine_rescan \<Rightarrow> detail_rescan m | Machine_reboot \<Rightarrow> reboot m
   | Machine_open \<Rightarrow> Shell_do (Go_to (''/hosts/'' @ m_hostId m)) Stop
   | Machine_ssh \<Rightarrow> Shell_do (Show_terminal (T_shell (m_hostId m))) Stop)"

definition count_opt :: "nat \<Rightarrow> int option" where
  "count_opt n = (if n = 0 then None else Some (int n))"

definition failing_check :: "machine_check \<Rightarrow> bool" where
  "failing_check c \<longleftrightarrow> mc_status c = Check_bad \<or> mc_status c = Check_warn"

definition machine_tabs :: "machine \<Rightarrow> machine_tab tab_item list" where
  "machine_tabs m =
    [\<lparr>tab_value = Mtab_updates, tab_label = ''Updates'', tab_count = count_opt (length (m_packages m))\<rparr>,
     \<lparr>tab_value = Mtab_security, tab_label = ''Security'', tab_count = count_opt (length (filter failing_check (m_checks m)))\<rparr>,
     \<lparr>tab_value = Mtab_services, tab_label = ''Services'', tab_count = count_opt (length (filter (\<lambda>s. msv_active s = ''running'') (m_services m)))\<rparr>]"

section \<open>Packages\<close>

text \<open>
  The packages ticked, in the order they were, and what installing them would restart: predicted a
  quarter of a second after the last change, and shown until the next answer. An impact is kept with the
  packages it was asked for, which the screen does not show.
\<close>

record patches =
  pt_host :: string
  pt_count :: nat
  pt_picked :: "string list"
  pt_impact :: "(string list \<times> patch_impact) option"
  pt_predicting :: bool
  pt_wait :: "string list option"
  pt_sent :: "(nat \<times> string list) list"
  pt_seq :: nat

definition picked_key :: "string list \<Rightarrow> string" where
  "picked_key ps = join '','' (sort ps)"

definition secure_packages :: "machine \<Rightarrow> string list" where
  "secure_packages m = uniq (map mp_name (filter mp_security (m_packages m)))"

definition package_names :: "machine \<Rightarrow> string list" where
  "package_names m = uniq (map mp_name (m_packages m))"

text \<open>The effect on the packages ticked: an earlier request is not listened to any more.\<close>

definition predict :: "patches \<Rightarrow> patches" where
  "predict st = (if pt_picked st = [] then st\<lparr>pt_seq := Suc (pt_seq st), pt_wait := None, pt_impact := None\<rparr>
     else st\<lparr>pt_seq := Suc (pt_seq st), pt_wait := Some (pt_picked st), pt_predicting := True\<rparr>)"

definition set_picked :: "string list \<Rightarrow> patches \<Rightarrow> patches" where
  "set_picked ps st = (let st' = st\<lparr>pt_picked := ps\<rparr> in if picked_key ps = picked_key (pt_picked st) then st' else predict st')"

datatype patch_event = Patch_toggle string | Patch_all | Patch_machine machine | Patch_due | Patch_answer nat "js_error + patch_impact"

definition toggled_pick :: "string \<Rightarrow> string list \<Rightarrow> string list" where
  "toggled_pick n ps = (if n \<in> set ps then filter (\<lambda>x. x \<noteq> n) ps else ps @ [n])"

definition all_picked :: "machine \<Rightarrow> patches \<Rightarrow> bool" where
  "all_picked m st \<longleftrightarrow> length (pt_picked st) = length (m_packages m)"

text \<open>New data of the machine tick its security updates again, if the machine or the number of packages
  is another one.\<close>

fun patch_step :: "machine \<Rightarrow> patch_event \<Rightarrow> patches \<Rightarrow> patches" where
  "patch_step m (Patch_toggle n) st = set_picked (toggled_pick n (pt_picked st)) st"
| "patch_step m Patch_all st = set_picked (if all_picked m st then [] else package_names m) st"
| "patch_step m (Patch_machine m') st =
    (if pt_host st = m_hostId m' \<and> pt_count st = length (m_packages m') then st
     else (let st' = st\<lparr>pt_host := m_hostId m', pt_count := length (m_packages m')\<rparr> in
       if pt_host st = m_hostId m' then set_picked (secure_packages m') st'
       else predict (st'\<lparr>pt_picked := secure_packages m'\<rparr>)))"
| "patch_step m Patch_due st = (case pt_wait st of
     Some ps \<Rightarrow> st\<lparr>pt_wait := None, pt_sent := (pt_seq st, ps) # pt_sent st\<rparr> | None \<Rightarrow> st)"
| "patch_step m (Patch_answer n r) st =
    (case map_of (pt_sent st) n of
       None \<Rightarrow> st
     | Some ps \<Rightarrow> (let st' = st\<lparr>pt_sent := filter (\<lambda>x. fst x \<noteq> n) (pt_sent st)\<rparr> in
         if n \<noteq> pt_seq st then st'
         else st'\<lparr>pt_impact := (case r of Inr i \<Rightarrow> Some (ps, i) | Inl _ \<Rightarrow> None), pt_predicting := False\<rparr>))"

definition patches_start :: "machine \<Rightarrow> patches" where
  "patches_start m = predict \<lparr>pt_host = m_hostId m, pt_count = length (m_packages m), pt_picked = secure_packages m, pt_impact = None,
     pt_predicting = False, pt_wait = None, pt_sent = [], pt_seq = 0\<rparr>"

text \<open>The request a prediction makes.\<close>

definition predict_call :: "string \<Rightarrow> string list \<Rightarrow> http_call" where
  "predict_call hostId ps = post (''/api/machines/'' @ hostId @ ''/patch-impact'') (Some (JObj [(''packages'', JArr (map JStr ps))]))"

definition aptUpdate :: "machine \<Rightarrow> ('r, 's) prog" where
  "aptUpdate m = Track (machine_job (''apt update on '' @ m_name m) ''Package lists refreshed'' True) (post (machine_path m ''/apt-update'') None) Stop"

definition install_details :: "machine \<Rightarrow> patch_impact option \<Rightarrow> string list \<Rightarrow> (string \<times> string) list" where
  "install_details m impact names =
    [(''Security updates'', show_nat (length (filter (\<lambda>p. mp_name p \<in> set names \<and> mp_security p) (m_packages m))))] @
    (case impact of None \<Rightarrow> [] | Some i \<Rightarrow>
       (if pi_docker i then [(''Docker restarts'', plural_s (int (length (pi_containers i))) ''container'' @ '' stop briefly'')] else []) @
       (if pi_services i \<noteq> [] then [(''Services restarting'', join '', '' (pi_services i))] else []) @
       (if pi_reboot i then [(''Afterwards'', ''a reboot is needed to finish'')] else [])) @
    map (\<lambda>n. (n, case find (\<lambda>p. mp_name p = n) (m_packages m) of Some p \<Rightarrow> mp_candidate p | None \<Rightarrow> [])) (take 3 names)"

definition install_question :: "machine \<Rightarrow> patch_impact option \<Rightarrow> string list \<Rightarrow> confirm_input" where
  "install_question m impact names = \<lparr>ci_title = ''Install '' @ plural_s (int (length names)) ''update'' @ '' on '' @ m_name m @ ''?'',
     ci_text = (case impact of Some i \<Rightarrow> pi_summary i | None \<Rightarrow> ''apt installs them now, keeping your existing config files.''),
     ci_confirmLabel = ''Install '' @ show_nat (length names), ci_danger = (case impact of Some i \<Rightarrow> pi_docker i | None \<Rightarrow> False),
     ci_details = install_details m impact names, ci_typeToConfirm = None\<rparr>"

definition install_call :: "machine \<Rightarrow> string list \<Rightarrow> http_call" where
  "install_call m names = post (machine_path m ''/install'') (Some (JObj [(''packages'', JArr (map JStr names))]))"

definition install_packages :: "machine \<Rightarrow> patches \<Rightarrow> ('r, 's) prog" where
  "install_packages m st = (let names = pt_picked st in
     if names = [] then Stop
     else Query (install_question m (map_option snd (pt_impact st)) names) (\<lambda>ok. if \<not> ok then Stop else
       Track (machine_job (''Installing updates on '' @ m_name m) (m_name m @ '' updated'') True) (install_call m names) Stop))"

fun patch_tone :: "patch_impact_severity \<Rightarrow> string" where
  "patch_tone PatchImpactSeverity_crit = C_crit" | "patch_tone PatchImpactSeverity_warn = C_warn" | "patch_tone PatchImpactSeverity_info = C_ok"

definition patch_impact_line :: "patch_impact option \<Rightarrow> 'e view" where
  "patch_impact_line impact = (case impact of None \<Rightarrow> Group [] | Some i \<Rightarrow> Group
    [Text (pi_summary i),
     shown_if (pi_containers i \<noteq> []) (Text (''Stops: '' @ names_of (take 6 (pi_containers i)) @
       (if length (pi_containers i) > 6 then '' and '' @ show_nat (length (pi_containers i) - 6) @ '' more'' else []))),
     shown_if (pi_pending i \<noteq> []) (Text (''Already waiting for a restart: '' @ join '', '' (pi_pending i))),
     shown_if (pi_details i \<noteq> []) (Text (join ('' '' @ middot @ '' '') (map (\<lambda>d. pp_name d @ '' '' @ dash @ '' '' @ pp_detail d) (take 3 (pi_details i)))))])"

definition package_row :: "machine_package \<Rightarrow> patch_event view" where
  "package_row p = Group [Button (mp_name p) True (Patch_toggle (mp_name p)), Text (mp_current p @ '' '' @ arrow @ '' '' @ mp_candidate p),
     Text (if mp_security p then ''security'' else ''standard'')]"

datatype packages_event = Pick patch_event | Apt_update | Install

definition packages_view :: "(string \<Rightarrow> string) \<Rightarrow> machine \<Rightarrow> patches \<Rightarrow> packages_event view" where
  "packages_view age m st =
    (if m_pkgManager m \<noteq> ''apt'' then
       Text (if filled (m_collectedAt m) then ''This machine doesn'' @ apostrophe @ ''t use apt, so Dockhand can'' @ apostrophe @
           ''t manage its packages. Its services, ports and hardening checks still work.''
         else ''Not scanned yet '' @ dash @ '' press Rescan to read this machine.'')
     else if m_packages m = [] then Group
       [Text ''Everything is current'',
        Text ((if filled (m_lastPatchAt m) then ''Patched '' @ age (text_or [] (m_lastPatchAt m)) else ''No pending updates'') @
          (if filled (m_aptUpdateAt m) then '' '' @ middot @ '' package lists from '' @ age (text_or [] (m_aptUpdateAt m)) else [])),
        Button ''apt update'' True Apt_update]
     else (let n = length (pt_picked st) in Group
       [Button (if all_picked m st then ''Deselect all'' else ''Select all'') True (Pick Patch_all),
        Group (map (\<lambda>p. map_view Pick (package_row p)) (m_packages m)),
        shown_if (n > 0) (patch_impact_line (map_option snd (pt_impact st))),
        Text ((if n > 0 then plural_s (int n) ''package'' @ '' selected'' else ''Nothing selected'') @
          (if filled (m_aptUpdateAt m) then '' '' @ middot @ '' lists from '' @ age (text_or [] (m_aptUpdateAt m)) else [])),
        Button ''apt update'' True Apt_update,
        Button (''Install '' @ (if n > 0 then show_nat n else []) @ '' '' @ (if n = 1 then ''update'' else ''updates'')) (n > 0) Install]))"

section \<open>Hardening and services\<close>

definition fix_question :: "machine \<Rightarrow> machine_check \<Rightarrow> confirm_input" where
  "fix_question m c = \<lparr>ci_title = mc_title c @ '' on '' @ m_name m @ ''?'',
     ci_text = (case mc_fixNote c of Some n \<Rightarrow> n | None \<Rightarrow> ''Dockhand applies this change over SSH.''),
     ci_confirmLabel = ''Apply'', ci_danger = (mc_fixRisky c = Some True),
     ci_details = [(''Machine'', m_name m), (''Now'', mc_sub c)], ci_typeToConfirm = None\<rparr>"

definition fix_check :: "machine \<Rightarrow> machine_check \<Rightarrow> ('r, 's) prog" where
  "fix_check m c = Query (fix_question m c) (\<lambda>ok. if \<not> ok then Stop else
     Track (machine_job (mc_title c @ '' on '' @ m_name m) (mc_title c @ '' applied'') True) (post (machine_path m (''/fix/'' @ mc_id c)) None) Stop)"

definition check_row :: "machine \<Rightarrow> machine_check \<Rightarrow> machine_check view" where
  "check_row m c = Group [Text (mc_title c), Text (mc_sub c), shown_if (mc_fix c \<noteq> [] \<and> failing_check c) (Button ''Fix'' (m_sudo m) c)]"

definition port_row :: "machine_port \<Rightarrow> 'e view" where
  "port_row p = Group [Text (show_int (mpt_port p)), Text (if mpt_process p \<noteq> [] then mpt_process p else dash),
     Text (if mpt_public p then ''all interfaces'' else ''localhost'')]"

definition hardening_score :: "machine \<Rightarrow> string" where
  "hardening_score m = show_nat (length (filter (\<lambda>c. mc_status c = Check_ok) (m_checks m))) @ ''/'' @ show_nat (length (m_checks m)) @ '' passing''"

definition security_view :: "machine \<Rightarrow> machine_check view" where
  "security_view m = Group
    [Text (''Hardening '' @ middot @ '' '' @ (if m_checks m \<noteq> [] then hardening_score m else ''not scanned'')),
     Group (map (check_row m) (m_checks m)), shown_if (m_checks m = []) (Text ''Press Rescan to audit this machine.''),
     Text ''Listening ports'', Group (map port_row (m_ports m)),
     shown_if (m_ports m = []) (Text ''No listening ports found (Dockhand may need root to read them).'')]"

text \<open>Failed services first, then the running ones; \<open>compare\<close> is \<open>localeCompare\<close>.\<close>

definition service_rank :: "machine_service \<Rightarrow> real" where
  "service_rank s = (if msv_active s = ''failed'' then 0 else if msv_active s = ''running'' then 1 else 2)"

definition service_hit :: "string \<Rightarrow> machine_service \<Rightarrow> bool" where
  "service_hit q s \<longleftrightarrow> (let t = to_lower (trim q) in
     t = [] \<or> str_includes (to_lower (msv_name s)) t \<or> str_includes (to_lower (msv_description s)) t)"

definition service_cmp :: "(string \<Rightarrow> string \<Rightarrow> real) \<Rightarrow> machine_service \<Rightarrow> machine_service \<Rightarrow> real" where
  "service_cmp compare = or_else (by_key service_rank) (on_key compare msv_name)"

definition shown_services :: "(string \<Rightarrow> string \<Rightarrow> real) \<Rightarrow> string \<Rightarrow> machine_service list \<Rightarrow> machine_service list" where
  "shown_services compare q ss = js_sort (service_cmp compare) (filter (service_hit q) ss)"

datatype service_action = Service_start | Service_stop | Service_restart

fun service_verb :: "service_action \<Rightarrow> string" where
  "service_verb Service_start = ''start''" | "service_verb Service_stop = ''stop''" | "service_verb Service_restart = ''restart''"

fun service_done :: "service_action \<Rightarrow> string" where
  "service_done Service_start = ''started''" | "service_done Service_stop = ''stopped''" | "service_done Service_restart = ''restarted''"

definition service_question :: "machine \<Rightarrow> machine_service \<Rightarrow> service_action \<Rightarrow> confirm_input" where
  "service_question m s a = (let w = (if a = Service_stop then ''Stop'' else ''Restart'') in
    \<lparr>ci_title = w @ '' '' @ msv_name s @ ''?'',
     ci_text = ''systemctl '' @ service_verb a @ '' '' @ msv_name s @ '' on '' @ m_name m @ ''. Anything depending on it is interrupted.'',
     ci_confirmLabel = w, ci_danger = (a = Service_stop), ci_details = [], ci_typeToConfirm = None\<rparr>)"

definition service_call :: "machine \<Rightarrow> machine_service \<Rightarrow> service_action \<Rightarrow> http_call" where
  "service_call m s a = post (machine_path m ''/service'') (Some (JObj [(''unit'', JStr (msv_name s)), (''action'', JStr (service_verb a))]))"

definition act_service :: "machine \<Rightarrow> machine_service \<Rightarrow> service_action \<Rightarrow> ('r, 's) prog" where
  "act_service m s a = (let go = Track (machine_job (service_verb a @ '' '' @ msv_name s) (msv_name s @ '' '' @ service_done a) True) (service_call m s a) Stop in
     if a = Service_start then go else Query (service_question m s a) (\<lambda>ok. if ok then go else Stop))"

definition service_color :: "string \<Rightarrow> string" where
  "service_color s = (if s = ''running'' then C_ok else if s = ''failed'' then C_crit else if s = ''activating'' then C_warn else ''var(--muted)'')"

definition machine_service_row :: "machine \<Rightarrow> machine_service \<Rightarrow> (machine_service \<times> service_action) view" where
  "machine_service_row m s = (let run = msv_active s = ''running'' in Group
    [Text (msv_name s), Text (if msv_description s \<noteq> [] then msv_description s else if msv_enabled s then ''enabled at boot'' else ''not enabled at boot''),
     Text (msv_active s), Text (if msv_enabled s then ''enabled'' else ''manual''),
     Button (if run then ''Restart'' else ''Start'') (m_sudo m) (s, if run then Service_restart else Service_start),
     shown_if run (Button (''Stop '' @ msv_name s) (m_sudo m) (s, Service_stop))])"

datatype services_event = Services_type string | Services_act machine_service service_action

definition services_view :: "(string \<Rightarrow> string \<Rightarrow> real) \<Rightarrow> machine \<Rightarrow> string \<Rightarrow> services_event view" where
  "services_view compare m q = Group
    [shown_if (length (m_services m) > 8) (Input (''Filter services'' @ ellipsis) q Services_type),
     Group (map (\<lambda>s. map_view (\<lambda>(s, a). Services_act s a) (machine_service_row m s)) (shown_services compare q (m_services m))),
     shown_if (m_services m = []) (Text ''No systemd services found on this machine.'')]"

section \<open>The three tabs\<close>

datatype body_event = Body_tab machine_tab | Body_packages packages_event | Body_fix machine_check | Body_services services_event

definition machine_body :: "(string \<Rightarrow> string) \<Rightarrow> (string \<Rightarrow> string \<Rightarrow> real) \<Rightarrow> machine \<Rightarrow> machine_tab \<Rightarrow> patches \<Rightarrow> string \<Rightarrow> body_event view" where
  "machine_body age compare m tab st q = Group
    [shown_if (m_error m \<noteq> []) (Text (m_error m)), map_view Body_tab (tabs_view (machine_tabs m) id),
     (case tab of
        Mtab_updates \<Rightarrow> map_view Body_packages (packages_view age m st)
      | Mtab_security \<Rightarrow> map_view Body_fix (security_view m)
      | Mtab_services \<Rightarrow> map_view Body_services (services_view compare m q))]"

definition body_prog :: "machine \<Rightarrow> patches \<Rightarrow> body_event \<Rightarrow> ('r, 's) prog" where
  "body_prog m st e = (case e of
     Body_packages Apt_update \<Rightarrow> aptUpdate m | Body_packages Install \<Rightarrow> install_packages m st | Body_fix c \<Rightarrow> fix_check m c
   | Body_services (Services_act s a) \<Rightarrow> act_service m s a | _ \<Rightarrow> Stop)"

text \<open>The panel on the host page has no head of its own.\<close>

definition machine_panel :: "(string \<Rightarrow> string) \<Rightarrow> (string \<Rightarrow> string \<Rightarrow> real) \<Rightarrow> js_error option \<Rightarrow> machine option \<Rightarrow> bool \<Rightarrow> machine_tab \<Rightarrow>
    patches \<Rightarrow> string \<Rightarrow> (unit + body_event) view" where
  "machine_panel age compare err m busy tab st q = (case m of
     None \<Rightarrow> (case err of Some e \<Rightarrow> Text (errMsg e) | None \<Rightarrow> Group [])
   | Some m \<Rightarrow> Group
      [Text (if machine_meta m \<noteq> [] then machine_meta m else ''not scanned yet''), Button ''Rescan'' (\<not> busy) (Inl ()),
       map_view Inr (machine_body age compare m tab st q)])"

section \<open>What holds\<close>

text \<open>Nothing that interrupts the machine or its services starts before a yes.\<close>

definition interrupting :: "machine \<Rightarrow> http_call \<Rightarrow> bool" where
  "interrupting m c \<longleftrightarrow> c = reboot_call m \<or> (\<exists>ps. c = install_call m ps) \<or> (\<exists>x. c = post (machine_path m (''/fix/'' @ x)) None) \<or>
     (\<exists>s a. a \<noteq> Service_start \<and> c = service_call m s a)"

lemma machine_path_inj [simp]: "machine_path m a = machine_path m b \<longleftrightarrow> a = b"
  by (simp add: machine_path_def)

lemma service_verb_inj: "service_verb a = service_verb b \<longleftrightarrow> a = b"
  by (cases a; cases b) simp_all

lemma service_verb_start [simp]: "''start'' = service_verb a \<longleftrightarrow> a = Service_start"
  by (cases a) simp_all

theorem machine_asks_first:
  "asks_before (interrupting m) (body_prog m st e) \<and> asks_before (interrupting m) (machine_step m e')"
proof
  show "asks_before (interrupting m) (body_prog m st e)"
    by (auto simp: body_prog_def aptUpdate_def install_packages_def fix_check_def act_service_def Let_def interrupting_def
        reboot_call_def install_call_def service_call_def calls service_verb_inj
        split: body_event.splits packages_event.splits services_event.splits)
  show "asks_before (interrupting m) (machine_step m e')"
    by (auto simp: machine_step_def detail_rescan_def rescan_def reload_machine_def reboot_def interrupting_def
        reboot_call_def install_call_def service_call_def calls tell_def machine_path_def split: machine_event.splits sum.splits)
qed

text \<open>The services are those that match, the failed ones first, then the running ones.\<close>

lemma service_cmp_comparator:
  assumes "comparator compare"
  shows "comparator (service_cmp compare)"
  unfolding service_cmp_def by (intro comparator_or_else comparator_by_key comparator_on_key assms)

theorem services_ordered:
  assumes "comparator compare"
  shows "mset (shown_services compare q ss) = filter_mset (service_hit q) (mset ss) \<and>
    sorted_wrt (\<lambda>a b. service_rank a \<le> service_rank b) (shown_services compare q ss)"
proof
  show "mset (shown_services compare q ss) = filter_mset (service_hit q) (mset ss)" by (simp add: shown_services_def)
  have "sorted_wrt (\<lambda>a b. service_cmp compare a b \<le> 0) (shown_services compare q ss)"
    unfolding shown_services_def by (rule comparator.sorted_js_sort [OF service_cmp_comparator [OF assms]])
  moreover have "service_cmp compare a b \<le> 0 \<Longrightarrow> service_rank a \<le> service_rank b" for a b
    by (auto simp: service_cmp_def or_else_def by_key_def split: if_splits)
  ultimately show "sorted_wrt (\<lambda>a b. service_rank a \<le> service_rank b) (shown_services compare q ss)"
    by (rule sorted_wrt_mono_rel [rotated]) auto
qed

lemma services_ordered_witness:
  "mset (shown_services (by_key (\<lambda>s. real (length s))) [] []) = filter_mset (service_hit []) {#} \<and>
   sorted_wrt (\<lambda>a b. service_rank a \<le> service_rank b) (shown_services (by_key (\<lambda>s. real (length s))) [] [])"
  using services_ordered [OF comparator_by_key [of "\<lambda>s. real (length s)"], of "[]" "[]"] by simp

text \<open>The prediction: what is shown is for the packages ticked, unless a newer answer is still to come.\<close>

definition patch_pending :: "patches \<Rightarrow> bool" where
  "patch_pending st \<longleftrightarrow> pt_wait st \<noteq> None \<or> pt_seq st \<in> fst ` set (pt_sent st)"

definition patches_ok :: "patches \<Rightarrow> bool" where
  "patches_ok st \<longleftrightarrow>
     (\<forall>ps. pt_wait st = Some ps \<longrightarrow> picked_key ps = picked_key (pt_picked st)) \<and>
     (\<forall>r \<in> set (pt_sent st). fst r \<le> pt_seq st \<and> (fst r = pt_seq st \<longrightarrow> picked_key (snd r) = picked_key (pt_picked st))) \<and>
     (\<forall>ps i. pt_impact st = Some (ps, i) \<longrightarrow> patch_pending st \<or> picked_key ps = picked_key (pt_picked st))"

definition patch_run :: "machine \<Rightarrow> patch_event list \<Rightarrow> machine \<times> patches" where
  "patch_run m es = fold (\<lambda>e (m, st). (case e of Patch_machine m' \<Rightarrow> m' | _ \<Rightarrow> m, patch_step m e st)) es (m, patches_start m)"

lemma predict_ok: "\<forall>r \<in> set (pt_sent st). fst r \<le> pt_seq st \<Longrightarrow> patches_ok (predict st)"
  by (fastforce simp: patches_ok_def predict_def patch_pending_def)

lemma patches_ok_sent: "patches_ok st \<Longrightarrow> \<forall>r \<in> set (pt_sent st). fst r \<le> pt_seq st"
  by (simp add: patches_ok_def)

lemma patches_ok_picked:
  "picked_key ps = picked_key (pt_picked st) \<Longrightarrow> patches_ok (st\<lparr>pt_picked := ps\<rparr>) = patches_ok st"
  by (simp add: patches_ok_def patch_pending_def)

lemma set_picked_ok: "patches_ok st \<Longrightarrow> patches_ok (set_picked ps st)"
  by (simp add: set_picked_def Let_def patches_ok_picked patches_ok_sent predict_ok)

lemma patches_ok_counts [simp]: "patches_ok (st\<lparr>pt_host := h, pt_count := n\<rparr>) = patches_ok st"
  by (simp add: patches_ok_def patch_pending_def)

lemma patch_step_ok:
  assumes ok: "patches_ok st"
  shows "patches_ok (patch_step m e st)"
proof (cases e)
  case (Patch_machine m')
  then show ?thesis using ok by (auto simp: Let_def set_picked_ok predict_ok patches_ok_sent)
next
  case Patch_due
  then show ?thesis using ok by (cases "pt_wait st") (auto simp: patches_ok_def patch_pending_def)
next
  case (Patch_answer n r)
  then show ?thesis using ok
    by (cases "map_of (pt_sent st) n"; cases r)
      (force simp: patches_ok_def patch_pending_def Let_def dest: map_of_SomeD)+
qed (use ok in \<open>auto intro: set_picked_ok\<close>)

theorem patch_impact_current:
  "let st = snd (patch_run m es) in
     patch_pending st \<or> (case pt_impact st of Some (ps, i) \<Rightarrow> picked_key ps = picked_key (pt_picked st) | None \<Rightarrow> True)"
proof -
  have step: "patches_ok (snd x) \<Longrightarrow> patches_ok (snd (fold (\<lambda>e (m, st). (case e of Patch_machine m' \<Rightarrow> m' | _ \<Rightarrow> m, patch_step m e st)) es x))" for x
    by (induction es arbitrary: x) (auto simp: patch_step_ok split: prod.splits)
  have "patches_ok (patches_start m)" unfolding patches_start_def by (rule predict_ok) simp
  then have "patches_ok (snd (patch_run m es))" unfolding patch_run_def by (intro step) simp
  then show ?thesis by (auto simp: Let_def patches_ok_def split: option.splits)
qed

text \<open>Until that answer, the question before installing tells what an older choice would have restarted.\<close>

definition apt_machine :: "machine_package list \<Rightarrow> machine" where
  "apt_machine ps = \<lparr>m_hostId = ''h1'', m_name = ''web'', m_color = [], m_status = HS_online, m_method = [], m_os = ''Debian'', m_release = ''12'',
     m_kernel = ''6.1'', m_arch = [], m_pkgManager = ''apt'', m_uptimeSec = 0, m_load = [], m_tempC = None, m_reboot = False, m_rebootPkgs = [],
     m_packages = ps, m_security = 0, m_services = [], m_ports = [], m_checks = [], m_sudo = True, m_lastPatchAt = None, m_aptUpdateAt = None,
     m_collectedAt = Some ''t'', m_error = [], m_baselines = [], m_drift = 0\<rparr>"

definition pack :: "string \<Rightarrow> bool \<Rightarrow> machine_package" where
  "pack n s = \<lparr>mp_name = n, mp_current = ''1'', mp_candidate = ''2'', mp_origin = [], mp_security = s\<rparr>"

definition quiet_impact :: patch_impact where
  "quiet_impact = \<lparr>pi_packages = 1, pi_security = 1, pi_docker = False, pi_reboot = False, pi_services = [], pi_pending = [], pi_containers = [],
     pi_details = [], pi_summary = ''Nothing restarts'', pi_severity = PatchImpactSeverity_info\<rparr>"

lemma install_question_late:
  "let (m, st) = patch_run (apt_machine [pack ''vim'' True, pack ''docker-ce'' False]) [Patch_due, Patch_answer 1 (Inr quiet_impact), Patch_toggle ''docker-ce''] in
     pt_picked st = [''vim'', ''docker-ce''] \<and> ci_text (install_question m (map_option snd (pt_impact st)) (pt_picked st)) = ''Nothing restarts''"
  by (simp add: patch_run_def patches_start_def predict_def set_picked_def secure_packages_def apt_machine_def pack_def uniq_def picked_key_def
      toggled_pick_def install_question_def quiet_impact_def)

text \<open>A list of other packages of the same length leaves the ticks as they are: all count as ticked, though
  none of those listed is, and those gone are what is sent.\<close>

lemma picks_outlive_packages:
  "let (m, st) = patch_run (apt_machine [pack ''vim'' True]) [Patch_machine (apt_machine [pack ''curl'' True])] in
     all_picked m st \<and> pt_picked st = [''vim''] \<and> package_names m = [''curl'']"
  by (simp add: patch_run_def patches_start_def predict_def secure_packages_def package_names_def apt_machine_def pack_def uniq_def all_picked_def)

end
