(* ===== verification/Machines_Page.thy ===== *)
theory Machines_Page
  imports Machine_Panel Uptime_Pages
begin

text \<open>
  The machines of the fleet and the baselines that hold groups of them to the same rules
  (\<open>src/web/app/(app)/machines/page.tsx\<close>). \<open>age\<close> is \<open>ago\<close> at the moment of the render.
\<close>

section \<open>What the address says\<close>

type_synonym address_query = "(string \<times> string) list"

datatype machines_tab = Mview_hosts | Mview_baselines

definition machines_view_of :: "address_query \<Rightarrow> machines_tab" where
  "machines_view_of q = (if map_of q ''view'' = Some ''baselines'' then Mview_baselines else Mview_hosts)"

definition param :: "string \<Rightarrow> address_query \<Rightarrow> string" where
  "param k q = (case map_of q k of Some v \<Rightarrow> v | None \<Rightarrow> [])"

fun machine_tab_text :: "machine_tab \<Rightarrow> string" where
  "machine_tab_text Mtab_updates = ''updates''" | "machine_tab_text Mtab_security = ''security''" | "machine_tab_text Mtab_services = ''services''"

definition machine_tab_of :: "address_query \<Rightarrow> machine_tab" where
  "machine_tab_of q = (if param ''tab'' q = ''security'' then Mtab_security else if param ''tab'' q = ''services'' then Mtab_services else Mtab_updates)"

text \<open>An empty value takes the name out of the address.\<close>

definition set_param :: "string \<times> string \<Rightarrow> address_query \<Rightarrow> address_query" where
  "set_param p q = (if snd p \<noteq> [] then params_set (fst p) (snd p) q else filter (\<lambda>x. fst x \<noteq> fst p) q)"

definition setParams :: "(string \<times> string) list \<Rightarrow> address_query \<Rightarrow> address_query" where
  "setParams ps q = fold set_param ps q"

definition reachable_machine :: "machine \<Rightarrow> bool" where
  "reachable_machine m \<longleftrightarrow> \<not> machine_offline m"

text \<open>The machine shown: the one of the address, else the first reachable one, else the first.\<close>

definition current_machine :: "string \<Rightarrow> machine list \<Rightarrow> machine option" where
  "current_machine selected ms = (case find (\<lambda>m. m_hostId m = selected) ms of Some m \<Rightarrow> Some m
     | None \<Rightarrow> (case find reachable_machine ms of Some m \<Rightarrow> Some m | None \<Rightarrow> (case ms of m # _ \<Rightarrow> Some m | [] \<Rightarrow> None)))"

definition current_baseline :: "string \<Rightarrow> baselines_response option \<Rightarrow> baseline option" where
  "current_baseline selected d = (case d of None \<Rightarrow> None | Some d \<Rightarrow> (case find (\<lambda>b. bl_id b = selected) (blr_baselines d) of
     Some b \<Rightarrow> Some b | None \<Rightarrow> (case blr_baselines d of b # _ \<Rightarrow> Some b | [] \<Rightarrow> None)))"

section \<open>The whole fleet\<close>

datatype fleet_action = Fleet_audit | Fleet_security | Fleet_all

fun fleet_word :: "fleet_action \<Rightarrow> string" where
  "fleet_word Fleet_audit = ''audit''" | "fleet_word Fleet_security = ''security''" | "fleet_word Fleet_all = ''all''"

fun fleet_title :: "fleet_action \<Rightarrow> string" where
  "fleet_title Fleet_audit = ''Security audit''" | "fleet_title Fleet_security = ''Install security patches''"
| "fleet_title Fleet_all = ''Patch all machines''"

fun fleet_text :: "fleet_action \<Rightarrow> string" where
  "fleet_text Fleet_audit = ''Re-reads every machine: packages, services, listening ports and hardening checks. Nothing is changed.''"
| "fleet_text Fleet_security = ''Installs only the security updates on every reachable machine. Services may restart; a reboot can still be needed afterwards.''"
| "fleet_text Fleet_all = ''Installs every pending update on every reachable machine. Services may restart; a reboot can still be needed afterwards.''"

fun fleet_label :: "fleet_action \<Rightarrow> string" where
  "fleet_label Fleet_audit = ''Run audit''" | "fleet_label Fleet_security = ''Install security patches''" | "fleet_label Fleet_all = ''Patch all''"

definition updates_text :: "nat \<Rightarrow> string" where
  "updates_text n = show_nat n @ '' update'' @ (if n = 1 then [] else ''s'')"

definition fleet_question :: "fleet_action \<Rightarrow> machine list \<Rightarrow> confirm_input" where
  "fleet_question a online = \<lparr>ci_title = fleet_title a, ci_text = fleet_text a, ci_confirmLabel = fleet_label a, ci_danger = (a \<noteq> Fleet_audit),
     ci_details = map (\<lambda>m. (m_name m, if a = Fleet_audit then (if m_os m \<noteq> [] then m_os m else dash) else updates_text (length (m_packages m)))) (take 5 online),
     ci_typeToConfirm = None\<rparr>"

definition fleet_call :: "fleet_action \<Rightarrow> http_call" where
  "fleet_call a = post (''/api/machines/fleet/'' @ fleet_word a) None"

definition fleet :: "fleet_action \<Rightarrow> machine list option \<Rightarrow> ('r, 's) prog" where
  "fleet a ms = (let online = filter reachable_machine (case ms of Some ms \<Rightarrow> ms | None \<Rightarrow> []) in
     if online = [] then tell Notice_warn ''No machines are reachable'' None Stop
     else Query (fleet_question a online) (\<lambda>ok. if \<not> ok then Stop else
       Track (machine_job (fleet_title a) (fleet_title a @ '' finished'') False) (fleet_call a) Stop))"

record machine_stat =
  ms_key :: string
  ms_value :: string
  ms_sub :: string
  ms_color :: string

definition machine_stats :: "machine list option \<Rightarrow> machine_stat list" where
  "machine_stats ms =
    (let list = (case ms of Some ms \<Rightarrow> ms | None \<Rightarrow> []); online = filter reachable_machine list;
         updates = sum_list (map (\<lambda>m. length (m_packages m)) list); sec = sum_list (map m_security list);
         reboots = length (filter m_reboot list); failing = sum_list (map (\<lambda>m. length (filter failing_check (m_checks m))) list) in
     [\<lparr>ms_key = ''Hosts'', ms_value = show_nat (length list), ms_sub = show_nat (length online) @ '' reachable'', ms_color = ''var(--ink)''\<rparr>,
      \<lparr>ms_key = ''Updates'', ms_value = show_nat updates, ms_sub = (if sec \<noteq> 0 then show_int sec @ '' security'' else ''no security updates''),
       ms_color = (if sec \<noteq> 0 then C_crit else if updates \<noteq> 0 then C_warn else C_ok)\<rparr>,
      \<lparr>ms_key = ''Reboots'', ms_value = show_nat reboots, ms_sub = (if reboots \<noteq> 0 then ''pending after updates'' else ''none pending''),
       ms_color = (if reboots \<noteq> 0 then C_warn else C_ok)\<rparr>,
      \<lparr>ms_key = ''Hardening'', ms_value = show_nat failing, ms_sub = (if failing \<noteq> 0 then ''checks failing'' else ''all checks pass''),
       ms_color = (if failing \<noteq> 0 then C_crit else C_ok)\<rparr>])"

definition s_unless :: "string \<Rightarrow> string" where
  "s_unless n = (if n = ''1'' then [] else ''s'')"

definition machines_summary :: "machine list option \<Rightarrow> string" where
  "machines_summary ms = (case ms of None \<Rightarrow> ''Reading your machines'' @ ellipsis | Some l \<Rightarrow>
     (let u = ms_value (machine_stats ms ! 1); c = ms_value (machine_stats ms ! 3) in
      ''Your '' @ plural_s (int (length l)) ''host'' @ '' from the operating system side '' @ middot @ '' '' @
      u @ '' update'' @ s_unless u @ '' waiting '' @ middot @ '' '' @ c @ '' check'' @ s_unless c @ '' failing''))"

section \<open>The cards\<close>

definition secDots :: "machine \<Rightarrow> (string \<times> string) list" where
  "secDots m = map (\<lambda>c. (mc_id c, CHECK_COLOR (mc_status c))) (take 8 (m_checks m))"

definition machine_chips :: "machine \<Rightarrow> string list" where
  "machine_chips m =
    (let other = int (length (m_packages m)) - m_security m; scanned = m_os m \<noteq> [] in
     (if m_security m > 0 then [show_int (m_security m) @ '' security''] else []) @
     (if other > 0 then [show_int other @ '' update'' @ (if other = 1 then [] else ''s'')] else []) @
     (if m_reboot m then [''reboot required''] else []) @
     (if scanned \<and> m_packages m = [] \<and> \<not> m_reboot m \<and> m_pkgManager m = ''apt'' then [''up to date''] else []) @
     (if \<not> scanned then [if m_status m = HS_offline then ''unreachable'' else ''not scanned''] else []))"

definition security_color :: "machine \<Rightarrow> string" where
  "security_color m = (if list_ex (\<lambda>c. mc_status c = Check_bad) (m_checks m) then C_crit
     else if list_ex (\<lambda>c. mc_status c = Check_warn) (m_checks m) then C_warn else C_ok)"

definition drift_text :: "int \<Rightarrow> string" where
  "drift_text d = (if d \<noteq> 0 then show_int d @ '' drift'' else ''compliant'')"

definition machine_card :: "(string \<Rightarrow> string) \<Rightarrow> machine \<Rightarrow> string view" where
  "machine_card age m = Group
    [Button (m_name m) True (m_hostId m),
     Text (if m_os m \<noteq> [] then m_os m @ '' '' @ m_release m @ '' '' @ middot @ '' '' @ m_kernel m else ''not scanned yet''),
     Group (map Text (machine_chips m)),
     Text (if m_checks m \<noteq> [] then show_nat (length (filter (\<lambda>c. mc_status c = Check_ok) (m_checks m))) @ ''/'' @ show_nat (length (m_checks m)) @ '' hardened''
       else ''no audit yet''),
     Text (if filled (m_lastPatchAt m) then ''patched '' @ age (text_or [] (m_lastPatchAt m))
       else if m_os m \<noteq> [] \<and> filled (m_collectedAt m) then ''scanned '' @ age (text_or [] (m_collectedAt m)) else []),
     Text (if m_baselines m \<noteq> [] then join '', '' (m_baselines m) else ''no baseline''),
     Text (if m_baselines m \<noteq> [] then drift_text (m_drift m) else dash)]"

section \<open>Baselines\<close>

record baselines_state =
  bs_editing :: "baseline option"
  bs_creating :: bool

definition baseline_path :: "string \<Rightarrow> string" where
  "baseline_path i = ''/api/baselines/'' @ i"

text \<open>The rules and hosts of a baseline as the API takes them.\<close>

definition input_json :: "baseline_input \<Rightarrow> json" where
  "input_json i = JObj [(''name'', JStr (bli_name i)), (''description'', JStr (bli_description i)), (''color'', JStr (bli_color i)),
     (''rules'', JArr (map JStr (bli_rules i))), (''hostIds'', JArr (map JStr (bli_hostIds i)))]"

definition reload_baselines :: "('r, 's) prog \<Rightarrow> ('r, 's) prog" where
  "reload_baselines p = Refresh ''/api/baselines'' (Refresh ''/api/machines'' p)"

definition save_baseline :: "baseline_input \<Rightarrow> string option \<Rightarrow> (unit, baselines_state) prog" where
  "save_baseline i id' = attempt (case id' of Some x \<Rightarrow> put (baseline_path x) (input_json i) | None \<Rightarrow> post ''/api/baselines'' (Some (input_json i)))
     (''Couldn'' @ apostrophe @ ''t save the baseline'')
     (\<lambda>_. tell Notice_ok (if id' \<noteq> None then ''Baseline saved'' else ''Baseline '' @ curly (bli_name i) @ '' created'') None
       (reload_baselines (Update (\<lambda>s. s\<lparr>bs_editing := None, bs_creating := False\<rparr>) Stop)))"

definition input_of :: "baseline \<Rightarrow> baseline_input" where
  "input_of b = \<lparr>bli_name = bl_name b, bli_description = bl_description b, bli_color = bl_color b, bli_rules = bl_rules b, bli_hostIds = bl_hostIds b\<rparr>"

text \<open>The whole baseline is sent, with what changes.\<close>

definition patch_baseline :: "baseline \<Rightarrow> (baseline_input \<Rightarrow> baseline_input) \<Rightarrow> (unit, baselines_state) prog" where
  "patch_baseline b f = attempt (put (baseline_path (bl_id b)) (input_json (f (input_of b)))) (''Couldn'' @ apostrophe @ ''t update the baseline'')
     (\<lambda>_. reload_baselines Stop)"

definition toggled :: "'a \<Rightarrow> 'a list \<Rightarrow> 'a list" where
  "toggled x xs = (if x \<in> set xs then filter (\<lambda>y. y \<noteq> x) xs else xs @ [x])"

definition delete_question :: "baseline \<Rightarrow> confirm_input" where
  "delete_question b = \<lparr>ci_title = ''Delete '' @ curly (bl_name b) @ ''?'',
     ci_text = ''The machines keep their current settings; only the baseline and its compliance view go away.'',
     ci_confirmLabel = ''Delete'', ci_danger = True, ci_details = [], ci_typeToConfirm = None\<rparr>"

definition remove_baseline :: "baseline \<Rightarrow> (unit, baselines_state) prog" where
  "remove_baseline b = Query (delete_question b) (\<lambda>ok. if \<not> ok then Stop else
     attempt (del (baseline_path (bl_id b))) (''Couldn'' @ apostrophe @ ''t delete'') (\<lambda>_. tell Notice_ok (''Deleted '' @ bl_name b) None (reload_baselines Stop)))"

definition apply_question :: "baseline \<Rightarrow> confirm_input" where
  "apply_question b = (let failing = sum_list (map bl_row_drift (bl_compliance b)) in
    \<lparr>ci_title = ''Apply '' @ curly (bl_name b) @ '' to '' @ plural_s (int (length (bl_compliance b))) ''machine'' @ ''?'',
     ci_text = ''Dockhand fixes every failing rule over SSH: SSH settings, the firewall, automatic updates and pending security patches. Services may restart.'',
     ci_confirmLabel = ''Fix '' @ show_int failing @ '' '' @ (if failing = 1 then ''rule'' else ''rules''), ci_danger = True,
     ci_details = map (\<lambda>r. (bl_row_name r, show_int (bl_row_drift r) @ '' failing'')) (take 5 (filter (\<lambda>r. bl_row_drift r \<noteq> 0) (bl_compliance b))),
     ci_typeToConfirm = None\<rparr>)"

definition apply_call :: "baseline \<Rightarrow> http_call" where
  "apply_call b = post (baseline_path (bl_id b) @ ''/apply'') None"

definition apply_baseline :: "baseline \<Rightarrow> (unit, baselines_state) prog" where
  "apply_baseline b = Query (apply_question b) (\<lambda>ok. if \<not> ok then Stop else
     Track (machine_job (''Applying '' @ bl_name b) (bl_name b @ '' applied'') True) (apply_call b) Stop)"

definition pct_color :: "real \<Rightarrow> string" where
  "pct_color p = (if p \<ge> 100 then C_ok else if p \<ge> 60 then C_warn else C_crit)"

definition pct_text :: "baseline \<Rightarrow> string" where
  "pct_text b = (if bl_hostIds b \<noteq> [] then show_int (js_round (bl_pct b)) @ ''%'' else dash)"

definition described :: "baseline \<Rightarrow> string" where
  "described b = (if bl_description b \<noteq> [] then bl_description b else ''No description'')"

datatype baseline_event =
  Base_select string | Base_new | Base_edit baseline | Base_delete baseline | Base_apply baseline
| Base_rule baseline string | Base_host baseline string | Base_close | Base_save baseline_input "string option"

definition baseline_card :: "baseline \<Rightarrow> baseline_event view" where
  "baseline_card b = Group [Button (bl_name b) True (Base_select (bl_id b)),
     Text (plural_s (int (length (bl_rules b))) ''rule'' @ '' '' @ middot @ '' '' @ plural_s (int (length (bl_hostIds b))) ''host''),
     Text (pct_text b), Text (described b), Text (drift_text (bl_drift b))]"

text \<open>The rules by group, the groups in the order they first appear.\<close>

fun group_rules :: "baselines_response_rules list \<Rightarrow> (string \<times> baselines_response_rules list) list \<Rightarrow> (string \<times> baselines_response_rules list) list" where
  "group_rules [] out = out"
| "group_rules (r # rs) out = (let g = baselines_response_rules_group r in
     group_rules rs (AList.update g ((case map_of out g of Some l \<Rightarrow> l | None \<Rightarrow> []) @ [r]) out))"

definition failing_status :: "check_status option \<Rightarrow> bool" where
  "failing_status s \<longleftrightarrow> s = Some Check_bad \<or> s = Some Check_warn"

definition failsFor :: "baseline \<Rightarrow> string \<Rightarrow> nat" where
  "failsFor b rule = length (filter (\<lambda>r. failing_status (map_of (bl_row_cells r) rule)) (bl_compliance b))"

definition rule_title :: "baselines_response_rules list \<Rightarrow> string \<Rightarrow> string" where
  "rule_title rules i = (case find (\<lambda>x. baselines_response_rules_id x = i) rules of Some x \<Rightarrow> baselines_response_rules_title x | None \<Rightarrow> i)"

fun check_text :: "check_status \<Rightarrow> string" where
  "check_text Check_ok = ''ok''" | "check_text Check_bad = ''bad''" | "check_text Check_warn = ''warn''" | "check_text Check_unknown = ''unknown''"

definition cell_status :: "baseline_row \<Rightarrow> string \<Rightarrow> check_status" where
  "cell_status r i = (case map_of (bl_row_cells r) i of Some s \<Rightarrow> s | None \<Rightarrow> Check_unknown)"

definition cell_tip :: "baselines_response_rules list \<Rightarrow> baseline_row \<Rightarrow> string \<Rightarrow> string" where
  "cell_tip rules r i = rule_title rules i @ '': '' @ check_text (cell_status r i)"

definition compliance_row :: "baseline \<Rightarrow> baselines_response_rules list \<Rightarrow> baseline_row \<Rightarrow> 'e view" where
  "compliance_row b rules r = Group ([Text (bl_row_name r)] @ map (\<lambda>i. Text (cell_tip rules r i)) (bl_rules b) @ [Text (drift_text (bl_row_drift r))])"

definition rule_button :: "baseline \<Rightarrow> baselines_response_rules \<Rightarrow> baseline_event view" where
  "rule_button b r = (let i = baselines_response_rules_id r; fails = (if i \<in> set (bl_rules b) then failsFor b i else 0) in
     Group [Button (baselines_response_rules_title r) True (Base_rule b i), shown_if (fails > 0) (Text (show_nat fails))])"

definition baseline_detail :: "baseline \<Rightarrow> machine list \<Rightarrow> baselines_response_rules list \<Rightarrow> baseline_event view" where
  "baseline_detail b ms rules = Group
    [Text (bl_name b), Text (if bl_hostIds b \<noteq> [] then show_int (js_round (bl_pct b)) @ ''% compliant'' else ''no machines yet''),
     Text (described b @ '' '' @ middot @ '' '' @ plural_s (int (length (bl_rules b))) ''rule'' @ '' '' @ middot @ '' '' @
       (if bl_drift b \<noteq> 0 then show_int (bl_drift b) @ '' failing'' else ''everything passing'')),
     Button ''Delete'' True (Base_delete b), Button ''Edit'' True (Base_edit b),
     Button (if bl_drift b \<noteq> 0 then ''Fix '' @ show_int (bl_drift b) else ''Compliant'') (bl_drift b \<noteq> 0) (Base_apply b),
     (if bl_compliance b = [] then Text (''No machines assigned yet '' @ dash @ '' pick them below.'')
      else Group (map (compliance_row b rules) (bl_compliance b) @ map (\<lambda>i. Text (rule_title rules i)) (bl_rules b))),
     Group (map (\<lambda>m. Button (m_name m) True (Base_host b (m_hostId m))) ms), shown_if (ms = []) (Text ''No hosts yet.''),
     Group (map (\<lambda>(g, l). Group (Text g # map (rule_button b) l)) (group_rules rules []))]"

definition BASELINE_COLORS :: "string list" where
  "BASELINE_COLORS = [''#2f6fed'', ''#7a5cf0'', ''#22a06b'', ''#e0a020'', ''#e2504c'', ''#14b8c4'']"

record baseline_form =
  bf_name :: string
  bf_description :: string
  bf_color :: string
  bf_rules :: "string list"
  bf_hostIds :: "string list"
  bf_err :: string

definition baseline_form_start :: "baseline option \<Rightarrow> baselines_response_rules list \<Rightarrow> baseline_form" where
  "baseline_form_start b rules = (case b of
     Some b \<Rightarrow> \<lparr>bf_name = bl_name b, bf_description = bl_description b, bf_color = bl_color b, bf_rules = bl_rules b, bf_hostIds = bl_hostIds b, bf_err = []\<rparr>
   | None \<Rightarrow> \<lparr>bf_name = [], bf_description = [], bf_color = hd BASELINE_COLORS, bf_rules = map baselines_response_rules_id rules, bf_hostIds = [], bf_err = []\<rparr>)"

datatype form_event = Form_name string | Form_description string | Form_color string | Form_rule string | Form_host string

fun baseline_form_step :: "form_event \<Rightarrow> baseline_form \<Rightarrow> baseline_form" where
  "baseline_form_step (Form_name x) f = f\<lparr>bf_name := x\<rparr>"
| "baseline_form_step (Form_description x) f = f\<lparr>bf_description := x\<rparr>"
| "baseline_form_step (Form_color x) f = f\<lparr>bf_color := x\<rparr>"
| "baseline_form_step (Form_rule x) f = f\<lparr>bf_rules := toggled x (bf_rules f)\<rparr>"
| "baseline_form_step (Form_host x) f = f\<lparr>bf_hostIds := toggled x (bf_hostIds f)\<rparr>"

text \<open>A submit saves, or says what is missing.\<close>

definition baseline_submit :: "baseline option \<Rightarrow> baseline_form \<Rightarrow> baseline_form \<times> baseline_event option" where
  "baseline_submit b f = (if trim (bf_name f) = [] then (f\<lparr>bf_err := ''Give the baseline a name.''\<rparr>, None)
     else (f, Some (Base_save \<lparr>bli_name = trim (bf_name f), bli_description = trim (bf_description f), bli_color = bf_color f,
       bli_rules = bf_rules f, bli_hostIds = bf_hostIds f\<rparr> (map_option bl_id b))))"

datatype dialog_event = Dlg_form form_event | Dlg_submit | Dlg_cancel

definition baseline_dialog :: "baseline option \<Rightarrow> baselines_response_rules list \<Rightarrow> machine list \<Rightarrow> baseline_form \<Rightarrow> dialog_event view" where
  "baseline_dialog b rules ms f = Group
    [Text (case b of Some b \<Rightarrow> ''Edit '' @ bl_name b | None \<Rightarrow> ''New baseline''), Text ''A set of rules every machine in it should meet'',
     Input ''Name'' (bf_name f) (Dlg_form \<circ> Form_name), Input ''Description'' (bf_description f) (Dlg_form \<circ> Form_description),
     Group (map (\<lambda>c. Button c True (Dlg_form (Form_color c))) BASELINE_COLORS),
     Group (map (\<lambda>r. Button (baselines_response_rules_title r) True (Dlg_form (Form_rule (baselines_response_rules_id r)))) rules),
     Group (map (\<lambda>m. Button (m_name m) True (Dlg_form (Form_host (m_hostId m)))) ms),
     shown_if (bf_err f \<noteq> []) (Text (bf_err f)), Button ''Cancel'' True Dlg_cancel,
     Button (if b \<noteq> None then ''Save'' else ''Create baseline'') True Dlg_submit]"

fun baseline_step :: "baseline_event \<Rightarrow> (unit, baselines_state) prog" where
  "baseline_step (Base_select i) = Stop"
| "baseline_step Base_new = Update (bs_creating_update (\<lambda>_. True)) Stop"
| "baseline_step (Base_edit b) = Update (bs_editing_update (\<lambda>_. Some b)) Stop"
| "baseline_step (Base_delete b) = remove_baseline b"
| "baseline_step (Base_apply b) = apply_baseline b"
| "baseline_step (Base_rule b r) = patch_baseline b (bli_rules_update (toggled r))"
| "baseline_step (Base_host b h) = patch_baseline b (bli_hostIds_update (toggled h))"
| "baseline_step Base_close = Update (\<lambda>s. s\<lparr>bs_editing := None, bs_creating := False\<rparr>) Stop"
| "baseline_step (Base_save i x) = save_baseline i x"

definition baselines_view :: "baselines_response option \<Rightarrow> machine list \<Rightarrow> baseline option \<Rightarrow> baseline_event view" where
  "baselines_view d ms selected = Group
    [Group (map baseline_card (case d of Some d \<Rightarrow> blr_baselines d | None \<Rightarrow> [])), Button ''New baseline'' True Base_new,
     shown_opt (\<lambda>b. baseline_detail b ms (case d of Some d \<Rightarrow> blr_rules d | None \<Rightarrow> [])) selected]"

section \<open>The page\<close>

datatype machines_event = Mach_view machines_tab | Mach_fleet fleet_action | Mach_select string | Mach_base baseline_event

text \<open>Where an event takes the address.\<close>

definition machines_address :: "machines_event \<Rightarrow> address_query \<Rightarrow> address_query" where
  "machines_address e q = (case e of
     Mach_view v \<Rightarrow> setParams [(''view'', if v = Mview_hosts then [] else ''baselines'')] q
   | Mach_select i \<Rightarrow> setParams [(''host'', i)] q
   | Mach_base (Base_select i) \<Rightarrow> setParams [(''baseline'', i)] q
   | _ \<Rightarrow> q)"

definition show_machine_tab :: "machine_tab \<Rightarrow> address_query \<Rightarrow> address_query" where
  "show_machine_tab t q = setParams [(''tab'', if t = Mtab_updates then [] else machine_tab_text t)] q"

definition stat_view :: "machine list option \<Rightarrow> machine_stat \<Rightarrow> 'e view" where
  "stat_view ms s = Group [Text (ms_key s), Text (if ms \<noteq> None then ms_value s else dash), Text (ms_sub s)]"

text \<open>\<open>detail\<close> is the panel of the current machine.\<close>

definition machines_view :: "(string \<Rightarrow> string) \<Rightarrow> address_query \<Rightarrow> js_error option \<Rightarrow> machine list option \<Rightarrow> baselines_response option \<Rightarrow>
    machines_event view \<Rightarrow> machines_event view" where
  "machines_view age q err ms d detail =
    (if err \<noteq> None \<and> ms = None then empty_state (''Couldn'' @ apostrophe @ ''t load machines'') (case err of Some e \<Rightarrow> errMsg e | None \<Rightarrow> []) []
     else Group
      [page_header ''Machines'' (Some (machines_summary ms))
        [seg [(Mview_hosts, ''Hosts''), (Mview_baselines, ''Baselines'')] Mach_view, Button ''Security audit'' True (Mach_fleet Fleet_audit),
         Button ''Security patches only'' True (Mach_fleet Fleet_security), Button ''Patch all hosts'' True (Mach_fleet Fleet_all)],
       (if machines_view_of q = Mview_hosts then Group
         [Group (map (stat_view ms) (machine_stats ms)),
          Group (map (\<lambda>m. map_view Mach_select (machine_card age m)) (case ms of Some l \<Rightarrow> l | None \<Rightarrow> [])),
          shown_if (ms = Some []) (empty_state ''No hosts yet'' ''Add a host and Dockhand will manage its operating system here too.'' []),
          shown_if (current_machine (param ''host'' q) (case ms of Some l \<Rightarrow> l | None \<Rightarrow> []) \<noteq> None) detail]
        else map_view Mach_base (baselines_view d (case ms of Some l \<Rightarrow> l | None \<Rightarrow> []) (current_baseline (param ''baseline'' q) d)))])"

section \<open>What holds\<close>

text \<open>The whole fleet is changed, a baseline applied or deleted, only after a yes; a request that fails is
  told.\<close>

theorem fleet_asks_first:
  "asks_before (\<lambda>c. \<exists>a. c = fleet_call a) (fleet a ms) \<and>
   asks_before (\<lambda>c. removes c \<or> (\<exists>b. c = apply_call b)) (baseline_step e) \<and> no_silent_error (baseline_step e)"
proof (intro conjI)
  show "asks_before (\<lambda>c. \<exists>a. c = fleet_call a) (fleet a ms)" by (simp add: fleet_def Let_def)
  show "asks_before (\<lambda>c. removes c \<or> (\<exists>b. c = apply_call b)) (baseline_step e)"
    by (cases e) (auto simp: remove_baseline_def apply_baseline_def patch_baseline_def save_baseline_def reload_baselines_def
      apply_call_def calls removes_def attempt_def tell_def split: option.split sum.split)
  show "no_silent_error (baseline_step e)"
    by (cases e) (simp_all add: remove_baseline_def apply_baseline_def patch_baseline_def save_baseline_def reload_baselines_def)
qed

text \<open>With no machine to reach nothing is asked or sent; else the question is about machines that can be
  reached.\<close>

lemma fleet_reachable:
  "run_prog (fleet a ms) rs = ds \<Longrightarrow> (\<forall>m \<in> set (case ms of Some l \<Rightarrow> l | None \<Rightarrow> []). machine_offline m) \<Longrightarrow>
   ds = [Did (Show_toast (notice Notice_warn ''No machines are reachable'' None))]"
  by (auto simp: fleet_def Let_def tell_def reachable_machine_def filter_empty_conv split: option.splits)

text \<open>C35: Changing one rule or host of a baseline sends the others as they were.\<close>

theorem baseline_change_keeps_rest:
  assumes "e = Base_rule b x \<or> e = Base_host b x"
  shows "\<exists>i rest. run_prog (baseline_step e) rs = Sent (put (baseline_path (bl_id b)) (input_json i)) # rest \<and>
    bli_name i = bl_name b \<and> bli_description i = bl_description b \<and> bli_color i = bl_color b \<and>
    set (bli_rules i) = (if e = Base_rule b x then sym_diff (set (bl_rules b)) {x} else set (bl_rules b)) \<and>
    set (bli_hostIds i) = (if e = Base_host b x then sym_diff (set (bl_hostIds b)) {x} else set (bl_hostIds b))"
  using assms
proof
  assume e: "e = Base_rule b x"
  show ?thesis unfolding e
    by (intro exI [of _ "bli_rules_update (toggled x) (input_of b)"]) (auto simp: patch_baseline_def attempt_def input_of_def toggled_def)
next
  assume e: "e = Base_host b x"
  show ?thesis unfolding e
    by (intro exI [of _ "bli_hostIds_update (toggled x) (input_of b)"]) (auto simp: patch_baseline_def attempt_def input_of_def toggled_def)
qed

definition sample_baseline :: baseline where
  "sample_baseline = \<lparr>bl_id = ''b1'', bl_name = ''Edge'', bl_description = [], bl_color = [], bl_rules = [''ssh'', ''ufw''], bl_hostIds = [''h1''],
     bl_createdAt = [], bl_compliance = [], bl_pct = 100, bl_drift = 0\<rparr>"

lemma baseline_change_keeps_rest_witness:
  "\<exists>i rest. run_prog (baseline_step (Base_rule sample_baseline ''ssh'')) [] = Sent (put (baseline_path ''b1'') (input_json i)) # rest \<and>
    bli_name i = ''Edge'' \<and> bli_description i = [] \<and> bli_color i = [] \<and> set (bli_rules i) = {''ufw''} \<and> set (bli_hostIds i) = {''h1''}"
proof -
  have s: "sym_diff {''ssh'', ''ufw''} {''ssh''} = {''ufw''}" by auto
  show ?thesis using baseline_change_keeps_rest [of "Base_rule sample_baseline ''ssh''" sample_baseline "''ssh''" "[]"]
    by (simp add: sample_baseline_def s del: baseline_step.simps)
qed

text \<open>Every rule is shown once, under its own group.\<close>

lemma group_rules_mset:
  "distinct (map fst out) \<Longrightarrow>
   mset (concat (map snd (group_rules rs out))) = mset rs + mset (concat (map snd out)) \<and> distinct (map fst (group_rules rs out))"
proof (induction rs out rule: group_rules.induct)
  case (2 r rs out)
  have u: "distinct (map fst out) \<Longrightarrow>
      mset (concat (map snd (AList.update g ((case map_of out g of Some l \<Rightarrow> l | None \<Rightarrow> []) @ [r]) out))) = add_mset r (mset (concat (map snd out)))" for g
  proof (induction out)
    case (Cons p out)
    show ?case
    proof (cases "fst p = g")
      case True then show ?thesis by (cases p) simp
    next
      case False then show ?thesis using Cons by (cases p) simp
    qed
  qed simp
  show ?case using 2 u by (simp add: Let_def distinct_update)
qed simp

lemma group_rules_own:
  "\<forall>(g, l) \<in> set out. \<forall>r \<in> set l. baselines_response_rules_group r = g \<Longrightarrow>
   \<forall>(g, l) \<in> set (group_rules rs out). \<forall>r \<in> set l. baselines_response_rules_group r = g"
proof (induction rs out rule: group_rules.induct)
  case (2 r rs out)
  let ?g = "baselines_response_rules_group r"
  have "(g, l) \<in> set (AList.update ?g v out) \<Longrightarrow> (g, l) \<in> set out \<or> (g, l) = (?g, v)" for g l v
    by (induction out) (auto split: if_splits)
  then have "\<forall>(g, l) \<in> set (AList.update ?g ((case map_of out ?g of Some l \<Rightarrow> l | None \<Rightarrow> []) @ [r]) out). \<forall>r \<in> set l. baselines_response_rules_group r = g"
    using "2.prems" by (fastforce split: option.splits dest: map_of_SomeD)
  then show ?case using "2.IH" by (simp add: Let_def)
qed simp

theorem rules_grouped:
  "mset (concat (map snd (group_rules rules []))) = mset rules \<and> distinct (map fst (group_rules rules [])) \<and>
   list_all (\<lambda>(g, l). list_all (\<lambda>r. baselines_response_rules_group r = g) l) (group_rules rules [])"
  using group_rules_mset [of "[]" rules] group_rules_own [of "[]" rules] by (auto simp: list_all_iff)

text \<open>A machine chosen is the one shown, for as long as it is listed.\<close>

lemma chosen_machine_shown:
  assumes "m \<in> set ms" "distinct (map m_hostId ms)" "m_hostId m \<noteq> []"
  shows "current_machine (param ''host'' (machines_address (Mach_select (m_hostId m)) q)) ms = Some m"
proof -
  have "find (\<lambda>x. m_hostId x = m_hostId m) ms = Some m" using assms(1,2) by (induction ms) (auto simp: image_iff)
  then show ?thesis using assms(3) by (simp add: machines_address_def setParams_def set_param_def param_def map_of_params_set current_machine_def)
qed

text \<open>A form without a name is not saved, and a saved one carries what was typed.\<close>

lemma baseline_submit_saves:
  "baseline_submit b f = (f', Some e) \<longleftrightarrow> trim (bf_name f) \<noteq> [] \<and> f' = f \<and> e = Base_save \<lparr>bli_name = trim (bf_name f),
     bli_description = trim (bf_description f), bli_color = bf_color f, bli_rules = bf_rules f, bli_hostIds = bf_hostIds f\<rparr> (map_option bl_id b)"
  by (auto simp: baseline_submit_def)

end
