(* ===== verification/Updates_Watch.thy ===== *)
theory Updates_Watch
  imports Page_Prog Chart_Root Api_System
begin

text \<open>
  How an update of Dockhand itself is followed (\<open>src/web/components/settings/UpdatesTab.tsx\<close>, with
  \<open>UpdateStages\<close> and \<open>UpdateGauge\<close>): the job of the API covers the first fifth of the bar, the detached
  updater the rest. Times are milliseconds; the exponential easing is that of the code.
\<close>

section \<open>Versions\<close>

text \<open>A commit reads as a short sha, a version with its one \<open>v\<close>.\<close>

definition sha_char :: "char \<Rightarrow> bool" where
  "sha_char c \<longleftrightarrow> digit c \<or> c \<in> set ''abcdef''"

definition is_sha :: "string \<Rightarrow> bool" where
  "is_sha s \<longleftrightarrow> 7 \<le> length s \<and> length s \<le> 40 \<and> list_all sha_char s"

definition without_v :: "string \<Rightarrow> string" where
  "without_v s = (if starts_with s ''v'' then drop 1 s else s)"

definition version_text :: "string \<Rightarrow> string" where
  "version_text s = (if s = [] then [] else if is_sha s then take 7 s else ''v'' @ without_v s)"

section \<open>The stages strip\<close>

datatype stage_status = Stage_done | Stage_active | Stage_pending | Stage_skipped | Stage_failed

record stage =
  sg_label :: string
  sg_value :: int
  sg_status :: stage_status

fun stage_color :: "stage_status \<Rightarrow> string" where
  "stage_color Stage_done = ''#22a06b''"
| "stage_color Stage_active = ''#2f6fed''"
| "stage_color Stage_pending = ''var(--track)''"
| "stage_color Stage_skipped = ''#9aa1ad''"
| "stage_color Stage_failed = ''#e2504c''"

fun stage_text :: "stage_status \<Rightarrow> string" where
  "stage_text Stage_done = ''done''"
| "stage_text Stage_active = ''in progress''"
| "stage_text Stage_pending = ''waiting''"
| "stage_text Stage_skipped = ''skipped''"
| "stage_text Stage_failed = ''failed''"

definition stage_opacity :: "stage \<Rightarrow> real" where
  "stage_opacity r = (if sg_status r = Stage_active then 45 / 100 + min 100 (max 0 (of_int (sg_value r))) / 180 else 1)"

definition stage_tip :: "stage \<Rightarrow> string" where
  "stage_tip r = sg_label r @ '' '' @ middot @ '' '' @ stage_text (sg_status r)"

definition stage_label_color :: "stage_status \<Rightarrow> string" where
  "stage_label_color s = (case s of Stage_active \<Rightarrow> ''var(--ink)'' | Stage_failed \<Rightarrow> ''var(--crit-ink)'' | _ \<Rightarrow> ''var(--ink-3)'')"

definition stage_label_opacity :: "stage_status \<Rightarrow> real" where
  "stage_label_opacity s = (if s = Stage_pending then 7 / 10 else 1)"

datatype progress_tone = Tone_run | Tone_ok | Tone_crit

fun progress_color :: "progress_tone \<Rightarrow> string" where
  "progress_color Tone_run = ''#2f6fed''" | "progress_color Tone_ok = ''#22a06b''" | "progress_color Tone_crit = ''#e2504c''"

text \<open>The gauge: a value that is no number counts as none.\<close>

definition update_gauge_value :: "jsnum \<Rightarrow> real" where
  "update_gauge_value v = max 0 (min 100 (case v of Some x \<Rightarrow> x | None \<Rightarrow> 0))"

definition update_gauge_label :: "jsnum \<Rightarrow> string" where
  "update_gauge_label v = show_int (js_round (update_gauge_value v)) @ ''%''"

section \<open>The bar\<close>

record progress_bar =
  pb_pct :: real
  pb_tone :: progress_tone
  pb_title :: string
  pb_sub :: string
  pb_stages :: "stage list"

definition HANDOFF_PCT :: real where "HANDOFF_PCT = 20"

definition GIT_STAGES :: "string list" where
  "GIT_STAGES = [''Back up'', ''Prepare'', ''Fetch'', ''Rebuild'', ''Restart'', ''Done'']"

definition shown_pct :: "progress_bar \<Rightarrow> real" where
  "shown_pct b = max 0 (min 100 (pb_pct b))"

definition progress_bar_view :: "progress_bar \<Rightarrow> 'e view list \<Rightarrow> 'e view" where
  "progress_bar_view b children = Group
    ([Text (update_gauge_label (Some (shown_pct b))), Text (pb_title b), shown_if (pb_sub b \<noteq> []) (Text (pb_sub b))] @ children @
     map (\<lambda>r. Text (sg_label r)) (pb_stages b))"

section \<open>The job of the API\<close>

fun step_stage :: "step_status \<Rightarrow> stage_status" where
  "step_stage Step_done = Stage_done"
| "step_stage Step_running = Stage_active"
| "step_stage Step_pending = Stage_pending"
| "step_stage Step_skipped = Stage_skipped"
| "step_stage Step_failed = Stage_failed"

definition first_with :: "step_status \<Rightarrow> job_step list \<Rightarrow> nat option" where
  "first_with s steps = (case filter (\<lambda>i. js_status (steps ! i) = s) [0..<length steps] of [] \<Rightarrow> None | i # _ \<Rightarrow> Some i)"

text \<open>The step at work, else the one that failed.\<close>

definition current_step :: "job_step list \<Rightarrow> nat option" where
  "current_step steps = (case first_with Step_running steps of Some i \<Rightarrow> Some i | None \<Rightarrow> first_with Step_failed steps)"

definition steps_done :: "job_step list \<Rightarrow> nat" where
  "steps_done steps = length (filter (\<lambda>x. js_status x \<in> {Step_done, Step_skipped}) steps)"

definition job_pct :: "job_step list \<Rightarrow> job_status \<Rightarrow> real \<Rightarrow> real" where
  "job_pct steps s scale =
    (if s = JobStatus_success then scale
     else (of_nat (steps_done steps) +
        (case current_step steps of Some i \<Rightarrow> if js_status (steps ! i) = Step_running then 1 / 2 else 0 | None \<Rightarrow> 0)) /
        max 1 (of_nat (length steps)) * scale)"

definition prep_status :: "job_step list \<Rightarrow> stage_status" where
  "prep_status prep = (let is' = (\<lambda>s x. js_status x = s) in
     if list_ex (is' Step_failed) prep then Stage_failed
     else if prep \<noteq> [] \<and> list_all (is' Step_done) prep then Stage_done
     else if list_ex (\<lambda>x. js_status x \<in> {Step_running, Step_done}) prep then Stage_active else Stage_pending)"

text \<open>A step's label without what the strip says anyway.\<close>

definition strip_label :: "string \<Rightarrow> string" where
  "strip_label l = (case filter (\<lambda>w. ends_with (to_lower l) ('' '' @ w)) [''dockhand'', ''database'', ''the updater'', ''to updater''] of
     [] \<Rightarrow> l | w # _ \<Rightarrow> take (length l - Suc (length w)) l)"

definition job_stages :: "job_step list \<Rightarrow> job_status \<Rightarrow> real \<Rightarrow> stage list" where
  "job_stages steps s scale =
    (let st = (\<lambda>x. if s = JobStatus_success then Stage_done else step_stage x) in
     if scale < 100 then map (\<lambda>i. \<lparr>sg_label = GIT_STAGES ! i, sg_value = 50, sg_status =
          (if i = 0 then st (if steps = [] then Step_pending else js_status (hd steps))
           else if i = 1 then (if s = JobStatus_success then Stage_done else prep_status (drop 1 steps))
           else Stage_pending)\<rparr>) [0..<6]
     else map (\<lambda>x. \<lparr>sg_label = strip_label (js_label x), sg_value = 50, sg_status = st (js_status x)\<rparr>) steps)"

definition job_progress :: "job_step list \<Rightarrow> job_status \<Rightarrow> real \<Rightarrow> progress_bar" where
  "job_progress steps s scale =
    (let cur = current_step steps; idx = (case cur of Some i \<Rightarrow> i | None \<Rightarrow> steps_done steps);
         ofN = (if scale < 100 then 6 else max 1 (length steps)); failed = s = JobStatus_failed in
     \<lparr>pb_pct = max 3 (job_pct steps s scale),
      pb_tone = (if failed then Tone_crit else if s = JobStatus_success then Tone_ok else Tone_run),
      pb_title = (if failed then ''Failed: '' @ (case cur of Some i \<Rightarrow> js_label (steps ! i) | None \<Rightarrow> ''update'')
        else if s = JobStatus_success then ''Done''
        else (case cur of Some i \<Rightarrow> js_label (steps ! i) | None \<Rightarrow> ''Starting'' @ ellipsis)),
      pb_sub = (if failed then ''Nothing was changed '' @ dash @ '' Dockhand is still on the current version.''
        else ''Step '' @ show_nat (min (Suc idx) ofN) @ '' of '' @ show_nat ofN),
      pb_stages = job_stages steps s scale\<rparr>)"

section \<open>The updater\<close>

text \<open>The step counter docker prints: the last \<open>n/m\<close> of a bracket, as the regular expression
  \<open>\[[^\]]*?(\d+)\/(\d+)\]\<close> finds it.\<close>

definition counter_in :: "string \<Rightarrow> (nat \<times> nat) option" where
  "counter_in body =
    (let r = rev body; m = rev (takeWhile digit r); r' = dropWhile digit r in
     case r' of
       [] \<Rightarrow> None
     | c # r'' \<Rightarrow> (let n = rev (takeWhile digit r'') in
         if c = CHR ''/'' \<and> m \<noteq> [] \<and> n \<noteq> [] then Some (read_nat n, read_nat m) else None))"

fun counter_at :: "string \<Rightarrow> (nat \<times> nat) option" where
  "counter_at [] = None"
| "counter_at (c # cs) =
    (if c = CHR ''['' \<and> CHR '']'' \<in> set cs then
       (case counter_in (takeWhile (\<lambda>x. x \<noteq> CHR '']'') cs) of Some p \<Rightarrow> Some p | None \<Rightarrow> counter_at cs)
     else counter_at cs)"

text \<open>The last line of the log with a counter that counts something.\<close>

fun last_counter :: "string list \<Rightarrow> real" where
  "last_counter [] = 0"
| "last_counter (l # older) = (case counter_at l of
     Some (n, m) \<Rightarrow> if m > 0 then of_nat n / of_nat m else last_counter older
   | None \<Rightarrow> last_counter older)"

definition build_frac :: "string list \<Rightarrow> real" where
  "build_frac ls = last_counter (rev ls)"

definition log_has :: "string list \<Rightarrow> string \<Rightarrow> bool" where
  "log_has ls m \<longleftrightarrow> list_ex (\<lambda>l. starts_with l (''==> '' @ m)) ls"

datatype update_stage = Up_prepare | Up_fetch | Up_build | Up_restart | Up_done

fun stage_span :: "update_stage \<Rightarrow> real \<times> real" where
  "stage_span Up_prepare = (HANDOFF_PCT, 26)"
| "stage_span Up_fetch = (26, 34)"
| "stage_span Up_build = (34, 84)"
| "stage_span Up_restart = (84, 97)"
| "stage_span Up_done = (100, 100)"

fun stage_title :: "update_stage \<Rightarrow> string" where
  "stage_title Up_prepare = ''Starting the updater''"
| "stage_title Up_fetch = ''Fetching the new code''"
| "stage_title Up_build = ''Rebuilding Dockhand''"
| "stage_title Up_restart = ''Restarting on the new version''"
| "stage_title Up_done = ''Done''"

fun stage_index :: "update_stage \<Rightarrow> nat" where
  "stage_index Up_prepare = 0" | "stage_index Up_fetch = 1" | "stage_index Up_build = 2"
| "stage_index Up_restart = 3" | "stage_index Up_done = 4"

record watcher =
  wt_status :: "updater_status option"
  wt_down :: bool
  wt_live :: string
  wt_now :: int
  wt_rebuildAt :: "int option"
  wt_restartAt :: "int option"
  wt_peak :: real

text \<open>\<open>target\<close> is the commit the update goes to, \<open>started\<close> when the whole update began.\<close>

definition watch_done :: "string \<Rightarrow> watcher \<Rightarrow> bool" where
  "watch_done target w \<longleftrightarrow> wt_live w \<noteq> [] \<and> target \<noteq> [] \<and> starts_with (wt_live w) (take 7 target)"

definition watch_failed :: "watcher \<Rightarrow> bool" where
  "watch_failed w \<longleftrightarrow> (case wt_status w of Some s \<Rightarrow> us_state s = UpdaterStatusState_failed | None \<Rightarrow> False)"

definition watch_slow :: "string \<Rightarrow> int \<Rightarrow> watcher \<Rightarrow> bool" where
  "watch_slow target started w \<longleftrightarrow> \<not> watch_done target w \<and> \<not> watch_failed w \<and> wt_now w - started > 6 * 60000"

definition updater_log :: "watcher \<Rightarrow> string list" where
  "updater_log w = (case wt_status w of Some s \<Rightarrow> us_log s | None \<Rightarrow> [])"

definition rebuilding :: "watcher \<Rightarrow> bool" where
  "rebuilding w \<longleftrightarrow> log_has (updater_log w) ''rebuilding'' \<and> \<not> log_has (updater_log w) ''done''"

definition coming_back :: "watcher \<Rightarrow> bool" where
  "coming_back w \<longleftrightarrow> wt_down w \<or> (case wt_status w of Some s \<Rightarrow> us_state s = UpdaterStatusState_succeeded | None \<Rightarrow> False) \<or>
     log_has (updater_log w) ''done''"

definition watch_stage :: "string \<Rightarrow> watcher \<Rightarrow> update_stage" where
  "watch_stage target w =
    (if watch_done target w then Up_done else if coming_back w then Up_restart
     else if log_has (updater_log w) ''rebuilding'' then Up_build
     else if log_has (updater_log w) ''fetching'' \<or> log_has (updater_log w) ''now at'' then Up_fetch else Up_prepare)"

text \<open>How much of a span of time has passed, on a curve that never reaches its end. A time stamp of 0
  counts as none.\<close>

definition eased :: "int option \<Rightarrow> int \<Rightarrow> real \<Rightarrow> real" where
  "eased since_when now tau = (case since_when of
     Some t \<Rightarrow> if t = 0 then 0 else 1 - exp (- of_int (now - t) / tau) | None \<Rightarrow> 0)"

definition within_stage :: "string \<Rightarrow> watcher \<Rightarrow> real" where
  "within_stage target w = (case watch_stage target w of
     Up_build \<Rightarrow> max (build_frac (updater_log w) * (95 / 100)) (eased (wt_rebuildAt w) (wt_now w) 70000 * (9 / 10))
   | Up_restart \<Rightarrow> eased (wt_restartAt w) (wt_now w) 25000
   | _ \<Rightarrow> 1 / 2)"

definition raw_pct :: "string \<Rightarrow> watcher \<Rightarrow> real" where
  "raw_pct target w = (if watch_done target w then 100
     else (let (a, b) = stage_span (watch_stage target w) in a + (b - a) * min 1 (within_stage target w)))"

definition watch_pct :: "string \<Rightarrow> watcher \<Rightarrow> real" where
  "watch_pct target w = (if watch_failed w then wt_peak w else max (wt_peak w) (raw_pct target w))"

text \<open>What can happen: a tick begins (and asks for the updater's status), its answers come in, it fails,
  which is what a restarting API looks like. The answers of a tick that is over are dropped: once the
  update is done or has failed there are no more ticks.\<close>

datatype watch_event = Tick_begins | Status_reply updater_status | Info_reply "string option" | Tick_failed

definition watch_over :: "string \<Rightarrow> watcher \<Rightarrow> bool" where
  "watch_over target w \<longleftrightarrow> watch_done target w \<or> watch_failed w"

fun on_watch_event :: "int \<Rightarrow> watch_event \<Rightarrow> watcher \<Rightarrow> watcher" where
  "on_watch_event t Tick_begins w = w\<lparr>wt_now := t\<rparr>"
| "on_watch_event t (Status_reply s) w = w\<lparr>wt_status := Some s, wt_down := False\<rparr>"
| "on_watch_event t (Info_reply c) w = (case c of Some c \<Rightarrow> if c = [] then w else w\<lparr>wt_live := c\<rparr> | None \<Rightarrow> w)"
| "on_watch_event t Tick_failed w = w\<lparr>wt_down := True\<rparr>"

text \<open>The effects after a render, at time \<open>t\<close>: the two time stamps, and the furthest the bar has been, which
  the render that follows from the time stamps may raise once more.\<close>

definition stamp :: "string \<Rightarrow> int \<Rightarrow> watcher \<Rightarrow> watcher" where
  "stamp target t w = w\<lparr>
     wt_rebuildAt := (if rebuilding w \<and> wt_rebuildAt w = None then Some t else wt_rebuildAt w),
     wt_restartAt := (if \<not> watch_done target w \<and> coming_back w \<and> wt_restartAt w = None then Some t else wt_restartAt w)\<rparr>"

definition raise_peak :: "string \<Rightarrow> watcher \<Rightarrow> real \<Rightarrow> real" where
  "raise_peak target w peak = (if raw_pct target w > peak then raw_pct target w else peak)"

definition settle_watch :: "string \<Rightarrow> int \<Rightarrow> watcher \<Rightarrow> watcher" where
  "settle_watch target t w = (let w' = stamp target t w in
     w'\<lparr>wt_peak := raise_peak target w' (raise_peak target w (wt_peak w))\<rparr>)"

definition watcher_step :: "string \<Rightarrow> int \<times> watch_event \<Rightarrow> watcher \<Rightarrow> watcher" where
  "watcher_step target e w = (if watch_over target w then w else settle_watch target (fst e) (on_watch_event (fst e) (snd e) w))"

definition watcher_mount :: "string \<Rightarrow> int \<Rightarrow> watcher" where
  "watcher_mount target t = settle_watch target t
    \<lparr>wt_status = None, wt_down = False, wt_live = [], wt_now = t, wt_rebuildAt = None, wt_restartAt = None, wt_peak = HANDOFF_PCT\<rparr>"

definition watcher_run :: "string \<Rightarrow> int \<Rightarrow> (int \<times> watch_event) list \<Rightarrow> watcher" where
  "watcher_run target t es = fold (watcher_step target) es (watcher_mount target t)"

text \<open>The whole update began when its job did, unless that is no time, or one ahead of this clock.\<close>

definition update_started :: "string option \<Rightarrow> int \<Rightarrow> int" where
  "update_started startedAt now = (case startedAt of
     Some s \<Rightarrow> if s = [] then now else (case date_ms s of Some t \<Rightarrow> if t \<le> now then t else now | None \<Rightarrow> now)
   | None \<Rightarrow> now)"

text \<open>The page reloads itself once the API is back on the target, and only then.\<close>

definition reload_after :: "string \<Rightarrow> watcher \<Rightarrow> int option" where
  "reload_after target w = (if watch_done target w then Some 2500 else None)"

section \<open>What the watch shows\<close>

definition line_level :: "string \<Rightarrow> job_log_line_level" where
  "line_level l = (if list_ex (str_includes (to_lower l)) [''error'', ''fatal'', ''failed'', ''denied''] then JobLogLineLevel_error
     else if starts_with l ''==>'' then JobLogLineLevel_ok else JobLogLineLevel_info)"

definition updater_lines :: "watcher \<Rightarrow> job_log_line list" where
  "updater_lines w = map (\<lambda>l. \<lparr>jl_text = l, jl_level = line_level l\<rparr>) (updater_log w)"

definition watch_strip :: "string \<Rightarrow> bool \<Rightarrow> watcher \<Rightarrow> stage list" where
  "watch_strip target backupSkipped w =
    (let here = Suc (stage_index (watch_stage target w)) in
     map (\<lambda>i. let mk = (\<lambda>v s. \<lparr>sg_label = GIT_STAGES ! i, sg_value = v, sg_status = s\<rparr>) in
       if i = 0 then mk 100 (if backupSkipped then Stage_skipped else Stage_done)
       else if watch_done target w \<or> i < here then mk 100 Stage_done
       else if i = here then mk (js_round (within_stage target w * 100)) (if watch_failed w then Stage_failed else Stage_active)
       else mk 0 Stage_pending) [0..<6])"

definition elapsed_s :: "int \<Rightarrow> watcher \<Rightarrow> int" where
  "elapsed_s started w = max 0 (js_round (of_int (wt_now w - started) / 1000))"

definition elapsed_text :: "int \<Rightarrow> string" where
  "elapsed_text s = show_int (s div 60) @ '':'' @ pad_left 2 (CHR ''0'') (show_int (s mod 60))"

definition watch_bar :: "string \<Rightarrow> int \<Rightarrow> bool \<Rightarrow> watcher \<Rightarrow> progress_bar" where
  "watch_bar target started backupSkipped w =
    (let fin = watch_done target w; failed = watch_failed w; slow = watch_slow target started w; stage = watch_stage target w in
     \<lparr>pb_pct = watch_pct target w,
      pb_tone = (if fin then Tone_ok else if failed \<or> slow then Tone_crit else Tone_run),
      pb_title = (if fin then ''Updated to '' @ take 7 target else if failed then ''The update failed''
        else if slow then ''This is taking longer than expected'' else stage_title stage),
      pb_sub = (if fin then ''Reloading'' @ ellipsis
        else if failed then ''Exit '' @ (case wt_status w of
            Some s \<Rightarrow> (case us_exitCode s of Some c \<Rightarrow> show_int c | None \<Rightarrow> ''?'') | None \<Rightarrow> ''?'') @
          '' '' @ dash @ '' Dockhand is still running the previous version.''
        else ''Step '' @ show_nat (min (stage_index stage + 3) 6) @ '' of 6 '' @ middot @ '' '' @ elapsed_text (elapsed_s started w) @
          '' elapsed '' @ middot @ '' usually about 2 minutes''),
      pb_stages = watch_strip target backupSkipped w\<rparr>)"

datatype watch_click = Watch_reload | Watch_dismiss | Details_toggle

text \<open>The raw output: folded, until something goes wrong; it does not fold itself again.\<close>

definition details_open :: "bool \<Rightarrow> bool \<Rightarrow> bool" where
  "details_open wrong unfurled \<longleftrightarrow> wrong \<or> unfurled"

definition details_view :: "job_log_line list \<Rightarrow> bool \<Rightarrow> 'e \<Rightarrow> 'e view list \<Rightarrow> 'e view" where
  "details_view lines unfurled ev children =
    (if lines = [] then Group [] else Group
      ([Button (if unfurled then ''Hide details'' else ''Show details'') True ev, shown_if unfurled (log_block lines)] @
       (if unfurled then children else [])))"

definition watch_view :: "string \<Rightarrow> int \<Rightarrow> bool \<Rightarrow> job_log_line list \<Rightarrow> bool \<Rightarrow> watcher \<Rightarrow> watch_click view" where
  "watch_view target started backupSkipped jobLog unfurled w =
    (let stuck = watch_failed w \<or> watch_slow target started w in Group
     [progress_bar_view (watch_bar target started backupSkipped w)
        [shown_if (watch_done target w) (Button ''Reload'' True Watch_reload),
         shown_if stuck (Button ''Dismiss'' True Watch_dismiss)],
      details_view (jobLog @ updater_lines w) unfurled Details_toggle
        [shown_if (stuck \<and> (case wt_status w of Some s \<Rightarrow> us_id s \<noteq> None \<and> us_id s \<noteq> Some [] | None \<Rightarrow> False))
           (Text (''Full output on the host: docker logs '' @ (case wt_status w of
              Some s \<Rightarrow> (case us_id s of Some i \<Rightarrow> i | None \<Rightarrow> []) | None \<Rightarrow> [])))]])"

section \<open>The bar never moves backwards\<close>

lemma eased_le_1: "eased s now tau \<le> 1"
  by (auto simp: eased_def split: option.splits)

lemma raw_pct_done: "watch_done target w \<Longrightarrow> raw_pct target w = 100"
  by (simp add: raw_pct_def)

lemma span_part: "a + (b - a) * min 1 x \<le> b" if "a \<le> b" for a b x :: real
proof -
  have "(b - a) * min 1 x \<le> (b - a) * 1" using that by (intro mult_left_mono) auto
  then show ?thesis by simp
qed

lemma stage_span_le: "s \<noteq> Up_done \<Longrightarrow> fst (stage_span s) \<le> snd (stage_span s) \<and> snd (stage_span s) \<le> 97"
  by (cases s) (auto simp: HANDOFF_PCT_def)

lemma raw_pct_not_done:
  assumes "\<not> watch_done target w"
  shows "raw_pct target w \<le> 97"
proof -
  let ?s = "watch_stage target w"
  have "?s \<noteq> Up_done" using assms by (auto simp: watch_stage_def)
  note le = stage_span_le [OF this]
  obtain a b where ab: "stage_span ?s = (a, b)" by (cases "stage_span ?s")
  have "a + (b - a) * min 1 (within_stage target w) \<le> b" by (rule span_part) (use le ab in simp)
  then show ?thesis using assms le ab by (simp add: raw_pct_def)
qed

lemma stamp_keeps [simp]:
  "watch_done target (stamp target t w) = watch_done target w" "watch_failed (stamp target t w) = watch_failed w"
  "wt_peak (stamp target t w) = wt_peak w"
  by (auto simp: watch_done_def watch_failed_def stamp_def)

lemma peak_keeps [simp]:
  "watch_done target (w\<lparr>wt_peak := p\<rparr>) = watch_done target w" "watch_failed (w\<lparr>wt_peak := p\<rparr>) = watch_failed w"
  "raw_pct target (w\<lparr>wt_peak := p\<rparr>) = raw_pct target w"
  by (auto simp: watch_done_def watch_failed_def raw_pct_def watch_stage_def within_stage_def coming_back_def updater_log_def)

lemma settle_keeps [simp]:
  "watch_done target (settle_watch target t w) = watch_done target w" "watch_failed (settle_watch target t w) = watch_failed w"
  by (auto simp: settle_watch_def Let_def)

lemma settle_peak:
  "wt_peak (settle_watch target t w) = max (max (wt_peak w) (raw_pct target w)) (raw_pct target (stamp target t w))"
  by (auto simp: settle_watch_def Let_def raise_peak_def)

lemma settled_pct: "watch_pct target (settle_watch target t w) = wt_peak (settle_watch target t w)"
  unfolding watch_pct_def settle_watch_def Let_def raise_peak_def by auto

lemma event_keeps_peak [simp]: "wt_peak (on_watch_event t e w) = wt_peak w"
  by (cases e) (auto split: option.splits)

definition watcher_ok :: "string \<Rightarrow> watcher \<Rightarrow> bool" where
  "watcher_ok target w \<longleftrightarrow> 20 \<le> wt_peak w \<and> (if watch_done target w then wt_peak w = 100 else wt_peak w \<le> 97) \<and>
     watch_pct target w = wt_peak w \<and> \<not> (watch_done target w \<and> watch_failed w)"

lemma settle_ok:
  assumes "20 \<le> wt_peak w" "wt_peak w \<le> 97" "\<not> (watch_done target w \<and> watch_failed w)"
  shows "watcher_ok target (settle_watch target t w)"
proof (cases "watch_done target w")
  case True
  then show ?thesis using assms raw_pct_done [of target w] raw_pct_done [of target "stamp target t w"]
    by (auto simp: watcher_ok_def settled_pct settle_peak)
next
  case False
  then show ?thesis using assms raw_pct_not_done [of target w] raw_pct_not_done [of target "stamp target t w"]
    by (auto simp: watcher_ok_def settled_pct settle_peak)
qed

lemma event_not_both:
  assumes "\<not> watch_over target w"
  shows "\<not> (watch_done target (on_watch_event t e w) \<and> watch_failed (on_watch_event t e w))"
  using assms by (cases e) (auto simp: watch_over_def watch_done_def watch_failed_def split: option.splits)

lemma watcher_step_ok:
  assumes "watcher_ok target w"
  shows "watcher_ok target (watcher_step target e w)"
proof (cases "watch_over target w")
  case True then show ?thesis using assms by (simp add: watcher_step_def)
next
  case False
  then have "20 \<le> wt_peak w" "wt_peak w \<le> 97" using assms by (auto simp: watcher_ok_def watch_over_def)
  then show ?thesis using False settle_ok [OF _ _ event_not_both [OF False]] by (simp add: watcher_step_def)
qed

lemma watcher_mount_ok: "watcher_ok target (watcher_mount target t)"
  unfolding watcher_mount_def by (rule settle_ok) (auto simp: watch_failed_def HANDOFF_PCT_def)

lemma watcher_run_ok: "watcher_ok target (watcher_run target t es)"
proof -
  have "watcher_ok target w \<Longrightarrow> watcher_ok target (fold (watcher_step target) es w)" for w
    by (induction es arbitrary: w) (auto intro: watcher_step_ok)
  then show ?thesis by (simp add: watcher_run_def watcher_mount_ok)
qed

lemma watcher_step_pct:
  assumes "watcher_ok target w"
  shows "watch_pct target w \<le> watch_pct target (watcher_step target e w)"
  using assms by (auto simp: watcher_step_def watcher_ok_def settled_pct settle_peak)

lemma first_with_some:
  assumes "first_with s steps = Some i"
  shows "i < length steps \<and> js_status (steps ! i) = s"
proof -
  obtain is' where "filter (\<lambda>i. js_status (steps ! i) = s) [0..<length steps] = i # is'"
    using assms by (auto simp: first_with_def split: list.splits)
  then have "i \<in> set (filter (\<lambda>i. js_status (steps ! i) = s) [0..<length steps])" by simp
  then show ?thesis by simp
qed

lemma steps_done_le: "steps_done steps \<le> length steps"
  by (simp add: steps_done_def)

lemma steps_done_less:
  assumes "i < length steps" "js_status (steps ! i) = Step_running"
  shows "steps_done steps < length steps"
proof -
  have "steps ! i \<in> set steps" using assms by simp
  then show ?thesis unfolding steps_done_def using assms by (intro length_filter_less [of "steps ! i"]) auto
qed

lemma job_pct_bounds:
  assumes "0 \<le> scale"
  shows "0 \<le> job_pct steps s scale \<and> job_pct steps s scale \<le> scale"
proof -
  define half where "half = (case current_step steps of
    Some i \<Rightarrow> if js_status (steps ! i) = Step_running then 1 / 2 else 0 | None \<Rightarrow> (0 :: real))"
  define n :: real where "n = max 1 (of_nat (length steps))"
  have h: "0 \<le> half \<and> of_nat (steps_done steps) + half \<le> n"
  proof (cases "half = 0")
    case True then show ?thesis using steps_done_le [of steps] by (auto simp: n_def le_max_iff_disj)
  next
    case False
    then obtain i where i: "i < length steps" "js_status (steps ! i) = Step_running" and "half = 1 / 2"
      by (auto simp: half_def current_step_def dest!: first_with_some split: option.splits if_splits)
    moreover have "real (steps_done steps) + 1 \<le> real (length steps)" using steps_done_less [OF i] by linarith
    ultimately show ?thesis by (simp add: n_def le_max_iff_disj)
  qed
  moreover have "n > 0" by (simp add: n_def)
  ultimately have "0 \<le> (of_nat (steps_done steps) + half) / n \<and> (of_nat (steps_done steps) + half) / n \<le> 1" by simp
  then have "0 \<le> (of_nat (steps_done steps) + half) / n * scale \<and> (of_nat (steps_done steps) + half) / n * scale \<le> scale"
    using assms by (meson mult_left_le_one_le mult_nonneg_nonneg)
  then show ?thesis using assms by (simp add: job_pct_def half_def n_def)
qed


text \<open>The counters docker prints are read.\<close>

lemma counter_examples:
  "counter_at ''#7 [builder 3/12] RUN npm ci'' = Some (3, 12)" "counter_at ''[x] [stage-1 10/11] COPY'' = Some (10, 11)"
  "counter_at ''[internal] load'' = None"
  by code_simp+

lemma build_frac_example: "build_frac [''#5 [2/8] RUN'', ''#6 [6/8] COPY'', ''#6 sha256'' ] = 3 / 4"
proof -
  have "counter_at ''#6 sha256'' = None" "counter_at ''#6 [6/8] COPY'' = Some (6, 8)" by code_simp+
  then show ?thesis by (simp add: build_frac_def)
qed

text \<open>An update outside a checkout ends with the hand-off, too; its bar then falls back to the hand-off's
  share, and an update that went through stands there at a fifth.\<close>

definition release_steps :: "step_status \<Rightarrow> job_step list" where
  "release_steps s = map (\<lambda>(l, s). \<lparr>js_label = l, js_sub = [], js_status = s, js_t = []\<rparr>)
     [(''Backing up database'', Step_done), (''Preparing updater'', Step_done), (''Handing off to updater'', s)]"

lemma release_bar_falls:
  "pb_pct (job_progress (release_steps Step_running) JobStatus_running 100) = 250 / 3"
  "pb_pct (job_progress (release_steps Step_done) JobStatus_success HANDOFF_PCT) = 20"
  "pb_title (job_progress (release_steps Step_done) JobStatus_success HANDOFF_PCT) = ''Done''"
  "sg_status (last (pb_stages (job_progress (release_steps Step_done) JobStatus_success HANDOFF_PCT))) = Stage_pending"
  by (auto simp: job_progress_def release_steps_def job_pct_def Let_def current_step_def first_with_def steps_done_def
    HANDOFF_PCT_def job_stages_def upt_rec)

end
