(* ===== verification/Updates_Tab.thy ===== *)
theory Updates_Tab
  imports Page_Text Updates_Watch Settings_Common
begin

text \<open>
  Settings, updates (\<open>src/web/components/settings/UpdatesTab.tsx\<close>): the version card, the automatic
  updates, the source and the history. \<open>age\<close> is \<open>ago\<close> at the moment of the render.
\<close>

section \<open>Checking, updating, rolling back\<close>

datatype update_kind = Kind_update | Kind_rollback

record updates_page =
  up_sys :: "system_info option"
  up_jobId :: "string option"
  up_kind :: update_kind
  up_checking :: bool

definition is_git :: "system_info option \<Rightarrow> bool" where
  "is_git sys \<longleftrightarrow> (case sys of Some s \<Rightarrow> sys_mode s = Some SystemInfoMode_git | None \<Rightarrow> False)"

definition checked_toast :: "system_info \<Rightarrow> toast_input" where
  "checked_toast s = (if sys_updateAvailable s
     then notice Notice_info (version_text (sys_latest s) @ '' is available'') None
     else notice Notice_ok (''You'' @ apostrophe @ ''re up to date'') (Some (''Dockhand '' @ version_text (sys_version s) @ '' is the latest '' @
       (if sys_latest s \<noteq> [] then ''release'' else ''version we know of'') @ ''.'')))"

text \<open>The \<open>finally\<close> is at the end of both branches.\<close>

definition check_updates :: "(system_info, updates_page) prog" where
  "check_updates = Update (up_checking_update (\<lambda>_. True)) (Fetch (post ''/api/system/check'' None) (\<lambda>r. case r of
     Inr s \<Rightarrow> Update (up_sys_update (\<lambda>_. Some s)) (Shell_do (Show_toast (checked_toast s)) (Update (up_checking_update (\<lambda>_. False)) Stop))
   | Inl e \<Rightarrow> tell Notice_error (''Couldn'' @ apostrophe @ ''t check for updates'') (Some (errMsg e)) (Update (up_checking_update (\<lambda>_. False)) Stop)))"

definition start_update :: "update_kind \<Rightarrow> (job_ref, updates_page) prog" where
  "start_update k = attempt (post (case k of Kind_update \<Rightarrow> ''/api/system/update'' | Kind_rollback \<Rightarrow> ''/api/system/rollback'') None)
     (''Couldn'' @ apostrophe @ ''t start the '' @ (case k of Kind_update \<Rightarrow> ''update'' | Kind_rollback \<Rightarrow> ''rollback''))
     (\<lambda>r. Update (up_kind_update (\<lambda>_. k)) (Update (up_jobId_update (\<lambda>_. Some (jr_jobId r))) Stop))"

definition previous_version :: "system_info option \<Rightarrow> system_info_history option" where
  "previous_version sys = (case sys of
     Some s \<Rightarrow> find (\<lambda>h. system_info_history_version h \<noteq> sys_version s) (sys_history s) | None \<Rightarrow> None)"

definition rollback_question :: "system_info option \<Rightarrow> confirm_input" where
  "rollback_question sys = \<lparr>ci_title = ''Roll back Dockhand?'',
     ci_text = ''Dockhand restarts on the previous version'' @ (case previous_version sys of
         Some h \<Rightarrow> '' ('' @ version_text (system_info_history_version h) @ '')'' | None \<Rightarrow> []) @
       ''. Your containers keep running and the database backup from before the last update is restored.'',
     ci_confirmLabel = ''Roll back'', ci_danger = True, ci_details = [], ci_typeToConfirm = None\<rparr>"

definition ask_rollback :: "system_info option \<Rightarrow> (job_ref, updates_page) prog" where
  "ask_rollback sys = Query (rollback_question sys) (\<lambda>ok. if ok then start_update Kind_rollback else Stop)"

text \<open>The end of a job refreshes what is known of the system.\<close>

definition job_ended :: "job option \<Rightarrow> job option \<Rightarrow> deed list" where
  "job_ended old new = (if map_option job_status old = map_option job_status new then []
     else (case new of Some j \<Rightarrow> if job_status j \<noteq> JobStatus_running then [Refreshed ''/api/system''] else [] | None \<Rightarrow> []))"

text \<open>A roll back is asked for; a request that fails is told; a check that ends, ends its spinner.\<close>

theorem rollback_after_yes:
  "asks_before (\<lambda>c. c = post ''/api/system/rollback'' None) (ask_rollback sys) \<and> no_silent_error (ask_rollback sys) \<and>
   no_silent_error (start_update k) \<and> no_silent_error check_updates \<and>
   up_checking (state_after check_updates [Got r] st) = False \<and>
   up_sys (state_after check_updates [Got r] st) = (case r of Inr s \<Rightarrow> Some s | Inl e \<Rightarrow> up_sys st)"
  by (auto simp: ask_rollback_def start_update_def check_updates_def calls tell_def tells_error_def notice_def sum_all split: sum.split)

section \<open>The version card\<close>

definition result_handed_off :: "job \<Rightarrow> bool" where
  "result_handed_off j \<longleftrightarrow> map_of (job_result j) ''handedOff'' = Some (JBool True)"

definition handed_off :: "system_info option \<Rightarrow> job option \<Rightarrow> bool" where
  "handed_off sys job \<longleftrightarrow> (case job of
     Some j \<Rightarrow> job_status j = JobStatus_success \<and> result_handed_off j \<and> is_git sys | None \<Rightarrow> False)"

definition update_running :: "system_info option \<Rightarrow> job option \<Rightarrow> bool \<Rightarrow> bool" where
  "update_running sys job watchFailed \<longleftrightarrow> (case job of Some j \<Rightarrow> job_status j = JobStatus_running | None \<Rightarrow> False) \<or>
     handed_off sys job \<and> \<not> watchFailed"

definition version_pill :: "system_info option \<Rightarrow> job option \<Rightarrow> update_kind \<Rightarrow> bool \<Rightarrow> string" where
  "version_pill sys job kind watchFailed =
    (if update_running sys job watchFailed then (case kind of Kind_update \<Rightarrow> ''Updating'' | Kind_rollback \<Rightarrow> ''Rolling back'')
     else if handed_off sys job \<and> watchFailed then ''Update failed''
     else if (case sys of Some s \<Rightarrow> sys_updateAvailable s | None \<Rightarrow> False) then ''Update available'' else ''Up to date'')"

definition version_status :: "(string \<Rightarrow> string) \<Rightarrow> system_info option \<Rightarrow> job option \<Rightarrow> update_kind \<Rightarrow> bool \<Rightarrow> string" where
  "version_status age sys job kind watchFailed = (case sys of None \<Rightarrow> ''Checking'' @ ellipsis | Some s \<Rightarrow>
     let checked = '' '' @ middot @ '' checked '' @ (case sys_checkedAt s of Some t \<Rightarrow> age t | None \<Rightarrow> ''never'') in
     if update_running sys job watchFailed then (case kind of
         Kind_update \<Rightarrow> ''Updating to '' @ version_text (sys_latest s) @ '' '' @ dash @ '' Dockhand restarts, your containers don'' @ apostrophe @ ''t''
       | Kind_rollback \<Rightarrow> ''Rolling back to the previous version'')
     else if sys_updateAvailable s then version_text (sys_latest s) @ '' available'' @ checked else ''Latest version'' @ checked)"

definition result_version :: "job option \<Rightarrow> string" where
  "result_version job = (case job of
     Some j \<Rightarrow> (case map_of (job_result j) ''version'' of Some (JStr s) \<Rightarrow> s | _ \<Rightarrow> []) | None \<Rightarrow> [])"

definition update_target :: "system_info option \<Rightarrow> job option \<Rightarrow> string" where
  "update_target sys job = (if result_version job \<noteq> [] then result_version job
     else (case sys of Some s \<Rightarrow> sys_latest s | None \<Rightarrow> []))"

definition job_scale :: "system_info option \<Rightarrow> job \<Rightarrow> update_kind \<Rightarrow> real" where
  "job_scale sys j kind = (if result_handed_off j \<or> is_git sys \<and> kind = Kind_update then HANDOFF_PCT else 100)"

datatype version_event = Ver_update | Ver_check | Ver_dismiss | Ver_reload | Ver_details

definition changelog_url :: "system_info \<Rightarrow> string" where
  "changelog_url s = (if sys_changelogUrl s \<noteq> [] then sys_changelogUrl s
     else ''https://github.com/'' @ system_info_source_repo (sys_source s) @ ''/releases'')"

definition available_headline :: "system_info \<Rightarrow> string" where
  "available_headline s = (if sys_mode s = Some SystemInfoMode_git
     then (let n = length (sys_notes s) in (if n = 0 then ''New'' else show_nat n) @ '' new commit'' @ (if n = 1 then [] else ''s'') @
        '' on '' @ system_info_source_branch (sys_source s))
     else version_text (sys_latest s) @ '' is available'')"

definition available_card :: "(string \<Rightarrow> string) \<Rightarrow> system_info \<Rightarrow> 'e view" where
  "available_card age s = (let git = sys_mode s = Some SystemInfoMode_git in Group
    [Text (available_headline s),
     shown_if (filled (sys_releasedAt s)) (Text ('' '' @ middot @ '' '' @ (if git then ''pushed '' else ''released '') @ age (text_or [] (sys_releasedAt s)))),
     Group (map Text (sys_notes s)),
     shown_if (sys_changelogUrl s \<noteq> [] \<or> system_info_source_repo (sys_source s) \<noteq> [])
       (Link (if git then ''Compare on GitHub'' else ''Full changelog on GitHub'') (changelog_url s))])"

definition latest_card :: "system_info \<Rightarrow> 'e view" where
  "latest_card s = (let git = sys_mode s = Some SystemInfoMode_git; src = sys_source s in Group
    [Text (''You'' @ apostrophe @ ''re on the latest version''),
     Text (if filled (sys_checkError s) then text_or [] (sys_checkError s)
       else if git then ''Running '' @ text_or ''undefined'' (sys_currentCommit s) @ '', the latest commit on '' @ system_info_source_branch src @ '' of '' @
         system_info_source_repo src @ ''.''
       else if sys_latest s \<noteq> [] then version_text (sys_latest s) @ '' is the newest release on this channel.''
       else ''Couldn'' @ apostrophe @ ''t reach the release feed '' @ dash @ '' try Check now.''),
     shown_if (system_info_source_repo src \<noteq> []) (Link ''Release notes on GitHub''
       (if git then ''https://github.com/'' @ system_info_source_repo src @ ''/commits/'' @ system_info_source_branch src else changelog_url s))])"

definition idle_card :: "(string \<Rightarrow> string) \<Rightarrow> bool \<Rightarrow> system_info \<Rightarrow> version_event view" where
  "idle_card age checking s = Group
    [(if sys_updateAvailable s then available_card age s else latest_card s),
     shown_if (\<not> sys_canSelfUpdate s) (Text (''Dockhand can'' @ apostrophe @ ''t update itself: the Docker socket isn'' @ apostrophe @
       ''t mounted into its container. Update from the host with docker compose pull && docker compose up -d.'')),
     shown_if (sys_updateAvailable s) (Button (''Update to '' @ version_text (sys_latest s)) (sys_canSelfUpdate s) Ver_update),
     Button ''Check now'' (\<not> checking) Ver_check]"

text \<open>The watch is mounted for as long as the job is handed off; \<open>watch\<close> is what it shows.\<close>

definition update_job_card :: "system_info option \<Rightarrow> job \<Rightarrow> update_kind \<Rightarrow> bool \<Rightarrow> version_event view \<Rightarrow> version_event view" where
  "update_job_card sys j kind unfurled watch =
    (let off = handed_off sys (Some j) in Group
     [(if off then watch else Group
         [progress_bar_view (job_progress (job_steps j) (job_status j) (job_scale sys j kind)) [],
          details_view (job_log j) unfurled Ver_details []]),
      shown_if (job_status j = JobStatus_success \<and> \<not> off) (Group
        [Text (case kind of Kind_update \<Rightarrow> ''Updated to '' @ version_text (update_target sys (Some j)) @ '' '' @ dash @ '' reload to finish.''
           | Kind_rollback \<Rightarrow> ''Rolled back '' @ dash @ '' reload to finish.''), Button ''Reload'' True Ver_reload]),
      shown_if (job_status j = JobStatus_failed) (Group
        [Text ((case kind of Kind_update \<Rightarrow> ''The update'' | Kind_rollback \<Rightarrow> ''The rollback'') @ '' failed '' @ dash @ '' Dockhand is still on '' @
           (case sys of Some s \<Rightarrow> version_text (sys_version s) | None \<Rightarrow> ''the current version'') @ ''.''), Button ''Dismiss'' True Ver_dismiss])])"

definition version_card :: "(string \<Rightarrow> string) \<Rightarrow> system_info option \<Rightarrow> job option \<Rightarrow> update_kind \<Rightarrow> bool \<Rightarrow> bool \<Rightarrow> bool \<Rightarrow>
    version_event view \<Rightarrow> version_event view" where
  "version_card age sys job kind checking watchFailed unfurled watch = Group
    [Text ''Dockhand'', shown_opt (\<lambda>s. Text (version_text (sys_version s) @
       (if filled (sys_currentCommit s) then '' '' @ middot @ '' '' @ text_or [] (sys_currentCommit s) else []))) sys,
     Text (version_status age sys job kind watchFailed),
     shown_if (sys \<noteq> None) (Text (version_pill sys job kind watchFailed)),
     shown_if (job = None) (shown_opt (idle_card age checking) sys),
     shown_opt (\<lambda>j. update_job_card sys j kind unfurled watch) job]"

definition watch_to_card :: "watch_click \<Rightarrow> version_event" where
  "watch_to_card e = (case e of Watch_reload \<Rightarrow> Ver_reload | Watch_dismiss \<Rightarrow> Ver_dismiss | Details_toggle \<Rightarrow> Ver_details)"

section \<open>Automatic updates\<close>

definition UPDATE_WINDOWS :: "string list" where
  "UPDATE_WINDOWS = [''Sun 03:00'' @ endash @ ''05:00'', ''Sat 02:00'' @ endash @ ''04:00'', ''Daily 04:00'' @ endash @ ''05:00'',
     ''Daily 03:00'' @ endash @ ''04:00'', ''Weekdays 02:00'' @ endash @ ''03:00'', ''Weekends 03:00'' @ endash @ ''05:00'', ''Any time'']"

text \<open>The window in force is always one of those offered.\<close>

definition window_options :: "settings_updates option \<Rightarrow> string list" where
  "window_options u = (case u of
     Some u \<Rightarrow> if settings_updates_window u \<notin> set UPDATE_WINDOWS \<and> settings_updates_window u \<noteq> [] then settings_updates_window u # UPDATE_WINDOWS else UPDATE_WINDOWS
   | None \<Rightarrow> UPDATE_WINDOWS)"

text \<open>\<open>resolved\<close> is the zone the browser reports, if it can; \<open>known\<close> the zones it knows, if it lists them.\<close>

definition browserZone :: "string option \<Rightarrow> string" where
  "browserZone resolved = (case resolved of Some z \<Rightarrow> if z = [] then ''UTC'' else z | None \<Rightarrow> ''UTC'')"

definition zoneOptions :: "string option \<Rightarrow> string list option \<Rightarrow> string \<Rightarrow> string list" where
  "zoneOptions resolved known current =
    (let first = [browserZone resolved, ''UTC''];
         first = (if current \<noteq> [] \<and> current \<notin> set first then current # first else first) in
     uniq (first @ (case known of Some zs \<Rightarrow> zs | None \<Rightarrow> [])))"

text \<open>\<open>inZone\<close> formats a moment in a zone, if the browser knows the zone; \<open>inLocal\<close> in its own.\<close>

definition whenText :: "(string \<Rightarrow> string \<Rightarrow> string option) \<Rightarrow> (string \<Rightarrow> string) \<Rightarrow> string \<Rightarrow> string \<Rightarrow> string" where
  "whenText inZone inLocal iso_text tz = (case inZone iso_text tz of Some t \<Rightarrow> t | None \<Rightarrow> inLocal iso_text)"

definition zone_value :: "settings_updates option \<Rightarrow> system_info option \<Rightarrow> string" where
  "zone_value u sys = (case u of Some u' \<Rightarrow> if settings_updates_timezone u' \<noteq> [] then settings_updates_timezone u'
       else (case sys of Some s \<Rightarrow> (case sys_auto s of Some a \<Rightarrow> system_info_auto_timezone a | None \<Rightarrow> []) | None \<Rightarrow> [])
   | None \<Rightarrow> (case sys of Some s \<Rightarrow> (case sys_auto s of Some a \<Rightarrow> system_info_auto_timezone a | None \<Rightarrow> []) | None \<Rightarrow> []))"

definition updates_patch :: "(string \<times> json) list \<Rightarrow> settings_doc" where
  "updates_patch p = [(''updates'', p)]"

text \<open>Turning automatic updates on for the first time pins the window to this browser's zone.\<close>

definition auto_toggle :: "string option \<Rightarrow> settings_updates option \<Rightarrow> bool \<Rightarrow> settings_doc" where
  "auto_toggle resolved u on =
    updates_patch (if on \<and> (case u of Some u' \<Rightarrow> settings_updates_timezone u' = [] | None \<Rightarrow> True)
      then [(''auto'', JBool on), (''timezone'', JStr (browserZone resolved))] else [(''auto'', JBool on)])"

datatype auto_tone = Auto_ok | Auto_warn | Auto_info | Auto_muted

fun auto_tone_color :: "auto_tone \<Rightarrow> string" where
  "auto_tone_color Auto_ok = C_ok" | "auto_tone_color Auto_warn = C_warn"
| "auto_tone_color Auto_info = C_blue" | "auto_tone_color Auto_muted = ''var(--ink-3)''"

definition auto_status :: "(string \<Rightarrow> string \<Rightarrow> string) \<Rightarrow> settings_updates option \<Rightarrow> system_info option \<Rightarrow> (auto_tone \<times> string) option" where
  "auto_status when_text u sys = (case (u, sys) of
     (Some u', Some s) \<Rightarrow> (case sys_auto s of None \<Rightarrow> None | Some a \<Rightarrow>
        if \<not> settings_updates_auto u' then None
        else if filled (system_info_auto_error a) then Some (Auto_warn, text_or [] (system_info_auto_error a))
        else if \<not> sys_canSelfUpdate s then Some (Auto_warn, ''Needs the Docker socket mounted into the API container.'')
        else if system_info_auto_inWindow a then Some (Auto_ok, ''Inside the update window now '' @ dash @ '' checking every 5 minutes.'')
        else if filled (system_info_auto_nextWindow a)
          then Some (Auto_info, ''Next window opens '' @ when_text (text_or [] (system_info_auto_nextWindow a)) (system_info_auto_timezone a) @
            '' ('' @ system_info_auto_timezone a @ '').'')
        else None)
   | _ \<Rightarrow> None)"

datatype updates_event = Save_updates settings_doc | Window_menu | Window_outside | Compose_type string | Compose_blur

definition auto_event :: "string drop_event \<Rightarrow> updates_event" where
  "auto_event e = (case e of Drop_pick w \<Rightarrow> Save_updates (updates_patch [(''window'', JStr w)]) | Drop_toggle \<Rightarrow> Window_menu | Drop_outside \<Rightarrow> Window_outside)"

definition zone_option_text :: "string option \<Rightarrow> string \<Rightarrow> string" where
  "zone_option_text resolved z = (if z = browserZone resolved then z @ '' (this browser)'' else z)"

text \<open>The values the select lists; the empty one is there for a zone that is not known.\<close>

definition zone_select :: "string option \<Rightarrow> string list option \<Rightarrow> string \<Rightarrow> (string \<times> string) list" where
  "zone_select resolved known zone = (if zone = [] then [([], ''Server time'')] else []) @
     map (\<lambda>z. (z, zone_option_text resolved z)) (zoneOptions resolved known zone)"

fun channel_text :: "settings_updates_channel \<Rightarrow> string" where
  "channel_text SettingsUpdatesChannel_stable = ''stable''"
| "channel_text SettingsUpdatesChannel_beta = ''beta''"
| "channel_text SettingsUpdatesChannel_nightly = ''nightly''"

definition auto_card :: "(string \<Rightarrow> string) \<Rightarrow> (string \<Rightarrow> string \<Rightarrow> string) \<Rightarrow> string option \<Rightarrow> string list option \<Rightarrow>
    settings_updates option \<Rightarrow> system_info option \<Rightarrow> bool \<Rightarrow> updates_event view" where
  "auto_card age when_text resolved known u sys unfurled =
    (let git = is_git sys; on = (case u of Some u' \<Rightarrow> settings_updates_auto u' | None \<Rightarrow> False);
         zone = zone_value u sys in Group
     [Text ''Automatic updates'',
      set_toggle ''Update automatically'' (Some (if git then ''Pull new commits, rebuild and restart Dockhand inside the window''
        else ''Install new releases and restart Dockhand inside the window'')) on (Save_updates \<circ> auto_toggle resolved u) (u = None),
      shown_opt (\<lambda>(_, t). Text t) (auto_status when_text u sys),
      Text ''Window'', map_view auto_event (dropdown (''Select'' @ ellipsis) (map (\<lambda>w. \<lparr>do_value = w, do_label = w, do_sub = None\<rparr>) (window_options u))
        (case u of Some u' \<Rightarrow> settings_updates_window u' | None \<Rightarrow> []) unfurled),
      Text ''Time zone'', Group (map (\<lambda>(z, l). Button l (u \<noteq> None) (Save_updates (updates_patch [(''timezone'', JStr z)]))) (zone_select resolved known zone)),
      (if git then shown_opt (\<lambda>s. Text (''Follows '' @ (if system_info_source_branch (sys_source s) \<noteq> [] then system_info_source_branch (sys_source s) else ''main'') @
           '' of '' @ system_info_source_repo (sys_source s) @ ''. A version that fails to install is not retried automatically.'')) sys
       else Group [Text ''Channel'', seg [(SettingsUpdatesChannel_stable, ''Stable''), (SettingsUpdatesChannel_beta, ''Beta''), (SettingsUpdatesChannel_nightly, ''Nightly'')]
         (\<lambda>c. Save_updates (updates_patch [(''channel'', JStr (channel_text c))]))]),
      set_toggle ''Back up before updating'' (Some ''Snapshot of the Dockhand database and config'')
        (case u of Some u' \<Rightarrow> settings_updates_backup u' | None \<Rightarrow> False) (\<lambda>x. Save_updates (updates_patch [(''backup'', JBool x)])) (u = None),
      shown_opt (\<lambda>a. shown_if (on \<and> filled (system_info_auto_lastCheck a)) (Text (''Last automatic check '' @ age (text_or [] (system_info_auto_lastCheck a)) @
        (if system_info_auto_lastResult a \<noteq> [] then '' '' @ middot @ '' '' @ system_info_auto_lastResult a else []))))
        (case sys of Some s \<Rightarrow> sys_auto s | None \<Rightarrow> None)])"

section \<open>The source\<close>

definition saved_compose :: "settings_updates option \<Rightarrow> string" where
  "saved_compose u = (case u of Some u' \<Rightarrow> settings_updates_composeFile u' | None \<Rightarrow> [])"

text \<open>What leaving the field saves; what was typed is kept until that save has answered.\<close>

definition compose_blur :: "settings_updates option \<Rightarrow> string option \<Rightarrow> settings_doc option \<times> string option" where
  "compose_blur u draft = (case (draft, u) of
     (Some c, Some u') \<Rightarrow> if trim c \<noteq> settings_updates_composeFile u' then (Some (updates_patch [(''composeFile'', JStr (trim c))]), draft) else (None, None)
   | _ \<Rightarrow> (None, None))"

definition source_line :: "bool \<Rightarrow> system_info_source option \<Rightarrow> string" where
  "source_line git src = (case src of None \<Rightarrow> ellipsis | Some s \<Rightarrow>
     (if system_info_source_branch s \<noteq> [] then system_info_source_branch s else ''main'') @ '' @ '' @
     (let h = shortSha (Some (system_info_source_sha s)) in if h \<noteq> [] then h else ''unknown'') @
     (if system_info_source_path s \<noteq> [] then '' '' @ middot @ '' '' @ (if git then ''checkout'' else ''cloned to'') @ '' '' @ system_info_source_path s else []))"

definition source_repo :: "system_info option \<Rightarrow> settings_updates option \<Rightarrow> string" where
  "source_repo sys u =
    (let of_sys = (case sys of Some s \<Rightarrow> system_info_source_repo (sys_source s) | None \<Rightarrow> []);
         a = (if is_git sys then of_sys else (case u of Some u' \<Rightarrow> settings_updates_repo u' | None \<Rightarrow> [])) in
     if a \<noteq> [] then a else of_sys)"

fun build_text :: "settings_updates_build \<Rightarrow> string" where
  "build_text SettingsUpdatesBuild_pull = ''pull''" | "build_text SettingsUpdatesBuild_build = ''build''"

definition update_source_card :: "system_info option \<Rightarrow> settings_updates option \<Rightarrow> string option \<Rightarrow> updates_event view" where
  "update_source_card sys u draft =
    (let git = is_git sys; src = map_option sys_source sys; repo = source_repo sys u;
         branch = (case src of Some s \<Rightarrow> if system_info_source_branch s \<noteq> [] then system_info_source_branch s else ''main'' | None \<Rightarrow> ''main'') in Group
     [Text ''Source'', shown_if (repo \<noteq> []) (Link repo (''https://github.com/'' @ repo)), Text (source_line git src),
      (if git then Text (''Dockhand runs from this git checkout. Updates compare it with the newest commit on '' @ branch @
          '' at GitHub; updating runs git pull --ff-only and docker compose up -d --build in '' @
          (case src of Some s \<Rightarrow> system_info_source_path s | None \<Rightarrow> []) @ ''.'')
       else Group
        [Input ''Compose file'' (case draft of Some c \<Rightarrow> c | None \<Rightarrow> saved_compose u) Compose_type,
         Text ''Build strategy'', seg [(SettingsUpdatesBuild_pull, ''Pull image''), (SettingsUpdatesBuild_build, ''Build from source'')]
           (\<lambda>b. Save_updates (updates_patch [(''build'', JStr (build_text b))])),
         Text ''Build compiles the image locally from source; pull uses the published image for this tag.'']),
      set_toggle (''Redeploy on push to '' @ branch) (Some ''For running your own fork'')
        (case u of Some u' \<Rightarrow> settings_updates_redeployOnPush u' | None \<Rightarrow> False)
        (\<lambda>x. Save_updates (updates_patch [(''redeployOnPush'', JBool x)])) (u = None)])"

section \<open>The history\<close>

definition HISTORY_PAGE :: int where "HISTORY_PAGE = 5"

definition history_path :: "int \<Rightarrow> string" where
  "history_path page = ''/api/system/history?page='' @ show_int page @ ''&limit='' @ show_int HISTORY_PAGE"

text \<open>\<open>canRollback\<close> looks at the whole list, not at the page shown.\<close>

definition can_roll_back :: "system_info option \<Rightarrow> bool" where
  "can_roll_back sys \<longleftrightarrow> (case sys of
     Some s \<Rightarrow> list_ex (\<lambda>h. system_info_history_status h = ''success'' \<and> system_info_history_fromVersion h \<noteq> []) (sys_history s) | None \<Rightarrow> False)"

definition is_current :: "system_info option \<Rightarrow> string \<Rightarrow> bool" where
  "is_current sys ver \<longleftrightarrow> (case sys of None \<Rightarrow> False | Some s \<Rightarrow>
     ver = sys_version s \<or> without_v ver = without_v (sys_version s) \<or>
     (case sys_currentCommit s of Some c \<Rightarrow> c \<noteq> [] \<and> starts_with ver c | None \<Rightarrow> False))"

datatype history_event = Hist_rollback | Hist_newer | Hist_older | Hist_data update_history_page

text \<open>The page number after an event; the effect brings it back to the last page there is.\<close>

fun history_step :: "update_history_page option \<Rightarrow> history_event \<Rightarrow> int \<Rightarrow> int" where
  "history_step data Hist_rollback page = page"
| "history_step data Hist_newer page = max 1 (page - 1)"
| "history_step data Hist_older page = min (case data of Some d \<Rightarrow> uhp_pages d | None \<Rightarrow> 1) (page + 1)"
| "history_step data (Hist_data d) page = (if page > uhp_pages d then uhp_pages d else page)"

definition history_dot :: "string \<Rightarrow> string" where
  "history_dot s = (if s = ''success'' then C_ok else if s = ''failed'' then C_crit
     else if s = ''running'' \<or> s = ''pending'' then C_blue else ''var(--muted)'')"

definition history_line :: "system_info_history \<Rightarrow> string" where
  "history_line h = join ('' '' @ middot @ '' '') (filter (\<lambda>s. s \<noteq> [])
     [if system_info_history_fromVersion h \<noteq> [] then ''from '' @ version_text (system_info_history_fromVersion h) else [],
      system_info_history_note h, if system_info_history_status h \<noteq> ''success'' then system_info_history_status h else []])"

definition history_row :: "(string \<Rightarrow> string) \<Rightarrow> system_info option \<Rightarrow> system_info_history \<Rightarrow> 'e view" where
  "history_row age sys h = Group
    [Text (version_text (system_info_history_version h)), shown_if (is_current sys (system_info_history_version h)) (Text ''current''),
     Text (history_line h), Text (age (system_info_history_at h))]"

definition history_busy :: "job option \<Rightarrow> bool" where
  "history_busy job \<longleftrightarrow> (case job of Some j \<Rightarrow> job_status j = JobStatus_running | None \<Rightarrow> False)"

definition history_card :: "(string \<Rightarrow> string) \<Rightarrow> system_info option \<Rightarrow> bool \<Rightarrow> update_history_page option \<Rightarrow> int \<Rightarrow> history_event view" where
  "history_card age sys busy data page =
    (let pages = (case data of Some d \<Rightarrow> uhp_pages d | None \<Rightarrow> 1) in Group
     [ink_head ''Update history'' None [Button ''Roll back''
        (can_roll_back sys \<and> \<not> busy \<and> (case sys of Some s \<Rightarrow> sys_canSelfUpdate s | None \<Rightarrow> False)) Hist_rollback],
      shown_opt (\<lambda>d. shown_if (uhp_total d = 0) (Text (''No updates yet '' @ dash @ '' this is the version you installed.''))) data,
      Group (map (history_row age sys) (case data of Some d \<Rightarrow> uhp_items d | None \<Rightarrow> [])),
      shown_opt (\<lambda>d. shown_if (pages > 1) (Group
        [Text (show_int ((page - 1) * HISTORY_PAGE + 1) @ endash @ show_int (min (page * HISTORY_PAGE) (uhp_total d)) @ '' of '' @ show_int (uhp_total d)),
         Button ''Newer'' (page > 1) Hist_newer, Text (show_int page @ '' / '' @ show_int pages), Button ''Older'' (page < pages) Hist_older])) data])"

section \<open>What the cards offer\<close>

lemma offers_card_parts [simp]:
  "offers (available_card age s) = []" "offers (latest_card s) = []" "offers (progress_bar_view b []) = []"
  by (auto simp: available_card_def latest_card_def progress_bar_view_def Let_def comp_def)

lemma offers_details [simp]: "offers (details_view ls b ev []) = (if ls = [] then [] else [ev])"
  by (simp add: details_view_def)



lemma watch_offers_no_update:
  "Ver_update \<notin> set (offers (map_view watch_to_card w))" "Ver_check \<notin> set (offers (map_view watch_to_card w))"
  by (auto simp: watch_to_card_def split: watch_click.splits)

text \<open>The value a control shows is one it lists: the zone in force, and the window in force.\<close>

lemma zoneOptions_listed: "current = [] \<or> current \<in> set (zoneOptions resolved known current)"
  by (auto simp: zoneOptions_def Let_def)

theorem auto_values_listed:
  "distinct (zoneOptions resolved known current) \<and> {browserZone resolved, ''UTC''} \<subseteq> set (zoneOptions resolved known current) \<and>
   zone_value u sys \<in> fst ` set (zone_select resolved known (zone_value u sys)) \<and>
   (case u of Some u' \<Rightarrow> settings_updates_window u' = [] \<or> settings_updates_window u' \<in> set (window_options u) | None \<Rightarrow> True)"
proof (intro conjI)
  show "distinct (zoneOptions resolved known current)" by (simp add: zoneOptions_def Let_def)
  show "{browserZone resolved, ''UTC''} \<subseteq> set (zoneOptions resolved known current)"
    by (simp add: zoneOptions_def Let_def)
  show "zone_value u sys \<in> fst ` set (zone_select resolved known (zone_value u sys))"
    using zoneOptions_listed [of "zone_value u sys" resolved known] by (force simp: zone_select_def image_Un image_image)
  show "case u of Some u' \<Rightarrow> settings_updates_window u' = [] \<or> settings_updates_window u' \<in> set (window_options u) | None \<Rightarrow> True"
    by (auto simp: window_options_def split: option.splits)
qed

text \<open>The first time automatic updates are turned on, the zone is stored with them; after that it is left
  alone, and so it is when they are turned off.\<close>

lemma auto_toggle_zone:
  "map_of (settings_section (auto_toggle resolved u on) ''updates'') ''timezone'' =
    (if on \<and> (case u of Some u' \<Rightarrow> settings_updates_timezone u' = [] | None \<Rightarrow> True) then Some (JStr (browserZone resolved)) else None)"
  by (simp add: auto_toggle_def updates_patch_def settings_section_def)

text \<open>Leaving the field saves the trimmed path, if it is another one.\<close>

lemma compose_blur_saves:
  "compose_blur (Some u) draft = (Some p, k) \<longleftrightarrow>
    (\<exists>c. draft = Some c \<and> k = draft \<and> p = updates_patch [(''composeFile'', JStr (trim c))] \<and> trim c \<noteq> settings_updates_composeFile u)"
  by (auto simp: compose_blur_def split: option.splits if_splits)

lemma history_row_offers [simp]: "offers (history_row age sys h) = []"
  by (simp add: history_row_def)

text \<open>The page of the history stays within the pages there are.\<close>

definition history_ok :: "update_history_page option \<Rightarrow> int \<Rightarrow> bool" where
  "history_ok data page \<longleftrightarrow> 1 \<le> page \<and> (case data of Some d \<Rightarrow> page \<le> uhp_pages d | None \<Rightarrow> True)"

definition history_data :: "update_history_page option \<Rightarrow> history_event \<Rightarrow> update_history_page option" where
  "history_data data e = (case e of Hist_data d \<Rightarrow> Some d | _ \<Rightarrow> data)"

theorem history_page_in_range:
  assumes "history_ok data page" "e \<in> set (offers (history_card age sys busy data page)) \<or> (\<exists>d. e = Hist_data d \<and> 1 \<le> uhp_pages d)"
  shows "history_ok (history_data data e) (history_step data e page)"
  using assms by (cases data; cases e) (auto simp: history_ok_def history_data_def history_card_def ink_head_def Let_def split: if_splits)

lemma history_page_in_range_witness:
  "history_ok (Some \<lparr>uhp_items = [], uhp_total = 11, uhp_page = 2, uhp_pages = 3, uhp_limit = 5\<rparr>)
     (history_step (Some \<lparr>uhp_items = [], uhp_total = 11, uhp_page = 2, uhp_pages = 3, uhp_limit = 5\<rparr>) Hist_older 2)"
  using history_page_in_range [of "Some \<lparr>uhp_items = [], uhp_total = 11, uhp_page = 2, uhp_pages = 3, uhp_limit = 5\<rparr>" 2 Hist_older "\<lambda>t. t" None False]
  by (simp add: history_ok_def history_data_def history_card_def Let_def ink_head_def)

text \<open>While the updater works, which the version card calls updating, the history still offers to roll back:
  it only looks at the job, which has succeeded.\<close>

definition handed_off_job :: job where
  "handed_off_job = \<lparr>job_id = ''j1'', job_kind = JobKind_self_update, job_title = [], job_hostId = None, job_status = JobStatus_success,
     job_actor = [], job_steps = [], job_log = [], job_result = [(''handedOff'', JBool True)], job_startedAt = [], job_finishedAt = None\<rparr>"

definition git_system :: system_info where
  "git_system = \<lparr>sys_version = ''abcdef0'', sys_latest = ''1234567'', sys_updateAvailable = True, sys_releasedAt = None, sys_notes = [],
     sys_changelogUrl = [], sys_checkedAt = None, sys_canSelfUpdate = True,
     sys_source = \<lparr>system_info_source_repo = ''o/r'', system_info_source_branch = ''main'', system_info_source_sha = ''abcdef0'', system_info_source_path = ''/opt''\<rparr>,
     sys_history = [\<lparr>system_info_history_id = ''1'', system_info_history_version = ''abcdef0'', system_info_history_fromVersion = ''aaaaaaa'',
       system_info_history_status = ''success'', system_info_history_note = [], system_info_history_at = []\<rparr>],
     sys_mode = Some SystemInfoMode_git, sys_currentCommit = Some ''abcdef0'', sys_checkError = None, sys_auto = None\<rparr>"

lemma rollback_offered_during_update:
  "version_pill (Some git_system) (Some handed_off_job) Kind_update False = ''Updating''"
  "Hist_rollback \<in> set (offers (history_card age (Some git_system) (history_busy (Some handed_off_job)) None 1))"
  by (auto simp: version_pill_def update_running_def handed_off_def result_handed_off_def is_git_def handed_off_job_def git_system_def
    history_card_def history_busy_def ink_head_def can_roll_back_def Let_def)

text \<open>Without notes the headline counts no commits, and says the word twice.\<close>

lemma headline_without_notes: "available_headline git_system = ''New new commits on main''"
  by (simp add: available_headline_def git_system_def)

end
