(* ===== verification/Container_Card.thy ===== *)
theory Container_Card
  imports Page_Text Page_Prog Container_Filters Ui_Parts
begin

text \<open>
  A container on a card, what can be done to it, and the filter bar above the cards
  (\<open>src/web/components/host/ContainersTab.tsx\<close>, \<open>ContainerFilters.tsx\<close>, \<open>bits.tsx\<close>). \<open>age\<close> is \<open>ago\<close> and
  \<open>up\<close> the duration since a time stamp, both at the moment of the render.
\<close>

section \<open>Status texts and colours\<close>

fun hostStatusShort :: "host_status \<Rightarrow> string" where
  "hostStatusShort HS_online = ''Online''" | "hostStatusShort HS_degraded = ''Degraded''"
| "hostStatusShort HS_offline = ''Offline''" | "hostStatusShort HS_pending = ''Connecting''"

fun hostDot :: "host_status \<Rightarrow> string" where
  "hostDot HS_online = C_ok" | "hostDot HS_degraded = C_warn" | "hostDot HS_offline = C_crit" | "hostDot HS_pending = ''#9aa1ad''"

definition hostBigColor :: "host_status \<Rightarrow> int \<Rightarrow> string" where
  "hostBigColor s running = (if s = HS_offline then C_crit else if s = HS_degraded then C_warn
     else if s = HS_pending \<or> running = 0 then ''var(--ink-3)'' else C_ok)"

definition stoppedText :: "host_status \<Rightarrow> int \<Rightarrow> int \<Rightarrow> string" where
  "stoppedText s running all = (if s = HS_offline then ''host unreachable'' else if all = 0 then ''no containers''
     else if max 0 (all - running) \<noteq> 0 then show_int (max 0 (all - running)) @ '' stopped'' else ''all running'')"

definition gigabytes :: "int \<Rightarrow> string" where
  "gigabytes n = (let v = of_int n / 1024 ^ 3 in if v \<ge> 10 then show_int (js_round v) else to_fixed 1 v)"

definition gbPair :: "int \<Rightarrow> int \<Rightarrow> string" where
  "gbPair used all = (if all = 0 then emdash else gigabytes used @ ''/'' @ gigabytes all @ ''G'')"

definition gaugeColor :: "real \<Rightarrow> string \<Rightarrow> string" where
  "gaugeColor p base = (if p \<ge> 90 then C_crit else if p \<ge> 75 then C_warn else base)"

section \<open>Lists\<close>

definition running_number :: "container \<Rightarrow> real" where
  "running_number c = (if c_state c = CS_running then 1 else 0)"

definition sortContainers :: "(string \<Rightarrow> string \<Rightarrow> real) \<Rightarrow> container list \<Rightarrow> container list" where
  "sortContainers compare = js_sort (or_else (by_key (\<lambda>c. - running_number c)) (on_key compare c_name))"

definition matchContainer :: "container \<Rightarrow> string \<Rightarrow> bool" where
  "matchContainer c q \<longleftrightarrow> q = [] \<or> (let s = to_lower q in
     str_includes (to_lower (c_name c)) s \<or> str_includes (to_lower (c_image c)) s \<or> str_includes (to_lower (c_stack c)) s)"

definition uptimeText :: "(string \<Rightarrow> string) \<Rightarrow> (string \<Rightarrow> string) \<Rightarrow> container \<Rightarrow> string" where
  "uptimeText age up c =
    (if c_state c = CS_running then (if filled (c_startedAt c) then ''up '' @ up (text_or [] (c_startedAt c)) else ''running'')
     else if c_state c = CS_paused then ''paused''
     else if c_state c = CS_restarting then ''restarting'' @ ellipsis
     else if c_state c = CS_exited \<or> c_state c = CS_dead then ''exited ('' @ show_int (c_exitCode c) @ '')'' @
       (if filled (c_finishedAt c) then '' '' @ middot @ '' '' @ age (text_or [] (c_finishedAt c)) else [])
     else if c_state c = CS_created then ''created''
     else nonempty_or (container_state_text (c_state c)) (c_status c))"

section \<open>What can be done to a container\<close>

datatype ctr_action = Act_start | Act_stop | Act_restart | Act_pause | Act_unpause | Act_kill

fun action_word :: "ctr_action \<Rightarrow> string" where
  "action_word Act_start = ''start''" | "action_word Act_stop = ''stop''" | "action_word Act_restart = ''restart''"
| "action_word Act_pause = ''pause''" | "action_word Act_unpause = ''unpause''" | "action_word Act_kill = ''kill''"

fun action_done :: "ctr_action \<Rightarrow> string" where
  "action_done Act_start = ''Started''" | "action_done Act_stop = ''Stopped''" | "action_done Act_restart = ''Restarted''"
| "action_done Act_pause = ''Paused''" | "action_done Act_unpause = ''Resumed''" | "action_done Act_kill = ''Killed''"

definition ctr_path :: "string \<Rightarrow> string \<Rightarrow> string" where
  "ctr_path hostId i = ''/api/hosts/'' @ hostId @ ''/containers/'' @ i"

definition ctr_keys :: "string \<Rightarrow> string list" where
  "ctr_keys hostId = [''/api/hosts/'' @ hostId, ''/api/containers'', ''/api/overview'']"

definition refresh_containers :: "string \<Rightarrow> ('r, 's) prog \<Rightarrow> ('r, 's) prog" where
  "refresh_containers hostId p = foldr Refresh (ctr_keys hostId) p"

text \<open>\<open>act\<close>: the request, its toast, and what follows either way; the rest learns whether it went well.\<close>

definition act_then :: "http_call \<Rightarrow> string \<Rightarrow> string \<Rightarrow> (bool \<Rightarrow> ('r, 's) prog) \<Rightarrow> ('r, 's) prog" where
  "act_then c okTitle errTitle k = Fetch c (\<lambda>r. case r of
     Inl e \<Rightarrow> tell Notice_error errTitle (Some (errMsg e)) (k False) | Inr _ \<Rightarrow> tell Notice_ok okTitle None (k True))"

definition act_on :: "string \<Rightarrow> container \<Rightarrow> ctr_action \<Rightarrow> ('r, 's) prog" where
  "act_on hostId c a = act_then (post (ctr_path hostId (c_id c) @ ''/'' @ action_word a) None) (action_done a @ '' '' @ c_name c)
     (''Couldn'' @ apostrophe @ ''t '' @ (if a = Act_unpause then ''resume'' else action_word a) @ '' '' @ c_name c)
     (\<lambda>_. refresh_containers hostId Stop)"

definition update_question :: "container \<Rightarrow> confirm_input" where
  "update_question c = \<lparr>ci_title = ''Update '' @ c_name c @ ''?'',
     ci_text = ''Dockhand pulls the new image and recreates the container with the same configuration. It will be briefly unavailable.'',
     ci_confirmLabel = ''Update'', ci_danger = False,
     ci_details = (''Image'', c_image c) # (if container_update_tag (c_update c) \<noteq> [] then [(''New version'', container_update_tag (c_update c))] else []),
     ci_typeToConfirm = None\<rparr>"

definition update_call :: "string \<Rightarrow> container \<Rightarrow> http_call" where
  "update_call hostId c = post (ctr_path hostId (c_id c) @ ''/update'') None"

definition update_opts :: "string \<Rightarrow> container \<Rightarrow> track_opts" where
  "update_opts hostId c = \<lparr>tk_title = ''Updating '' @ c_name c, tk_done = Some (c_name c @ '' updated''), tk_invalidate = Some (ctr_keys hostId),
     tk_quiet = False, tk_onDone = False\<rparr>"

definition update_container :: "string \<Rightarrow> bool \<Rightarrow> container \<Rightarrow> ('r, 's) prog" where
  "update_container hostId asking c = (let go = Track (update_opts hostId c) (update_call hostId c) Stop in
     if asking then Query (update_question c) (\<lambda>ok. if ok then go else Stop) else go)"

definition removal_question :: "container \<Rightarrow> confirm_input" where
  "removal_question c = \<lparr>ci_title = ''Remove '' @ c_name c @ ''?'',
     ci_text = ''The container is stopped and deleted. Named volumes are kept, so its data survives.'',
     ci_confirmLabel = ''Remove'', ci_danger = True, ci_details = [(''Image'', c_image c)], ci_typeToConfirm = None\<rparr>"

text \<open>What follows a removal is told whether the container is gone.\<close>

definition remove_container :: "string \<Rightarrow> container \<Rightarrow> (bool \<Rightarrow> ('r, 's) prog) \<Rightarrow> ('r, 's) prog" where
  "remove_container hostId c k = Query (removal_question c) (\<lambda>ok. if \<not> ok then k False else
     act_then (del (ctr_path hostId (c_id c) @ ''?force=1&volumes=0'')) (''Removed '' @ c_name c) (''Couldn'' @ apostrophe @ ''t remove '' @ c_name c)
       (\<lambda>ok. refresh_containers hostId (k ok)))"

section \<open>The card\<close>

definition has_crashed :: "container \<Rightarrow> bool" where
  "has_crashed c \<longleftrightarrow> c_state c = CS_dead \<or> c_state c = CS_exited \<and> c_exitCode c \<noteq> 0"

definition stateShort :: "container \<Rightarrow> string" where
  "stateShort c = (if c_state c = CS_exited \<and> c_exitCode c \<noteq> 0 then ''Crashed'' else if c_state c = CS_exited then ''Stopped''
     else containerStateLabel (c_state c) (c_health c))"

definition primary_action :: "container \<Rightarrow> string \<times> ctr_action" where
  "primary_action c = (if c_state c = CS_running \<or> c_state c = CS_restarting then (''Stop'', Act_stop)
     else if c_state c = CS_paused then (''Resume'', Act_unpause) else (''Start'', Act_start))"

datatype ctr_event = Ctr_open | Ctr_select | Ctr_update | Ctr_logs | Ctr_shell | Ctr_primary | Ctr_menu menu_event

datatype menu_choice = Choose_restart | Choose_pause | Choose_resume | Choose_update | Choose_config | Choose_remove

definition card_choices :: "container \<Rightarrow> menu_choice list" where
  "card_choices c = [Choose_restart, if c_state c = CS_paused then Choose_resume else Choose_pause, Choose_update, Choose_config, Choose_remove]"

definition choice_text :: "container \<Rightarrow> menu_choice \<Rightarrow> string" where
  "choice_text c m = (case m of Choose_restart \<Rightarrow> ''Restart'' | Choose_pause \<Rightarrow> ''Pause'' | Choose_resume \<Rightarrow> ''Resume''
   | Choose_update \<Rightarrow> (if container_update_available (c_update c) then ''Update to '' @ container_update_tag (c_update c) else ''Update'')
   | Choose_config \<Rightarrow> ''Edit config'' | Choose_remove \<Rightarrow> ''Remove'')"

text \<open>The state is \<open>busy\<close>: set while the wrapped action runs, cleared whatever becomes of it.\<close>

definition while_busy :: "('r, bool) prog \<Rightarrow> ('r, bool) prog" where
  "while_busy p = Update (\<lambda>_. True) (prog_then p (Update (\<lambda>_. False) Stop))"

definition run_choice :: "string \<Rightarrow> container \<Rightarrow> menu_choice \<Rightarrow> ('r, bool) prog" where
  "run_choice hostId c m = (case m of
     Choose_restart \<Rightarrow> while_busy (act_on hostId c Act_restart)
   | Choose_pause \<Rightarrow> while_busy (act_on hostId c Act_pause)
   | Choose_resume \<Rightarrow> while_busy (act_on hostId c Act_unpause)
   | Choose_update \<Rightarrow> update_container hostId True c
   | Choose_config \<Rightarrow> Shell_do (Show_container hostId (c_id c) (Some Side_env)) Stop
   | Choose_remove \<Rightarrow> remove_container hostId c (\<lambda>_. Stop))"

fun card_prog :: "string \<Rightarrow> container \<Rightarrow> ctr_event \<Rightarrow> ('r, bool) prog" where
  "card_prog hostId c Ctr_open = Shell_do (Show_container hostId (c_id c) None) Stop"
| "card_prog hostId c Ctr_select = Stop"
| "card_prog hostId c Ctr_update = update_container hostId True c"
| "card_prog hostId c Ctr_logs = Shell_do (Show_terminal (T_logs hostId (c_id c) (Some (c_name c)))) Stop"
| "card_prog hostId c Ctr_shell = Shell_do (Show_terminal (T_exec hostId (c_id c) (Some (c_name c)))) Stop"
| "card_prog hostId c Ctr_primary = while_busy (act_on hostId c (snd (primary_action c)))"
| "card_prog hostId c (Ctr_menu (Menu_item i)) = (if i < length (card_choices c) then run_choice hostId c (card_choices c ! i) else Stop)"
| "card_prog hostId c (Ctr_menu _) = Stop"

definition big_stat :: "container \<Rightarrow> string \<times> string \<times> string" where
  "big_stat c =
    (if c_state c = CS_running then (to_fixed (if c_cpu c < 10 then 1 else 0) (c_cpu c) @ ''%'', ''cpu'', if c_health c = Health_unhealthy then C_crit else ''var(--ink)'')
     else if c_state c = CS_paused then (''Paused'', [], C_warn)
     else if c_state c = CS_restarting then (''Restarting'', [], C_warn)
     else if has_crashed c then (show_int (c_exitCode c), ''exit code'', C_crit)
     else if c_state c = CS_created then (''Created'', [], ''var(--ink-3)'')
     else (''Stopped'', [], ''var(--ink-3)''))"

definition is_live :: "container \<Rightarrow> bool" where
  "is_live c \<longleftrightarrow> c_state c = CS_running \<or> c_state c = CS_paused"

definition cpu_pct :: "container \<Rightarrow> real" where
  "cpu_pct c = min 100 (max 0 (c_cpu c))"

definition mem_max :: "int \<Rightarrow> container \<Rightarrow> int" where
  "mem_max memTotal c = (if c_memLimit c > 0 then c_memLimit c else memTotal)"

definition mem_pct :: "int \<Rightarrow> container \<Rightarrow> real" where
  "mem_pct memTotal c = (if mem_max memTotal c > 0 then min 100 (of_int (c_memUsed c) / of_int (mem_max memTotal c) * 100) else 0)"

definition semi_gauge :: "string \<Rightarrow> jsnum \<Rightarrow> string \<Rightarrow> string option \<Rightarrow> string \<times> real \<times> string \<times> string" where
  "semi_gauge label value tint valueLabel = (let v = (case value of Some x \<Rightarrow> x | None \<Rightarrow> 0) in
     (label, v, tint, case valueLabel of Some l \<Rightarrow> l | None \<Rightarrow> show_int (js_round v) @ ''%''))"

definition card_gauges :: "int \<Rightarrow> container \<Rightarrow> (string \<times> real \<times> string \<times> string) list" where
  "card_gauges memTotal c = (let cpu = cpu_pct c; mem = mem_pct memTotal c in
    [semi_gauge ''CPU'' (Some (if is_live c then cpu else 0)) (if is_live c then gaugeColor cpu C_blue else ''#9aa1ad'')
       (Some (if is_live c then show_int (js_round cpu) @ ''%'' else emdash)),
     semi_gauge ''MEM'' (Some (if is_live c then mem else 0)) (if is_live c then gaugeColor mem C_violet else ''#9aa1ad'')
       (Some (if is_live c then (if mem_max memTotal c > 0 then show_int (js_round mem) @ ''%'' else bytesShort (Some (of_int (c_memUsed c)))) else emdash))])"

definition ctr_menu :: "container \<Rightarrow> bool \<Rightarrow> ctr_event view" where
  "ctr_menu c unfurled = map_view Ctr_menu (dots_menu (map (choice_text c) (card_choices c)) unfurled)"

definition container_card :: "(string \<Rightarrow> string) \<Rightarrow> (string \<Rightarrow> string) \<Rightarrow> container \<Rightarrow> int \<Rightarrow> bool \<Rightarrow> string option \<Rightarrow> bool \<Rightarrow> bool \<Rightarrow> ctr_event view" where
  "container_card age up c memTotal selected hostName busy unfurled = Group
    [Button (if selected then ''Deselect'' else ''Select'') True Ctr_select, Button (c_name c) True Ctr_open,
     shown_if (c_stack c \<noteq> []) (Text (c_stack c)), shown_if (filled hostName) (Text (text_or [] hostName)), Text (c_image c),
     Text (stateShort c), ctr_menu c unfurled,
     Text (fst (big_stat c)), shown_if (fst (snd (big_stat c)) \<noteq> []) (Text (fst (snd (big_stat c)))),
     shown_if (container_update_available (c_update c)) (Button (nonempty_or ''update'' (container_update_tag (c_update c))) True Ctr_update),
     Text (portsText (c_ports c)), Group (map (\<lambda>(l, _, _, v). Group [Text v, Text l]) (card_gauges memTotal c)),
     Text (uptimeText age up c), Button ''Logs'' True Ctr_logs, Button ''Shell'' (c_state c = CS_running) Ctr_shell,
     Button (fst (primary_action c)) (\<not> busy) Ctr_primary]"

section \<open>The cards of a host\<close>

datatype tab_event = Tab_card container ctr_event | Tab_run | Tab_git

definition toggled_id :: "'a \<Rightarrow> 'a list \<Rightarrow> 'a list" where
  "toggled_id i sel = (if i \<in> set sel then filter (\<lambda>x. x \<noteq> i) sel else sel @ [i])"

definition nothing_shown :: "container_view \<Rightarrow> string" where
  "nothing_shown v = (let what = join '', '' (filter (\<lambda>s. s \<noteq> [])
      [if cv_status v \<noteq> F_all then (case find (\<lambda>f. so_value f = cv_status v) STATUS_FILTERS of Some f \<Rightarrow> to_lower (so_label f) | None \<Rightarrow> []) else [],
       if cv_stack v \<noteq> [] then (if cv_stack v = NO_STACK then ''outside any stack'' else ''in '' @ cv_stack v) else [],
       if cv_q v \<noteq> [] then ''matching '' @ curly (cv_q v) else []]) in
     ''No containers '' @ nonempty_or ''to show'' what @ ''.'')"

definition containers_tab :: "(string \<Rightarrow> string) \<Rightarrow> (string \<Rightarrow> string) \<Rightarrow> (string \<Rightarrow> string \<Rightarrow> real) \<Rightarrow> int \<Rightarrow> container list option \<Rightarrow>
    container_view \<Rightarrow> string list \<Rightarrow> (container \<Rightarrow> bool) \<Rightarrow> (container \<Rightarrow> bool) \<Rightarrow> tab_event view" where
  "containers_tab age up compare memTotal cs v selected busy unfurled = (case cs of
     None \<Rightarrow> Group []
   | Some [] \<Rightarrow> empty_state ''Nothing running here''
       ''This host has Docker but no containers yet. Run one from an image, or deploy a compose stack from GitHub.''
       [Button ''Run a container'' True Tab_run, Button ''Deploy from GitHub'' True Tab_git]
   | Some cs \<Rightarrow> (let list = visibleContainers compare cs v in
       if list = [] then Text (nothing_shown v)
       else Group (map (\<lambda>c. map_view (Tab_card c) (container_card age up c memTotal (c_id c \<in> set selected) None (busy c) (unfurled c))) list)))"

definition tab_prog :: "string \<Rightarrow> tab_event \<Rightarrow> ('r, bool) prog" where
  "tab_prog hostId e = (case e of Tab_card c ev \<Rightarrow> card_prog hostId c ev
   | Tab_run \<Rightarrow> Shell_do (Go_to (''/deploy?mode=image&host='' @ hostId)) Stop
   | Tab_git \<Rightarrow> Shell_do (Go_to (''/deploy?mode=git&host='' @ hostId)) Stop)"

definition tab_selection :: "tab_event \<Rightarrow> string list \<Rightarrow> string list" where
  "tab_selection e sel = (case e of Tab_card c Ctr_select \<Rightarrow> toggled_id (c_id c) sel | _ \<Rightarrow> sel)"

section \<open>The filter bar\<close>

datatype filters_event = Filter_status status_filter | Filter_stack string | Filter_sort sort_key | Filter_clear | Select_shown

definition in_stack_filter :: "string \<Rightarrow> container \<Rightarrow> bool" where
  "in_stack_filter s c \<longleftrightarrow> s = [] \<or> (if s = NO_STACK then c_stack c = [] else c_stack c = s)"

definition filter_counts :: "container_view \<Rightarrow> container list \<Rightarrow> status_filter \<Rightarrow> nat" where
  "filter_counts v cs f = (case statusCounts (filter (in_stack_filter (cv_stack v)) cs) f of Some n \<Rightarrow> n | None \<Rightarrow> 0)"

text \<open>\<open>sort_texts\<close> is \<open>Array.prototype.sort\<close> of texts.\<close>

definition stack_names :: "(string list \<Rightarrow> string list) \<Rightarrow> container list \<Rightarrow> string list" where
  "stack_names sort_texts cs = sort_texts (uniq (filter (\<lambda>s. s \<noteq> []) (map c_stack cs)))"

definition stack_options :: "(string list \<Rightarrow> string list) \<Rightarrow> container list \<Rightarrow> string drop_option list" where
  "stack_options sort_texts cs =
    [\<lparr>do_value = ''__all__'', do_label = ''All stacks'', do_sub = None\<rparr>] @
    map (\<lambda>s. \<lparr>do_value = s, do_label = s, do_sub = Some (show_nat (length (filter (\<lambda>c. c_stack c = s) cs)))\<rparr>) (stack_names sort_texts cs) @
    (if list_ex (\<lambda>c. c_stack c = []) cs
     then [\<lparr>do_value = NO_STACK, do_label = ''No stack'', do_sub = Some (show_nat (length (filter (\<lambda>c. c_stack c = []) cs)))\<rparr>] else [])"

definition filtered_view :: "container_view \<Rightarrow> bool" where
  "filtered_view v \<longleftrightarrow> cv_status v \<noteq> F_all \<or> cv_stack v \<noteq> [] \<or> cv_q v \<noteq> [] \<or> cv_sort v \<noteq> By_status"

definition shown_filters :: "container_view \<Rightarrow> container list \<Rightarrow> status_option list" where
  "shown_filters v cs = filter (\<lambda>f. so_always f \<or> filter_counts v cs (so_value f) > 0 \<or> cv_status v = so_value f) STATUS_FILTERS"

text \<open>What a choice makes of the view: pressing the chip that is on takes its filter off.\<close>

definition apply_filter :: "filters_event \<Rightarrow> container_view \<Rightarrow> container_view" where
  "apply_filter e v = (case e of
     Filter_status f \<Rightarrow> v\<lparr>cv_status := (if cv_status v = f \<and> f \<noteq> F_all then F_all else f)\<rparr>
   | Filter_stack s \<Rightarrow> v\<lparr>cv_stack := (if s = ''__all__'' then [] else s)\<rparr>
   | Filter_sort k \<Rightarrow> v\<lparr>cv_sort := k\<rparr>
   | Filter_clear \<Rightarrow> \<lparr>cv_q = [], cv_status = F_all, cv_stack = [], cv_sort = By_status\<rparr>
   | Select_shown \<Rightarrow> v)"

definition drop_choice :: "('v \<Rightarrow> 'e) \<Rightarrow> 'v drop_event \<Rightarrow> 'e + 'v drop_event" where
  "drop_choice f e = (case e of Drop_pick x \<Rightarrow> Inl (f x) | _ \<Rightarrow> Inr e)"

definition filter_bar :: "(string list \<Rightarrow> string list) \<Rightarrow> container list \<Rightarrow> container_view \<Rightarrow> nat \<Rightarrow> bool \<Rightarrow> bool \<Rightarrow>
    (filters_event + string drop_event + sort_key drop_event) view" where
  "filter_bar sort_texts cs v shown stackOpen sortOpen = Group
    [Group (map (\<lambda>f. Group [Button (so_label f) True (Inl (Filter_status (so_value f))), Text (show_nat (filter_counts v cs (so_value f)))]) (shown_filters v cs)),
     shown_if (stack_names sort_texts cs \<noteq> [] \<or> cv_stack v \<noteq> [])
       (map_view (\<lambda>e. case drop_choice Filter_stack e of Inl x \<Rightarrow> Inl x | Inr d \<Rightarrow> Inr (Inl d))
         (dropdown (''Select'' @ ellipsis) (stack_options sort_texts cs) (nonempty_or ''__all__'' (cv_stack v)) stackOpen)),
     map_view (\<lambda>e. case drop_choice Filter_sort e of Inl x \<Rightarrow> Inl x | Inr d \<Rightarrow> Inr (Inr d))
       (dropdown (''Select'' @ ellipsis) (map (\<lambda>(k, l). \<lparr>do_value = k, do_label = ''Sort: '' @ l, do_sub = None\<rparr>) SORTS) (cv_sort v) sortOpen),
     shown_if (shown > 0) (Button (''Select '' @ show_nat shown) True (Inl Select_shown)),
     shown_if (filtered_view v) (Button ''Clear'' True (Inl Filter_clear))]"

section \<open>What holds\<close>

lemma asks_before_act_then [simp]: "asks_before P (act_then c t e k) \<longleftrightarrow> \<not> P c \<and> (\<forall>b. asks_before P (k b))"
  by (auto simp: act_then_def sum_all all_bool_eq)

lemma no_silent_error_act_then [simp]: "no_silent_error (act_then c t e k) \<longleftrightarrow> (\<forall>b. no_silent_error (k b))"
  by (auto simp: act_then_def sum_all all_bool_eq)

lemma refresh_containers_simps [simp]:
  "asks_before P (refresh_containers h p) = asks_before P p" "no_silent_error (refresh_containers h p) = no_silent_error p"
  by (simp_all add: refresh_containers_def ctr_keys_def)

lemma while_busy_simps [simp]:
  "asks_before P p \<Longrightarrow> asks_before P (while_busy p)" "no_silent_error p \<Longrightarrow> no_silent_error (while_busy p)"
  by (simp_all add: while_busy_def asks_before_then no_silent_error_then)

lemma removes_posts [simp]: "\<not> removes (post p b)"
  by (simp add: removes_def calls)

lemma action_not_update: "post (ctr_path h i @ ''/'' @ action_word a) None \<noteq> update_call h' c"
  if "ctr_path h i = ctr_path h' (c_id c)"
  using that by (cases a) (auto simp: update_call_def calls)

lemma act_on_simps [simp]:
  "asks_before (\<lambda>x. removes x \<or> x = update_call hostId c) (act_on hostId c a)" "no_silent_error (act_on hostId c a)"
  using action_not_update [of hostId "c_id c" hostId c a] by (simp_all add: act_on_def)

lemma update_remove_simps [simp]:
  "asks_before P (update_container hostId True c)" "no_silent_error (update_container hostId b c)"
  "(\<And>b. asks_before P (k b)) \<Longrightarrow> asks_before P (remove_container hostId c k)"
  "(\<And>b. no_silent_error (k b)) \<Longrightarrow> no_silent_error (remove_container hostId c k)"
  by (auto simp: update_container_def remove_container_def Let_def all_bool_eq)

lemma run_choice_simps [simp]:
  "asks_before (\<lambda>x. removes x \<or> x = update_call hostId c) (run_choice hostId c m)" "no_silent_error (run_choice hostId c m)"
  by (cases m; simp add: run_choice_def)+

text \<open>A card removes or replaces its container only after a yes, and tells what went wrong.\<close>

theorem card_asks_first:
  "asks_before (\<lambda>x. removes x \<or> x = update_call hostId c) (card_prog hostId c e) \<and> no_silent_error (card_prog hostId c e)"
  by (induction hostId c e rule: card_prog.induct) simp_all

text \<open>The spinner ends with the answer, whatever it is.\<close>

lemma busy_ends: "state_after (while_busy (act_on hostId c a)) [Got r] b = False"
  by (cases r) (simp_all add: while_busy_def act_on_def act_then_def tell_def refresh_containers_def ctr_keys_def)

text \<open>The gauges stay on their scale, and show nothing for a container that is not alive.\<close>

theorem gauges_in_range:
  assumes "0 \<le> c_memUsed c"
  shows "list_all (\<lambda>(l, v, col, t). 0 \<le> v \<and> v \<le> 100 \<and> (is_live c \<or> v = 0)) (card_gauges memTotal c)"
proof -
  have "0 \<le> mem_pct memTotal c \<and> mem_pct memTotal c \<le> 100" using assms by (simp add: mem_pct_def)
  moreover have "0 \<le> cpu_pct c \<and> cpu_pct c \<le> 100" by (simp add: cpu_pct_def)
  ultimately show ?thesis by (simp add: card_gauges_def semi_gauge_def Let_def)
qed

text \<open>The filter in force always has its chip; clearing shows every container.\<close>

lemma active_chip: "cv_status v \<in> so_value ` set (shown_filters v cs)"
  by (cases "cv_status v") (simp_all add: shown_filters_def STATUS_FILTERS_def)

theorem clear_shows_all: "mset (visibleContainers compare cs (apply_filter Filter_clear v)) = mset cs \<and> \<not> filtered_view (apply_filter Filter_clear v)"
proof -
  have "filter (\<lambda>c. inStack w c \<and> matchesStatus c (cv_status w) \<and> matchText c (cv_q w)) cs = cs"
    if "w = apply_filter Filter_clear v" for w
    using that by (intro filter_True) (simp add: apply_filter_def inStack_def matchText_def)
  then show ?thesis by (simp add: visibleContainers_def sortBy_def apply_filter_def filtered_view_def)
qed

lemma in_stack_filter_eq: "in_stack_filter (cv_stack v) = inStack v"
  by (auto simp: in_stack_filter_def inStack_def fun_eq_iff)

text \<open>Without a text the number on a chip is what a click shows.\<close>

theorem chip_is_click:
  assumes "cv_q v = []"
  shows "filter_counts v cs f = length (visibleContainers compare cs (v\<lparr>cv_status := f\<rparr>))"
proof -
  have "filter (\<lambda>c. inStack (v\<lparr>cv_status := f\<rparr>) c \<and> matchesStatus c f \<and> matchText c (cv_q v)) cs = filter (\<lambda>c. matchesStatus c f) (filter (inStack v) cs)"
    using assms by (simp add: inStack_def matchText_def conj_commute)
  then show ?thesis by (simp add: filter_counts_def statusCounts_eq in_stack_filter_eq visibleContainers_def sortBy_def)
qed

text \<open>With one it is not: the counts look at the stack only.\<close>

definition named_container :: "string \<Rightarrow> container" where
  "named_container n = \<lparr>c_id = n, c_shortId = n, c_hostId = ''h'', c_name = n, c_image = [], c_imageId = [], c_state = CS_running, c_status = [],
     c_health = Health_none, c_exitCode = 0, c_stack = [], c_service = [], c_cpu = 0, c_memUsed = 0, c_memLimit = 0, c_ports = [], c_createdAt = [],
     c_startedAt = None, c_finishedAt = None,
     c_update = \<lparr>container_update_available = False, container_update_tag = [], container_update_checkedAt = None\<rparr>\<rparr>"

lemma chip_ignores_text:
  "let v = \<lparr>cv_q = ''b'', cv_status = F_all, cv_stack = [], cv_sort = By_status\<rparr>; cs = [named_container ''a'', named_container ''b''] in
     filter_counts v cs F_running = 2 \<and> visibleContainers compare cs (v\<lparr>cv_status := F_running\<rparr>) = [named_container ''b'']"
proof -
  have "matchText (named_container ''b'') ''b''" "\<not> matchText (named_container ''a'') ''b''"
    unfolding named_container_def by code_simp+
  moreover have "inStack v (named_container n)" if "cv_stack v = []" for v n using that by (simp add: inStack_def)
  ultimately show ?thesis
    by (simp add: filter_counts_def statusCounts_eq in_stack_filter_def visibleContainers_def sortBy_def named_container_def Let_def)
qed

lemma gauges_in_range_witness:
  "list_all (\<lambda>(l, v, col, t). 0 \<le> v \<and> v \<le> 100 \<and> (is_live (named_container ''a'') \<or> v = 0)) (card_gauges 0 (named_container ''a''))"
  by (rule gauges_in_range) (simp add: named_container_def)

lemma chip_is_click_witness:
  "filter_counts \<lparr>cv_q = [], cv_status = F_all, cv_stack = [], cv_sort = By_name\<rparr> [named_container ''a''] F_running =
   length (visibleContainers length_compare [named_container ''a''] \<lparr>cv_q = [], cv_status = F_running, cv_stack = [], cv_sort = By_name\<rparr>)"
  using chip_is_click [of "\<lparr>cv_q = [], cv_status = F_all, cv_stack = [], cv_sort = By_name\<rparr>" "[named_container ''a'']" F_running length_compare]
  by simp

text \<open>Running containers come first in the plain list.\<close>

lemma sortContainers_running_first:
  assumes "comparator compare"
  shows "sorted_wrt (\<lambda>a b. c_state b = CS_running \<longrightarrow> c_state a = CS_running) (sortContainers compare cs)"
proof -
  have "comparator (or_else (by_key (\<lambda>c. - running_number c)) (on_key compare c_name))"
    by (intro comparator_or_else comparator_by_key comparator_on_key assms)
  from comparator.sorted_js_sort [OF this]
  have "sorted_wrt (\<lambda>a b. or_else (by_key (\<lambda>c. - running_number c)) (on_key compare c_name) a b \<le> 0) (sortContainers compare cs)"
    unfolding sortContainers_def .
  then show ?thesis
    by (rule sorted_wrt_mono_rel [rotated]) (auto simp: or_else_def by_key_def running_number_def split: if_splits)
qed

end
