(* ===== verification/Container_Sidecar.thy ===== *)
theory Container_Sidecar
  imports Container_Card Log_Stream
begin

text \<open>
  The drawer of one container (\<open>src/web/components/sidecar/ContainerSidecar.tsx\<close>): its facts, its
  environment and how it is edited, mounts and networks, logs and events. \<open>age\<close>, \<open>up\<close> and \<open>date\<close> are
  \<open>ago\<close>, the duration since and \<open>dateTime\<close> of a time stamp at the moment of the render.
\<close>

section \<open>The drawer\<close>

definition side_tabs :: "(side_tab \<times> string) list" where
  "side_tabs = [(Side_overview, ''Overview''), (Side_env, ''Environment''), (Side_mounts, ''Mounts & network''), (Side_logs, ''Logs''), (Side_events, ''Events'')]"

record sidecar =
  sd_tab :: side_tab
  sd_editing :: bool
  sd_busy :: bool
  sd_closed :: bool

text \<open>\<open>sd_closed\<close>: \<open>onClose\<close> has been called, and the shell takes the drawer away.\<close>

definition sidecar_open :: "side_tab option \<Rightarrow> sidecar" where
  "sidecar_open start = \<lparr>sd_tab = (case start of Some t \<Rightarrow> t | None \<Rightarrow> Side_overview), sd_editing = (start = Some Side_env),
     sd_busy = False, sd_closed = False\<rparr>"

text \<open>Another container, or another tab to begin with, starts over.\<close>

definition sidecar_other :: "side_tab option \<Rightarrow> sidecar \<Rightarrow> sidecar" where
  "sidecar_other start st = (sidecar_open start)\<lparr>sd_busy := sd_busy st, sd_closed := sd_closed st\<rparr>"

text \<open>Escape closes the drawer, unless a dialog or the terminal window has it.\<close>

definition escape_closes_sidecar :: "string \<Rightarrow> bool \<Rightarrow> bool \<Rightarrow> bool" where
  "escape_closes_sidecar key dialogOpen inTerminal \<longleftrightarrow> key = ''Escape'' \<and> \<not> dialogOpen \<and> \<not> inTerminal"

definition sidecar_up :: "(string \<Rightarrow> string) \<Rightarrow> (string \<Rightarrow> string) \<Rightarrow> container_detail \<Rightarrow> string" where
  "sidecar_up age up c =
    (if c_state c = CS_running \<and> filled (c_startedAt c) then ''up '' @ up (text_or [] (c_startedAt c))
     else if filled (c_finishedAt c) \<and> c_state c \<noteq> CS_created then container_state_text (c_state c) @ '' '' @ age (text_or [] (c_finishedAt c))
     else container_state_text (c_state c))"

datatype side_event = Side_primary | Side_restart | Side_open_logs | Side_open_shell | Side_edit | Side_remove | Side_show side_tab | Side_update | Side_close

definition side_busy :: "('r, sidecar) prog \<Rightarrow> ('r, sidecar) prog" where
  "side_busy p = Update (sd_busy_update (\<lambda>_. True)) (prog_then p (Update (sd_busy_update (\<lambda>_. False)) Stop))"

definition close_sidecar :: "sidecar \<Rightarrow> sidecar" where
  "close_sidecar = sd_closed_update (\<lambda>_. True)"

fun side_prog :: "string \<Rightarrow> container_detail \<Rightarrow> side_event \<Rightarrow> ('r, sidecar) prog" where
  "side_prog hostId c Side_primary = side_busy (act_on hostId (container.truncate c) (snd (primary_action (container.truncate c))))"
| "side_prog hostId c Side_restart = side_busy (act_on hostId (container.truncate c) Act_restart)"
| "side_prog hostId c Side_open_logs = Shell_do (Show_terminal (T_logs hostId (c_id c) (Some (c_name c)))) Stop"
| "side_prog hostId c Side_open_shell = Shell_do (Show_terminal (T_exec hostId (c_id c) (Some (c_name c)))) Stop"
| "side_prog hostId c Side_edit = Update (\<lambda>s. s\<lparr>sd_tab := Side_env, sd_editing := True\<rparr>) Stop"
| "side_prog hostId c Side_remove = remove_container hostId (container.truncate c) (\<lambda>gone. if gone then Update close_sidecar Stop else Stop)"
| "side_prog hostId c (Side_show t) = Update (sd_tab_update (\<lambda>_. t)) Stop"
| "side_prog hostId c Side_update = update_container hostId True (container.truncate c)"
| "side_prog hostId c Side_close = Update close_sidecar Stop"

section \<open>Overview\<close>

definition latest_of :: "real list \<Rightarrow> real" where
  "latest_of a = (if a = [] then 0 else last a)"

definition at_least_max :: "real \<Rightarrow> real list \<Rightarrow> real" where
  "at_least_max d xs = fold max xs d"

record side_stat =
  sst_key :: string
  sst_value :: string
  sst_values :: "real list"
  sst_max :: real
  sst_color :: string

definition per_second :: "real \<Rightarrow> string" where
  "per_second x = bytesShort (Some x) @ ''/s''"

definition side_stats :: "container_detail \<Rightarrow> side_stat list" where
  "side_stats c =
    (let h = cd_history c; cpu = container_detail_history_cpu h; mem = container_detail_history_mem h;
         rx = container_detail_history_netRx h; tx = container_detail_history_netTx h;
         run = c_state c = CS_running; netMax = at_least_max 1 (rx @ tx) in
     [\<lparr>sst_key = ''CPU'', sst_value = (if run then to_fixed 1 (c_cpu c) @ ''%'' else emdash), sst_values = cpu, sst_max = at_least_max 100 cpu, sst_color = C_blue\<rparr>,
      \<lparr>sst_key = ''Memory'', sst_value = (if run then bytesShort (Some (of_int (c_memUsed c))) @
           (if c_memLimit c > 0 then '' / '' @ bytesShort (Some (of_int (c_memLimit c))) else []) else emdash),
       sst_values = mem, sst_max = (if c_memLimit c > 0 then of_int (c_memLimit c) else at_least_max 1 mem), sst_color = C_violet\<rparr>,
      \<lparr>sst_key = ''Net in'', sst_value = (if run then per_second (latest_of rx) else emdash), sst_values = rx, sst_max = netMax, sst_color = C_ok\<rparr>,
      \<lparr>sst_key = ''Net out'', sst_value = (if run then per_second (latest_of tx) else emdash), sst_values = tx, sst_max = netMax, sst_color = C_warn\<rparr>])"

fun policy_text :: "container_detail_restart_policy \<Rightarrow> string" where
  "policy_text ContainerDetailRestartPolicy_no = ''no''" | "policy_text ContainerDetailRestartPolicy_always = ''always''"
| "policy_text ContainerDetailRestartPolicy_unless_stopped = ''unless-stopped''"
| "policy_text ContainerDetailRestartPolicy_on_failure = ''on-failure''"

definition POLICIES :: "container_detail_restart_policy list" where
  "POLICIES = [ContainerDetailRestartPolicy_no, ContainerDetailRestartPolicy_always, ContainerDetailRestartPolicy_unless_stopped,
     ContainerDetailRestartPolicy_on_failure]"

definition short_image :: "string \<Rightarrow> string" where
  "short_image i = take 12 (if starts_with i ''sha256:'' then drop 7 i else i)"

definition side_facts :: "(string \<Rightarrow> string) \<Rightarrow> (string \<Rightarrow> string) \<Rightarrow> container_detail \<Rightarrow> (string \<times> string) list" where
  "side_facts age date c =
    [(''Image ID'', nonempty_or emdash (short_image (c_imageId c))),
     (''Created'', date (c_createdAt c) @ '' '' @ middot @ '' '' @ age (c_createdAt c)),
     (''Restart policy'', policy_text (cd_restartPolicy c)), (''Command'', nonempty_or emdash (cd_command c))] @
    (if cd_entrypoint c \<noteq> [] then [(''Entrypoint'', cd_entrypoint c)] else []) @
    [(''Workdir'', nonempty_or ''/'' (cd_workdir c)), (''Hostname'', nonempty_or emdash (cd_hostname c)), (''Restart count'', show_int (cd_restartCount c))] @
    (if c_state c \<noteq> CS_running \<and> c_state c \<noteq> CS_created then [(''Exit code'', show_int (c_exitCode c))] else [])"

fun health_text :: "health \<Rightarrow> string" where
  "health_text Health_healthy = ''healthy''" | "health_text Health_unhealthy = ''unhealthy''" | "health_text Health_starting = ''starting''"
| "health_text Health_none = ''none''"

definition overview_view :: "(string \<Rightarrow> string) \<Rightarrow> (string \<Rightarrow> string) \<Rightarrow> container_detail \<Rightarrow> 'e view" where
  "overview_view age date c = Group
    [Group (map (\<lambda>x. Group [Text (sst_key x), Text (sst_value x)]) (side_stats c)),
     Group (map (\<lambda>(k, v). Group [Text k, Text v]) (side_facts age date c)),
     shown_if (cd_healthCmd c \<noteq> []) (Group [Text ''Health check'', shown_if (c_health c \<noteq> Health_none) (Text (middot @ '' '' @ health_text (c_health c))),
       Text (''every '' @ nonempty_or ''30s'' (cd_healthInterval c)), Text (cd_healthCmd c)])]"

section \<open>Environment\<close>

record env_edit =
  ee_show :: bool
  ee_rows :: "kv list"
  ee_policy :: container_detail_restart_policy
  ee_saving :: bool
  ee_editing :: bool

text \<open>Entering the edit mode copies the variables and the policy.\<close>

definition enter_edit :: "container_detail \<Rightarrow> env_edit \<Rightarrow> env_edit" where
  "enter_edit c st = st\<lparr>ee_editing := True, ee_rows := map kv.truncate (cd_env c), ee_policy := cd_restartPolicy c\<rparr>"

definition saved_env :: "kv list \<Rightarrow> kv list" where
  "saved_env rows = map (\<lambda>r. \<lparr>kv_k = trim (kv_k r), kv_v = kv_v r\<rparr>) (filter (\<lambda>r. trim (kv_k r) \<noteq> []) rows)"

text \<open>The first key that is there twice.\<close>

fun first_dup :: "string list \<Rightarrow> string list \<Rightarrow> string option" where
  "first_dup seen [] = None"
| "first_dup seen (k # ks) = (if k \<in> set seen then Some k else first_dup (seen @ [k]) ks)"

definition recreate_question :: "container_detail \<Rightarrow> confirm_input" where
  "recreate_question c = \<lparr>ci_title = ''Recreate '' @ c_name c @ ''?'',
     ci_text = ''Docker can'' @ apostrophe @ ''t change environment variables on a running container, so Dockhand recreates it with the new configuration. It restarts briefly.'',
     ci_confirmLabel = ''Save & recreate'', ci_danger = False, ci_details = [], ci_typeToConfirm = None\<rparr>"

definition env_json :: "kv list \<Rightarrow> json" where
  "env_json env = JArr (map (\<lambda>r. JObj [(''k'', JStr (kv_k r)), (''v'', JStr (kv_v r))]) env)"

definition recreate_call :: "string \<Rightarrow> container_detail \<Rightarrow> kv list \<Rightarrow> container_detail_restart_policy \<Rightarrow> http_call" where
  "recreate_call hostId c env policy = patch (ctr_path hostId (c_id c)) (JObj ([(''env'', env_json env)] @
     (if policy \<noteq> cd_restartPolicy c then [(''restartPolicy'', JStr (policy_text policy))] else [])))"

definition recreate_opts :: "string \<Rightarrow> container_detail \<Rightarrow> track_opts" where
  "recreate_opts hostId c = \<lparr>tk_title = ''Recreating '' @ c_name c, tk_done = Some (c_name c @ '' updated''),
     tk_invalidate = Some [''/api/hosts/'' @ hostId, ''/api/containers''], tk_quiet = False, tk_onDone = False\<rparr>"

definition save_env :: "string \<Rightarrow> container_detail \<Rightarrow> env_edit \<Rightarrow> ('r, env_edit) prog" where
  "save_env hostId c st = (let env = saved_env (ee_rows st) in
     case first_dup [] (map kv_k env) of
       Some d \<Rightarrow> tell Notice_error ''Duplicate variable'' (Some (d @ '' is set more than once.'')) Stop
     | None \<Rightarrow> Query (recreate_question c) (\<lambda>ok. if \<not> ok then Stop else
         Update (ee_saving_update (\<lambda>_. True)) (Track (recreate_opts hostId c) (recreate_call hostId c env (ee_policy st)) Stop)))"

text \<open>When the job has ended: a success leaves the edit mode.\<close>

definition save_ended :: "job option \<Rightarrow> env_edit \<Rightarrow> env_edit" where
  "save_ended job st = (case job of Some j \<Rightarrow> if job_status j = JobStatus_success then st\<lparr>ee_saving := False, ee_editing := False\<rparr> else st\<lparr>ee_saving := False\<rparr>
     | None \<Rightarrow> st\<lparr>ee_saving := False\<rparr>)"

datatype env_event = Env_key nat string | Env_value nat string | Env_remove nat | Env_add | Env_policy container_detail_restart_policy
  | Env_cancel | Env_save | Env_show | Env_edit

definition without_nth :: "nat \<Rightarrow> 'a list \<Rightarrow> 'a list" where
  "without_nth i xs = take i xs @ drop (Suc i) xs"

fun env_step :: "container_detail \<Rightarrow> env_event \<Rightarrow> env_edit \<Rightarrow> env_edit" where
  "env_step c (Env_key i k) st = st\<lparr>ee_rows := (ee_rows st)[i := (ee_rows st ! i)\<lparr>kv_k := k\<rparr>]\<rparr>"
| "env_step c (Env_value i v) st = st\<lparr>ee_rows := (ee_rows st)[i := (ee_rows st ! i)\<lparr>kv_v := v\<rparr>]\<rparr>"
| "env_step c (Env_remove i) st = st\<lparr>ee_rows := without_nth i (ee_rows st)\<rparr>"
| "env_step c Env_add st = st\<lparr>ee_rows := ee_rows st @ [\<lparr>kv_k = [], kv_v = []\<rparr>]\<rparr>"
| "env_step c (Env_policy p) st = st\<lparr>ee_policy := p\<rparr>"
| "env_step c Env_cancel st = st\<lparr>ee_editing := False\<rparr>"
| "env_step c Env_save st = st"
| "env_step c Env_show st = st\<lparr>ee_show := \<not> ee_show st\<rparr>"
| "env_step c Env_edit st = enter_edit c st"

definition masked :: string where
  "masked = concat (replicate 8 (map char_of [226 :: nat, 128, 162]))"

definition env_shown :: "bool \<Rightarrow> env_var \<Rightarrow> string" where
  "env_shown showAll e = (if ev_secret e \<and> \<not> showAll then masked else nonempty_or [CHR 0x22, CHR 0x22] (kv_v e))"

definition secrets :: "container_detail \<Rightarrow> nat" where
  "secrets c = length (filter ev_secret (cd_env c))"

definition env_row_view :: "nat \<times> kv \<Rightarrow> env_event view" where
  "env_row_view r = Group [Input ''KEY'' (kv_k (snd r)) (Env_key (fst r)), Input ''value'' (kv_v (snd r)) (Env_value (fst r)),
     Button ''Remove variable'' True (Env_remove (fst r))]"

definition env_view :: "container_detail \<Rightarrow> env_edit \<Rightarrow> env_event view" where
  "env_view c st =
    (if ee_editing st then Group
       [Text (''Editing '' @ show_nat (length (ee_rows st)) @ '' variables''), Button ''Cancel'' (\<not> ee_saving st) Env_cancel,
        Button ''Save'' (\<not> ee_saving st) Env_save, Group (map env_row_view (enumerate 0 (ee_rows st))), Button ''Add variable'' True Env_add,
        Text ''Restart policy'', Group (map (\<lambda>p. Button (policy_text p) True (Env_policy p)) POLICIES)]
     else Group
       [Text (show_nat (length (cd_env c)) @ '' variable'' @ (if length (cd_env c) = 1 then [] else ''s'') @
          (if secrets c > 0 then '' '' @ middot @ '' '' @ show_nat (secrets c) @ '' secret'' else [])),
        Button (if ee_show st then ''Hide secrets'' else ''Show secrets'') True Env_show, Button ''Edit'' True Env_edit,
        shown_if (cd_env c = []) (Text ''No environment variables.''),
        Group (map (\<lambda>e. Group [Text (kv_k e), Text (env_shown (ee_show st) e)]) (cd_env c)),
        shown_if (cd_labels c \<noteq> []) (Group (Text ''Labels'' # map (\<lambda>l. Group [Text (kv_k l), Text (kv_v l)]) (cd_labels c)))])"

section \<open>Mounts and networks\<close>

definition port_id :: "port_map \<Rightarrow> int \<times> int \<times> port_map_proto" where
  "port_id p = (pm_host p, pm_container p, pm_proto p)"

fun first_of_each :: "'k list \<Rightarrow> ('a \<Rightarrow> 'k) \<Rightarrow> 'a list \<Rightarrow> 'a list" where
  "first_of_each seen f [] = []"
| "first_of_each seen f (x # xs) = (if f x \<in> set seen then first_of_each seen f xs else x # first_of_each (f x # seen) f xs)"

definition port_rows :: "container_detail \<Rightarrow> port_map list" where
  "port_rows c = first_of_each [] port_id (filter (\<lambda>p. pm_host p > 0) (c_ports c))"

definition host_addr :: "string \<Rightarrow> string" where
  "host_addr a = (if CHR '':'' \<in> set a \<and> \<not> starts_with a ''['' then ''['' @ a @ '']'' else a)"

definition bound_to :: "port_map \<Rightarrow> string" where
  "bound_to p = (if pm_ip p \<noteq> [] \<and> pm_ip p \<noteq> ''0.0.0.0'' \<and> pm_ip p \<noteq> ''::'' then pm_ip p @ '':'' else []) @ show_int (pm_host p)"

definition side_port_row :: "string \<Rightarrow> port_map \<Rightarrow> 'e view" where
  "side_port_row address p = Group [Text (bound_to p), Text (show_int (pm_container p)), Text (proto_text (pm_proto p)),
     shown_if (pm_proto p = Proto_tcp \<and> address \<noteq> []) (Link ''open'' (''http://'' @ host_addr address @ '':'' @ show_int (pm_host p)))]"

fun mode_text :: "mount_mode \<Rightarrow> string" where
  "mode_text MountMode_rw = ''rw''" | "mode_text MountMode_ro = ''ro''"

definition mount_row :: "mount \<Rightarrow> 'e view" where
  "mount_row m = Group [Text (nonempty_or ''(anonymous)'' (mnt_src m)), Text (arrow @ '' '' @ mnt_dst m),
     Text ((if mnt_type m \<noteq> ''bind'' then mnt_type m @ '' '' @ middot @ '' '' else []) @ mode_text (mnt_mode m))]"

definition side_network_row :: "container_network \<Rightarrow> 'e view" where
  "side_network_row n = Group [Text (cn_name n), Text (nonempty_or ''no ip'' (cn_ip n) @ (if cn_gw n \<noteq> [] then '' '' @ middot @ '' gw '' @ cn_gw n else [])),
     Text (cn_driver n)]"

definition mounts_view :: "container_detail \<Rightarrow> string \<Rightarrow> 'e view" where
  "mounts_view c address = Group
    [Text ''Mounts'', shown_if (cd_mounts c = []) (Text (''No mounts '' @ dash @ '' this container keeps no data outside its image.'')),
     Group (map mount_row (cd_mounts c)),
     Text ''Networks'', shown_if (cd_networks c = []) (Text ''Not attached to any network.''), Group (map side_network_row (cd_networks c)),
     Text ''Published ports'',
     shown_if (port_rows c = []) (Text (if c_ports c \<noteq> []
       then ''Only exposed internally ('' @ join '', '' (map (\<lambda>p. show_int (pm_container p) @ ''/'' @ proto_text (pm_proto p)) (c_ports c)) @ '').''
       else ''No ports published.'')),
     Group (map (side_port_row address) (port_rows c))]"

section \<open>Logs and events\<close>

fun logs_hint :: "log_status \<Rightarrow> string" where
  "logs_hint LS_connecting = ''Connecting'' @ ellipsis"
| "logs_hint LS_error = ''Couldn'' @ apostrophe @ ''t open the log stream.''"
| "logs_hint LS_ended = ''No log output.''"
| "logs_hint _ = ''Waiting for log lines'' @ ellipsis"

definition side_logs :: "log_line list \<Rightarrow> string \<Rightarrow> log_status \<Rightarrow> string list" where
  "side_logs lines q status = (if lines = [] then [logs_hint status] else []) @ map ll_line (log_rows lines q)"

definition eventColor :: "string \<Rightarrow> string" where
  "eventColor a = (let s = to_lower a in
     if str_includes s ''unhealthy'' \<or> starts_with s ''die'' \<or> starts_with s ''kill'' \<or> starts_with s ''oom'' \<or> str_includes s ''error'' then C_crit
     else if str_includes s ''healthy'' \<or> starts_with s ''start'' \<or> starts_with s ''create'' \<or> starts_with s ''unpause'' then C_ok
     else if starts_with s ''restart'' \<or> starts_with s ''pause'' \<or> str_includes s ''starting'' then C_warn
     else if starts_with s ''stop'' \<or> starts_with s ''destroy'' then ''#9aa1ad'' else C_blue)"

definition events_view :: "(string \<Rightarrow> string) \<Rightarrow> container_event list \<Rightarrow> 'e view" where
  "events_view date es = (if es = [] then Text ''No events recorded yet.''
     else Group (map (\<lambda>e. Group [Text (date (ce_t e)), Text (ce_action e), Text (ce_by e)]) es))"

section \<open>The whole drawer\<close>

datatype drawer_part = Part_side side_event | Part_env env_event | Part_full | Part_filter string

definition sidecar_view :: "(string \<Rightarrow> string) \<Rightarrow> (string \<Rightarrow> string) \<Rightarrow> (string \<Rightarrow> string) \<Rightarrow> js_error option \<Rightarrow> host option \<Rightarrow>
    container_detail option \<Rightarrow> sidecar \<Rightarrow> env_edit \<Rightarrow> log_line list \<Rightarrow> string \<Rightarrow> log_status \<Rightarrow> drawer_part view" where
  "sidecar_view age up date err host c st env lines q status =
    (let run = (case c of Some c \<Rightarrow> c_state c = CS_running | None \<Rightarrow> False) in Group
     [(case c of
         Some c \<Rightarrow> Group [Text (c_name c), Text (containerStateLabel (c_state c) (c_health c)),
            shown_if (container_update_available (c_update c)) (Button (''Update to '' @ container_update_tag (c_update c)) True (Part_side Side_update)),
            Text (c_image c), Text ((case host of Some h \<Rightarrow> h_name h | None \<Rightarrow> ellipsis) @ '' '' @ middot @ '' '' @ sidecar_up age up c @ '' '' @ middot @ '' '' @ c_shortId c)]
       | None \<Rightarrow> (case err of Some e \<Rightarrow> Group [Text ''Container not found'', Text (errMsg e)] | None \<Rightarrow> Group [])),
      Button ''Close'' True (Part_side Side_close),
      Button (case c of Some c \<Rightarrow> fst (primary_action (container.truncate c)) | None \<Rightarrow> ''Start'') (c \<noteq> None \<and> \<not> sd_busy st) (Part_side Side_primary),
      shown_if run (Button ''Restart'' (\<not> sd_busy st) (Part_side Side_restart)), Button ''Logs'' True (Part_side Side_open_logs),
      Button ''Shell'' run (Part_side Side_open_shell), Button ''Edit config'' (c \<noteq> None) (Part_side Side_edit),
      Button ''Remove'' (c \<noteq> None) (Part_side Side_remove),
      Group (map (\<lambda>(t, l). Button l True (Part_side (Side_show t))) side_tabs),
      (case sd_tab st of
         Side_logs \<Rightarrow> Group ([Input (''Filter'' @ ellipsis) q Part_filter, Button ''Full view'' True Part_full] @ map Text (side_logs lines q status))
       | t \<Rightarrow> (case c of None \<Rightarrow> Group [] | Some c \<Rightarrow> (case t of
            Side_overview \<Rightarrow> overview_view age date c | Side_env \<Rightarrow> map_view Part_env (env_view c env)
          | Side_mounts \<Rightarrow> mounts_view c (case host of Some h \<Rightarrow> h_address h | None \<Rightarrow> []) | _ \<Rightarrow> events_view date (cd_events c))))])"

section \<open>What holds\<close>

lemma first_dup_None: "first_dup seen ks = None \<longleftrightarrow> distinct ks \<and> set ks \<inter> set seen = {}"
  by (induction seen ks rule: first_dup.induct) auto

lemma save_env_asks: "asks_before (\<lambda>_. True) (save_env hostId c st)"
  by (simp add: save_env_def Let_def tell_def split: option.split)

lemma save_env_starts:
  assumes "Started o' call \<in> set (run_prog (save_env hostId c st) rs)"
  shows "first_dup [] (map kv_k (saved_env (ee_rows st))) = None \<and> call = recreate_call hostId c (saved_env (ee_rows st)) (ee_policy st)"
  using assms by (auto simp: save_env_def Let_def tell_def split: option.splits list.splits reply.splits if_splits)


definition plain_detail :: "env_var list \<Rightarrow> container_detail" where
  "plain_detail env = container.extend (named_container ''a'') (container_detail.fields [] [] [] [] ContainerDetailRestartPolicy_no 0 env [] [] [] [] []
     \<lparr>container_detail_history_cpu = [], container_detail_history_mem = [], container_detail_history_netRx = [], container_detail_history_netTx = []\<rparr> [])"


text \<open>A secret is not shown before it is asked for; leaving the edit mode and entering it starts from the
  container's own variables.\<close>

lemma secret_masked: "ev_secret e \<Longrightarrow> env_shown False e = masked"
  by (simp add: env_shown_def)

lemma edit_starts_over: "ee_rows (env_step c Env_edit (env_step c Env_cancel st)) = map kv.truncate (cd_env c)"
  by (simp add: enter_edit_def)

lemma first_of_each_facts:
  "distinct (map f (first_of_each seen f xs)) \<and> set (map f (first_of_each seen f xs)) = set (map f xs) - set seen"
  by (induction seen f xs rule: first_of_each.induct) auto

text \<open>Each published port is listed once.\<close>

theorem ports_listed_once:
  "distinct (map port_id (port_rows c)) \<and> port_id ` set (port_rows c) = port_id ` {p \<in> set (c_ports c). pm_host p > 0}"
  using first_of_each_facts [of port_id "[]"] by (auto simp: port_rows_def)

text \<open>An IPv6 address is bracketed in the links, once.\<close>

lemma host_addr_idem: "host_addr (host_addr a) = host_addr a"
  by (simp add: host_addr_def starts_with_def)

lemma side_busy_simps [simp]:
  "asks_before P p \<Longrightarrow> asks_before P (side_busy p)" "no_silent_error p \<Longrightarrow> no_silent_error (side_busy p)"
  by (simp_all add: side_busy_def asks_before_then no_silent_error_then)

text \<open>Nothing is removed or replaced before a yes, and every failure is told.\<close>

theorem sidecar_asks_first:
  "asks_before (\<lambda>x. removes x \<or> x = update_call hostId (container.truncate c)) (side_prog hostId c e) \<and> no_silent_error (side_prog hostId c e)"
  by (induction hostId c e rule: side_prog.induct) simp_all

text \<open>The drawer stays open with its container unless the removal went through.\<close>

lemma removal_closes:
  "sd_closed (state_after (side_prog hostId c Side_remove) [Choice yes, Got r] st) = (sd_closed st \<or> yes \<and> (case r of Inl _ \<Rightarrow> False | Inr _ \<Rightarrow> True))"
  by (cases yes; cases r)
    (simp_all add: remove_container_def act_then_def tell_def refresh_containers_def ctr_keys_def close_sidecar_def)

end
