(* ===== verification/Resources_Page.thy ===== *)
theory Resources_Page
  imports Container_Card Machines_Page Terminal_Session
begin

text \<open>
  The containers, stacks, images, volumes and networks of every host on one page
  (\<open>src/web/app/(app)/resources/page.tsx\<close>): what the address says and how it is rewritten, the selection
  and what is done to it, the clean-up, and the text filter with its delay.
\<close>

section \<open>What the address says\<close>

datatype res_tab = Res_containers | Res_stacks | Res_images | Res_volumes | Res_networks

definition res_tabs :: "res_tab list" where
  "res_tabs = [Res_containers, Res_stacks, Res_images, Res_volumes, Res_networks]"

fun res_word :: "res_tab \<Rightarrow> string" where
  "res_word Res_containers = ''containers''" | "res_word Res_stacks = ''stacks''" | "res_word Res_images = ''images''"
| "res_word Res_volumes = ''volumes''" | "res_word Res_networks = ''networks''"

fun res_label :: "res_tab \<Rightarrow> string" where
  "res_label Res_containers = ''Containers''" | "res_label Res_stacks = ''Stacks''" | "res_label Res_images = ''Images''"
| "res_label Res_volumes = ''Volumes''" | "res_label Res_networks = ''Networks''"

text \<open>Where a row opens on its host page.\<close>

fun host_tab_word :: "res_tab \<Rightarrow> string" where
  "host_tab_word Res_containers = []" | "host_tab_word Res_stacks = ''stacks''" | "host_tab_word Res_images = ''storage''"
| "host_tab_word Res_volumes = ''storage''" | "host_tab_word Res_networks = ''networks''"

definition open_on_host :: "string \<Rightarrow> res_tab \<Rightarrow> string" where
  "open_on_host hostId t = ''/hosts/'' @ hostId @ (if host_tab_word t \<noteq> [] then ''?tab='' @ host_tab_word t else [])"

fun status_word :: "status_filter \<Rightarrow> string" where
  "status_word F_all = ''all''" | "status_word F_running = ''running''" | "status_word F_healthy = ''healthy''"
| "status_word F_unhealthy = ''unhealthy''" | "status_word F_starting = ''starting''" | "status_word F_stopped = ''stopped''"
| "status_word F_crashed = ''crashed''" | "status_word F_paused = ''paused''" | "status_word F_restarting = ''restarting''"
| "status_word F_updates = ''updates''"

fun sort_word :: "sort_key \<Rightarrow> string" where
  "sort_word By_status = ''status''" | "sort_word By_name = ''name''" | "sort_word By_cpu = ''cpu''" | "sort_word By_mem = ''mem''"
| "sort_word By_newest = ''newest''" | "sort_word By_oldest = ''oldest''"

definition res_tab_of :: "address_query \<Rightarrow> res_tab" where
  "res_tab_of q = (case find (\<lambda>t. res_word t = param ''tab'' q) res_tabs of Some t \<Rightarrow> t | None \<Rightarrow> Res_containers)"

definition view_of :: "address_query \<Rightarrow> container_view" where
  "view_of q = \<lparr>cv_q = param ''q'' q,
     cv_status = (case find (\<lambda>f. status_word (so_value f) = param ''status'' q) STATUS_FILTERS of Some f \<Rightarrow> so_value f | None \<Rightarrow> F_all),
     cv_stack = param ''stack'' q,
     cv_sort = (case find (\<lambda>s. sort_word (fst s) = param ''sort'' q) SORTS of Some s \<Rightarrow> fst s | None \<Rightarrow> By_status)\<rparr>"

text \<open>A value that is the default of its name takes the name out of the address.\<close>

definition param_default :: "string \<Rightarrow> string" where
  "param_default k = (if k = ''status'' then ''all'' else if k = ''sort'' then ''status'' else if k = ''tab'' then ''containers'' else [])"

definition put_param :: "string \<times> string \<Rightarrow> address_query \<Rightarrow> address_query" where
  "put_param p q = (if snd p \<noteq> [] \<and> snd p \<noteq> param_default (fst p) then params_set (fst p) (snd p) q else filter (\<lambda>x. fst x \<noteq> fst p) q)"

definition put_params :: "(string \<times> string) list \<Rightarrow> address_query \<Rightarrow> address_query" where
  "put_params ps q = fold put_param ps q"

text \<open>The change a control of the filter bar hands over.\<close>

definition view_change :: "filters_event \<Rightarrow> container_view \<Rightarrow> (string \<times> string) list" where
  "view_change e v = (case e of
     Filter_status f \<Rightarrow> [(''status'', status_word (if cv_status v = f \<and> f \<noteq> F_all then F_all else f))]
   | Filter_stack s \<Rightarrow> [(''stack'', if s = ''__all__'' then [] else s)]
   | Filter_sort k \<Rightarrow> [(''sort'', sort_word k)]
   | Filter_clear \<Rightarrow> [(''status'', ''all''), (''stack'', []), (''q'', []), (''sort'', ''status'')]
   | Select_shown \<Rightarrow> [])"

section \<open>Containers of the page and their selection\<close>

text \<open>Only containers whose host is known, of the host picked.\<close>

definition page_containers :: "host list \<Rightarrow> string \<Rightarrow> container list \<Rightarrow> container list" where
  "page_containers hosts hostF cs = filter (\<lambda>c. hostById hosts (c_hostId c) \<noteq> None \<and> (hostF = [] \<or> c_hostId c = hostF)) cs"

definition sel_key :: "container \<Rightarrow> string" where
  "sel_key c = c_hostId c @ ''/'' @ c_id c"

text \<open>The effect after every answer: what is gone is no longer selected.\<close>

definition prune_selection :: "container list option \<Rightarrow> string list \<Rightarrow> string list" where
  "prune_selection cs sel = (case cs of None \<Rightarrow> sel | Some cs \<Rightarrow> filter (\<lambda>k. k \<in> sel_key ` set cs) sel)"

definition picked_containers :: "string list \<Rightarrow> container list \<Rightarrow> container list" where
  "picked_containers sel cs = filter (\<lambda>c. sel_key c \<in> set sel) cs"

datatype bulk_action = Bulk_start | Bulk_restart | Bulk_stop

fun bulk_word :: "bulk_action \<Rightarrow> string" where
  "bulk_word Bulk_start = ''start''" | "bulk_word Bulk_restart = ''restart''" | "bulk_word Bulk_stop = ''stop''"

fun bulk_label :: "bulk_action \<Rightarrow> string" where
  "bulk_label Bulk_start = ''Start''" | "bulk_label Bulk_restart = ''Restart''" | "bulk_label Bulk_stop = ''Stop''"

fun bulk_verb :: "bulk_action \<Rightarrow> string" where
  "bulk_verb Bulk_start = ''Started''" | "bulk_verb Bulk_restart = ''Restarted''" | "bulk_verb Bulk_stop = ''Stopped''"

definition stop_question :: "host list \<Rightarrow> container list \<Rightarrow> confirm_input" where
  "stop_question hosts picked = \<lparr>ci_title = ''Stop '' @ plural_s (int (length picked)) ''container'' @ ''?'',
     ci_text = ''They stay on their hosts and can be started again. Anything they serve is unavailable until then.'',
     ci_confirmLabel = ''Stop'', ci_danger = True,
     ci_details = map (\<lambda>c. (c_name c, case hostById hosts (c_hostId c) of Some h \<Rightarrow> h_name h | None \<Rightarrow> [])) (take 4 picked),
     ci_typeToConfirm = None\<rparr>"

fun host_add :: "string \<Rightarrow> string \<Rightarrow> (string \<times> string list) list \<Rightarrow> (string \<times> string list) list" where
  "host_add h i [] = [(h, [i])]"
| "host_add h i ((g, is) # m) = (if g = h then (g, is @ [i]) # m else (g, is) # host_add h i m)"

definition by_host :: "container list \<Rightarrow> (string \<times> string list) list" where
  "by_host cs = fold (\<lambda>c. host_add (c_hostId c) (c_id c)) cs []"

definition bulk_call :: "bulk_action \<Rightarrow> string \<times> string list \<Rightarrow> http_call" where
  "bulk_call a x = post (''/api/hosts/'' @ fst x @ ''/containers/bulk'')
     (Some (JObj [(''ids'', JArr (map JStr (snd x))), (''action'', JStr (bulk_word a))]))"

text \<open>The requests, sent together: a stop only after a yes.\<close>

definition bulk_asks :: "bulk_action \<Rightarrow> host list \<Rightarrow> container list \<Rightarrow> confirm_input option" where
  "bulk_asks a hosts picked = (if a = Bulk_stop then Some (stop_question hosts picked) else None)"

definition bulk_calls :: "bulk_action \<Rightarrow> container list \<Rightarrow> bool \<Rightarrow> http_call list" where
  "bulk_calls a picked yes = (if a = Bulk_stop \<and> \<not> yes then [] else map (bulk_call a) (by_host picked))"

record bulk_answer =
  ba_ok :: "string list"
  ba_failed :: "(string \<times> string) list option"

text \<open>Their answers, in the order they arrive.\<close>

type_synonym bulk_outcome = "string \<times> (js_error + bulk_answer)"

definition bulk_ok :: "bulk_outcome \<Rightarrow> nat" where
  "bulk_ok x = (case snd x of Inl e \<Rightarrow> 0 | Inr a \<Rightarrow> length (ba_ok a))"

definition bulk_errors :: "host list \<Rightarrow> bulk_outcome \<Rightarrow> string list" where
  "bulk_errors hosts x = (case snd x of
     Inl e \<Rightarrow> [(case hostById hosts (fst x) of Some h \<Rightarrow> h_name h | None \<Rightarrow> ''host'') @ '': '' @ errMsg e]
   | Inr a \<Rightarrow> (case ba_failed a of Some fs \<Rightarrow> map snd fs | None \<Rightarrow> []))"

definition bulk_notice :: "bulk_action \<Rightarrow> host list \<Rightarrow> container list \<Rightarrow> bulk_outcome list \<Rightarrow> toast_input" where
  "bulk_notice a hosts picked outs =
    (let okN = sum_list (map bulk_ok outs); errs = concat (map (bulk_errors hosts) outs) in
     if errs \<noteq> [] then notice Notice_warn (bulk_verb a @ '' '' @ show_nat okN @ '' of '' @ show_nat (length picked))
       (Some (join ('' '' @ middot @ '' '') (take 2 errs)))
     else notice Notice_ok (bulk_verb a @ '' '' @ plural_s (int okN) ''container'')
       (if length (by_host picked) > 1 then Some (''on '' @ show_nat (length (by_host picked)) @ '' hosts'') else None))"

definition bulk_refreshes :: "string list" where
  "bulk_refreshes = [''/api/containers'', ''/api/hosts'', ''/api/overview'']"

section \<open>Clean-up\<close>

definition answers :: "host \<Rightarrow> bool" where
  "answers h \<longleftrightarrow> h_status h \<noteq> HS_offline \<and> h_status h \<noteq> HS_pending"

definition cleanup_targets :: "host list \<Rightarrow> string \<Rightarrow> host list" where
  "cleanup_targets hosts hostF = filter (\<lambda>h. answers h \<and> (hostF = [] \<or> h_id h = hostF)) hosts"

definition cleanup_question :: "host list \<Rightarrow> confirm_input" where
  "cleanup_question ts = \<lparr>ci_title = (if length ts = 1 then ''Clean up '' @ h_name (hd ts) @ ''?''
       else ''Clean up '' @ plural_s (int (length ts)) ''host'' @ ''?''),
     ci_text = ''Removes stopped containers, unused images, unused networks and the build cache. Volumes are kept.'',
     ci_confirmLabel = ''Clean up'', ci_danger = True,
     ci_details = map (\<lambda>h. (h_name h, show_int (max 0 (h_total h - h_running h)) @ '' stopped'')) (take 5 ts), ci_typeToConfirm = None\<rparr>"

definition cleanup_call :: "host \<Rightarrow> http_call" where
  "cleanup_call h = post (''/api/hosts/'' @ h_id h @ ''/prune'')
     (Some (JObj [(''containers'', JBool True), (''images'', JBool True), (''networks'', JBool True), (''volumes'', JBool False), (''buildCache'', JBool True)]))"

definition cleanup_opts :: "host \<Rightarrow> track_opts" where
  "cleanup_opts h = \<lparr>tk_title = ''Cleaning up '' @ h_name h, tk_done = Some (h_name h @ '' cleaned up''),
     tk_invalidate = Some [''/api/fleet'', ''/api/hosts'', ''/api/containers'', ''/api/overview''], tk_quiet = False, tk_onDone = False\<rparr>"

definition cleanup :: "host list \<Rightarrow> string \<Rightarrow> ('r, 's) prog" where
  "cleanup hosts hostF = (let ts = cleanup_targets hosts hostF in
     if ts = [] then Stop
     else Query (cleanup_question ts) (\<lambda>ok. if \<not> ok then Stop else foldr (\<lambda>h. Track (cleanup_opts h) (cleanup_call h)) ts Stop))"

section \<open>The text filter\<close>

text \<open>
  What is typed stays local for 250 ms, then goes into the address. The pending timer holds the text and
  the address of the render that set it.
\<close>

record filter_input =
  fi_text :: string
  fi_value :: string
  fi_timer :: "(string \<times> address_query) option"

datatype filter_event = Filter_type string | Filter_value string | Filter_timer

definition filter_start :: "string \<Rightarrow> filter_input" where
  "filter_start s = \<lparr>fi_text = s, fi_value = s, fi_timer = None\<rparr>"

text \<open>\<open>q\<close> is the address of the page at the moment of the event; the output is the address it is replaced by.\<close>

fun filter_step :: "filter_event \<Rightarrow> address_query \<Rightarrow> filter_input \<Rightarrow> filter_input \<times> address_query option" where
  "filter_step (Filter_type s) q st =
    (if s = fi_text st then st else st\<lparr>fi_text := s, fi_timer := (if s = fi_value st then None else Some (s, q))\<rparr>, None)"
| "filter_step (Filter_value s) q st =
    (if s = fi_value st then st else if s = fi_text st then st\<lparr>fi_value := s\<rparr> else st\<lparr>fi_value := s, fi_text := s, fi_timer := None\<rparr>, None)"
| "filter_step Filter_timer q st = (case fi_timer st of
     Some (s, q') \<Rightarrow> (st\<lparr>fi_timer := None\<rparr>, Some (put_params [(''q'', s)] q')) | None \<Rightarrow> (st, None))"

section \<open>What holds\<close>

lemma map_of_put_param: "map_of (put_param p q) k =
    (if k = fst p then (if snd p \<noteq> [] \<and> snd p \<noteq> param_default k then Some (snd p) else None) else map_of q k)"
proof -
  have "map_of (filter (\<lambda>x. fst x \<noteq> j) q) k = (if k = j then None else map_of q k)" for j
    by (induction q) auto
  then show ?thesis by (auto simp: put_param_def map_of_params_set map_of_params_other)
qed

lemma param_put: "param k (put_param p q) = (if k = fst p then (if snd p = param_default k then [] else snd p) else param k q)"
  by (simp add: param_def map_of_put_param)

lemma view_of_put:
  "view_of (put_param (''status'', status_word f) q) = (view_of q)\<lparr>cv_status := f\<rparr>"
  "view_of (put_param (''sort'', sort_word k) q) = (view_of q)\<lparr>cv_sort := k\<rparr>"
  "view_of (put_param (''stack'', s) q) = (view_of q)\<lparr>cv_stack := s\<rparr>"
  "view_of (put_param (''q'', s) q) = (view_of q)\<lparr>cv_q := s\<rparr>"
proof -
  show "view_of (put_param (''status'', status_word f) q) = (view_of q)\<lparr>cv_status := f\<rparr>"
    by (cases f) (simp_all add: view_of_def param_put param_default_def STATUS_FILTERS_def)
  show "view_of (put_param (''sort'', sort_word k) q) = (view_of q)\<lparr>cv_sort := k\<rparr>"
    by (cases k) (simp_all add: view_of_def param_put param_default_def SORTS_def)
qed (simp_all add: view_of_def param_put param_default_def)

text \<open>C20: The filter bar through the address does what it does to a view: what is read back is the new view.\<close>

theorem filters_through_address: "view_of (put_params (view_change e (view_of q)) q) = apply_filter e (view_of q)"
proof (cases e)
  case Filter_clear
  have "put_params (view_change e (view_of q)) q =
      put_param (''sort'', sort_word By_status) (put_param (''q'', []) (put_param (''stack'', []) (put_param (''status'', status_word F_all) q)))"
    by (simp add: Filter_clear view_change_def put_params_def)
  then show ?thesis by (simp only: view_of_put) (simp add: Filter_clear apply_filter_def)
qed (simp_all add: view_change_def apply_filter_def put_params_def view_of_put)

lemma host_add_facts:
  "map_of (host_add h i m) g = (if g = h then Some ((case map_of m h of Some is \<Rightarrow> is | None \<Rightarrow> []) @ [i]) else map_of m g)"
  "fst ` set (host_add h i m) = insert h (fst ` set m)" "distinct (map fst m) \<Longrightarrow> distinct (map fst (host_add h i m))"
proof -
  show keys: "fst ` set (host_add h i m) = insert h (fst ` set m)" for m by (induction h i m rule: host_add.induct) auto
  show "map_of (host_add h i m) g = (if g = h then Some ((case map_of m h of Some is \<Rightarrow> is | None \<Rightarrow> []) @ [i]) else map_of m g)"
    by (induction h i m rule: host_add.induct) auto
  show "distinct (map fst m) \<Longrightarrow> distinct (map fst (host_add h i m))"
    using keys by (induction h i m rule: host_add.induct) auto
qed


text \<open>The summary does not depend on the order the hosts answer in.\<close>

theorem bulk_summary_any_order:
  assumes "mset outs = mset outs'"
  shows "ti_title (bulk_notice a hosts picked outs) = ti_title (bulk_notice a hosts picked outs') \<and>
    ti_kind (bulk_notice a hosts picked outs) = ti_kind (bulk_notice a hosts picked outs')"
proof -
  have "sum_list (map bulk_ok outs) = sum_list (map bulk_ok outs')"
    using assms by (metis mset_map sum_mset_sum_list)
  moreover have "concat (map (bulk_errors hosts) outs) = [] \<longleftrightarrow> concat (map (bulk_errors hosts) outs') = []"
    using mset_eq_setD [OF assms] by auto
  ultimately show ?thesis by (simp add: bulk_notice_def notice_def Let_def)
qed

lemma bulk_summary_any_order_witness:
  "let x = (''a'', Inr \<lparr>ba_ok = [''1''], ba_failed = None\<rparr>); y = (''b'', Inl (Type_error ''down'')) in
   ti_title (bulk_notice Bulk_stop [] [] [x, y]) = ti_title (bulk_notice Bulk_stop [] [] [y, x]) \<and>
   ti_kind (bulk_notice Bulk_stop [] [] [x, y]) = ti_kind (bulk_notice Bulk_stop [] [] [y, x])"
  using bulk_summary_any_order [of "[(''a'', Inr \<lparr>ba_ok = [''1''], ba_failed = None\<rparr>), (''b'', Inl (Type_error ''down''))]"
      "[(''b'', Inl (Type_error ''down'')), (''a'', Inr \<lparr>ba_ok = [''1''], ba_failed = None\<rparr>)]" Bulk_stop "[]" "[]"]
  by (simp add: Let_def add_mset_commute)

text \<open>The clean-up asks, and reaches only hosts that answer and that the page shows; it never asks for volumes.\<close>

lemma asks_before_tracks: "(\<And>x. x \<in> set xs \<Longrightarrow> \<not> P (g x)) \<Longrightarrow> asks_before P (foldr (\<lambda>x. Track (f x) (g x)) xs Stop)"
  by (induction xs) auto

lemma run_tracks: "run_prog (foldr (\<lambda>x. Track (f x) (g x)) xs Stop) rs = map (\<lambda>x. Started (f x) (g x)) xs"
  by (induction xs) auto

lemma cleanup_asks: "asks_before (\<lambda>_. True) (cleanup hosts hostF)"
  by (simp add: cleanup_def Let_def)

theorem cleanup_reaches:
  assumes "run_prog (cleanup hosts hostF) rs = ds @ Started o' c # ds'"
  shows "Said True \<in> set ds \<and> (\<exists>h. h \<in> set hosts \<and> answers h \<and> (hostF = [] \<or> h_id h = hostF) \<and> c = cleanup_call h)"
proof -
  have "Said True \<in> set ds" by (rule asks_before_run [OF cleanup_asks assms]) auto
  moreover have "Started o' c \<in> set (ds @ Started o' c # ds')" by simp
  from this [folded assms] have "\<exists>h. h \<in> set (cleanup_targets hosts hostF) \<and> c = cleanup_call h"
    by (auto simp: cleanup_def Let_def run_tracks split: if_splits list.splits reply.splits)
  ultimately show ?thesis by (auto simp: cleanup_targets_def)
qed

lemma cleanup_reaches_witness:
  "let h = panel_host ''a'' in Said True \<in> set [Asked (cleanup_question [h]), Said True] \<and>
     (\<exists>x. x \<in> set [h] \<and> answers x \<and> (''a'' = [] \<or> h_id x = ''a'') \<and> cleanup_call h = cleanup_call x)"
proof -
  let ?h = "panel_host ''a''"
  have "cleanup_targets [?h] ''a'' = [?h]" by (simp add: cleanup_targets_def answers_def panel_host_def)
  then have "run_prog (cleanup [?h] ''a'') [Choice True] = [Asked (cleanup_question [?h]), Said True] @ Started (cleanup_opts ?h) (cleanup_call ?h) # []"
    by (simp add: cleanup_def Let_def)
  from cleanup_reaches [OF this] show ?thesis by (simp add: Let_def)
qed

text \<open>What is typed reaches the address when it stays as it was; a change of the address meanwhile is undone.\<close>

lemma filter_reaches:
  "snd (filter_step Filter_timer q' (fst (filter_step (Filter_type s) q (filter_start v)))) =
   (if s = v then None else Some (put_params [(''q'', s)] q))"
  by (simp add: filter_start_def)

lemma filter_undoes_tab:
  "let q = [(''tab'', ''images'')]; q' = put_params [(''tab'', ''volumes'')] q;
     st = fst (filter_step (Filter_type ''a'') q (filter_start [])) in
   res_tab_of q' = Res_volumes \<and> map_option res_tab_of (snd (filter_step Filter_timer q' st)) = Some Res_images"
  by (simp add: filter_start_def put_params_def put_param_def param_default_def res_tab_of_def param_def res_tabs_def)

text \<open>Selected containers that are gone are forgotten; without the hosts the page shows none.\<close>

lemma prune_keeps: "set (prune_selection (Some cs) sel) = set sel \<inter> sel_key ` set cs"
  by (auto simp: prune_selection_def)

lemma none_without_hosts: "page_containers [] hostF cs = []"
  by (simp add: page_containers_def hostById_def)

end
