(* ===== verification/Resources_Lists.thy ===== *)
theory Resources_Lists
  imports Resources_Page
begin

text \<open>
  The lists of the resources page and the page around them (\<open>src/web/app/(app)/resources/page.tsx\<close>):
  which rows are listed, how many are drawn, what the chips count, and which hosts are missing.
  \<open>age\<close> is \<open>ago\<close> at the moment of the render.
\<close>

section \<open>Rows\<close>

type_synonym 't fleet_row = "'t fleet_list_items"

definition use_rows :: "'t fleet_list option \<Rightarrow> string \<Rightarrow> string \<Rightarrow> ('t \<Rightarrow> string) \<Rightarrow> 't fleet_row list" where
  "use_rows data hostF q txt = (let s = to_lower (trim q) in
     filter (\<lambda>r. (hostF = [] \<or> fleet_list_items_hostId r = hostF) \<and>
         (s = [] \<or> str_includes (to_lower (txt (fleet_list_items_item r) @ '' '' @ fleet_list_items_hostName r)) s))
       (case data of Some d \<Rightarrow> fl_items d | None \<Rightarrow> []))"

definition PAGE :: nat where "PAGE = 150"

definition more_rows :: "nat \<Rightarrow> nat" where
  "more_rows limit = limit + PAGE * 2"

datatype frame_event = Frame_more | Frame_row string | Frame_only string | Frame_cleanup

record res_frame =
  fr_loading :: bool
  fr_error :: "js_error option"
  fr_empty :: string
  fr_summary :: "string option"
  fr_chips :: "frame_event view list"
  fr_head :: "string list"
  fr_rows :: "frame_event view list"

definition frame_body :: "res_frame \<Rightarrow> nat \<Rightarrow> frame_event view" where
  "frame_body f limit = Group
    [shown_opt Text (fr_summary f), Group (fr_chips f),
     (if fr_loading f then Group []
      else if fr_rows f = [] then Text (fr_empty f)
      else Group ([Group (map Text (fr_head f))] @ take limit (fr_rows f) @
        [shown_if (length (fr_rows f) > limit)
           (Button (''Show more '' @ middot @ '' '' @ show_nat (length (fr_rows f) - limit) @ '' left'') True Frame_more)]))]"

definition frame_view :: "res_frame \<Rightarrow> nat \<Rightarrow> frame_event view" where
  "frame_view f limit = (case fr_error f of
     Some e \<Rightarrow> if fr_loading f then empty_state (''Couldn'' @ apostrophe @ ''t load'') (errMsg e) [] else frame_body f limit
   | None \<Rightarrow> frame_body f limit)"

definition chip :: "string \<Rightarrow> nat option \<Rightarrow> frame_event \<Rightarrow> frame_event view" where
  "chip label n e = Group [Button label True e, shown_opt (\<lambda>n. Text (show_nat n)) n]"

definition row_view :: "'t fleet_row \<Rightarrow> string \<Rightarrow> string list \<Rightarrow> frame_event view" where
  "row_view r label cells = Group ([Button label True (Frame_row (fleet_list_items_hostId r)), Text (fleet_list_items_hostName r)] @ map Text cells)"

section \<open>Stacks\<close>

fun source_text :: "stack_source \<Rightarrow> string" where
  "source_text StackSource_manual = ''manual''" | "source_text StackSource_git = ''git''" | "source_text StackSource_image = ''image''"
| "source_text StackSource_discovered = ''discovered''"

definition stack_text :: "stack \<Rightarrow> string" where
  "stack_text s = st_name s @ '' '' @ st_repo s @ '' '' @ join '' '' (map (\<lambda>x. ss_name x @ '' '' @ ss_image x) (st_services s))"

definition services_up :: "stack \<Rightarrow> nat" where
  "services_up s = length (filter (\<lambda>x. ss_state x = Some CS_running) (st_services s))"

definition stack_row :: "(string \<Rightarrow> string) \<Rightarrow> stack fleet_row \<Rightarrow> frame_event view" where
  "stack_row age r = (let s = fleet_list_items_item r in row_view r (st_name s)
     [if st_source s = StackSource_git then st_repo s @ ''@'' @ st_branch s else source_text (st_source s),
      show_nat (services_up s) @ ''/'' @ show_nat (length (st_services s)) @ '' running'',
      if filled (st_lastDeployAt s) then age (text_or [] (st_lastDeployAt s)) else emdash])"

definition stacks_frame :: "(string \<Rightarrow> string) \<Rightarrow> stack fleet_list option \<Rightarrow> js_error option \<Rightarrow> string \<Rightarrow> string \<Rightarrow> res_frame" where
  "stacks_frame age data err q hostF = (let rows = use_rows data hostF q stack_text in
    \<lparr>fr_loading = (data = None), fr_error = err, fr_empty = ''No stacks match.'',
     fr_summary = (if data \<noteq> None then Some (plural_s (int (length rows)) ''stack'') else None), fr_chips = [],
     fr_head = [''Stack'', ''Host'', ''Source'', ''Services'', ''Deployed''], fr_rows = map (stack_row age) rows\<rparr>)"

section \<open>Images\<close>

definition image_text :: "image_info \<Rightarrow> string" where
  "image_text i = img_repo i @ '':'' @ img_tag i @ '' '' @ img_shortId i"

definition unused_image :: "image_info fleet_row \<Rightarrow> bool" where
  "unused_image r \<longleftrightarrow> img_containers (fleet_list_items_item r) = 0"

definition dangling_image :: "image_info fleet_row \<Rightarrow> bool" where
  "dangling_image r \<longleftrightarrow> img_dangling (fleet_list_items_item r)"

definition image_rows :: "string \<Rightarrow> image_info fleet_row list \<Rightarrow> image_info fleet_row list" where
  "image_rows only every = (if only = ''unused'' then filter unused_image every
     else if only = ''dangling'' then filter dangling_image every else every)"

definition image_row :: "(string \<Rightarrow> string) \<Rightarrow> image_info fleet_row \<Rightarrow> frame_event view" where
  "image_row age r = (let i = fleet_list_items_item r in
     row_view r ((if img_dangling i then ''<none>'' else img_repo i) @ '':'' @ img_tag i)
       [img_shortId i, if img_containers i \<noteq> 0 then plural_s (img_containers i) ''container'' else ''unused'', age (img_createdAt i),
        bytes (Some (of_int (img_size i))) 1])"

definition images_frame :: "(string \<Rightarrow> string) \<Rightarrow> image_info fleet_list option \<Rightarrow> js_error option \<Rightarrow> string \<Rightarrow> string \<Rightarrow> string \<Rightarrow> res_frame" where
  "images_frame age data err q hostF only = (let every = use_rows data hostF q image_text; rows = image_rows only every; unused = filter unused_image every in
    \<lparr>fr_loading = (data = None), fr_error = err, fr_empty = ''No images match.'',
     fr_summary = (if data \<noteq> None then Some (plural_s (int (length rows)) ''image'' @ '' '' @ middot @ '' up to '' @
       bytes (Some (of_int (sum_list (map (\<lambda>r. img_size (fleet_list_items_item r)) rows)))) 1) else None),
     fr_chips = [shown_if (unused \<noteq> []) (Button (''Clean up'' @ ellipsis) True Frame_cleanup),
       chip ''All'' (Some (length every)) (Frame_only []), chip ''Unused'' (Some (length unused)) (Frame_only ''unused''),
       chip ''Dangling'' (Some (length (filter dangling_image every))) (Frame_only ''dangling'')],
     fr_head = [''Image'', ''Host'', ''Used by'', ''Created'', ''Size''], fr_rows = map (image_row age) rows\<rparr>)"

section \<open>Volumes\<close>

definition volume_text :: "volume \<Rightarrow> string" where
  "volume_text v = vol_name v @ '' '' @ vol_driver v @ '' '' @ join '' '' (vol_containers v)"

definition unused_volume :: "volume fleet_row \<Rightarrow> bool" where
  "unused_volume r \<longleftrightarrow> vol_containers (fleet_list_items_item r) = []"

definition volume_rows :: "string \<Rightarrow> volume fleet_row list \<Rightarrow> volume fleet_row list" where
  "volume_rows only every = (if only = ''unused'' then filter unused_volume every else every)"

text \<open>A negative size is one Docker does not tell.\<close>

definition known_size :: "volume fleet_row list \<Rightarrow> int" where
  "known_size rows = sum_list (map (\<lambda>r. vol_size (fleet_list_items_item r)) (filter (\<lambda>r. vol_size (fleet_list_items_item r) \<ge> 0) rows))"

definition volume_row :: "volume fleet_row \<Rightarrow> frame_event view" where
  "volume_row r = (let v = fleet_list_items_item r in row_view r (vol_name v)
     [if vol_containers v \<noteq> [] then join '', '' (vol_containers v) else ''unused'', vol_driver v,
      if vol_size v \<ge> 0 then bytes (Some (of_int (vol_size v))) 1 else emdash])"

definition volumes_frame :: "volume fleet_list option \<Rightarrow> js_error option \<Rightarrow> string \<Rightarrow> string \<Rightarrow> string \<Rightarrow> res_frame" where
  "volumes_frame data err q hostF only = (let every = use_rows data hostF q volume_text; rows = volume_rows only every in
    \<lparr>fr_loading = (data = None), fr_error = err, fr_empty = ''No volumes match.'',
     fr_summary = (if data \<noteq> None then Some (plural_s (int (length rows)) ''volume'' @
       (if known_size rows > 0 then '' '' @ middot @ '' '' @ bytes (Some (of_int (known_size rows))) 1 else [])) else None),
     fr_chips = [chip ''All'' (Some (length every)) (Frame_only []), chip ''Unused'' (Some (length (filter unused_volume every))) (Frame_only ''unused'')],
     fr_head = [''Volume'', ''Host'', ''Used by'', ''Driver'', ''Size''], fr_rows = map volume_row rows\<rparr>)"

section \<open>Networks\<close>

definition network_text :: "network \<Rightarrow> string" where
  "network_text n = net_name n @ '' '' @ net_driver n @ '' '' @ net_subnet n @ '' '' @ join '' '' (map (\<lambda>m. nm_name m @ '' '' @ nm_ip m) (net_members n))"

definition network_rows :: "string \<Rightarrow> network fleet_row list \<Rightarrow> network fleet_row list" where
  "network_rows only every = (if only = ''system'' then every else filter (\<lambda>r. \<not> net_system (fleet_list_items_item r)) every)"

definition members_up :: "network \<Rightarrow> nat" where
  "members_up n = length (filter (\<lambda>m. nm_state m = CS_running) (net_members n))"

definition network_row :: "network fleet_row \<Rightarrow> frame_event view" where
  "network_row r = (let n = fleet_list_items_item r in row_view r (net_name n)
     ((if net_internal n then [''internal''] else []) @ [net_driver n, nonempty_or emdash (net_subnet n),
      if net_members n \<noteq> [] then show_nat (members_up n) @ ''/'' @ show_nat (length (net_members n)) else ''none'']))"

definition networks_frame :: "network fleet_list option \<Rightarrow> js_error option \<Rightarrow> string \<Rightarrow> string \<Rightarrow> string \<Rightarrow> res_frame" where
  "networks_frame data err q hostF only = (let rows = network_rows only (use_rows data hostF q network_text) in
    \<lparr>fr_loading = (data = None), fr_error = err, fr_empty = ''No networks match.'',
     fr_summary = (if data \<noteq> None then Some (plural_s (int (length rows)) ''network'') else None),
     fr_chips = [chip ''Show bridge / host / none'' None (Frame_only (if only = ''system'' then [] else ''system''))],
     fr_head = [''Network'', ''Host'', ''Driver'', ''Subnet'', ''Containers''], fr_rows = map network_row rows\<rparr>)"

section \<open>Hosts that are missing\<close>

definition skipped_hosts :: "'t fleet_list option \<Rightarrow> host list \<Rightarrow> (string \<times> string) list" where
  "skipped_hosts data hosts = (case data of
     Some d \<Rightarrow> map (\<lambda>s. (fleet_list_skipped_hostId s, fleet_list_skipped_hostName s)) (fl_skipped d)
   | None \<Rightarrow> map (\<lambda>h. (h_id h, h_name h)) (filter (\<lambda>h. \<not> answers h) hosts))"

definition failed_hosts :: "'t fleet_list option \<Rightarrow> (string \<times> string) list" where
  "failed_hosts data = (case data of Some d \<Rightarrow> map (\<lambda>f. (fleet_list_errors_hostName f, fleet_list_errors_error f)) (fl_errors d) | None \<Rightarrow> [])"

definition host_problems :: "(string \<times> string) list \<Rightarrow> (string \<times> string) list \<Rightarrow> 'e view" where
  "host_problems failed skipped = Group
    [Group (map (\<lambda>(n, e). Group [Text n, Text (''didn'' @ apostrophe @ ''t answer: '' @ e)]) failed),
     shown_if (skipped \<noteq> []) (Text (''Not included (offline): '' @ join '', '' (map snd skipped)))]"

section \<open>The page\<close>

definition res_summary :: "host list option \<Rightarrow> container list option \<Rightarrow> string" where
  "res_summary hosts cs = (case (hosts, cs) of
     (Some hs, Some cs) \<Rightarrow> (let up = length (filter answers hs) in
       ''One list per kind across all '' @ plural_s (int (length hs)) ''host'' @
       (if up < length hs then '' ('' @ show_nat up @ '' reachable)'' else []) @ '' '' @ middot @ '' '' @ plural_s (int (length cs)) ''container'' @ '', '' @
       show_nat (length (filter (\<lambda>c. c_state c = CS_running) cs)) @ '' running'')
   | _ \<Rightarrow> ''One list per kind, across every host'')"

datatype res_event = Res_tab res_tab | Res_host string | Res_filter filters_event | Res_only string | Res_card container ctr_event
  | Res_drop "string drop_event + sort_key drop_event" | Res_bulk bulk_action | Res_unselect | Res_open string res_tab | Res_cleanup

text \<open>What an event makes of the address and of the selection.\<close>

fun res_address :: "res_event \<Rightarrow> address_query \<Rightarrow> address_query" where
  "res_address (Res_tab t) q = put_params [(''tab'', res_word t), (''only'', []), (''stack'', []), (''status'', []), (''sort'', [])] q"
| "res_address (Res_host h) q = put_params [(''host'', h)] q"
| "res_address (Res_filter e) q = put_params (view_change e (view_of q)) q"
| "res_address (Res_only v) q = put_params [(''only'', v)] q"
| "res_address _ q = q"

fun res_selection :: "(string \<Rightarrow> string \<Rightarrow> real) \<Rightarrow> host list \<Rightarrow> container list \<Rightarrow> address_query \<Rightarrow> res_event \<Rightarrow> string list \<Rightarrow> string list" where
  "res_selection compare hosts cs q (Res_tab t) sel = []"
| "res_selection compare hosts cs q Res_unselect sel = []"
| "res_selection compare hosts cs q (Res_filter Select_shown) sel =
    map sel_key (visibleContainers compare (page_containers hosts (param ''host'' q) cs) (view_of q))"
| "res_selection compare hosts cs q (Res_card c Ctr_select) sel = toggled_id (sel_key c) sel"
| "res_selection compare hosts cs q _ sel = sel"

definition container_grid :: "(string \<Rightarrow> string) \<Rightarrow> (string \<Rightarrow> string) \<Rightarrow> host list \<Rightarrow> container list \<Rightarrow> bool \<Rightarrow> string list \<Rightarrow>
    (container \<Rightarrow> bool) \<Rightarrow> (container \<Rightarrow> bool) \<Rightarrow> res_event view" where
  "container_grid age up hosts cs none selected busy unfurled =
    (if none then empty_state ''No containers'' ''Nothing is running on these hosts yet.'' []
     else if cs = [] then Text ''No containers match these filters.''
     else Group (map (\<lambda>c. let h = hostById hosts (c_hostId c) in map_view (Res_card c)
       (container_card age up c (case h of Some h \<Rightarrow> h_memTotal h | None \<Rightarrow> 0) (sel_key c \<in> set selected)
         (Some (case h of Some h \<Rightarrow> h_name h | None \<Rightarrow> ''?'')) (busy c) (unfurled c))) cs))"

definition bulk_bar :: "string list \<Rightarrow> res_event view" where
  "bulk_bar selected = Group ([Text (show_nat (length selected) @ '' selected'')] @
     map (\<lambda>a. Button (bulk_label a) True (Res_bulk a)) [Bulk_start, Bulk_restart, Bulk_stop] @ [Button ''Clear selection'' True Res_unselect])"

definition containers_part :: "(string \<Rightarrow> string) \<Rightarrow> (string \<Rightarrow> string) \<Rightarrow> (string \<Rightarrow> string \<Rightarrow> real) \<Rightarrow> (string list \<Rightarrow> string list) \<Rightarrow>
    address_query \<Rightarrow> host list \<Rightarrow> container list option \<Rightarrow> js_error option \<Rightarrow> string list \<Rightarrow> bool \<times> bool \<Rightarrow>
    (container \<Rightarrow> bool) \<Rightarrow> (container \<Rightarrow> bool) \<Rightarrow> res_event view" where
  "containers_part age up compare sort_texts q hosts cs err selected drops busy unfurled = (case cs of
     None \<Rightarrow> (case err of Some e \<Rightarrow> empty_state (''Couldn'' @ apostrophe @ ''t load containers'') (errMsg e) [] | None \<Rightarrow> Group [])
   | Some cs \<Rightarrow> (let here = page_containers hosts (param ''host'' q) cs; list = visibleContainers compare here (view_of q) in Group
       [shown_if (here \<noteq> []) (map_view (\<lambda>e. case e of Inl f \<Rightarrow> Res_filter f | Inr d \<Rightarrow> Res_drop d)
          (filter_bar sort_texts here (view_of q) (length list) (fst drops) (snd drops))),
        container_grid age up hosts list (here = []) selected busy unfurled]))"

text \<open>An event of a list is one of the page.\<close>

fun of_frame :: "res_tab \<Rightarrow> frame_event \<Rightarrow> res_event option" where
  "of_frame t Frame_more = None"
| "of_frame t (Frame_row h) = Some (Res_open h t)"
| "of_frame t (Frame_only v) = Some (Res_only v)"
| "of_frame t Frame_cleanup = Some Res_cleanup"

section \<open>What holds\<close>

text \<open>Every row listed is one the server sent, of the host picked, and without a filter all of them are.\<close>

lemma rows_subset: "set (use_rows data hostF q txt) \<subseteq> set (case data of Some d \<Rightarrow> fl_items d | None \<Rightarrow> [])"
  by (auto simp: use_rows_def Let_def)

lemma rows_all: "use_rows (Some d) [] [] txt = fl_items d"
  by (simp add: use_rows_def trim_def trim_left_def trim_right_def to_lower_def)

text \<open>The number on a chip is the number of rows a click lists.\<close>

theorem chips_count_rows:
  "(let every = use_rows data hostF q image_text; n = (\<lambda>only. length (fr_rows (images_frame age data err q hostF only))) in
     n [] = length every \<and> n ''unused'' = length (filter unused_image every) \<and> n ''dangling'' = length (filter dangling_image every)) \<and>
   (let every = use_rows vols hostF q volume_text; n = (\<lambda>only. length (fr_rows (volumes_frame vols err q hostF only))) in
     n [] = length every \<and> n ''unused'' = length (filter unused_volume every))"
  by (simp add: images_frame_def volumes_frame_def image_rows_def volume_rows_def Let_def)

text \<open>"Show more" ends: after enough presses every row is drawn and the button is gone.\<close>

lemma more_limit: "(more_rows ^^ k) PAGE = 150 + 300 * k"
  by (induction k) (simp_all add: more_rows_def PAGE_def)

theorem show_more_ends:
  "\<exists>k \<le> length (fr_rows f) div 300 + 1. let limit = (more_rows ^^ k) PAGE in
     take limit (fr_rows f) = fr_rows f \<and> \<not> length (fr_rows f) > limit"
proof (intro exI [of _ "length (fr_rows f) div 300 + 1"] conjI)
  show "let limit = (more_rows ^^ (length (fr_rows f) div 300 + 1)) PAGE in take limit (fr_rows f) = fr_rows f \<and> \<not> length (fr_rows f) > limit"
    unfolding more_limit Let_def by (simp add: not_less)
qed simp

text \<open>A tab starts with its own filters: nothing selected, the status, the order, the stack and the restriction gone; text and host stay.\<close>

theorem tab_starts_over:
  "res_selection compare hosts cs q (Res_tab t) sel = [] \<and>
   (let q' = res_address (Res_tab t) q in res_tab_of q' = t \<and> param ''only'' q' = [] \<and> param ''host'' q' = param ''host'' q \<and>
     view_of q' = \<lparr>cv_q = cv_q (view_of q), cv_status = F_all, cv_stack = [], cv_sort = By_status\<rparr>)"
proof -
  have "res_tab_of (res_address (Res_tab t) q) = t"
    by (cases t) (simp_all add: put_params_def res_tab_of_def param_put param_default_def res_tabs_def)
  moreover have "view_of (res_address (Res_tab t) q) = \<lparr>cv_q = cv_q (view_of q), cv_status = F_all, cv_stack = [], cv_sort = By_status\<rparr>"
    by (simp add: put_params_def view_of_def param_put param_default_def STATUS_FILTERS_def SORTS_def)
  ultimately show ?thesis by (simp add: put_params_def param_put param_default_def Let_def)
qed

text \<open>"Select shown" selects what is shown, and what is selected is what a bulk action picks.\<close>

theorem select_shown_picks:
  "sel_key ` set (picked_containers (res_selection compare hosts cs q (Res_filter Select_shown) sel) cs) =
     sel_key ` set (visibleContainers compare (page_containers hosts (param ''host'' q) cs) (view_of q))"
  by (auto simp: picked_containers_def visibleContainers_def sortBy_def page_containers_def)

text \<open>Containers are called absent while the hosts are not there yet.\<close>

lemma absent_without_hosts:
  "\<exists>rest. texts (containers_part age up compare sort_texts q [] (Some cs) err selected drops busy unfurled) = ''No containers'' # rest"
  by (simp add: containers_part_def none_without_hosts container_grid_def visibleContainers_def sortBy_def empty_state_def Let_def)

end
