(* ===== verification/Spec2Isabelle.thy ===== *)
theory Spec2Isabelle
  imports Api_Core Api_Ops Api_System Api_Machines Format Container_Filters Custom_Ssh Hosts_Lib
    Api_Client Sign_In Jobs Log_Stream Terminal_Window Terminal_Session Ui_Parts Dialog_Keys
    Deploy_Views Image_Page Git_Page Compose_Flow Deploy_Watch Fleet_Pulse
    Chart_Root
    Shell_Context
    Command_Palette
    Shortcuts
    App_Theme
    App_Shell
    App_Dock
    Page_Prog
    Alerts_Pages
    Settings_Common
    Uptime_Pages
    Monitor_Dialog
    Registries
    Page_Text
    Impact_View
    Machine_Panel
    Machines_Page
    Updates_Watch
    Updates_Tab
    Container_Card
    Container_Sidecar
    Resources_Page
    Resources_Lists
begin

text \<open>
  Dockhand is a web console for Docker hosts: a Next.js client (\<open>src/web\<close>) talks to a Go server over
  JSON requests and WebSockets. This development models the client's own logic: the data it
  exchanges, its library of pure functions, the state machines behind its pages, and what the pages
  offer to press. A page is a function of its state; its \<open>useState\<close> and \<open>useRef\<close> cells are the fields of
  a record or the states of a step function, its effects are the actions a step returns.

  \<^bold>\<open>Parts.\<close> Each theory models the files named here.

  \<^item> \<open>Dockhand_Prelude\<close>, \<open>Js_Text\<close>, \<open>Dates\<close>, \<open>Ui_Text\<close>, \<open>View\<close>: the JavaScript operations on strings, numbers,
    arrays and dates the sources use, the contract of a comparator (locale \<open>comparator\<close>), and what a
    component renders.
  \<^item> \<open>Api_Base\<close>, \<open>Api_Core\<close>, \<open>Api_Ops\<close>, \<open>Api_System\<close>, \<open>Api_Machines\<close>: \<open>lib/types.ts\<close>.
  \<^item> \<open>Format\<close>: \<open>lib/format.ts\<close>; \<open>Container_Filters\<close>: \<open>lib/containerFilters.ts\<close>; \<open>Custom_Ssh\<close> with
    \<open>Browser_Store\<close> (a typed \<open>localStorage\<close>): \<open>lib/customSsh.ts\<close>; \<open>Hosts_Lib\<close>: \<open>settings/hosts-lib.ts\<close>.
  \<^item> \<open>Api_Client\<close>: \<open>lib/api.ts\<close>, with the job poller \<open>useJob\<close>; \<open>Sign_In\<close>: \<open>login/page.tsx\<close>; \<open>Jobs\<close>:
    \<open>host/jobs.ts\<close>; \<open>Log_Stream\<close>: \<open>host/logStream.tsx\<close>; \<open>Terminal_Window\<close>: \<open>shell/TerminalWindow.tsx\<close>;
    \<open>Terminal_Session\<close>: \<open>host/XTerm.tsx\<close>.
  \<^item> \<open>Ui_Parts\<close>, \<open>Dialog_Keys\<close>: the controls and dialogs of \<open>components/ui.tsx\<close>.
  \<^item> \<open>Deploy_Shared\<close>, \<open>Deploy_Views\<close>, \<open>Image_Flow\<close>, \<open>Image_Page\<close>, \<open>Git_Flow\<close>, \<open>Git_Page\<close>, \<open>Compose_Editor\<close>,
    \<open>Compose_Flow\<close>, \<open>Deploy_Progress\<close>, \<open>Deploy_Watch\<close>: the deploy flows of \<open>components/deploy\<close>;
    \<open>Deploy_Watch\<close> composes the poller of \<open>Api_Client\<close> with the announcing effect of \<open>Deploy_Progress\<close>.
  \<^item> \<open>Fleet_Pulse\<close>: \<open>fleet/FleetPulse.tsx\<close>.
  \<^item> \<open>Chart_Data\<close>, \<open>Chart_Paths\<close>, \<open>Chart_Treemap\<close>, \<open>Chart_Plots\<close>, \<open>Chart_Shapes\<close>, \<open>Chart_Hover\<close>, \<open>Chart_Root\<close>:
    \<open>charts/graphite/Chart.tsx\<close>. The root of a chart relies on its body builders through the locale
    \<open>hit_plot\<close>, interpreted for all twelve chart types.
  \<^item> \<open>Shell_Context\<close>, \<open>Command_Palette\<close>, \<open>Shortcuts\<close>, \<open>App_Theme\<close>, \<open>App_Shell\<close>, \<open>App_Dock\<close>: the shell around the pages
    (\<open>shell/context.tsx\<close>, \<open>CommandPalette.tsx\<close>, \<open>Shortcuts.tsx\<close>, \<open>AppShell.tsx\<close>, \<open>lib/theme.ts\<close>): what a page asks
    of it (\<open>shell_action\<close>), and the toasts, questions, drawers and keys it keeps.
  \<^item> \<open>Page_Prog\<close>, \<open>Page_Text\<close>: an asynchronous handler as a program (\<open>prog\<close>) over the shell, the HTTP client and
    the tracked jobs; \<open>asks_before\<close> (no such request before a yes) and \<open>no_silent_error\<close> (a failure is told) are
    proved of the handlers of the pages below.
  \<^item> \<open>Alerts_Pages\<close>: \<open>alerts/page.tsx\<close>, \<open>alerts/actions.ts\<close>, \<open>NotificationsDrawer.tsx\<close>; \<open>Settings_Common\<close>:
    \<open>settings/common.tsx\<close>; \<open>Registries\<close>: \<open>settings/RegistriesTab.tsx\<close>; \<open>Updates_Watch\<close>, \<open>Updates_Tab\<close>:
    \<open>settings/UpdatesTab.tsx\<close>; \<open>Uptime_Pages\<close>: \<open>uptime/page.tsx\<close> and its parts; \<open>Monitor_Dialog\<close>: \<open>dialogs/MonitorDialog.tsx\<close>
    and \<open>common.tsx\<close>.
  \<^item> \<open>Impact_View\<close>: \<open>impact/Impact.tsx\<close>; \<open>Machine_Panel\<close>: \<open>machines/MachinePanel.tsx\<close>; \<open>Machines_Page\<close>: \<open>machines/page.tsx\<close>.
  \<^item> \<open>Container_Card\<close>: \<open>host/ContainersTab.tsx\<close>, \<open>ContainerFilters.tsx\<close>, \<open>bits.tsx\<close>; \<open>Container_Sidecar\<close>:
    \<open>sidecar/ContainerSidecar.tsx\<close>; \<open>Resources_Page\<close>, \<open>Resources_Lists\<close>: \<open>resources/page.tsx\<close>, which composes the filters,
    the filter bar and the cards through its address.

  \<^bold>\<open>What the lemmas show.\<close> Per component: the invariant of its state and that every step keeps it
  (terminal window and session, poller, log stream, shell, dialogs, deploy checks, update watch, highlights);
  the functional behaviour of every branch; round trips between what is written and what is parsed
  (SSH destinations and configuration, .env files, shell words, sign-in addresses, saved windows, filters in
  an address); orderings through the comparator contract; bounds (clamped windows, log buffers, chart
  geometry); which actions a page offers, and when. Across components: a deploy that ends is announced once
  with its true outcome (\<open>Deploy_Watch\<close>), the counts of a chip are the rows it filters, the keys the palette
  and the dock show do what their entries do (\<open>App_Dock\<close>), the filter bar through an address does what it
  does to a view (\<open>Resources_Page\<close>), the address after signing in is the one the redirect left.

  \<^bold>\<open>Idealisations.\<close> Numbers that are divided are real numbers: the rounding of IEEE doubles is not
    modelled, and numbers are finite. Texts are UTF-8 byte strings; where the source classifies
    characters or changes case the input is ASCII. What depends on the locale of the browser
    (\<open>localeCompare\<close>, written dates and times) is a parameter, as is the text of a number that is not
    computed by the code. Views carry no styling. No loop needs fuel: every function terminates.

  \<^bold>\<open>Not modelled.\<close> The Go server, the database schema and the design prototype are other programs; SWR,
  xterm.js and React are libraries: what the client relies on (a cache that is invalidated by key,
  effects that run in order) is in the steps. Of the client, the settings tabs for MCP, GitHub, channels,
  account and hosts, the tabs of a host other than its containers, the remaining dialogs, the home page, the
  first-run pages and the public status page are left out: they are forms and lists over the parts
  modelled here. Icons, colours and layout have no behaviour.
\<close>

end
